(* ===== verification/Prelude.thy ===== *)
theory Prelude
  imports Main "HOL-Library.Word" "HOL-Library.Monad_Syntax"
begin

text \<open>
  Shared vocabulary of the development: the machine-integer types of the Rust code, the
  outcome types (a panic is the value None of an option, an error return is the left side of
  a sum), checked arithmetic on i128, and generic lemmas on lists and folds that the
  component theories use.

  Unsigned integers are words of their width (so they wrap as the release build does and
  compare unsigned). Signed integers are HOL integers with their range written out: i128
  arithmetic goes through the function chk_i128, whose None is the overflow panic of a build
  with overflow checks (the profile of a plain cargo run); where it returns Some, the
  wrapping release build computes the same value.
\<close>

unbundle bit_operations_syntax

named_theorems outcome_simps
named_theorems range_simps

type_synonym u8 = "8 word"
type_synonym u32 = "32 word"
type_synonym u64 = "64 word"
type_synonym u128 = "128 word"
type_synonym i32 = int
type_synonym i64 = int
type_synonym i128 = int
type_synonym bytes = "u8 list"

subsection \<open>Outcomes\<close>

abbreviation Ok :: "'a \<Rightarrow> 'e + 'a" where
  "Ok \<equiv> Inr"

abbreviation Err :: "'e \<Rightarrow> 'e + 'a" where
  "Err \<equiv> Inl"

text \<open>The question-mark operator of Rust: return the error, or go on with the value.\<close>

definition res_bind :: "'e + 'a \<Rightarrow> ('a \<Rightarrow> 'e + 'b) \<Rightarrow> 'e + 'b" where
  "res_bind r f = (case r of Inl e \<Rightarrow> Inl e | Inr a \<Rightarrow> f a)"

definition map_err :: "('e \<Rightarrow> 'f) \<Rightarrow> 'e + 'a \<Rightarrow> 'f + 'a" where
  "map_err g r = (case r of Inl e \<Rightarrow> Inl (g e) | Inr a \<Rightarrow> Inr a)"

definition ok_or :: "'e \<Rightarrow> 'a option \<Rightarrow> 'e + 'a" where
  "ok_or e r = (case r of None \<Rightarrow> Inl e | Some a \<Rightarrow> Inr a)"

definition res_ok :: "'e + 'a \<Rightarrow> 'a option" where
  "res_ok r = (case r of Inl e \<Rightarrow> None | Inr a \<Rightarrow> Some a)"

definition opt_or :: "'a option \<Rightarrow> 'a option \<Rightarrow> 'a option" where
  "opt_or a b = (case a of None \<Rightarrow> b | Some x \<Rightarrow> Some x)"

definition unwrap_or :: "'a \<Rightarrow> 'a option \<Rightarrow> 'a" where
  "unwrap_or d r = (case r of None \<Rightarrow> d | Some x \<Rightarrow> x)"

definition filter_opt :: "('a \<Rightarrow> bool) \<Rightarrow> 'a option \<Rightarrow> 'a option" where
  "filter_opt p r = (case r of None \<Rightarrow> None | Some x \<Rightarrow> if p x then Some x else None)"

lemma res_bind_simps [simp, outcome_simps]:
  "res_bind (Inl e) f = Inl e"
  "res_bind (Inr a) f = f a"
  by (simp_all add: res_bind_def)

lemma res_bind_Inr_iff:
  "res_bind r f = Inr b \<longleftrightarrow> (\<exists>a. r = Inr a \<and> f a = Inr b)"
  by (cases r) auto

lemma res_bind_Inl_iff:
  "res_bind r f = Inl e \<longleftrightarrow> r = Inl e \<or> (\<exists>a. r = Inr a \<and> f a = Inl e)"
  by (cases r) auto

lemma map_err_simps [simp, outcome_simps]:
  "map_err g (Inl e) = Inl (g e)"
  "map_err g (Inr a) = Inr a"
  by (simp_all add: map_err_def)

lemma map_err_Inr_iff [simp]: "map_err g r = Inr a \<longleftrightarrow> r = Inr a"
  by (cases r) auto

lemma ok_or_simps [simp, outcome_simps]:
  "ok_or e None = Inl e"
  "ok_or e (Some a) = Inr a"
  by (simp_all add: ok_or_def)

lemma ok_or_Inr_iff [simp]: "ok_or e r = Inr a \<longleftrightarrow> r = Some a"
  by (cases r) auto

lemma ok_or_Inl_iff [simp]: "ok_or e r = Inl x \<longleftrightarrow> r = None \<and> x = e"
  by (cases r) auto

lemma res_ok_simps [simp, outcome_simps]:
  "res_ok (Inl e) = None"
  "res_ok (Inr a) = Some a"
  by (simp_all add: res_ok_def)

lemma opt_or_simps [simp, outcome_simps]:
  "opt_or None b = b"
  "opt_or (Some x) b = Some x"
  by (simp_all add: opt_or_def)

lemma unwrap_or_simps [simp, outcome_simps]:
  "unwrap_or d None = d"
  "unwrap_or d (Some x) = x"
  by (simp_all add: unwrap_or_def)

lemma filter_opt_simps [simp, outcome_simps]:
  "filter_opt p None = None"
  "filter_opt p (Some x) = (if p x then Some x else None)"
  by (simp_all add: filter_opt_def)

text \<open>Collecting an iterator of results: the first error, or all the values in order.\<close>

fun collect_res :: "('e + 'a) list \<Rightarrow> 'e + 'a list" where
  "collect_res [] = Inr []"
| "collect_res (r # rs) = res_bind r (\<lambda>a. res_bind (collect_res rs) (\<lambda>as. Inr (a # as)))"

lemma collect_res_Inr_iff:
  "collect_res rs = Inr as \<longleftrightarrow> rs = map Inr as"
proof (induction rs arbitrary: as)
  case Nil
  then show ?case by auto
next
  case (Cons r rs)
  then show ?case by (cases r; cases as) (auto simp: res_bind_Inr_iff)
qed

subsection \<open>i128 arithmetic\<close>

definition i128_min :: int where "i128_min = - (2 ^ 127)"
definition i128_max :: int where "i128_max = 2 ^ 127 - 1"
definition i64_min :: int where "i64_min = - (2 ^ 63)"
definition i64_max :: int where "i64_max = 2 ^ 63 - 1"
definition u128_max :: int where "u128_max = 2 ^ 128 - 1"

definition in_i128 :: "int \<Rightarrow> bool" where
  "in_i128 x \<longleftrightarrow> i128_min \<le> x \<and> x \<le> i128_max"

definition in_u128 :: "int \<Rightarrow> bool" where
  "in_u128 x \<longleftrightarrow> 0 \<le> x \<and> x \<le> u128_max"

definition chk_i128 :: "int \<Rightarrow> int option" where
  "chk_i128 x = (if in_i128 x then Some x else None)"

definition chk_u128 :: "int \<Rightarrow> int option" where
  "chk_u128 x = (if in_u128 x then Some x else None)"

text \<open>
  Rust divides towards zero; HOL divides towards minus infinity. The functions tdiv and
  tmod are Rust's operators on signed integers (the divisor is not zero where they are used;
  a zero divisor is written out as a panic by the callers).
\<close>

definition tdiv :: "int \<Rightarrow> int \<Rightarrow> int" where
  "tdiv a b = sgn a * sgn b * (\<bar>a\<bar> div \<bar>b\<bar>)"

definition tmod :: "int \<Rightarrow> int \<Rightarrow> int" where
  "tmod a b = sgn a * (\<bar>a\<bar> mod \<bar>b\<bar>)"

lemma chk_i128_Some_iff [simp]: "chk_i128 x = Some y \<longleftrightarrow> in_i128 x \<and> y = x"
  by (auto simp: chk_i128_def)

lemma chk_i128_None_iff [simp]: "chk_i128 x = None \<longleftrightarrow> \<not> in_i128 x"
  by (auto simp: chk_i128_def)

lemma chk_u128_Some_iff [simp]: "chk_u128 x = Some y \<longleftrightarrow> in_u128 x \<and> y = x"
  by (auto simp: chk_u128_def)

lemma chk_u128_None_iff [simp]: "chk_u128 x = None \<longleftrightarrow> \<not> in_u128 x"
  by (auto simp: chk_u128_def)

lemma in_i128_iff [range_simps]:
  "in_i128 x \<longleftrightarrow> - 170141183460469231731687303715884105728 \<le> x \<and>
     x \<le> 170141183460469231731687303715884105727"
  by (simp add: in_i128_def i128_min_def i128_max_def)

lemma in_u128_iff [range_simps]:
  "in_u128 x \<longleftrightarrow> 0 \<le> x \<and> x \<le> 340282366920938463463374607431768211455"
  by (simp add: in_u128_def u128_max_def)

lemma tdiv_nonneg: "0 \<le> a \<Longrightarrow> 0 < b \<Longrightarrow> tdiv a b = a div b"
  by (auto simp: tdiv_def sgn_if)

lemma tmod_nonneg: "0 \<le> a \<Longrightarrow> 0 < b \<Longrightarrow> tmod a b = a mod b"
  by (auto simp: tmod_def sgn_if)

lemma tdiv_tmod: "b \<noteq> 0 \<Longrightarrow> tdiv a b * b + tmod a b = a"
proof -
  assume "b \<noteq> 0"
  have "\<bar>a\<bar> div \<bar>b\<bar> * \<bar>b\<bar> + \<bar>a\<bar> mod \<bar>b\<bar> = \<bar>a\<bar>" by simp
  moreover have "tdiv a b * b + tmod a b = sgn a * (\<bar>a\<bar> div \<bar>b\<bar> * (sgn b * b) + \<bar>a\<bar> mod \<bar>b\<bar>)"
    by (simp add: tdiv_def tmod_def algebra_simps)
  moreover have "sgn b * b = \<bar>b\<bar>" by (simp add: abs_sgn)
  ultimately show ?thesis by (simp add: mult_sgn_abs)
qed

subsection \<open>Lists and folds\<close>

lemma map_upd_many_notin:
  "k \<notin> fst ` set ds \<Longrightarrow> foldl (\<lambda>m (k, v). m(k := v)) f ds k = f k"
  by (induction ds arbitrary: f) auto

lemma foldl_map_upd_last:
  "foldl (\<lambda>m (k, v). m(k := v)) f ds =
     (\<lambda>k. case map_of (rev ds) k of None \<Rightarrow> f k | Some v \<Rightarrow> v)"
  by (induction ds arbitrary: f)
    (auto simp: fun_eq_iff map_of_append map_add_def split: option.splits)

lemma alist_eqI:
  "map fst xs = map fst ys \<Longrightarrow> distinct (map fst xs) \<Longrightarrow> map_of xs = map_of ys \<Longrightarrow> xs = ys"
proof (induction xs arbitrary: ys)
  case Nil
  then show ?case by simp
next
  case (Cons x xs)
  obtain k v where x: "x = (k, v)" by (cases x)
  obtain v' ys' where ys: "ys = (k, v') # ys'" and keys: "map fst xs = map fst ys'"
    using Cons.prems(1) x by (cases ys) auto
  have v: "v = v'" using fun_cong [OF Cons.prems(3), of k] by (simp add: x ys)
  have no: "map_of xs k = None" "map_of ys' k = None"
    using Cons.prems(2) keys by (auto simp: x map_of_eq_None_iff simp flip: set_map)
  have "map_of xs = map_of ys'"
  proof
    fix q
    show "map_of xs q = map_of ys' q"
      using fun_cong [OF Cons.prems(3), of q] no by (cases "q = k") (auto simp: x ys)
  qed
  then have "xs = ys'" using Cons.prems(2) keys by (intro Cons.IH) (auto simp: x)
  then show ?case by (simp add: x ys v)
qed

lemma take_rev_drop: "take n (rev xs) = rev (drop (length xs - n) xs)"
  by (simp add: take_rev)

end
