(* ===== verification/Collections.thy ===== *)
theory Collections
  imports Prelude "HOL-Library.Char_ord" "HOL-Library.List_Lexorder" "HOL-Library.Multiset"
begin

text \<open>
  The two maps of Rust's standard library the gateways keep their state in, each over an
  association list with distinct keys: BTreeMap, whose iteration is in ascending key order
  (a strictly sorted list), and HashMap, whose iteration order is unspecified (the list's
  order stands for one such order). Both meet the interface kv_map; BTreeMap meets its
  extension ordered_kv_map as well, which fixes the order of the entries and so makes a map
  determined by its lookups. The clients' facts are proved once inside the locales and used
  through the two interpretations.
\<close>

subsection \<open>The interfaces\<close>

locale kv_map =
  fixes put :: "'k \<Rightarrow> 'v \<Rightarrow> 'm \<Rightarrow> 'm"
    and del :: "'k \<Rightarrow> 'm \<Rightarrow> 'm"
    and lookup :: "'m \<Rightarrow> 'k \<Rightarrow> 'v option"
    and entries :: "'m \<Rightarrow> ('k \<times> 'v) list"
    and wf :: "'m \<Rightarrow> bool"
  assumes lookup_put: "wf m \<Longrightarrow> lookup (put k v m) = (lookup m)(k := Some v)"
    and lookup_del: "wf m \<Longrightarrow> lookup (del k m) = (lookup m)(k := None)"
    and wf_put: "wf m \<Longrightarrow> wf (put k v m)"
    and wf_del: "wf m \<Longrightarrow> wf (del k m)"
    and distinct_entries: "wf m \<Longrightarrow> distinct (map fst (entries m))"
    and entries_lookup: "wf m \<Longrightarrow> map_of (entries m) = lookup m"
begin

lemma in_entries_iff: "wf m \<Longrightarrow> (k, v) \<in> set (entries m) \<longleftrightarrow> lookup m k = Some v"
  using distinct_entries [of m] entries_lookup [of m] by (metis map_of_eq_Some_iff)

lemma dom_lookup: "wf m \<Longrightarrow> dom (lookup m) = fst ` set (entries m)"
  using entries_lookup [of m] dom_map_of_conv_image_fst by metis

lemma finite_dom: "wf m \<Longrightarrow> finite (dom (lookup m))"
  by (simp add: dom_lookup)

lemma wf_foldl_put: "wf m \<Longrightarrow> wf (foldl (\<lambda>m x. put (f x) (g x) m) m xs)"
  by (induction xs arbitrary: m) (auto intro: wf_put)

lemma lookup_foldl_put:
  "wf m \<Longrightarrow> lookup (foldl (\<lambda>m x. put (f x) (g x) m) m xs) =
     foldl (\<lambda>l x. l(f x := Some (g x))) (lookup m) xs"
  by (induction xs arbitrary: m) (auto simp: lookup_put wf_put)

text \<open>A list of edits, each storing or deleting one key, is a fold of map updates.\<close>

lemma wf_edit: "wf m \<Longrightarrow> wf (case v of None \<Rightarrow> del k m | Some x \<Rightarrow> put k x m)"
  by (cases v) (auto intro: wf_put wf_del)

lemma lookup_edit:
  "wf m \<Longrightarrow> lookup (case v of None \<Rightarrow> del k m | Some x \<Rightarrow> put k x m) = (lookup m)(k := v)"
  by (cases v) (auto simp: lookup_put lookup_del)

lemma wf_edits:
  "wf m \<Longrightarrow> wf (foldl (\<lambda>m (k, v). case v of None \<Rightarrow> del k m | Some x \<Rightarrow> put k x m) m es)"
  by (induction es arbitrary: m) (auto intro: wf_edit)

lemma lookup_edits:
  "wf m \<Longrightarrow> lookup (foldl (\<lambda>m (k, v). case v of None \<Rightarrow> del k m | Some x \<Rightarrow> put k x m) m es) =
     foldl (\<lambda>l (k, v). l(k := v)) (lookup m) es"
  by (induction es arbitrary: m) (auto simp: lookup_edit wf_edit)

end

locale ordered_kv_map = kv_map put del lookup entries wf
  for put :: "'k::linorder \<Rightarrow> 'v \<Rightarrow> 'm \<Rightarrow> 'm"
    and del :: "'k \<Rightarrow> 'm \<Rightarrow> 'm"
    and lookup :: "'m \<Rightarrow> 'k \<Rightarrow> 'v option"
    and entries :: "'m \<Rightarrow> ('k \<times> 'v) list"
    and wf :: "'m \<Rightarrow> bool" +
  assumes sorted_entries: "wf m \<Longrightarrow> sorted_wrt (<) (map fst (entries m))"
    and entries_inj: "wf m \<Longrightarrow> wf m' \<Longrightarrow> entries m = entries m' \<Longrightarrow> m = m'"
begin

lemma sorted_keys: "wf m \<Longrightarrow> sorted (map fst (entries m))"
  using sorted_entries [of m] by (simp add: strict_sorted_iff)

lemma keys_eq: "wf m \<Longrightarrow> map fst (entries m) = sorted_list_of_set (dom (lookup m))"
  using sorted_entries [of m] dom_lookup [of m]
  by (metis finite_dom list.set_map sorted_list_of_set.idem_if_sorted_distinct
      strict_sorted_iff)

text \<open>Extensionality: an ordered map is determined by what its lookups return.\<close>

lemma lookup_ext:
  assumes m: "wf m" and m': "wf m'" and eq: "lookup m = lookup m'"
  shows "m = m'"
proof (rule entries_inj [OF m m'])
  have keys: "map fst (entries m) = map fst (entries m')"
    by (simp add: keys_eq m m' eq)
  have "map_of (entries m) = map_of (entries m')"
    by (simp add: entries_lookup m m' eq)
  with keys distinct_entries [OF m] show "entries m = entries m'"
    by (intro alist_eqI)
qed

end

subsection \<open>BTreeMap\<close>

type_synonym ('k, 'v) btree = "('k \<times> 'v) list"

fun bt_insert :: "'k::linorder \<Rightarrow> 'v \<Rightarrow> ('k, 'v) btree \<Rightarrow> ('k, 'v) btree" where
  "bt_insert k v [] = [(k, v)]"
| "bt_insert k v ((k', v') # m) =
     (if k < k' then (k, v) # (k', v') # m
      else if k = k' then (k, v) # m
      else (k', v') # bt_insert k v m)"

fun bt_remove :: "'k::linorder \<Rightarrow> ('k, 'v) btree \<Rightarrow> ('k, 'v) btree" where
  "bt_remove k [] = []"
| "bt_remove k ((k', v') # m) = (if k = k' then m else (k', v') # bt_remove k m)"

definition bt_get :: "('k, 'v) btree \<Rightarrow> 'k \<Rightarrow> 'v option" where
  "bt_get m = map_of m"

definition bt_wf :: "('k::linorder, 'v) btree \<Rightarrow> bool" where
  "bt_wf m \<longleftrightarrow> sorted_wrt (<) (map fst m)"

lemma bt_wf_Nil [simp]: "bt_wf []"
  by (simp add: bt_wf_def)

lemma bt_wf_Cons:
  "bt_wf ((k, v) # m) \<longleftrightarrow> bt_wf m \<and> (\<forall>k'\<in>fst ` set m. k < k')"
  by (auto simp: bt_wf_def)

lemma bt_wf_distinct: "bt_wf m \<Longrightarrow> distinct (map fst m)"
  by (simp add: bt_wf_def strict_sorted_iff)

lemma bt_wf_sorted: "bt_wf m \<Longrightarrow> sorted_wrt (<) (map fst m)"
  by (simp add: bt_wf_def)

lemma keys_bt_insert: "fst ` set (bt_insert k v m) = insert k (fst ` set m)"
  by (induction k v m rule: bt_insert.induct) auto

lemma keys_bt_remove: "fst ` set (bt_remove k m) \<subseteq> fst ` set m"
  by (induction k m rule: bt_remove.induct) auto

lemma bt_wf_insert: "bt_wf m \<Longrightarrow> bt_wf (bt_insert k v m)"
proof (induction k v m rule: bt_insert.induct)
  case (1 k v)
  then show ?case by (simp add: bt_wf_Cons)
next
  case (2 k v k' v' m)
  then show ?case by (auto simp: bt_wf_Cons keys_bt_insert)
qed

lemma bt_wf_remove: "bt_wf m \<Longrightarrow> bt_wf (bt_remove k m)"
proof (induction k m rule: bt_remove.induct)
  case (1 k)
  then show ?case by simp
next
  case (2 k k' v' m)
  have "\<forall>x\<in>fst ` set (bt_remove k m). k' < x"
    using keys_bt_remove [of k m] "2.prems" unfolding bt_wf_Cons by blast
  with 2 show ?case by (simp add: bt_wf_Cons)
qed

lemma bt_get_insert: "bt_get (bt_insert k v m) = (bt_get m)(k := Some v)"
  unfolding bt_get_def by (induction k v m rule: bt_insert.induct) (auto simp: fun_eq_iff)

lemma bt_get_notin: "k \<notin> fst ` set m \<Longrightarrow> bt_get m k = None"
  by (simp add: bt_get_def map_of_eq_None_iff)

lemma bt_get_remove: "bt_wf m \<Longrightarrow> bt_get (bt_remove k m) = (bt_get m)(k := None)"
proof (induction k m rule: bt_remove.induct)
  case (1 k)
  then show ?case by (simp add: bt_get_def fun_eq_iff)
next
  case (2 k k' v' m)
  have "k = k' \<Longrightarrow> bt_get m k = None"
    using "2.prems" by (intro bt_get_notin) (auto simp: bt_wf_Cons)
  with 2 show ?case by (auto simp: bt_wf_Cons bt_get_def fun_eq_iff)
qed

interpretation bt: ordered_kv_map bt_insert bt_remove bt_get "\<lambda>m. m" bt_wf
  by unfold_locales
    (simp_all add: bt_get_insert bt_get_remove bt_wf_insert bt_wf_remove bt_wf_distinct
      bt_wf_sorted bt_get_def [symmetric])

text \<open>Insertion at and near the ends, and cutting entries from the front.\<close>

lemma bt_wf_drop: "bt_wf m \<Longrightarrow> bt_wf (drop n m)"
  by (simp add: bt_wf_def drop_map [symmetric] sorted_wrt_drop)

lemma bt_insert_before: "k < k' \<Longrightarrow> bt_insert k v (m @ [(k', v')]) = bt_insert k v m @ [(k', v')]"
  by (induction k v m rule: bt_insert.induct) auto

lemma bt_insert_last: "\<forall>k'\<in>fst ` set m. k' < k \<Longrightarrow> bt_insert k v m = m @ [(k, v)]"
  by (induction k v m rule: bt_insert.induct) auto

lemma bt_insert_replace_last:
  "\<forall>k'\<in>fst ` set m. k' < k \<Longrightarrow> bt_insert k v (m @ [(k, v')]) = m @ [(k, v)]"
  by (induction k v m rule: bt_insert.induct) auto

lemma bt_wf_snoc: "bt_wf (m @ [(k, v)]) \<longleftrightarrow> bt_wf m \<and> (\<forall>k'\<in>fst ` set m. k' < k)"
  by (auto simp: bt_wf_def sorted_wrt_append)

lemma bt_get_snoc:
  "bt_wf (m @ [(k, v)]) \<Longrightarrow> bt_get (m @ [(k, v)]) q = (if q = k then Some v else bt_get m q)"
proof -
  assume wf: "bt_wf (m @ [(k, v)])"
  then have "bt_get m k = None" by (intro bt_get_notin) (auto simp: bt_wf_snoc)
  then show ?thesis
    by (auto simp: bt_get_def map_of_append map_add_def split: option.split)
qed

lemma bt_get_above: "\<forall>k'\<in>fst ` set m. k' < (k :: 'k :: linorder) \<Longrightarrow> bt_get m k = None"
  by (intro bt_get_notin notI) (drule (1) bspec, simp)

lemma length_bt_insert: "length (bt_insert k v m) = (if k \<in> fst ` set m then length m else Suc (length m))"
  if "bt_wf m"
  using that by (induction k v m rule: bt_insert.induct) (auto simp: bt_wf_Cons)

lemma bt_hd_drop:
  assumes "bt_wf m" "drop n m \<noteq> []"
  shows "fst (hd m) \<le> fst (hd (drop n m))"
proof -
  have n: "n < length m" using assms(2) by simp
  then have "map fst m ! 0 \<le> map fst m ! n"
    using assms(1) by (intro sorted_nth_mono) (auto simp: bt_wf_def strict_sorted_iff)
  then have "fst (m ! 0) \<le> fst (m ! n)" using n by (metis nth_map less_trans gr_zeroI)
  then show ?thesis using n by (cases m) (simp_all add: hd_drop_conv_nth)
qed

lemma bt_get_Nil [simp]: "bt_get [] k = None"
  by (simp add: bt_get_def)

lemma bt_insert_not_Nil [simp]: "bt_insert k v m \<noteq> []"
  by (induction k v m rule: bt_insert.induct) auto

lemma bt_get_drop:
  assumes "bt_wf m" "drop n m \<noteq> []" "fst (hd (drop n m)) \<le> k"
  shows "bt_get (drop n m) k = bt_get m k"
proof -
  have wf: "bt_wf (take n m @ drop n m)" using assms(1) by simp
  have "fst (hd (drop n m)) \<in> fst ` set (drop n m)" using assms(2) by simp
  then have "\<forall>x\<in>fst ` set (take n m). x < fst (hd (drop n m))"
    using wf by (auto simp: bt_wf_def sorted_wrt_append simp del: append_take_drop_id) (metis fst_conv)
  then have "bt_get (take n m) k = None"
    using assms(3) by (intro bt_get_notin) fastforce
  then have "bt_get (take n m @ drop n m) k = bt_get (drop n m) k"
    by (simp add: bt_get_def map_of_append map_add_def del: append_take_drop_id split: option.split)
  then show ?thesis by simp
qed

subsection \<open>HashMap\<close>

type_synonym ('k, 'v) hashmap = "('k \<times> 'v) list"

fun hm_insert :: "'k \<Rightarrow> 'v \<Rightarrow> ('k, 'v) hashmap \<Rightarrow> ('k, 'v) hashmap" where
  "hm_insert k v [] = [(k, v)]"
| "hm_insert k v ((k', v') # m) =
     (if k = k' then (k, v) # m else (k', v') # hm_insert k v m)"

definition hm_remove :: "'k \<Rightarrow> ('k, 'v) hashmap \<Rightarrow> ('k, 'v) hashmap" where
  "hm_remove k m = filter (\<lambda>(k', _). k' \<noteq> k) m"

definition hm_get :: "('k, 'v) hashmap \<Rightarrow> 'k \<Rightarrow> 'v option" where
  "hm_get m = map_of m"

definition hm_contains :: "('k, 'v) hashmap \<Rightarrow> 'k \<Rightarrow> bool" where
  "hm_contains m k \<longleftrightarrow> hm_get m k \<noteq> None"

text \<open>The entry API: entry(k).or_insert(v) keeps a value that is already there.\<close>

definition hm_or_insert :: "'k \<Rightarrow> 'v \<Rightarrow> ('k, 'v) hashmap \<Rightarrow> ('k, 'v) hashmap" where
  "hm_or_insert k v m = (if hm_contains m k then m else hm_insert k v m)"

definition hm_wf :: "('k, 'v) hashmap \<Rightarrow> bool" where
  "hm_wf m \<longleftrightarrow> distinct (map fst m)"

lemma hm_wf_Nil [simp]: "hm_wf []"
  by (simp add: hm_wf_def)

lemma hm_wf_distinct: "hm_wf m \<Longrightarrow> distinct (map fst m)"
  by (simp add: hm_wf_def)

lemma keys_hm_insert: "fst ` set (hm_insert k v m) = insert k (fst ` set m)"
  by (induction k v m rule: hm_insert.induct) auto

lemma set_hm_insert: "set (hm_insert k v m) \<subseteq> insert (k, v) (set m)"
  by (induction k v m rule: hm_insert.induct) auto

lemma hm_wf_insert: "hm_wf m \<Longrightarrow> hm_wf (hm_insert k v m)"
proof (induction k v m rule: hm_insert.induct)
  case (1 k v)
  then show ?case by (simp add: hm_wf_def)
next
  case (2 k v k' v' m)
  then show ?case using keys_hm_insert [of k v m] by (auto simp: hm_wf_def)
qed

lemma hm_wf_remove: "hm_wf m \<Longrightarrow> hm_wf (hm_remove k m)"
  unfolding hm_wf_def hm_remove_def by (induction m) auto

lemma hm_get_insert: "hm_get (hm_insert k v m) = (hm_get m)(k := Some v)"
  unfolding hm_get_def by (induction k v m rule: hm_insert.induct) (auto simp: fun_eq_iff)

lemma hm_get_remove: "hm_get (hm_remove k m) = (hm_get m)(k := None)"
  unfolding hm_get_def hm_remove_def by (induction m) (auto simp: fun_eq_iff)

interpretation hm: kv_map hm_insert hm_remove hm_get "\<lambda>m. m" hm_wf
  by unfold_locales
    (simp_all add: hm_get_insert hm_get_remove hm_wf_insert hm_wf_remove hm_wf_distinct
      hm_get_def [symmetric])

lemma hm_wf_or_insert: "hm_wf m \<Longrightarrow> hm_wf (hm_or_insert k v m)"
  by (simp add: hm_or_insert_def hm_wf_insert)

lemma hm_get_or_insert:
  "hm_get (hm_or_insert k v m) =
     (if hm_get m k = None then (hm_get m)(k := Some v) else hm_get m)"
  by (auto simp: hm_or_insert_def hm_contains_def hm_get_insert)

end
