(* ===== verification/RustStr.thy ===== *)
theory RustStr
  imports Prelude
begin

text \<open>
  The functions of Rust's str and String that the gateways use, over byte strings (a Rust
  String is its UTF-8 bytes, a HOL string the same list of bytes). On ASCII text, which is
  what symbols, numbers and settings are, the functions compute what the standard library
  does; the case conversions and the white space outside ASCII, which need the Unicode
  tables, are left alone by the model. Also the decimal parsers (from_str of the integer
  types) and printers (to_string), with the round trip between them.
\<close>

subsection \<open>Trimming and case\<close>

definition is_whitespace :: "char \<Rightarrow> bool" where
  "is_whitespace c \<longleftrightarrow> (let n = (of_char c :: nat) in n = 32 \<or> (9 \<le> n \<and> n \<le> 13))"

definition trim_start :: "string \<Rightarrow> string" where
  "trim_start s = dropWhile is_whitespace s"

definition trim_end :: "string \<Rightarrow> string" where
  "trim_end s = rev (dropWhile is_whitespace (rev s))"

definition trim :: "string \<Rightarrow> string" where
  "trim s = trim_end (trim_start s)"

definition upper_char :: "char \<Rightarrow> char" where
  "upper_char c = (let n = (of_char c :: nat) in
     if 97 \<le> n \<and> n \<le> 122 then char_of (n - 32) else c)"

definition lower_char :: "char \<Rightarrow> char" where
  "lower_char c = (let n = (of_char c :: nat) in
     if 65 \<le> n \<and> n \<le> 90 then char_of (n + 32) else c)"

definition to_uppercase :: "string \<Rightarrow> string" where
  "to_uppercase s = map upper_char s"

definition to_lowercase :: "string \<Rightarrow> string" where
  "to_lowercase s = map lower_char s"

lemma of_char_upper:
  "(of_char (upper_char c) :: nat) =
     (let n = (of_char c :: nat) in if 97 \<le> n \<and> n \<le> 122 then n - 32 else n)"
  by (auto simp: upper_char_def Let_def)

lemma of_char_lower:
  "(of_char (lower_char c) :: nat) =
     (let n = (of_char c :: nat) in if 65 \<le> n \<and> n \<le> 90 then n + 32 else n)"
  by (auto simp: lower_char_def Let_def)

lemma is_whitespace_upper [simp]: "is_whitespace (upper_char c) = is_whitespace c"
  by (auto simp: is_whitespace_def of_char_upper Let_def)

lemma upper_char_idem [simp]: "upper_char (upper_char c) = upper_char c"
proof (cases "97 \<le> (of_char c :: nat) \<and> (of_char c :: nat) \<le> 122")
  case True
  then show ?thesis unfolding upper_char_def [of "upper_char c"] of_char_upper by (auto simp: Let_def)
next
  case False
  then have "upper_char c = c" unfolding upper_char_def Let_def by (rule if_not_P)
  then show ?thesis by simp
qed

lemma to_uppercase_idem [simp]: "to_uppercase (to_uppercase s) = to_uppercase s"
  by (simp add: to_uppercase_def o_def)

lemma to_uppercase_Nil_iff [simp]: "to_uppercase s = [] \<longleftrightarrow> s = []"
  by (simp add: to_uppercase_def)

lemma length_to_uppercase [simp]: "length (to_uppercase s) = length s"
  by (simp add: to_uppercase_def)

lemma dropWhile_ws_map_upper:
  "dropWhile is_whitespace (map upper_char s) = map upper_char (dropWhile is_whitespace s)"
  by (induction s) auto

lemma trim_to_uppercase: "trim (to_uppercase s) = to_uppercase (trim s)"
  by (simp add: trim_def trim_start_def trim_end_def to_uppercase_def
      dropWhile_ws_map_upper rev_map)

lemma dropWhile_hd_False: "s = [] \<or> \<not> p (hd s) \<Longrightarrow> dropWhile p s = s"
  by (cases s) auto

lemma trim_end_starts:
  "s = [] \<or> \<not> is_whitespace (hd s) \<Longrightarrow> trim_end s = [] \<or> \<not> is_whitespace (hd (trim_end s))"
proof (induction s rule: rev_induct)
  case Nil
  then show ?case by (simp add: trim_end_def)
next
  case (snoc x xs)
  show ?case
  proof (cases "is_whitespace x")
    case False
    with snoc.prems show ?thesis by (simp add: trim_end_def)
  next
    case True
    with snoc.prems have "xs = [] \<or> \<not> is_whitespace (hd xs)" by (cases xs) auto
    from snoc.IH [OF this] True show ?thesis by (simp add: trim_end_def)
  qed
qed

lemma trim_end_idem [simp]: "trim_end (trim_end s) = trim_end s"
  by (simp add: trim_end_def)

lemma trim_starts: "trim s = [] \<or> \<not> is_whitespace (hd (trim s))"
  unfolding trim_def
  by (rule trim_end_starts) (metis hd_dropWhile trim_start_def)

lemma trim_idem [simp]: "trim (trim s) = trim s"
proof -
  have "trim_start (trim s) = trim s"
    unfolding trim_start_def using trim_starts by (intro dropWhile_hd_False) auto
  then have "trim (trim s) = trim_end (trim s)" by (simp add: trim_def)
  then show ?thesis by (simp add: trim_def)
qed

subsection \<open>Searching and splitting\<close>

fun split_once :: "char \<Rightarrow> string \<Rightarrow> (string \<times> string) option" where
  "split_once d [] = None"
| "split_once d (c # cs) =
     (if c = d then Some ([], cs)
      else case split_once d cs of None \<Rightarrow> None | Some (l, r) \<Rightarrow> Some (c # l, r))"

fun split_on :: "char \<Rightarrow> string \<Rightarrow> string list" where
  "split_on d [] = [[]]"
| "split_on d (c # cs) =
     (if c = d then [] # split_on d cs
      else case split_on d cs of [] \<Rightarrow> [[c]] | w # ws \<Rightarrow> (c # w) # ws)"

definition starts_with :: "string \<Rightarrow> string \<Rightarrow> bool" where
  "starts_with s pat \<longleftrightarrow> take (length pat) s = pat"

definition ends_with :: "string \<Rightarrow> string \<Rightarrow> bool" where
  "ends_with s pat \<longleftrightarrow> drop (length s - length pat) s = pat"

fun str_contains :: "string \<Rightarrow> string \<Rightarrow> bool" where
  "str_contains [] pat \<longleftrightarrow> pat = []"
| "str_contains (c # cs) pat \<longleftrightarrow> starts_with (c # cs) pat \<or> str_contains cs pat"

text \<open>Replacing every (leftmost, non-overlapping) occurrence of a non-empty pattern.\<close>

function str_replace :: "string \<Rightarrow> string \<Rightarrow> string \<Rightarrow> string" where
  "str_replace pat to s =
     (if s = [] \<or> pat = [] then s
      else if starts_with s pat then to @ str_replace pat to (drop (length pat) s)
      else hd s # str_replace pat to (tl s))"
  by pat_completeness auto
termination
  by (relation "measure (\<lambda>(pat, to, s). length s)") (auto simp: starts_with_def)

declare str_replace.simps [simp del]

definition trim_end_matches :: "char \<Rightarrow> string \<Rightarrow> string" where
  "trim_end_matches d s = rev (dropWhile (\<lambda>c. c = d) (rev s))"

lemma split_once_Some_iff:
  "split_once d s = Some (l, r) \<longleftrightarrow> s = l @ d # r \<and> d \<notin> set l"
proof (induction s arbitrary: l)
  case Nil
  then show ?case by simp
next
  case (Cons c cs)
  show ?case
  proof (cases l)
    case Nil
    then show ?thesis by (auto split: option.splits)
  next
    case (Cons x xs)
    have "split_once d (c # cs) = Some (x # xs, r) \<longleftrightarrow> c \<noteq> d \<and> x = c \<and> split_once d cs = Some (xs, r)"
      by (auto split: option.splits)
    then show ?thesis using Cons.IH [of xs] Cons by auto
  qed
qed

lemma split_once_None_iff: "split_once d s = None \<longleftrightarrow> d \<notin> set s"
  by (induction s) (auto split: option.splits)

lemma split_on_not_Nil [simp]: "split_on d s \<noteq> []"
  by (cases s) (auto split: list.splits)

lemma split_on_no_sep: "d \<notin> set s \<Longrightarrow> split_on d s = [s]"
  by (induction s) auto

lemma split_on_append:
  "d \<notin> set l \<Longrightarrow> split_on d (l @ d # r) = l # split_on d r"
  by (induction l) auto

lemma str_contains_append: "str_contains (a @ pat @ b) pat"
proof (induction a)
  case Nil
  show ?case by (cases "pat @ b") (auto simp: starts_with_def simp del: append_eq_Cons_conv,
      metis append_eq_conv_conj)
next
  case (Cons c cs)
  then show ?case by simp
qed

subsection \<open>Decimal numbers\<close>

definition digit_val :: "char \<Rightarrow> nat option" where
  "digit_val c = (let n = (of_char c :: nat) in
     if 48 \<le> n \<and> n \<le> 57 then Some (n - 48) else None)"

definition digit_char :: "nat \<Rightarrow> char" where
  "digit_char n = char_of (48 + n)"

fun digits_val :: "nat \<Rightarrow> string \<Rightarrow> nat option" where
  "digits_val acc [] = Some acc"
| "digits_val acc (c # cs) =
     (case digit_val c of None \<Rightarrow> None | Some d \<Rightarrow> digits_val (10 * acc + d) cs)"

text \<open>The unsigned from_str: an optional plus sign, then at least one digit, within range.\<close>

definition parse_unsigned :: "nat \<Rightarrow> string \<Rightarrow> nat option" where
  "parse_unsigned hi s =
     (let ds = (case s of c # cs \<Rightarrow> if c = CHR ''+'' then cs else s | [] \<Rightarrow> [])
      in if ds = [] then None else filter_opt (\<lambda>n. n \<le> hi) (digits_val 0 ds))"

text \<open>The signed from_str: an optional sign, then at least one digit, within range.\<close>

definition parse_signed :: "int \<Rightarrow> int \<Rightarrow> string \<Rightarrow> int option" where
  "parse_signed lo hi s =
     (case s of
        [] \<Rightarrow> None
      | c # cs \<Rightarrow>
          (let neg = (c = CHR ''-''); ds = (if neg \<or> c = CHR ''+'' then cs else s)
           in if ds = [] then None
              else filter_opt (\<lambda>x. lo \<le> x \<and> x \<le> hi)
                     (map_option (\<lambda>n. if neg then - int n else int n) (digits_val 0 ds))))"

definition parse_u32 :: "string \<Rightarrow> u32 option" where
  "parse_u32 s = map_option of_nat (parse_unsigned (2 ^ 32 - 1) s)"

definition parse_u64 :: "string \<Rightarrow> u64 option" where
  "parse_u64 s = map_option of_nat (parse_unsigned (2 ^ 64 - 1) s)"

definition parse_i64 :: "string \<Rightarrow> i64 option" where
  "parse_i64 s = parse_signed i64_min i64_max s"

definition parse_i128 :: "string \<Rightarrow> i128 option" where
  "parse_i128 s = parse_signed i128_min i128_max s"

function show_nat :: "nat \<Rightarrow> string" where
  "show_nat n = (if n < 10 then [digit_char n] else show_nat (n div 10) @ [digit_char (n mod 10)])"
  by pat_completeness auto
termination
  by (relation "measure id") auto

declare show_nat.simps [simp del]

definition show_int :: "int \<Rightarrow> string" where
  "show_int x = (if x < 0 then CHR ''-'' # show_nat (nat (- x)) else show_nat (nat x))"

lemma digit_chars:
  "digit_char 0 = CHR ''0''" "digit_char 1 = CHR ''1''" "digit_char (Suc 0) = CHR ''1''"
  "digit_char 2 = CHR ''2''"
  "digit_char 3 = CHR ''3''" "digit_char 4 = CHR ''4''" "digit_char 5 = CHR ''5''"
  "digit_char 6 = CHR ''6''" "digit_char 7 = CHR ''7''" "digit_char 8 = CHR ''8''"
  "digit_char 9 = CHR ''9''"
  by code_simp+

lemma digit_vals:
  "digit_val (CHR ''0'') = Some 0" "digit_val (CHR ''1'') = Some 1" "digit_val (CHR ''2'') = Some 2"
  "digit_val (CHR ''3'') = Some 3" "digit_val (CHR ''4'') = Some 4" "digit_val (CHR ''5'') = Some 5"
  "digit_val (CHR ''6'') = Some 6" "digit_val (CHR ''7'') = Some 7" "digit_val (CHR ''8'') = Some 8"
  "digit_val (CHR ''9'') = Some 9" "digit_val (CHR ''-'') = None" "digit_val (CHR ''.'') = None"
  by code_simp+

lemmas show_eval = show_int_def show_nat.simps digit_chars

definition show_u32 :: "u32 \<Rightarrow> string" where
  "show_u32 w = show_nat (unat w)"

definition show_u64 :: "u64 \<Rightarrow> string" where
  "show_u64 w = show_nat (unat w)"

lemma of_char_digit: "n < 10 \<Longrightarrow> (of_char (digit_char n) :: nat) = 48 + n"
  by (simp add: digit_char_def)

lemma digit_val_digit_char [simp]: "n < 10 \<Longrightarrow> digit_val (digit_char n) = Some n"
  by (simp add: digit_val_def of_char_digit)

lemma digits_val_append:
  "digits_val a (xs @ ys) =
     (case digits_val a xs of None \<Rightarrow> None | Some b \<Rightarrow> digits_val b ys)"
  by (induction xs arbitrary: a) (auto split: option.splits)

lemma show_nat_not_Nil [simp]: "show_nat n \<noteq> []"
  by (subst show_nat.simps) simp

lemma digits_val_show_nat: "digits_val 0 (show_nat n) = Some n"
proof (induction n rule: show_nat.induct)
  case (1 n)
  show ?case
  proof (cases "n < 10")
    case True
    then show ?thesis by (subst show_nat.simps) simp
  next
    case False
    with 1 have "digits_val 0 (show_nat (n div 10)) = Some (n div 10)" by simp
    with False show ?thesis by (subst show_nat.simps) (simp add: digits_val_append)
  qed
qed

lemma set_show_nat: "c \<in> set (show_nat n) \<Longrightarrow> \<exists>d<10. c = digit_char d"
proof (induction n arbitrary: c rule: show_nat.induct)
  case (1 n)
  show ?case
  proof (cases "n < 10")
    case True
    with 1 show ?thesis by (subst (asm) show_nat.simps) auto
  next
    case False
    with 1 show ?thesis
      by (subst (asm) (2) show_nat.simps) (auto intro: exI [of _ "n mod 10"])
  qed
qed

lemma digit_char_neq:
  assumes "d < 10" and "(of_char c :: nat) < 48 \<or> 57 < (of_char c :: nat)"
  shows "digit_char d \<noteq> c"
proof
  assume "digit_char d = c"
  then have "(of_char c :: nat) = 48 + d" using of_char_digit [OF assms(1)] by simp
  with assms show False by simp
qed

lemma hd_show_nat: "\<exists>d<10. hd (show_nat n) = digit_char d"
  by (rule set_show_nat [of _ n]) simp

lemma hd_show_nat_neq:
  "(of_char c :: nat) < 48 \<or> 57 < (of_char c :: nat) \<Longrightarrow> hd (show_nat n) \<noteq> c"
  using hd_show_nat [of n] digit_char_neq by metis

lemma show_nat_neq_sign [simp]:
  "hd (show_nat n) \<noteq> CHR ''+''" "hd (show_nat n) \<noteq> CHR ''-''"
  by (rule hd_show_nat_neq, simp)+

lemma parse_unsigned_show_nat: "n \<le> hi \<Longrightarrow> parse_unsigned hi (show_nat n) = Some n"
proof -
  assume n: "n \<le> hi"
  obtain c cs where s: "show_nat n = c # cs" by (cases "show_nat n") auto
  then have c: "c \<noteq> CHR ''+''" using show_nat_neq_sign(1) [of n] by simp
  have "digits_val 0 (c # cs) = Some n" using digits_val_show_nat [of n] s by simp
  with c n show ?thesis by (simp add: parse_unsigned_def s del: digits_val.simps)
qed

lemma parse_signed_show_int:
  "lo \<le> x \<Longrightarrow> x \<le> hi \<Longrightarrow> parse_signed lo hi (show_int x) = Some x"
proof -
  assume x: "lo \<le> x" "x \<le> hi"
  show ?thesis
  proof (cases "x < 0")
    case True
    with x show ?thesis
      by (simp add: show_int_def parse_signed_def Let_def digits_val_show_nat)
  next
    case False
    obtain c cs where s: "show_nat (nat x) = c # cs" by (cases "show_nat (nat x)") auto
    then have c: "c \<noteq> CHR ''+''" "c \<noteq> CHR ''-''"
      using show_nat_neq_sign [of "nat x"] by simp_all
    have "digits_val 0 (c # cs) = Some (nat x)" using digits_val_show_nat [of "nat x"] s by simp
    with c x False show ?thesis
      by (simp add: show_int_def parse_signed_def Let_def s del: digits_val.simps)
  qed
qed

lemma parse_show_u32 [simp]: "parse_u32 (show_u32 w) = Some w"
proof -
  have "unat w < 2 ^ LENGTH(32)" by (rule unsigned_less)
  then show ?thesis by (simp add: parse_u32_def show_u32_def parse_unsigned_show_nat)
qed

lemma parse_show_u64 [simp]: "parse_u64 (show_u64 w) = Some w"
proof -
  have "unat w < 2 ^ LENGTH(64)" by (rule unsigned_less)
  then show ?thesis by (simp add: parse_u64_def show_u64_def parse_unsigned_show_nat)
qed

lemma parse_show_i128 [simp]: "in_i128 x \<Longrightarrow> parse_i128 (show_int x) = Some x"
  by (simp add: parse_i128_def in_i128_def parse_signed_show_int)

lemma parse_i128_range: "parse_i128 s = Some x \<Longrightarrow> in_i128 x"
  by (auto simp: parse_i128_def parse_signed_def in_i128_def Let_def filter_opt_def
      split: list.splits option.splits if_splits)

end
