(* ===== verification/F64.thy ===== *)
theory F64
  imports Complex_Main RustStr
begin

text \<open>
  The f64 type of Rust: IEEE 754 binary64 with round to nearest, ties to even, in integer
  arithmetic so that it evaluates. A finite value is a sign, a mantissa and an exponent and
  stands for mantissa times two to the exponent. Every operation computes the exact result
  as a ratio of naturals and rounds it once with the function round_ratio; the lemmas say
  that this rounding is within half a unit in the last place.
\<close>

datatype f64 = F_NaN | F_Inf bool | F_Fin bool nat int

subsection \<open>Rounding\<close>

fun bit_length :: "nat \<Rightarrow> nat" where
  "bit_length n = (if n = 0 then 0 else Suc (bit_length (n div 2)))"

declare bit_length.simps [simp del]

text \<open>The fraction n / (d * 2 ^ x) as numerator and denominator.\<close>

definition scale :: "nat \<Rightarrow> nat \<Rightarrow> int \<Rightarrow> nat \<times> nat" where
  "scale n d x = (if 0 \<le> x then (n, d * 2 ^ nat x) else (n * 2 ^ nat (- x), d))"

definition round_even :: "nat \<Rightarrow> nat \<Rightarrow> nat" where
  "round_even a b =
     (let q = a div b; r = a mod b
      in if 2 * r > b \<or> (2 * r = b \<and> odd q) then Suc q else q)"

text \<open>The exponent of the result: 53 significant bits, but not below the subnormals.\<close>

definition round_exp :: "nat \<Rightarrow> nat \<Rightarrow> int" where
  "round_exp n d =
     (let x = int (bit_length n) - int (bit_length d) - 53;
          (a, b) = scale n d x
      in max (- 1074) (if a \<ge> 2 ^ 53 * b then x + 1 else x))"

definition round_ratio :: "bool \<Rightarrow> nat \<Rightarrow> nat \<Rightarrow> f64" where
  "round_ratio s n d =
     (if n = 0 then F_Fin s 0 (- 1074)
      else
        let x = round_exp n d;
            (a, b) = scale n d x;
            q = round_even a b;
            (m, e) = (if q = 2 ^ 53 then (2 ^ 52, x + 1) else (q, x))
        in if e > 971 then F_Inf s else F_Fin s m e)"

text \<open>A signed integer times a power of two, rounded; zero gets the sign given.\<close>

definition round_scaled :: "bool \<Rightarrow> int \<Rightarrow> int \<Rightarrow> f64" where
  "round_scaled zs v e =
     (if v = 0 then F_Fin zs 0 (- 1074)
      else if 0 \<le> e then round_ratio (v < 0) (nat \<bar>v\<bar> * 2 ^ nat e) 1
      else round_ratio (v < 0) (nat \<bar>v\<bar>) (2 ^ nat (- e)))"

subsection \<open>Operations\<close>

text \<open>An integer converted with the operator as.\<close>

definition f_of_int :: "int \<Rightarrow> f64" where
  "f_of_int v = round_ratio (v < 0) (nat \<bar>v\<bar>) 1"

definition f_is_finite :: "f64 \<Rightarrow> bool" where
  "f_is_finite x = (case x of F_Fin _ _ _ \<Rightarrow> True | _ \<Rightarrow> False)"

definition f_is_zero :: "f64 \<Rightarrow> bool" where
  "f_is_zero x = (case x of F_Fin _ m _ \<Rightarrow> m = 0 | _ \<Rightarrow> False)"

fun f_neg :: "f64 \<Rightarrow> f64" where
  "f_neg F_NaN = F_NaN"
| "f_neg (F_Inf s) = F_Inf (\<not> s)"
| "f_neg (F_Fin s m e) = F_Fin (\<not> s) m e"

fun f_abs :: "f64 \<Rightarrow> f64" where
  "f_abs F_NaN = F_NaN"
| "f_abs (F_Inf s) = F_Inf False"
| "f_abs (F_Fin s m e) = F_Fin False m e"

fun f_mul :: "f64 \<Rightarrow> f64 \<Rightarrow> f64" where
  "f_mul (F_Fin s m e) (F_Fin t n f) =
     (if m * n = 0 then F_Fin (s \<noteq> t) 0 (- 1074)
      else let v = (if s \<noteq> t then - int (m * n) else int (m * n))
           in round_scaled False v (e + f))"
| "f_mul (F_Inf s) (F_Inf t) = F_Inf (s \<noteq> t)"
| "f_mul (F_Inf s) (F_Fin t n f) = (if n = 0 then F_NaN else F_Inf (s \<noteq> t))"
| "f_mul (F_Fin s m e) (F_Inf t) = (if m = 0 then F_NaN else F_Inf (s \<noteq> t))"
| "f_mul _ _ = F_NaN"

fun f_div :: "f64 \<Rightarrow> f64 \<Rightarrow> f64" where
  "f_div (F_Fin s m e) (F_Fin t n f) =
     (if n = 0 then (if m = 0 then F_NaN else F_Inf (s \<noteq> t))
      else if f \<le> e then round_ratio (s \<noteq> t) (m * 2 ^ nat (e - f)) n
      else round_ratio (s \<noteq> t) m (n * 2 ^ nat (f - e)))"
| "f_div (F_Inf s) (F_Fin t n f) = F_Inf (s \<noteq> t)"
| "f_div (F_Fin s m e) (F_Inf t) = F_Fin (s \<noteq> t) 0 (- 1074)"
| "f_div _ _ = F_NaN"

definition f_signed :: "bool \<Rightarrow> nat \<Rightarrow> int" where
  "f_signed s m = (if s then - int m else int m)"

fun f_add :: "f64 \<Rightarrow> f64 \<Rightarrow> f64" where
  "f_add (F_Fin s m e) (F_Fin t n f) =
     (let g = min e f
      in round_scaled (s \<and> t)
           (f_signed s m * 2 ^ nat (e - g) + f_signed t n * 2 ^ nat (f - g)) g)"
| "f_add (F_Inf s) (F_Inf t) = (if s = t then F_Inf s else F_NaN)"
| "f_add (F_Inf s) (F_Fin t n f) = F_Inf s"
| "f_add (F_Fin s m e) (F_Inf t) = F_Inf t"
| "f_add _ _ = F_NaN"

definition f_sub :: "f64 \<Rightarrow> f64 \<Rightarrow> f64" where
  "f_sub x y = f_add x (f_neg y)"

fun f_lt :: "f64 \<Rightarrow> f64 \<Rightarrow> bool" where
  "f_lt (F_Fin s m e) (F_Fin t n f) =
     (let g = min e f
      in f_signed s m * 2 ^ nat (e - g) < f_signed t n * 2 ^ nat (f - g))"
| "f_lt (F_Inf s) (F_Inf t) = (s \<and> \<not> t)"
| "f_lt (F_Inf s) (F_Fin _ _ _) = s"
| "f_lt (F_Fin _ _ _) (F_Inf t) = (\<not> t)"
| "f_lt _ _ = False"

text \<open>The operator == of f64: NaN differs from itself, the two zeros are equal.\<close>

fun f_eq :: "f64 \<Rightarrow> f64 \<Rightarrow> bool" where
  "f_eq (F_Fin s m e) (F_Fin t n f) =
     (let g = min e f
      in f_signed s m * 2 ^ nat (e - g) = f_signed t n * 2 ^ nat (f - g))"
| "f_eq (F_Inf s) (F_Inf t) = (s = t)"
| "f_eq _ _ = False"

text \<open>f64::max: a NaN operand is ignored.\<close>

definition f_max :: "f64 \<Rightarrow> f64 \<Rightarrow> f64" where
  "f_max x y =
     (case x of F_NaN \<Rightarrow> y
      | _ \<Rightarrow> (case y of F_NaN \<Rightarrow> x | _ \<Rightarrow> if f_lt x y then y else x))"

subsection \<open>Parsing\<close>

text \<open>The leading digits of a text, their value and number, and the rest.\<close>

fun take_digits :: "nat \<Rightarrow> nat \<Rightarrow> string \<Rightarrow> nat \<times> nat \<times> string" where
  "take_digits acc k [] = (acc, k, [])"
| "take_digits acc k (c # cs) =
     (case digit_val c of
        None \<Rightarrow> (acc, k, c # cs)
      | Some d \<Rightarrow> take_digits (10 * acc + d) (Suc k) cs)"

definition parse_exponent :: "string \<Rightarrow> int option" where
  "parse_exponent s =
     (case s of
        [] \<Rightarrow> Some 0
      | c # cs \<Rightarrow>
          if c = CHR ''e'' \<or> c = CHR ''E'' then
            (let neg = (cs \<noteq> [] \<and> hd cs = CHR ''-'');
                 ds = (if cs \<noteq> [] \<and> (hd cs = CHR ''-'' \<or> hd cs = CHR ''+'') then tl cs else cs);
                 (v, k, rest) = take_digits 0 0 ds
             in if k = 0 \<or> rest \<noteq> [] then None else Some (if neg then - int v else int v))
          else None)"

definition parse_decimal :: "bool \<Rightarrow> string \<Rightarrow> f64 option" where
  "parse_decimal neg s =
     (let (i, k, rest) = take_digits 0 0 s;
          (v, k', rest') = (case rest of
             c # cs \<Rightarrow> if c = CHR ''.'' then take_digits i 0 cs else (i, 0, rest)
           | [] \<Rightarrow> (i, 0, []))
      in if k + k' = 0 then None
         else map_option
                (\<lambda>x. let t = x - int k'
                     in if 0 \<le> t then round_ratio neg (v * 10 ^ nat t) 1
                        else round_ratio neg v (10 ^ nat (- t)))
                (parse_exponent rest'))"

definition parse_f64 :: "string \<Rightarrow> f64 option" where
  "parse_f64 s =
     (let neg = (s \<noteq> [] \<and> hd s = CHR ''-'');
          body = (if s \<noteq> [] \<and> (hd s = CHR ''-'' \<or> hd s = CHR ''+'') then tl s else s);
          low = to_lowercase body
      in if low = ''inf'' \<or> low = ''infinity'' then Some (F_Inf neg)
         else if low = ''nan'' then Some F_NaN
         else parse_decimal neg body)"

text \<open>Unfolding of the evaluators, for closed terms.\<close>

lemmas f64_eval = f_of_int_def round_ratio_def round_exp_def scale_def round_even_def
  round_scaled_def f_signed_def bit_length.simps Let_def

subsection \<open>The rounding error\<close>

definition f_val :: "f64 \<Rightarrow> real" where
  "f_val x = (case x of F_Fin s m e \<Rightarrow> (if s then - 1 else 1) * real m * 2 powi e | _ \<Rightarrow> 0)"

lemma bit_length_bounds: "0 < n \<Longrightarrow> 0 < bit_length n \<and> 2 ^ (bit_length n - 1) \<le> n \<and> n < 2 ^ bit_length n"
proof (induction n rule: bit_length.induct)
  case (1 n)
  show ?case
  proof (cases "n div 2 = 0")
    case True
    with "1.prems" have "n = 1" by simp
    then show ?thesis by (simp add: bit_length.simps)
  next
    case False
    with 1 have IH: "0 < bit_length (n div 2)" "2 ^ (bit_length (n div 2) - 1) \<le> n div 2"
      "n div 2 < 2 ^ bit_length (n div 2)" by auto
    have bl: "bit_length n = Suc (bit_length (n div 2))"
      using "1.prems" by (subst bit_length.simps) simp
    have "(2 :: nat) ^ bit_length (n div 2) = 2 * 2 ^ (bit_length (n div 2) - 1)"
      using IH(1) by (metis Suc_pred' power_Suc)
    have "2 * p \<le> n \<and> n < 2 * (2 * p)" if "p \<le> n div 2" "n div 2 < 2 * p" for p :: nat
      using that by arith
    then show ?thesis using IH \<open>2 ^ bit_length (n div 2) = 2 * 2 ^ (bit_length (n div 2) - 1)\<close>
      by (simp add: bl)
  qed
qed

lemma bit_length_real:
  assumes "0 < n"
  shows "2 powi (int (bit_length n) - 1) \<le> real n" and "real n < 2 powi int (bit_length n)"
proof -
  note b = bit_length_bounds [OF assms]
  have e: "int (bit_length n) - 1 = int (bit_length n - 1)" using b by simp
  have "real (2 ^ (bit_length n - 1)) \<le> real n" using b by (simp only: of_nat_le_iff)
  then show "2 powi (int (bit_length n) - 1) \<le> real n"
    unfolding e by (simp del: of_nat_diff)
  have "real n < real (2 ^ bit_length n)" using b by (simp only: of_nat_less_iff)
  then show "real n < 2 powi int (bit_length n)" by simp
qed

lemma powi_2_less: "2 powi i < (2 powi j :: real) \<Longrightarrow> i < j"
  by (metis not_less one_le_numeral power_int_increasing)

lemma scale_real:
  assumes "scale n d x = (a, b)" and "0 < d"
  shows "0 < b" and "real a / real b = real n / real d / 2 powi x"
  using assms by (auto simp: scale_def power_int_def field_simps split: if_splits)

lemma round_even_error:
  assumes "0 < b"
  shows "\<bar>real (round_even a b) - real a / real b\<bar> \<le> 1 / 2"
proof -
  define q r where qr: "q = a div b" "r = a mod b"
  have a: "a = q * b + r" and r: "r < b" using assms by (simp_all add: qr)
  have ab: "real a / real b = real q + real r / real b" using assms by (simp add: a field_simps)
  show ?thesis
  proof (cases "2 * r > b \<or> (2 * r = b \<and> odd q)")
    case True
    then have "round_even a b = Suc q" by (simp add: round_even_def qr Let_def)
    moreover have "real b \<le> 2 * real r" using True by linarith
    ultimately show ?thesis using r assms by (simp add: ab abs_le_iff field_simps)
  next
    case False
    then have "round_even a b = q" by (simp add: round_even_def qr Let_def)
    moreover have "2 * real r \<le> real b" using False by linarith
    ultimately show ?thesis using assms by (simp add: ab abs_le_iff field_simps)
  qed
qed

text \<open>For a ratio in the normal range the scaled value has 53 significant bits.\<close>

lemma round_exp_normal:
  assumes n: "0 < n" and d: "0 < d" and lo: "2 powi (- 1022) \<le> real n / real d"
  shows "2 ^ 52 \<le> real n / real d / 2 powi (round_exp n d)"
    and "real n / real d / 2 powi (round_exp n d) < 2 ^ 53"
proof -
  define V where "V = real n / real d"
  define x where "x = int (bit_length n) - int (bit_length d) - 53"
  obtain a b where ab: "scale n d x = (a, b)" by (cases "scale n d x")
  note sc = scale_real [OF ab d]
  have "2 powi (int (bit_length n) - 1) * real d < real n * 2 powi int (bit_length d)"
    using bit_length_real [OF n] bit_length_real [OF d] n d
    by (intro mult_le_less_imp_less) auto
  then have "2 powi (int (bit_length n) - 1) / 2 powi int (bit_length d) < V"
    using d by (simp add: V_def field_simps)
  then have V1: "2 powi (x + 52) < V" by (simp add: x_def power_int_diff flip: diff_diff_eq)
  have "real n * 2 powi (int (bit_length d) - 1) < 2 powi int (bit_length n) * real d"
    using bit_length_real [OF n] bit_length_real [OF d] n d
    by (intro mult_less_le_imp_less) auto
  then have V2: "V < 2 powi (x + 54)"
    using d by (simp add: V_def x_def power_int_diff power_int_add field_simps)
  have full: "a \<ge> 2 ^ 53 * b \<longleftrightarrow> 2 powi (x + 53) \<le> V"
  proof -
    have "a \<ge> 2 ^ 53 * b \<longleftrightarrow> real (2 ^ 53 * b) \<le> real a" by (simp only: of_nat_le_iff)
    also have "\<dots> \<longleftrightarrow> 2 ^ 53 \<le> real a / real b" using sc(1) by (simp add: field_simps)
    also have "\<dots> \<longleftrightarrow> 2 powi (x + 53) \<le> V"
      using d by (simp add: sc(2) V_def power_int_add field_simps)
    finally show ?thesis .
  qed
  define y where "y = (if 2 powi (x + 53) \<le> V then x + 1 else x)"
  have y: "2 powi (y + 52) \<le> V" "V < 2 powi (y + 53)"
    using V1 V2 by (auto simp: y_def add.commute)
  have "2 powi (- 1022) < (2 powi (y + 53) :: real)"
    by (rule le_less_trans [OF lo y(2) [unfolded V_def]])
  then have "- 1074 \<le> y" using powi_2_less by fastforce
  then have e: "round_exp n d = y"
    using full unfolding round_exp_def x_def [symmetric] y_def
    by (simp add: Let_def ab split: if_splits)
  show "2 ^ 52 \<le> real n / real d / 2 powi (round_exp n d)"
    using y(1) by (simp add: e flip: V_def) (simp add: power_int_add field_simps)
  show "real n / real d / 2 powi (round_exp n d) < 2 ^ 53"
    using y(2) by (simp add: e flip: V_def) (simp add: power_int_add field_simps)
qed

text \<open>Below the overflow threshold the result is finite and off by at most half a unit.\<close>

lemma round_ratio_error:
  assumes n: "0 < n" and d: "0 < d"
    and lo: "2 powi (- 1022) \<le> real n / real d" and hi: "real n / real d < 2 powi 1000"
  shows "\<exists>m e. round_ratio s n d = F_Fin s m e \<and>
    \<bar>real m * 2 powi e - real n / real d\<bar> \<le> real n / real d / 2 ^ 53"
proof -
  define V x where "V = real n / real d" and "x = round_exp n d"
  obtain a b where ab: "scale n d x = (a, b)" by (cases "scale n d x")
  note sc = scale_real [OF ab d]
  define q where "q = round_even a b"
  note ex = round_exp_normal [OF n d lo, folded x_def V_def]
  have err: "\<bar>real q - V / 2 powi x\<bar> \<le> 1 / 2"
    using round_even_error [OF sc(1), of a] by (simp add: q_def sc(2) V_def)
  have "\<bar>real q * 2 powi x - V\<bar> = \<bar>real q - V / 2 powi x\<bar> * 2 powi x"
    by (simp add: abs_mult_pos' algebra_simps flip: abs_mult_pos)
  also have "\<dots> \<le> 1 / 2 * 2 powi x" using err by (intro mult_right_mono) auto
  also have "\<dots> \<le> V / 2 ^ 53" using ex(1) by (simp add: field_simps)
  finally have bound: "\<bar>real q * 2 powi x - V\<bar> \<le> V / 2 ^ 53" .
  have "2 ^ 52 * 2 powi x \<le> V" using ex(1) by (simp add: field_simps)
  then have "2 powi (x + 52) < (2 powi 1000 :: real)" using hi
    by (simp add: V_def power_int_add mult.commute)
  then have "x + 52 < 1000" by (rule powi_2_less)
  then have x: "x < 948" by simp
  show ?thesis
  proof (cases "q = 2 ^ 53")
    case True
    have "round_ratio s n d = F_Fin s (2 ^ 52) (x + 1)"
      using n x True by (simp add: round_ratio_def Let_def ab flip: x_def q_def)
    moreover have "real (2 ^ 52) * 2 powi (x + 1) = real q * 2 powi x"
      by (simp add: True power_int_add)
    ultimately show ?thesis using bound by (metis V_def)
  next
    case False
    then have "round_ratio s n d = F_Fin s q x"
      using n x by (simp add: round_ratio_def Let_def ab flip: x_def q_def)
    then show ?thesis using bound by (auto simp: V_def)
  qed
qed

text \<open>
  The conversion of an i128 scaled by ten to the eighteenth, as the gateways do it: two
  roundings, so a relative error of at most two units of 2 to the minus 53 (and a bit).
\<close>

definition f_1e18 :: f64 where
  "f_1e18 = f_of_int 1000000000000000000"

definition x18_quotient :: "int \<Rightarrow> f64" where
  "x18_quotient v = f_div (f_of_int v) f_1e18"

lemma f_of_int_1e18: "f_1e18 = F_Fin False 7812500000000000 7"
  by (simp add: f_1e18_def f64_eval)

lemma x18_quotient_zero: "f_val (x18_quotient 0) = 0 \<and> f_is_finite (x18_quotient 0)"
  unfolding x18_quotient_def f_of_int_1e18
  by (simp add: f_of_int_def round_ratio_def f_val_def f_is_finite_def)

lemma f_div_1e18:
  assumes "0 < m"
  shows "\<exists>n d. f_div (F_Fin s m e) f_1e18 = round_ratio s n d \<and> 0 < n \<and> 0 < d \<and>
    real n / real d = real m * 2 powi e / 10 ^ 18"
proof (cases "7 \<le> e")
  case True
  have "(2 :: real) ^ nat (e - 7) = 2 powi (e - 7)" using True by (simp add: power_int_def)
  then have "real (m * 2 ^ nat (e - 7)) / real 7812500000000000 = real m * 2 powi e / 10 ^ 18"
    by (simp add: power_int_diff)
  with True assms show ?thesis
    unfolding f_of_int_1e18 by (intro exI [of _ "m * 2 ^ nat (e - 7)"] exI [of _ 7812500000000000]) simp
next
  case False
  have "(2 :: real) ^ nat (7 - e) = 2 powi (7 - e)" using False by (simp add: power_int_def)
  then have "real m / real (7812500000000000 * 2 ^ nat (7 - e)) = real m * 2 powi e / 10 ^ 18"
    by (simp add: power_int_diff)
  with False assms show ?thesis
    unfolding f_of_int_1e18
    by (intro exI [of _ m] exI [of _ "7812500000000000 * 2 ^ nat (7 - e)"]) simp
qed

lemma x18_quotient_error:
  assumes "in_i128 v"
  shows "f_is_finite (x18_quotient v)"
    and "\<bar>f_val (x18_quotient v) - real_of_int v / 10 ^ 18\<bar> \<le> \<bar>real_of_int v\<bar> / 10 ^ 18 * (3 / 2 ^ 53)"
proof -
  have "f_is_finite (x18_quotient v) \<and>
    \<bar>f_val (x18_quotient v) - real_of_int v / 10 ^ 18\<bar> \<le> \<bar>real_of_int v\<bar> / 10 ^ 18 * (3 / 2 ^ 53)"
  proof (cases "v = 0")
    case True
    then show ?thesis using x18_quotient_zero by simp
  next
    case False
    define A s where "A = \<bar>real_of_int v\<bar>" and "s = (v < 0)"
    have nA: "real (nat \<bar>v\<bar>) = A" by (simp add: A_def)
    have A: "1 \<le> A" "A \<le> 2 ^ 127"
      using False assms by (auto simp: A_def in_i128_iff abs_le_iff)
    have pos: "2 powi (- 1022) \<le> (1 :: real) / 10 ^ 20" "(2 :: real) ^ 128 < 2 powi 1000"
      by (simp_all add: power_int_minus)
    obtain m e where me: "f_of_int v = F_Fin s m e" "\<bar>real m * 2 powi e - A\<bar> \<le> A / 2 ^ 53"
      using round_ratio_error [of "nat \<bar>v\<bar>" 1 s] False A pos nA
      by (auto simp: f_of_int_def s_def simp del: power_int_numeral)
    define W where "W = real m * 2 powi e"
    have W3: "\<bar>W - A\<bar> \<le> A / 2 ^ 53" using me(2) by (simp only: W_def)
    then have "W - A \<le> A / 2 ^ 53" "A - W \<le> A / 2 ^ 53" by linarith+
    then have W1: "A / 2 \<le> W" and W2: "W \<le> 2 * A" using A by simp_all
    note W = W1 W2 W3
    have "0 < m" using W(1) A by (cases m) (auto simp: W_def)
    then obtain n d where nd: "f_div (F_Fin s m e) f_1e18 = round_ratio s n d"
      "0 < n" "0 < d" "real n / real d = W / 10 ^ 18"
      using f_div_1e18 unfolding W_def by blast
    have "2 powi (- 1022) \<le> W / 10 ^ 18" using W(1) A pos(1) by (simp add: field_simps)
    moreover have "W / 10 ^ 18 < 2 powi 1000" using W(2) A pos(2) by (simp add: field_simps)
    ultimately obtain m' e' where r: "round_ratio s n d = F_Fin s m' e'"
      "\<bar>real m' * 2 powi e' - W / 10 ^ 18\<bar> \<le> W / 10 ^ 18 / 2 ^ 53"
      using round_ratio_error [OF nd(2,3), of s] unfolding nd(4) by blast
    have val: "x18_quotient v = F_Fin s m' e'" by (simp add: x18_quotient_def me(1) nd(1) r(1))
    define R where "R = real m' * 2 powi e'"
    have "\<bar>R - A / 10 ^ 18\<bar> \<le> A / 10 ^ 18 * (3 / 2 ^ 53)"
    proof -
      have "R - W / 10 ^ 18 \<le> W / 10 ^ 18 / 2 ^ 53" "W / 10 ^ 18 - R \<le> W / 10 ^ 18 / 2 ^ 53"
        using r(2) unfolding R_def [symmetric] by linarith+
      moreover have "W - A \<le> A / 2 ^ 53" "A - W \<le> A / 2 ^ 53" using W(3) by linarith+
      ultimately show ?thesis using W(2) by (intro abs_leI) (simp_all add: field_simps)
    qed
    moreover have "f_val (x18_quotient v) - real_of_int v / 10 ^ 18 = (if s then - (R - A / 10 ^ 18) else R - A / 10 ^ 18)"
      by (auto simp: val f_val_def R_def A_def s_def)
    ultimately show ?thesis by (simp add: val f_is_finite_def A_def abs_minus_commute split: if_splits)
  qed
  then show "f_is_finite (x18_quotient v)"
    and "\<bar>f_val (x18_quotient v) - real_of_int v / 10 ^ 18\<bar> \<le> \<bar>real_of_int v\<bar> / 10 ^ 18 * (3 / 2 ^ 53)"
    by simp_all
qed

subsection \<open>Comparison\<close>

lemma powi_split: "g \<le> x \<Longrightarrow> (2 :: real) powi x = 2 ^ nat (x - g) * 2 powi g"
  using power_int_add [of "2 :: real" "x - g" g] by (simp add: power_int_def)

lemma f_eq_fin:
  "f_eq (F_Fin s m e) (F_Fin t n f) \<longleftrightarrow> f_val (F_Fin s m e) = f_val (F_Fin t n f)"
proof -
  define g where "g = min e f"
  have val: "f_val (F_Fin s m e) = of_int (f_signed s m * 2 ^ nat (e - g)) * 2 powi g"
    if "g \<le> e" for s m e
    using powi_split [OF that] by (simp add: f_val_def f_signed_def)
  have "f_val (F_Fin s m e) = f_val (F_Fin t n f) \<longleftrightarrow>
      (of_int (f_signed s m * 2 ^ nat (e - g)) :: real) = of_int (f_signed t n * 2 ^ nat (f - g))"
    using val [of e s m] val [of f t n] by (simp add: g_def)
  then show ?thesis by (simp only: f_eq.simps Let_def g_def of_int_eq_iff)
qed

lemma f_eq_trans: "f_eq x y \<Longrightarrow> f_eq y z \<Longrightarrow> f_eq x z"
  by (cases x; cases y; cases z) (simp_all add: f_eq_fin del: f_eq.simps(1))

lemma f_eq_sym: "f_eq x y \<Longrightarrow> f_eq y x"
  by (cases x; cases y) (simp_all add: f_eq_fin del: f_eq.simps(1))

end
