(* ===== verification/MarketLevels.thy ===== *)
theory MarketLevels
  imports Prelude
begin

text \<open>
  The price levels of the SDK (nado_utils/engine.rs) and the answer that lists them, which both
  the order book of the gateway and the SDK's client read.
\<close>

datatype price_level = PriceLevel (pl_price: i128) (pl_size: i128)

record market_liquidity =
  ml_bids :: "price_level list"
  ml_asks :: "price_level list"
  ml_product_id :: u32
  ml_timestamp :: u64

end
