(* ===== verification/OrderBook.thy ===== *)
theory OrderBook
  imports Collections F64 MarketLevels
begin

text \<open>
  The local order book of the orderbook gateway (gateway/orderbook/src/orderbook_state.rs):
  two sides, each a BTreeMap from price to size in fixed point with 18 decimals, and the
  timestamp of the last change. The book is loaded from a snapshot and then kept up to date
  by deltas, each of which carries the absolute sizes of the levels it touches. The theory
  also has the depth view that is sent to the clients, and the specification the book is
  held against: a function from prices to sizes per side.
\<close>

subsection \<open>Data\<close>

record level_delta =
  ld_price_x18 :: i128
  ld_size_x18 :: i128

record book_delta =
  bd_last_max_timestamp :: u64
  bd_min_timestamp :: u64
  bd_max_timestamp :: u64
  bd_bids :: "level_delta list"
  bd_asks :: "level_delta list"

datatype apply_outcome = Applied | Stale | Gap u64 u64

record order_book =
  ob_bids :: "(i128, i128) btree"
  ob_asks :: "(i128, i128) btree"
  ob_last_ts :: u64

record price_level_view =
  plv_price_x18 :: string
  plv_size_x18 :: string
  plv_total_x18 :: string
  plv_price :: f64
  plv_size :: f64
  plv_total :: f64

record depth_view =
  dv_bids :: "price_level_view list"
  dv_asks :: "price_level_view list"

definition default_book :: order_book where
  "default_book = \<lparr>ob_bids = [], ob_asks = [], ob_last_ts = 0\<rparr>"

subsection \<open>Operations\<close>

definition load_level :: "(i128, i128) btree \<Rightarrow> price_level \<Rightarrow> (i128, i128) btree" where
  "load_level target l =
     (if pl_size l > 0 then bt_insert (pl_price l) (pl_size l) target else target)"

definition load_side :: "(i128, i128) btree \<Rightarrow> price_level list \<Rightarrow> (i128, i128) btree" where
  "load_side target levels = foldl load_level target levels"

definition apply_level :: "(i128, i128) btree \<Rightarrow> level_delta \<Rightarrow> (i128, i128) btree" where
  "apply_level target l =
     (if ld_size_x18 l = 0 then bt_remove (ld_price_x18 l) target
      else if ld_size_x18 l > 0 then bt_insert (ld_price_x18 l) (ld_size_x18 l) target
      else target)"

definition apply_side_delta :: "(i128, i128) btree \<Rightarrow> level_delta list \<Rightarrow> (i128, i128) btree" where
  "apply_side_delta target levels = foldl apply_level target levels"

definition reset_from_snapshot ::
  "order_book \<Rightarrow> price_level list \<Rightarrow> price_level list \<Rightarrow> u64 \<Rightarrow> order_book" where
  "reset_from_snapshot b bids asks ts =
     b\<lparr>ob_bids := load_side [] bids, ob_asks := load_side [] asks, ob_last_ts := ts\<rparr>"

definition apply_delta :: "order_book \<Rightarrow> book_delta \<Rightarrow> order_book \<times> apply_outcome" where
  "apply_delta b d =
     (if bd_max_timestamp d \<le> ob_last_ts b then (b, Stale)
      else if bd_last_max_timestamp d > ob_last_ts b then
        (b, Gap (ob_last_ts b) (bd_last_max_timestamp d))
      else
        (b\<lparr>ob_bids := apply_side_delta (ob_bids b) (bd_bids d),
           ob_asks := apply_side_delta (ob_asks b) (bd_asks d),
           ob_last_ts := bd_max_timestamp d\<rparr>, Applied))"

definition book_is_empty :: "order_book \<Rightarrow> bool" where
  "book_is_empty b \<longleftrightarrow> ob_bids b = [] \<and> ob_asks b = []"

definition x18_to_f64 :: "i128 \<Rightarrow> f64" where
  "x18_to_f64 v = f_div (f_of_int v) f_1e18"

definition level_view :: "i128 \<Rightarrow> i128 \<Rightarrow> i128 \<Rightarrow> price_level_view" where
  "level_view p s t =
     \<lparr>plv_price_x18 = show_int p, plv_size_x18 = show_int s, plv_total_x18 = show_int t,
      plv_price = x18_to_f64 p, plv_size = x18_to_f64 s, plv_total = x18_to_f64 t\<rparr>"

text \<open>One side of the view; None is the overflow panic of the running total.\<close>

fun level_views :: "i128 \<Rightarrow> (i128 \<times> i128) list \<Rightarrow> price_level_view list option" where
  "level_views tot [] = Some []"
| "level_views tot ((p, s) # ls) =
     do { t \<leftarrow> chk_i128 (tot + s);
          vs \<leftarrow> level_views t ls;
          Some (level_view p s t # vs) }"

definition depth_view_of :: "order_book \<Rightarrow> nat \<Rightarrow> depth_view option" where
  "depth_view_of b depth =
     do { asks \<leftarrow> level_views 0 (take depth (ob_asks b));
          bids \<leftarrow> level_views 0 (take depth (rev (ob_bids b)));
          Some \<lparr>dv_bids = bids, dv_asks = asks\<rparr> }"

subsection \<open>The invariant\<close>

definition side_inv :: "(i128, i128) btree \<Rightarrow> bool" where
  "side_inv m \<longleftrightarrow> bt_wf m \<and> (\<forall>(p, s)\<in>set m. 0 < s)"

definition book_inv :: "order_book \<Rightarrow> bool" where
  "book_inv b \<longleftrightarrow> side_inv (ob_bids b) \<and> side_inv (ob_asks b)"

lemma set_bt_insert: "set (bt_insert k v m) \<subseteq> insert (k, v) (set m)"
  by (induction k v m rule: bt_insert.induct) auto

lemma set_bt_remove: "set (bt_remove k m) \<subseteq> set m"
  by (induction k m rule: bt_remove.induct) auto

lemma side_inv_Nil [simp]: "side_inv []"
  by (simp add: side_inv_def)

lemma side_inv_insert: "side_inv m \<Longrightarrow> 0 < s \<Longrightarrow> side_inv (bt_insert p s m)"
  using set_bt_insert [of p s m] by (auto simp: side_inv_def bt_wf_insert)

lemma side_inv_remove: "side_inv m \<Longrightarrow> side_inv (bt_remove p m)"
  using set_bt_remove [of p m] by (auto simp: side_inv_def bt_wf_remove)

lemma side_inv_load_side: "side_inv m \<Longrightarrow> side_inv (load_side m ls)"
  unfolding load_side_def
  by (induction ls arbitrary: m) (auto simp: load_level_def side_inv_insert)

lemma side_inv_apply_level: "side_inv m \<Longrightarrow> side_inv (apply_level m l)"
  by (simp add: apply_level_def side_inv_insert side_inv_remove)

lemma side_inv_apply: "side_inv m \<Longrightarrow> side_inv (apply_side_delta m ls)"
  unfolding apply_side_delta_def
  by (induction ls arbitrary: m) (auto simp: side_inv_apply_level)

lemma book_inv_default [simp]: "book_inv default_book"
  by (simp add: book_inv_def default_book_def)

lemma book_inv_reset: "book_inv (reset_from_snapshot b bids asks ts)"
  by (simp add: book_inv_def reset_from_snapshot_def side_inv_load_side)

lemma book_inv_apply: "book_inv b \<Longrightarrow> book_inv (fst (apply_delta b d))"
  by (simp add: book_inv_def apply_delta_def side_inv_apply)

lemma side_inv_wf: "side_inv m \<Longrightarrow> bt_wf m"
  by (simp add: side_inv_def)

subsection \<open>The specification of a side: a function from prices to sizes\<close>

type_synonym side_spec = "i128 \<Rightarrow> i128 option"

definition spec_level :: "side_spec \<Rightarrow> level_delta \<Rightarrow> side_spec" where
  "spec_level f l =
     (if ld_size_x18 l = 0 then f(ld_price_x18 l := None)
      else if ld_size_x18 l > 0 then f(ld_price_x18 l := Some (ld_size_x18 l))
      else f)"

definition spec_side :: "side_spec \<Rightarrow> level_delta list \<Rightarrow> side_spec" where
  "spec_side f ls = foldl spec_level f ls"

text \<open>The last entry of a delta for a price that is not ignored decides the level.\<close>

definition final_level :: "level_delta list \<Rightarrow> i128 \<Rightarrow> level_delta option" where
  "final_level ls p = find (\<lambda>l. ld_price_x18 l = p \<and> 0 \<le> ld_size_x18 l) (rev ls)"

definition touched :: "level_delta list \<Rightarrow> i128 set" where
  "touched ls = {p. final_level ls p \<noteq> None}"

lemma bt_get_apply_level: "bt_wf m \<Longrightarrow> bt_get (apply_level m l) = spec_level (bt_get m) l"
  by (simp add: apply_level_def spec_level_def bt_get_insert bt_get_remove)

lemma bt_wf_apply_level: "bt_wf m \<Longrightarrow> bt_wf (apply_level m l)"
  by (simp add: apply_level_def bt_wf_insert bt_wf_remove)

lemma bt_get_apply_side: "bt_wf m \<Longrightarrow> bt_get (apply_side_delta m ls) = spec_side (bt_get m) ls"
  unfolding apply_side_delta_def spec_side_def
  by (induction ls arbitrary: m) (auto simp: bt_get_apply_level bt_wf_apply_level)

lemma spec_side_final:
  "spec_side f ls p =
     (case final_level ls p of
        None \<Rightarrow> f p
      | Some l \<Rightarrow> if ld_size_x18 l = 0 then None else Some (ld_size_x18 l))"
proof (induction ls rule: rev_induct)
  case Nil
  then show ?case by (simp add: spec_side_def final_level_def)
next
  case (snoc l ls)
  then show ?case by (auto simp: spec_side_def final_level_def spec_level_def)
qed

lemma spec_side_agree:
  assumes "\<And>p. p \<notin> touched ls \<Longrightarrow> f p = g p"
  shows "spec_side f ls = spec_side g ls"
  using assms by (auto simp: fun_eq_iff spec_side_final touched_def split: option.splits)


subsection \<open>Replaying deltas\<close>

fun run_deltas :: "order_book \<Rightarrow> book_delta list \<Rightarrow> order_book \<times> apply_outcome list" where
  "run_deltas b [] = (b, [])"
| "run_deltas b (d # ds) =
     (fst (run_deltas (fst (apply_delta b d)) ds),
      snd (apply_delta b d) # snd (run_deltas (fst (apply_delta b d)) ds))"

text \<open>
  What the exchange promises of the deltas of one product: each names the timestamp the
  previous one ended at and ends later.
\<close>

fun chain :: "u64 \<Rightarrow> book_delta list \<Rightarrow> bool" where
  "chain t [] \<longleftrightarrow> True"
| "chain t (d # ds) \<longleftrightarrow>
     bd_last_max_timestamp d = t \<and> t < bd_max_timestamp d \<and> chain (bd_max_timestamp d) ds"

text \<open>The levels of a side as a snapshot lists them.\<close>

definition levels_of :: "(i128, i128) btree \<Rightarrow> price_level list" where
  "levels_of m = map (\<lambda>(p, s). PriceLevel p s) m"

lemma run_deltas_append:
  "run_deltas b (ds @ es) =
     (fst (run_deltas (fst (run_deltas b ds)) es),
      snd (run_deltas b ds) @ snd (run_deltas (fst (run_deltas b ds)) es))"
  by (induction ds arbitrary: b) auto

lemma book_inv_run: "book_inv b \<Longrightarrow> book_inv (fst (run_deltas b ds))"
  by (induction ds arbitrary: b) (auto simp: book_inv_apply)

lemma apply_delta_chained:
  assumes "bd_last_max_timestamp d = ob_last_ts b" "ob_last_ts b < bd_max_timestamp d"
  shows "snd (apply_delta b d) = Applied"
    and "ob_last_ts (fst (apply_delta b d)) = bd_max_timestamp d"
  using assms by (auto simp: apply_delta_def)

lemma chain_Cons:
  "chain (ob_last_ts b) (d # ds) \<longleftrightarrow>
     snd (apply_delta b d) = Applied \<and> bd_last_max_timestamp d = ob_last_ts b \<and>
     ob_last_ts b < ob_last_ts (fst (apply_delta b d)) \<and>
     ob_last_ts (fst (apply_delta b d)) = bd_max_timestamp d \<and>
     chain (ob_last_ts (fst (apply_delta b d))) ds"
  using apply_delta_chained [of d b] by auto

lemma run_deltas_chained:
  "chain (ob_last_ts b) ds \<Longrightarrow> snd (run_deltas b ds) = replicate (length ds) Applied"
proof (induction ds arbitrary: b)
  case Nil
  then show ?case by simp
next
  case (Cons d ds)
  have c: "snd (apply_delta b d) = Applied" "chain (ob_last_ts (fst (apply_delta b d))) ds"
    using Cons.prems unfolding chain_Cons by blast+
  show ?case using Cons.IH [OF c(2)] c(1) by simp
qed

lemma chain_append:
  "chain (ob_last_ts b) (ds @ es) \<longleftrightarrow>
     chain (ob_last_ts b) ds \<and> chain (ob_last_ts (fst (run_deltas b ds))) es"
proof (induction ds arbitrary: b)
  case Nil
  then show ?case by simp
next
  case (Cons d ds)
  show ?case by (simp only: append_Cons chain_Cons Cons.IH run_deltas.simps fst_conv conj_assoc)
qed

lemma chain_grows: "chain (ob_last_ts b) ds \<Longrightarrow> ob_last_ts b \<le> ob_last_ts (fst (run_deltas b ds))"
proof (induction ds arbitrary: b)
  case Nil
  then show ?case by simp
next
  case (Cons e es)
  have c: "ob_last_ts b < ob_last_ts (fst (apply_delta b e))"
    "chain (ob_last_ts (fst (apply_delta b e))) es"
    using Cons.prems unfolding chain_Cons by blast+
  from Cons.IH [OF c(2)] c(1) show ?case by simp
qed

lemma chain_upto_last:
  "chain (ob_last_ts b) ds \<Longrightarrow> d \<in> set ds \<Longrightarrow>
     bd_max_timestamp d \<le> ob_last_ts (fst (run_deltas b ds))"
proof (induction ds arbitrary: b)
  case Nil
  then show ?case by simp
next
  case (Cons e es)
  let ?b = "fst (apply_delta b e)"
  have c: "ob_last_ts ?b = bd_max_timestamp e" "chain (ob_last_ts ?b) es"
    using Cons.prems(1) unfolding chain_Cons by blast+
  show ?case
    using Cons.IH [OF c(2)] chain_grows [OF c(2)] c(1) Cons.prems(2) by auto
qed

lemma run_deltas_stale:
  "\<forall>d\<in>set ds. bd_max_timestamp d \<le> ob_last_ts b \<Longrightarrow>
     run_deltas b ds = (b, replicate (length ds) Stale)"
  by (induction ds) (auto simp: apply_delta_def Let_def)

text \<open>Loading the levels of a side, in any order, gives the side back.\<close>

lemma load_levels_get:
  "bt_wf t \<Longrightarrow> distinct (map fst m) \<Longrightarrow> \<forall>(p, s)\<in>set m. 0 < s \<Longrightarrow>
     bt_wf (load_side t (levels_of m)) \<and> bt_get (load_side t (levels_of m)) = bt_get t ++ map_of m"
proof (induction m arbitrary: t)
  case Nil
  then show ?case by (simp add: load_side_def levels_of_def)
next
  case (Cons x m)
  obtain p s where x: "x = (p, s)" by (cases x)
  have "0 < s" using Cons.prems x by simp
  then have step: "load_side t (levels_of (x # m)) = load_side (bt_insert p s t) (levels_of m)"
    by (simp add: x load_side_def levels_of_def load_level_def)
  have "p \<notin> dom (map_of m)" using Cons.prems(2) x by (simp add: dom_map_of_conv_image_fst)
  then have "(bt_get t)(p \<mapsto> s) ++ map_of m = bt_get t ++ map_of (x # m)"
    by (auto simp: x fun_eq_iff map_add_def split: option.splits)
  moreover have "bt_wf (bt_insert p s t)" "distinct (map fst m)" "\<forall>(p, s)\<in>set m. 0 < s"
    using Cons.prems by (auto simp: bt_wf_insert)
  ultimately show ?case
    using Cons.IH [of "bt_insert p s t"] by (simp only: step bt_get_insert)
qed

lemma load_levels:
  assumes inv: "side_inv m" and set: "set l = set m" and dist: "distinct (map fst l)"
  shows "load_side [] (levels_of l) = m"
proof -
  have wf: "bt_wf m" and pos: "\<forall>(p, s)\<in>set l. 0 < s"
    using inv set by (auto simp: side_inv_def)
  have "map_of l = map_of m"
    using set dist bt_wf_distinct [OF wf] by (simp add: map_of_inject_set)
  then show ?thesis
    using load_levels_get [of "[]" l] dist pos wf
    by (intro bt.lookup_ext) (auto simp: bt_get_def)
qed

lemma load_levels_self: "side_inv m \<Longrightarrow> load_side [] (levels_of m) = m"
  by (rule load_levels) (auto simp: side_inv_def bt_wf_distinct)

lemma load_levels_rev: "side_inv m \<Longrightarrow> load_side [] (levels_of (rev m)) = m"
  by (rule load_levels) (auto simp: side_inv_def bt_wf_distinct rev_map [symmetric])

text \<open>The snapshot of a book, best levels first, loads that book.\<close>

lemma reset_from_snapshot_of:
  assumes "book_inv b"
  shows "reset_from_snapshot b0 (levels_of (rev (ob_bids b))) (levels_of (ob_asks b)) (ob_last_ts b) = b"
  using assms by (simp add: reset_from_snapshot_def book_inv_def load_levels_self load_levels_rev)

subsection \<open>The depth view\<close>

text \<open>The prices of a side best first, and the sizes the totals add up.\<close>

definition view_sums :: "i128 \<Rightarrow> (i128 \<times> i128) list \<Rightarrow> i128 list" where
  "view_sums t ls = map (\<lambda>i. t + sum_list (map snd (take (Suc i) ls))) [0..<length ls]"

lemma view_sums_Cons: "view_sums t ((p, s) # ls) = (t + s) # view_sums (t + s) ls"
proof -
  have "[0..<Suc (length ls)] = 0 # map Suc [0..<length ls]"
    by (metis map_Suc_upt upt_conv_Cons zero_less_Suc)
  then show ?thesis by (simp add: view_sums_def del: upt_Suc)
qed

lemma level_views_spec:
  "0 \<le> t \<Longrightarrow> \<forall>(p, s)\<in>set ls. 0 < s \<Longrightarrow>
     level_views t ls =
       (if ls = [] \<or> t + sum_list (map snd ls) \<le> i128_max
        then Some (map2 (\<lambda>(p, s) t. level_view p s t) ls (view_sums t ls)) else None)"
proof (induction ls arbitrary: t)
  case Nil
  then show ?case by simp
next
  case (Cons x ls)
  obtain p s where x: "x = (p, s)" by (cases x)
  have s: "0 < s" and pos: "\<forall>(p, s)\<in>set ls. 0 < s" using Cons.prems x by auto
  have sum: "0 \<le> sum_list (map snd ls)" using pos by (intro sum_list_nonneg) auto
  show ?case
  proof (cases "t + s \<le> i128_max")
    case True
    then have "in_i128 (t + s)"
      using Cons.prems s by (auto simp: in_i128_def i128_min_def)
    then show ?thesis
      using Cons.IH [of "t + s"] Cons.prems s pos True
      by (cases "ls = []") (auto simp: x view_sums_Cons add.assoc chk_i128_def)
  next
    case False
    then have "\<not> in_i128 (t + s)" by (auto simp: in_i128_def)
    then show ?thesis using False sum by (auto simp: x chk_i128_def)
  qed
qed

lemma side_inv_take: "side_inv m \<Longrightarrow> \<forall>(p, s)\<in>set (take n m). 0 < s"
  by (auto simp: side_inv_def dest: in_set_takeD)

lemma side_inv_take_rev: "side_inv m \<Longrightarrow> \<forall>(p, s)\<in>set (take n (rev m)). 0 < s"
  unfolding side_inv_def by (metis in_set_takeD set_rev)

lemma level_views_columns:
  assumes "vs = map2 (\<lambda>(p, s) t. level_view p s t) ls (view_sums 0 ls)"
  shows "map plv_price_x18 vs = map (show_int \<circ> fst) ls"
    and "map plv_size_x18 vs = map (show_int \<circ> snd) ls"
    and "map plv_total_x18 vs = map show_int (view_sums 0 ls)"
proof -
  have len: "length (view_sums 0 ls) = length ls" by (simp add: view_sums_def)
  show "map plv_price_x18 vs = map (show_int \<circ> fst) ls"
    "map plv_size_x18 vs = map (show_int \<circ> snd) ls"
    "map plv_total_x18 vs = map show_int (view_sums 0 ls)"
    by (rule nth_equalityI; auto simp: assms len level_view_def split: prod.splits)+
qed

subsection \<open>Properties\<close>

text \<open>C1: Applying a delta keeps the book sorted with positive sizes only, and does what its
  outcome says. A delta that ends at or before the book's timestamp is Stale and one that
  starts after it is a Gap that reports both timestamps, and either leaves the book alone;
  any other delta is Applied: the timestamp moves strictly forward to the end of the delta,
  and on each side a price the delta does not set keeps its size, while a price it sets has
  the size of its last entry that is not negative, with zero meaning that the level is gone.\<close>

theorem apply_delta_correct:
  assumes inv: "book_inv b"
  shows "case apply_delta b d of (b', r) \<Rightarrow>
     book_inv b' \<and>
     r = (if bd_max_timestamp d \<le> ob_last_ts b then Stale
          else if ob_last_ts b < bd_last_max_timestamp d
          then Gap (ob_last_ts b) (bd_last_max_timestamp d) else Applied) \<and>
     (if r = Applied
      then ob_last_ts b < ob_last_ts b' \<and> ob_last_ts b' = bd_max_timestamp d \<and>
        (\<forall>p. bt_get (ob_bids b') p =
           (case final_level (bd_bids d) p of None \<Rightarrow> bt_get (ob_bids b) p
            | Some l \<Rightarrow> if ld_size_x18 l = 0 then None else Some (ld_size_x18 l))) \<and>
        (\<forall>p. bt_get (ob_asks b') p =
           (case final_level (bd_asks d) p of None \<Rightarrow> bt_get (ob_asks b) p
            | Some l \<Rightarrow> if ld_size_x18 l = 0 then None else Some (ld_size_x18 l)))
      else b' = b)"
proof -
  have "bt_wf (ob_bids b)" "bt_wf (ob_asks b)"
    using inv by (simp_all add: book_inv_def side_inv_wf)
  then show ?thesis
    using book_inv_apply [OF inv, of d] inv
    by (auto simp: apply_delta_def bt_get_apply_side spec_side_final)
qed

theorem apply_delta_correct_witness:
  "case apply_delta \<lparr>ob_bids = [(5, 7)], ob_asks = [(6, 1)], ob_last_ts = 10\<rparr>
      \<lparr>bd_last_max_timestamp = 10, bd_min_timestamp = 10, bd_max_timestamp = 12,
       bd_bids = [\<lparr>ld_price_x18 = 5, ld_size_x18 = 0\<rparr>, \<lparr>ld_price_x18 = 4, ld_size_x18 = 3\<rparr>],
       bd_asks = []\<rparr> of (b', r) \<Rightarrow>
     book_inv b' \<and> r = Applied \<and> ob_bids b' = [(4, 3)] \<and> ob_last_ts b' = 12"
  using apply_delta_correct
    [of "\<lparr>ob_bids = [(5, 7)], ob_asks = [(6, 1)], ob_last_ts = 10\<rparr>"
        "\<lparr>bd_last_max_timestamp = 10, bd_min_timestamp = 10, bd_max_timestamp = 12,
          bd_bids = [\<lparr>ld_price_x18 = 5, ld_size_x18 = 0\<rparr>, \<lparr>ld_price_x18 = 4, ld_size_x18 = 3\<rparr>],
          bd_asks = []\<rparr>"]
  by (simp add: book_inv_def side_inv_def bt_wf_def apply_delta_def apply_side_delta_def
      apply_level_def)

text \<open>C2: A replica converges to the exchange's book. Take a run of chained deltas from a
  consistent book, and a snapshot taken after the first i of them; whatever the replica held
  before, once it is reset from the snapshot and given the deltas from position j on, for any
  j up to i, it finds the deltas the snapshot already holds Stale, applies every later one
  without a Gap, and ends in exactly the book that all the deltas lead to.\<close>

theorem replica_converges:
  assumes inv: "book_inv b" and chain: "chain (ob_last_ts b) ds"
    and i: "i \<le> length ds" and j: "j \<le> i"
  shows "let s = fst (run_deltas b (take i ds)) in
     run_deltas
       (reset_from_snapshot r (levels_of (rev (ob_bids s))) (levels_of (ob_asks s)) (ob_last_ts s))
       (drop j ds) =
     (fst (run_deltas b ds), replicate (i - j) Stale @ replicate (length ds - i) Applied)"
proof -
  let ?s = "fst (run_deltas b (take i ds))"
  have split: "chain (ob_last_ts b) (take i ds)" "chain (ob_last_ts ?s) (drop i ds)"
    using chain chain_append [of b "take i ds" "drop i ds"] by simp_all
  have "drop j ds = drop j (take i ds) @ drop (j - i) (drop i ds)"
    using drop_append [of j "take i ds" "drop i ds"] i by (simp add: min_absorb2)
  then have ds: "drop j ds = drop j (take i ds) @ drop i ds"
    using j by simp
  have "\<forall>d\<in>set (drop j (take i ds)). bd_max_timestamp d \<le> ob_last_ts ?s"
    using chain_upto_last [OF split(1)] by (auto dest: in_set_dropD)
  then have "run_deltas ?s (drop j (take i ds)) = (?s, replicate (i - j) Stale)"
    using run_deltas_stale [of "drop j (take i ds)" ?s] i by (simp add: min_absorb2)
  moreover have "fst (run_deltas ?s (drop i ds)) = fst (run_deltas b ds)"
    using run_deltas_append [of b "take i ds" "drop i ds"] by simp
  ultimately have "run_deltas ?s (drop j ds) =
      (fst (run_deltas b ds), replicate (i - j) Stale @ replicate (length ds - i) Applied)"
    using run_deltas_chained [OF split(2)] by (simp add: ds run_deltas_append)
  then show ?thesis
    using book_inv_run [OF inv] by (simp add: Let_def reset_from_snapshot_of)
qed

theorem replica_converges_witness:
  "let d = (\<lambda>a z p q. \<lparr>bd_last_max_timestamp = a, bd_min_timestamp = a, bd_max_timestamp = z,
        bd_bids = [\<lparr>ld_price_x18 = p, ld_size_x18 = q\<rparr>], bd_asks = []\<rparr>);
       ds = [d 0 3 5 7, d 3 4 6 1, d 4 9 5 0];
       s = fst (run_deltas default_book (take 2 ds)) in
     run_deltas
       (reset_from_snapshot default_book (levels_of (rev (ob_bids s))) (levels_of (ob_asks s))
         (ob_last_ts s))
       (drop 1 ds) = (fst (run_deltas default_book ds), [Stale, Applied])"
proof -
  let ?d = "\<lambda>a z p q. \<lparr>bd_last_max_timestamp = a, bd_min_timestamp = a, bd_max_timestamp = z,
        bd_bids = [\<lparr>ld_price_x18 = p, ld_size_x18 = q\<rparr>], bd_asks = []\<rparr>"
  have "chain (ob_last_ts default_book) [?d 0 3 5 7, ?d 3 4 6 1, ?d 4 9 5 0]"
    by (simp add: default_book_def)
  from replica_converges [OF book_inv_default this, of 2 1 default_book]
  show ?thesis by (simp add: Let_def)
qed

text \<open>C3: The depth view is the best levels of the book. Unless the running total leaves i128,
  which is the one way to fail and panics, each side of the view has the first depth levels
  in order, asks by ascending and bids by descending price, each with its own price and size
  and with the sum of the sizes up to it as its total, all printed as decimal integers.\<close>

theorem depth_view_correct:
  assumes inv: "book_inv b"
  shows "let asks = take depth (ob_asks b); bids = take depth (rev (ob_bids b)) in
     sorted_wrt (<) (map fst asks) \<and> sorted_wrt (>) (map fst bids) \<and>
     (case depth_view_of b depth of
        None \<Rightarrow> i128_max < sum_list (map snd asks) \<or> i128_max < sum_list (map snd bids)
      | Some v \<Rightarrow>
          sum_list (map snd asks) \<le> i128_max \<and> sum_list (map snd bids) \<le> i128_max \<and>
          map plv_price_x18 (dv_asks v) = map (show_int \<circ> fst) asks \<and>
          map plv_size_x18 (dv_asks v) = map (show_int \<circ> snd) asks \<and>
          map plv_total_x18 (dv_asks v) = map show_int (view_sums 0 asks) \<and>
          map plv_price_x18 (dv_bids v) = map (show_int \<circ> fst) bids \<and>
          map plv_size_x18 (dv_bids v) = map (show_int \<circ> snd) bids \<and>
          map plv_total_x18 (dv_bids v) = map show_int (view_sums 0 bids))"
proof -
  let ?a = "take depth (ob_asks b)" and ?b = "take depth (rev (ob_bids b))"
  have wf: "bt_wf (ob_asks b)" "bt_wf (ob_bids b)"
    using inv by (simp_all add: book_inv_def side_inv_wf)
  have asks: "sorted_wrt (<) (map fst ?a)"
    using bt_wf_sorted [OF wf(1)] by (simp add: take_map [symmetric] sorted_wrt_take)
  have bids: "sorted_wrt (>) (map fst ?b)"
    using bt_wf_sorted [OF wf(2)]
    by (simp add: take_map [symmetric] rev_map [symmetric] sorted_wrt_take sorted_wrt_rev)
  have pos: "\<forall>(p, s)\<in>set ?a. 0 < s" "\<forall>(p, s)\<in>set ?b. 0 < s"
    using inv by (auto simp: book_inv_def dest: side_inv_take side_inv_take_rev)
  have max: "0 \<le> i128_max" by (simp add: i128_max_def)
  have views:
    "level_views 0 ls = (if sum_list (map snd ls) \<le> i128_max
       then Some (map2 (\<lambda>(p, s) t. level_view p s t) ls (view_sums 0 ls)) else None)"
    if "\<forall>(p, s)\<in>set ls. 0 < s" for ls
    using level_views_spec [OF order_refl that] max by auto
  show ?thesis
    using asks bids level_views_columns [OF refl]
    by (simp add: Let_def depth_view_of_def views [OF pos(1)] views [OF pos(2)])
qed

theorem depth_view_correct_witness:
  "map plv_total_x18 (dv_bids (the (depth_view_of
      \<lparr>ob_bids = [(3, 10), (4, 20), (5, 7)], ob_asks = [(6, 1)], ob_last_ts = 10\<rparr> 2))) =
     [''7'', ''27'']"
proof -
  let ?b = "\<lparr>ob_bids = [(3, 10), (4, 20), (5, 7)], ob_asks = [(6, 1)], ob_last_ts = 10\<rparr>"
  have "book_inv ?b" by (simp add: book_inv_def side_inv_def bt_wf_def)
  from depth_view_correct [OF this, of 2] show ?thesis
    by (simp add: Let_def i128_max_def view_sums_def show_eval
        split: option.splits)
qed

text \<open>C4: The floating point columns of the view are close to the exact values: for every
  i128 the quotient by ten to the eighteenth is a finite number, within three units of the
  last place of 53 bits of the exact quotient, and it is zero only for zero.\<close>

theorem x18_to_f64_close:
  assumes "in_i128 v"
  shows "f_is_finite (x18_to_f64 v) \<and> (f_val (x18_to_f64 v) = 0 \<longleftrightarrow> v = 0) \<and>
     \<bar>f_val (x18_to_f64 v) - real_of_int v / 10 ^ 18\<bar> \<le> \<bar>real_of_int v\<bar> / 10 ^ 18 * (3 / 2 ^ 53)"
proof -
  have "f_val (x18_quotient v) \<noteq> 0" if "v \<noteq> 0"
    using x18_quotient_error(2) [OF assms] that by auto
  then show ?thesis
    using x18_quotient_error [OF assms] x18_quotient_zero
    by (auto simp: x18_to_f64_def x18_quotient_def)
qed

theorem x18_to_f64_close_witness:
  "f_is_finite (x18_to_f64 (- 25)) \<and> f_val (x18_to_f64 (- 25)) \<noteq> 0"
  using x18_to_f64_close [of "- 25"] by (simp add: in_i128_iff)

end
