(* ===== verification/Json.thy ===== *)
theory Json
  imports F64
begin

text \<open>
  The JSON value of serde_json (an enum with the documented variants and accessors), as the
  gateways read it when they pick an event or a response apart by hand. An object is an
  association list with distinct keys. Reading a value from text and printing it are the
  library's and are parameters of the definitions that use them.
\<close>

datatype jnum = PosInt u64 | NegInt i64 | JFloat f64

datatype json =
    JNull
  | JBool bool
  | JNumber jnum
  | JString string
  | JArray "json list"
  | JObject "(string \<times> json) list"

fun as_str :: "json \<Rightarrow> string option" where
  "as_str (JString s) = Some s"
| "as_str v = None"

fun as_u64 :: "json \<Rightarrow> u64 option" where
  "as_u64 (JNumber (PosInt n)) = Some n"
| "as_u64 v = None"

fun as_i64 :: "json \<Rightarrow> i64 option" where
  "as_i64 (JNumber (PosInt n)) = (if int (unat n) \<le> i64_max then Some (int (unat n)) else None)"
| "as_i64 (JNumber (NegInt n)) = Some n"
| "as_i64 v = None"

fun as_bool :: "json \<Rightarrow> bool option" where
  "as_bool (JBool b) = Some b"
| "as_bool v = None"

fun as_array :: "json \<Rightarrow> json list option" where
  "as_array (JArray vs) = Some vs"
| "as_array v = None"

fun as_object :: "json \<Rightarrow> (string \<times> json) list option" where
  "as_object (JObject kvs) = Some kvs"
| "as_object v = None"

text \<open>Value::get with a key: None unless the value is an object that has the key.\<close>

definition json_get :: "string \<Rightarrow> json \<Rightarrow> json option" where
  "json_get k v = Option.bind (as_object v) (\<lambda>kvs. map_of kvs k)"

lemma json_get_simps [simp]:
  "json_get k (JObject kvs) = map_of kvs k"
  "json_get k JNull = None" "json_get k (JBool b) = None" "json_get k (JNumber n) = None"
  "json_get k (JString s) = None" "json_get k (JArray vs) = None"
  by (simp_all add: json_get_def)

text \<open>Conversions the gateways share in shape: a number, or a decimal string.\<close>

definition json_u64 :: "json \<Rightarrow> u64 option" where
  "json_u64 v = opt_or (as_u64 v) (Option.bind (as_str v) parse_u64)"

definition json_u32 :: "json \<Rightarrow> u32 option" where
  "json_u32 v =
     opt_or (Option.bind (as_u64 v) (\<lambda>n. if unat n < 2 ^ 32 then Some (ucast n) else None))
       (Option.bind (as_str v) parse_u32)"

definition json_i128 :: "json \<Rightarrow> i128 option" where
  "json_i128 v =
     opt_or (as_i64 v) (opt_or (map_option (\<lambda>n. int (unat n)) (as_u64 v))
       (Option.bind (as_str v) parse_i128))"

lemma json_u64_string [simp]: "json_u64 (JString (show_u64 n)) = Some n"
  by (simp add: json_u64_def)

lemma json_u32_string [simp]: "json_u32 (JString (show_u32 n)) = Some n"
  by (simp add: json_u32_def)

lemma json_u64_number [simp]: "json_u64 (JNumber (PosInt n)) = Some n"
  by (simp add: json_u64_def)

lemma json_i128_string [simp]: "in_i128 x \<Longrightarrow> json_i128 (JString (show_int x)) = Some x"
  by (simp add: json_i128_def)

end
