(* ===== verification/ClientMode.thy ===== *)
theory ClientMode
  imports RustStr
begin

text \<open>
  The networks the SDK can talk to (nado-rust-sdk/src/utils/client_mode.rs) with the URLs it
  derives from them, and the readers of the gateways' configuration: an environment is a
  function from variable names to values, None for a variable that is not set.
\<close>

type_synonym environment = "string \<Rightarrow> string option"

datatype client_mode = Test | Prod | Local | LocalAlt

definition get_domain :: "environment \<Rightarrow> string" where
  "get_domain env =
     (if to_lowercase (unwrap_or ''false'' (env ''USE_BACKUP_PUBLIC_BACKEND'')) = ''true''
      then ''nado-backend.xyz'' else ''nado.xyz'')"

fun nado_envtag :: "client_mode \<Rightarrow> string" where
  "nado_envtag Test = ''test''"
| "nado_envtag Prod = ''prod''"
| "nado_envtag Local = ''local''"
| "nado_envtag LocalAlt = ''local-alt''"

text \<open>None is the panic on an unknown tag.\<close>

definition from_envtag :: "string \<Rightarrow> client_mode option" where
  "from_envtag envtag =
     (if envtag = ''test'' then Some Test
      else if envtag = ''prod'' then Some Prod
      else if envtag = ''local'' then Some Local
      else if envtag = ''local-alt'' then Some LocalAlt
      else None)"

definition is_local :: "client_mode \<Rightarrow> bool" where
  "is_local m \<longleftrightarrow> m = Local \<or> m = LocalAlt"

definition default_gateway_url :: "environment \<Rightarrow> client_mode \<Rightarrow> string" where
  "default_gateway_url env m =
     (if is_local m
      then ''http://gateway.'' @ nado_envtag m @ ''.'' @ get_domain env @ '':80/v1''
      else ''https://gateway.'' @ nado_envtag m @ ''.'' @ get_domain env @ ''/v1'')"

definition default_trigger_url :: "environment \<Rightarrow> client_mode \<Rightarrow> string" where
  "default_trigger_url env m =
     (if is_local m
      then ''http://trigger.'' @ nado_envtag m @ ''.'' @ get_domain env @ '':8080/v1''
      else ''https://trigger.'' @ nado_envtag m @ ''.'' @ get_domain env @ ''/v1'')"

definition default_archive_url :: "environment \<Rightarrow> client_mode \<Rightarrow> string" where
  "default_archive_url env m =
     (if is_local m
      then ''http://archive.'' @ nado_envtag m @ ''.'' @ get_domain env @ '':8000/v1''
      else ''https://archive.'' @ nado_envtag m @ ''.'' @ get_domain env @ ''/v1'')"

definition default_gateway_ws_url :: "environment \<Rightarrow> client_mode \<Rightarrow> string" where
  "default_gateway_ws_url env m =
     (if is_local m
      then ''ws://gateway.'' @ nado_envtag m @ ''.'' @ get_domain env @ '':80/ws''
      else ''wss://gateway.'' @ nado_envtag m @ ''.'' @ get_domain env @ ''/ws'')"

definition private_gateway_ws_url :: "client_mode \<Rightarrow> string" where
  "private_gateway_ws_url m =
     (if is_local m then ''ws://'' @ nado_envtag m @ ''-mm.nado-backend.xyz:80/ws''
      else ''wss://'' @ nado_envtag m @ ''-mm.nado-backend.xyz/ws'')"

definition private_gateway_subscription_url :: "client_mode \<Rightarrow> string" where
  "private_gateway_subscription_url m =
     (if is_local m then ''ws://'' @ nado_envtag m @ ''-mm.nado-backend.xyz:80/subscribe''
      else ''wss://'' @ nado_envtag m @ ''-mm.nado-backend.xyz/subscribe'')"

definition private_gateway_url :: "client_mode \<Rightarrow> string" where
  "private_gateway_url m =
     (if is_local m then ''http://'' @ nado_envtag m @ ''-mm.nado-backend.xyz:80''
      else ''https://'' @ nado_envtag m @ ''-mm.nado-backend.xyz'')"

lemma from_envtag_envtag: "from_envtag (nado_envtag m) = Some m"
  by (cases m) (simp_all add: from_envtag_def)

lemma from_envtag_Some_iff: "from_envtag t = Some m \<longleftrightarrow> t = nado_envtag m"
  by (cases m) (auto simp: from_envtag_def)

text \<open>
  The subscription socket the gateways derive from a gateway URL: the scheme becomes the
  websocket one and the path gets the suffix.
\<close>

definition ws_of_http :: "string \<Rightarrow> string" where
  "ws_of_http gateway =
     str_replace ''http://'' ''ws://'' (str_replace ''https://'' ''wss://'' gateway)"

definition derived_subscribe_url :: "string \<Rightarrow> string" where
  "derived_subscribe_url gateway =
     trim_end_matches (CHR ''/'') (ws_of_http gateway) @ ''/subscribe''"

text \<open>The reader of a network name, shared in shape by the configurations.\<close>

definition mode_of_name :: "string \<Rightarrow> client_mode option" where
  "mode_of_name v =
     (if v = ''test'' then Some Test
      else if v = ''prod'' then Some Prod
      else if v = ''local'' then Some Local
      else if v = ''local-alt'' \<or> v = ''local_alt'' then Some LocalAlt
      else None)"

definition read_mode :: "string \<Rightarrow> string \<Rightarrow> string + client_mode" where
  "read_mode var value =
     (let v = to_lowercase (trim value) in
      case mode_of_name v of
        Some m \<Rightarrow> Ok m
      | None \<Rightarrow> Err (''Unsupported '' @ var @ ''='' @ CHR 0x27 # v @ CHR 0x27 #
          ''. Expected one of: test, prod, local, local-alt''))"

definition read_bool :: "string \<Rightarrow> bool" where
  "read_bool value \<longleftrightarrow> to_lowercase (trim value) \<in> {''1'', ''true'', ''yes'', ''y'', ''on''}"

text \<open>A comma separated list, each entry trimmed, empty ones dropped.\<close>

definition read_list :: "(string \<Rightarrow> string) \<Rightarrow> string \<Rightarrow> string list" where
  "read_list f raw = filter (\<lambda>s. s \<noteq> []) (map f (split_on (CHR '','') raw))"

definition env_nonempty :: "environment \<Rightarrow> string \<Rightarrow> string option" where
  "env_nonempty env var = filter_opt (\<lambda>s. s \<noteq> []) (map_option trim (env var))"

definition usize_max :: nat where "usize_max = 2 ^ 64 - 1"

definition env_usize :: "environment \<Rightarrow> string \<Rightarrow> nat \<Rightarrow> nat" where
  "env_usize env var d = unwrap_or d (Option.bind (env var) (parse_unsigned usize_max))"

lemma mode_of_name_envtag: "mode_of_name (nado_envtag m) = Some m"
  by (cases m) (simp_all add: mode_of_name_def)

lemma read_list_nonempty: "s \<in> set (read_list f raw) \<Longrightarrow> s \<noteq> []"
  by (simp add: read_list_def)

end
