(* ===== verification/GatewayCommon.thy ===== *)
theory GatewayCommon
  imports Json ClientMode Collections
begin

text \<open>
  What the gateways have in common: the symbol directory, written out in the same words in
  gateway/orderbook/src/market.rs and gateway/chart/src/market.rs; the fan-out of messages to
  subscribers, each with an unbounded channel (its queue, and whether the receiving end is
  still there); the reader task that turns frames of the upstream socket into messages; and the
  loop of a websocket client. They are generic in the type of message.
\<close>

subsection \<open>The symbol directory\<close>

record symbol_info =
  si_symbol :: string
  si_product_id :: u32

record symbol_directory =
  sd_symbols :: "symbol_info list"
  sd_lookup :: "(string, u32) hashmap"

definition normalize_symbol :: "string \<Rightarrow> string" where
  "normalize_symbol s = to_uppercase (trim s)"

definition symbol_step ::
  "symbol_info list \<times> (string, u32) hashmap \<Rightarrow> symbol_info \<Rightarrow>
     symbol_info list \<times> (string, u32) hashmap" where
  "symbol_step acc d =
     (let canonical = normalize_symbol (si_symbol d) in
      if canonical = [] then acc
      else
        (let list = fst acc @ [\<lparr>si_symbol = canonical, si_product_id = si_product_id d\<rparr>];
             look = hm_insert canonical (si_product_id d) (snd acc) in
         case split_once (CHR ''_'') canonical of
           None \<Rightarrow> (list, look)
         | Some (alias, _) \<Rightarrow>
             (list, if trim alias \<noteq> [] then hm_or_insert (trim alias) (si_product_id d) look
                    else look)))"

text \<open>Vec::dedup_by_key: of a run of elements with the same key the first stays.\<close>

fun dedup_by_key :: "('a \<Rightarrow> 'k) \<Rightarrow> 'a list \<Rightarrow> 'a list" where
  "dedup_by_key f [] = []"
| "dedup_by_key f [x] = [x]"
| "dedup_by_key f (x # y # xs) =
     (if f y = f x then dedup_by_key f (x # xs) else x # dedup_by_key f (y # xs))"

definition dedup_symbols :: "symbol_info list \<Rightarrow> symbol_info list" where
  "dedup_symbols xs = dedup_by_key si_symbol xs"

text \<open>
  The argument lists the symbols the exchange returned, in the iteration order of the
  response's hash map.
\<close>

definition load_symbol_directory :: "symbol_info list \<Rightarrow> string + symbol_directory" where
  "load_symbol_directory data =
     (let (list, look) = foldl symbol_step ([], []) data;
          list = dedup_symbols (sort_key si_symbol list) in
      if list = [] then Err ''no symbols returned from Nado''
      else Ok \<lparr>sd_symbols = list, sd_lookup = look\<rparr>)"

definition canonical :: "symbol_info \<Rightarrow> string" where
  "canonical d = normalize_symbol (si_symbol d)"

definition listed :: "symbol_info list \<Rightarrow> symbol_info list" where
  "listed data = map (\<lambda>d. d\<lparr>si_symbol := canonical d\<rparr>) (filter (\<lambda>d. canonical d \<noteq> []) data)"

lemma symbol_step_fst:
  "fst (foldl symbol_step acc data) = fst acc @ listed data"
proof (induction data arbitrary: acc)
  case Nil
  then show ?case by (simp add: listed_def)
next
  case (Cons d data)
  have "fst (symbol_step acc d) = fst acc @ listed [d]"
    by (simp add: symbol_step_def listed_def canonical_def Let_def split: option.splits)
  then show ?case using Cons.IH [of "symbol_step acc d"] by (simp add: listed_def)
qed

text \<open>A symbol of its own always wins over an alias: it is stored with insert.\<close>

lemma symbol_step_lookup:
  assumes "k \<noteq> canonical d \<or> k = []" "hm_get (snd acc) k = Some p"
  shows "hm_get (snd (symbol_step acc d)) k = Some p"
  using assms
  by (auto simp: symbol_step_def canonical_def Let_def hm_get_insert hm_get_or_insert split: option.splits)

lemma symbol_step_own:
  assumes "canonical d \<noteq> []"
  shows "hm_get (snd (symbol_step acc d)) (canonical d) = Some (si_product_id d)"
  using assms
  by (auto simp: symbol_step_def canonical_def Let_def hm_get_insert hm_get_or_insert split: option.splits)

lemma lookup_kept:
  "\<forall>d\<in>set data. canonical d \<noteq> k \<Longrightarrow> hm_get (snd acc) k = Some p \<Longrightarrow>
     hm_get (snd (foldl symbol_step acc data)) k = Some p"
proof (induction data arbitrary: acc)
  case (Cons d data)
  have "hm_get (snd (symbol_step acc d)) k = Some p"
    using Cons.prems by (intro symbol_step_lookup) auto
  with Cons.IH [of "symbol_step acc d"] Cons.prems(1) show ?case by simp
qed simp

lemma lookup_own:
  assumes "d \<in> set data" "canonical d \<noteq> []" "distinct (map canonical data)"
  shows "hm_get (snd (foldl symbol_step acc data)) (canonical d) = Some (si_product_id d)"
  using assms
proof (induction data arbitrary: acc)
  case (Cons x data)
  show ?case
  proof (cases "d = x")
    case True
    then have "\<forall>y\<in>set data. canonical y \<noteq> canonical d" 
      using Cons.prems(3) by (simp add: True image_iff) metis
    then show ?thesis
      using lookup_kept [of data "canonical d" "symbol_step acc x" "si_product_id d"]
        symbol_step_own [of x acc] Cons.prems(2) True by simp
  qed (use Cons in auto)
qed simp

lemma dedup_by_key_distinct: "distinct (map f xs) \<Longrightarrow> dedup_by_key f xs = xs"
  by (induction f xs rule: dedup_by_key.induct) auto

lemma dedup_distinct: "distinct (map si_symbol xs) \<Longrightarrow> dedup_symbols xs = xs"
  by (simp add: dedup_symbols_def dedup_by_key_distinct)

text \<open>What a key of the directory stands for: a symbol, or its part before the underscore.\<close>

definition names_of :: "symbol_info \<Rightarrow> string set" where
  "names_of d = insert (canonical d)
     (case split_once (CHR ''_'') (canonical d) of None \<Rightarrow> {} | Some (a, _) \<Rightarrow> {trim a})"

lemma lookup_sound:
  assumes "hm_get (snd (foldl symbol_step acc data)) k = Some p"
  shows "hm_get (snd acc) k = Some p \<or> (\<exists>d\<in>set data. k \<in> names_of d \<and> k \<noteq> [] \<and> si_product_id d = p)"
  using assms
proof (induction data arbitrary: acc)
  case (Cons d data)
  then have "hm_get (snd (symbol_step acc d)) k = Some p \<or>
      (\<exists>d\<in>set data. k \<in> names_of d \<and> k \<noteq> [] \<and> si_product_id d = p)" by simp
  moreover have "hm_get (snd (symbol_step acc d)) k = Some p \<Longrightarrow>
      hm_get (snd acc) k = Some p \<or> (k \<in> names_of d \<and> k \<noteq> [] \<and> si_product_id d = p)"
    by (auto simp: symbol_step_def names_of_def canonical_def Let_def hm_get_insert hm_get_or_insert
        split: option.splits if_splits)
  ultimately show ?case by auto
qed simp

lemma normalize_idem [simp]: "normalize_symbol (normalize_symbol s) = normalize_symbol s"
  by (simp add: normalize_symbol_def trim_to_uppercase)

subsection \<open>Channels and the fan-out\<close>

record 'm channel =
  ch_queue :: "'m list"
  ch_open :: bool

text \<open>
  One pass over the subscribers: the message goes to every channel whose receiver is there,
  the ids of the others are collected and removed after the pass.
\<close>

fun send_all ::
  "'m \<Rightarrow> (u64, 'm channel) hashmap \<Rightarrow> (u64, 'm channel) hashmap \<times> u64 list" where
  "send_all m [] = ([], [])"
| "send_all m ((sid, c) # subs) =
     (let (subs', stale) = send_all m subs in
      if ch_open c then ((sid, c\<lparr>ch_queue := ch_queue c @ [m]\<rparr>) # subs', stale)
      else ((sid, c) # subs', sid # stale))"

definition emit_to :: "'m \<Rightarrow> (u64, 'm channel) hashmap \<Rightarrow> (u64, 'm channel) hashmap" where
  "emit_to m subs =
     (let (subs', stale) = send_all m subs in foldl (\<lambda>s i. hm_remove i s) subs' stale)"

definition push :: "'m \<Rightarrow> 'm channel \<Rightarrow> 'm channel" where
  "push m c = c\<lparr>ch_queue := ch_queue c @ [m]\<rparr>"

definition broadcast :: "'m \<Rightarrow> (u64, 'm channel) hashmap \<Rightarrow> (u64, 'm channel) hashmap" where
  "broadcast m subs = map (\<lambda>(i, c). (i, push m c)) (filter (\<lambda>(i, c). ch_open c) subs)"

lemma send_all_eq:
  "send_all m subs =
     (map (\<lambda>(i, c). (i, if ch_open c then push m c else c)) subs,
      map fst (filter (\<lambda>(i, c). \<not> ch_open c) subs))"
  by (induction m subs rule: send_all.induct) (auto simp: push_def)

lemma foldl_hm_remove: "foldl (\<lambda>s i. hm_remove i s) subs is = filter (\<lambda>(k, _). k \<notin> set is) subs"
proof (induction "is" arbitrary: subs)
  case Nil
  then show ?case by simp
next
  case (Cons i "is")
  show ?case by (simp add: Cons.IH) (auto simp: hm_remove_def intro: filter_cong)
qed

lemma emit_to_eq:
  assumes "hm_wf subs"
  shows "emit_to m subs = broadcast m subs"
proof -
  have closed: "i \<in> fst ` set (filter (\<lambda>(i, c). \<not> ch_open c) subs) \<longleftrightarrow> \<not> ch_open c"
    if "(i, c) \<in> set subs" for i c
  proof
    assume "i \<in> fst ` set (filter (\<lambda>(i, c). \<not> ch_open c) subs)"
    then obtain c' where "(i, c') \<in> set subs" "\<not> ch_open c'" by auto
    moreover have "c' = c"
      using that \<open>(i, c') \<in> set subs\<close> assms by (metis eq_key_imp_eq_value hm_wf_def)
    ultimately show "\<not> ch_open c" by simp
  next
    assume "\<not> ch_open c"
    with that show "i \<in> fst ` set (filter (\<lambda>(i, c). \<not> ch_open c) subs)" by force
  qed
  have "filter (\<lambda>(k, _). k \<notin> fst ` set (filter (\<lambda>(i, c). \<not> ch_open c) subs))
      (map (\<lambda>(i, c). (i, if ch_open c then push m c else c)) subs) =
    map (\<lambda>(i, c). (i, if ch_open c then push m c else c)) (filter (\<lambda>(i, c). ch_open c) subs)"
    unfolding filter_map using closed
    by (intro arg_cong [where f = "map _"] filter_cong) (auto simp: o_def)
  also have "\<dots> = broadcast m subs"
    unfolding broadcast_def by (intro map_cong) auto
  finally show ?thesis
    by (simp add: emit_to_def send_all_eq foldl_hm_remove)
qed

lemma hm_wf_broadcast: "hm_wf subs \<Longrightarrow> hm_wf (broadcast m subs)"
proof -
  assume "hm_wf subs"
  moreover have "map fst (broadcast m subs) = map fst (filter (\<lambda>(i, c). ch_open c) subs)"
    by (simp add: broadcast_def o_def split_def)
  ultimately show ?thesis by (simp add: hm_wf_def distinct_map_filter)
qed

lemma hm_get_broadcast:
  "hm_wf subs \<Longrightarrow> hm_get (broadcast m subs) i =
     (case hm_get subs i of None \<Rightarrow> None
      | Some c \<Rightarrow> if ch_open c then Some (push m c) else None)"
proof (induction subs)
  case Nil
  then show ?case by (simp add: broadcast_def hm_get_def)
next
  case (Cons x subs)
  obtain k c where x: "x = (k, c)" by (cases x)
  have wf: "hm_wf subs" and k: "k \<notin> fst ` set subs"
    using Cons.prems x by (auto simp: hm_wf_def)
  have "hm_get subs k = None"
    using k by (simp add: hm_get_def map_of_eq_None_iff)
  then show ?case
    using Cons.IH [OF wf] by (auto simp: x broadcast_def hm_get_def)
qed

text \<open>The messages every subscriber with an open channel has been handed in between.\<close>

definition handed_to ::
  "(u64, 'm channel) hashmap \<Rightarrow> (u64, 'm channel) hashmap \<Rightarrow> 'm list \<Rightarrow> bool" where
  "handed_to subs subs' ms \<longleftrightarrow>
     hm_wf subs' \<and>
     (\<forall>i c. hm_get subs i = Some c \<longrightarrow> ch_open c \<longrightarrow>
        hm_get subs' i = Some (c\<lparr>ch_queue := ch_queue c @ ms\<rparr>))"

lemma handed_to_refl: "hm_wf subs \<Longrightarrow> handed_to subs subs []"
  by (simp add: handed_to_def)

lemma handed_to_emit: "handed_to subs subs' ms \<Longrightarrow> handed_to subs (emit_to m subs') (ms @ [m])"
  by (simp add: handed_to_def emit_to_eq hm_wf_broadcast hm_get_broadcast push_def)

lemma handed_to_trans:
  "handed_to subs subs1 ms \<Longrightarrow> handed_to subs1 subs2 ns \<Longrightarrow> handed_to subs subs2 (ms @ ns)"
  by (fastforce simp: handed_to_def)

subsection \<open>The upstream reader\<close>

datatype upstream_inbound = In_Text string | In_Closed string | In_Error string

text \<open>
  The reader task: it turns the frames of the upstream socket into messages for the session
  and stops at the first bad text, close or read error. Checking UTF-8 is the library's; the
  gateways differ in how they word a read error.
\<close>

datatype ws_frame =
    Frame_Text bytes
  | Frame_Binary bytes
  | Frame_Ping
  | Frame_Pong
  | Frame_Close string
  | Frame_Error string

fun reader_task :: "(string \<Rightarrow> string) \<Rightarrow> (bytes \<Rightarrow> string option) \<Rightarrow> ws_frame list \<Rightarrow> upstream_inbound list" where
  "reader_task read_error from_utf8 [] = []"
| "reader_task read_error from_utf8 (Frame_Text b # fs) =
     (case from_utf8 b of
        Some txt \<Rightarrow> In_Text txt # reader_task read_error from_utf8 fs
      | None \<Rightarrow> [In_Error ''received invalid utf8 text frame''])"
| "reader_task read_error from_utf8 (Frame_Binary b # fs) =
     (case from_utf8 b of
        Some txt \<Rightarrow> In_Text txt # reader_task read_error from_utf8 fs
      | None \<Rightarrow> [In_Error ''received non-utf8 upstream binary frame''])"
| "reader_task read_error from_utf8 (Frame_Ping # fs) = reader_task read_error from_utf8 fs"
| "reader_task read_error from_utf8 (Frame_Pong # fs) = reader_task read_error from_utf8 fs"
| "reader_task read_error from_utf8 (Frame_Close frame # fs) =
     [In_Closed (''upstream websocket closed: '' @ frame)]"
| "reader_task read_error from_utf8 (Frame_Error e # fs) =
     [In_Error (read_error e)]"

subsection \<open>Websocket clients\<close>

datatype client_message = Ping "u64 option"

datatype 'm client_event =
    Ev_Update 'm
  | Ev_UpdatesEnded
  | Ev_Text string
  | Ev_Ping bytes
  | Ev_Close
  | Ev_Other
  | Ev_ReceiveError
  | Ev_Ended

datatype 'm out_frame = Out_Json 'm | Out_Pong bytes

text \<open>
  One round of the client's loop: the frame it sends, if any, and whether the loop goes on
  when the sending succeeds. Reading a client message from text is serde's, pong makes the gateway's pong message; now is the clock
  in milliseconds.
\<close>

definition client_round ::
  "(u64 \<Rightarrow> 'm) \<Rightarrow> (string \<Rightarrow> client_message option) \<Rightarrow> u64 \<Rightarrow> 'm client_event \<Rightarrow> 'm out_frame option \<times> bool" where
  "client_round pong from_text now ev =
     (case ev of
        Ev_Update m \<Rightarrow> (Some (Out_Json m), True)
      | Ev_UpdatesEnded \<Rightarrow> (None, False)
      | Ev_Text txt \<Rightarrow>
          (case from_text txt of
             Some (Ping ts) \<Rightarrow> (Some (Out_Json (pong (unwrap_or now ts))), True)
           | None \<Rightarrow> (None, True))
      | Ev_Ping payload \<Rightarrow> (Some (Out_Pong payload), True)
      | Ev_Close \<Rightarrow> (None, False)
      | Ev_Other \<Rightarrow> (None, True)
      | Ev_ReceiveError \<Rightarrow> (None, False)
      | Ev_Ended \<Rightarrow> (None, False))"

text \<open>Each event comes with the time and with whether a send in its round succeeds.\<close>

fun client_loop ::
  "(u64 \<Rightarrow> 'm) \<Rightarrow> (string \<Rightarrow> client_message option) \<Rightarrow> ('m client_event \<times> u64 \<times> bool) list \<Rightarrow> 'm out_frame list" where
  "client_loop pong from_text [] = []"
| "client_loop pong from_text ((ev, now, sent) # evs) =
     (let (frame, go) = client_round pong from_text now ev in
      case frame of
        None \<Rightarrow> if go then client_loop pong from_text evs else []
      | Some f \<Rightarrow> if sent then f # (if go then client_loop pong from_text evs else []) else [])"

subsection \<open>Sockets\<close>

text \<open>
  What a client's socket brings, for the gateways that answer a text they do not understand, and
  their answer: the outcome None ends the client, Some None is nothing to send.
\<close>

datatype socket_event =
    Sock_Text string
  | Sock_Ping bytes
  | Sock_Close
  | Sock_Other
  | Sock_Error
  | Sock_Ended

definition socket_round ::
  "(u64 \<Rightarrow> 'm) \<Rightarrow> (string \<Rightarrow> 'm) \<Rightarrow> (string \<Rightarrow> client_message option) \<Rightarrow> u64 \<Rightarrow> socket_event \<Rightarrow>
     'm out_frame option option" where
  "socket_round pong err from_text now ev =
     (case ev of
        Sock_Text txt \<Rightarrow>
          (case from_text txt of
             Some (Ping ts) \<Rightarrow> Some (Some (Out_Json (pong (unwrap_or now ts))))
           | None \<Rightarrow> Some (Some (Out_Json (err ''unsupported websocket command''))))
      | Sock_Ping payload \<Rightarrow> Some (Some (Out_Pong payload))
      | Sock_Close \<Rightarrow> None
      | Sock_Other \<Rightarrow> Some None
      | Sock_Error \<Rightarrow> None
      | Sock_Ended \<Rightarrow> None)"

end
