(* ===== verification/OrderBookFeed.thy ===== *)
theory OrderBookFeed
  imports OrderBook GatewayCommon
begin

text \<open>
  The feed of the orderbook gateway (gateway/orderbook/src/market.rs, main.rs, config.rs,
  protocol.rs): the symbol directory, the supervisor that keeps one market worker per symbol,
  the worker that follows the exchange's book_depth stream, and the fan-out to subscribers.
  A subscriber's channel is its queue and whether the receiving end is still there. Errors
  of the worker are the values of feed_error; feed_error_text prints them as the code does.
\<close>

subsection \<open>Messages\<close>

datatype server_message =
    Snapshot string u32 u64 u64 depth_view
  | Update string u32 u64 u64 u64 u64 depth_view
  | Status string u32 string string
  | ErrorMsg string
  | Pong u64

text \<open>The sequence number of a book message.\<close>

fun msg_seq :: "server_message \<Rightarrow> u64 option" where
  "msg_seq (Snapshot _ _ s _ _) = Some s"
| "msg_seq (Update _ _ s _ _ _ _) = Some s"
| "msg_seq _ = None"

subsection \<open>Market handles\<close>

record market_handle =
  mh_symbol :: string
  mh_product_id :: u32
  mh_depth :: nat
  mh_client_mode :: client_mode
  mh_nado_ws_url :: "string option"
  mh_state :: order_book
  mh_seq :: u64
  mh_next_subscriber_id :: u64
  mh_subscribers :: "(u64, server_message channel) hashmap"

definition new_market :: "string \<Rightarrow> u32 \<Rightarrow> nat \<Rightarrow> client_mode \<Rightarrow> string option \<Rightarrow> market_handle" where
  "new_market symbol pid depth mode url =
     \<lparr>mh_symbol = symbol, mh_product_id = pid, mh_depth = depth, mh_client_mode = mode,
      mh_nado_ws_url = url, mh_state = default_book, mh_seq = 1, mh_next_subscriber_id = 1,
      mh_subscribers = []\<rparr>"

definition next_seq :: "market_handle \<Rightarrow> u64 \<times> market_handle" where
  "next_seq h = (mh_seq h, h\<lparr>mh_seq := mh_seq h + 1\<rparr>)"

definition emit :: "server_message \<Rightarrow> market_handle \<Rightarrow> market_handle" where
  "emit m h = h\<lparr>mh_subscribers := emit_to m (mh_subscribers h)\<rparr>"

text \<open>None is the overflow panic of the depth view.\<close>

definition snapshot_message :: "market_handle \<Rightarrow> (server_message option \<times> market_handle) option" where
  "snapshot_message h =
     (if book_is_empty (mh_state h) then Some (None, h)
      else
        (let (seq, h') = next_seq h in
         do { v \<leftarrow> depth_view_of (mh_state h) (mh_depth h);
              Some (Some (Snapshot (mh_symbol h) (mh_product_id h) seq
                (ob_last_ts (mh_state h)) v), h') }))"

definition register :: "market_handle \<Rightarrow> u64 \<times> market_handle" where
  "register h =
     (let sid = mh_next_subscriber_id h in
      (sid, h\<lparr>mh_next_subscriber_id := sid + 1,
            mh_subscribers := hm_insert sid \<lparr>ch_queue = [], ch_open = True\<rparr> (mh_subscribers h)\<rparr>))"

definition subscribe :: "market_handle \<Rightarrow> (u64 \<times> server_message option \<times> market_handle) option" where
  "subscribe h =
     (let (sid, h') = register h in
      do { (s, h'') \<leftarrow> snapshot_message h'; Some (sid, s, h'') })"

definition unsubscribe :: "u64 \<Rightarrow> market_handle \<Rightarrow> market_handle" where
  "unsubscribe sid h = h\<lparr>mh_subscribers := hm_remove sid (mh_subscribers h)\<rparr>"

definition emit_snapshot :: "u64 \<Rightarrow> market_handle \<Rightarrow> market_handle option" where
  "emit_snapshot source_ts h =
     do { v \<leftarrow> depth_view_of (mh_state h) (mh_depth h);
          let (seq, h') = next_seq h;
          Some (emit (Snapshot (mh_symbol h) (mh_product_id h) seq source_ts v) h') }"

definition emit_status :: "string \<Rightarrow> string \<Rightarrow> market_handle \<Rightarrow> market_handle" where
  "emit_status status detail h = emit (Status (mh_symbol h) (mh_product_id h) status detail) h"

definition subscription_ws_url :: "environment \<Rightarrow> market_handle \<Rightarrow> string" where
  "subscription_ws_url env h =
     (case mh_nado_ws_url h of
        Some url \<Rightarrow> url
      | None \<Rightarrow> derived_subscribe_url (default_gateway_url env (mh_client_mode h)))"

subsection \<open>The supervisor\<close>

record supervisor =
  sv_client_mode :: client_mode
  sv_nado_ws_url :: "string option"
  sv_depth :: nat
  sv_symbols :: "symbol_info list"
  sv_lookup :: "(string, u32) hashmap"
  sv_markets :: "(string, market_handle) hashmap"

definition new_supervisor :: "client_mode \<Rightarrow> string option \<Rightarrow> nat \<Rightarrow> symbol_directory \<Rightarrow> supervisor" where
  "new_supervisor mode url depth dir =
     \<lparr>sv_client_mode = mode, sv_nado_ws_url = url, sv_depth = depth,
      sv_symbols = sd_symbols dir, sv_lookup = sd_lookup dir, sv_markets = []\<rparr>"

text \<open>
  The result also says whether a worker is spawned. Between the first look-up and the insertion
  another task may have created the market; the code looks again under the lock and keeps
  what is there, so the whole is one look-up followed by an insertion if it fails.
\<close>

definition ensure_market ::
  "string \<Rightarrow> supervisor \<Rightarrow> string + (market_handle \<times> bool \<times> supervisor)" where
  "ensure_market symbol sv =
     (let normalized = normalize_symbol symbol in
      case hm_get (sv_markets sv) normalized of
        Some existing \<Rightarrow> Ok (existing, False, sv)
      | None \<Rightarrow>
          (case hm_get (sv_lookup sv) normalized of
             None \<Rightarrow> Err (''unknown symbol '' @ CHR 0x27 # symbol @ [CHR 0x27])
           | Some pid \<Rightarrow>
               (let h = new_market normalized pid (sv_depth sv) (sv_client_mode sv)
                          (sv_nado_ws_url sv) in
                Ok (h, True, sv\<lparr>sv_markets := hm_insert normalized h (sv_markets sv)\<rparr>))))"

definition active_markets :: "supervisor \<Rightarrow> nat" where
  "active_markets sv = length (sv_markets sv)"

subsection \<open>Reading book_depth events\<close>

datatype (plugins only: code size) feed_error =
    SubscriptionError json
  | MissingField string
  | LevelsNotArray
  | LevelNotPair
  | LevelNotTwo
  | InvalidPrice
  | InvalidSize
  | BookGap string u64 u64
  | LiquidityFailed string u32 string
  | Upstream string

text \<open>The printer of JSON values is the library's.\<close>

fun feed_error_text :: "(json \<Rightarrow> string) \<Rightarrow> feed_error \<Rightarrow> string" where
  "feed_error_text show_json (SubscriptionError v) =
     ''upstream returned subscription error: '' @ show_json v"
| "feed_error_text show_json (MissingField f) = ''book_depth missing '' @ f"
| "feed_error_text show_json LevelsNotArray = ''expected levels array''"
| "feed_error_text show_json LevelNotPair = ''expected [price,size] level''"
| "feed_error_text show_json LevelNotTwo = ''expected exactly 2 level items''"
| "feed_error_text show_json InvalidPrice = ''invalid level price''"
| "feed_error_text show_json InvalidSize = ''invalid level size''"
| "feed_error_text show_json (BookGap s l e) =
     ''book_depth gap for '' @ s @ '': local_ts='' @ show_u64 l @ '' event_last_max_ts='' @ show_u64 e"
| "feed_error_text show_json (LiquidityFailed s p e) =
     ''failed get_market_liquidity for symbol='' @ s @ '' product_id='' @ show_u32 p @ '': '' @ e"
| "feed_error_text show_json (Upstream e) = e"

definition parse_level :: "json \<Rightarrow> feed_error + level_delta" where
  "parse_level level =
     (case as_array level of
        None \<Rightarrow> Err LevelNotPair
      | Some parts \<Rightarrow>
          (case parts of
             [p, s] \<Rightarrow>
               res_bind (ok_or InvalidPrice (json_i128 p)) (\<lambda>price.
               res_bind (ok_or InvalidSize (json_i128 s)) (\<lambda>size.
               Ok \<lparr>ld_price_x18 = price, ld_size_x18 = size\<rparr>))
           | _ \<Rightarrow> Err LevelNotTwo))"

definition parse_levels :: "json option \<Rightarrow> feed_error + level_delta list" where
  "parse_levels raw =
     (case raw of
        None \<Rightarrow> Ok []
      | Some raw \<Rightarrow>
          (case as_array raw of
             None \<Rightarrow> Err LevelsNotArray
           | Some levels \<Rightarrow> collect_res (map parse_level levels)))"

definition parse_book_depth_delta :: "json \<Rightarrow> u32 \<Rightarrow> feed_error + book_delta option" where
  "parse_book_depth_delta payload expected =
     (case as_object payload of
        None \<Rightarrow> Ok None
      | Some obj \<Rightarrow>
          (let event_type = to_lowercase (unwrap_or [] (Option.bind (map_of obj ''type'') as_str)) in
           if event_type \<noteq> ''book_depth'' then Ok None
           else
             res_bind (ok_or (MissingField ''product_id'')
               (Option.bind (map_of obj ''product_id'') json_u32)) (\<lambda>pid.
             if pid \<noteq> expected then Ok None
             else
               res_bind (ok_or (MissingField ''last_max_timestamp'')
                 (Option.bind (map_of obj ''last_max_timestamp'') json_u64)) (\<lambda>last_max.
               res_bind (ok_or (MissingField ''min_timestamp'')
                 (Option.bind (map_of obj ''min_timestamp'') json_u64)) (\<lambda>min_ts.
               res_bind (ok_or (MissingField ''max_timestamp'')
                 (Option.bind (map_of obj ''max_timestamp'') json_u64)) (\<lambda>max_ts.
               res_bind (parse_levels (map_of obj ''bids'')) (\<lambda>bids.
               res_bind (parse_levels (map_of obj ''asks'')) (\<lambda>asks.
               Ok (Some \<lparr>bd_last_max_timestamp = last_max, bd_min_timestamp = min_ts,
                 bd_max_timestamp = max_ts, bd_bids = bids, bd_asks = asks\<rparr>)))))))))"

subsection \<open>The worker\<close>

text \<open>The part of the event handler under the write lock.\<close>

definition apply_event ::
  "market_handle \<Rightarrow> book_delta \<Rightarrow> (market_handle \<times> (feed_error + (depth_view \<times> u64) option)) option" where
  "apply_event h d =
     (let (b, outcome) = apply_delta (mh_state h) d; h' = h\<lparr>mh_state := b\<rparr> in
      case outcome of
        Applied \<Rightarrow>
          do { v \<leftarrow> depth_view_of b (mh_depth h);
               Some (h', Ok (Some (v, ob_last_ts b))) }
      | Stale \<Rightarrow> Some (h', Ok None)
      | Gap current_ts event_ts \<Rightarrow> Some (h', Err (BookGap (mh_symbol h) current_ts event_ts)))"

text \<open>The reader of JSON text is the library's: None for text that is not JSON.\<close>

definition handle_upstream_json_text ::
  "(string \<Rightarrow> json option) \<Rightarrow> string \<Rightarrow> market_handle \<Rightarrow> (market_handle \<times> (feed_error + unit)) option" where
  "handle_upstream_json_text from_json txt h =
     (case from_json txt of
        None \<Rightarrow> Some (h, Ok ())
      | Some value \<Rightarrow>
          (let payload = unwrap_or value (json_get ''event'' value) in
           case opt_or (json_get ''error'' value) (json_get ''error'' payload) of
             Some e \<Rightarrow> Some (h, Err (SubscriptionError e))
           | None \<Rightarrow>
               (case parse_book_depth_delta payload (mh_product_id h) of
                  Inl e \<Rightarrow> Some (h, Err e)
                | Inr None \<Rightarrow> Some (h, Ok ())
                | Inr (Some d) \<Rightarrow>
                    do { (h1, r) \<leftarrow> apply_event h d;
                         case r of
                           Inl e \<Rightarrow> Some (h1, Err e)
                         | Inr None \<Rightarrow> Some (h1, Ok ())
                         | Inr (Some (v, source_ts)) \<Rightarrow>
                             (let (seq, h2) = next_seq h1 in
                              Some (emit (Update (mh_symbol h) (mh_product_id h) seq source_ts
                                (bd_min_timestamp d) (bd_max_timestamp d) v) h2, Ok ())) })))"

definition orderbook_read_error :: "string \<Rightarrow> string" where
  "orderbook_read_error e = ''upstream websocket read error: '' @ e"

text \<open>
  What the outside does in one run of the stream: it cannot be connected to or subscribed, or
  it is, the snapshot request fails or answers, and the reader delivers messages until it
  ends. The result of the run is always an error, as in the code.
\<close>

datatype stream_run = Not_Connected string | Connected "string + market_liquidity" "upstream_inbound list"

fun session_loop ::
  "(string \<Rightarrow> json option) \<Rightarrow> market_handle \<Rightarrow> upstream_inbound list \<Rightarrow> (market_handle \<times> feed_error) option" where
  "session_loop from_json h [] = Some (h, Upstream ''upstream websocket reader ended'')"
| "session_loop from_json h (In_Closed reason # es) = Some (h, Upstream reason)"
| "session_loop from_json h (In_Error reason # es) = Some (h, Upstream reason)"
| "session_loop from_json h (In_Text txt # es) =
     do { (h', r) \<leftarrow> handle_upstream_json_text from_json txt h;
          case r of
            Inl e \<Rightarrow> Some (h', e)
          | Inr _ \<Rightarrow> session_loop from_json h' es }"

definition run_upstream_session ::
  "(string \<Rightarrow> json option) \<Rightarrow> stream_run \<Rightarrow> market_handle \<Rightarrow> (market_handle \<times> feed_error) option" where
  "run_upstream_session from_json run h =
     (case run of
        Not_Connected e \<Rightarrow> Some (h, Upstream e)
      | Connected liquidity inbound \<Rightarrow>
          (let h1 = emit_status ''connected'' ''subscribed to nado book_depth'' h in
           case liquidity of
             Inl e \<Rightarrow> Some (h1, LiquidityFailed (mh_symbol h) (mh_product_id h) e)
           | Inr snap \<Rightarrow>
               (let h2 = h1\<lparr>mh_state := reset_from_snapshot (mh_state h1) (ml_bids snap)
                               (ml_asks snap) (ml_timestamp snap)\<rparr> in
                do { h3 \<leftarrow> emit_snapshot (ml_timestamp snap) h2;
                     session_loop from_json h3 inbound })))"

definition next_backoff :: "nat \<Rightarrow> nat" where
  "next_backoff backoff = min (backoff * 2) 15"

definition worker_iteration ::
  "(json \<Rightarrow> string) \<Rightarrow> (string \<Rightarrow> json option) \<Rightarrow> stream_run \<Rightarrow> market_handle \<Rightarrow> market_handle option" where
  "worker_iteration show_json from_json run h =
     do { (h', e) \<leftarrow> run_upstream_session from_json run
            (emit_status ''connecting'' ''connecting to nado'' h);
          Some (emit_status ''reconnecting'' (feed_error_text show_json e) h') }"

text \<open>The loop over a finite number of runs, with the sleeps between them in seconds.\<close>

fun run_worker_loop ::
  "(json \<Rightarrow> string) \<Rightarrow> (string \<Rightarrow> json option) \<Rightarrow> nat \<Rightarrow> stream_run list \<Rightarrow> market_handle \<Rightarrow>
     (market_handle \<times> nat list) option" where
  "run_worker_loop show_json from_json backoff [] h = Some (h, [])"
| "run_worker_loop show_json from_json backoff (run # runs) h =
     do { h1 \<leftarrow> worker_iteration show_json from_json run h;
          (h2, sleeps) \<leftarrow> run_worker_loop show_json from_json (next_backoff backoff) runs h1;
          Some (h2, backoff # sleeps) }"

subsection \<open>Websocket clients\<close>

definition first_message :: "market_handle \<Rightarrow> server_message option \<Rightarrow> server_message" where
  "first_message h snapshot =
     (case snapshot of
        Some m \<Rightarrow> m
      | None \<Rightarrow> Status (mh_symbol h) (mh_product_id h) ''warming_up'' ''waiting for first snapshot'')"

text \<open>
  A whole client connection, seen on its own: it registers, sends its first frame, runs its
  loop unless that failed, and unregisters on every way out.
\<close>

definition handle_ws_client ::
  "(string \<Rightarrow> client_message option) \<Rightarrow> bool \<Rightarrow> (server_message client_event \<times> u64 \<times> bool) list \<Rightarrow> market_handle \<Rightarrow>
     (server_message out_frame list \<times> market_handle) option" where
  "handle_ws_client from_text first_sent evs h =
     do { (sid, snapshot, h1) \<leftarrow> subscribe h;
          Some (if first_sent then Out_Json (first_message h1 snapshot) # client_loop Pong from_text evs
                else [],
                unsubscribe sid h1) }"

subsection \<open>Configuration\<close>

record ob_config =
  oc_bind_addr :: string
  oc_client_mode :: client_mode
  oc_depth :: nat
  oc_nado_ws_url :: "string option"
  oc_prewarm_symbols :: "string list"
  oc_prewarm_all :: bool

definition ob_config_from_env :: "environment \<Rightarrow> string + ob_config" where
  "ob_config_from_env env =
     res_bind (read_mode ''ORDERBOOK_NETWORK'' (unwrap_or ''test'' (env ''ORDERBOOK_NETWORK''))) (\<lambda>mode.
     let depth = env_usize env ''ORDERBOOK_DEPTH'' 20 in
     if depth = 0 then Err ''ORDERBOOK_DEPTH must be > 0''
     else Ok \<lparr>oc_bind_addr = unwrap_or ''0.0.0.0:3002'' (env ''ORDERBOOK_BIND_ADDR''),
              oc_client_mode = mode, oc_depth = depth,
              oc_nado_ws_url = env_nonempty env ''ORDERBOOK_NADO_WS_URL'',
              oc_prewarm_symbols =
                unwrap_or [] (map_option (read_list (\<lambda>s. to_uppercase (trim s))) (env ''ORDERBOOK_SYMBOLS'')),
              oc_prewarm_all = unwrap_or True (map_option read_bool (env ''ORDERBOOK_PREWARM_ALL''))\<rparr>)"

text \<open>The start of the service: the markets that get a worker before any client asks.\<close>

definition prewarm :: "ob_config \<Rightarrow> supervisor \<Rightarrow> supervisor" where
  "prewarm cfg sv =
     foldl (\<lambda>sv symbol. case ensure_market symbol sv of Inl _ \<Rightarrow> sv | Inr (_, _, sv') \<Rightarrow> sv') sv
       (if oc_prewarm_all cfg then map si_symbol (sv_symbols sv) else oc_prewarm_symbols cfg)"

subsection \<open>The fan-out\<close>

lemma emit_eq:
  "hm_wf (mh_subscribers h) \<Longrightarrow> emit m h = h\<lparr>mh_subscribers := broadcast m (mh_subscribers h)\<rparr>"
  by (simp add: emit_def emit_to_eq)

lemma emit_fields [simp]:
  "mh_symbol (emit m h) = mh_symbol h" "mh_product_id (emit m h) = mh_product_id h"
  "mh_depth (emit m h) = mh_depth h" "mh_state (emit m h) = mh_state h"
  "mh_seq (emit m h) = mh_seq h" "mh_next_subscriber_id (emit m h) = mh_next_subscriber_id h"
  by (simp_all add: emit_def split: prod.splits)

lemma hm_wf_emit: "hm_wf (mh_subscribers h) \<Longrightarrow> hm_wf (mh_subscribers (emit m h))"
  by (simp add: emit_eq hm_wf_broadcast)

definition handed :: "market_handle \<Rightarrow> market_handle \<Rightarrow> server_message list \<Rightarrow> bool" where
  "handed h h' ms \<longleftrightarrow> handed_to (mh_subscribers h) (mh_subscribers h') ms"

lemma handed_emit: "handed h h' ms \<Longrightarrow> handed h (emit m h') (ms @ [m])"
  by (simp add: handed_def emit_def handed_to_emit)

lemma handed_refl: "hm_wf (mh_subscribers h) \<Longrightarrow> handed h h []"
  by (simp add: handed_def handed_to_refl)

lemma handed_state [simp]:
  "handed h (h'\<lparr>mh_state := b\<rparr>) ms = handed h h' ms"
  "handed h (h'\<lparr>mh_seq := n\<rparr>) ms = handed h h' ms"
  by (simp_all add: handed_def)

subsection \<open>Events on the wire\<close>

text \<open>A book_depth event as the exchange writes it: timestamps and amounts as decimal strings.\<close>

definition level_json :: "level_delta \<Rightarrow> json" where
  "level_json l = JArray [JString (show_int (ld_price_x18 l)), JString (show_int (ld_size_x18 l))]"

definition delta_json :: "u32 \<Rightarrow> book_delta \<Rightarrow> json" where
  "delta_json pid d = JObject
     [(''type'', JString ''book_depth''),
      (''min_timestamp'', JString (show_u64 (bd_min_timestamp d))),
      (''max_timestamp'', JString (show_u64 (bd_max_timestamp d))),
      (''last_max_timestamp'', JString (show_u64 (bd_last_max_timestamp d))),
      (''product_id'', JString (show_u32 pid)),
      (''bids'', JArray (map level_json (bd_bids d))),
      (''asks'', JArray (map level_json (bd_asks d)))]"

definition delta_ok :: "book_delta \<Rightarrow> bool" where
  "delta_ok d \<longleftrightarrow> (\<forall>l\<in>set (bd_bids d @ bd_asks d). in_i128 (ld_price_x18 l) \<and> in_i128 (ld_size_x18 l))"

lemma parse_level_json:
  "in_i128 (ld_price_x18 l) \<Longrightarrow> in_i128 (ld_size_x18 l) \<Longrightarrow> parse_level (level_json l) = Ok l"
  by (simp add: parse_level_def level_json_def)

lemma parse_levels_json:
  assumes "\<forall>l\<in>set ls. in_i128 (ld_price_x18 l) \<and> in_i128 (ld_size_x18 l)"
  shows "parse_levels (Some (JArray (map level_json ls))) = Ok ls"
proof -
  have "map parse_level (map level_json ls) = map Ok ls"
    using assms by (simp add: parse_level_json)
  then show ?thesis by (simp add: parse_levels_def collect_res_Inr_iff)
qed

lemma parse_delta_json:
  assumes "delta_ok d"
  shows "parse_book_depth_delta (delta_json pid d) expected =
    Ok (if pid = expected then Some d else None)"
proof -
  have t: "to_lowercase ''book_depth'' = ''book_depth''" by code_simp
  show ?thesis
    using assms
    by (auto simp: parse_book_depth_delta_def delta_json_def delta_ok_def parse_levels_json t)
qed

lemma delta_json_no_error [simp]:
  "json_get ''error'' (delta_json pid d) = None" "json_get ''event'' (delta_json pid d) = None"
  by (simp_all add: delta_json_def)

subsection \<open>A session\<close>

lemma hm_wf_handed: "handed h h' ms \<Longrightarrow> hm_wf (mh_subscribers h')"
  by (simp add: handed_def handed_to_def)

definition same_market :: "market_handle \<Rightarrow> market_handle \<Rightarrow> bool" where
  "same_market h h' \<longleftrightarrow> mh_symbol h' = mh_symbol h \<and> mh_product_id h' = mh_product_id h \<and>
     mh_depth h' = mh_depth h"

text \<open>An event of the market that is stale changes nothing.\<close>

lemma handle_stale:
  assumes json: "from_json txt = Some (delta_json (mh_product_id h) d)" and ok: "delta_ok d"
    and stale: "apply_delta (mh_state h) d = (mh_state h, Stale)"
  shows "handle_upstream_json_text from_json txt h = Some (h, Ok ())"
  using assms by (simp add: handle_upstream_json_text_def parse_delta_json apply_event_def)

text \<open>The update that publishes a book.\<close>

definition update_of :: "market_handle \<Rightarrow> u64 \<Rightarrow> book_delta \<Rightarrow> order_book \<Rightarrow> server_message" where
  "update_of h seq d b =
     Update (mh_symbol h) (mh_product_id h) seq (ob_last_ts b) (bd_min_timestamp d)
       (bd_max_timestamp d) (the (depth_view_of b (mh_depth h)))"

lemma handle_applied:
  assumes json: "from_json txt = Some (delta_json (mh_product_id h) d)" and ok: "delta_ok d"
    and applied: "apply_delta (mh_state h) d = (b, Applied)"
    and view: "depth_view_of b (mh_depth h) \<noteq> None"
  shows "handle_upstream_json_text from_json txt h =
    Some (emit (update_of h (mh_seq h) d b) (h\<lparr>mh_state := b, mh_seq := mh_seq h + 1\<rparr>), Ok ())"
  using assms
  by (auto simp: handle_upstream_json_text_def parse_delta_json apply_event_def next_seq_def
      update_of_def)

text \<open>The updates a subscriber sees while a list of deltas is applied from a book on.\<close>

fun updates_of :: "market_handle \<Rightarrow> u64 \<Rightarrow> order_book \<Rightarrow> book_delta list \<Rightarrow> server_message list" where
  "updates_of h seq b [] = []"
| "updates_of h seq b (d # ds) =
     (let b' = fst (apply_delta b d) in update_of h seq d b' # updates_of h (seq + 1) b' ds)"

lemma update_of_same: "same_market h h' \<Longrightarrow> update_of h' = update_of h"
  by (simp add: same_market_def update_of_def fun_eq_iff)

lemma session_loop_stale:
  assumes "list_all2 (\<lambda>txt d. from_json txt = Some (delta_json (mh_product_id h) d)) ts ds"
    and "\<forall>d\<in>set ds. delta_ok d \<and> bd_max_timestamp d \<le> ob_last_ts (mh_state h)"
  shows "session_loop from_json h (map In_Text ts @ es) = session_loop from_json h es"
  using assms
proof (induction rule: list_all2_induct)
  case Nil
  then show ?case by simp
next
  case (Cons t ts d ds)
  then have "handle_upstream_json_text from_json t h = Some (h, Ok ())"
    by (intro handle_stale) (auto simp: apply_delta_def)
  then show ?case using Cons by simp
qed

lemma session_loop_applied:
  assumes "list_all2 (\<lambda>txt d. from_json txt = Some (delta_json (mh_product_id h0) d)) ts ds"
    and "\<forall>d\<in>set ds. delta_ok d" and "same_market h0 h" and "handed h0 h ms"
    and "chain (ob_last_ts (mh_state h)) ds"
    and "\<forall>k\<le>length ds. depth_view_of (fst (run_deltas (mh_state h) (take k ds))) (mh_depth h0) \<noteq> None"
  shows "\<exists>h'. session_loop from_json h (map In_Text ts) =
      Some (h', Upstream ''upstream websocket reader ended'') \<and> same_market h0 h' \<and>
    mh_state h' = fst (run_deltas (mh_state h) ds) \<and> mh_seq h' = mh_seq h + of_nat (length ds) \<and>
    handed h0 h' (ms @ updates_of h0 (mh_seq h) (mh_state h) ds)"
  using assms
proof (induction arbitrary: h ms rule: list_all2_induct)
  case Nil
  then show ?case by simp
next
  case (Cons t ts d ds)
  let ?b = "fst (apply_delta (mh_state h) d)"
  let ?m = "update_of h0 (mh_seq h) d ?b"
  let ?h = "emit ?m (h\<lparr>mh_state := ?b, mh_seq := mh_seq h + 1\<rparr>)"
  have c: "snd (apply_delta (mh_state h) d) = Applied" "chain (ob_last_ts ?b) ds"
    using Cons.prems(4) unfolding chain_Cons by blast+
  have view: "depth_view_of ?b (mh_depth h) \<noteq> None"
    using Cons.prems(5) [rule_format, of 1] Cons.prems(2) by (simp add: same_market_def)
  have step: "handle_upstream_json_text from_json t h = Some (?h, Ok ())"
  proof -
    have pid: "from_json t = Some (delta_json (mh_product_id h) d)"
      using Cons.hyps(1) Cons.prems(2) by (simp add: same_market_def)
    have app: "apply_delta (mh_state h) d = (?b, Applied)"
      using c(1) by (metis prod.collapse)
    have "delta_ok d" using Cons.prems(1) by simp
    from handle_applied [of from_json t h d, OF pid this app view] show ?thesis
      by (simp only: update_of_same [OF Cons.prems(2)])
  qed
  have "same_market h0 ?h" using Cons.prems(2) by (simp add: same_market_def)
  moreover have "handed h0 ?h (ms @ [?m])" using Cons.prems(3) by (intro handed_emit) simp
  moreover have "\<forall>k\<le>length ds. depth_view_of (fst (run_deltas (mh_state ?h) (take k ds))) (mh_depth h0) \<noteq> None"
    using Cons.prems(5) by (auto dest: spec [of _ "Suc _"])
  moreover have "\<forall>d\<in>set ds. delta_ok d" "chain (ob_last_ts (mh_state ?h)) ds"
    using Cons.prems(1) c(2) by simp_all
  ultimately obtain h' where h': "session_loop from_json ?h (map In_Text ts) =
      Some (h', Upstream ''upstream websocket reader ended'')" "same_market h0 h'"
    "mh_state h' = fst (run_deltas (mh_state ?h) ds)" "mh_seq h' = mh_seq ?h + of_nat (length ds)"
    "handed h0 h' ((ms @ [?m]) @ updates_of h0 (mh_seq ?h) (mh_state ?h) ds)"
    using Cons.IH [of ?h "ms @ [?m]"] by blast
  show ?case
  proof (intro exI conjI)
    show "session_loop from_json h (map In_Text (t # ts)) =
        Some (h', Upstream ''upstream websocket reader ended'')"
      using h'(1) by (simp add: step)
    show "same_market h0 h'" by (rule h'(2))
    show "mh_state h' = fst (run_deltas (mh_state h) (d # ds))" using h'(3) by simp
    show "mh_seq h' = mh_seq h + of_nat (length (d # ds))" using h'(4) by simp
    show "handed h0 h' (ms @ updates_of h0 (mh_seq h) (mh_state h) (d # ds))"
      using h'(5) by (simp add: Let_def)
  qed
qed

lemma run_session_replica:
  assumes wf: "hm_wf (mh_subscribers h)" and inv: "book_inv b"
    and chain: "chain (ob_last_ts b) (ds @ es)" and ok: "\<forall>d\<in>set (ds @ es). delta_ok d"
    and s: "s = fst (run_deltas b ds)"
    and txts: "list_all2 (\<lambda>txt d. from_json txt = Some (delta_json (mh_product_id h) d)) ts ds"
    and txts': "list_all2 (\<lambda>txt d. from_json txt = Some (delta_json (mh_product_id h) d)) ts' es"
    and view: "\<forall>k\<le>length es. depth_view_of (fst (run_deltas s (take k es))) (mh_depth h) \<noteq> None"
  shows "\<exists>h'. run_upstream_session from_json
      (Connected (Ok \<lparr>ml_bids = levels_of (rev (ob_bids s)), ml_asks = levels_of (ob_asks s),
                      ml_product_id = pid, ml_timestamp = ob_last_ts s\<rparr>) (map In_Text (ts @ ts'))) h =
      Some (h', Upstream ''upstream websocket reader ended'') \<and>
    mh_state h' = fst (run_deltas b (ds @ es)) \<and>
    mh_seq h' = mh_seq h + 1 + of_nat (length es) \<and>
    handed h h'
      ([Status (mh_symbol h) (mh_product_id h) ''connected'' ''subscribed to nado book_depth'',
        Snapshot (mh_symbol h) (mh_product_id h) (mh_seq h) (ob_last_ts s)
          (the (depth_view_of s (mh_depth h)))] @ updates_of h (mh_seq h + 1) s es)"
proof -
  let ?st = "Status (mh_symbol h) (mh_product_id h) ''connected'' ''subscribed to nado book_depth''"
  let ?sn = "Snapshot (mh_symbol h) (mh_product_id h) (mh_seq h) (ob_last_ts s)
    (the (depth_view_of s (mh_depth h)))"
  let ?h2 = "(emit ?st h)\<lparr>mh_state := s\<rparr>"
  let ?h3 = "emit ?sn (?h2\<lparr>mh_seq := mh_seq h + 1\<rparr>)"
  have ch: "chain (ob_last_ts b) ds" "chain (ob_last_ts s) es"
    using chain by (simp_all add: chain_append s)
  have reset: "reset_from_snapshot b0 (levels_of (rev (ob_bids s))) (levels_of (ob_asks s)) (ob_last_ts s) = s" for b0
    using book_inv_run [OF inv, of ds] by (simp add: reset_from_snapshot_of s)
  obtain v where v: "depth_view_of s (mh_depth h) = Some v"
    using view [rule_format, of 0] by auto
  have snap: "emit_snapshot (ob_last_ts s) ?h2 = Some ?h3"
    by (simp add: emit_snapshot_def next_seq_def v)
  have same: "same_market h ?h3" by (simp add: same_market_def)
  have handed: "handed h ?h3 [?st, ?sn]"
    using handed_emit [OF handed_refl [OF wf], of ?st]
      handed_emit [of h "?h2\<lparr>mh_seq := mh_seq h + 1\<rparr>" "[?st]" ?sn] by simp
  have "\<forall>d\<in>set ds. delta_ok d \<and> bd_max_timestamp d \<le> ob_last_ts (mh_state ?h3)"
    using chain_upto_last [OF ch(1)] ok by (auto simp: s)
  moreover have "mh_product_id ?h3 = mh_product_id h" by simp
  ultimately have stale: "session_loop from_json ?h3 (map In_Text ts @ map In_Text ts') =
      session_loop from_json ?h3 (map In_Text ts')"
    using txts session_loop_stale [of from_json ?h3 ts ds "map In_Text ts'"] by simp
  have st: "mh_state ?h3 = s" "mh_seq ?h3 = mh_seq h + 1" by simp_all
  obtain h' where h': "session_loop from_json ?h3 (map In_Text ts') =
      Some (h', Upstream ''upstream websocket reader ended'')"
    "mh_state h' = fst (run_deltas s es)" "mh_seq h' = mh_seq h + 1 + of_nat (length es)"
    "handed h h' ([?st, ?sn] @ updates_of h (mh_seq h + 1) s es)"
    using session_loop_applied [OF txts' _ same handed] ok ch(2) view
    unfolding st by (metis Un_iff set_append)
  have run: "run_upstream_session from_json
      (Connected (Ok \<lparr>ml_bids = levels_of (rev (ob_bids s)), ml_asks = levels_of (ob_asks s),
                      ml_product_id = pid, ml_timestamp = ob_last_ts s\<rparr>) (map In_Text (ts @ ts'))) h =
      session_loop from_json ?h3 (map In_Text ts @ map In_Text ts')"
    by (simp add: run_upstream_session_def emit_status_def Let_def reset snap)
  show ?thesis
  proof (intro exI conjI)
    show "run_upstream_session from_json
      (Connected (Ok \<lparr>ml_bids = levels_of (rev (ob_bids s)), ml_asks = levels_of (ob_asks s),
                      ml_product_id = pid, ml_timestamp = ob_last_ts s\<rparr>) (map In_Text (ts @ ts'))) h =
      Some (h', Upstream ''upstream websocket reader ended'')"
      by (simp only: run stale h'(1))
    show "mh_state h' = fst (run_deltas b (ds @ es))"
      using h'(2) by (simp add: run_deltas_append s)
  qed (use h' in simp_all)
qed

subsection \<open>The worker and its clients as interleaved steps\<close>

text \<open>
  The tasks of one market: the worker, and one task per websocket client. Each step is one
  critical section of the code. The worker applies an event or a snapshot, draws a sequence
  number and sends in separate steps; a client task registers, then takes its own snapshot,
  then writes what its queue delivers. The sequence numbers are followed up to the last u64.
\<close>

datatype worker_pc = W_Idle | W_Applied depth_view u64 u64 u64 | W_Emit server_message

record client_proc =
  cp_first :: bool
  cp_out :: "server_message list"

record market_sys =
  ms_handle :: market_handle
  ms_pc :: worker_pc
  ms_clients :: "(u64, client_proc) hashmap"

definition start_sys :: "market_handle \<Rightarrow> market_sys" where
  "start_sys h = \<lparr>ms_handle = h, ms_pc = W_Idle, ms_clients = []\<rparr>"

inductive market_step :: "market_sys \<Rightarrow> market_sys \<Rightarrow> bool" where
  register_client:
    "register (ms_handle s) = (sid, h') \<Longrightarrow>
     market_step s (s\<lparr>ms_handle := h',
       ms_clients := hm_insert sid \<lparr>cp_first = False, cp_out = []\<rparr> (ms_clients s)\<rparr>)"
| first_frame:
    "hm_get (ms_clients s) sid = Some c \<Longrightarrow> \<not> cp_first c \<Longrightarrow>
     snapshot_message (ms_handle s) = Some (m, h') \<Longrightarrow> mh_seq (ms_handle s) < - 1 \<Longrightarrow>
     market_step s (s\<lparr>ms_handle := h',
       ms_clients := hm_insert sid \<lparr>cp_first = True, cp_out = [first_message h' m]\<rparr> (ms_clients s)\<rparr>)"
| deliver:
    "hm_get (ms_clients s) sid = Some c \<Longrightarrow> cp_first c \<Longrightarrow>
     hm_get (mh_subscribers (ms_handle s)) sid = Some ch \<Longrightarrow> ch_queue ch = m # q \<Longrightarrow>
     market_step s (s\<lparr>ms_handle := (ms_handle s)\<lparr>mh_subscribers :=
         hm_insert sid (ch\<lparr>ch_queue := q\<rparr>) (mh_subscribers (ms_handle s))\<rparr>,
       ms_clients := hm_insert sid (c\<lparr>cp_out := cp_out c @ [m]\<rparr>) (ms_clients s)\<rparr>)"
| leave:
    "market_step s (s\<lparr>ms_handle := unsubscribe sid (ms_handle s),
       ms_clients := hm_remove sid (ms_clients s)\<rparr>)"
| drop_client:
    "hm_get (mh_subscribers (ms_handle s)) sid = Some ch \<Longrightarrow>
     market_step s (s\<lparr>ms_handle := (ms_handle s)\<lparr>mh_subscribers :=
         hm_insert sid (ch\<lparr>ch_open := False\<rparr>) (mh_subscribers (ms_handle s))\<rparr>,
       ms_clients := hm_remove sid (ms_clients s)\<rparr>)"
| apply_book:
    "ms_pc s = W_Idle \<Longrightarrow> apply_event (ms_handle s) d = Some (h', Ok (Some (v, ts))) \<Longrightarrow>
     market_step s (s\<lparr>ms_handle := h',
       ms_pc := W_Applied v ts (bd_min_timestamp d) (bd_max_timestamp d)\<rparr>)"
| draw_update:
    "ms_pc s = W_Applied v ts mn mx \<Longrightarrow> next_seq (ms_handle s) = (seq, h') \<Longrightarrow>
     mh_seq (ms_handle s) < - 1 \<Longrightarrow>
     market_step s (s\<lparr>ms_handle := h',
       ms_pc := W_Emit (Update (mh_symbol h') (mh_product_id h') seq ts mn mx v)\<rparr>)"
| reset_book:
    "ms_pc s = W_Idle \<Longrightarrow>
     market_step s (s\<lparr>ms_handle := (ms_handle s)\<lparr>mh_state :=
       reset_from_snapshot (mh_state (ms_handle s)) bids asks ts\<rparr>\<rparr>)"
| draw_snapshot:
    "ms_pc s = W_Idle \<Longrightarrow> depth_view_of (mh_state (ms_handle s)) (mh_depth (ms_handle s)) = Some v \<Longrightarrow>
     next_seq (ms_handle s) = (seq, h') \<Longrightarrow> mh_seq (ms_handle s) < - 1 \<Longrightarrow>
     market_step s (s\<lparr>ms_handle := h',
       ms_pc := W_Emit (Snapshot (mh_symbol h') (mh_product_id h') seq ts v)\<rparr>)"
| status:
    "ms_pc s = W_Idle \<Longrightarrow>
     market_step s (s\<lparr>ms_pc := W_Emit (Status (mh_symbol (ms_handle s))
       (mh_product_id (ms_handle s)) st detail)\<rparr>)"
| send:
    "ms_pc s = W_Emit m \<Longrightarrow>
     market_step s (s\<lparr>ms_handle := emit m (ms_handle s), ms_pc := W_Idle\<rparr>)"

definition reachable_market :: "market_handle \<Rightarrow> market_sys \<Rightarrow> bool" where
  "reachable_market h s \<longleftrightarrow> market_step\<^sup>*\<^sup>* (start_sys h) s"

text \<open>
  The same steps as a function of the chosen step, so that a run can be computed. None where
  the step is not enabled.
\<close>

datatype market_act =
    A_Register
  | A_First u64
  | A_Deliver u64
  | A_Leave u64
  | A_Apply book_delta
  | A_Draw
  | A_Reset "price_level list" "price_level list" u64
  | A_Snapshot u64
  | A_Status string string
  | A_Send

fun exec_step :: "market_act \<Rightarrow> market_sys \<Rightarrow> market_sys option" where
  "exec_step A_Register s =
     (let (sid, h) = register (ms_handle s) in
      Some (s\<lparr>ms_handle := h, ms_clients := hm_insert sid \<lparr>cp_first = False, cp_out = []\<rparr> (ms_clients s)\<rparr>))"
| "exec_step (A_First sid) s =
     (case hm_get (ms_clients s) sid of
        None \<Rightarrow> None
      | Some c \<Rightarrow>
          if cp_first c \<or> \<not> mh_seq (ms_handle s) < - 1 then None
          else do { (m, h) \<leftarrow> snapshot_message (ms_handle s);
            Some (s\<lparr>ms_handle := h, ms_clients := hm_insert sid
              \<lparr>cp_first = True, cp_out = [first_message h m]\<rparr> (ms_clients s)\<rparr>) })"
| "exec_step (A_Deliver sid) s =
     (case (hm_get (ms_clients s) sid, hm_get (mh_subscribers (ms_handle s)) sid) of
        (Some c, Some ch) \<Rightarrow>
          (case ch_queue ch of
             [] \<Rightarrow> None
           | m # q \<Rightarrow>
               if cp_first c then
                 Some (s\<lparr>ms_handle := (ms_handle s)\<lparr>mh_subscribers :=
                     hm_insert sid (ch\<lparr>ch_queue := q\<rparr>) (mh_subscribers (ms_handle s))\<rparr>,
                   ms_clients := hm_insert sid (c\<lparr>cp_out := cp_out c @ [m]\<rparr>) (ms_clients s)\<rparr>)
               else None)
      | _ \<Rightarrow> None)"
| "exec_step (A_Leave sid) s =
     Some (s\<lparr>ms_handle := unsubscribe sid (ms_handle s), ms_clients := hm_remove sid (ms_clients s)\<rparr>)"
| "exec_step (A_Apply d) s =
     (case (ms_pc s, apply_event (ms_handle s) d) of
        (W_Idle, Some (h, Inr (Some (v, ts)))) \<Rightarrow>
          Some (s\<lparr>ms_handle := h, ms_pc := W_Applied v ts (bd_min_timestamp d) (bd_max_timestamp d)\<rparr>)
      | _ \<Rightarrow> None)"
| "exec_step A_Draw s =
     (case ms_pc s of
        W_Applied v ts mn mx \<Rightarrow>
          if mh_seq (ms_handle s) < - 1 then
            (let (seq, h) = next_seq (ms_handle s) in
             Some (s\<lparr>ms_handle := h,
               ms_pc := W_Emit (Update (mh_symbol h) (mh_product_id h) seq ts mn mx v)\<rparr>))
          else None
      | _ \<Rightarrow> None)"
| "exec_step (A_Reset bids asks ts) s =
     (case ms_pc s of
        W_Idle \<Rightarrow> Some (s\<lparr>ms_handle := (ms_handle s)\<lparr>mh_state :=
          reset_from_snapshot (mh_state (ms_handle s)) bids asks ts\<rparr>\<rparr>)
      | _ \<Rightarrow> None)"
| "exec_step (A_Snapshot ts) s =
     (case (ms_pc s, depth_view_of (mh_state (ms_handle s)) (mh_depth (ms_handle s))) of
        (W_Idle, Some v) \<Rightarrow>
          if mh_seq (ms_handle s) < - 1 then
            (let (seq, h) = next_seq (ms_handle s) in
             Some (s\<lparr>ms_handle := h, ms_pc := W_Emit (Snapshot (mh_symbol h) (mh_product_id h) seq ts v)\<rparr>))
          else None
      | _ \<Rightarrow> None)"
| "exec_step (A_Status st detail) s =
     (case ms_pc s of
        W_Idle \<Rightarrow> Some (s\<lparr>ms_pc := W_Emit (Status (mh_symbol (ms_handle s))
          (mh_product_id (ms_handle s)) st detail)\<rparr>)
      | _ \<Rightarrow> None)"
| "exec_step A_Send s =
     (case ms_pc s of
        W_Emit m \<Rightarrow> Some (s\<lparr>ms_handle := emit m (ms_handle s), ms_pc := W_Idle\<rparr>)
      | _ \<Rightarrow> None)"

fun exec_steps :: "market_act list \<Rightarrow> market_sys \<Rightarrow> market_sys option" where
  "exec_steps [] s = Some s"
| "exec_steps (a # as) s = do { s' \<leftarrow> exec_step a s; exec_steps as s' }"

lemma exec_step_sound: "exec_step a s = Some s' \<Longrightarrow> market_step s s'"
  by (cases a)
    (auto simp: Let_def intro: market_step.intros
      split: option.splits list.splits if_splits worker_pc.splits prod.splits sum.splits bind_splits)

lemma exec_steps_sound: "exec_steps as s = Some s' \<Longrightarrow> market_step\<^sup>*\<^sup>* s s'"
  by (induction as arbitrary: s)
    (auto dest: exec_step_sound intro: converse_rtranclp_into_rtranclp split: bind_splits)

definition seqs :: "server_message list \<Rightarrow> u64 list" where
  "seqs ms = List.map_filter msg_seq ms"

lemma seqs_simps [simp]:
  "seqs [] = []"
  "seqs (m # ms) = (case msg_seq m of None \<Rightarrow> seqs ms | Some q \<Rightarrow> q # seqs ms)"
  by (simp_all add: seqs_def List.map_filter_simps split: option.split)

lemma seqs_append [simp]: "seqs (ms @ ns) = seqs ms @ seqs ns"
  by (induction ms) (auto split: option.splits)

text \<open>What a client got through its channel and what waits in it.\<close>

definition queue_of :: "market_sys \<Rightarrow> u64 \<Rightarrow> server_message list" where
  "queue_of s i = (case hm_get (mh_subscribers (ms_handle s)) i of None \<Rightarrow> [] | Some ch \<Rightarrow> ch_queue ch)"

definition out_of :: "market_sys \<Rightarrow> u64 \<Rightarrow> server_message list" where
  "out_of s i = (case hm_get (ms_clients s) i of None \<Rightarrow> [] | Some c \<Rightarrow> cp_out c)"

definition stream_of :: "market_sys \<Rightarrow> u64 \<Rightarrow> server_message list" where
  "stream_of s i = tl (out_of s i) @ queue_of s i"

definition pending_seq :: "worker_pc \<Rightarrow> u64 option" where
  "pending_seq pc = (case pc of W_Emit m \<Rightarrow> msg_seq m | _ \<Rightarrow> None)"

definition sys_inv :: "market_sys \<Rightarrow> bool" where
  "sys_inv s \<longleftrightarrow>
     hm_wf (mh_subscribers (ms_handle s)) \<and> hm_wf (ms_clients s) \<and>
     (\<forall>i c. hm_get (ms_clients s) i = Some c \<longrightarrow> (cp_first c \<longleftrightarrow> cp_out c \<noteq> [])) \<and>
     (\<forall>i. sorted_wrt (<) (seqs (stream_of s i)) \<and>
          (\<forall>q\<in>set (seqs (stream_of s i)). q < mh_seq (ms_handle s) \<and>
             (\<forall>p. pending_seq (ms_pc s) = Some p \<longrightarrow> q < p))) \<and>
     (\<forall>p. pending_seq (ms_pc s) = Some p \<longrightarrow> p < mh_seq (ms_handle s))"

lemma seq_grows: "(q :: u64) < - 1 \<Longrightarrow> q < q + 1"
  using inc_le [of q "- 1"] by (metis inc_less_eq_triv_imp linorder_not_le word_order.extremum_strict)

lemma sys_invI:
  assumes inv: "sys_inv s"
    and wf: "hm_wf (mh_subscribers (ms_handle s'))" "hm_wf (ms_clients s')"
    and first: "\<forall>i c. hm_get (ms_clients s') i = Some c \<longrightarrow> (cp_first c \<longleftrightarrow> cp_out c \<noteq> [])"
    and grow: "\<forall>i. seqs (stream_of s' i) = [] \<or> seqs (stream_of s' i) = seqs (stream_of s i) \<or>
      seqs (stream_of s' i) = seqs (tl (out_of s i)) \<or>
      seqs (stream_of s' i) = seqs (queue_of s i) \<or>
      (\<exists>p. pending_seq (ms_pc s) = Some p \<and> pending_seq (ms_pc s') = None \<and>
        seqs (stream_of s' i) = seqs (stream_of s i) @ [p])"
    and seq: "mh_seq (ms_handle s) \<le> mh_seq (ms_handle s')"
    and pend: "\<forall>p. pending_seq (ms_pc s') = Some p \<longrightarrow> pending_seq (ms_pc s) = Some p \<or>
      (mh_seq (ms_handle s) \<le> p \<and> p < mh_seq (ms_handle s'))"
  shows "sys_inv s'"
proof -
  have "sorted_wrt (<) (seqs (stream_of s' i)) \<and>
      (\<forall>q\<in>set (seqs (stream_of s' i)). q < mh_seq (ms_handle s') \<and>
         (\<forall>p. pending_seq (ms_pc s') = Some p \<longrightarrow> q < p))" for i
  proof -
    have old: "sorted_wrt (<) (seqs (stream_of s i))"
      "\<forall>q\<in>set (seqs (stream_of s i)). q < mh_seq (ms_handle s) \<and>
         (\<forall>p. pending_seq (ms_pc s) = Some p \<longrightarrow> q < p)"
      "\<forall>p. pending_seq (ms_pc s) = Some p \<longrightarrow> p < mh_seq (ms_handle s)"
      using inv by (auto simp: sys_inv_def)
    have split: "seqs (stream_of s i) = seqs (tl (out_of s i)) @ seqs (queue_of s i)"
      by (simp add: stream_of_def)
    have part: ?thesis if "seqs (stream_of s' i) \<in>
        {[], seqs (stream_of s i), seqs (tl (out_of s i)), seqs (queue_of s i)}"
    proof -
      have sub: "sorted_wrt (<) (seqs (stream_of s' i))"
        "set (seqs (stream_of s' i)) \<subseteq> set (seqs (stream_of s i))"
        using that old(1) by (auto simp: split sorted_wrt_append)
      have "q < mh_seq (ms_handle s') \<and> (\<forall>p. pending_seq (ms_pc s') = Some p \<longrightarrow> q < p)"
        if "q \<in> set (seqs (stream_of s i))" for q
        using old(2) that pend seq by (meson less_le_trans)
      with sub show ?thesis by blast
    qed
    from grow [rule_format, of i] show ?thesis
    proof (elim disjE exE conjE)
      fix p
      assume p: "pending_seq (ms_pc s) = Some p" "pending_seq (ms_pc s') = None"
        "seqs (stream_of s' i) = seqs (stream_of s i) @ [p]"
      show ?thesis using old seq by (auto simp: p sorted_wrt_append)
    qed ((rule part, simp)+)
  qed
  moreover have "\<forall>p. pending_seq (ms_pc s') = Some p \<longrightarrow> p < mh_seq (ms_handle s')"
    using inv pend seq unfolding sys_inv_def by fastforce
  ultimately show ?thesis using wf first by (simp add: sys_inv_def)
qed

lemma sys_inv_parts:
  assumes "sys_inv s"
  shows "hm_wf (mh_subscribers (ms_handle s))" "hm_wf (ms_clients s)"
    and "hm_get (ms_clients s) i = Some c \<Longrightarrow> cp_first c \<longleftrightarrow> cp_out c \<noteq> []"
  using assms by (auto simp: sys_inv_def)

lemmas stream_defs = stream_of_def queue_of_def out_of_def pending_seq_def

lemma snapshot_message_frame:
  "snapshot_message h = Some (m, h') \<Longrightarrow> mh_seq h < - 1 \<Longrightarrow>
     mh_subscribers h' = mh_subscribers h \<and> mh_seq h \<le> mh_seq h'"
  using seq_grows [of "mh_seq h"]
  by (auto simp: snapshot_message_def next_seq_def split: if_splits bind_splits)

lemma apply_event_frame:
  "apply_event h d = Some (h', r) \<Longrightarrow> mh_subscribers h' = mh_subscribers h \<and> mh_seq h' = mh_seq h"
  by (auto simp: apply_event_def Let_def split: prod.splits apply_outcome.splits bind_splits)

lemma market_step_inv:
  assumes "market_step s s'" and inv: "sys_inv s"
  shows "sys_inv s'"
  using assms(1)
proof (cases rule: market_step.cases)
  case (register_client sid h')
  then show ?thesis
    using sys_inv_parts [OF inv]
    by (intro sys_invI [OF inv])
      (auto simp: register_def Let_def hm_get_insert hm_wf_insert stream_defs split: if_splits)
next
  case (first_frame sid c m h')
  then show ?thesis
    using sys_inv_parts [OF inv] snapshot_message_frame [of "ms_handle s" m h']
    by (intro sys_invI [OF inv])
      (auto simp: hm_get_insert hm_wf_insert stream_defs split: if_splits)
next
  case (deliver sid c ch m q)
  have "seqs (stream_of s' i) = seqs (stream_of s i)" for i
    using deliver sys_inv_parts(3) [OF inv deliver(2)]
    by (cases "cp_out c") (auto simp: hm_get_insert stream_defs split: option.splits)
  then show ?thesis
    using sys_inv_parts [OF inv] deliver
    by (intro sys_invI [OF inv]) (auto simp: hm_get_insert hm_wf_insert split: if_splits)
next
  case (leave sid)
  then show ?thesis
    using sys_inv_parts [OF inv]
    by (intro sys_invI [OF inv])
      (auto simp: unsubscribe_def hm_get_remove hm_wf_remove stream_defs split: if_splits)
next
  case (drop_client sid ch)
  have "seqs (stream_of s' i) = seqs (stream_of s i) \<or> i = sid" for i
    using drop_client by (auto simp: hm_get_insert hm_get_remove stream_defs)
  moreover have "seqs (stream_of s' sid) = seqs (queue_of s sid)"
    using drop_client by (simp add: hm_get_insert hm_get_remove stream_defs)
  ultimately show ?thesis
    using sys_inv_parts [OF inv] drop_client 
    by (intro sys_invI [OF inv]) (auto simp: hm_get_remove hm_wf_insert hm_wf_remove)
next
  case (apply_book d h' v ts)
  then show ?thesis
    using sys_inv_parts [OF inv] apply_event_frame [of "ms_handle s" d]
    by (intro sys_invI [OF inv]) (auto simp: stream_defs)
next
  case (draw_update v ts mn mx seq h')
  then show ?thesis
    using sys_inv_parts [OF inv] seq_grows [of "mh_seq (ms_handle s)"]
    by (intro sys_invI [OF inv]) (auto simp: next_seq_def stream_defs)
next
  case (reset_book bids asks ts)
  then show ?thesis
    using sys_inv_parts [OF inv] by (intro sys_invI [OF inv]) (auto simp: stream_defs)
next
  case (draw_snapshot v seq h' ts)
  then show ?thesis
    using sys_inv_parts [OF inv] seq_grows [of "mh_seq (ms_handle s)"]
    by (intro sys_invI [OF inv]) (auto simp: next_seq_def stream_defs)
next
  case (status st detail)
  then show ?thesis
    using sys_inv_parts [OF inv] by (intro sys_invI [OF inv]) (auto simp: stream_defs)
next
  case (send m)
  have wf: "hm_wf (mh_subscribers (ms_handle s))" by (rule sys_inv_parts [OF inv])
  have "seqs (stream_of s' i) = [] \<or> seqs (stream_of s' i) = seqs (stream_of s i) \<or>
      seqs (stream_of s' i) = seqs (tl (out_of s i)) \<or>
      seqs (stream_of s' i) = seqs (queue_of s i) \<or>
      (\<exists>p. pending_seq (ms_pc s) = Some p \<and> pending_seq (ms_pc s') = None \<and>
        seqs (stream_of s' i) = seqs (stream_of s i) @ [p])" for i
    using send wf
    by (auto simp: stream_defs emit_eq hm_get_broadcast push_def split: option.splits)
  then show ?thesis
    using send sys_inv_parts [OF inv]
    by (intro sys_invI [OF inv]) (auto simp: hm_wf_emit pending_seq_def)
qed

lemma start_sys_inv:
  assumes "hm_wf (mh_subscribers h)" "\<forall>i c. hm_get (mh_subscribers h) i = Some c \<longrightarrow> ch_queue c = []"
  shows "sys_inv (start_sys h)"
  using assms
  by (auto simp: sys_inv_def start_sys_def stream_defs hm_get_def split: option.splits)

lemma reachable_inv:
  assumes "reachable_market h s" "sys_inv (start_sys h)"
  shows "sys_inv s"
  using assms unfolding reachable_market_def
  by (induction rule: rtranclp_induct) (auto intro: market_step_inv)

subsection \<open>The symbol directory and the supervisor\<close>

definition supervisor_inv :: "supervisor \<Rightarrow> bool" where
  "supervisor_inv sv \<longleftrightarrow> hm_wf (sv_markets sv) \<and>
     (\<forall>k h. hm_get (sv_markets sv) k = Some h \<longrightarrow>
        mh_symbol h = k \<and> hm_get (sv_lookup sv) k = Some (mh_product_id h) \<and> mh_depth h = sv_depth sv)"

lemma next_backoff_power: "next_backoff (min (2 ^ k) 15) = min (2 ^ Suc k) 15"
  by (simp add: next_backoff_def min_def)

lemma failed_session_returns:
  assumes "\<And>snap inbound. run \<noteq> Connected (Ok snap) inbound"
  shows "worker_iteration show_json from_json run h \<noteq> None"
  using assms
  by (cases run) (auto simp: worker_iteration_def run_upstream_session_def Let_def split: sum.splits)

lemma worker_sleeps:
  "case run_worker_loop show_json from_json (min (2 ^ k) 15) runs h of
     None \<Rightarrow> \<exists>snap inbound. Connected (Ok snap) inbound \<in> set runs
   | Some (h', sleeps) \<Rightarrow> sleeps = map (\<lambda>n. min (2 ^ n) 15) [k..<k + length runs]"
proof (induction runs arbitrary: k h)
  case Nil
  then show ?case by simp
next
  case (Cons run runs)
  show ?case
  proof (cases "worker_iteration show_json from_json run h")
    case None
    then have "\<exists>snap inbound. run = Connected (Ok snap) inbound"
      using failed_session_returns by metis
    then show ?thesis using None by auto
  next
    case (Some h1)
    have "[k..<k + length (run # runs)] = k # [Suc k..<Suc k + length runs]"
      by (simp add: upt_rec [of k] del: upt_Suc)
    then show ?thesis
      using Cons.IH [of "Suc k" h1] Some
      by (auto simp: next_backoff_power split: option.splits simp del: power_Suc)
  qed
qed

subsection \<open>Properties\<close>

text \<open>C5: A session follows the exchange. Let the exchange's book move by chained deltas, the
  snapshot be its book after the first i of them, and the stream carry the events of the
  deltas from position j on, for any j up to i, as JSON texts. Unless a depth view overflows,
  the session reads every event back, ends only when the reader ends, and leaves the market
  with the book all the deltas lead to; every subscriber whose channel is open has been handed
  the connected status, the view of the snapshot and one update per later delta, in order,
  with consecutive sequence numbers.\<close>

theorem feed_follows_exchange:
  assumes wf: "hm_wf (mh_subscribers h)" and inv: "book_inv b"
    and chain: "chain (ob_last_ts b) ds" and ok: "\<forall>d\<in>set ds. delta_ok d"
    and ij: "j \<le> i" "i \<le> length ds" and s: "s = fst (run_deltas b (take i ds))"
    and txts: "list_all2 (\<lambda>txt d. from_json txt = Some (delta_json (mh_product_id h) d)) txts (drop j ds)"
    and view: "\<forall>k\<le>length ds - i. depth_view_of (fst (run_deltas s (take k (drop i ds)))) (mh_depth h) \<noteq> None"
  shows "\<exists>h'. run_upstream_session from_json
      (Connected (Ok \<lparr>ml_bids = levels_of (rev (ob_bids s)), ml_asks = levels_of (ob_asks s),
                      ml_product_id = pid, ml_timestamp = ob_last_ts s\<rparr>) (map In_Text txts)) h =
      Some (h', Upstream ''upstream websocket reader ended'') \<and>
    mh_state h' = fst (run_deltas b ds) \<and>
    handed h h'
      ([Status (mh_symbol h) (mh_product_id h) ''connected'' ''subscribed to nado book_depth'',
        Snapshot (mh_symbol h) (mh_product_id h) (mh_seq h) (ob_last_ts s)
          (the (depth_view_of s (mh_depth h)))] @ updates_of h (mh_seq h + 1) s (drop i ds))"
proof -
  let ?b = "fst (run_deltas b (take j ds))" and ?old = "drop j (take i ds)"
  have old: "take i ds = take j ds @ ?old"
    using ij by (metis append_take_drop_id min_absorb1 take_take)
  have ds: "drop j ds = ?old @ drop i ds"
    using ij by (metis append_take_drop_id append_assoc append_same_eq old same_append_eq)
  have all: "ds = take j ds @ (?old @ drop i ds)"
    using ds by (metis append_take_drop_id)
  have ch: "chain (ob_last_ts ?b) (?old @ drop i ds)"
    using chain all chain_append [of b "take j ds"] by metis
  have s': "s = fst (run_deltas ?b ?old)"
    using s by (metis fst_conv old run_deltas_append)
  have okd: "\<forall>d\<in>set (?old @ drop i ds). delta_ok d"
    using ok ds by (metis in_set_dropD)
  obtain ts ts' where t: "txts = ts @ ts'"
      "list_all2 (\<lambda>txt d. from_json txt = Some (delta_json (mh_product_id h) d)) ts ?old"
      "list_all2 (\<lambda>txt d. from_json txt = Some (delta_json (mh_product_id h) d)) ts' (drop i ds)"
    using txts unfolding ds list_all2_append2 by blast
  have view': "\<forall>k\<le>length (drop i ds). depth_view_of (fst (run_deltas s (take k (drop i ds)))) (mh_depth h) \<noteq> None"
    using view by simp
  have final: "fst (run_deltas b ds) = fst (run_deltas ?b (?old @ drop i ds))"
    using all by (metis fst_conv run_deltas_append)
  show ?thesis
    using run_session_replica [OF wf book_inv_run [OF inv] ch okd s' t(2,3) view']
    unfolding t(1) final by blast
qed

theorem feed_follows_exchange_witness:
  "\<exists>h'. run_upstream_session
      (\<lambda>txt. if txt = ''e'' then Some (delta_json 2 \<lparr>bd_last_max_timestamp = 0, bd_min_timestamp = 1,
        bd_max_timestamp = 3, bd_bids = [\<lparr>ld_price_x18 = 5, ld_size_x18 = 7\<rparr>], bd_asks = []\<rparr>) else None)
      (Connected (Ok \<lparr>ml_bids = [], ml_asks = [], ml_product_id = 0, ml_timestamp = 0\<rparr>) [In_Text ''e''])
      (new_market ''A'' 2 1 Test None) =
      Some (h', Upstream ''upstream websocket reader ended'') \<and>
    mh_state h' = \<lparr>ob_bids = [(5, 7)], ob_asks = [], ob_last_ts = 3\<rparr>"
proof -
  let ?d = "\<lparr>bd_last_max_timestamp = 0, bd_min_timestamp = 1, bd_max_timestamp = 3,
    bd_bids = [\<lparr>ld_price_x18 = 5, ld_size_x18 = 7\<rparr>], bd_asks = []\<rparr> :: book_delta"
  let ?fj = "\<lambda>txt. if txt = ''e'' then Some (delta_json 2 ?d) else None"
  have run: "fst (run_deltas default_book [?d]) = \<lparr>ob_bids = [(5, 7)], ob_asks = [], ob_last_ts = 3\<rparr>"
    by (simp add: default_book_def apply_delta_def apply_side_delta_def apply_level_def)
  have views: "\<forall>k\<le>1. depth_view_of (fst (run_deltas default_book (take k [?d]))) 1 \<noteq> None"
    using run by (auto simp: le_Suc_eq depth_view_of_def default_book_def chk_i128_def in_i128_iff)
  have "chain (ob_last_ts default_book) [?d]" by (simp add: default_book_def)
  from feed_follows_exchange [of "new_market ''A'' 2 1 Test None" default_book "[?d]" 0 0 default_book
      ?fj "[''e'']" 0, OF _ book_inv_default this]
  obtain h' where "run_upstream_session ?fj
      (Connected (Ok \<lparr>ml_bids = levels_of (rev (ob_bids default_book)),
        ml_asks = levels_of (ob_asks default_book), ml_product_id = 0, ml_timestamp = ob_last_ts default_book\<rparr>)
        (map In_Text [''e''])) (new_market ''A'' 2 1 Test None) =
      Some (h', Upstream ''upstream websocket reader ended'')"
    and "mh_state h' = fst (run_deltas default_book [?d])"
    using views by (auto simp: new_market_def delta_ok_def in_i128_iff)
  then show ?thesis
    unfolding run by (auto simp: default_book_def levels_of_def)
qed

text \<open>C6: The sequence numbers of a market's messages reach every client in order. However
  the worker and the client tasks interleave, what a client has been sent through its channel
  after its first frame, followed by what still waits in the channel, carries strictly
  increasing sequence numbers, all of them below the market's counter.\<close>

theorem channel_order:
  assumes "reachable_market h s" "hm_wf (mh_subscribers h)"
    and "\<forall>i c. hm_get (mh_subscribers h) i = Some c \<longrightarrow> ch_queue c = []"
  shows "sorted_wrt (<) (seqs (stream_of s i)) \<and>
     (\<forall>q\<in>set (seqs (stream_of s i)). q < mh_seq (ms_handle s))"
  using reachable_inv [OF assms(1) start_sys_inv [OF assms(2,3)]] by (simp add: sys_inv_def)

theorem channel_order_witness:
  "\<exists>s. reachable_market (new_market ''A'' 2 1 Test None) s \<and>
     map msg_seq (out_of s 1) = [Some 2, None, Some 1] \<and>
     map msg_seq (queue_of s 1) = [Some 3, Some 4] \<and> seqs (stream_of s 1) = [1, 3, 4] \<and>
     sorted_wrt (<) (seqs (stream_of s 1)) \<and> (\<forall>q\<in>{1, 3, 4}. q < mh_seq (ms_handle s))"
proof -
  let ?h = "new_market ''A'' 2 1 Test None"
  let ?d = "\<lambda>ts. \<lparr>bd_last_max_timestamp = ts, bd_min_timestamp = ts + 1, bd_max_timestamp = ts + 1,
    bd_bids = [\<lparr>ld_price_x18 = 5, ld_size_x18 = 7\<rparr>], bd_asks = []\<rparr> :: book_delta"
  let ?acts = "[A_Register, A_Status ''connected'' [], A_Send, A_Reset [] [] 10, A_Apply (?d 10),
    A_Draw, A_Send, A_First 1, A_Deliver 1, A_Apply (?d 11), A_Draw, A_Deliver 1, A_Send,
    A_Snapshot 12, A_Send]"
  have small: "(1 :: u64) < - 1" "(2 :: u64) < - 1" "(3 :: u64) < - 1" "(4 :: u64) < - 1" by code_simp+
  have "case exec_steps ?acts (start_sys ?h) of None \<Rightarrow> False
    | Some s \<Rightarrow> map msg_seq (out_of s 1) = [Some 2, None, Some 1] \<and>
        map msg_seq (queue_of s 1) = [Some 3, Some 4] \<and> seqs (stream_of s 1) = [1, 3, 4]"
    by (simp add: start_sys_def new_market_def register_def emit_def emit_to_def push_def apply_event_def apply_delta_def
        default_book_def reset_from_snapshot_def load_side_def apply_side_delta_def apply_level_def
        depth_view_of_def chk_i128_def in_i128_iff next_seq_def snapshot_message_def book_is_empty_def
        first_message_def hm_get_def broadcast_def stream_defs small)
  then obtain s where run: "exec_steps ?acts (start_sys ?h) = Some s"
    and s: "map msg_seq (out_of s 1) = [Some 2, None, Some 1]"
      "map msg_seq (queue_of s 1) = [Some 3, Some 4]" "seqs (stream_of s 1) = [1, 3, 4]"
    by (auto split: option.splits)
  have reach: "reachable_market ?h s"
    using exec_steps_sound [OF run] by (simp add: reachable_market_def)
  have "sorted_wrt (<) (seqs (stream_of s 1)) \<and>
      (\<forall>q\<in>set (seqs (stream_of s 1)). q < mh_seq (ms_handle s))"
    by (rule channel_order [OF reach]) (simp_all add: new_market_def hm_wf_def hm_get_def)
  then show ?thesis using reach s by auto
qed

text \<open>C7: The symbol directory finds every symbol. When the normalised symbols the exchange
  returned are distinct, the listed symbols are exactly the normalised non-empty ones in
  ascending order, each listed symbol looks up its own product in whatever order the hash map
  iterates (a short alias never hides a symbol), and any name that looks up a product is that
  product's symbol or its part before the first underscore.\<close>

theorem symbol_directory_correct:
  assumes dist: "distinct (map canonical data)"
    and dir: "load_symbol_directory data = Ok dir"
  shows "sorted (map si_symbol (sd_symbols dir)) \<and> distinct (map si_symbol (sd_symbols dir)) \<and>
     mset (sd_symbols dir) = mset (listed data) \<and>
     (\<forall>x\<in>set (sd_symbols dir). hm_get (sd_lookup dir) (si_symbol x) = Some (si_product_id x)) \<and>
     (\<forall>k p. hm_get (sd_lookup dir) k = Some p \<longrightarrow>
        (\<exists>d\<in>set data. k \<in> names_of d \<and> k \<noteq> [] \<and> si_product_id d = p))"
proof -
  let ?acc = "foldl symbol_step ([], []) data"
  have fst: "fst ?acc = listed data" by (simp add: symbol_step_fst)
  have dl: "distinct (map si_symbol (listed data))"
    using dist by (simp add: listed_def o_def distinct_map_filter)
  have "distinct (map si_symbol (sort_key si_symbol (listed data)))"
    using dl by (metis distinct_map distinct_sort set_sort)
  then have dir': "sd_symbols dir = sort_key si_symbol (listed data)" "sd_lookup dir = snd ?acc"
    using dir fst by (auto simp: load_symbol_directory_def Let_def dedup_distinct split: prod.splits if_splits)
  have own: "hm_get (snd ?acc) (si_symbol x) = Some (si_product_id x)" if x: "x \<in> set (listed data)" for x
  proof -
    obtain d where "d \<in> set data" "canonical d \<noteq> []" "x = d\<lparr>si_symbol := canonical d\<rparr>"
      using x by (auto simp: listed_def)
    with lookup_own [OF this(1,2) dist] show ?thesis by simp
  qed
  have sound: "\<exists>d\<in>set data. k \<in> names_of d \<and> k \<noteq> [] \<and> si_product_id d = p"
    if "hm_get (snd ?acc) k = Some p" for k p
    using lookup_sound [OF that] by (simp add: hm_get_def)
  show ?thesis
    using own sound \<open>distinct (map si_symbol (sort_key si_symbol (listed data)))\<close>
    by (simp add: dir')
qed

theorem symbol_directory_correct_witness:
  "case load_symbol_directory [\<lparr>si_symbol = ''btc-perp_usdc'', si_product_id = 2\<rparr>,
      \<lparr>si_symbol = '' A '', si_product_id = 1\<rparr>] of
     Inl _ \<Rightarrow> False
   | Inr dir \<Rightarrow> sorted (map si_symbol (sd_symbols dir)) \<and> hm_get (sd_lookup dir) ''BTC-PERP'' = Some 2"
proof -
  let ?data = "[\<lparr>si_symbol = ''btc-perp_usdc'', si_product_id = 2\<rparr>,
      \<lparr>si_symbol = '' A '', si_product_id = 1\<rparr>] :: symbol_info list"
  have "distinct (map canonical ?data)" by code_simp
  moreover obtain dir where dir: "load_symbol_directory ?data = Ok dir"
    "hm_get (sd_lookup dir) ''BTC-PERP'' = Some 2"
  proof -
    have "case load_symbol_directory ?data of Inl _ \<Rightarrow> False
      | Inr dir \<Rightarrow> hm_get (sd_lookup dir) ''BTC-PERP'' = Some 2" by code_simp
    then show ?thesis using that by (auto split: sum.splits)
  qed
  ultimately have "sorted (map si_symbol (sd_symbols dir))"
    using symbol_directory_correct [of ?data dir] by blast
  with dir show ?thesis by simp
qed

text \<open>One worker per market. Asking for a symbol of the directory, in any spelling that
  normalises to it, gives the market with the directory's product, starts a worker exactly
  when there was none, keeps every other market and keeps the supervisor consistent; asking
  again gives the same market and starts nothing. Only a name the directory does not have is
  refused.\<close>

theorem ensure_market_correct:
  assumes inv: "supervisor_inv sv"
  shows "case ensure_market symbol sv of
     Inl e \<Rightarrow> hm_get (sv_lookup sv) (normalize_symbol symbol) = None
   | Inr (h, spawned, sv') \<Rightarrow>
       supervisor_inv sv' \<and> mh_symbol h = normalize_symbol symbol \<and>
       hm_get (sv_lookup sv) (normalize_symbol symbol) = Some (mh_product_id h) \<and>
       (spawned \<longleftrightarrow> hm_get (sv_markets sv) (normalize_symbol symbol) = None) \<and>
       hm_get (sv_markets sv') = (hm_get (sv_markets sv))(normalize_symbol symbol \<mapsto> h) \<and>
       ensure_market (normalize_symbol symbol) sv' = Ok (h, False, sv')"
proof (cases "hm_get (sv_markets sv) (normalize_symbol symbol)")
  case None
  then show ?thesis
    using inv
    by (auto simp: ensure_market_def supervisor_inv_def Let_def hm_get_insert hm_wf_insert new_market_def
        split: option.splits)
next
  case (Some h)
  then show ?thesis
    using inv by (auto simp: ensure_market_def supervisor_inv_def fun_upd_triv)
qed

theorem ensure_market_correct_witness:
  "case ensure_market '' a '' \<lparr>sv_client_mode = Test, sv_nado_ws_url = None, sv_depth = 20, sv_symbols = [],
      sv_lookup = [(''A'', 2)], sv_markets = []\<rparr> of
     Inl e \<Rightarrow> False
   | Inr (h, spawned, sv') \<Rightarrow> spawned \<and> mh_product_id h = 2"
proof -
  let ?sv = "\<lparr>sv_client_mode = Test, sv_nado_ws_url = None, sv_depth = 20, sv_symbols = [],
      sv_lookup = [(''A'', 2)], sv_markets = []\<rparr>"
  have inv: "supervisor_inv ?sv" by (simp add: supervisor_inv_def hm_get_def)
  have n: "normalize_symbol '' a '' = ''A''" by code_simp
  show ?thesis
    using ensure_market_correct [OF inv, of "'' a ''"]
    by (auto simp: n hm_get_def split: sum.splits prod.splits)
qed

text \<open>C8: The worker never gives up and never hurries. For any number of runs of the stream,
  whatever each of them does, the pauses between the runs double from one second up to fifteen
  and stay there; the loop can only be cut short (by the overflow panic of a view) in a run
  that got a snapshot.\<close>

theorem worker_backoff:
  "case run_worker_loop show_json from_json 1 runs h of
     None \<Rightarrow> \<exists>snap inbound. Connected (Ok snap) inbound \<in> set runs
   | Some (h', sleeps) \<Rightarrow> sleeps = map (\<lambda>n. min (2 ^ n) 15) [0..<length runs]"
  using worker_sleeps
    [where k = 0 and runs = runs and h = h and show_json = show_json and from_json = from_json]
  unfolding add_0 by simp

subsection \<open>The first frame\<close>

text \<open>
  The first frame is outside the order of the channel: between a client's registration and its
  own snapshot the worker may send an update into the client's channel; the snapshot, with a
  later number and newer data, is then written first, and the older view after it.
\<close>

lemma market_step_trans:
  "reachable_market h s \<Longrightarrow> market_step s s' \<Longrightarrow> reachable_market h s'"
  by (simp add: reachable_market_def)

lemma snapshot_overtakes_update:
  "\<exists>s v w. reachable_market (new_market ''A'' 2 20 Test None) s \<and>
     out_of s 1 = [Snapshot ''A'' 2 2 9 v, Update ''A'' 2 1 5 0 5 w]"
proof -
  let ?b = "\<lambda>ts. \<lparr>ob_bids = [(3, 4)], ob_asks = [], ob_last_ts = ts\<rparr> :: order_book"
  let ?h = "\<lambda>ts seq nxt subs. \<lparr>mh_symbol = ''A'', mh_product_id = 2, mh_depth = 20, mh_client_mode = Test,
      mh_nado_ws_url = None, mh_state = ?b ts, mh_seq = seq, mh_next_subscriber_id = nxt,
      mh_subscribers = subs\<rparr>"
  let ?d = "\<lambda>l u. \<lparr>bd_last_max_timestamp = l, bd_min_timestamp = l, bd_max_timestamp = u,
      bd_bids = [], bd_asks = []\<rparr> :: book_delta"
  let ?q = "\<lambda>ms. [(1, \<lparr>ch_queue = ms, ch_open = True\<rparr>)] :: (u64, server_message channel) hashmap"
  let ?c = "\<lambda>f ms. [(1, \<lparr>cp_first = f, cp_out = ms\<rparr>)] :: (u64, client_proc) hashmap"
  let ?s = "\<lambda>h pc cl. \<lparr>ms_handle = h, ms_pc = pc, ms_clients = cl\<rparr> :: market_sys"
  obtain v where view: "\<And>ts. depth_view_of (?b ts) 20 = Some v"
    by (simp add: depth_view_of_def chk_i128_def in_i128_iff)
  have small: "(1 :: u64) < - 1" "(2 :: u64) < - 1" by code_simp+
  let ?u = "Update ''A'' 2 1 5 0 5 v" and ?n = "Snapshot ''A'' 2 2 9 v"
  have "reachable_market (new_market ''A'' 2 20 Test None) (start_sys (new_market ''A'' 2 20 Test None))"
    by (simp add: reachable_market_def)
  moreover have "market_step (start_sys (new_market ''A'' 2 20 Test None)) (?s (?h 0 1 1 []) W_Idle [])"
    using market_step.reset_book [of "start_sys (new_market ''A'' 2 20 Test None)" "[PriceLevel 3 4]" "[]" 0]
    by (simp add: start_sys_def new_market_def reset_from_snapshot_def load_side_def load_level_def
        default_book_def)
  moreover have "market_step (?s (?h 0 1 1 []) W_Idle []) (?s (?h 0 1 2 (?q [])) W_Idle (?c False []))"
    using market_step.register_client [of "?s (?h 0 1 1 []) W_Idle []"]
    by (simp add: register_def)
  moreover have "market_step (?s (?h 0 1 2 (?q [])) W_Idle (?c False []))
      (?s (?h 5 1 2 (?q [])) (W_Applied v 5 0 5) (?c False []))"
    using market_step.apply_book [of "?s (?h 0 1 2 (?q [])) W_Idle (?c False [])" "?d 0 5"
        "?h 5 1 2 (?q [])" v 5]
    by (simp add: apply_event_def apply_delta_def apply_side_delta_def view)
  moreover have "market_step (?s (?h 5 1 2 (?q [])) (W_Applied v 5 0 5) (?c False []))
      (?s (?h 5 2 2 (?q [])) (W_Emit ?u) (?c False []))"
    using market_step.draw_update [of "?s (?h 5 1 2 (?q [])) (W_Applied v 5 0 5) (?c False [])"
        v 5 0 5 1 "?h 5 2 2 (?q [])"]
    by (simp add: next_seq_def small)
  moreover have "market_step (?s (?h 5 2 2 (?q [])) (W_Emit ?u) (?c False []))
      (?s (?h 5 2 2 (?q [?u])) W_Idle (?c False []))"
    using market_step.send [of "?s (?h 5 2 2 (?q [])) (W_Emit ?u) (?c False [])" ?u]
    by (simp add: emit_def emit_to_def)
  moreover have "market_step (?s (?h 5 2 2 (?q [?u])) W_Idle (?c False []))
      (?s (?h 9 2 2 (?q [?u])) (W_Applied v 9 5 9) (?c False []))"
    using market_step.apply_book [of "?s (?h 5 2 2 (?q [?u])) W_Idle (?c False [])" "?d 5 9"
        "?h 9 2 2 (?q [?u])" v 9]
    by (simp add: apply_event_def apply_delta_def apply_side_delta_def view)
  moreover have "market_step (?s (?h 9 2 2 (?q [?u])) (W_Applied v 9 5 9) (?c False []))
      (?s (?h 9 3 2 (?q [?u])) (W_Applied v 9 5 9) (?c True [?n]))"
    using market_step.first_frame [of "?s (?h 9 2 2 (?q [?u])) (W_Applied v 9 5 9) (?c False [])" 1
        "\<lparr>cp_first = False, cp_out = []\<rparr>" "Some ?n" "?h 9 3 2 (?q [?u])"]
    by (simp add: snapshot_message_def book_is_empty_def next_seq_def view hm_get_def first_message_def small)
  moreover have "market_step (?s (?h 9 3 2 (?q [?u])) (W_Applied v 9 5 9) (?c True [?n]))
      (?s (?h 9 3 2 (?q [])) (W_Applied v 9 5 9) (?c True [?n, ?u]))"
    using market_step.deliver [of "?s (?h 9 3 2 (?q [?u])) (W_Applied v 9 5 9) (?c True [?n])" 1
        "\<lparr>cp_first = True, cp_out = [?n]\<rparr>" "\<lparr>ch_queue = [?u], ch_open = True\<rparr>" ?u "[]"]
    by (simp add: hm_get_def)
  ultimately have "reachable_market (new_market ''A'' 2 20 Test None)
      (?s (?h 9 3 2 (?q [])) (W_Applied v 9 5 9) (?c True [?n, ?u]))"
    using market_step_trans by meson
  then show ?thesis
    by (intro exI [of _ "?s (?h 9 3 2 (?q [])) (W_Applied v 9 5 9) (?c True [?n, ?u])"] exI [of _ v])
      (simp add: out_of_def hm_get_def)
qed

end
