(* ===== verification/SdkMath.thy ===== *)
theory SdkMath
  imports F64
begin

text \<open>
  The fixed point arithmetic of the SDK (nado-rust-sdk/src/nado_utils/math.rs). Numbers are
  i128 with 18 decimals. A result of None is a panic: an overflow of a checked operation, a
  division by zero, or a conversion that refuses. The 256-bit integers of the ethers library
  are taken at their documented arithmetic: products of two i128 fit, division truncates,
  as_i128 panics outside i128 and low_i128 wraps.
\<close>

subsection \<open>Words in their range\<close>

definition ONE_X18 :: int where "ONE_X18 = 1000000000000000000"

text \<open>The operator as from a wider or unsigned integer to i128: two's complement.\<close>

definition wrap_i128 :: "int \<Rightarrow> i128" where
  "wrap_i128 x = (let r = x mod 2 ^ 128 in if r < 2 ^ 127 then r else r - 2 ^ 128)"

definition wrap_i32 :: "int \<Rightarrow> i32" where
  "wrap_i32 x = (let r = x mod 2 ^ 32 in if r < 2 ^ 31 then r else r - 2 ^ 32)"

text \<open>The operator as from f64: truncation, saturation at the ends, zero for NaN.\<close>

definition f_to_int :: "int \<Rightarrow> int \<Rightarrow> f64 \<Rightarrow> int" where
  "f_to_int lo hi x =
     (case x of
        F_NaN \<Rightarrow> 0
      | F_Inf s \<Rightarrow> if s then lo else hi
      | F_Fin s m e \<Rightarrow>
          (let a = (if 0 \<le> e then int m * 2 ^ nat e else int m div 2 ^ nat (- e));
               v = (if s then - a else a)
           in max lo (min hi v)))"

definition f_to_i128 :: "f64 \<Rightarrow> i128" where
  "f_to_i128 x = f_to_int i128_min i128_max x"

definition f_to_i32 :: "f64 \<Rightarrow> i32" where
  "f_to_i32 x = f_to_int (- (2 ^ 31)) (2 ^ 31 - 1) x"

text \<open>f64::trunc and f64::fract.\<close>

definition f_trunc :: "f64 \<Rightarrow> f64" where
  "f_trunc x =
     (case x of
        F_Fin s m e \<Rightarrow> if 0 \<le> e then x else round_ratio s (m div 2 ^ nat (- e)) 1
      | _ \<Rightarrow> x)"

definition f_fract :: "f64 \<Rightarrow> f64" where
  "f_fract x = f_sub x (f_trunc x)"

subsection \<open>Multiplication and division\<close>

definition chk_neg :: "i128 \<Rightarrow> int option" where
  "chk_neg x = chk_i128 (- x)"

definition signed_to_unsigned :: "i128 \<Rightarrow> i128 \<Rightarrow> (int \<times> int \<times> i128) option" where
  "signed_to_unsigned x y =
     (if 0 \<le> x \<and> 0 \<le> y then Some (x, y, 1)
      else if 0 \<le> x \<and> y < 0 then do { y' \<leftarrow> chk_neg y; Some (x, y', - 1) }
      else if x < 0 \<and> 0 \<le> y then do { x' \<leftarrow> chk_neg x; Some (x', y, - 1) }
      else do { x' \<leftarrow> chk_neg x; y' \<leftarrow> chk_neg y; Some (x', y', 1) })"

text \<open>The three cases of the product of u128 values with x below y.\<close>

definition umul_x18 :: "int \<Rightarrow> int \<Rightarrow> int option" where
  "umul_x18 x y =
     (if y < ONE_X18 then do { p \<leftarrow> chk_u128 (x * y); Some (p div ONE_X18) }
      else if x < ONE_X18 then
        (let c = y div ONE_X18; d = y mod ONE_X18 in
         do { xc \<leftarrow> chk_u128 (x * c); xd \<leftarrow> chk_u128 (x * d);
              chk_u128 (xc + xd div ONE_X18) })
      else
        (let a = x div ONE_X18; b = x mod ONE_X18; c = y div ONE_X18; d = y mod ONE_X18 in
         do { ac \<leftarrow> chk_u128 (a * c); acu \<leftarrow> chk_u128 (ac * ONE_X18);
              ad \<leftarrow> chk_u128 (a * d); s1 \<leftarrow> chk_u128 (acu + ad);
              bc \<leftarrow> chk_u128 (b * c); s2 \<leftarrow> chk_u128 (s1 + bc);
              bd \<leftarrow> chk_u128 (b * d); chk_u128 (s2 + bd div ONE_X18) }))"

definition mul_x18 :: "i128 \<Rightarrow> i128 \<Rightarrow> i128 option" where
  "mul_x18 x y =
     do { (ux, uy, sign) \<leftarrow> signed_to_unsigned x y;
          let (ux, uy) = (if ux > uy then (uy, ux) else (ux, uy));
          r \<leftarrow> umul_x18 ux uy;
          chk_i128 (wrap_i128 r * sign) }"

definition udiv_x18 :: "int \<Rightarrow> int \<Rightarrow> int option" where
  "udiv_x18 x y =
     do { (ret, x) \<leftarrow>
            (if x \<ge> y then
               (if y = 0 then None
                else do { r \<leftarrow> chk_u128 (x div y * ONE_X18); Some (r, x mod y) })
             else Some (0, x));
          if x \<le> ONE_X18 then
            do { p \<leftarrow> chk_u128 (x * ONE_X18); chk_u128 (ret + p div y) }
          else chk_u128 (ret + x * ONE_X18 div y mod 2 ^ 128) }"

definition div_x18 :: "i128 \<Rightarrow> i128 \<Rightarrow> i128 option" where
  "div_x18 x y =
     do { (ux, uy, sign) \<leftarrow> signed_to_unsigned x y;
          r \<leftarrow> udiv_x18 ux uy;
          chk_i128 (wrap_i128 r * sign) }"

definition mul_div_x18 :: "i128 \<Rightarrow> i128 \<Rightarrow> i128 \<Rightarrow> i128 option" where
  "mul_div_x18 x y z = (if z = 0 then None else Some (wrap_i128 (tdiv (x * y) z)))"

subsection \<open>Floating point\<close>

definition fmul_x18 :: "i128 \<Rightarrow> i128 \<Rightarrow> i128" where
  "fmul_x18 x y = f_to_i128 (f_div (f_mul (f_of_int x) (f_of_int y)) f_1e18)"

definition sdk_x18_to_f64 :: "i128 \<Rightarrow> f64" where
  "sdk_x18_to_f64 x =
     f_add (f_of_int (tdiv x ONE_X18)) (f_div (f_of_int (tmod x ONE_X18)) f_1e18)"

definition x18_to_f64_mil :: "i128 \<Rightarrow> f64" where
  "x18_to_f64_mil x = sdk_x18_to_f64 (tdiv x 1000000)"

definition f64_to_x18 :: "f64 \<Rightarrow> i128 option" where
  "f64_to_x18 x =
     do { whole \<leftarrow> chk_i128 (f_to_i128 (f_trunc x) * ONE_X18);
          chk_i128 (whole + f_to_i128 (f_mul (f_fract x) f_1e18)) }"

text \<open>The power of floats is the platform's.\<close>

definition pow_x18 :: "(f64 \<Rightarrow> f64 \<Rightarrow> f64) \<Rightarrow> i128 \<Rightarrow> i128 \<Rightarrow> i128 option" where
  "pow_x18 powf x y = f64_to_x18 (powf (sdk_x18_to_f64 x) (sdk_x18_to_f64 y))"

definition sqrt_x18 :: "(f64 \<Rightarrow> f64 \<Rightarrow> f64) \<Rightarrow> i128 \<Rightarrow> i128 option" where
  "sqrt_x18 powf x = pow_x18 powf x (ONE_X18 div 2)"

definition split_i256 :: "int \<Rightarrow> (i128 \<times> i128) option" where
  "split_i256 x =
     do { hi \<leftarrow> chk_i128 (tdiv x (2 ^ 127)); lo \<leftarrow> chk_i128 (tmod x (2 ^ 127)); Some (hi, lo) }"

definition merge_i128 :: "i128 \<Rightarrow> i128 \<Rightarrow> int option" where
  "merge_i128 x y =
     (let r = x * 2 ^ 127 + y in if - (2 ^ 255) \<le> r \<and> r < 2 ^ 255 then Some r else None)"

definition i256_to_f64 :: "int \<Rightarrow> f64 option" where
  "i256_to_f64 x =
     do { (hi, lo) \<leftarrow> split_i256 x;
          Some (f_add (f_mul (sdk_x18_to_f64 hi) (f_of_int (2 ^ 127))) (sdk_x18_to_f64 lo)) }"

definition to_i128_fp :: "f64 \<Rightarrow> i128 option" where
  "to_i128_fp x = chk_i128 (f_to_i128 (f_mul x (f_of_int (10 ^ 9))) * 1000000000)"

definition to_i32_fp :: "f64 \<Rightarrow> i32" where
  "to_i32_fp x = f_to_i32 (f_mul x (f_of_int (10 ^ 9)))"

subsection \<open>Scaling\<close>

definition to_u128_x18 :: "int \<Rightarrow> int option" where
  "to_u128_x18 x = chk_u128 (x * ONE_X18)"

definition to_i128_x18 :: "i128 \<Rightarrow> i128 option" where
  "to_i128_x18 x = chk_i128 (x * ONE_X18)"

definition to_u128_x6 :: "int \<Rightarrow> int option" where
  "to_u128_x6 x = chk_u128 (x * 1000000)"

definition to_i128_x6 :: "i128 \<Rightarrow> i128 option" where
  "to_i128_x6 x = chk_i128 (x * 1000000)"

definition x18_to_x9 :: "i128 \<Rightarrow> i32" where
  "x18_to_x9 x = wrap_i32 (tdiv x 1000000000)"

definition str_to_x18 :: "string \<Rightarrow> i128 option" where
  "str_to_x18 s =
     (let parts = split_on (CHR ''.'') s;
          whole = unwrap_or 0 (parse_i128 (hd parts));
          frac =
            (if length parts > 1 then
               (let frac_part = parts ! 1;
                    frac_str = (if length frac_part \<le> 18
                                then frac_part @ replicate (18 - length frac_part) (CHR ''0'')
                                else take 18 frac_part)
                in unwrap_or 0 (parse_i128 frac_str))
             else 0)
      in do { w \<leftarrow> chk_i128 (whole * ONE_X18); chk_i128 (w + frac) })"

text \<open>Saturating multiplication, then the loops of expo_to_x18.\<close>

definition sat_mul :: "i128 \<Rightarrow> i128 \<Rightarrow> i128" where
  "sat_mul x y = max i128_min (min i128_max (x * y))"

definition expo_to_x18 :: "i128 \<Rightarrow> i32 \<Rightarrow> i128" where
  "expo_to_x18 value expo =
     (let shift = 18 + expo in
      if 0 \<le> shift then ((\<lambda>v. sat_mul v 10) ^^ nat shift) value
      else ((\<lambda>v. tdiv v 10) ^^ nat (- shift)) value)"

subsection \<open>Powers by squaring\<close>

text \<open>
  The loops double i with a shift, which drops the bits above i128, while i is at most y. None
  is a panic of a multiplication, or (for a y of 126 bits or more) a loop that does not end.
\<close>

partial_function (option) fexp_loop :: "int \<Rightarrow> int \<Rightarrow> int \<Rightarrow> int \<Rightarrow> int option" where
  "fexp_loop y i x ret =
     (if i \<le> y then
        do { ret \<leftarrow> (if i AND y \<noteq> 0 then chk_i128 (ret * x) else Some ret);
             x \<leftarrow> chk_i128 (x * x);
             fexp_loop y (wrap_i128 (2 * i)) x ret }
      else Some ret)"

definition fexp :: "i128 \<Rightarrow> i128 \<Rightarrow> i128 option" where
  "fexp x y = (if y < 0 then None else fexp_loop y 1 x 1)"

partial_function (option) fexp_x18_loop :: "int \<Rightarrow> int \<Rightarrow> int \<Rightarrow> int \<Rightarrow> int option" where
  "fexp_x18_loop y i x ret =
     (if i \<le> y then
        do { ret \<leftarrow> (if i AND y \<noteq> 0 then mul_x18 ret x else Some ret);
             x \<leftarrow> mul_x18 x x;
             fexp_x18_loop y (wrap_i128 (2 * i)) x ret }
      else Some ret)"

definition fexp_x18 :: "i128 \<Rightarrow> i128 \<Rightarrow> i128 option" where
  "fexp_x18 x y = (if y < 0 then None else fexp_x18_loop y 1 x ONE_X18)"

subsection \<open>Thresholds and rounding\<close>

definition check_diff_gt_threshold_x18 :: "i128 \<Rightarrow> i128 \<Rightarrow> f64 \<Rightarrow> bool option" where
  "check_diff_gt_threshold_x18 l r threshold =
     do { d \<leftarrow> chk_i128 (l - r);
          diff \<leftarrow> chk_i128 \<bar>d\<bar>;
          percent \<leftarrow> div_x18 diff r;
          Some (percent > f_to_i128 (f_mul threshold f_1e18)) }"

definition check_within_range_x18 :: "i128 \<Rightarrow> i128 \<Rightarrow> f64 \<Rightarrow> f64 \<Rightarrow> bool option" where
  "check_within_range_x18 l r lower upper =
     do { percent \<leftarrow> div_x18 l r;
          Some (percent > f_to_i128 (f_mul lower f_1e18) \<and> percent < f_to_i128 (f_mul upper f_1e18)) }"

definition lp_value :: "i128 \<Rightarrow> i128 \<Rightarrow> i128 \<Rightarrow> i128 \<Rightarrow> i128 \<Rightarrow> i128 option" where
  "lp_value balance x y supply price =
     (if supply = 0 then Some 0
      else do { m \<leftarrow> mul_x18 x price;
                pool \<leftarrow> chk_i128 (m + y);
                mul_div_x18 balance pool supply })"

text \<open>The remainder panics for zero, and for the least i128 with minus one.\<close>

definition chk_rem :: "i128 \<Rightarrow> i128 \<Rightarrow> i128 option" where
  "chk_rem x y = (if y = 0 \<or> (x = i128_min \<and> y = - 1) then None else Some (tmod x y))"

definition chk_div :: "i128 \<Rightarrow> i128 \<Rightarrow> i128 option" where
  "chk_div x y = (if y = 0 \<or> (x = i128_min \<and> y = - 1) then None else Some (tdiv x y))"

definition trunc :: "i128 \<Rightarrow> i128 \<Rightarrow> i128 option" where
  "trunc value increment = do { m \<leftarrow> chk_rem value increment; chk_i128 (value - m) }"

definition spot_round :: "i128 \<Rightarrow> i128 option" where
  "spot_round value =
     (let negative = value < 0 in
      do { v \<leftarrow> (if negative then chk_neg value else Some value);
           let m = tmod v 100000000;
           r \<leftarrow> (if m < 1000000 then chk_i128 (v - m)
                 else if m > 100000000 - 1000000 then chk_i128 (v + (100000000 - m))
                 else Some v);
           if negative then chk_neg r else Some r })"

subsection \<open>Checked operations\<close>

type_synonym try_i128 = "(string + i128) option"

definition try_add :: "i128 \<Rightarrow> i128 \<Rightarrow> string + i128" where
  "try_add x v = ok_or ''Overflow: add'' (chk_i128 (x + v))"

definition try_div :: "i128 \<Rightarrow> i128 \<Rightarrow> string + i128" where
  "try_div x v = ok_or ''Overflow: div'' (chk_div x v)"

definition try_mul :: "i128 \<Rightarrow> i128 \<Rightarrow> string + i128" where
  "try_mul x v = ok_or ''Overflow: mul'' (chk_i128 (x * v))"

definition try_sub :: "i128 \<Rightarrow> i128 \<Rightarrow> string + i128" where
  "try_sub x v = ok_or ''Overflow: sub'' (chk_i128 (x - v))"

definition try_rem :: "i128 \<Rightarrow> i128 \<Rightarrow> string + i128" where
  "try_rem x v = ok_or ''Overflow: rem'' (chk_rem x v)"

text \<open>The outer None is the panic of the conversion or of the division by zero.\<close>

definition try_mul_x18 :: "i128 \<Rightarrow> i128 \<Rightarrow> try_i128" where
  "try_mul_x18 x v = map_option Ok (chk_i128 (tdiv (x * v) (10 ^ 18)))"

definition try_div_x18 :: "i128 \<Rightarrow> i128 \<Rightarrow> try_i128" where
  "try_div_x18 x v =
     (if v = 0 then None else map_option Ok (chk_i128 (tdiv (x * 10 ^ 18) v)))"

text \<open>The question mark inside a computation that may panic.\<close>

definition try_bind :: "try_i128 \<Rightarrow> (i128 \<Rightarrow> try_i128) \<Rightarrow> try_i128" where
  "try_bind r f = (case r of None \<Rightarrow> None | Some (Inl e) \<Rightarrow> Some (Inl e) | Some (Inr v) \<Rightarrow> f v)"

partial_function (option) sqrt_grow :: "i128 \<Rightarrow> i128 \<Rightarrow> try_i128" where
  "sqrt_grow x hi =
     (case try_mul_x18 hi hi of
        None \<Rightarrow> None
      | Some (Inl e) \<Rightarrow> Some (Inl e)
      | Some (Inr sq) \<Rightarrow>
          if sq < x then
            (case try_mul hi 2 of Inl e \<Rightarrow> Some (Inl e) | Inr hi' \<Rightarrow> sqrt_grow x hi')
          else Some (Ok hi))"

partial_function (option) sqrt_search :: "i128 \<Rightarrow> i128 \<Rightarrow> i128 \<Rightarrow> try_i128" where
  "sqrt_search x lo hi =
     (if lo < hi then
        (case res_bind (try_add lo hi) (\<lambda>s. try_div s 2) of
           Inl e \<Rightarrow> Some (Inl e)
         | Inr mid \<Rightarrow>
             (case try_mul_x18 mid mid of
                None \<Rightarrow> None
              | Some (Inl e) \<Rightarrow> Some (Inl e)
              | Some (Inr sq) \<Rightarrow>
                  if sq < x then
                    (case try_add mid 1 of Inl e \<Rightarrow> Some (Inl e) | Inr lo' \<Rightarrow> sqrt_search x lo' hi)
                  else sqrt_search x lo mid))
      else Some (Ok lo))"

definition try_sqrt_x18 :: "i128 \<Rightarrow> try_i128" where
  "try_sqrt_x18 x =
     try_bind (sqrt_grow x 1) (\<lambda>hi.
     try_bind (Some (try_div hi 2)) (\<lambda>lo. sqrt_search x lo hi))"

subsection \<open>The product and the quotient\<close>

lemma ONE_X18_pos [simp]: "0 < ONE_X18" "ONE_X18 \<noteq> 0" "0 \<le> ONE_X18"
  by (simp_all add: ONE_X18_def)

lemma one_square: "ONE_X18 * ONE_X18 \<le> u128_max"
  by (simp add: ONE_X18_def u128_max_def)

lemma small_product: "0 \<le> x \<Longrightarrow> x < ONE_X18 \<Longrightarrow> 0 \<le> y \<Longrightarrow> y < ONE_X18 \<Longrightarrow> in_u128 (x * y)"
  using mult_mono [of x ONE_X18 y ONE_X18] one_square by (auto simp: in_u128_def)

lemma in_u128I: "0 \<le> x \<Longrightarrow> x \<le> y \<Longrightarrow> in_u128 y \<Longrightarrow> in_u128 x"
  by (auto simp: in_u128_def)

lemma not_in_u128I: "0 \<le> x \<Longrightarrow> x \<le> y \<Longrightarrow> \<not> in_u128 x \<Longrightarrow> \<not> in_u128 y"
  by (auto simp: in_u128_def)

lemma int_div_less:
  assumes "0 < (y :: int)" "a < b * y"
  shows "a div y < b"
proof (rule ccontr)
  assume "\<not> a div y < b"
  then have "b * y \<le> (a div y) * y" using assms by (intro mult_right_mono) auto
  moreover have "(a div y) * y \<le> a"
    using div_mult_mod_eq [of a y] pos_mod_sign [OF assms(1), of a] by linarith
  ultimately show False using assms by linarith
qed

lemma split_left: "x * d = (x mod U) * d + (x div U) * d * (U :: int)"
  by (metis add.commute div_mult_mod_eq distrib_right mult.assoc mult.commute)

lemma split_product:
  fixes U :: int
  assumes "0 < U"
  shows "x * y div U = x * (y div U) + x * (y mod U) div U"
proof -
  have "x * y = x * (y mod U) + (x * (y div U)) * U"
    using div_mult_mod_eq [of y U] by (metis add.commute distrib_left mult.assoc)
  then show ?thesis using assms by simp
qed

lemma umul_x18_eq:
  assumes "0 \<le> x" "x \<le> y"
  shows "umul_x18 x y = chk_u128 (x * y div ONE_X18)"
proof -
  let ?q = "x * y div ONE_X18"
  have q: "0 \<le> ?q" using assms by (simp add: pos_imp_zdiv_nonneg_iff)
  consider "y < ONE_X18" | "ONE_X18 \<le> y" "x < ONE_X18" | "ONE_X18 \<le> x" by linarith
  then show ?thesis
  proof cases
    case 1
    then have p: "in_u128 (x * y)" using assms by (intro small_product) auto
    moreover have "in_u128 ?q"
      using assms by (intro in_u128I [OF q _ p]) (use zdiv_mono2 [of "x * y" 1 ONE_X18] assms in \<open>simp add: ONE_X18_def\<close>)
    ultimately show ?thesis using 1 by (simp add: umul_x18_def chk_u128_def)
  next
    case 2
    let ?c = "y div ONE_X18" and ?d = "y mod ONE_X18"
    have eq: "?q = x * ?c + x * ?d div ONE_X18" by (intro split_product) simp
    have nn: "0 \<le> x * ?c" "0 \<le> x * ?d div ONE_X18"
      using assms by (auto simp: pos_imp_zdiv_nonneg_iff intro!: mult_nonneg_nonneg)
    have xd: "in_u128 (x * ?d)" using assms 2 by (intro small_product) auto
    show ?thesis
    proof (cases "in_u128 (x * ?c)")
      case True
      then show ?thesis using 2 xd eq by (simp add: umul_x18_def chk_u128_def Let_def)
    next
      case False
      then have "\<not> in_u128 ?q" using not_in_u128I [of "x * ?c" ?q] nn eq by linarith
      then show ?thesis using 2 False by (simp add: umul_x18_def chk_u128_def Let_def)
    qed
  next
    case 3
    let ?a = "x div ONE_X18" and ?b = "x mod ONE_X18" and ?c = "y div ONE_X18" and ?d = "y mod ONE_X18"
    have y: "ONE_X18 \<le> y" using 3 assms by linarith
    have "x * ?d = ?b * ?d + (?a * ?d) * ONE_X18"
      by (rule split_left)
    then have xd: "x * ?d div ONE_X18 = ?a * ?d + ?b * ?d div ONE_X18" by simp
    have xc: "x * ?c = ?a * ?c * ONE_X18 + ?b * ?c"
      using split_left [of x ?c ONE_X18] by (simp add: mult.commute mult.left_commute)
    have "?q = x * ?c + x * ?d div ONE_X18" by (intro split_product) simp
    then have eq: "?q = ?a * ?c * ONE_X18 + ?a * ?d + ?b * ?c + ?b * ?d div ONE_X18"
      by (simp only: xd xc)
    have a: "0 \<le> ?a" "0 \<le> ?c" "0 \<le> ?b" "0 \<le> ?d"
      using assms by (simp_all add: pos_imp_zdiv_nonneg_iff)
    have nn: "0 \<le> ?a * ?c" "0 \<le> ?a * ?d" "0 \<le> ?b * ?c" "0 \<le> ?b * ?d div ONE_X18"
      using a by (auto simp: pos_imp_zdiv_nonneg_iff intro!: mult_nonneg_nonneg)
    have ac: "?a * ?c \<le> ?a * ?c * ONE_X18"
      using nn(1) by (simp add: ONE_X18_def)
    have bd: "in_u128 (?b * ?d)" using a by (intro small_product) auto
    show ?thesis
    proof (cases "in_u128 ?q")
      case True
      have "in_u128 (?a * ?c)" "in_u128 (?a * ?c * ONE_X18)" "in_u128 (?a * ?d)"
        "in_u128 (?a * ?c * ONE_X18 + ?a * ?d)" "in_u128 (?b * ?c)"
        "in_u128 (?a * ?c * ONE_X18 + ?a * ?d + ?b * ?c)"
        using in_u128I [OF _ _ True] nn ac eq by (smt (verit))+
      then show ?thesis using 3 y True bd eq by (simp add: umul_x18_def chk_u128_def Let_def)
    next
      case False
      then have "chk_u128 (?a * ?c * ONE_X18 + ?a * ?d + ?b * ?c + ?b * ?d div ONE_X18) = None"
        by (simp add: eq)
      then have "umul_x18 x y = None"
        using 3 y by (auto simp: umul_x18_def Let_def chk_u128_def split: bind_splits if_splits)
      then show ?thesis using False by (simp add: chk_u128_def)
    qed
  qed
qed

lemma udiv_x18_eq:
  assumes "0 \<le> x" "0 < y"
  shows "udiv_x18 x y = chk_u128 (x * ONE_X18 div y)"
proof -
  let ?r = "x mod y" and ?k = "x div y"
  have r: "0 \<le> ?r" "?r < y" using assms by simp_all
  have k: "0 \<le> ?k" using assms by (simp add: pos_imp_zdiv_nonneg_iff)
  have "x * ONE_X18 = ?r * ONE_X18 + (?k * ONE_X18) * y"
    using div_mult_mod_eq [of x y] by (metis add.commute distrib_right mult.assoc mult.commute)
  then have eq: "x * ONE_X18 div y = ?k * ONE_X18 + ?r * ONE_X18 div y"
    using assms by simp
  have "?r * ONE_X18 < y * ONE_X18" using r by (intro mult_strict_right_mono) simp_all
  then have low: "0 \<le> ?r * ONE_X18 div y" "?r * ONE_X18 div y < ONE_X18"
    using r assms int_div_less [of y "?r * ONE_X18" ONE_X18]
    by (auto simp: pos_imp_zdiv_nonneg_iff mult.commute)
  have "ONE_X18 < 2 ^ 128" by (simp add: ONE_X18_def)
  then have mod: "?r * ONE_X18 div y mod 2 ^ 128 = ?r * ONE_X18 div y"
    using low by (intro mod_pos_pos_trivial) linarith+
  have rU: "in_u128 (?r * ONE_X18)" if "?r \<le> ONE_X18"
    using order_trans [OF mult_right_mono [OF that ONE_X18_pos(3)] one_square] r by (auto simp: in_u128_def)
  have fst: "?k * ONE_X18 \<le> x * ONE_X18 div y" "0 \<le> ?k * ONE_X18"
    using eq low k by auto
  have lt: "?k = 0 \<and> ?r = x" if "\<not> x \<ge> y" using that assms by simp
  show ?thesis
  proof (cases "x \<ge> y")
    case True
    show ?thesis
    proof (cases "in_u128 (?k * ONE_X18)")
      case in_range: True
      then show ?thesis
        using True assms rU mod by (auto simp: udiv_x18_def chk_u128_def eq)
    next
      case False
      then have "\<not> in_u128 (x * ONE_X18 div y)"
        using not_in_u128I [OF fst(2,1)] by simp
      then show ?thesis using True False assms by (simp add: udiv_x18_def chk_u128_def)
    qed
  next
    case False
    then have rx: "?r = x" using lt by simp
    have "x \<le> ONE_X18 \<Longrightarrow> in_u128 (x * ONE_X18)"
      "x * ONE_X18 div y mod 2 ^ 128 = x * ONE_X18 div y"
      using rU mod unfolding rx by simp_all
    then show ?thesis using False by (simp add: udiv_x18_def chk_u128_def)
  qed
qed

text \<open>The conversion back to i128 with the sign: exact up to i128, wrapped up to u128.\<close>

definition signed_back :: "bool \<Rightarrow> int \<Rightarrow> i128 option" where
  "signed_back neg q =
     (if q \<le> i128_max then Some (if neg then - q else q)
      else if q \<le> u128_max then chk_i128 (if neg then 2 ^ 128 - q else q - 2 ^ 128)
      else None)"

lemma signed_back_eq:
  assumes "0 \<le> q"
  shows "do { r \<leftarrow> chk_u128 q; chk_i128 (wrap_i128 r * (if neg then - 1 else 1)) } = signed_back neg q"
proof (cases "q \<le> u128_max")
  case True
  then have "q mod 2 ^ 128 = q" "in_u128 q"
    using assms by (auto simp: u128_max_def in_u128_def)
  then show ?thesis
    using assms True
    by (auto simp: signed_back_def wrap_i128_def chk_u128_def chk_i128_def in_i128_def i128_max_def
        i128_min_def)
next
  case False
  then show ?thesis
    by (auto simp: signed_back_def chk_u128_def in_u128_def u128_max_def i128_max_def)
qed

lemma signed_to_unsigned_eq:
  assumes "in_i128 x" "in_i128 y" "x \<noteq> i128_min" "y \<noteq> i128_min"
  shows "signed_to_unsigned x y = Some (\<bar>x\<bar>, \<bar>y\<bar>, if (x < 0) = (y < 0) then 1 else - 1)"
  using assms
  by (auto simp: signed_to_unsigned_def chk_neg_def chk_i128_def in_i128_def i128_min_def i128_max_def)

lemma mul_x18_eq:
  assumes "in_i128 x" "in_i128 y" "x \<noteq> i128_min" "y \<noteq> i128_min"
  shows "mul_x18 x y = signed_back ((x < 0) \<noteq> (y < 0)) (\<bar>x * y\<bar> div ONE_X18)"
proof -
  have "umul_x18 \<bar>y\<bar> \<bar>x\<bar> = chk_u128 (\<bar>x * y\<bar> div ONE_X18)" if "\<bar>y\<bar> \<le> \<bar>x\<bar>"
    using umul_x18_eq [of "\<bar>y\<bar>" "\<bar>x\<bar>"] that by (simp add: abs_mult mult.commute)
  moreover have "umul_x18 \<bar>x\<bar> \<bar>y\<bar> = chk_u128 (\<bar>x * y\<bar> div ONE_X18)" if "\<bar>x\<bar> \<le> \<bar>y\<bar>"
    using umul_x18_eq [of "\<bar>x\<bar>" "\<bar>y\<bar>"] that by (simp add: abs_mult)
  ultimately have "mul_x18 x y = do { r \<leftarrow> chk_u128 (\<bar>x * y\<bar> div ONE_X18);
      chk_i128 (wrap_i128 r * (if (x < 0) \<noteq> (y < 0) then - 1 else 1)) }"
    by (auto simp: mul_x18_def signed_to_unsigned_eq [OF assms])
  then show ?thesis
    by (simp only:) (intro signed_back_eq, simp add: pos_imp_zdiv_nonneg_iff)
qed

lemma div_x18_eq:
  assumes "in_i128 x" "in_i128 y" "x \<noteq> i128_min" "y \<noteq> i128_min" "y \<noteq> 0"
  shows "div_x18 x y = signed_back ((x < 0) \<noteq> (y < 0)) (\<bar>x\<bar> * ONE_X18 div \<bar>y\<bar>)"
proof -
  have "div_x18 x y = do { r \<leftarrow> chk_u128 (\<bar>x\<bar> * ONE_X18 div \<bar>y\<bar>);
      chk_i128 (wrap_i128 r * (if (x < 0) \<noteq> (y < 0) then - 1 else 1)) }"
    using udiv_x18_eq [of "\<bar>x\<bar>" "\<bar>y\<bar>"] assms(5)
    by (auto simp: div_x18_def signed_to_unsigned_eq [OF assms(1-4)])
  then show ?thesis
    using assms(5) by (simp only:) (intro signed_back_eq, simp add: pos_imp_zdiv_nonneg_iff)
qed

lemma tdiv_signed:
  "b \<noteq> 0 \<Longrightarrow> tdiv a b = (if (a < 0) \<noteq> (b < 0) then - (\<bar>a\<bar> div \<bar>b\<bar>) else \<bar>a\<bar> div \<bar>b\<bar>)"
  by (auto simp: tdiv_def sgn_if)

subsection \<open>The square root\<close>

definition sq_x18 :: "int \<Rightarrow> int" where
  "sq_x18 h = h * h div 10 ^ 18"

lemma sq_x18_mono: "0 \<le> a \<Longrightarrow> a \<le> b \<Longrightarrow> sq_x18 a \<le> sq_x18 b"
  unfolding sq_x18_def by (intro zdiv_mono1 mult_mono) auto

lemma sq_x18_nonneg: "0 \<le> sq_x18 h"
  by (simp add: sq_x18_def pos_imp_zdiv_nonneg_iff)

lemma sq_x18_double: "sq_x18 (2 * h) \<le> 4 * sq_x18 h + 3"
proof -
  have "h * h < (sq_x18 h + 1) * 10 ^ 18"
    using div_mult_mod_eq [of "h * h" "10 ^ 18"] pos_mod_bound [of "10 ^ 18" "h * h"]
    by (simp add: sq_x18_def algebra_simps)
  then have "(2 * h) * (2 * h) < (4 * sq_x18 h + 4) * 10 ^ 18" by simp
  then have "sq_x18 (2 * h) < 4 * sq_x18 h + 4"
    unfolding sq_x18_def [of "2 * h"] by (intro int_div_less) auto
  then show ?thesis by simp
qed

lemma try_mul_x18_square:
  "0 \<le> h \<Longrightarrow> sq_x18 h \<le> i128_max \<Longrightarrow> try_mul_x18 h h = Some (Ok (sq_x18 h))"
  using sq_x18_nonneg [of h]
  by (simp add: try_mul_x18_def tdiv_nonneg sq_x18_def chk_i128_def in_i128_def i128_min_def)

lemma sqrt_small:
  assumes "1 \<le> h" "sq_x18 h < 2 ^ 125"
  shows "h < 2 ^ 93"
proof (rule ccontr)
  assume "\<not> h < 2 ^ 93"
  then have "sq_x18 (2 ^ 93) \<le> sq_x18 h" by (intro sq_x18_mono) auto
  moreover have "(2 :: int) ^ 125 \<le> sq_x18 (2 ^ 93)" by (simp add: sq_x18_def)
  ultimately show False using assms by linarith
qed

definition below_root :: "i128 \<Rightarrow> int \<Rightarrow> bool" where
  "below_root x n \<longleftrightarrow> (\<forall>k. 0 \<le> k \<longrightarrow> k < n \<longrightarrow> sq_x18 k < x)"

lemma below_rootI: "0 \<le> n \<Longrightarrow> sq_x18 n < x \<Longrightarrow> below_root x (n + 1)"
  unfolding below_root_def using sq_x18_mono by (smt (verit))

lemma sqrt_grow_returns:
  assumes "x < 2 ^ 125" "1 \<le> h" "h \<le> 2 ^ 94" "sq_x18 h \<le> i128_max" "below_root x (h div 2)"
  shows "\<exists>h'. sqrt_grow x h = Some (Ok h') \<and> 1 \<le> h' \<and> h' \<le> 2 ^ 94 \<and>
    x \<le> sq_x18 h' \<and> sq_x18 h' \<le> i128_max \<and> below_root x (h' div 2)"
  using assms
proof (induction "nat (2 ^ 94 - h)" arbitrary: h rule: less_induct)
  case less
  note square = try_mul_x18_square [of h]
  show ?case
  proof (cases "sq_x18 h < x")
    case True
    have h: "h < 2 ^ 93" using True less.prems by (intro sqrt_small) auto
    have "sq_x18 (2 * h) \<le> i128_max"
      using sq_x18_double [of h] True less.prems(1) by (simp add: i128_max_def)
    moreover have "below_root x (2 * h div 2)"
      using below_rootI [of h x] True less.prems by (auto simp: below_root_def)
    moreover have "try_mul h 2 = Ok (2 * h)"
      using h less.prems by (simp add: try_mul_def chk_i128_def in_i128_iff mult.commute)
    moreover have "nat (2 ^ 94 - 2 * h) < nat (2 ^ 94 - h)" "1 \<le> 2 * h" "2 * h \<le> 2 ^ 94"
      using h less.prems by auto
    ultimately show ?thesis
      using less.hyps [of "2 * h"] less.prems square True
      by (subst sqrt_grow.simps) simp
  next
    case False
    then show ?thesis using less.prems square by (subst sqrt_grow.simps) simp
  qed
qed

lemma sqrt_search_returns:
  assumes "0 \<le> lo" "lo \<le> hi" "hi \<le> 2 ^ 94" "sq_x18 hi \<le> i128_max" "x \<le> sq_x18 hi" "below_root x lo"
  shows "\<exists>r. sqrt_search x lo hi = Some (Ok r) \<and> 0 \<le> r \<and> x \<le> sq_x18 r \<and> below_root x r"
  using assms
proof (induction "nat (hi - lo)" arbitrary: lo hi rule: less_induct)
  case less
  show ?case
  proof (cases "lo < hi")
    case True
    let ?mid = "(lo + hi) div 2"
    have mid: "lo \<le> ?mid" "?mid < hi" "0 \<le> ?mid" using True less.prems by auto
    have bind: "res_bind (try_add lo hi) (\<lambda>s. try_div s 2) = Ok ?mid"
      using less.prems by (simp add: try_add_def try_div_def chk_i128_def chk_div_def in_i128_iff tdiv_nonneg)
    have sq: "sq_x18 ?mid \<le> i128_max"
      using sq_x18_mono [of ?mid hi] mid less.prems by linarith
    note square = try_mul_x18_square [OF mid(3) sq]
    show ?thesis
    proof (cases "sq_x18 ?mid < x")
      case below: True
      have "try_add ?mid 1 = Ok (?mid + 1)"
        using mid less.prems by (simp add: try_add_def chk_i128_def in_i128_iff)
      then show ?thesis
        using less.hyps [of hi "?mid + 1"] less.prems mid below_rootI [OF mid(3) below] bind square below True
        by (subst sqrt_search.simps) simp
    next
      case False
      then show ?thesis
        using less.hyps [of ?mid lo] less.prems mid sq bind square True
        by (subst sqrt_search.simps) simp
    qed
  next
    case False
    then show ?thesis using less.prems by (subst sqrt_search.simps) simp
  qed
qed

subsection \<open>Decimal texts\<close>

definition dec_val :: "nat list \<Rightarrow> nat" where
  "dec_val ds = foldl (\<lambda>a d. 10 * a + d) 0 ds"

lemma digits_val_chars:
  "\<forall>d\<in>set ds. d < 10 \<Longrightarrow> digits_val a (map digit_char ds) = Some (foldl (\<lambda>a d. 10 * a + d) a ds)"
  by (induction ds arbitrary: a) auto

lemma dec_val_zeros: "dec_val (ds @ replicate n 0) = dec_val ds * 10 ^ n"
proof (induction n)
  case (Suc n)
  have "dec_val (ds @ replicate (Suc n) 0) = 10 * dec_val (ds @ replicate n 0)"
    by (simp add: dec_val_def replicate_append_same [symmetric])
  then show ?case using Suc by simp
qed simp

lemma dec_val_less: "\<forall>d\<in>set ds. d < 10 \<Longrightarrow> dec_val ds < 10 ^ length ds"
proof (induction ds rule: rev_induct)
  case (snoc d ds)
  then have "dec_val ds + 1 \<le> 10 ^ length ds" "d < 10" by auto
  then show ?case by (simp add: dec_val_def)
qed (simp add: dec_val_def)

lemma parse_i128_digits:
  assumes "\<forall>d\<in>set ds. d < 10" "ds \<noteq> []" "int (dec_val ds) \<le> i128_max"
  shows "parse_i128 (map digit_char ds) = Some (int (dec_val ds))"
proof -
  have "hd (map digit_char ds) \<noteq> CHR ''+''" "hd (map digit_char ds) \<noteq> CHR ''-''"
    using assms digit_char_neq by (auto simp: hd_map)
  then show ?thesis
    using assms digits_val_chars [OF assms(1), of 0]
    by (cases ds) (auto simp: parse_i128_def parse_signed_def dec_val_def i128_min_def)
qed

lemma show_nat_digits: "\<exists>ds. show_nat n = map digit_char ds \<and> ds \<noteq> [] \<and> (\<forall>d\<in>set ds. d < 10) \<and> dec_val ds = n"
proof (induction n rule: show_nat.induct)
  case (1 n)
  show ?case
  proof (cases "n < 10")
    case True
    then show ?thesis
      by (intro exI [of _ "[n]"]) (simp add: show_nat.simps dec_val_def)
  next
    case False
    obtain ds where ds: "show_nat (n div 10) = map digit_char ds" "ds \<noteq> []" "\<forall>d\<in>set ds. d < 10"
      "dec_val ds = n div 10" using 1 False by blast
    then show ?thesis
      using False
      by (intro exI [of _ "ds @ [n mod 10]"]) (simp add: show_nat.simps [of n] dec_val_def)
  qed
qed

lemma dot_not_digit: "\<forall>d\<in>set ds. d < 10 \<Longrightarrow> CHR ''.'' \<notin> set (map digit_char ds)"
  using digit_char_neq [of _ "CHR ''.''"] by fastforce

subsection \<open>Rounding\<close>

lemma div_le_dividend_int: "0 \<le> (h :: int) \<Longrightarrow> h div 2 \<le> h"
  by simp

lemma spot_round_nonneg:
  assumes "0 \<le> v" "v + 100000000 \<le> i128_max"
  shows "\<exists>r. spot_round v = Some r \<and> 0 \<le> r \<and> \<bar>r - v\<bar> < 1000000 \<and>
    (if v mod 100000000 < 1000000 \<or> v mod 100000000 > 99000000 then r mod 100000000 = 0 else r = v)"
proof -
  let ?m = "v mod 100000000"
  have m: "0 \<le> ?m" "?m < 100000000" "?m \<le> v" using assms zmod_le_nonneg_dividend by auto
  have "v + (100000000 - ?m) = (v - ?m) + 100000000" by simp
  then have div: "(v - ?m) mod 100000000 = 0" "(v + (100000000 - ?m)) mod 100000000 = 0"
    by (simp_all only: minus_mod_eq_mult_div mod_add_self2 mod_mult_self1_is_0)
  have range: "in_i128 (v - ?m)" "in_i128 (v + (100000000 - ?m))" "in_i128 v"
    using m assms by (auto simp: in_i128_def i128_min_def)
  show ?thesis
    using assms m div range by (auto simp: spot_round_def tmod_nonneg chk_i128_def Let_def)
qed

lemma spot_round_neg:
  assumes "v < 0" "- v + 100000000 \<le> i128_max"
  shows "spot_round v = map_option uminus (spot_round (- v))"
proof -
  obtain r where r: "spot_round (- v) = Some r" "0 \<le> r" "\<bar>r - (- v)\<bar> < 1000000"
    using spot_round_nonneg [of "- v"] assms by auto
  have range: "in_i128 (- v)" "in_i128 (- r)" using r assms by (auto simp: in_i128_def i128_min_def i128_max_def)
  have "spot_round v = do { r \<leftarrow> spot_round (- v); chk_neg r }"
    using assms range
    by (simp add: spot_round_def chk_neg_def chk_i128_def Let_def split: if_splits option.splits)
  then show ?thesis using r range by (simp add: chk_neg_def chk_i128_def)
qed

subsection \<open>Properties\<close>

text \<open>C9: Fixed point multiplication and division are exact. For all i128 operands but the
  least one (and a divisor that is not zero), whichever of their branches runs, mul_x18 is the
  product and div_x18 the quotient of the two numbers with 18 decimals, truncated towards
  zero, whenever the result fits i128. When it does not, it is wrapped if its size fits u128
  and a panic otherwise.\<close>

theorem mul_div_x18_exact:
  assumes "in_i128 x" "in_i128 y" "x \<noteq> i128_min" "y \<noteq> i128_min"
  shows "mul_x18 x y =
      (if \<bar>x * y\<bar> div ONE_X18 \<le> i128_max then Some (tdiv (x * y) ONE_X18)
       else signed_back ((x < 0) \<noteq> (y < 0)) (\<bar>x * y\<bar> div ONE_X18)) \<and>
    (y = 0 \<longrightarrow> div_x18 x y = None) \<and>
    (y \<noteq> 0 \<longrightarrow> div_x18 x y =
      (if \<bar>x * ONE_X18\<bar> div \<bar>y\<bar> \<le> i128_max then Some (tdiv (x * ONE_X18) y)
       else signed_back ((x < 0) \<noteq> (y < 0)) (\<bar>x * ONE_X18\<bar> div \<bar>y\<bar>)))"
proof (intro conjI impI)
  have sign: "(x * y < 0) = ((x < 0) \<noteq> (y < 0))" if "x * y \<noteq> 0"
    using that by (auto simp: mult_less_0_iff)
  then show "mul_x18 x y = (if \<bar>x * y\<bar> div ONE_X18 \<le> i128_max then Some (tdiv (x * y) ONE_X18)
      else signed_back ((x < 0) \<noteq> (y < 0)) (\<bar>x * y\<bar> div ONE_X18))"
    by (cases "x * y = 0") (auto simp: mul_x18_eq [OF assms] signed_back_def tdiv_signed ONE_X18_def)
  have abs: "\<bar>x * ONE_X18\<bar> = \<bar>x\<bar> * ONE_X18" by (simp add: abs_mult ONE_X18_def)
  show "div_x18 x y = None" if "y = 0"
    using that assms signed_to_unsigned_eq [OF assms] by (simp add: div_x18_def udiv_x18_def)
  show "div_x18 x y =
      (if \<bar>x * ONE_X18\<bar> div \<bar>y\<bar> \<le> i128_max then Some (tdiv (x * ONE_X18) y)
       else signed_back ((x < 0) \<noteq> (y < 0)) (\<bar>x * ONE_X18\<bar> div \<bar>y\<bar>))" if "y \<noteq> 0"
    using div_x18_eq [OF assms that] that abs
    by (simp add: signed_back_def tdiv_signed ONE_X18_def mult_less_0_iff)
qed

theorem mul_div_x18_exact_witness:
  "mul_x18 (- 1500000000000000000) 2500000000000000000 = Some (- 3750000000000000000) \<and>
   div_x18 (- 1500000000000000000) 2500000000000000000 = Some (- 600000000000000000)"
  using mul_div_x18_exact [of "- 1500000000000000000" 2500000000000000000]
  by (simp add: in_i128_iff i128_min_def i128_max_def ONE_X18_def tdiv_def)

text \<open>C10: The checked square root returns and is right. For every i128 below 2 to the 125 both
  loops of try_sqrt_x18 end without an error or a panic, and the result is the least number
  whose square, with 18 decimals, is not below the argument.\<close>

theorem try_sqrt_x18_correct:
  assumes "x < 2 ^ 125"
  shows "\<exists>r. try_sqrt_x18 x = Some (Ok r) \<and> 0 \<le> r \<and> x \<le> r * r div 10 ^ 18 \<and>
    (\<forall>k. 0 \<le> k \<longrightarrow> k < r \<longrightarrow> k * k div 10 ^ 18 < x)"
proof -
  obtain hi where hi: "sqrt_grow x 1 = Some (Ok hi)" "1 \<le> hi" "hi \<le> 2 ^ 94"
    "x \<le> sq_x18 hi" "sq_x18 hi \<le> i128_max" "below_root x (hi div 2)"
    using sqrt_grow_returns [of x 1] assms by (auto simp: sq_x18_def i128_max_def below_root_def)
  obtain r where r: "sqrt_search x (hi div 2) hi = Some (Ok r)" "0 \<le> r" "x \<le> sq_x18 r" "below_root x r"
    using sqrt_search_returns [of "hi div 2" hi x] hi by (simp add: div_le_dividend_int) blast
  have "try_div hi 2 = Ok (hi div 2)"
    using hi by (simp add: try_div_def chk_div_def tdiv_nonneg)
  then show ?thesis
    using hi r by (auto simp: try_sqrt_x18_def try_bind_def sq_x18_def below_root_def)
qed

theorem try_sqrt_x18_correct_witness:
  "\<exists>r. try_sqrt_x18 4000000000000000000 = Some (Ok r) \<and> 4000000000000000000 \<le> r * r div 10 ^ 18"
  using try_sqrt_x18_correct [of 4000000000000000000] by auto

text \<open>A text of two parts, the second of digits only.\<close>

lemma str_to_x18_parts:
  assumes ds: "\<forall>d\<in>set ds. d < 10" "ds \<noteq> []"
    and pre: "CHR ''.'' \<notin> set pre" "parse_i128 pre = Some w"
    and range: "\<bar>w\<bar> * 10 ^ 18 + 10 ^ 18 \<le> i128_max"
  shows "str_to_x18 (pre @ CHR ''.'' # map digit_char ds) =
    Some (w * 10 ^ 18 + int (dec_val (take 18 ds)) * 10 ^ (18 - min 18 (length ds)))"
proof -
  let ?f = "take 18 ds @ replicate (18 - length ds) 0"
  have parts: "split_on (CHR ''.'') (pre @ CHR ''.'' # map digit_char ds) = [pre, map digit_char ds]"
    unfolding split_on_append [OF pre(1)] split_on_no_sep [OF dot_not_digit [OF ds(1)]] ..
  have f: "\<forall>d\<in>set ?f. d < 10" "?f \<noteq> []" "length ?f = 18"
    using ds by (auto dest: in_set_takeD)
  have less: "dec_val ?f < 10 ^ 18" using dec_val_less [OF f(1)] f(3) by simp
  then have "parse_i128 (map digit_char ?f) = Some (int (dec_val ?f))"
    using parse_i128_digits [OF f(1,2)] by (simp add: i128_max_def)
  then have frac: "parse_i128 (map digit_char (take 18 ds) @ replicate (18 - length ds) (digit_char 0)) =
      Some (int (dec_val ?f))"
    by simp
  have zero: "CHR ''0'' = digit_char 0" by (simp add: digit_chars)
  have pad: "(if length (map digit_char ds) \<le> 18
      then map digit_char ds @ replicate (18 - length (map digit_char ds)) (CHR ''0'')
      else take 18 (map digit_char ds)) =
      map digit_char (take 18 ds) @ replicate (18 - length ds) (digit_char 0)"
    by (simp add: take_map zero)
  have "int (dec_val ?f) < 10 ^ 18" using less by (metis of_nat_less_iff of_nat_numeral of_nat_power)
  then have "in_i128 (w * ONE_X18)" "in_i128 (w * ONE_X18 + int (dec_val ?f))"
    using range by (auto simp: in_i128_def ONE_X18_def i128_min_def i128_max_def)
  then have "str_to_x18 (pre @ CHR ''.'' # map digit_char ds) = Some (w * ONE_X18 + int (dec_val ?f))"
    by (simp add: str_to_x18_def parts pre(2) frac pad chk_i128_def Let_def del: length_map)
  moreover have "18 - length ds = 18 - min 18 (length ds)" by simp
  ultimately show ?thesis by (simp add: dec_val_zeros ONE_X18_def)
qed

text \<open>C11: A decimal text without a sign is read exactly: digits, a point and up to 18 more
  digits give the number with 18 decimals, and further digits are cut off, as long as the
  value fits i128.\<close>

theorem str_to_x18_decimal:
  assumes ds: "\<forall>d\<in>set ds. d < 10" "ds \<noteq> []"
    and range: "int w * 10 ^ 18 + 10 ^ 18 \<le> i128_max"
  shows "str_to_x18 (show_nat w @ CHR ''.'' # map digit_char ds) =
    Some (int w * 10 ^ 18 + int (dec_val (take 18 ds)) * 10 ^ (18 - min 18 (length ds)))"
proof -
  obtain ws where ws: "show_nat w = map digit_char ws" "ws \<noteq> []" "\<forall>d\<in>set ws. d < 10" "dec_val ws = w"
    using show_nat_digits by blast
  have "parse_i128 (show_nat w) = Some (int w)"
    using parse_i128_digits [OF ws(3,2)] ws(1,4) range by (simp add: i128_max_def)
  then show ?thesis
    using str_to_x18_parts [OF ds, of "show_nat w" "int w"] dot_not_digit [OF ws(3)] range
    by (simp only: ws(1)) simp
qed

theorem str_to_x18_decimal_witness:
  "str_to_x18 ''1.25'' = Some 1250000000000000000"
  using str_to_x18_decimal [of "[2, 5]" 1]
  by (simp add: show_eval dec_val_def i128_max_def)

text \<open>
  The sign of a negative text reaches the whole part only: the fraction is added, not
  subtracted, and a negative number with a zero whole part comes out positive.
\<close>

lemma str_to_x18_negative:
  "str_to_x18 ''-1.5'' = Some (- 500000000000000000)" "str_to_x18 ''-0.5'' = Some 500000000000000000"
proof -
  have "parse_i128 ''-1'' = Some (- 1)" "parse_i128 ''-0'' = Some 0"
    by (simp_all add: parse_i128_def parse_signed_def digit_vals i128_min_def i128_max_def)
  then show "str_to_x18 ''-1.5'' = Some (- 500000000000000000)"
    and "str_to_x18 ''-0.5'' = Some 500000000000000000"
    using str_to_x18_parts [of "[5]" "''-1''" "- 1"] str_to_x18_parts [of "[5]" "''-0''" 0]
    by (simp_all add: dec_val_def i128_max_def digit_chars)
qed

text \<open>C12: Rounding of spot amounts. For every amount that is not within one increment of the
  ends of i128, spot_round returns, is odd, moves the amount by less than the threshold, lands
  on a multiple of the increment when the amount is within the threshold of one, and leaves
  every other amount alone.\<close>

theorem spot_round_correct:
  assumes "\<bar>v\<bar> + 100000000 \<le> i128_max"
  shows "\<exists>r. spot_round v = Some r \<and> spot_round (- v) = Some (- r) \<and> \<bar>r - v\<bar> < 1000000 \<and>
    (let m = \<bar>v\<bar> mod 100000000 in
     if m < 1000000 \<or> m > 99000000 then r mod 100000000 = 0 else r = v)"
proof -
  obtain r where r: "spot_round \<bar>v\<bar> = Some r" "0 \<le> r" "\<bar>r - \<bar>v\<bar>\<bar> < 1000000"
    "if \<bar>v\<bar> mod 100000000 < 1000000 \<or> \<bar>v\<bar> mod 100000000 > 99000000 then r mod 100000000 = 0 else r = \<bar>v\<bar>"
    using spot_round_nonneg [of "\<bar>v\<bar>"] assms by auto
  have neg: "(- r) mod 100000000 = 0" if "r mod 100000000 = 0" using that by (simp add: zmod_zminus1_eq_if)
  have zero: "r = 0" if "v = 0" using r(1) that by (simp add: spot_round_def tmod_def chk_i128_def in_i128_iff)
  consider "0 < v" | "v = 0" | "v < 0" by linarith
  then show ?thesis
  proof cases
    case 1
    then show ?thesis
      using r spot_round_neg [of "- v"] assms by (intro exI [of _ r]) (simp add: Let_def)
  next
    case 2
    then show ?thesis using r zero by (intro exI [of _ r]) (simp add: Let_def)
  next
    case 3
    then show ?thesis
      using r spot_round_neg [of v] assms neg
      by (intro exI [of _ "- r"]) (auto simp: Let_def split: if_splits)
  qed
qed

theorem spot_round_correct_witness:
  "\<exists>r. spot_round (- 123499500000) = Some r \<and> r mod 100000000 = 0"
  using spot_round_correct [of "- 123499500000"] by (auto simp: i128_max_def Let_def)

text \<open>
  The trait of checked operations does not keep its promise for the two that go through 256
  bits: they panic where they should return an error.
\<close>

lemma try_x18_panics:
  "try_mul_x18 i128_max i128_max = None" "try_div_x18 1 0 = None"
  by (simp_all add: try_mul_x18_def try_div_x18_def i128_max_def chk_i128_def in_i128_iff tdiv_def)

text \<open>The loops square once more than they need: the last square alone can overflow.\<close>

lemma fexp_extra_square: "fexp 10 32 = None \<and> in_i128 (10 ^ 32)"
  by (simp add: fexp_def fexp_loop.simps wrap_i128_def chk_i128_def in_i128_iff)

end
