(* ===== verification/SdkOrder.thy ===== *)
theory SdkOrder
  imports SdkMath
begin

text \<open>
  Orders and the other signed messages of the SDK (nado_utils/eip712_structs.rs, trigger.rs,
  isolated.rs, the builder of builders/execute/place_order.rs, utils/nonce.rs): the packed
  appendix with its accessors, trigger criteria, subaccount names and the order builder. A
  subaccount is 32 bytes, an address 20; None is a panic.
\<close>

subsection \<open>Signed messages\<close>

record order =
  ord_sender :: bytes
  ord_priceX18 :: i128
  ord_amount :: i128
  ord_expiration :: u64
  ord_nonce :: u64
  ord_appendix :: u128

record cancellation =
  cn_sender :: bytes
  cn_productIds :: "u32 list"
  cn_digests :: "bytes list"
  cn_nonce :: u64

record cancellation_products =
  cp_sender :: bytes
  cp_productIds :: "u32 list"
  cp_nonce :: u64

record link_signer =
  ls_sender :: bytes
  ls_signer :: bytes
  ls_nonce :: u64

record liquidate_subaccount =
  lq_sender :: bytes
  lq_liquidatee :: bytes
  lq_productId :: u32
  lq_isEncodedSpread :: bool
  lq_amount :: i128
  lq_nonce :: u64

record withdraw_collateral =
  wc_sender :: bytes
  wc_productId :: u32
  wc_amount :: u128
  wc_nonce :: u64

record mint_nlp =
  mn_sender :: bytes
  mn_quoteAmount :: u128
  mn_nonce :: u64

record burn_nlp =
  bn_sender :: bytes
  bn_nlpAmount :: u128
  bn_nonce :: u64

record transfer_quote =
  tq_sender :: bytes
  tq_recipient :: bytes
  tq_amount :: u128
  tq_nonce :: u64

datatype order_type = Default | ImmediateOrCancel | FillOrKill | PostOnly

fun show_order_type :: "order_type \<Rightarrow> string" where
  "show_order_type Default = ''default''"
| "show_order_type ImmediateOrCancel = ''ioc''"
| "show_order_type FillOrKill = ''fok''"
| "show_order_type PostOnly = ''post_only''"

definition taker_only :: "order_type \<Rightarrow> bool" where
  "taker_only t \<longleftrightarrow> t = ImmediateOrCancel \<or> t = FillOrKill"

fun order_type_code :: "order_type \<Rightarrow> u128" where
  "order_type_code Default = 0"
| "order_type_code ImmediateOrCancel = 1"
| "order_type_code FillOrKill = 2"
| "order_type_code PostOnly = 3"

definition appendix_bit :: "order_type \<Rightarrow> u128" where
  "appendix_bit t = push_bit 9 (order_type_code t)"

subsection \<open>Reading the appendix\<close>

definition reduce_only :: "order \<Rightarrow> bool" where
  "reduce_only o' \<longleftrightarrow> drop_bit 11 (ord_appendix o') AND 1 = 1"

definition recv_time :: "order \<Rightarrow> u64" where
  "recv_time o' = drop_bit 20 (ord_nonce o')"

definition is_trigger_order :: "order \<Rightarrow> bool" where
  "is_trigger_order o' \<longleftrightarrow> drop_bit 12 (ord_appendix o') AND 3 > 0"

definition is_price_trigger :: "order \<Rightarrow> bool" where
  "is_price_trigger o' \<longleftrightarrow> drop_bit 12 (ord_appendix o') AND 3 = 1"

definition is_twap :: "order \<Rightarrow> bool" where
  "is_twap o' \<longleftrightarrow> drop_bit 12 (ord_appendix o') AND 3 \<ge> 2"

definition is_twap_random :: "order \<Rightarrow> bool" where
  "is_twap_random o' \<longleftrightarrow> drop_bit 12 (ord_appendix o') AND 3 = 3"

definition twap_times :: "order \<Rightarrow> u32 option" where
  "twap_times o' = (if is_twap o' then Some (ucast (drop_bit 96 (ord_appendix o'))) else None)"

definition twap_slippage_x6 :: "order \<Rightarrow> u32 option" where
  "twap_slippage_x6 o' =
     (if is_twap o' then Some (ucast (drop_bit 64 (ord_appendix o') AND (push_bit 32 1 - 1))) else None)"

definition order_price :: "i128 \<Rightarrow> order \<Rightarrow> i128 option" where
  "order_price oracle_price o' =
     (let price = ord_priceX18 o' in
      if is_twap o' then
        do { s \<leftarrow> twap_slippage_x6 o';
             p \<leftarrow> chk_i128 (int (unat s) * ONE_X18);
             let slippage = tdiv p 1000000;
             f \<leftarrow> chk_i128 (if ord_amount o' > 0 then ONE_X18 + slippage else ONE_X18 - slippage);
             twap_price \<leftarrow> mul_x18 oracle_price f;
             Some (if ord_amount o' > 0 then min price twap_price else max price twap_price) }
      else Some price)"

definition is_isolated :: "order \<Rightarrow> bool" where
  "is_isolated o' \<longleftrightarrow> drop_bit 8 (ord_appendix o') AND 1 = 1"

text \<open>The cast of a u128 to i128 and the scaling are checked; the outer None is their panic.\<close>

definition isolated_margin :: "order \<Rightarrow> i128 option option" where
  "isolated_margin o' =
     (if is_isolated o' then
        do { p \<leftarrow> chk_i128 (wrap_i128 (uint (drop_bit 64 (ord_appendix o'))) * ONE_X18);
             Some (Some (tdiv p 1000000)) }
      else Some None)"

definition builder_info :: "order \<Rightarrow> u32 \<times> i128" where
  "builder_info o' =
     (ucast (drop_bit 48 (ord_appendix o') AND (push_bit 16 1 - 1)),
      uint (drop_bit 38 (ord_appendix o') AND (push_bit 10 1 - 1)) * (ONE_X18 div 100000))"

definition reserved_bits :: "order \<Rightarrow> u128" where
  "reserved_bits o' = drop_bit 14 (ord_appendix o') AND (push_bit 24 1 - 1)"

definition order_version :: "order \<Rightarrow> u8" where
  "order_version o' = ucast (ord_appendix o' AND 255)"

subsection \<open>Triggers\<close>

datatype price_requirement =
    OraclePriceAbove i128
  | OraclePriceBelow i128
  | LastPriceAbove i128
  | LastPriceBelow i128
  | MidPriceAbove i128
  | MidPriceBelow i128

record dependency =
  dp_digest :: bytes
  dp_on_partial_fill :: bool

datatype trigger_criteria =
    PriceTrigger price_requirement "dependency option"
  | TimeTrigger u64 "i128 list option"

datatype trigger_type = TT_PriceTrigger | TT_TimeTrigger | TT_None

definition trigger_type_from_appendix :: "u128 \<Rightarrow> trigger_type" where
  "trigger_type_from_appendix appendix =
     (let b = drop_bit 12 appendix AND 3 in
      if b = 1 then TT_PriceTrigger
      else if b = 2 \<or> b = 3 then TT_TimeTrigger
      else TT_None)"

fun criteria_byte :: "trigger_criteria \<Rightarrow> i32" where
  "criteria_byte (PriceTrigger _ _) = 0"
| "criteria_byte (TimeTrigger _ _) = 1"

fun requirement_byte :: "price_requirement \<Rightarrow> i32" where
  "requirement_byte (OraclePriceAbove _) = 0"
| "requirement_byte (OraclePriceBelow _) = 1"
| "requirement_byte (LastPriceAbove _) = 2"
| "requirement_byte (LastPriceBelow _) = 3"
| "requirement_byte (MidPriceAbove _) = 4"
| "requirement_byte (MidPriceBelow _) = 5"

fun requirement_price :: "price_requirement \<Rightarrow> i128" where
  "requirement_price (OraclePriceAbove p) = p"
| "requirement_price (OraclePriceBelow p) = p"
| "requirement_price (LastPriceAbove p) = p"
| "requirement_price (LastPriceBelow p) = p"
| "requirement_price (MidPriceAbove p) = p"
| "requirement_price (MidPriceBelow p) = p"

text \<open>The decimal text filled with zeros from the left up to 40 characters.\<close>

definition requirement_price_str :: "price_requirement \<Rightarrow> string" where
  "requirement_price_str r =
     (let s = show_int (requirement_price r) in replicate (40 - length s) (CHR ''0'') @ s)"

fun criteria_price_str :: "trigger_criteria \<Rightarrow> string option" where
  "criteria_price_str (PriceTrigger r _) = Some (requirement_price_str r)"
| "criteria_price_str _ = None"

fun criteria_price_byte :: "trigger_criteria \<Rightarrow> i32 option" where
  "criteria_price_byte (PriceTrigger r _) = Some (requirement_byte r)"
| "criteria_price_byte _ = None"

fun criteria_dependency :: "trigger_criteria \<Rightarrow> bytes option" where
  "criteria_dependency (PriceTrigger _ d) = map_option dp_digest d"
| "criteria_dependency _ = None"

record place_order =
  po_order :: order
  po_signature :: bytes
  po_product_id :: u32
  po_digest :: "bytes option"
  po_id :: "u64 option"
  po_spot_leverage :: "bool option"
  po_borrow_margin :: "bool option"

record place_trigger_order =
  pt_order :: order
  pt_signature :: bytes
  pt_product_id :: u32
  pt_spot_leverage :: "bool option"
  pt_borrow_margin :: "bool option"
  pt_trigger :: trigger_criteria
  pt_digest :: "bytes option"
  pt_id :: "u64 option"

definition to_place_order :: "place_trigger_order \<Rightarrow> place_order" where
  "to_place_order t =
     \<lparr>po_order = pt_order t, po_signature = pt_signature t, po_product_id = pt_product_id t,
      po_digest = None, po_id = pt_id t, po_spot_leverage = pt_spot_leverage t,
      po_borrow_margin = pt_borrow_margin t\<rparr>"

definition trigger_is_bid :: "place_trigger_order \<Rightarrow> bool" where
  "trigger_is_bid t \<longleftrightarrow> ord_amount (pt_order t) > 0"

definition trigger_amount :: "nat \<Rightarrow> place_trigger_order \<Rightarrow> i128 option option" where
  "trigger_amount index t =
     (if \<not> is_twap_random (pt_order t) then Some None
      else
        (case pt_trigger t of
           TimeTrigger _ (Some amounts) \<Rightarrow>
             if index < length amounts then Some (Some (amounts ! index)) else None
         | TimeTrigger _ None \<Rightarrow> None
         | PriceTrigger _ _ \<Rightarrow> None))"

subsection \<open>Subaccounts\<close>

definition as_bytes :: "string \<Rightarrow> bytes" where
  "as_bytes s = map (\<lambda>c. word_of_nat (of_char c)) s"

definition to_bytes12 :: "bytes \<Rightarrow> bytes" where
  "to_bytes12 s = take 12 s @ replicate (12 - min (length s) 12) 0"

definition concat_to_bytes32 :: "bytes \<Rightarrow> bytes \<Rightarrow> bytes" where
  "concat_to_bytes32 address name = address @ name"

definition is_isolated_subaccount :: "bytes \<Rightarrow> bool" where
  "is_isolated_subaccount sub \<longleftrightarrow>
     (let a = ucast (sub ! 31) :: u32; b = ucast (sub ! 30) :: u32; c = ucast (sub ! 29) :: u32 in
      a OR push_bit 8 b OR push_bit 16 c = 6910831)"

definition get_isolated_product_id :: "bytes \<Rightarrow> u32" where
  "get_isolated_product_id sub =
     (if \<not> is_isolated_subaccount sub then 0
      else (let a = ucast (sub ! 27) :: u32; b = ucast (sub ! 26) :: u32 in a OR push_bit 8 b))"

text \<open>Checking UTF-8 and printing hexadecimal are libraries'.\<close>

definition from_bytes12_safe :: "(bytes \<Rightarrow> string option) \<Rightarrow> (bytes \<Rightarrow> string) \<Rightarrow> bytes \<Rightarrow> string" where
  "from_bytes12_safe from_utf8 hex b =
     (case from_utf8 (filter (\<lambda>c. c \<noteq> 0) b) of
        Some s \<Rightarrow> s
      | None \<Rightarrow> ''0x'' @ hex b)"

definition from_bytes32_safe ::
  "(bytes \<Rightarrow> string option) \<Rightarrow> (bytes \<Rightarrow> string) \<Rightarrow> bytes \<Rightarrow> bytes \<times> string" where
  "from_bytes32_safe from_utf8 hex b =
     (let name = drop 20 b in
      (take 20 b,
       if is_isolated_subaccount b then ''0x'' @ hex name else from_bytes12_safe from_utf8 hex name))"

subsection \<open>Building an order\<close>

text \<open>
  The nonce: the receive time in the high bits and a random number below a million in the low
  ones; now is the clock in seconds. A sum beyond u64 would panic.
\<close>

definition default_recv_time :: "u64 \<Rightarrow> u64" where
  "default_recv_time now = (now + 90) * 1000"

definition order_nonce :: "u64 \<Rightarrow> u64 \<Rightarrow> u64 option \<Rightarrow> u64 option" where
  "order_nonce now random rt =
     (let base = push_bit 20 (unwrap_or (default_recv_time now) rt) in
      if unat base + unat random < 2 ^ 64 then Some (base + random) else None)"

record order_builder =
  ob_price_x18 :: "i128 option"
  ob_linked_sender :: "bytes option"
  ob_amount :: "i128 option"
  ob_expiration :: "u64 option"
  ob_order_type :: "order_type option"
  ob_reduce_only :: "bool option"
  ob_trigger_criteria :: "trigger_criteria option"
  ob_times :: "u32 option"
  ob_slippage_x6 :: "u32 option"
  ob_nonce :: "u64 option"
  ob_appendix :: "u128 option"
  ob_recv_time :: "u64 option"
  ob_isolated :: "bool option"
  ob_margin :: "i128 option"
  ob_builder_info :: "(u32 \<times> u32) option"

definition none_error :: "string \<Rightarrow> string" where
  "none_error name = name @ '' is None!''"

text \<open>
  The appendix in the order the code packs it. The result is None for a panic, an error text
  for a missing field, or the appendix.
\<close>

definition pack_isolated :: "order_builder \<Rightarrow> u128 \<Rightarrow> u128 option" where
  "pack_isolated b a =
     (if ob_isolated b = Some True then
        do { m \<leftarrow> ob_margin b;
             Some (a OR push_bit 8 1 OR push_bit 64 (word_of_int (tdiv m 1000000000000))) }
      else Some a)"

definition pack_trigger :: "order_builder \<Rightarrow> u128 \<Rightarrow> (string + u128) option" where
  "pack_trigger b a =
     (case ob_trigger_criteria b of
        None \<Rightarrow> Some (Ok a)
      | Some (PriceTrigger _ _) \<Rightarrow> Some (Ok (a OR push_bit 12 1))
      | Some (TimeTrigger _ amounts) \<Rightarrow>
          (if ob_isolated b = Some True then None
           else
             do { times \<leftarrow> ob_times b;
                  case ob_slippage_x6 b of
                    None \<Rightarrow> Some (Err (none_error ''slippage_x6''))
                  | Some slippage \<Rightarrow>
                      Some (Ok (a OR push_bit 96 (ucast times) OR push_bit 64 (ucast slippage) OR
                        (case amounts of Some _ \<Rightarrow> push_bit 12 3 | None \<Rightarrow> push_bit 12 2))) }))"

definition pack_builder :: "order_builder \<Rightarrow> u128 \<Rightarrow> u128" where
  "pack_builder b a =
     (case ob_builder_info b of
        None \<Rightarrow> a
      | Some (builder_id, fee) \<Rightarrow> a OR push_bit 48 (ucast builder_id) OR push_bit 38 (ucast fee))"

definition order_inner ::
  "u64 \<Rightarrow> u64 \<Rightarrow> (string + bytes) \<Rightarrow> order_builder \<Rightarrow> (string + order) option" where
  "order_inner now random subaccount b =
     (case ob_amount b of None \<Rightarrow> Some (Err (none_error ''amount'')) | Some amount \<Rightarrow>
      case ob_price_x18 b of None \<Rightarrow> Some (Err (none_error ''price_x18'')) | Some price \<Rightarrow>
      case ob_reduce_only b of None \<Rightarrow> Some (Err (none_error ''reduce_only'')) | Some red \<Rightarrow>
      case ob_order_type b of None \<Rightarrow> Some (Err (none_error ''order_type'')) | Some t \<Rightarrow>
      case ob_expiration b of None \<Rightarrow> Some (Err (none_error ''expiration'')) | Some expiration \<Rightarrow>
      do { let a = unwrap_or 1 (ob_appendix b);
           let a = (if red then a OR push_bit 11 1 else a);
           a \<leftarrow> pack_isolated b a;
           let a = a OR appendix_bit t;
           fresh \<leftarrow> order_nonce now random (ob_recv_time b);
           let nonce = unwrap_or fresh (ob_nonce b);
           r \<leftarrow> pack_trigger b a;
           Some (res_bind r (\<lambda>a.
             res_bind subaccount (\<lambda>default_sender.
             Ok \<lparr>ord_sender = unwrap_or default_sender (ob_linked_sender b),
                 ord_priceX18 = price, ord_amount = amount, ord_expiration = expiration,
                 ord_nonce = nonce, ord_appendix = pack_builder b a\<rparr>))) })"

definition build_order ::
  "u64 \<Rightarrow> u64 \<Rightarrow> (string + bytes) \<Rightarrow> order_builder \<Rightarrow> (string + order) option" where
  "build_order now random subaccount b =
     order_inner now random subaccount
       (b\<lparr>ob_expiration := Some (unwrap_or 4294967295 (ob_expiration b)),
          ob_order_type := Some (unwrap_or Default (ob_order_type b)),
          ob_reduce_only := Some (unwrap_or False (ob_reduce_only b))\<rparr>)"

subsection \<open>The layout of the appendix\<close>

definition layout :: "u128 \<Rightarrow> u128 \<Rightarrow> u128 \<Rightarrow> u128 \<Rightarrow> u128 \<Rightarrow> u128 \<Rightarrow> u128 \<Rightarrow> u128" where
  "layout isol t r tr fee bid hi =
     1 OR push_bit 8 isol OR push_bit 9 t OR push_bit 11 r OR push_bit 12 tr OR push_bit 38 fee OR
     push_bit 48 bid OR push_bit 64 hi"

definition small :: "nat \<Rightarrow> u128 \<Rightarrow> bool" where
  "small n x \<longleftrightarrow> (\<forall>i\<ge>n. \<not> bit x i)"

lemma smallD: "small n x \<Longrightarrow> bit x i \<Longrightarrow> i < n"
  by (auto simp: small_def not_less [symmetric])

lemma word_bit_bound:
  fixes x :: "'a :: len word"
  assumes "unat x < 2 ^ n" "bit x i"
  shows "i < n"
proof -
  have "take_bit n x = x"
    using assms(1) by (metis take_bit_nat_eq_self_iff unsigned_take_bit_eq word_eq_iff_unsigned)
  then show ?thesis using assms(2) by (metis bit_take_bit_iff)
qed

lemma small_lessI: "unat x < 2 ^ n \<Longrightarrow> small n x"
  using word_bit_bound [of x n] by (meson not_less small_def)

lemma mask_forms:
  "push_bit 32 1 - 1 = (mask 32 :: u128)" "push_bit 16 1 - 1 = (mask 16 :: u128)"
  "push_bit 10 1 - 1 = (mask 10 :: u128)" "push_bit 24 1 - 1 = (mask 24 :: u128)"
  "(255 :: u128) = mask 8" "(3 :: u128) = mask 2" "(1 :: u128) = mask 1"
  by (simp_all add: mask_eq_exp_minus_1 push_bit_of_1)

lemma take_field: "drop_bit k a AND mask n = take_bit n (drop_bit k (a :: u128))"
  by (simp add: take_bit_eq_mask)

lemma field_above: "k + n \<le> j \<Longrightarrow> take_bit n (drop_bit k (push_bit j (x :: u128))) = 0"
  by (rule bit_word_eqI, simp only: bit_take_bit_iff) (auto simp: bit_simps)

lemma field_below: "small w x \<Longrightarrow> j + w \<le> k \<Longrightarrow> take_bit n (drop_bit k (push_bit j (x :: u128))) = 0"
  by (rule bit_word_eqI, simp only: bit_take_bit_iff) (auto simp: bit_simps dest: smallD)

lemma field_here: "small n x \<Longrightarrow> k + n \<le> 128 \<Longrightarrow> take_bit n (drop_bit k (push_bit k (x :: u128))) = x"
  by (rule bit_word_eqI, simp only: bit_take_bit_iff) (auto simp: bit_simps dest: smallD)

lemma field_top: "take_bit 64 (drop_bit 64 (push_bit 64 (x :: u128))) = take_bit 64 x"
  by (rule bit_word_eqI, simp only: bit_take_bit_iff) (auto simp: bit_simps)

lemma field_one: "0 < k \<Longrightarrow> take_bit n (drop_bit k (1 :: u128)) = 0"
  by (rule bit_word_eqI, simp only: bit_take_bit_iff) (auto simp: bit_simps)

lemma field_or: "take_bit n (drop_bit k (a OR b)) = take_bit n (drop_bit k a) OR take_bit n (drop_bit k (b :: u128))"
  by (simp add: drop_bit_or take_bit_or)

lemma layout_bits:
  assumes "small 1 isol" "small 2 t" "small 1 r" "small 2 tr" "small 10 fee" "small 16 bid"
  shows "take_bit 8 (drop_bit 0 (layout isol t r tr fee bid hi)) = take_bit 8 (drop_bit 0 1)"
    and "take_bit 1 (drop_bit 8 (layout isol t r tr fee bid hi)) = isol"
    and "take_bit 2 (drop_bit 9 (layout isol t r tr fee bid hi)) = t"
    and "take_bit 1 (drop_bit 11 (layout isol t r tr fee bid hi)) = r"
    and "take_bit 2 (drop_bit 12 (layout isol t r tr fee bid hi)) = tr"
    and "take_bit 24 (drop_bit 14 (layout isol t r tr fee bid hi)) = 0"
    and "take_bit 10 (drop_bit 38 (layout isol t r tr fee bid hi)) = fee"
    and "take_bit 16 (drop_bit 48 (layout isol t r tr fee bid hi)) = bid"
    and "take_bit 64 (drop_bit 64 (layout isol t r tr fee bid hi)) = take_bit 64 hi"
  by (simp_all only: layout_def field_or field_above field_one field_here [OF assms(1)]
      field_here [OF assms(2)] field_here [OF assms(3)] field_here [OF assms(4)]
      field_here [OF assms(5)] field_here [OF assms(6)] assms [THEN field_below] field_top
      or.left_neutral or.right_neutral)

text \<open>The fields an order builder asks for.\<close>

definition f_isolated :: "order_builder \<Rightarrow> u128" where
  "f_isolated b = (if ob_isolated b = Some True then 1 else 0)"

definition f_margin :: "order_builder \<Rightarrow> u128" where
  "f_margin b = (if ob_isolated b = Some True
     then word_of_int (tdiv (the (ob_margin b)) 1000000000000) else 0)"

definition f_trigger :: "order_builder \<Rightarrow> u128" where
  "f_trigger b = (case ob_trigger_criteria b of None \<Rightarrow> 0 | Some (PriceTrigger _ _) \<Rightarrow> 1
     | Some (TimeTrigger _ None) \<Rightarrow> 2 | Some (TimeTrigger _ (Some _)) \<Rightarrow> 3)"

definition f_twap :: "order_builder \<Rightarrow> u128" where
  "f_twap b = (case ob_trigger_criteria b of
       Some (TimeTrigger _ _) \<Rightarrow> ucast (the (ob_slippage_x6 b)) OR push_bit 32 (ucast (the (ob_times b)))
     | _ \<Rightarrow> 0)"

definition f_builder :: "order_builder \<Rightarrow> u128 \<times> u128" where
  "f_builder b = (case ob_builder_info b of None \<Rightarrow> (0, 0) | Some (i, f) \<Rightarrow> (ucast i, ucast f))"

lemma pack_isolated_fields:
  "pack_isolated b a = Some a' \<Longrightarrow>
     a' = a OR push_bit 8 (f_isolated b) OR push_bit 64 (f_margin b) \<and>
     (ob_isolated b = Some True \<longrightarrow> ob_margin b \<noteq> None)"
  by (auto simp: pack_isolated_def f_isolated_def f_margin_def split: if_splits bind_splits)

lemma pack_trigger_fields:
  assumes "pack_trigger b a = Some (Ok a')"
  shows "a' = a OR push_bit 12 (f_trigger b) OR push_bit 64 (f_twap b) \<and>
    (\<forall>i as. ob_trigger_criteria b = Some (TimeTrigger i as) \<longrightarrow>
       ob_isolated b \<noteq> Some True \<and> ob_times b \<noteq> None \<and> ob_slippage_x6 b \<noteq> None)"
  using assms
  by (auto simp: pack_trigger_def f_trigger_def f_twap_def push_bit_or push_bit_push_bit or.assoc
      or.left_commute or.commute split: option.splits trigger_criteria.splits if_splits bind_splits)

lemma pack_builder_fields:
  "pack_builder b a = a OR push_bit 48 (fst (f_builder b)) OR push_bit 38 (snd (f_builder b))"
  by (auto simp: pack_builder_def f_builder_def split: option.splits)

lemma build_order_layout:
  assumes "build_order now random sub b = Some (Ok o')" and "ob_appendix b = None"
  shows "ord_appendix o' = layout (f_isolated b) (order_type_code (unwrap_or Default (ob_order_type b)))
      (if unwrap_or False (ob_reduce_only b) then 1 else 0) (f_trigger b) (snd (f_builder b))
      (fst (f_builder b)) (f_margin b OR f_twap b)"
    and "ob_isolated b = Some True \<Longrightarrow> ob_margin b \<noteq> None"
    and "ob_trigger_criteria b = Some (TimeTrigger i as) \<Longrightarrow>
       ob_isolated b \<noteq> Some True \<and> ob_times b \<noteq> None \<and> ob_slippage_x6 b \<noteq> None"
proof -
  let ?r = "unwrap_or False (ob_reduce_only b)" and ?t = "unwrap_or Default (ob_order_type b)"
  let ?b = "b\<lparr>ob_expiration := Some (unwrap_or 4294967295 (ob_expiration b)),
          ob_order_type := Some ?t, ob_reduce_only := Some ?r\<rparr>"
  have f: "f_isolated ?b = f_isolated b" "f_margin ?b = f_margin b" "f_trigger ?b = f_trigger b"
    "f_twap ?b = f_twap b" "f_builder ?b = f_builder b"
    by (simp_all add: f_isolated_def f_margin_def f_trigger_def f_twap_def f_builder_def
        split: option.split trigger_criteria.split)
  obtain a1 a2 where a: "pack_isolated ?b (if ?r then 1 OR push_bit 11 1 else 1) = Some a1"
    "pack_trigger ?b (a1 OR appendix_bit ?t) = Some (Ok a2)" "ord_appendix o' = pack_builder ?b a2"
    using assms
    by (auto simp: build_order_def order_inner_def Let_def res_bind_Inr_iff
        split: option.splits bind_splits)
  note p = pack_isolated_fields [OF a(1)] pack_trigger_fields [OF a(2)]
  have r: "(if ?r then 1 OR push_bit 11 1 else 1) = 1 OR push_bit 11 (if ?r then 1 else (0 :: u128))"
    by simp
  have "ord_appendix o' = (((1 OR push_bit 11 (if ?r then 1 else 0)) OR push_bit 8 (f_isolated b) OR
      push_bit 64 (f_margin b)) OR push_bit 9 (order_type_code ?t)) OR push_bit 12 (f_trigger b) OR
      push_bit 64 (f_twap b) OR push_bit 48 (fst (f_builder b)) OR push_bit 38 (snd (f_builder b))"
    using p a(3) unfolding f pack_builder_fields r appendix_bit_def by (simp only: or.assoc)
  then show "ord_appendix o' = layout (f_isolated b) (order_type_code ?t)
      (if ?r then 1 else 0) (f_trigger b) (snd (f_builder b)) (fst (f_builder b)) (f_margin b OR f_twap b)"
    unfolding layout_def push_bit_or by (simp only: or.assoc or.left_commute or.commute)
  show "ob_isolated b = Some True \<Longrightarrow> ob_margin b \<noteq> None"
    and "ob_trigger_criteria b = Some (TimeTrigger i as) \<Longrightarrow>
       ob_isolated b \<noteq> Some True \<and> ob_times b \<noteq> None \<and> ob_slippage_x6 b \<noteq> None"
    using p by auto
qed

lemma and_masks:
  "x AND 1 = take_bit 1 (x :: u128)" "x AND 3 = take_bit 2 x" "x AND 255 = take_bit 8 x"
  "x AND (push_bit 10 1 - 1) = take_bit 10 x" "x AND (push_bit 16 1 - 1) = take_bit 16 x"
  "x AND (push_bit 24 1 - 1) = take_bit 24 x" "x AND (push_bit 32 1 - 1) = take_bit 32 x"
  by (simp_all add: take_bit_eq_mask mask_eq_exp_minus_1 push_bit_of_1)

lemma unat_ucast_u128: "unat (ucast (w :: u32) :: u128) = unat w"
  using unsigned_less [of w, where ?'a = nat]
  by (simp add: unsigned_ucast_eq unsigned_take_bit_eq take_bit_nat_eq_self)

lemma uint_ucast_u128: "uint (ucast (w :: u32) :: u128) = int (unat w)"
  by (simp only: unat_ucast_u128 [symmetric] of_nat_unat)

lemma ucast_u32_u128: "ucast (ucast (w :: u32) :: u128) = w"
  by (rule bit_word_eqI) (simp add: bit_simps)

lemma small_ucast: "unat (w :: u32) < 2 ^ n \<Longrightarrow> small n (ucast w)"
  by (rule small_lessI) (simp add: unat_ucast_u128)

lemma small_fields:
  "small 1 (f_isolated b)" "small 2 (order_type_code t)" "small 1 (if c then 1 else 0)"
  "small 2 (f_trigger b)"
  by (auto simp: f_isolated_def f_trigger_def intro!: small_lessI
      split: option.split trigger_criteria.split) (cases t; simp)

lemma small_builder:
  assumes "case ob_builder_info b of None \<Rightarrow> True | Some (i, f) \<Rightarrow> unat i < 2 ^ 16 \<and> unat f < 2 ^ 10"
  shows "small 10 (snd (f_builder b))" "small 16 (fst (f_builder b))"
  using assms
  by (auto simp: f_builder_def small_def[of _ 0] intro: small_ucast split: option.splits)

lemma high_half: "drop_bit 64 (a :: u128) = take_bit 64 (drop_bit 64 a)"
  by (rule bit_word_eqI, simp only: bit_take_bit_iff bit_drop_bit_eq comp_apply)
    (auto dest: bit_imp_le_length)

lemma twap_halves:
  fixes s t :: u32
  shows "ucast (take_bit 32 (take_bit 64 (ucast s OR push_bit 32 (ucast t) :: u128))) = s"
    and "ucast (drop_bit 32 (take_bit 64 (ucast s OR push_bit 32 (ucast t) :: u128))) = t"
  by (rule bit_word_eqI, auto simp: bit_simps dest: bit_imp_le_length)+

lemma scaled_margin:
  assumes "0 \<le> m" "m div 1000000000000 < 2 ^ 64"
  shows "do { p \<leftarrow> chk_i128 (wrap_i128 (uint (take_bit 64 (word_of_int (tdiv m 1000000000000) :: u128))) * ONE_X18);
              Some (Some (tdiv p 1000000)) } = Some (Some (m div 1000000000000 * 1000000000000))"
proof -
  let ?q = "m div 1000000000000"
  have q: "0 \<le> ?q" "?q < 18446744073709551616" using assms by simp_all
  have u: "uint (take_bit 64 (word_of_int ?q :: u128)) = ?q"
  proof -
    have "uint (word_of_int ?q :: u128) = ?q" using q by (simp add: uint_word_of_int take_bit_int_eq_self)
    moreover have "take_bit 64 ?q = ?q" using q by (intro take_bit_int_eq_self) simp_all
    ultimately show ?thesis by (simp only: unsigned_take_bit_eq)
  qed
  have "wrap_i128 ?q = ?q" using q by (simp add: wrap_i128_def)
  moreover have "in_i128 (?q * ONE_X18)" using q by (simp add: in_i128_iff ONE_X18_def)
  moreover have "tdiv (?q * ONE_X18) 1000000 = ?q * 1000000000000"
  proof -
    have "?q * ONE_X18 = (?q * 1000000000000) * 1000000" by (simp add: ONE_X18_def)
    then show ?thesis using q by (simp add: tdiv_nonneg ONE_X18_def)
  qed
  ultimately show ?thesis using assms by (simp add: tdiv_nonneg u chk_i128_def)
qed

lemma built_fields:
  assumes ok: "build_order now random sub b = Some (Ok o')" and fresh: "ob_appendix b = None"
    and bld: "case ob_builder_info b of None \<Rightarrow> True | Some (i, f) \<Rightarrow> unat i < 2 ^ 16 \<and> unat f < 2 ^ 10"
  shows "take_bit 8 (ord_appendix o') = 1"
    and "take_bit 1 (drop_bit 8 (ord_appendix o')) = f_isolated b"
    and "take_bit 2 (drop_bit 9 (ord_appendix o')) = order_type_code (unwrap_or Default (ob_order_type b))"
    and "take_bit 1 (drop_bit 11 (ord_appendix o')) = (if unwrap_or False (ob_reduce_only b) then 1 else 0)"
    and "take_bit 2 (drop_bit 12 (ord_appendix o')) = f_trigger b"
    and "take_bit 24 (drop_bit 14 (ord_appendix o')) = 0"
    and "take_bit 10 (drop_bit 38 (ord_appendix o')) = snd (f_builder b)"
    and "take_bit 16 (drop_bit 48 (ord_appendix o')) = fst (f_builder b)"
    and "drop_bit 64 (ord_appendix o') = take_bit 64 (f_margin b OR f_twap b)"
    and "drop_bit 96 (ord_appendix o') = drop_bit 32 (take_bit 64 (f_margin b OR f_twap b))"
proof -
  let ?t = "order_type_code (unwrap_or Default (ob_order_type b))"
  let ?r = "(if unwrap_or False (ob_reduce_only b) then 1 else 0) :: u128"
  let ?L = "layout (f_isolated b) ?t ?r (f_trigger b) (snd (f_builder b)) (fst (f_builder b)) (f_margin b OR f_twap b)"
  note L = build_order_layout(1) [OF ok fresh]
  note bits = layout_bits [where hi = "f_margin b OR f_twap b" and isol = "f_isolated b" and t = ?t and r = ?r and
    tr = "f_trigger b", OF small_fields(1,2,3,4) small_builder [OF bld]]
  have hi: "drop_bit 64 ?L = take_bit 64 (f_margin b OR f_twap b)"
    using bits(9) high_half by metis
  have "drop_bit 96 ?L = drop_bit 32 (drop_bit 64 ?L)" by simp
  then have hi2: "drop_bit 96 ?L = drop_bit 32 (take_bit 64 (f_margin b OR f_twap b))"
    by (simp only: hi)
  show "take_bit 8 (ord_appendix o') = 1" unfolding L using bits(1) by simp
  show "take_bit 1 (drop_bit 8 (ord_appendix o')) = f_isolated b"
    and "take_bit 2 (drop_bit 9 (ord_appendix o')) = ?t"
    and "take_bit 1 (drop_bit 11 (ord_appendix o')) = ?r"
    and "take_bit 2 (drop_bit 12 (ord_appendix o')) = f_trigger b"
    and "take_bit 24 (drop_bit 14 (ord_appendix o')) = 0"
    and "take_bit 10 (drop_bit 38 (ord_appendix o')) = snd (f_builder b)"
    and "take_bit 16 (drop_bit 48 (ord_appendix o')) = fst (f_builder b)"
    and "drop_bit 64 (ord_appendix o') = take_bit 64 (f_margin b OR f_twap b)"
    and "drop_bit 96 (ord_appendix o') = drop_bit 32 (take_bit 64 (f_margin b OR f_twap b))"
    unfolding L by (rule bits hi hi2)+
qed

subsection \<open>Properties\<close>

text \<open>C13: What the builder packs is what the order says. An order built without a ready-made
  appendix, with a builder fee and id within their 10 and 16 bits and (if isolated) a margin
  of at most 64 bits in units of 10 to the minus 6, reads back exactly: version 1, no reserved
  bits, the order type, the reduce-only and isolated flags, the trigger type and its random
  flag, the builder's id and fee, the margin rounded down to six decimals, and the number and
  slippage of a TWAP. Fields that share bits are never both set.\<close>

theorem order_appendix_roundtrip:
  assumes ok: "build_order now random sub b = Some (Ok o')" and fresh: "ob_appendix b = None"
    and bld: "case ob_builder_info b of None \<Rightarrow> True | Some (i, f) \<Rightarrow> unat i < 2 ^ 16 \<and> unat f < 2 ^ 10"
    and mar: "ob_isolated b = Some True \<Longrightarrow> 0 \<le> the (ob_margin b) \<and> the (ob_margin b) div 1000000000000 < 2 ^ 64"
  shows "order_version o' = 1 \<and> reserved_bits o' = 0 \<and>
     drop_bit 9 (ord_appendix o') AND 3 = order_type_code (unwrap_or Default (ob_order_type b)) \<and>
     reduce_only o' = unwrap_or False (ob_reduce_only b) \<and>
     is_isolated o' = (ob_isolated b = Some True) \<and>
     trigger_type_from_appendix (ord_appendix o') =
       (case ob_trigger_criteria b of None \<Rightarrow> TT_None | Some (PriceTrigger _ _) \<Rightarrow> TT_PriceTrigger
        | Some (TimeTrigger _ _) \<Rightarrow> TT_TimeTrigger) \<and>
     is_twap_random o' =
       (case ob_trigger_criteria b of Some (TimeTrigger _ (Some _)) \<Rightarrow> True | _ \<Rightarrow> False) \<and>
     builder_info o' =
       (case ob_builder_info b of None \<Rightarrow> (0, 0) | Some (i, f) \<Rightarrow> (i, int (unat f) * 10000000000000)) \<and>
     isolated_margin o' =
       Some (if ob_isolated b = Some True
             then Some (the (ob_margin b) div 1000000000000 * 1000000000000) else None) \<and>
     (is_twap o' \<longrightarrow> twap_times o' = ob_times b \<and> twap_slippage_x6 o' = ob_slippage_x6 b)"
proof -
  note L = build_order_layout [OF ok fresh]
  note bits = built_fields [OF ok fresh bld]
  note half = bits(9,10)
  show ?thesis
  proof (intro conjI impI)
    show "order_version o' = 1"
      unfolding order_version_def and_masks bits(1) by simp
    show "reserved_bits o' = 0" unfolding reserved_bits_def and_masks by (rule bits(6))
    show "drop_bit 9 (ord_appendix o') AND 3 = order_type_code (unwrap_or Default (ob_order_type b))" using bits(3) by (simp only: and_masks)
    show "reduce_only o' = unwrap_or False (ob_reduce_only b)"
      unfolding reduce_only_def and_masks bits(4) by simp
    show "is_isolated o' = (ob_isolated b = Some True)"
      unfolding is_isolated_def and_masks bits(2) by (simp add: f_isolated_def)
    show "trigger_type_from_appendix (ord_appendix o') =
       (case ob_trigger_criteria b of None \<Rightarrow> TT_None | Some (PriceTrigger _ _) \<Rightarrow> TT_PriceTrigger
        | Some (TimeTrigger _ _) \<Rightarrow> TT_TimeTrigger)"
      unfolding trigger_type_from_appendix_def and_masks bits(5)
      by (simp add: f_trigger_def split: option.split trigger_criteria.split)
    show "is_twap_random o' =
       (case ob_trigger_criteria b of Some (TimeTrigger _ (Some _)) \<Rightarrow> True | _ \<Rightarrow> False)"
      unfolding is_twap_random_def and_masks bits(5)
      by (simp add: f_trigger_def split: option.split trigger_criteria.split)
    show "builder_info o' =
       (case ob_builder_info b of None \<Rightarrow> (0, 0) | Some (i, f) \<Rightarrow> (i, int (unat f) * 10000000000000))"
      unfolding builder_info_def and_masks bits(7,8)
      by (simp add: f_builder_def ONE_X18_def uint_ucast_u128 ucast_u32_u128 split: option.split prod.split)
    show "isolated_margin o' = Some (if ob_isolated b = Some True
             then Some (the (ob_margin b) div 1000000000000 * 1000000000000) else None)"
    proof (cases "ob_isolated b = Some True")
      case True
      have "f_twap b = 0"
        using L(3) True by (auto simp: f_twap_def split: option.split trigger_criteria.split)
      moreover have "f_margin b = word_of_int (tdiv (the (ob_margin b)) 1000000000000)"
        using True by (simp add: f_margin_def)
      moreover have "is_isolated o'"
        unfolding is_isolated_def and_masks bits(2) using True by (simp add: f_isolated_def)
      ultimately show ?thesis
        using scaled_margin [of "the (ob_margin b)"] mar True
        by (simp add: isolated_margin_def half)
    next
      case False
      have "\<not> is_isolated o'"
        unfolding is_isolated_def and_masks bits(2) using False by (simp add: f_isolated_def)
      then show ?thesis using False by (simp add: isolated_margin_def)
    qed
    assume tw: "is_twap o'"
    then have "2 \<le> f_trigger b" unfolding is_twap_def and_masks bits(5) .
    moreover have "\<not> (2 :: u128) \<le> 1" "\<not> (2 :: u128) \<le> 0" by code_simp+
    ultimately obtain i as where c: "ob_trigger_criteria b = Some (TimeTrigger i as)"
      by (auto simp: f_trigger_def split: option.splits trigger_criteria.splits)
    obtain t sl where n: "ob_isolated b \<noteq> Some True" "ob_times b = Some t" "ob_slippage_x6 b = Some sl"
      using L(3) [OF c] by auto
    have hi: "f_margin b OR f_twap b = ucast sl OR push_bit 32 (ucast t)"
      using n by (simp add: f_margin_def f_twap_def c)
    show "twap_times o' = ob_times b"
      unfolding twap_times_def half hi twap_halves using n tw by simp
    show "twap_slippage_x6 o' = ob_slippage_x6 b"
      unfolding twap_slippage_x6_def half and_masks hi twap_halves using n tw by simp
  qed
qed

theorem order_appendix_roundtrip_witness:
  "\<exists>o'. build_order 0 5 (Ok []) \<lparr>ob_price_x18 = Some 7, ob_linked_sender = None, ob_amount = Some 3,
      ob_expiration = None, ob_order_type = Some PostOnly, ob_reduce_only = Some True,
      ob_trigger_criteria = None, ob_times = None, ob_slippage_x6 = None, ob_nonce = None,
      ob_appendix = None, ob_recv_time = None, ob_isolated = Some True,
      ob_margin = Some 2500000000000000001, ob_builder_info = Some (9, 10)\<rparr> = Some (Ok o') \<and>
     isolated_margin o' = Some (Some 2500000000000000000) \<and> builder_info o' = (9, 100000000000000)"
proof -
  let ?b = "\<lparr>ob_price_x18 = Some 7, ob_linked_sender = None, ob_amount = Some 3,
      ob_expiration = None, ob_order_type = Some PostOnly, ob_reduce_only = Some True,
      ob_trigger_criteria = None, ob_times = None, ob_slippage_x6 = None, ob_nonce = None,
      ob_appendix = None, ob_recv_time = None, ob_isolated = Some True,
      ob_margin = Some 2500000000000000001, ob_builder_info = Some (9, 10)\<rparr> :: order_builder"
  obtain o' where o': "build_order 0 5 (Ok []) ?b = Some (Ok o')"
    by (simp add: build_order_def order_inner_def Let_def pack_isolated_def pack_trigger_def
        order_nonce_def default_recv_time_def)
  from order_appendix_roundtrip [OF o'] show ?thesis
    using o' by (intro exI [of _ o']) simp
qed

text \<open>A fresh nonce carries its receive time. For every receive time and every random
  number below a million the nonce is computed without overflow, and when the time fits the 44
  high bits the order that carries the nonce reads it back.\<close>

theorem order_nonce_recv_time:
  assumes rnd: "unat random < 1000000"
  shows "\<exists>n. order_nonce now random (Some rt) = Some n \<and>
     (\<forall>o'. ord_nonce o' = n \<longrightarrow> unat rt < 2 ^ 44 \<longrightarrow> recv_time o' = rt)"
proof -
  have rb: "bit random i \<Longrightarrow> i < 20" for i
    using word_bit_bound [of random 20 i] rnd by simp
  have disj: "push_bit 20 rt AND random = 0"
    by (rule bit_word_eqI) (auto simp: bit_simps dest: rb)
  have sum: "push_bit 20 rt + random = push_bit 20 rt OR random"
    using disj by (simp add: disjunctive_add_eq_or)
  have "unat (push_bit 20 rt) + unat random < 2 ^ 64"
  proof -
    have "unat (push_bit 20 rt) = take_bit LENGTH(64) (push_bit 20 (unat rt))"
      by (rule unsigned_push_bit_eq)
    also have "\<dots> = 2 ^ 20 * (unat rt mod 2 ^ 44)"
      by (simp add: take_bit_eq_mod push_bit_eq_mult mult.commute mult_mod_right)
    finally have "unat (push_bit 20 rt) = 2 ^ 20 * (unat rt mod 2 ^ 44)" .
    moreover have "unat rt mod 2 ^ 44 \<le> 2 ^ 44 - 1" by simp
    ultimately show ?thesis using rnd by simp
  qed
  then have "order_nonce now random (Some rt) = Some (push_bit 20 rt + random)"
    by (simp add: order_nonce_def)
  moreover have "drop_bit 20 (push_bit 20 rt + random) = rt" if "unat rt < 2 ^ 44"
  proof -
    have "bit rt i \<Longrightarrow> i < 44" for i
      using word_bit_bound [of rt 44 i] that by simp
    then show ?thesis unfolding sum
      by (intro bit_word_eqI) (auto simp: bit_simps dest: rb)
  qed
  ultimately show ?thesis by (auto simp: recv_time_def)
qed

theorem order_nonce_recv_time_witness:
  "\<exists>n. order_nonce 0 999999 (Some 1700000000000) = Some n"
  using order_nonce_recv_time [of 999999 0 1700000000000] by auto

text \<open>C14: Subaccounts keep their name. The 32 bytes made of an address and a name of at most 12
  bytes none of which is zero give back the address and the text of the name, unless the
  bytes end with the mark of an isolated subaccount (a full name ending in iso).\<close>

theorem subaccount_roundtrip:
  assumes addr: "length address = 20" and name: "length s \<le> 12" "0 \<notin> set s"
    and plain: "\<not> is_isolated_subaccount (concat_to_bytes32 address (to_bytes12 s))"
    and utf8: "from_utf8 s = Some txt"
  shows "length (concat_to_bytes32 address (to_bytes12 s)) = 32 \<and>
    from_bytes32_safe from_utf8 hex (concat_to_bytes32 address (to_bytes12 s)) = (address, txt)"
proof -
  have "filter (\<lambda>c. c \<noteq> 0) (to_bytes12 s) = s"
    using name by (auto simp: to_bytes12_def filter_id_conv)
  then show ?thesis
    using assms by (simp add: from_bytes32_safe_def concat_to_bytes32_def from_bytes12_safe_def to_bytes12_def)
qed

theorem subaccount_roundtrip_witness:
  "from_bytes32_safe (\<lambda>b. if b = [100, 101] then Some ''de'' else None) (\<lambda>b. [])
     (concat_to_bytes32 (replicate 20 1) (to_bytes12 [100, 101])) = (replicate 20 1, ''de'')"
  using subaccount_roundtrip [of "replicate 20 1" "[100, 101]"
      "\<lambda>b. if b = [100, 101] then Some ''de'' else None" "''de''" "\<lambda>b. []"]
  by (simp add: is_isolated_subaccount_def concat_to_bytes32_def to_bytes12_def nth_append)

text \<open>
  Without the bounds the fields run into each other: a fee of 1024 or more reads as another
  builder, and an id of 65536 or more as a margin.
\<close>

lemma builder_fee_overflow:
  "builder_info \<lparr>ord_sender = [], ord_priceX18 = 0, ord_amount = 0, ord_expiration = 0, ord_nonce = 0,
     ord_appendix = 1 OR push_bit 48 (ucast (4 :: u32)) OR push_bit 38 (ucast (1025 :: u32))\<rparr> =
   (5, 10000000000000)"
  by (simp add: builder_info_def ONE_X18_def)

end
