(* ===== verification/ExecutionGateway.thy ===== *)
theory ExecutionGateway
  imports SdkOrder ClientMode Collections
begin

text \<open>
  The execution gateway (gateway/execution/src/main.rs, config.rs): it checks that every signed
  message of an execute request belongs to the session's address and is signed by the owner or
  by the linked signer the exchange names, refuses order kinds the service does not offer, and
  forwards the request only then. Outside code is in the record externals: address parsing,
  hexadecimal, hashing and signature recovery of the ethers library, and the answers of the
  exchange, where the n-th question for a linked signer may be answered differently each time.
  A handler runs over a state that holds the cache of the request and logs what it asked and
  what it sent.
\<close>

subsection \<open>Requests\<close>

datatype (plugins only: code size) engine_execute =
    E_LiquidateSubaccount liquidate_subaccount bytes
  | E_WithdrawCollateral withdraw_collateral bytes "bool option" "bool option"
  | E_PlaceOrder place_order
  | E_CancelOrders cancellation bytes
  | E_CancelProductOrders cancellation_products bytes "bytes option"
  | E_LinkSigner link_signer bytes
  | E_CancelAndPlace cancellation bytes place_order "bool option"
  | E_TransferQuote transfer_quote bytes
  | E_MintNlp mint_nlp bytes "bool option"
  | E_BurnNlp burn_nlp bytes

datatype trigger_execute =
    T_PlaceOrder place_trigger_order
  | T_PlaceOrders "place_trigger_order list" "bool option"
  | T_CancelOrders cancellation bytes
  | T_CancelProductOrders cancellation_products bytes

datatype request = Engine_Request engine_execute | Trigger_Request trigger_execute

datatype (plugins only: code size) payload =
    P_Order order
  | P_Cancellation cancellation
  | P_CancellationProducts cancellation_products
  | P_LinkSigner link_signer
  | P_LiquidateSubaccount liquidate_subaccount
  | P_WithdrawCollateral withdraw_collateral
  | P_MintNlp mint_nlp
  | P_BurnNlp burn_nlp
  | P_TransferQuote transfer_quote

fun payload_sender :: "payload \<Rightarrow> bytes" where
  "payload_sender (P_Order x) = ord_sender x"
| "payload_sender (P_Cancellation x) = cn_sender x"
| "payload_sender (P_CancellationProducts x) = cp_sender x"
| "payload_sender (P_LinkSigner x) = ls_sender x"
| "payload_sender (P_LiquidateSubaccount x) = lq_sender x"
| "payload_sender (P_WithdrawCollateral x) = wc_sender x"
| "payload_sender (P_MintNlp x) = mn_sender x"
| "payload_sender (P_BurnNlp x) = bn_sender x"
| "payload_sender (P_TransferQuote x) = tq_sender x"

datatype api_error =
    BadRequest string
  | Unauthorized string
  | Forbidden string
  | UpstreamError string
  | Internal string

fun error_status :: "api_error \<Rightarrow> nat" where
  "error_status (BadRequest _) = 400"
| "error_status (Unauthorized _) = 401"
| "error_status (Forbidden _) = 403"
| "error_status (UpstreamError _) = 502"
| "error_status (Internal _) = 500"

record contracts_info =
  ci_chain_id :: u64
  ci_endpoint_addr :: bytes

record eip712_domain =
  dm_name :: string
  dm_version :: string
  dm_chain_id :: u64
  dm_verifying_contract :: bytes

record 'r externals =
  ex_parse_address :: "string \<Rightarrow> bytes option"
  ex_hex :: "bytes \<Rightarrow> string"
  ex_low_u64_be :: "u64 \<Rightarrow> bytes"
  ex_keccak :: "bytes \<Rightarrow> bytes"
  ex_separator :: "eip712_domain \<Rightarrow> bytes"
  ex_struct_hash :: "payload \<Rightarrow> bytes"
  ex_signature :: "bytes \<Rightarrow> string + bytes"
  ex_recover :: "bytes \<Rightarrow> bytes \<Rightarrow> string + bytes"
  ex_contracts :: "string + contracts_info"
  ex_linked :: "nat \<Rightarrow> bytes \<Rightarrow> string + bytes"
  ex_post :: "string \<Rightarrow> request \<Rightarrow> string + 'r"

record exec_state =
  es_cache :: "(bytes, bytes) hashmap"
  es_queries :: "bytes list"
  es_posts :: "(string \<times> request) list"

type_synonym 'a step = "exec_state \<Rightarrow> (api_error + 'a) \<times> exec_state"

definition step_bind :: "'a step \<Rightarrow> ('a \<Rightarrow> 'b step) \<Rightarrow> 'b step" where
  "step_bind m f st =
     (case m st of (Inl e, st') \<Rightarrow> (Inl e, st') | (Inr a, st') \<Rightarrow> f a st')"

definition pure_step :: "api_error + 'a \<Rightarrow> 'a step" where
  "pure_step r st = (r, st)"

subsection \<open>Signatures\<close>

definition sdk_domain :: "u64 \<Rightarrow> bytes \<Rightarrow> eip712_domain" where
  "sdk_domain chain_id contract =
     \<lparr>dm_name = ''Nado'', dm_version = ''0.0.1'', dm_chain_id = chain_id,
      dm_verifying_contract = contract\<rparr>"

definition get_eip712_digest :: "'r externals \<Rightarrow> payload \<Rightarrow> eip712_domain \<Rightarrow> bytes" where
  "get_eip712_digest ex p d = ex_keccak ex ([0x19, 0x01] @ ex_separator ex d @ ex_struct_hash ex p)"

definition recover_typed_signer ::
  "'r externals \<Rightarrow> payload \<Rightarrow> bytes \<Rightarrow> eip712_domain \<Rightarrow> api_error + bytes" where
  "recover_typed_signer ex p signature d =
     (if length signature \<noteq> 65 then
        Err (BadRequest (''invalid signature length: expected 65 bytes, got '' @ show_nat (length signature)))
      else
        res_bind (map_err (\<lambda>e. BadRequest (''invalid signature bytes: '' @ e)) (ex_signature ex signature)) (\<lambda>sig.
        map_err (\<lambda>e. Unauthorized (''signature recovery failed: '' @ e))
          (ex_recover ex sig (get_eip712_digest ex p d))))"

definition recover_order_signer ::
  "'r externals \<Rightarrow> order \<Rightarrow> bytes \<Rightarrow> u32 \<Rightarrow> u64 \<Rightarrow> api_error + bytes" where
  "recover_order_signer ex o' signature pid chain_id =
     recover_typed_signer ex (P_Order o') signature (sdk_domain chain_id (ex_low_u64_be ex (ucast pid)))"

definition recover_endpoint_signer ::
  "'r externals \<Rightarrow> payload \<Rightarrow> bytes \<Rightarrow> u64 \<Rightarrow> bytes \<Rightarrow> api_error + bytes" where
  "recover_endpoint_signer ex p signature chain_id addr =
     recover_typed_signer ex p signature (sdk_domain chain_id addr)"

subsection \<open>Senders and signers\<close>

definition owner_from_subaccount :: "bytes \<Rightarrow> bytes" where
  "owner_from_subaccount sender = take 20 sender"

definition hex_address :: "'r externals \<Rightarrow> bytes \<Rightarrow> string" where
  "hex_address ex a = ''0x'' @ ex_hex ex a"

definition hex_subaccount :: "'r externals \<Rightarrow> bytes \<Rightarrow> string" where
  "hex_subaccount ex s = ''0x'' @ ex_hex ex s"

definition is_zero_address :: "bytes \<Rightarrow> bool" where
  "is_zero_address a \<longleftrightarrow> list_all (\<lambda>b. b = 0) a"

definition linked_signer_for_sender :: "'r externals \<Rightarrow> bytes \<Rightarrow> bytes step" where
  "linked_signer_for_sender ex sender st =
     (case hm_get (es_cache st) sender of
        Some signer \<Rightarrow> (Ok signer, st)
      | None \<Rightarrow>
          (let st' = st\<lparr>es_queries := es_queries st @ [sender]\<rparr> in
           case ex_linked ex (length (es_queries st)) sender of
             Inl e \<Rightarrow> (Err (UpstreamError (''failed to fetch linked signer for '' @
                        hex_subaccount ex sender @ '': '' @ e)), st')
           | Inr signer \<Rightarrow> (Ok signer, st'\<lparr>es_cache := hm_insert sender signer (es_cache st)\<rparr>)))"

definition validate_sender_and_signer :: "'r externals \<Rightarrow> bytes \<Rightarrow> bytes \<Rightarrow> bytes \<Rightarrow> unit step" where
  "validate_sender_and_signer ex sender session recovered =
     (let owner = owner_from_subaccount sender in
      if owner \<noteq> session then
        pure_step (Err (Forbidden (''sender owner '' @ hex_address ex owner @
          '' does not match session '' @ hex_address ex session)))
      else
        step_bind (linked_signer_for_sender ex sender) (\<lambda>linked.
          if recovered = owner then pure_step (Ok ())
          else if \<not> is_zero_address linked \<and> recovered = linked then pure_step (Ok ())
          else pure_step (Err (Forbidden (''signature signer '' @ hex_address ex recovered @
            '' is not owner '' @ hex_address ex owner @ '' or linked signer '' @ hex_address ex linked)))))"

definition validate_endpoint_execute ::
  "'r externals \<Rightarrow> bytes \<Rightarrow> contracts_info \<Rightarrow> payload \<Rightarrow> bytes \<Rightarrow> unit step" where
  "validate_endpoint_execute ex session ci p signature =
     step_bind (pure_step (recover_endpoint_signer ex p signature (ci_chain_id ci) (ci_endpoint_addr ci)))
       (\<lambda>recovered. validate_sender_and_signer ex (payload_sender p) session recovered)"

definition validate_order ::
  "'r externals \<Rightarrow> bytes \<Rightarrow> contracts_info \<Rightarrow> order \<Rightarrow> bytes \<Rightarrow> u32 \<Rightarrow> unit step" where
  "validate_order ex session ci o' signature pid =
     step_bind (pure_step (recover_order_signer ex o' signature pid (ci_chain_id ci)))
       (\<lambda>recovered. validate_sender_and_signer ex (ord_sender o') session recovered)"

subsection \<open>Order kinds\<close>

definition order_type_bits :: "order \<Rightarrow> u128" where
  "order_type_bits o' = drop_bit 9 (ord_appendix o') AND 3"

definition trigger_type_bits :: "order \<Rightarrow> u128" where
  "trigger_type_bits o' = drop_bit 12 (ord_appendix o') AND 3"

definition supported_type :: "order \<Rightarrow> api_error + unit" where
  "supported_type o' =
     (if order_type_bits o' \<in> {0, 1, 3} then Ok ()
      else if order_type_bits o' = 2 then
        Err (BadRequest ''FOK orders are not supported in THORNado execution gateway'')
      else Err (BadRequest ''unsupported order type in appendix''))"

definition ensure_supported_regular_order :: "order \<Rightarrow> api_error + unit" where
  "ensure_supported_regular_order o' =
     res_bind (supported_type o') (\<lambda>_.
       if trigger_type_bits o' = 0 then Ok ()
       else if trigger_type_bits o' = 1 then
         Err (BadRequest ''price-trigger orders must use /v1/execute/trigger'')
       else Err (BadRequest ''TWAP orders are not supported in THORNado execution gateway''))"

definition ensure_supported_trigger_order :: "order \<Rightarrow> api_error + unit" where
  "ensure_supported_trigger_order o' =
     res_bind (supported_type o') (\<lambda>_.
       if trigger_type_bits o' = 1 then Ok ()
       else if trigger_type_bits o' = 0 then
         Err (BadRequest ''trigger execute endpoint accepts only stop/take (price-trigger) orders'')
       else Err (BadRequest ''TWAP trigger orders are not supported in THORNado execution gateway''))"

subsection \<open>Validation of a request\<close>

definition fetch_contracts :: "'r externals \<Rightarrow> api_error + contracts_info" where
  "fetch_contracts ex =
     map_err (\<lambda>e. UpstreamError (''failed to fetch contracts: '' @ e)) (ex_contracts ex)"

definition validate_engine :: "'r externals \<Rightarrow> bytes \<Rightarrow> contracts_info \<Rightarrow> engine_execute \<Rightarrow> unit step" where
  "validate_engine ex session ci execute =
     (case execute of
        E_PlaceOrder po \<Rightarrow>
          step_bind (pure_step (ensure_supported_regular_order (po_order po))) (\<lambda>_.
            validate_order ex session ci (po_order po) (po_signature po) (po_product_id po))
      | E_CancelOrders tx signature \<Rightarrow>
          validate_endpoint_execute ex session ci (P_Cancellation tx) signature
      | E_CancelProductOrders tx signature _ \<Rightarrow>
          validate_endpoint_execute ex session ci (P_CancellationProducts tx) signature
      | E_CancelAndPlace cancel_tx cancel_signature po _ \<Rightarrow>
          (if cn_sender cancel_tx \<noteq> ord_sender (po_order po) then
             pure_step (Err (Forbidden
               ''cancel_and_place sender mismatch between cancel_tx and place_order''))
           else
             step_bind (pure_step (ensure_supported_regular_order (po_order po))) (\<lambda>_.
             step_bind (validate_endpoint_execute ex session ci (P_Cancellation cancel_tx) cancel_signature) (\<lambda>_.
             validate_order ex session ci (po_order po) (po_signature po) (po_product_id po))))
      | E_WithdrawCollateral tx signature _ _ \<Rightarrow>
          validate_endpoint_execute ex session ci (P_WithdrawCollateral tx) signature
      | E_MintNlp tx signature _ \<Rightarrow> validate_endpoint_execute ex session ci (P_MintNlp tx) signature
      | E_BurnNlp tx signature \<Rightarrow> validate_endpoint_execute ex session ci (P_BurnNlp tx) signature
      | E_TransferQuote tx signature \<Rightarrow> validate_endpoint_execute ex session ci (P_TransferQuote tx) signature
      | E_LinkSigner tx signature \<Rightarrow> validate_endpoint_execute ex session ci (P_LinkSigner tx) signature
      | E_LiquidateSubaccount tx signature \<Rightarrow>
          validate_endpoint_execute ex session ci (P_LiquidateSubaccount tx) signature)"

definition validate_engine_execute :: "'r externals \<Rightarrow> bytes \<Rightarrow> engine_execute \<Rightarrow> unit step" where
  "validate_engine_execute ex session execute =
     step_bind (pure_step (fetch_contracts ex)) (\<lambda>ci. validate_engine ex session ci execute)"

definition validate_trigger_order ::
  "'r externals \<Rightarrow> bytes \<Rightarrow> contracts_info \<Rightarrow> place_trigger_order \<Rightarrow> unit step" where
  "validate_trigger_order ex session ci t =
     step_bind (pure_step (ensure_supported_trigger_order (pt_order t))) (\<lambda>_.
       validate_order ex session ci (pt_order t) (pt_signature t) (pt_product_id t))"

fun validate_trigger_orders ::
  "'r externals \<Rightarrow> bytes \<Rightarrow> contracts_info \<Rightarrow> place_trigger_order list \<Rightarrow> unit step" where
  "validate_trigger_orders ex session ci [] = pure_step (Ok ())"
| "validate_trigger_orders ex session ci (t # ts) =
     step_bind (validate_trigger_order ex session ci t) (\<lambda>_.
       validate_trigger_orders ex session ci ts)"

definition validate_trigger :: "'r externals \<Rightarrow> bytes \<Rightarrow> contracts_info \<Rightarrow> trigger_execute \<Rightarrow> unit step" where
  "validate_trigger ex session ci execute =
     (case execute of
        T_PlaceOrder t \<Rightarrow> validate_trigger_order ex session ci t
      | T_PlaceOrders ts _ \<Rightarrow>
          (if ts = [] then pure_step (Err (BadRequest ''place_orders requires at least one order''))
           else validate_trigger_orders ex session ci ts)
      | T_CancelOrders tx signature \<Rightarrow>
          validate_endpoint_execute ex session ci (P_Cancellation tx) signature
      | T_CancelProductOrders tx signature \<Rightarrow>
          validate_endpoint_execute ex session ci (P_CancellationProducts tx) signature)"

definition validate_trigger_execute :: "'r externals \<Rightarrow> bytes \<Rightarrow> trigger_execute \<Rightarrow> unit step" where
  "validate_trigger_execute ex session execute =
     step_bind (pure_step (fetch_contracts ex)) (\<lambda>ci. validate_trigger ex session ci execute)"

subsection \<open>Handlers\<close>

text \<open>
  The session header of a request: it may be missing, and its value may not be text.
\<close>

definition session_address_from_headers :: "'r externals \<Rightarrow> string option option \<Rightarrow> api_error + bytes" where
  "session_address_from_headers ex header =
     (case header of
        None \<Rightarrow> Err (Unauthorized ''missing session address header'')
      | Some None \<Rightarrow> Err (Unauthorized ''invalid session address header'')
      | Some (Some value) \<Rightarrow>
          ok_or (Unauthorized (''invalid session address: '' @ value)) (ex_parse_address ex value))"

definition start_state :: exec_state where
  "start_state = \<lparr>es_cache = [], es_queries = [], es_posts = []\<rparr>"

definition forward :: "'r externals \<Rightarrow> string \<Rightarrow> string \<Rightarrow> request \<Rightarrow> 'r step" where
  "forward ex what url req st =
     (map_err (\<lambda>e. UpstreamError (what @ '' failed: '' @ e)) (ex_post ex url req),
      st\<lparr>es_posts := es_posts st @ [(url, req)]\<rparr>)"

definition post_execute ::
  "'r externals \<Rightarrow> string \<Rightarrow> string option option \<Rightarrow> engine_execute \<Rightarrow> 'r step" where
  "post_execute ex gateway_url header execute =
     step_bind (pure_step (session_address_from_headers ex header)) (\<lambda>session.
     step_bind (validate_engine_execute ex session execute) (\<lambda>_.
     forward ex ''nado execute'' (gateway_url @ ''/execute'') (Engine_Request execute)))"

definition post_execute_trigger ::
  "'r externals \<Rightarrow> string \<Rightarrow> string option option \<Rightarrow> trigger_execute \<Rightarrow> 'r step" where
  "post_execute_trigger ex trigger_url header execute =
     step_bind (pure_step (session_address_from_headers ex header)) (\<lambda>session.
     step_bind (validate_trigger_execute ex session execute) (\<lambda>_.
     forward ex ''nado trigger execute'' (trigger_url @ ''/execute'') (Trigger_Request execute)))"

definition parse_address :: "'r externals \<Rightarrow> string \<Rightarrow> api_error + bytes" where
  "parse_address ex value = ok_or (BadRequest (''invalid address: '' @ value)) (ex_parse_address ex value)"

definition subaccount_name_from_query :: "string option \<Rightarrow> string \<Rightarrow> api_error + string" where
  "subaccount_name_from_query name default_name =
     (let n = trim (unwrap_or default_name name) in
      if n = [] then Err (BadRequest ''subaccount_name cannot be empty'')
      else if length n > 12 then
        Err (BadRequest (''subaccount_name is too long ('' @ show_nat (length n) @ '' > 12)''))
      else Ok n)"

record context_response =
  cr_owner :: string
  cr_subaccount_name :: string
  cr_subaccount :: string
  cr_linked_signer :: string
  cr_linked_signer_set :: bool

definition get_context ::
  "'r externals \<Rightarrow> string \<Rightarrow> string option option \<Rightarrow> string option \<Rightarrow> string option \<Rightarrow>
     api_error + context_response" where
  "get_context ex default_name header owner_param name_param =
     res_bind (case owner_param of
         Some o' \<Rightarrow> parse_address ex o'
       | None \<Rightarrow> session_address_from_headers ex header) (\<lambda>owner.
     res_bind (subaccount_name_from_query name_param default_name) (\<lambda>name.
     (let sub = concat_to_bytes32 owner (to_bytes12 (as_bytes name)) in
      res_bind (map_err (\<lambda>e. UpstreamError (''failed to fetch linked signer: '' @ e)) (ex_linked ex 0 sub)) (\<lambda>linked.
      Ok \<lparr>cr_owner = hex_address ex owner, cr_subaccount_name = name,
          cr_subaccount = hex_subaccount ex sub, cr_linked_signer = hex_address ex linked,
          cr_linked_signer_set = (\<not> is_zero_address linked)\<rparr>))))"

subsection \<open>Configuration\<close>

record ex_config =
  ec_bind_addr :: string
  ec_client_mode :: client_mode
  ec_gateway_url :: "string option"
  ec_trigger_url :: "string option"
  ec_default_subaccount_name :: string

definition ex_config_from_env :: "environment \<Rightarrow> string + ex_config" where
  "ex_config_from_env env =
     res_bind (read_mode ''EXECUTION_NETWORK'' (unwrap_or ''test'' (env ''EXECUTION_NETWORK''))) (\<lambda>mode.
     (let name = trim (unwrap_or ''default'' (env ''EXECUTION_DEFAULT_SUBACCOUNT'')) in
      if name = [] then Err ''EXECUTION_DEFAULT_SUBACCOUNT cannot be empty''
      else if length name > 12 then
        Err (''EXECUTION_DEFAULT_SUBACCOUNT too long: '' @ show_nat (length name) @ '' bytes (max 12)'')
      else Ok \<lparr>ec_bind_addr = unwrap_or ''0.0.0.0:3003'' (env ''EXECUTION_BIND_ADDR''),
               ec_client_mode = mode,
               ec_gateway_url = env_nonempty env ''EXECUTION_NADO_GATEWAY_URL'',
               ec_trigger_url = env_nonempty env ''EXECUTION_NADO_TRIGGER_URL'',
               ec_default_subaccount_name = name\<rparr>))"

subsection \<open>What a validation step establishes\<close>

type_synonym signed_part = "payload \<times> bytes \<times> eip712_domain"

lemma step_bind_Inr:
  "step_bind m f st = (Inr b, st2) \<longleftrightarrow> (\<exists>a st1. m st = (Inr a, st1) \<and> f a st1 = (Inr b, st2))"
  by (auto simp: step_bind_def split: prod.splits sum.splits)

lemma step_bind_pure [simp]:
  "step_bind (pure_step (Inr a)) f = f a"
  "step_bind (pure_step (Inl e)) f = pure_step (Inl e)"
  by (simp_all add: step_bind_def pure_step_def fun_eq_iff)

lemma pure_step_eq [simp]: "pure_step r st = (r', st') \<longleftrightarrow> r = r' \<and> st = st'"
  by (auto simp: pure_step_def)

text \<open>
  The signature of a part is good when its sender belongs to the session and the signer
  recovered from it is the owner, or the linked signer the exchange gave for that sender when
  the request asked it.
\<close>

definition authorised :: "'r externals \<Rightarrow> bytes \<Rightarrow> bytes list \<Rightarrow> signed_part \<Rightarrow> bool" where
  "authorised ex session qs part =
     (case part of (p, sg, d) \<Rightarrow>
        owner_from_subaccount (payload_sender p) = session \<and> length sg = 65 \<and>
        (\<exists>s signer. ex_signature ex sg = Ok s \<and> ex_recover ex s (get_eip712_digest ex p d) = Ok signer \<and>
           (signer = session \<or>
            \<not> is_zero_address signer \<and>
            (\<exists>n<length qs. qs ! n = payload_sender p \<and> ex_linked ex n (payload_sender p) = Ok signer))))"

definition cache_inv :: "'r externals \<Rightarrow> exec_state \<Rightarrow> bool" where
  "cache_inv ex st \<longleftrightarrow> hm_wf (es_cache st) \<and> distinct (es_queries st) \<and>
     (\<forall>s a. hm_get (es_cache st) s = Some a \<longrightarrow>
        (\<exists>n<length (es_queries st). es_queries st ! n = s \<and> ex_linked ex n s = Ok a))"

definition cache_full :: "exec_state \<Rightarrow> bool" where
  "cache_full st \<longleftrightarrow> set (es_queries st) \<subseteq> dom (hm_get (es_cache st))"

definition checks :: "'r externals \<Rightarrow> bytes \<Rightarrow> signed_part list \<Rightarrow> bool \<Rightarrow> unit step \<Rightarrow> bool" where
  "checks ex session parts c m \<longleftrightarrow>
     (\<forall>st r st'. cache_inv ex st \<and> cache_full st \<and> m st = (r, st') \<longrightarrow>
        cache_inv ex st' \<and> es_posts st' = es_posts st \<and>
        (\<exists>zs. es_queries st' = es_queries st @ zs \<and> (\<forall>z\<in>set zs. owner_from_subaccount z = session)) \<and>
        (r = Ok () \<longrightarrow> cache_full st' \<and> c \<and> (\<forall>p\<in>set parts. authorised ex session (es_queries st') p)))"

lemma authorised_mono: "authorised ex session qs p \<Longrightarrow> authorised ex session (qs @ zs) p"
  by (cases p) (fastforce simp: authorised_def nth_append)

lemma checks_pure: "(r = Ok () \<longrightarrow> c) \<Longrightarrow> checks ex session [] c (pure_step r)"
  by (auto simp: checks_def)

lemma checks_err: "checks ex session parts c (pure_step (Err e))"
  by (auto simp: checks_def)

lemma checks_weaken: "checks ex session parts c m \<Longrightarrow> (c \<Longrightarrow> c') \<Longrightarrow> checks ex session parts c' m"
  unfolding checks_def by blast

lemma checks_bind:
  assumes m: "checks ex session ps c m" and f: "checks ex session ps' c' (f ())"
  shows "checks ex session (ps @ ps') (c \<and> c') (step_bind m f)"
  unfolding checks_def
proof (intro allI impI, elim conjE)
  fix st r st'
  assume inv: "cache_inv ex st" "cache_full st" and run: "step_bind m f st = (r, st')"
  obtain r1 st1 where r1: "m st = (r1, st1)" by fastforce
  note one = m [unfolded checks_def, rule_format, OF conjI [OF inv(1) conjI [OF inv(2) r1]]]
  show "cache_inv ex st' \<and> es_posts st' = es_posts st \<and>
        (\<exists>zs. es_queries st' = es_queries st @ zs \<and> (\<forall>z\<in>set zs. owner_from_subaccount z = session)) \<and>
        (r = Ok () \<longrightarrow> cache_full st' \<and> (c \<and> c') \<and> (\<forall>p\<in>set (ps @ ps'). authorised ex session (es_queries st') p))"
  proof (cases r1)
    case (Inl e)
    then show ?thesis using run r1 one by (auto simp: step_bind_def)
  next
    case (Inr u)
    then have run2: "f () st1 = (r, st')" using run r1 by (simp add: step_bind_def)
    have full: "cache_full st1" using one Inr by simp
    note two = f [unfolded checks_def, rule_format, OF conjI [OF conjunct1 [OF one] conjI [OF full run2]]]
    obtain zs where "es_queries st' = es_queries st1 @ zs" using two by blast
    then have auth: "\<forall>p\<in>set ps. authorised ex session (es_queries st') p"
      using one Inr by (simp add: authorised_mono)
    show ?thesis using one two auth Inr by auto
  qed
qed

lemma checks_linked:
  assumes inv: "cache_inv ex st" "cache_full st" and owner: "owner_from_subaccount sender = session"
    and run: "linked_signer_for_sender ex sender st = (r, st')"
  shows "cache_inv ex st'" "es_posts st' = es_posts st"
    "\<exists>zs. es_queries st' = es_queries st @ zs \<and> (\<forall>z\<in>set zs. owner_from_subaccount z = session)"
    "r = Ok a \<Longrightarrow> cache_full st' \<and> (\<exists>n<length (es_queries st'). es_queries st' ! n = sender \<and> ex_linked ex n sender = Ok a)"
proof -
  have *: "cache_inv ex st' \<and> es_posts st' = es_posts st \<and>
    (\<exists>zs. es_queries st' = es_queries st @ zs \<and> (\<forall>z\<in>set zs. owner_from_subaccount z = session)) \<and>
    (\<forall>a. r = Ok a \<longrightarrow> cache_full st' \<and> (\<exists>n<length (es_queries st'). es_queries st' ! n = sender \<and> ex_linked ex n sender = Ok a))"
  proof (cases "hm_get (es_cache st) sender")
    case (Some a)
    then have "r = Ok a" "st' = st" using run by (auto simp: linked_signer_for_sender_def)
    then show ?thesis using inv Some by (auto simp: cache_inv_def)
  next
    case None
    then have new: "sender \<notin> set (es_queries st)" using inv(2) by (auto simp: cache_full_def)
    have old: "\<exists>n<Suc (length (es_queries st)). (es_queries st @ [sender]) ! n = s \<and> ex_linked ex n s = Ok a"
      if "hm_get (es_cache st) s = Some a" for s a
      using inv(1) that by (fastforce simp: cache_inv_def nth_append)
    show ?thesis
    proof (cases "ex_linked ex (length (es_queries st)) sender")
      case (Inl e)
      then show ?thesis using run None inv new old owner
        by (auto simp: linked_signer_for_sender_def Let_def cache_inv_def)
    next
      case (Inr a)
      then have st': "r = Ok a" "es_queries st' = es_queries st @ [sender]" "es_posts st' = es_posts st"
          "es_cache st' = hm_insert sender a (es_cache st)"
        using run None by (auto simp: linked_signer_for_sender_def Let_def)
      have here: "\<exists>n<length (es_queries st'). es_queries st' ! n = sender \<and> ex_linked ex n sender = Ok a"
        using Inr by (intro exI [of _ "length (es_queries st)"]) (simp add: st')
      have "cache_inv ex st'"
        using inv(1) new here old
        by (auto simp: cache_inv_def st' hm_wf_insert hm_get_insert)
      moreover have "cache_full st'" using inv(2) by (auto simp: cache_full_def st' hm_get_insert)
      ultimately show ?thesis using here owner by (simp add: st')
    qed
  qed
  then show "cache_inv ex st'" "es_posts st' = es_posts st"
    "\<exists>zs. es_queries st' = es_queries st @ zs \<and> (\<forall>z\<in>set zs. owner_from_subaccount z = session)"
    "r = Ok a \<Longrightarrow> cache_full st' \<and> (\<exists>n<length (es_queries st'). es_queries st' ! n = sender \<and> ex_linked ex n sender = Ok a)"
    by blast+
qed

text \<open>Every signature check of the gateway has this form.\<close>

definition check_part :: "'r externals \<Rightarrow> bytes \<Rightarrow> signed_part \<Rightarrow> unit step" where
  "check_part ex session part =
     (case part of (p, sg, d) \<Rightarrow>
        step_bind (pure_step (recover_typed_signer ex p sg d)) (\<lambda>recovered.
          validate_sender_and_signer ex (payload_sender p) session recovered))"

definition order_part :: "'r externals \<Rightarrow> contracts_info \<Rightarrow> order \<Rightarrow> bytes \<Rightarrow> u32 \<Rightarrow> signed_part" where
  "order_part ex ci o' sg pid =
     (P_Order o', sg, sdk_domain (ci_chain_id ci) (ex_low_u64_be ex (ucast pid)))"

definition endpoint_part :: "contracts_info \<Rightarrow> payload \<Rightarrow> bytes \<Rightarrow> signed_part" where
  "endpoint_part ci p sg = (p, sg, sdk_domain (ci_chain_id ci) (ci_endpoint_addr ci))"

lemma validate_order_part:
  "validate_order ex session ci o' sg pid = check_part ex session (order_part ex ci o' sg pid)"
  by (simp add: validate_order_def check_part_def order_part_def recover_order_signer_def)

lemma validate_endpoint_part:
  "validate_endpoint_execute ex session ci p sg = check_part ex session (endpoint_part ci p sg)"
  by (simp add: validate_endpoint_execute_def check_part_def endpoint_part_def recover_endpoint_signer_def)

lemma recover_Ok_iff:
  "recover_typed_signer ex p sg d = Ok signer \<longleftrightarrow>
     length sg = 65 \<and> (\<exists>s. ex_signature ex sg = Ok s \<and> ex_recover ex s (get_eip712_digest ex p d) = Ok signer)"
  by (auto simp: recover_typed_signer_def res_bind_Inr_iff)

lemma checks_part: "checks ex session [part] True (check_part ex session part)"
proof -
  obtain p sg d where part: "part = (p, sg, d)" by (cases part)
  show ?thesis
  proof (cases "recover_typed_signer ex p sg d")
    case (Inl e)
    then show ?thesis by (simp add: part check_part_def checks_err)
  next
    case (Inr signer)
    let ?s = "payload_sender p"
    show ?thesis unfolding checks_def
    proof (intro allI impI, elim conjE)
      fix st r st'
      assume inv: "cache_inv ex st" "cache_full st" and run: "check_part ex session part st = (r, st')"
      have v: "validate_sender_and_signer ex ?s session signer st = (r, st')"
        using run Inr by (simp add: part check_part_def)
      show "cache_inv ex st' \<and> es_posts st' = es_posts st \<and>
        (\<exists>zs. es_queries st' = es_queries st @ zs \<and> (\<forall>z\<in>set zs. owner_from_subaccount z = session)) \<and>
        (r = Ok () \<longrightarrow> cache_full st' \<and> True \<and> (\<forall>p\<in>set [part]. authorised ex session (es_queries st') p))"
      proof (cases "owner_from_subaccount ?s = session")
        case False
        then show ?thesis using v inv by (auto simp: validate_sender_and_signer_def)
      next
        case True
        obtain r1 st1 where l: "linked_signer_for_sender ex ?s st = (r1, st1)" by fastforce
        have st': "st' = st1" using v True l
          by (auto simp: validate_sender_and_signer_def step_bind_def split: sum.splits if_splits)
        note L = checks_linked [OF inv True l]
        have "authorised ex session (es_queries st') part" "cache_full st'" if ok: "r = Ok ()"
        proof -
          obtain linked where r1: "r1 = Ok linked"
            and d: "signer = session \<or> \<not> is_zero_address linked \<and> signer = linked"
            using v True l ok
            by (auto simp: validate_sender_and_signer_def step_bind_def split: sum.splits if_splits)
          show "authorised ex session (es_queries st') part" "cache_full st'"
            using L(4) [OF r1] d Inr True by (auto simp: authorised_def part recover_Ok_iff st')
        qed
        then show ?thesis using L(1,2,3) by (simp add: st')
      qed
    qed
  qed
qed

subsection \<open>The signed parts and the demands of a request\<close>

definition place_part :: "'r externals \<Rightarrow> contracts_info \<Rightarrow> place_order \<Rightarrow> signed_part" where
  "place_part ex ci po = order_part ex ci (po_order po) (po_signature po) (po_product_id po)"

definition trigger_part :: "'r externals \<Rightarrow> contracts_info \<Rightarrow> place_trigger_order \<Rightarrow> signed_part" where
  "trigger_part ex ci t = order_part ex ci (pt_order t) (pt_signature t) (pt_product_id t)"

fun engine_parts :: "'r externals \<Rightarrow> contracts_info \<Rightarrow> engine_execute \<Rightarrow> signed_part list" where
  "engine_parts ex ci (E_PlaceOrder po) = [place_part ex ci po]"
| "engine_parts ex ci (E_CancelOrders tx sg) = [endpoint_part ci (P_Cancellation tx) sg]"
| "engine_parts ex ci (E_CancelProductOrders tx sg _) = [endpoint_part ci (P_CancellationProducts tx) sg]"
| "engine_parts ex ci (E_CancelAndPlace tx sg po _) =
     [endpoint_part ci (P_Cancellation tx) sg, place_part ex ci po]"
| "engine_parts ex ci (E_WithdrawCollateral tx sg _ _) = [endpoint_part ci (P_WithdrawCollateral tx) sg]"
| "engine_parts ex ci (E_MintNlp tx sg _) = [endpoint_part ci (P_MintNlp tx) sg]"
| "engine_parts ex ci (E_BurnNlp tx sg) = [endpoint_part ci (P_BurnNlp tx) sg]"
| "engine_parts ex ci (E_TransferQuote tx sg) = [endpoint_part ci (P_TransferQuote tx) sg]"
| "engine_parts ex ci (E_LinkSigner tx sg) = [endpoint_part ci (P_LinkSigner tx) sg]"
| "engine_parts ex ci (E_LiquidateSubaccount tx sg) = [endpoint_part ci (P_LiquidateSubaccount tx) sg]"

fun trigger_parts :: "'r externals \<Rightarrow> contracts_info \<Rightarrow> trigger_execute \<Rightarrow> signed_part list" where
  "trigger_parts ex ci (T_PlaceOrder t) = [trigger_part ex ci t]"
| "trigger_parts ex ci (T_PlaceOrders ts _) = map (trigger_part ex ci) ts"
| "trigger_parts ex ci (T_CancelOrders tx sg) = [endpoint_part ci (P_Cancellation tx) sg]"
| "trigger_parts ex ci (T_CancelProductOrders tx sg) = [endpoint_part ci (P_CancellationProducts tx) sg]"

text \<open>The order kinds: not fill-or-kill, and no trigger, or just a price trigger.\<close>

definition offered :: "u128 \<Rightarrow> order \<Rightarrow> bool" where
  "offered trigger o' \<longleftrightarrow> order_type_bits o' \<noteq> 2 \<and> trigger_type_bits o' = trigger"

fun engine_demands :: "engine_execute \<Rightarrow> bool" where
  "engine_demands (E_PlaceOrder po) = offered 0 (po_order po)"
| "engine_demands (E_CancelAndPlace tx _ po _) =
     (cn_sender tx = ord_sender (po_order po) \<and> offered 0 (po_order po))"
| "engine_demands _ = True"

fun trigger_demands :: "trigger_execute \<Rightarrow> bool" where
  "trigger_demands (T_PlaceOrder t) = offered 1 (pt_order t)"
| "trigger_demands (T_PlaceOrders ts _) = (ts \<noteq> [] \<and> (\<forall>t\<in>set ts. offered 1 (pt_order t)))"
| "trigger_demands _ = True"

lemma two_bits: "x AND 3 = 0 \<or> x AND 3 = 1 \<or> x AND 3 = 2 \<or> x AND 3 = (3 :: u128)"
proof -
  have "x AND 3 \<le> 3" by (rule word_and_le1)
  then have "unat (x AND 3) \<le> 3" by (simp add: word_le_nat_alt)
  then have "unat (x AND 3) \<in> {0, 1, 2, 3}" by auto
  then show ?thesis by (auto simp: word_unat_eq_iff)
qed

lemma regular_ok_iff: "ensure_supported_regular_order o' = Ok () \<longleftrightarrow> offered 0 o'"
  using two_bits [of "drop_bit 9 (ord_appendix o')"] two_bits [of "drop_bit 12 (ord_appendix o')"]
  by (auto simp: ensure_supported_regular_order_def supported_type_def offered_def order_type_bits_def
      trigger_type_bits_def)

lemma trigger_ok_iff: "ensure_supported_trigger_order o' = Ok () \<longleftrightarrow> offered 1 o'"
  using two_bits [of "drop_bit 9 (ord_appendix o')"] two_bits [of "drop_bit 12 (ord_appendix o')"]
  by (auto simp: ensure_supported_trigger_order_def supported_type_def offered_def order_type_bits_def
      trigger_type_bits_def)

lemma checks_guard:
  assumes "checks ex session ps c' m"
  shows "checks ex session ps ((r = Ok ()) \<and> c') (step_bind (pure_step r) (\<lambda>_. m))"
  using checks_bind [OF checks_pure [of r "r = Ok ()"], where f = "\<lambda>_. m"] assms by fastforce

lemma checks_regular:
  "checks ex session [place_part ex ci po] (offered 0 (po_order po))
     (step_bind (pure_step (ensure_supported_regular_order (po_order po))) (\<lambda>_.
        check_part ex session (place_part ex ci po)))"
  using checks_guard [OF checks_part, of ex session "place_part ex ci po" "ensure_supported_regular_order (po_order po)"]
  by (simp add: regular_ok_iff)

lemma checks_trigger_order:
  "checks ex session [trigger_part ex ci t] (offered 1 (pt_order t)) (validate_trigger_order ex session ci t)"
  using checks_guard [OF checks_part, of ex session "trigger_part ex ci t" "ensure_supported_trigger_order (pt_order t)"]
  by (simp add: trigger_ok_iff validate_trigger_order_def validate_order_part trigger_part_def)

lemma checks_trigger_orders:
  "checks ex session (map (trigger_part ex ci) ts) (\<forall>t\<in>set ts. offered 1 (pt_order t))
     (validate_trigger_orders ex session ci ts)"
proof (induction ts)
  case Nil
  then show ?case by (simp add: checks_pure)
next
  case (Cons t ts)
  then show ?case using checks_bind [where f = "\<lambda>_. validate_trigger_orders ex session ci ts", OF checks_trigger_order Cons.IH] by simp
qed

lemma checks_cancel_and_place:
  "checks ex session [endpoint_part ci (P_Cancellation tx) sg, place_part ex ci po]
     (offered 0 (po_order po))
     (step_bind (pure_step (ensure_supported_regular_order (po_order po))) (\<lambda>_.
      step_bind (check_part ex session (endpoint_part ci (P_Cancellation tx) sg)) (\<lambda>_.
      check_part ex session (place_part ex ci po))))"
  using checks_guard [OF checks_bind [where f = "\<lambda>_. check_part ex session (place_part ex ci po)",
      OF checks_part [where part = "endpoint_part ci (P_Cancellation tx) sg"] checks_part],
      of "ensure_supported_regular_order (po_order po)"]
  by (simp add: regular_ok_iff)

lemma checks_engine:
  "checks ex session (engine_parts ex ci e) (engine_demands e) (validate_engine ex session ci e)"
proof (cases e)
  case (E_CancelAndPlace tx sg po pn)
  then show ?thesis
    by (auto simp: validate_engine_def validate_order_part validate_endpoint_part checks_err
        place_part_def [symmetric] intro: checks_weaken [OF checks_cancel_and_place])
next
  case (E_PlaceOrder po)
  then show ?thesis using checks_regular
    by (simp add: validate_engine_def validate_order_part place_part_def [symmetric])
qed (simp_all add: validate_engine_def validate_endpoint_part checks_part)

lemma checks_trigger:
  "checks ex session (trigger_parts ex ci e) (trigger_demands e) (validate_trigger ex session ci e)"
proof (cases e)
  case (T_PlaceOrders ts sp)
  then show ?thesis using checks_trigger_orders checks_err
    by (auto simp: validate_trigger_def intro: checks_weaken [OF checks_trigger_orders])
qed (simp_all add: validate_trigger_def validate_endpoint_part checks_part checks_trigger_order)

subsection \<open>The endpoints\<close>

text \<open>
  Both execute endpoints are the same protocol around a validator: read the session, learn the
  contracts, validate, forward. The locale holds what the protocol gives for any validator
  whose steps meet the contract checks.
\<close>

definition endpoint ::
  "'r externals \<Rightarrow> (bytes \<Rightarrow> contracts_info \<Rightarrow> 'e \<Rightarrow> unit step) \<Rightarrow> ('e \<Rightarrow> request) \<Rightarrow> string \<Rightarrow> string \<Rightarrow>
     string option option \<Rightarrow> 'e \<Rightarrow> 'r step" where
  "endpoint ex validate wrap what url header e =
     step_bind (pure_step (session_address_from_headers ex header)) (\<lambda>session.
     step_bind (step_bind (pure_step (fetch_contracts ex)) (\<lambda>ci. validate session ci e)) (\<lambda>_.
     forward ex what (url @ ''/execute'') (wrap e)))"

lemma post_execute_endpoint:
  "post_execute ex url header e =
     endpoint ex (\<lambda>session ci. validate_engine ex session ci) Engine_Request ''nado execute'' url header e"
  by (simp add: post_execute_def endpoint_def validate_engine_execute_def)

lemma post_execute_trigger_endpoint:
  "post_execute_trigger ex url header e =
     endpoint ex (\<lambda>session ci. validate_trigger ex session ci) Trigger_Request ''nado trigger execute'' url header e"
  by (simp add: post_execute_trigger_def endpoint_def validate_trigger_execute_def)

lemma start_inv: "cache_inv ex start_state" "cache_full start_state"
  by (simp_all add: start_state_def cache_inv_def cache_full_def hm_get_def)

text \<open>What the run of an endpoint tells about its request.\<close>

definition permitted ::
  "'r externals \<Rightarrow> (contracts_info \<Rightarrow> signed_part list) \<Rightarrow> bool \<Rightarrow> string option option \<Rightarrow> bytes list \<Rightarrow> bool" where
  "permitted ex parts demands header qs \<longleftrightarrow>
     (\<exists>text session ci. header = Some (Some text) \<and> ex_parse_address ex text = Some session \<and>
        ex_contracts ex = Ok ci \<and> demands \<and> (\<forall>part\<in>set (parts ci). authorised ex session qs part))"

lemma session_Ok_iff:
  "session_address_from_headers ex header = Ok session \<longleftrightarrow>
     (\<exists>text. header = Some (Some text) \<and> ex_parse_address ex text = Some session)"
  by (auto simp: session_address_from_headers_def split: option.splits)

locale checked_endpoint =
  fixes ex :: "'r externals"
    and validate :: "bytes \<Rightarrow> contracts_info \<Rightarrow> 'e \<Rightarrow> unit step"
    and parts :: "contracts_info \<Rightarrow> 'e \<Rightarrow> signed_part list"
    and demands :: "'e \<Rightarrow> bool"
    and wrap :: "'e \<Rightarrow> request"
    and what :: string
  assumes validates: "checks ex session (parts ci e) (demands e) (validate session ci e)"
begin

lemma run_cases:
  assumes run: "endpoint ex validate wrap what url header e start_state = (r, st)"
  shows "distinct (es_queries st)"
    and "(es_posts st = [] \<and> (\<exists>err. r = Err err)) \<or>
         (permitted ex (\<lambda>ci. parts ci e) (demands e) header (es_queries st) \<and>
          es_posts st = [(url @ ''/execute'', wrap e)] \<and>
          r = map_err (\<lambda>m. UpstreamError (what @ '' failed: '' @ m)) (ex_post ex (url @ ''/execute'') (wrap e)))"
proof -
  have "distinct (es_queries st) \<and>
    ((es_posts st = [] \<and> (\<exists>err. r = Err err)) \<or>
         (permitted ex (\<lambda>ci. parts ci e) (demands e) header (es_queries st) \<and>
          es_posts st = [(url @ ''/execute'', wrap e)] \<and>
          r = map_err (\<lambda>m. UpstreamError (what @ '' failed: '' @ m)) (ex_post ex (url @ ''/execute'') (wrap e))))"
  proof (cases "session_address_from_headers ex header")
    case (Inl err)
    then show ?thesis using run by (auto simp: endpoint_def start_state_def)
  next
    case session: (Inr session)
    show ?thesis
    proof (cases "fetch_contracts ex")
      case (Inl err)
      then show ?thesis using run session by (auto simp: endpoint_def start_state_def step_bind_def)
    next
      case ci: (Inr ci)
      obtain r1 st1 where v: "validate session ci e start_state = (r1, st1)" by fastforce
      note ok = validates [unfolded checks_def, rule_format,
          OF conjI [OF start_inv(1) conjI [OF start_inv(2) v]]]
      show ?thesis
      proof (cases r1)
        case (Inl err)
        then show ?thesis using run session ci v ok
          by (auto simp: endpoint_def step_bind_def start_state_def cache_inv_def)
      next
        case (Inr u)
        have st: "st = st1\<lparr>es_posts := es_posts st1 @ [(url @ ''/execute'', wrap e)]\<rparr>"
          and r: "r = map_err (\<lambda>m. UpstreamError (what @ '' failed: '' @ m)) (ex_post ex (url @ ''/execute'') (wrap e))"
          using run session ci v Inr by (auto simp: endpoint_def step_bind_def [of "validate session ci e"] forward_def)
        show ?thesis using ok Inr session ci
          by (auto simp: st r cache_inv_def start_state_def permitted_def session_Ok_iff fetch_contracts_def)
      qed
    qed
  qed
  then show "distinct (es_queries st)" and "(es_posts st = [] \<and> (\<exists>err. r = Err err)) \<or>
         (permitted ex (\<lambda>ci. parts ci e) (demands e) header (es_queries st) \<and>
          es_posts st = [(url @ ''/execute'', wrap e)] \<and>
          r = map_err (\<lambda>m. UpstreamError (what @ '' failed: '' @ m)) (ex_post ex (url @ ''/execute'') (wrap e)))"
    by blast+
qed

end

interpretation eng: checked_endpoint ex "\<lambda>session ci. validate_engine ex session ci" "engine_parts ex"
  engine_demands Engine_Request "''nado execute''" for ex
  by unfold_locales (rule checks_engine)

interpretation trg: checked_endpoint ex "\<lambda>session ci. validate_trigger ex session ci" "trigger_parts ex"
  trigger_demands Trigger_Request "''nado trigger execute''" for ex
  by unfold_locales (rule checks_trigger)

subsection \<open>Nothing permitted is refused\<close>

text \<open>
  For the converse the exchange must answer, and always the same: linked sender is its linked
  signer. Then a request is forwarded exactly when every part is signed for its session.
\<close>

definition steady :: "'r externals \<Rightarrow> (bytes \<Rightarrow> bytes) \<Rightarrow> bool" where
  "steady ex linked \<longleftrightarrow> (\<forall>n s. ex_linked ex n s = Ok (linked s))"

definition signed_for :: "'r externals \<Rightarrow> (bytes \<Rightarrow> bytes) \<Rightarrow> bytes \<Rightarrow> signed_part \<Rightarrow> bool" where
  "signed_for ex linked session part =
     (case part of (p, sg, d) \<Rightarrow>
        owner_from_subaccount (payload_sender p) = session \<and>
        (\<exists>signer. recover_typed_signer ex p sg d = Ok signer \<and>
           (signer = session \<or> \<not> is_zero_address signer \<and> linked (payload_sender p) = signer)))"

definition cache_of :: "(bytes \<Rightarrow> bytes) \<Rightarrow> exec_state \<Rightarrow> bool" where
  "cache_of linked st \<longleftrightarrow> (\<forall>s a. hm_get (es_cache st) s = Some a \<longrightarrow> a = linked s)"

definition passes :: "'r externals \<Rightarrow> (bytes \<Rightarrow> bytes) \<Rightarrow> bytes \<Rightarrow> signed_part list \<Rightarrow> bool \<Rightarrow> unit step \<Rightarrow> bool" where
  "passes ex linked session parts c m \<longleftrightarrow>
     (\<forall>st. cache_of linked st \<and> c \<and> (\<forall>p\<in>set parts. signed_for ex linked session p) \<longrightarrow>
        (\<exists>st'. m st = (Ok (), st') \<and> cache_of linked st' \<and> es_posts st' = es_posts st))"

lemma passes_weaken: "passes ex linked session parts c m \<Longrightarrow> (c' \<Longrightarrow> c) \<Longrightarrow> passes ex linked session parts c' m"
  unfolding passes_def by blast

lemma passes_bind:
  "passes ex linked session ps c m \<Longrightarrow> passes ex linked session ps' c' (f ()) \<Longrightarrow>
     passes ex linked session (ps @ ps') (c \<and> c') (step_bind m f)"
  unfolding passes_def step_bind_def by fastforce

lemma passes_guard:
  "passes ex linked session ps c m \<Longrightarrow> passes ex linked session ps (r = Ok () \<and> c) (step_bind (pure_step r) (\<lambda>_. m))"
  by (auto simp: passes_def)

lemma linked_steady:
  assumes "steady ex linked" "cache_of linked st"
  shows "\<exists>st'. linked_signer_for_sender ex sender st = (Ok (linked sender), st') \<and> cache_of linked st' \<and>
    es_posts st' = es_posts st"
  using assms
  by (auto simp: linked_signer_for_sender_def steady_def cache_of_def hm_get_insert Let_def split: option.split)

lemma passes_part:
  assumes steady: "steady ex linked"
  shows "passes ex linked session [part] True (check_part ex session part)"
  unfolding passes_def
proof (intro allI impI, elim conjE)
  fix st assume st: "cache_of linked st" and signed: "\<forall>p\<in>set [part]. signed_for ex linked session p"
  obtain p sg d where part: "part = (p, sg, d)" by (cases part)
  obtain signer where signer: "recover_typed_signer ex p sg d = Ok signer"
    and who: "signer = session \<or> \<not> is_zero_address signer \<and> linked (payload_sender p) = signer"
    and owner: "owner_from_subaccount (payload_sender p) = session"
    using signed by (auto simp: signed_for_def part)
  obtain st' where "linked_signer_for_sender ex (payload_sender p) st = (Ok (linked (payload_sender p)), st')"
    "cache_of linked st'" "es_posts st' = es_posts st"
    using linked_steady [OF steady st] by blast
  then show "\<exists>st'. check_part ex session part st = (Ok (), st') \<and> cache_of linked st' \<and> es_posts st' = es_posts st"
    using signer who owner
    by (auto simp: check_part_def part validate_sender_and_signer_def step_bind_def pure_step_def)
qed

lemma passes_order:
  assumes "steady ex linked"
  shows "passes ex linked session [part] (r = Ok ())
    (step_bind (pure_step r) (\<lambda>_. check_part ex session part))"
  using passes_guard [OF passes_part [OF assms], of session part r] by simp

lemma passes_engine:
  assumes "steady ex linked"
  shows "passes ex linked session (engine_parts ex ci e) (engine_demands e) (validate_engine ex session ci e)"
proof (cases e)
  case (E_CancelAndPlace tx sg po pn)
  have "passes ex linked session (engine_parts ex ci e) (offered 0 (po_order po))
     (step_bind (pure_step (ensure_supported_regular_order (po_order po))) (\<lambda>_.
      step_bind (check_part ex session (endpoint_part ci (P_Cancellation tx) sg)) (\<lambda>_.
      check_part ex session (place_part ex ci po))))"
    using passes_guard [OF passes_bind [where f = "\<lambda>_. check_part ex session (place_part ex ci po)",
        OF passes_part [OF assms, where part = "endpoint_part ci (P_Cancellation tx) sg"] passes_part [OF assms]],
        of "ensure_supported_regular_order (po_order po)"]
    by (simp add: regular_ok_iff E_CancelAndPlace)
  then have "cn_sender tx = ord_sender (po_order po) \<Longrightarrow>
    passes ex linked session (engine_parts ex ci e) (offered 0 (po_order po)) (validate_engine ex session ci e)"
    by (simp add: E_CancelAndPlace validate_engine_def validate_order_part validate_endpoint_part
        place_part_def [symmetric])
  then show ?thesis unfolding passes_def by (auto simp: E_CancelAndPlace)
next
  case (E_PlaceOrder po)
  then show ?thesis using passes_order [OF assms]
    by (simp add: validate_engine_def validate_order_part place_part_def [symmetric] regular_ok_iff [symmetric])
qed (simp_all add: validate_engine_def validate_endpoint_part passes_part [OF assms])

lemma passes_trigger_order:
  assumes "steady ex linked"
  shows "passes ex linked session [trigger_part ex ci t] (offered 1 (pt_order t))
    (validate_trigger_order ex session ci t)"
  using passes_order [OF assms]
  by (simp add: validate_trigger_order_def validate_order_part trigger_part_def trigger_ok_iff [symmetric])

lemma passes_trigger_orders:
  assumes "steady ex linked"
  shows "passes ex linked session (map (trigger_part ex ci) ts) (\<forall>t\<in>set ts. offered 1 (pt_order t))
     (validate_trigger_orders ex session ci ts)"
proof (induction ts)
  case Nil
  then show ?case by (simp add: passes_def)
next
  case (Cons t ts)
  then show ?case
    using passes_bind [where f = "\<lambda>_. validate_trigger_orders ex session ci ts",
        OF passes_trigger_order [OF assms] Cons.IH] by simp
qed

lemma passes_trigger:
  assumes "steady ex linked"
  shows "passes ex linked session (trigger_parts ex ci e) (trigger_demands e) (validate_trigger ex session ci e)"
proof (cases e)
  case (T_PlaceOrders ts sp)
  then show ?thesis
    using passes_trigger_orders [OF assms, of session ci ts]
    by (auto simp: validate_trigger_def passes_def)
qed (simp_all add: validate_trigger_def validate_endpoint_part passes_part [OF assms] passes_trigger_order [OF assms])

lemma authorised_signed:
  "steady ex linked \<Longrightarrow> authorised ex session qs part \<Longrightarrow> signed_for ex linked session part"
  by (cases part) (auto simp: authorised_def signed_for_def recover_Ok_iff steady_def)

text \<open>What the sender of a request must provide for it to be forwarded.\<close>

definition acceptable ::
  "'r externals \<Rightarrow> (bytes \<Rightarrow> bytes) \<Rightarrow> (contracts_info \<Rightarrow> signed_part list) \<Rightarrow> bool \<Rightarrow> string option option \<Rightarrow> bool" where
  "acceptable ex linked parts demands header \<longleftrightarrow>
     (\<exists>text session ci. header = Some (Some text) \<and> ex_parse_address ex text = Some session \<and>
        ex_contracts ex = Ok ci \<and> demands \<and> (\<forall>part\<in>set (parts ci). signed_for ex linked session part))"

locale live_endpoint = checked_endpoint ex validate parts demands wrap what
  for ex :: "'r externals"
    and validate :: "bytes \<Rightarrow> contracts_info \<Rightarrow> 'e \<Rightarrow> unit step"
    and parts :: "contracts_info \<Rightarrow> 'e \<Rightarrow> signed_part list"
    and demands :: "'e \<Rightarrow> bool"
    and wrap :: "'e \<Rightarrow> request"
    and what :: string +
  assumes accepts: "steady ex linked \<Longrightarrow> passes ex linked session (parts ci e) (demands e) (validate session ci e)"
begin

lemma forwarded_iff:
  assumes steady: "steady ex linked"
    and run: "endpoint ex validate wrap what url header e start_state = (r, st)"
  shows "es_posts st = [(url @ ''/execute'', wrap e)] \<longleftrightarrow>
    acceptable ex linked (\<lambda>ci. parts ci e) (demands e) header"
proof
  assume "es_posts st = [(url @ ''/execute'', wrap e)]"
  then have "permitted ex (\<lambda>ci. parts ci e) (demands e) header (es_queries st)"
    using run_cases(2) [OF run] by auto
  then show "acceptable ex linked (\<lambda>ci. parts ci e) (demands e) header"
    unfolding permitted_def acceptable_def using authorised_signed [OF steady] by blast
next
  assume "acceptable ex linked (\<lambda>ci. parts ci e) (demands e) header"
  then obtain session ci where ok: "session_address_from_headers ex header = Ok session"
      "ex_contracts ex = Ok ci" "demands e" "\<forall>part\<in>set (parts ci e). signed_for ex linked session part"
    unfolding acceptable_def session_Ok_iff by blast
  have "cache_of linked start_state" by (simp add: cache_of_def start_state_def hm_get_def)
  then obtain st1 where "validate session ci e start_state = (Ok (), st1)" "es_posts st1 = []"
    using accepts [OF steady, unfolded passes_def, rule_format, where session = session and ci = ci and e = e and st = start_state] ok
    by (metis exec_state.select_convs(3) start_state_def)
  then show "es_posts st = [(url @ ''/execute'', wrap e)]"
    using run ok by (auto simp: endpoint_def fetch_contracts_def forward_def step_bind_def [of "validate session ci e"])
qed

end

interpretation eng_live: live_endpoint ex "\<lambda>session ci. validate_engine ex session ci" "engine_parts ex"
  engine_demands Engine_Request "''nado execute''" for ex
  by unfold_locales (rule passes_engine)

interpretation trg_live: live_endpoint ex "\<lambda>session ci. validate_trigger ex session ci" "trigger_parts ex"
  trigger_demands Trigger_Request "''nado trigger execute''" for ex
  by unfold_locales (rule passes_trigger)

subsection \<open>The properties\<close>

text \<open>A concrete exchange and requests for the witnesses.\<close>

definition demo_ex :: "string externals" where
  "demo_ex =
     \<lparr>ex_parse_address = (\<lambda>s. if s = ''0xaa'' then Some (replicate 20 0xaa) else None),
      ex_hex = (\<lambda>_. ''hex''), ex_low_u64_be = (\<lambda>_. replicate 20 0), ex_keccak = (\<lambda>b. b),
      ex_separator = (\<lambda>_. []), ex_struct_hash = (\<lambda>p. payload_sender p),
      ex_signature = (\<lambda>sg. Ok sg), ex_recover = (\<lambda>s _. Ok (take 20 s)),
      ex_contracts = Ok \<lparr>ci_chain_id = 7, ci_endpoint_addr = replicate 20 1\<rparr>,
      ex_linked = (\<lambda>n s. Ok (replicate 20 0xbb)),
      ex_post = (\<lambda>url _. Ok url)\<rparr>"

definition demo_order :: "u128 \<Rightarrow> order" where
  "demo_order appendix =
     \<lparr>ord_sender = replicate 20 0xaa @ replicate 12 0, ord_priceX18 = 5, ord_amount = 6,
      ord_expiration = 7, ord_nonce = 8, ord_appendix = appendix\<rparr>"

definition demo_place :: engine_execute where
  "demo_place = E_PlaceOrder
     \<lparr>po_order = demo_order 1, po_signature = replicate 65 0xbb, po_product_id = 2, po_digest = None,
      po_id = None, po_spot_leverage = None, po_borrow_margin = None\<rparr>"

definition demo_trigger :: trigger_execute where
  "demo_trigger = (let t =
     \<lparr>pt_order = demo_order 0x1001, pt_signature = replicate 65 0xbb, pt_product_id = 2,
      pt_spot_leverage = None, pt_borrow_margin = None,
      pt_trigger = PriceTrigger (OraclePriceAbove 4) None, pt_digest = None, pt_id = None\<rparr>
     in T_PlaceOrders [t, t\<lparr>pt_signature := replicate 65 0xaa\<rparr>] None)"

lemma demo_runs:
  "es_posts (snd (post_execute demo_ex ''u'' (Some (Some ''0xaa'')) demo_place start_state)) =
     [(''u/execute'', Engine_Request demo_place)]"
  "es_posts (snd (post_execute_trigger demo_ex ''u'' (Some (Some ''0xaa'')) demo_trigger start_state)) =
     [(''u/execute'', Trigger_Request demo_trigger)]"
  by code_simp+

text \<open>C15: whatever the request, the session header, the answers of the exchange and their order, the
  execute endpoint either fails and sends nothing, or sends exactly the request it was given,
  once, and then the header names a session, the demands on the orders hold (no fill-or-kill, no
  trigger, cancel and place for the same sender) and every signed part of the request belongs to
  the session's address and carries a 65-byte signature of the owner or of the non-zero linked
  signer the exchange gave for that sender within this request; no sender is asked for twice.\<close>

theorem engine_forwards_only_authorised:
  assumes run: "post_execute ex url header e start_state = (r, st)"
  shows "distinct (es_queries st) \<and>
    ((es_posts st = [] \<and> (\<exists>err. r = Err err)) \<or>
     (es_posts st = [(url @ ''/execute'', Engine_Request e)] \<and>
      r = map_err (\<lambda>m. UpstreamError (''nado execute failed: '' @ m))
            (ex_post ex (url @ ''/execute'') (Engine_Request e)) \<and>
      (\<exists>text session ci. header = Some (Some text) \<and> ex_parse_address ex text = Some session \<and>
         ex_contracts ex = Ok ci \<and> engine_demands e \<and>
         (\<forall>part\<in>set (engine_parts ex ci e). authorised ex session (es_queries st) part))))"
  using eng.run_cases [OF run [unfolded post_execute_endpoint]] unfolding permitted_def by simp blast

theorem engine_forwards_only_authorised_witness:
  "es_posts (snd (post_execute demo_ex ''u'' (Some (Some ''0xaa'')) demo_place start_state)) =
     [(''u/execute'', Engine_Request demo_place)] \<and> engine_demands demo_place"
  using engine_forwards_only_authorised [OF surjective_pairing,
      of demo_ex "''u''" "Some (Some ''0xaa'')" demo_place] demo_runs(1) by auto

text \<open>C16: the same for the trigger endpoint, for every order of a batch, which is not empty: each is a
  price-trigger order, not fill-or-kill, of the session's address and signed for it.\<close>

theorem trigger_forwards_only_authorised:
  assumes run: "post_execute_trigger ex url header e start_state = (r, st)"
  shows "distinct (es_queries st) \<and>
    ((es_posts st = [] \<and> (\<exists>err. r = Err err)) \<or>
     (es_posts st = [(url @ ''/execute'', Trigger_Request e)] \<and>
      r = map_err (\<lambda>m. UpstreamError (''nado trigger execute failed: '' @ m))
            (ex_post ex (url @ ''/execute'') (Trigger_Request e)) \<and>
      (\<exists>text session ci. header = Some (Some text) \<and> ex_parse_address ex text = Some session \<and>
         ex_contracts ex = Ok ci \<and> trigger_demands e \<and>
         (\<forall>part\<in>set (trigger_parts ex ci e). authorised ex session (es_queries st) part))))"
  using trg.run_cases [OF run [unfolded post_execute_trigger_endpoint]] unfolding permitted_def by simp blast

theorem trigger_forwards_only_authorised_witness:
  "es_posts (snd (post_execute_trigger demo_ex ''u'' (Some (Some ''0xaa'')) demo_trigger start_state)) =
     [(''u/execute'', Trigger_Request demo_trigger)] \<and> trigger_demands demo_trigger"
  using trigger_forwards_only_authorised [OF surjective_pairing,
      of demo_ex "''u''" "Some (Some ''0xaa'')" demo_trigger] demo_runs(2) by auto

text \<open>C17: with an exchange that answers and always names the same linked signer for a sender, both
  endpoints forward a request exactly when its session is valid, the contracts are known, the
  order demands hold and every part is signed for the session: nothing permitted is refused.\<close>

theorem requests_accepted_iff:
  assumes "steady ex linked"
  shows "(es_posts (snd (post_execute ex url header e start_state)) =
      [(url @ ''/execute'', Engine_Request e)] \<longleftrightarrow>
        acceptable ex linked (\<lambda>ci. engine_parts ex ci e) (engine_demands e) header) \<and>
    (es_posts (snd (post_execute_trigger ex url header t start_state)) =
      [(url @ ''/execute'', Trigger_Request t)] \<longleftrightarrow>
        acceptable ex linked (\<lambda>ci. trigger_parts ex ci t) (trigger_demands t) header)"
  using eng_live.forwarded_iff [OF assms, of url header e] trg_live.forwarded_iff [OF assms, of url header t]
  unfolding post_execute_endpoint post_execute_trigger_endpoint by (metis surjective_pairing)

theorem requests_accepted_iff_witness:
  "acceptable demo_ex (\<lambda>_. replicate 20 0xbb) (\<lambda>ci. engine_parts demo_ex ci demo_place)
     (engine_demands demo_place) (Some (Some ''0xaa''))"
proof -
  have "steady demo_ex (\<lambda>_. replicate 20 0xbb)" by (simp add: steady_def demo_ex_def)
  from requests_accepted_iff [OF this, of "''u''" "Some (Some ''0xaa'')" demo_place demo_trigger] demo_runs(1)
  show ?thesis by simp
qed



text \<open>C20: the context endpoint answers with a subaccount the execute endpoints take for the owner's. When it
  succeeds, the owner is the address of the query or else of the session header, the name is the
  trimmed name of the query or else the default, 1 to 12 characters long, the subaccount is 32
  bytes whose owner is that address, and the linked signer is the exchange's answer for it. When
  no name is given, the default name of a loaded configuration is always accepted.\<close>

theorem context_correct:
  assumes addresses: "\<forall>text a. ex_parse_address ex text = Some a \<longrightarrow> length a = 20"
    and config: "ex_config_from_env env = Ok cfg"
    and answer: "get_context ex (ec_default_subaccount_name cfg) header owner_param name_param = Ok resp"
  shows "subaccount_name_from_query None (ec_default_subaccount_name cfg) = Ok (ec_default_subaccount_name cfg) \<and>
    (\<exists>text owner sub linked. (case owner_param of Some t \<Rightarrow> text = t | None \<Rightarrow> header = Some (Some text)) \<and>
      ex_parse_address ex text = Some owner \<and>
      cr_subaccount_name resp = trim (unwrap_or (ec_default_subaccount_name cfg) name_param) \<and>
      length (cr_subaccount_name resp) \<in> {1..12} \<and>
      length sub = 32 \<and> owner_from_subaccount sub = owner \<and>
      drop 20 sub = to_bytes12 (as_bytes (cr_subaccount_name resp)) \<and>
      ex_linked ex 0 sub = Ok linked \<and>
      cr_owner resp = hex_address ex owner \<and> cr_subaccount resp = hex_subaccount ex sub \<and>
      cr_linked_signer resp = hex_address ex linked \<and>
      (cr_linked_signer_set resp \<longleftrightarrow> \<not> is_zero_address linked))"
proof -
  let ?name = "trim (unwrap_or (ec_default_subaccount_name cfg) name_param)"
  let ?from = "case owner_param of Some t \<Rightarrow> parse_address ex t | None \<Rightarrow> session_address_from_headers ex header"
  obtain owner name linked where o': "?from = Ok owner"
    and name: "subaccount_name_from_query name_param (ec_default_subaccount_name cfg) = Ok name"
    and linked: "ex_linked ex 0 (concat_to_bytes32 owner (to_bytes12 (as_bytes name))) = Ok linked"
    and resp: "resp = \<lparr>cr_owner = hex_address ex owner, cr_subaccount_name = name,
       cr_subaccount = hex_subaccount ex (concat_to_bytes32 owner (to_bytes12 (as_bytes name))),
       cr_linked_signer = hex_address ex linked, cr_linked_signer_set = (\<not> is_zero_address linked)\<rparr>"
    using answer by (auto simp: get_context_def res_bind_Inr_iff Let_def)
  have n: "name = ?name" "name \<noteq> []" "length name \<le> 12"
    using name by (auto simp: subaccount_name_from_query_def Let_def split: if_splits)
  obtain t where t: "case owner_param of Some t' \<Rightarrow> t = t' | None \<Rightarrow> header = Some (Some t)"
    "ex_parse_address ex t = Some owner"
    using o' by (auto simp: parse_address_def session_Ok_iff split: option.splits)
  have len: "length owner = 20" using addresses t(2) by blast
  let ?sub = "concat_to_bytes32 owner (to_bytes12 (as_bytes name))"
  have sub: "length ?sub = 32" "owner_from_subaccount ?sub = owner" "drop 20 ?sub = to_bytes12 (as_bytes name)"
    using n(3) len by (simp_all add: concat_to_bytes32_def to_bytes12_def as_bytes_def owner_from_subaccount_def)
  have default: "subaccount_name_from_query None (ec_default_subaccount_name cfg) = Ok (ec_default_subaccount_name cfg)"
    using config by (auto simp: ex_config_from_env_def subaccount_name_from_query_def res_bind_Inr_iff Let_def
        split: if_splits)
  have "1 \<le> length name" using n(2) by (simp add: Suc_le_eq)
  with n(3) have "length name \<in> {1..12}" by simp
  then show ?thesis
    using t linked sub default
    apply -
    apply (rule conjI, assumption)
    apply (rule exI [of _ t], rule exI [of _ owner], rule exI [of _ ?sub], rule exI [of _ linked])
    by (simp only: resp context_response.simps n(1) [symmetric] simp_thms)
qed

theorem context_correct_witness:
  "\<exists>cfg resp. ex_config_from_env (\<lambda>_. None) = Ok cfg \<and>
     get_context demo_ex (ec_default_subaccount_name cfg) (Some (Some ''0xaa'')) None None = Ok resp \<and>
     cr_subaccount_name resp = ''default''"
proof -
  obtain cfg where cfg: "ex_config_from_env (\<lambda>_. None) = Ok cfg" "ec_default_subaccount_name cfg = ''default''"
  proof
    show "ex_config_from_env (\<lambda>_. None) = Ok \<lparr>ec_bind_addr = ''0.0.0.0:3003'', ec_client_mode = Test,
      ec_gateway_url = None, ec_trigger_url = None, ec_default_subaccount_name = ''default''\<rparr>"
      by code_simp
  qed simp
  have addr: "\<forall>text a. ex_parse_address demo_ex text = Some a \<longrightarrow> length a = 20"
    by (auto simp: demo_ex_def split: if_splits)
  have "res_ok (get_context demo_ex ''default'' (Some (Some ''0xaa'')) None None) \<noteq> None"
    by code_simp
  then obtain resp where resp: "get_context demo_ex ''default'' (Some (Some ''0xaa'')) None None = Ok resp"
    by (cases "get_context demo_ex ''default'' (Some (Some ''0xaa'')) None None") auto
  have "trim ''default'' = ''default''" by code_simp
  then show ?thesis
    using context_correct [where ex = demo_ex and env = "\<lambda>_. None" and cfg = cfg
        and header = "Some (Some ''0xaa'')" and owner_param = None and name_param = None and resp = resp,
        OF addr cfg(1)] cfg resp by auto
qed

end
