(* ===== verification/CandleSeries.thy ===== *)
theory CandleSeries
  imports GatewayCommon
begin

text \<open>
  Candles of the chart gateway: the table of gateway/chart/src/store.rs with its upsert and its
  query, the in-memory window of a series (SeriesState of market.rs) and the view of a candle
  (protocol.rs). The table is what the SQL statements of the source make of it: an upsert
  replaces a row with the same primary key unless the stored one is newer, a query selects by
  symbol, product and granularity, newest first. Whether the database accepts a call is a
  parameter, Some error when it does not.
\<close>

subsection \<open>Rows and views\<close>

record candle_row =
  cd_product_id :: u32
  cd_symbol :: string
  cd_granularity :: u32
  cd_bucket_start_sec :: i64
  cd_open_x18 :: string
  cd_high_x18 :: string
  cd_low_x18 :: string
  cd_close_x18 :: string
  cd_volume_x18 :: string
  cd_submission_idx :: i64
  cd_source_ts :: i64

record candle_view =
  cv_bucket_start :: u64
  cv_open_x18 :: string
  cv_high_x18 :: string
  cv_low_x18 :: string
  cv_close_x18 :: string
  cv_volume_x18 :: string
  cv_open :: f64
  cv_high :: f64
  cv_low :: f64
  cv_close :: f64
  cv_volume :: f64
  cv_submission_idx :: i64
  cv_source_ts :: i64

definition x18_text_to_f64 :: "string \<Rightarrow> f64" where
  "x18_text_to_f64 raw = f_div (unwrap_or (f_of_int 0) (parse_f64 raw)) f_1e18"

definition from_x18_strings ::
  "i64 \<Rightarrow> string \<Rightarrow> string \<Rightarrow> string \<Rightarrow> string \<Rightarrow> string \<Rightarrow> i64 \<Rightarrow> i64 \<Rightarrow> candle_view" where
  "from_x18_strings bucket_start open_x18 high_x18 low_x18 close_x18 volume_x18 submission_idx source_ts =
     \<lparr>cv_bucket_start = word_of_int (max bucket_start 0),
      cv_open_x18 = open_x18, cv_high_x18 = high_x18, cv_low_x18 = low_x18,
      cv_close_x18 = close_x18, cv_volume_x18 = volume_x18,
      cv_open = x18_text_to_f64 open_x18, cv_high = x18_text_to_f64 high_x18,
      cv_low = x18_text_to_f64 low_x18, cv_close = x18_text_to_f64 close_x18,
      cv_volume = x18_text_to_f64 volume_x18,
      cv_submission_idx = submission_idx, cv_source_ts = source_ts\<rparr>"

definition candle_to_view :: "candle_row \<Rightarrow> candle_view" where
  "candle_to_view r =
     from_x18_strings (cd_bucket_start_sec r) (cd_open_x18 r) (cd_high_x18 r) (cd_low_x18 r)
       (cd_close_x18 r) (cd_volume_x18 r) (cd_submission_idx r) (cd_source_ts r)"

subsection \<open>The table\<close>

type_synonym candle_store = "(u32 \<times> u32 \<times> i64, candle_row) hashmap"

text \<open>The primary key.\<close>

definition candle_key :: "candle_row \<Rightarrow> u32 \<times> u32 \<times> i64" where
  "candle_key r = (cd_product_id r, cd_granularity r, cd_bucket_start_sec r)"

text \<open>INSERT .. ON CONFLICT DO UPDATE .. WHERE the stored submission_idx is not the greater one.\<close>

definition upsert_row :: "candle_row \<Rightarrow> candle_store \<Rightarrow> candle_store" where
  "upsert_row r s =
     (case hm_get s (candle_key r) of
        None \<Rightarrow> hm_insert (candle_key r) r s
      | Some old \<Rightarrow>
          if cd_submission_idx old \<le> cd_submission_idx r then hm_insert (candle_key r) r s else s)"

text \<open>One transaction: a failure anywhere leaves the table as it was.\<close>

definition upsert_many ::
  "(candle_row list \<Rightarrow> string option) \<Rightarrow> candle_row list \<Rightarrow> candle_store \<Rightarrow> (string + unit) \<times> candle_store" where
  "upsert_many fails rows s =
     (if rows = [] then (Ok (), s)
      else
        (case fails rows of
           Some e \<Rightarrow> (Err e, s)
         | None \<Rightarrow> (Ok (), foldl (\<lambda>s r. upsert_row r s) s rows)))"

definition upsert_candle ::
  "(candle_row list \<Rightarrow> string option) \<Rightarrow> candle_row \<Rightarrow> candle_store \<Rightarrow> (string + unit) \<times> candle_store" where
  "upsert_candle fails r s = upsert_many fails [r] s"

text \<open>The newest rows of a series, at most limit of them, oldest first.\<close>

definition load_recent ::
  "string option \<Rightarrow> string \<Rightarrow> u32 \<Rightarrow> u32 \<Rightarrow> nat \<Rightarrow> candle_store \<Rightarrow> string + candle_row list" where
  "load_recent fails symbol pid gran limit s =
     (case fails of
        Some e \<Rightarrow> Err e
      | None \<Rightarrow>
          Ok (rev (take limit (sort_key (\<lambda>r. - cd_bucket_start_sec r)
            (filter (\<lambda>r. cd_symbol r = symbol \<and> cd_product_id r = pid \<and> cd_granularity r = gran)
              (map snd s))))))"

subsection \<open>The window of a series\<close>

text \<open>The deque, oldest candle first; pop_to is the loop that pops the front while it is too long.\<close>

type_synonym series_state = "candle_row list"

fun pop_to :: "nat \<Rightarrow> 'a list \<Rightarrow> 'a list" where
  "pop_to cap [] = []"
| "pop_to cap (x # xs) = (if length (x # xs) > cap then pop_to cap xs else x # xs)"

definition replace_all :: "candle_row list \<Rightarrow> nat \<Rightarrow> series_state" where
  "replace_all rows cap = foldl (\<lambda>q r. pop_to cap (q @ [r])) [] rows"

text \<open>
  The scan from the back: it stops at the first candle that is older than the row. The result is
  None when no candle has the row's bucket, and else the new deque, or that the row is stale.
  The argument is the deque reversed.
\<close>

fun scan_back :: "candle_row \<Rightarrow> candle_row list \<Rightarrow> candle_row list option option" where
  "scan_back row [] = None"
| "scan_back row (x # xs) =
     (if cd_bucket_start_sec x = cd_bucket_start_sec row then
        (if cd_submission_idx row < cd_submission_idx x then Some None else Some (Some (row # xs)))
      else if cd_bucket_start_sec x < cd_bucket_start_sec row then None
      else map_option (map_option (\<lambda>ys. x # ys)) (scan_back row xs))"

text \<open>Insertion at the index of the first candle that is newer than the row.\<close>

fun insert_at :: "candle_row \<Rightarrow> candle_row list \<Rightarrow> candle_row list" where
  "insert_at row [] = [row]"
| "insert_at row (x # xs) =
     (if cd_bucket_start_sec x > cd_bucket_start_sec row then row # x # xs else x # insert_at row xs)"

definition apply_row :: "candle_row \<Rightarrow> nat \<Rightarrow> series_state \<Rightarrow> bool \<times> series_state" where
  "apply_row row cap q =
     (if q = [] then (True, [row])
      else if cd_bucket_start_sec (last q) = cd_bucket_start_sec row then
        (if cd_submission_idx row < cd_submission_idx (last q) then (False, q)
         else (True, butlast q @ [row]))
      else if cd_bucket_start_sec row > cd_bucket_start_sec (last q) then
        (True, pop_to cap (q @ [row]))
      else if cd_bucket_start_sec row < cd_bucket_start_sec (hd q) then (False, q)
      else
        (case scan_back row (rev q) of
           Some None \<Rightarrow> (False, q)
         | Some (Some q') \<Rightarrow> (True, rev q')
         | None \<Rightarrow> (True, pop_to cap (insert_at row q))))"

definition snapshot_views :: "nat \<Rightarrow> series_state \<Rightarrow> candle_view list" where
  "snapshot_views limit q = rev (map candle_to_view (take limit (rev q)))"

subsection \<open>The window as a bounded map\<close>

definition bucketed :: "candle_row list \<Rightarrow> (i64, candle_row) btree" where
  "bucketed q = map (\<lambda>r. (cd_bucket_start_sec r, r)) q"

definition window_inv :: "nat \<Rightarrow> series_state \<Rightarrow> bool" where
  "window_inv cap q \<longleftrightarrow> bt_wf (bucketed q) \<and> length q \<le> cap"

text \<open>What a row should do to the window.\<close>

definition window_refuses :: "candle_row \<Rightarrow> series_state \<Rightarrow> bool" where
  "window_refuses row q \<longleftrightarrow>
     (q \<noteq> [] \<and> cd_bucket_start_sec row < cd_bucket_start_sec (hd q)) \<or>
     (case bt_get (bucketed q) (cd_bucket_start_sec row) of
        None \<Rightarrow> False | Some old \<Rightarrow> cd_submission_idx row < cd_submission_idx old)"

lemma pop_to_drop: "pop_to cap xs = drop (length xs - cap) xs"
  by (induction cap xs rule: pop_to.induct) (auto simp: Suc_diff_le not_less drop_Cons')

lemma bucketed_simps [simp]:
  "bucketed [] = []" "bucketed (r # q) = (cd_bucket_start_sec r, r) # bucketed q"
  "bucketed (q @ q') = bucketed q @ bucketed q'" "length (bucketed q) = length q"
  "bucketed q = [] \<longleftrightarrow> q = []"
  by (simp_all add: bucketed_def)

lemma bucketed_keys: "map fst (bucketed q) = map cd_bucket_start_sec q"
  by (simp add: bucketed_def)

lemma bucketed_drop: "bucketed (drop n q) = drop n (bucketed q)"
  by (simp add: bucketed_def drop_map)

lemma bt_wf_bucketed: "bt_wf (bucketed q) \<longleftrightarrow> sorted_wrt (<) (map cd_bucket_start_sec q)"
  by (simp add: bt_wf_def bucketed_keys)

lemma replace_all_eq: "replace_all rows cap = drop (length rows - cap) rows"
proof (induction rows rule: rev_induct)
  case Nil
  then show ?case by (simp add: replace_all_def)
next
  case (snoc r rows)
  have "replace_all (rows @ [r]) cap = pop_to cap (replace_all rows cap @ [r])"
    by (simp add: replace_all_def)
  also have "\<dots> = drop (length rows - (length rows - cap) + 1 - cap) (drop (length rows - cap) rows @ [r])"
    by (simp add: pop_to_drop snoc.IH)
  also have "\<dots> = drop (length (rows @ [r]) - cap) (rows @ [r])"
    by (cases "cap \<le> length rows") (auto simp: Suc_diff_le)
  finally show ?case .
qed

lemma insert_at_bt:
  "cd_bucket_start_sec row \<notin> cd_bucket_start_sec ` set q \<Longrightarrow>
     bucketed (insert_at row q) = bt_insert (cd_bucket_start_sec row) row (bucketed q)"
  by (induction row q rule: insert_at.induct) auto

lemma scan_back_spec:
  assumes "bt_wf (bucketed q)"
  shows "case bt_get (bucketed q) (cd_bucket_start_sec row) of
      None \<Rightarrow> scan_back row (rev q) = None
    | Some old \<Rightarrow>
        if cd_submission_idx row < cd_submission_idx old then scan_back row (rev q) = Some None
        else \<exists>q'. scan_back row (rev q) = Some (Some (rev q')) \<and>
               bucketed q' = bt_insert (cd_bucket_start_sec row) row (bucketed q)"
  using assms
proof (induction q rule: rev_induct)
  case Nil
  then show ?case by (simp add: bt_get_def)
next
  case (snoc x q)
  let ?b = "cd_bucket_start_sec row" and ?c = "cd_bucket_start_sec x"
  have wf: "bt_wf (bucketed q @ [(?c, x)])" using snoc.prems by simp
  have app: "bucketed (q @ [x]) = bucketed q @ [(?c, x)]" by simp
  from wf have below: "\<forall>k\<in>fst ` set (bucketed q). k < ?c" and wfq: "bt_wf (bucketed q)"
    by (simp_all add: bt_wf_snoc)
  note get = bt_get_snoc [OF wf, of ?b]
  consider "?c = ?b" | "?c < ?b" | "?b < ?c" by linarith
  then show ?case
  proof cases
    case 1
    have "bucketed (q @ [row]) = bt_insert ?b row (bucketed (q @ [x]))"
      using bt_insert_replace_last [OF below, of row x] 1 by simp
    then show ?thesis using 1 get by (auto intro!: exI [of _ "q @ [row]"])
  next
    case 2
    then have "bt_get (bucketed q) ?b = None" using below by (intro bt_get_above) auto
    then show ?thesis using 2 by (simp add: get)
  next
    case 3
    show ?thesis
    proof (cases "bt_get (bucketed q) ?b")
      case None
      then show ?thesis using 3 snoc.IH [OF wfq] by (simp add: get)
    next
      case (Some old)
      show ?thesis
      proof (cases "cd_submission_idx row < cd_submission_idx old")
        case True
        then show ?thesis using 3 Some snoc.IH [OF wfq] by (simp add: get)
      next
        case False
        then obtain q' where "scan_back row (rev q) = Some (Some (rev q'))"
          "bucketed q' = bt_insert ?b row (bucketed q)"
          using Some snoc.IH [OF wfq] by auto
        then show ?thesis using 3 False Some
          by (auto simp: get app bt_insert_before intro!: exI [of _ "q' @ [x]"])
      qed
    qed
  qed
qed

text \<open>The window after a row is the map with the row in it, cut to the capacity from the old end.\<close>

lemma apply_row_spec:
  assumes inv: "window_inv cap q" and cap: "0 < cap"
  shows "\<exists>q'. apply_row row cap q = (\<not> window_refuses row q, q') \<and>
     (if window_refuses row q then q' = q
      else bucketed q' = (let m = bt_insert (cd_bucket_start_sec row) row (bucketed q) in
             drop (length m - cap) m))"
proof (cases q rule: rev_cases)
  case Nil
  then show ?thesis using cap by (auto simp: apply_row_def window_refuses_def bt_get_def)
next
  case (snoc p x)
  let ?b = "cd_bucket_start_sec row" and ?c = "cd_bucket_start_sec x"
  have wf: "bt_wf (bucketed p @ [(?c, x)])" "bt_wf (bucketed q)" and len: "length q \<le> cap"
    using inv snoc by (simp_all add: window_inv_def)
  have below: "\<forall>k\<in>fst ` set (bucketed p). k < ?c" using wf(1) by (simp add: bt_wf_snoc)
  note get = bt_get_snoc [OF wf(1), of ?b]
  have hd_le: "cd_bucket_start_sec (hd q) \<le> ?c"
    using below snoc by (cases p) (auto intro: less_imp_le)
  have eq: "apply_row row cap q = (if ?c = ?b then if cd_submission_idx row < cd_submission_idx x then (False, q)
         else (True, p @ [row]) else if ?b > ?c then (True, pop_to cap (q @ [row]))
      else if ?b < cd_bucket_start_sec (hd q) then (False, q)
      else (case scan_back row (rev q) of Some None \<Rightarrow> (False, q) | Some (Some q') \<Rightarrow> (True, rev q')
        | None \<Rightarrow> (True, pop_to cap (insert_at row q))))"
    unfolding apply_row_def by (simp add: snoc del: rev_append)
  consider "?c = ?b" | "?c < ?b" | "?b < ?c" by linarith
  then show ?thesis
  proof cases
    case 1
    have "bt_insert ?b row (bucketed q) = bucketed (p @ [row])"
      using bt_insert_replace_last [OF below, of row x] 1 by (simp add: snoc)
    then show ?thesis using 1 hd_le len get unfolding eq window_refuses_def by (simp add: snoc)
  next
    case 2
    have "\<forall>k\<in>fst ` set (bucketed q). k < ?b" using below 2 by (auto simp: snoc)
    then have "bt_insert ?b row (bucketed q) = bucketed (q @ [row])" "bt_get (bucketed q) ?b = None"
      by (simp_all add: bt_insert_last bt_get_above)
    moreover have "bucketed (pop_to cap (q @ [row])) = drop (Suc (length q) - cap) (bucketed (q @ [row]))"
      by (simp only: pop_to_drop bucketed_drop length_append_singleton)
    ultimately show ?thesis using 2 hd_le unfolding eq window_refuses_def
      by (simp del: drop_append)
  next
    case 3
    show ?thesis
    proof (cases "?b < cd_bucket_start_sec (hd q)")
      case True
      then show ?thesis using 3 unfolding eq window_refuses_def by (simp add: snoc)
    next
      case False
      note sb = scan_back_spec [OF wf(2), of row]
      show ?thesis
      proof (cases "bt_get (bucketed q) ?b")
        case None
        then have "?b \<notin> cd_bucket_start_sec ` set q"
          using wf(2) by (auto simp: bt_get_def map_of_eq_None_iff bucketed_def image_image)
        then show ?thesis using 3 False sb None insert_at_bt [of row q]
          unfolding eq window_refuses_def by (simp add: pop_to_drop bucketed_drop) (metis bucketed_simps(4))
      next
        case (Some old)
        then have "?b \<in> fst ` set (bucketed q)"
          by (metis bt_get_notin option.distinct(1))
        then have "length (bt_insert ?b row (bucketed q)) = length q"
          by (simp add: length_bt_insert [OF wf(2)])
        then show ?thesis using 3 False sb Some len
          unfolding eq window_refuses_def by (auto split: if_splits)
      qed
    qed
  qed
qed

lemma window_inv_apply_row:
  assumes "window_inv cap q" "0 < cap" "apply_row row cap q = (c, q')"
  shows "window_inv cap q'"
proof (cases "window_refuses row q")
  case True
  then show ?thesis using apply_row_spec [OF assms(1,2), of row] assms by auto
next
  case False
  have "bucketed q' = (let m = bt_insert (cd_bucket_start_sec row) row (bucketed q) in drop (length m - cap) m)"
    using apply_row_spec [OF assms(1,2), of row] False assms(3) by auto
  moreover have "length (bucketed q') = length q'" by simp
  ultimately show ?thesis
    using assms(1) by (simp add: window_inv_def Let_def bt_wf_drop bt_wf_insert)
qed

lemma window_inv_replace_all:
  "sorted_wrt (<) (map cd_bucket_start_sec rows) \<Longrightarrow> window_inv cap (replace_all rows cap)"
  by (simp add: replace_all_eq window_inv_def bucketed_drop bt_wf_drop bt_wf_bucketed)

subsection \<open>The window and the table\<close>

text \<open>The table keeps its rows under their own keys; own says whose symbol the rows of a series carry.\<close>

definition store_inv :: "candle_store \<Rightarrow> bool" where
  "store_inv s \<longleftrightarrow> hm_wf s \<and> (\<forall>(k, r)\<in>set s. candle_key r = k)"

definition row_of :: "string \<Rightarrow> u32 \<Rightarrow> u32 \<Rightarrow> candle_row \<Rightarrow> bool" where
  "row_of symbol pid gran r \<longleftrightarrow> cd_symbol r = symbol \<and> cd_product_id r = pid \<and> cd_granularity r = gran"

definition own_rows :: "string \<Rightarrow> u32 \<Rightarrow> u32 \<Rightarrow> candle_store \<Rightarrow> bool" where
  "own_rows symbol pid gran s \<longleftrightarrow>
     (\<forall>r\<in>snd ` set s. cd_product_id r = pid \<longrightarrow> cd_granularity r = gran \<longrightarrow> cd_symbol r = symbol)"

text \<open>From its oldest candle on, the window has exactly what the table has of the series.\<close>

definition mirrors :: "candle_store \<Rightarrow> u32 \<Rightarrow> u32 \<Rightarrow> series_state \<Rightarrow> bool" where
  "mirrors s pid gran q \<longleftrightarrow>
     (if q = [] then \<forall>b. hm_get s (pid, gran, b) = None
      else \<forall>b\<ge>cd_bucket_start_sec (hd q). bt_get (bucketed q) b = hm_get s (pid, gran, b))"

lemma store_inv_empty [simp]: "store_inv []"
  by (simp add: store_inv_def)

lemma store_inv_upsert: "store_inv s \<Longrightarrow> store_inv (upsert_row r s)"
  using set_hm_insert [of "candle_key r" r s]
  by (fastforce simp: store_inv_def upsert_row_def hm_wf_insert split: option.split)

lemma own_rows_upsert: "own_rows symbol pid gran s \<Longrightarrow> row_of symbol pid gran r \<Longrightarrow> own_rows symbol pid gran (upsert_row r s)"
  using set_hm_insert [of "candle_key r" r s]
  by (fastforce simp: own_rows_def row_of_def upsert_row_def split: option.split)

lemma hm_get_upsert:
  "hm_get (upsert_row r s) k =
     (if k = candle_key r \<and> (case hm_get s k of None \<Rightarrow> True | Some old \<Rightarrow> cd_submission_idx old \<le> cd_submission_idx r)
      then Some r else hm_get s k)"
  by (auto simp: upsert_row_def hm_get_insert split: option.split)

lemma store_key: "store_inv s \<Longrightarrow> hm_get s k = Some r \<Longrightarrow> candle_key r = k"
  by (auto simp: store_inv_def hm_get_def dest!: map_of_SomeD)

lemma mirrors_drop:
  assumes "mirrors s pid gran q" "bt_wf (bucketed q)" "drop n q \<noteq> [] \<or> q = []"
  shows "mirrors s pid gran (drop n q)"
proof (cases "q = []")
  case False
  then have ne: "drop n q \<noteq> []" using assms(3) by simp
  have hd: "fst (hd (bucketed p)) = cd_bucket_start_sec (hd p)" if "p \<noteq> []" for p
    using that by (cases p) auto
  have "cd_bucket_start_sec (hd q) \<le> cd_bucket_start_sec (hd (drop n q))"
    using bt_hd_drop [OF assms(2), of n] ne hd [OF False] hd [OF ne] by (simp add: bucketed_drop)
  then show ?thesis
    using assms(1) ne False bt_get_drop [OF assms(2), of n] hd [OF ne]
    by (auto simp: mirrors_def bucketed_drop [symmetric])
qed (use assms in simp)

text \<open>A row that goes to the table and to the window keeps them together.\<close>

lemma mirrors_apply_row:
  assumes m: "mirrors s pid gran q" and inv: "window_inv cap q" and cap: "0 < cap"
    and row: "cd_product_id row = pid" "cd_granularity row = gran" and run: "apply_row row cap q = (c, q')"
  shows "mirrors (upsert_row row s) pid gran q'"
proof -
  let ?b = "cd_bucket_start_sec row"
  have key: "candle_key row = (pid, gran, ?b)" using row by (simp add: candle_key_def)
  note spec = apply_row_spec [OF inv cap, of row]
  show ?thesis
  proof (cases "window_refuses row q")
    case True
    then have q': "q' = q" using spec run by auto
    show ?thesis
    proof (cases "q \<noteq> [] \<and> ?b < cd_bucket_start_sec (hd q)")
      case True
      then show ?thesis using m by (auto simp: mirrors_def q' hm_get_upsert key)
    next
      case False
      then obtain old where old: "bt_get (bucketed q) ?b = Some old" "cd_submission_idx row < cd_submission_idx old"
        using True by (auto simp: window_refuses_def split: option.splits)
      then have "q \<noteq> []" by (auto simp: bt_get_def)
      then have "hm_get s (pid, gran, ?b) = Some old"
        using m False old(1) by (simp add: mirrors_def)
      then show ?thesis using m old(2) \<open>q \<noteq> []\<close> by (auto simp: mirrors_def q' hm_get_upsert key)
    qed
  next
    case False
    let ?m = "bt_insert ?b row (bucketed q)"
    have wf: "bt_wf (bucketed q)" "bt_wf ?m" using inv by (simp_all add: window_inv_def bt_wf_insert)
    have q': "bucketed q' = drop (length ?m - cap) ?m" using spec run False by (auto simp: Let_def)
    have "0 < length ?m" by simp
    then have ne: "drop (length ?m - cap) ?m \<noteq> []" using cap by (simp only: drop_eq_Nil)
    then have q'ne: "q' \<noteq> []" using q' by force
    have low: "q = [] \<or> cd_bucket_start_sec (hd q) \<le> ?b" using False by (auto simp: window_refuses_def)
    have hdm: "fst (hd ?m) = (if q = [] then ?b else cd_bucket_start_sec (hd q))"
      using low by (cases q) auto
    have "hm_get (upsert_row row s) (pid, gran, b) = bt_get ?m b" if "fst (hd ?m) \<le> b" for b
    proof (cases "b = ?b")
      case True
      have "hm_get s (pid, gran, ?b) = bt_get (bucketed q) ?b"
        using m low by (auto simp: mirrors_def split: if_splits)
      then show ?thesis using False True
        by (auto simp: hm_get_upsert key bt_get_insert window_refuses_def split: option.splits)
    next
      case other: False
      then show ?thesis using m that hdm
        by (auto simp: hm_get_upsert key bt_get_insert mirrors_def split: if_splits)
    qed
    moreover have "cd_bucket_start_sec (hd q') = fst (hd (bucketed q'))"
      using q'ne by (cases q') auto
    then have "cd_bucket_start_sec (hd q') = fst (hd (drop (length ?m - cap) ?m))"
      by (simp only: q')
    ultimately show ?thesis
      using q'ne ne bt_get_drop [OF wf(2) ne] bt_hd_drop [OF wf(2) ne] order_trans
      unfolding mirrors_def q' by auto
  qed
qed

text \<open>All rows of a series in the table, oldest first, and what a query returns of them.\<close>

definition series_rows :: "string \<Rightarrow> u32 \<Rightarrow> u32 \<Rightarrow> candle_store \<Rightarrow> candle_row list" where
  "series_rows symbol pid gran s =
     sort_key cd_bucket_start_sec (filter (row_of symbol pid gran) (map snd s))"

lemma distinct_series:
  assumes "store_inv s"
  shows "distinct (map cd_bucket_start_sec (filter (row_of symbol pid gran) (map snd s)))"
  using assms
proof (induction s)
  case Nil
  then show ?case by simp
next
  case (Cons x s)
  obtain k r where x: "x = (k, r)" by (cases x)
  have inv: "store_inv s" and k: "candle_key r = k" "k \<notin> fst ` set s" "\<forall>(k, r)\<in>set s. candle_key r = k"
    using Cons.prems by (auto simp: store_inv_def hm_wf_def x)
  have "cd_bucket_start_sec r \<notin> cd_bucket_start_sec ` set (filter (row_of symbol pid gran) (map snd s))"
    if "row_of symbol pid gran r"
  proof
    assume "cd_bucket_start_sec r \<in> cd_bucket_start_sec ` set (filter (row_of symbol pid gran) (map snd s))"
    then obtain k' r' where r': "(k', r') \<in> set s" "row_of symbol pid gran r'"
      "cd_bucket_start_sec r = cd_bucket_start_sec r'" by auto
    then have "k' = k" using k that by (fastforce simp: candle_key_def row_of_def)
    then show False using k(2) r'(1) by force
  qed
  then show ?case using Cons.IH [OF inv] by (simp add: x)
qed

lemma sort_key_uminus:
  fixes f :: "'a \<Rightarrow> int"
  assumes "distinct (map f xs)"
  shows "sort_key (\<lambda>x. - f x) xs = rev (sort_key f xs)"
proof (rule sort_key_inj_key_eq)
  show "mset xs = mset (rev (sort_key f xs))" by simp
  show "inj_on (\<lambda>x. - f x) (set xs)" using assms by (auto simp: inj_on_def distinct_map)
  have "sorted (map f (sort_key f xs))" by simp
  then have "sorted_wrt (\<lambda>x y. f x \<le> f y) (sort_key f xs)" by (simp add: sorted_wrt_map)
  then have "sorted_wrt (\<lambda>x y. - f x \<le> - f y) (rev (sort_key f xs))"
    by (simp add: sorted_wrt_rev)
  then show "sorted (map (\<lambda>x. - f x) (rev (sort_key f xs)))"
    by (simp only: sorted_wrt_map)
qed

lemma load_recent_eq:
  assumes "store_inv s"
  shows "load_recent None symbol pid gran limit s =
     Ok (drop (length (series_rows symbol pid gran s) - limit) (series_rows symbol pid gran s))"
proof -
  have "filter (\<lambda>r. cd_symbol r = symbol \<and> cd_product_id r = pid \<and> cd_granularity r = gran) (map snd s) =
     filter (row_of symbol pid gran) (map snd s)"
    by (intro filter_cong) (auto simp: row_of_def)
  then show ?thesis
    using sort_key_uminus [OF distinct_series [OF assms], of symbol pid gran]
    by (simp add: load_recent_def series_rows_def take_rev_drop)
qed

lemma sorted_series_rows:
  assumes "store_inv s"
  shows "sorted_wrt (<) (map cd_bucket_start_sec (series_rows symbol pid gran s))"
proof -
  have "mset (map cd_bucket_start_sec (series_rows symbol pid gran s)) =
     mset (map cd_bucket_start_sec (filter (row_of symbol pid gran) (map snd s)))"
    by (simp add: series_rows_def)
  then have "distinct (map cd_bucket_start_sec (series_rows symbol pid gran s))"
    using distinct_series [OF assms] by (metis mset_eq_imp_distinct_iff)
  then show ?thesis by (simp add: strict_sorted_iff series_rows_def)
qed

lemma series_rows_get:
  assumes inv: "store_inv s" and own: "own_rows symbol pid gran s"
  shows "bt_get (bucketed (series_rows symbol pid gran s)) b = hm_get s (pid, gran, b)"
proof (cases "hm_get s (pid, gran, b)")
  case None
  have "b \<notin> fst ` set (bucketed (series_rows symbol pid gran s))"
  proof
    assume "b \<in> fst ` set (bucketed (series_rows symbol pid gran s))"
    then obtain k r where "(k, r) \<in> set s" "row_of symbol pid gran r" "cd_bucket_start_sec r = b"
      by (auto simp: bucketed_def series_rows_def)
    then have "((pid, gran, b), r) \<in> set s"
      using inv by (auto simp: store_inv_def candle_key_def row_of_def)
    then show False using None by (auto simp: hm_get_def map_of_eq_None_iff image_iff)
  qed
  then show ?thesis by (simp add: bt_get_notin None)
next
  case (Some r)
  then have r: "((pid, gran, b), r) \<in> set s" by (simp add: hm_get_def map_of_SomeD)
  then have "candle_key r = (pid, gran, b)" using inv by (auto simp: store_inv_def)
  then have key: "cd_product_id r = pid" "cd_granularity r = gran" "cd_bucket_start_sec r = b"
    by (simp_all add: candle_key_def)
  then have "row_of symbol pid gran r" using own r by (force simp: row_of_def own_rows_def)
  then have "(b, r) \<in> set (bucketed (series_rows symbol pid gran s))"
    using r key by (force simp: bucketed_def series_rows_def)
  moreover have "distinct (map fst (bucketed (series_rows symbol pid gran s)))"
    using sorted_series_rows [OF inv] by (simp add: bucketed_keys strict_sorted_iff)
  ultimately show ?thesis by (simp add: bt_get_def Some)
qed

lemma series_rows_mirrors:
  assumes "store_inv s" "own_rows symbol pid gran s" "0 < limit"
  shows "mirrors s pid gran (drop (length (series_rows symbol pid gran s) - limit) (series_rows symbol pid gran s))"
proof (rule mirrors_drop)
  show "mirrors s pid gran (series_rows symbol pid gran s)"
    using series_rows_get [OF assms(1,2)] by (auto simp: mirrors_def)
  show "bt_wf (bucketed (series_rows symbol pid gran s))"
    by (simp add: bt_wf_bucketed sorted_series_rows assms(1))
  show "drop (length (series_rows symbol pid gran s) - limit) (series_rows symbol pid gran s) \<noteq> [] \<or>
      series_rows symbol pid gran s = []"
    using assms(3) by (cases "series_rows symbol pid gran s") auto
qed

text \<open>Loading a series and keeping its newest candles gives a window of the table.\<close>

lemma load_replace:
  assumes s: "store_inv s" "own_rows symbol pid gran s" and pos: "0 < limit" "0 < cap"
    and load: "load_recent fails symbol pid gran limit s = Ok rows"
  shows "window_inv cap (replace_all rows cap) \<and> mirrors s pid gran (replace_all rows cap) \<and>
     rows = drop (length (series_rows symbol pid gran s) - limit) (series_rows symbol pid gran s)"
proof -
  have rows: "rows = drop (length (series_rows symbol pid gran s) - limit) (series_rows symbol pid gran s)"
    using load load_recent_eq [OF s(1)] by (cases fails) (auto simp: load_recent_def)
  have wf: "sorted_wrt (<) (map cd_bucket_start_sec rows)"
    unfolding rows drop_map [symmetric] by (intro sorted_wrt_drop sorted_series_rows s(1))
  have "mirrors s pid gran (drop (length rows - cap) rows)"
  proof (rule mirrors_drop)
    show "mirrors s pid gran rows" unfolding rows by (rule series_rows_mirrors [OF s pos(1)])
    show "bt_wf (bucketed rows)" using wf by (simp add: bt_wf_bucketed)
    show "drop (length rows - cap) rows \<noteq> [] \<or> rows = []"
      using pos(2) by (cases rows) auto
  qed
  then show ?thesis using window_inv_replace_all [OF wf] rows replace_all_eq by metis
qed

lemma upsert_many_inv:
  assumes "upsert_many fails rows s = (r, s')" "store_inv s" "own_rows symbol pid gran s"
    "\<forall>x\<in>set rows. row_of symbol pid gran x"
  shows "store_inv s' \<and> own_rows symbol pid gran s'"
proof -
  have "store_inv (foldl (\<lambda>s r. upsert_row r s) s rows) \<and> own_rows symbol pid gran (foldl (\<lambda>s r. upsert_row r s) s rows)"
    using assms(2-4)
  proof (induction rows arbitrary: s)
    case (Cons x rows)
    then show ?case by (simp add: store_inv_upsert own_rows_upsert)
  qed simp
  then show ?thesis
    using assms(1-3) by (auto simp: upsert_many_def split: if_splits option.splits)
qed

subsection \<open>Property\<close>

text \<open>C21: what a row does to the window. On a window that is sorted and within a positive capacity the
  four cases of the code (empty, newest bucket, newer bucket, older bucket with its scan and its
  insertion) come to one: a row older than the whole window, or older by submission index than
  the candle of its bucket, is refused and changes nothing; any other is stored under its bucket
  in order, the oldest candles beyond the capacity go, and the result is again such a window, in
  which the row is found unless it was itself cut.\<close>

theorem apply_row_correct:
  assumes inv: "window_inv cap q" and cap: "0 < cap"
  shows "\<exists>q'. apply_row row cap q = (\<not> window_refuses row q, q') \<and> window_inv cap q' \<and>
     (if window_refuses row q then q' = q
      else (let m = bt_insert (cd_bucket_start_sec row) row (bucketed q) in
             bucketed q' = drop (length m - cap) m \<and>
             (length q < cap \<longrightarrow> bt_get (bucketed q') = (bt_get (bucketed q))(cd_bucket_start_sec row \<mapsto> row))))"
proof -
  obtain q' where q': "apply_row row cap q = (\<not> window_refuses row q, q')"
    "if window_refuses row q then q' = q
      else bucketed q' = (let m = bt_insert (cd_bucket_start_sec row) row (bucketed q) in drop (length m - cap) m)"
    using apply_row_spec [OF inv cap] by blast
  have wf: "bt_wf (bucketed q)" using inv by (simp add: window_inv_def)
  have "length (bt_insert (cd_bucket_start_sec row) row (bucketed q)) \<le> Suc (length q)"
    by (simp add: length_bt_insert [OF wf])
  then show ?thesis
    using q' window_inv_apply_row [OF inv cap q'(1)] by (auto simp: Let_def bt_get_insert)
qed

theorem apply_row_correct_witness:
  "let r = \<lparr>cd_product_id = 2, cd_symbol = ''A'', cd_granularity = 60, cd_bucket_start_sec = 60,
      cd_open_x18 = ''1'', cd_high_x18 = ''2'', cd_low_x18 = ''1'', cd_close_x18 = ''2'', cd_volume_x18 = ''5'',
      cd_submission_idx = 3, cd_source_ts = 60\<rparr>
   in window_inv 2 [r, r\<lparr>cd_bucket_start_sec := 180\<rparr>] \<and>
      (\<exists>q'. apply_row (r\<lparr>cd_bucket_start_sec := 120\<rparr>) 2 [r, r\<lparr>cd_bucket_start_sec := 180\<rparr>] = (True, q') \<and>
         window_inv 2 q' \<and> map cd_bucket_start_sec q' = [120, 180])"
proof -
  let ?r = "\<lparr>cd_product_id = 2, cd_symbol = ''A'', cd_granularity = 60, cd_bucket_start_sec = 60,
      cd_open_x18 = ''1'', cd_high_x18 = ''2'', cd_low_x18 = ''1'', cd_close_x18 = ''2'', cd_volume_x18 = ''5'',
      cd_submission_idx = 3, cd_source_ts = 60\<rparr>"
  let ?q = "[?r, ?r\<lparr>cd_bucket_start_sec := 180\<rparr>]" and ?x = "?r\<lparr>cd_bucket_start_sec := 120\<rparr>"
  have inv: "window_inv 2 ?q" by (simp add: window_inv_def bt_wf_Cons)
  have no: "\<not> window_refuses ?x ?q" by (simp add: window_refuses_def bt_get_def)
  obtain q' where q': "apply_row ?x 2 ?q = (True, q')" "window_inv 2 q'"
    "bucketed q' = drop 1 (bt_insert 120 ?x (bucketed ?q))"
    using apply_row_correct [OF inv, of ?x] no by (auto simp: Let_def)
  have "map cd_bucket_start_sec q' = map fst (bucketed q')" by (simp add: bucketed_keys)
  then have "map cd_bucket_start_sec q' = [120, 180]" by (simp add: q'(3))
  then show ?thesis using inv q' by (simp add: Let_def)
qed

end
