(* ===== verification/SdkWire.thy ===== *)
theory SdkWire
  imports Json
begin

text \<open>
  The forms in which the SDK writes its values into JSON and reads them back
  (nado-rust-sdk/src/nado_utils/serialize_utils.rs), and the codes of transactions
  (nado_utils/tx.rs): wide integers as decimal texts, bytes in hexadecimal, lists and options of both, and
  the readers that take a number or a text. They are the functions named in the attributes of the SDK's
  request and response types. A failure is either the message the code gives (De_Custom) or the
  library's own about a value of the wrong kind (De_Type). Reading hexadecimal is the ethers
  library's and a parameter.

  What each pair of functions promises is the locale codec, with the facts about lists and options
  proved once; every pair of this file is an interpretation.
\<close>

subsection \<open>The contract of a writer and its reader\<close>

datatype de_error = De_Custom string | De_Type

text \<open>Sequences: the reader takes the elements in order and stops at the first error.\<close>

definition enc_seq :: "('a \<Rightarrow> json) \<Rightarrow> 'a list \<Rightarrow> json" where
  "enc_seq enc vs = JArray (map enc vs)"

definition dec_seq :: "(json \<Rightarrow> de_error + 'a) \<Rightarrow> json \<Rightarrow> de_error + 'a list" where
  "dec_seq dec v = (case as_array v of None \<Rightarrow> Err De_Type | Some vs \<Rightarrow> collect_res (map dec vs))"

definition enc_option :: "('a \<Rightarrow> json) \<Rightarrow> 'a option \<Rightarrow> json" where
  "enc_option enc v = (case v of None \<Rightarrow> JNull | Some a \<Rightarrow> enc a)"

definition dec_option :: "(json \<Rightarrow> de_error + 'a) \<Rightarrow> json \<Rightarrow> de_error + 'a option" where
  "dec_option dec v = (if v = JNull then Ok None else res_bind (dec v) (\<lambda>a. Ok (Some a)))"

locale codec =
  fixes wf :: "'a \<Rightarrow> bool"
    and enc :: "'a \<Rightarrow> json"
    and dec :: "json \<Rightarrow> de_error + 'a"
  assumes dec_enc: "wf v \<Longrightarrow> dec (enc v) = Ok v"
begin

lemma dec_seq_enc: "list_all wf vs \<Longrightarrow> dec_seq dec (enc_seq enc vs) = Ok vs"
  by (simp add: dec_seq_def enc_seq_def collect_res_Inr_iff list_all_iff dec_enc)

lemma enc_inj: "wf v \<Longrightarrow> wf w \<Longrightarrow> enc v = enc w \<Longrightarrow> v = w"
  by (metis dec_enc sum.inject(2))

lemma seq_codec: "codec (list_all wf) (enc_seq enc) (dec_seq dec)"
  by unfold_locales (rule dec_seq_enc)

lemma dec_option_enc:
  "pred_option wf v \<Longrightarrow> (\<And>a. wf a \<Longrightarrow> enc a \<noteq> JNull) \<Longrightarrow> dec_option dec (enc_option enc v) = Ok v"
  by (cases v) (simp_all add: dec_option_def enc_option_def dec_enc)

end

text \<open>Most values are written as texts, which are never null: their options can be told apart.\<close>

locale text_codec = codec +
  assumes enc_text: "as_str (enc v) \<noteq> None"
begin

lemma enc_not_null: "enc v \<noteq> JNull"
  using enc_text [of v] by (cases "enc v") simp_all

lemma option_codec: "codec (pred_option wf) (enc_option enc) (dec_option dec)"
  by unfold_locales (rule dec_option_enc, simp_all add: enc_not_null)

lemma option_seq_codec: "codec (pred_option (list_all wf)) (enc_option (enc_seq enc)) (dec_option (dec_seq dec))"
  by unfold_locales (rule codec.dec_option_enc [OF seq_codec], simp_all add: enc_seq_def)

end

subsection \<open>Integers as texts\<close>

definition de_string :: "json \<Rightarrow> de_error + string" where
  "de_string v = ok_or De_Type (as_str v)"

definition de_parse :: "string \<Rightarrow> (string \<Rightarrow> 'a option) \<Rightarrow> json \<Rightarrow> de_error + 'a" where
  "de_parse what parse v = res_bind (de_string v) (\<lambda>s. ok_or (De_Custom what) (parse s))"

definition parse_u128 :: "string \<Rightarrow> u128 option" where
  "parse_u128 s = map_option of_nat (parse_unsigned (2 ^ 128 - 1) s)"

definition serialize_u64 :: "u64 \<Rightarrow> json" where
  "serialize_u64 v = JString (show_u64 v)"

definition deserialize_u64 :: "json \<Rightarrow> de_error + u64" where
  "deserialize_u64 v = de_parse ''invalid u64 value'' parse_u64 v"

definition serialize_u128 :: "u128 \<Rightarrow> json" where
  "serialize_u128 v = JString (show_nat (unat v))"

definition deserialize_u128 :: "json \<Rightarrow> de_error + u128" where
  "deserialize_u128 v = de_parse ''invalid u128 value'' parse_u128 v"

definition serialize_i128 :: "i128 \<Rightarrow> json" where
  "serialize_i128 v = JString (show_int v)"

definition deserialize_i128 :: "json \<Rightarrow> de_error + i128" where
  "deserialize_i128 v = de_parse ''invalid i128 value'' parse_i128 v"

definition serialize_i64 :: "i64 \<Rightarrow> json" where
  "serialize_i64 v = JString (show_int v)"

definition deserialize_i64 :: "json \<Rightarrow> de_error + i64" where
  "deserialize_i64 v = de_parse ''invalid i64 value'' parse_i64 v"

definition serialize_option_i128 :: "i128 option \<Rightarrow> json" where
  "serialize_option_i128 v = enc_option serialize_i128 v"

definition deserialize_option_i128 :: "json \<Rightarrow> de_error + i128 option" where
  "deserialize_option_i128 v = dec_option deserialize_i128 v"

definition serialize_vec_i128 :: "i128 list \<Rightarrow> json" where
  "serialize_vec_i128 vs = enc_seq serialize_i128 vs"

definition deserialize_vec_i128 :: "json \<Rightarrow> de_error + i128 list" where
  "deserialize_vec_i128 v = dec_seq deserialize_i128 v"

definition serialize_nested_vec_i128 :: "i128 list list \<Rightarrow> json" where
  "serialize_nested_vec_i128 vs = enc_seq serialize_vec_i128 vs"

definition deserialize_nested_vec_i128 :: "json \<Rightarrow> de_error + i128 list list" where
  "deserialize_nested_vec_i128 v = dec_seq deserialize_vec_i128 v"

lemma parse_show_u128 [simp]: "parse_u128 (show_nat (unat w)) = Some w"
proof -
  have "unat w < 2 ^ LENGTH(128)" by (rule unsigned_less)
  then show ?thesis by (simp add: parse_u128_def parse_unsigned_show_nat)
qed

lemma parse_show_i64: "i64_min \<le> x \<Longrightarrow> x \<le> i64_max \<Longrightarrow> parse_i64 (show_int x) = Some x"
  by (simp add: parse_i64_def parse_signed_show_int)

lemmas wire_defs = de_parse_def de_string_def

interpretation u64_codec: text_codec "\<lambda>_. True" serialize_u64 deserialize_u64
  by unfold_locales (simp_all add: serialize_u64_def deserialize_u64_def wire_defs)

interpretation u128_codec: text_codec "\<lambda>_. True" serialize_u128 deserialize_u128
  by unfold_locales (simp_all add: serialize_u128_def deserialize_u128_def wire_defs)

interpretation i128_codec: text_codec in_i128 serialize_i128 deserialize_i128
  by unfold_locales (simp_all add: serialize_i128_def deserialize_i128_def wire_defs)

interpretation i64_codec: text_codec "\<lambda>x. i64_min \<le> x \<and> x \<le> i64_max" serialize_i64 deserialize_i64
  by unfold_locales (simp_all add: serialize_i64_def deserialize_i64_def wire_defs parse_show_i64)

interpretation vec_i128_codec: codec "list_all in_i128" serialize_vec_i128 deserialize_vec_i128
  by unfold_locales (simp add: serialize_vec_i128_def deserialize_vec_i128_def i128_codec.dec_seq_enc)

subsection \<open>A number or a text\<close>

text \<open>
  The readers that take both. The variant for a text borrows it from the input, which serde can only
  do for an input that is itself a text, without escapes; with an owned value only the variant for an owned
  text matches. A text that is not a number counts as 0.
\<close>

fun de_u32 :: "json \<Rightarrow> de_error + u32" where
  "de_u32 (JNumber (PosInt n)) = (if unat n < 2 ^ 32 then Ok (ucast n) else Err De_Type)"
| "de_u32 v = Err De_Type"

definition de_u64 :: "json \<Rightarrow> de_error + u64" where
  "de_u64 v = ok_or De_Type (as_u64 v)"

definition str_or_u32 :: "bool \<Rightarrow> json \<Rightarrow> de_error + u32" where
  "str_or_u32 borrowed v =
     (case as_str v of
        Some s \<Rightarrow> if borrowed then Ok (unwrap_or 0 (parse_u32 s)) else Err De_Type
      | None \<Rightarrow> de_u32 v)"

definition u32_in_i32_range :: "u32 \<Rightarrow> bool" where
  "u32_in_i32_range v \<longleftrightarrow> v \<le> 2 ^ 31 - 1"

definition u32_within_i32_range :: "json \<Rightarrow> de_error + u32" where
  "u32_within_i32_range v =
     res_bind (de_u32 v) (\<lambda>n. if u32_in_i32_range n then Ok n else Err (De_Custom ''u32 value too large''))"

definition u64_in_i64_range :: "u64 \<Rightarrow> bool" where
  "u64_in_i64_range v \<longleftrightarrow> v \<le> 2 ^ 63 - 1"

definition str_or_u64 :: "json \<Rightarrow> de_error + u64" where
  "str_or_u64 v =
     res_bind (case as_str v of Some s \<Rightarrow> Ok (unwrap_or 0 (parse_u64 s)) | None \<Rightarrow> de_u64 v)
       (\<lambda>n. if u64_in_i64_range n then Ok n else Err (De_Custom ''u64 value too large''))"

definition str_or_i64 :: "bool \<Rightarrow> json \<Rightarrow> de_error + i64" where
  "str_or_i64 borrowed v =
     (case as_str v of
        Some s \<Rightarrow> if borrowed then Ok (unwrap_or 0 (parse_i64 s)) else Err De_Type
      | None \<Rightarrow> ok_or De_Type (as_i64 v))"

text \<open>The wrappers of a request's numbers: WrappedU32 is a number, WrappedU64 a text.\<close>

definition serialize_wrapped_u32 :: "u32 \<Rightarrow> json" where
  "serialize_wrapped_u32 n = JNumber (PosInt (ucast n))"

definition convert_to_vec_i32 :: "u32 list \<Rightarrow> i32 list" where
  "convert_to_vec_i32 vs = map sint vs"

lemma u32_within_serialized:
  "u32_within_i32_range (serialize_wrapped_u32 v) =
     (if u32_in_i32_range v then Ok v else Err (De_Custom ''u32 value too large''))"
proof -
  have "unat v < 2 ^ 32" using unsigned_less [of v] by simp
  then have "unat (ucast v :: u64) < 2 ^ 32" by (simp add: unsigned_ucast_eq take_bit_nat_eq_self)
  moreover have "(ucast (ucast v :: u64) :: u32) = v" by (auto simp: bit_eq_iff bit_ucast_iff)
  ultimately show ?thesis by (simp add: u32_within_i32_range_def serialize_wrapped_u32_def)
qed

interpretation wrapped_u32_codec: codec u32_in_i32_range serialize_wrapped_u32 u32_within_i32_range
  by unfold_locales (simp add: u32_within_serialized)

interpretation wrapped_u64_codec: text_codec u64_in_i64_range serialize_u64 str_or_u64
  by unfold_locales (simp_all add: serialize_u64_def str_or_u64_def)

text \<open>
  What the wrapper writes it does not always read: a number above the signed range is written, and refused.
\<close>

lemma wrapped_u64_above: "\<not> u64_in_i64_range v \<Longrightarrow> str_or_u64 (serialize_u64 v) = Err (De_Custom ''u64 value too large'')"
  by (simp add: serialize_u64_def str_or_u64_def)

text \<open>The reader of product ids as text works on borrowed input only.\<close>

lemma str_or_u32_owned:
  "str_or_u32 True (JString (show_u32 n)) = Ok n" "str_or_u32 False (JString (show_u32 n)) = Err De_Type"
  by (simp_all add: str_or_u32_def)

lemma convert_to_vec_i32_range:
  "list_all u32_in_i32_range vs \<Longrightarrow> convert_to_vec_i32 vs = map uint vs"
proof -
  assume vs: "list_all u32_in_i32_range vs"
  have "sint v = uint v" if "u32_in_i32_range v" for v :: u32
  proof -
    have "v \<le> 2147483647" using that by (simp add: u32_in_i32_range_def)
    then have "uint v \<le> uint (2147483647 :: u32)" by (simp add: word_le_def)
    then have "uint v < 2 ^ 31" by simp
    moreover have "- (2 ^ 31) \<le> uint v" by (rule order_trans [of _ 0]) simp_all
    ultimately show ?thesis by (simp add: sint_uint signed_take_bit_int_eq_self)
  qed
  then show ?thesis using vs by (auto simp: convert_to_vec_i32_def list_all_iff)
qed

subsection \<open>Bytes\<close>

text \<open>The writers fill a buffer of zero bytes, two digits for every byte after the prefix.\<close>

definition hex_map :: string where "hex_map = ''0123456789abcdef''"

definition write_hex :: "nat \<Rightarrow> bytes \<Rightarrow> string" where
  "write_hex n bs =
     foldl (\<lambda>hex i.
        hex[i * 2 + 2 := hex_map ! unat (drop_bit 4 (bs ! i)),
            i * 2 + 1 + 2 := hex_map ! unat (bs ! i AND 0xf)])
       (''0x'' @ replicate (n * 2) (CHR 0x00)) [0..<n]"

definition serialize_bytes64 :: "bytes \<Rightarrow> json" where
  "serialize_bytes64 bs = JString (write_hex 64 bs)"

definition serialize_bytes32 :: "bytes \<Rightarrow> json" where
  "serialize_bytes32 bs = JString (write_hex 32 bs)"

definition serialize_bytes20 :: "bytes \<Rightarrow> json" where
  "serialize_bytes20 bs = JString (write_hex 20 bs)"

definition serialize_vec_u8 :: "bytes \<Rightarrow> json" where
  "serialize_vec_u8 bs = JString (write_hex (length bs) bs)"

definition serialize_option_vec_u8 :: "bytes option \<Rightarrow> json" where
  "serialize_option_vec_u8 bs = enc_option serialize_vec_u8 bs"

definition serialize_option_bytes32 :: "bytes option \<Rightarrow> json" where
  "serialize_option_bytes32 bs = enc_option serialize_bytes32 bs"

definition serialize_option_bytes64 :: "bytes option \<Rightarrow> json" where
  "serialize_option_bytes64 bs = enc_option serialize_bytes64 bs"

definition serialize_vec_bytes32 :: "bytes list \<Rightarrow> json" where
  "serialize_vec_bytes32 vs = enc_seq serialize_bytes32 vs"

definition serialize_vec_bytes20 :: "bytes list \<Rightarrow> json" where
  "serialize_vec_bytes20 vs = enc_seq serialize_bytes20 vs"

definition serialize_option_vec_bytes20 :: "bytes list option \<Rightarrow> json" where
  "serialize_option_vec_bytes20 vs = enc_option serialize_vec_bytes20 vs"

text \<open>
  The readers go through the library's types of 64, 32 and 20 bytes (from_hash n) and of any number of
  bytes (from_bytes). A list's elements are read by the library's types themselves, with the library's
  error.
\<close>

definition deserialize_bytes64 :: "(nat \<Rightarrow> string \<Rightarrow> bytes option) \<Rightarrow> json \<Rightarrow> de_error + bytes" where
  "deserialize_bytes64 from_hash v = de_parse ''invalid H256 value'' (from_hash 64) v"

definition deserialize_bytes32 :: "(nat \<Rightarrow> string \<Rightarrow> bytes option) \<Rightarrow> json \<Rightarrow> de_error + bytes" where
  "deserialize_bytes32 from_hash v = de_parse ''invalid H256 value'' (from_hash 32) v"

definition deserialize_bytes20 :: "(nat \<Rightarrow> string \<Rightarrow> bytes option) \<Rightarrow> json \<Rightarrow> de_error + bytes" where
  "deserialize_bytes20 from_hash v = de_parse ''invalid H160 value'' (from_hash 20) v"

definition deserialize_vec_u8 :: "(string \<Rightarrow> bytes option) \<Rightarrow> json \<Rightarrow> de_error + bytes" where
  "deserialize_vec_u8 from_bytes v = de_parse ''invalid Bytes value'' from_bytes v"

definition deserialize_option_vec_u8 :: "(string \<Rightarrow> bytes option) \<Rightarrow> json \<Rightarrow> de_error + bytes option" where
  "deserialize_option_vec_u8 from_bytes v = dec_option (deserialize_vec_u8 from_bytes) v"

definition deserialize_option_bytes32 ::
  "(nat \<Rightarrow> string \<Rightarrow> bytes option) \<Rightarrow> json \<Rightarrow> de_error + bytes option" where
  "deserialize_option_bytes32 from_hash v = dec_option (deserialize_bytes32 from_hash) v"

definition deserialize_option_bytes64 ::
  "(nat \<Rightarrow> string \<Rightarrow> bytes option) \<Rightarrow> json \<Rightarrow> de_error + bytes option" where
  "deserialize_option_bytes64 from_hash v = dec_option (deserialize_bytes64 from_hash) v"

definition de_hash :: "(nat \<Rightarrow> string \<Rightarrow> bytes option) \<Rightarrow> nat \<Rightarrow> json \<Rightarrow> de_error + bytes" where
  "de_hash from_hash n v = res_bind (de_string v) (\<lambda>s. ok_or De_Type (from_hash n s))"

definition deserialize_vec_bytes32 ::
  "(nat \<Rightarrow> string \<Rightarrow> bytes option) \<Rightarrow> json \<Rightarrow> de_error + bytes list" where
  "deserialize_vec_bytes32 from_hash v = dec_seq (de_hash from_hash 32) v"

definition deserialize_vec_bytes20 ::
  "(nat \<Rightarrow> string \<Rightarrow> bytes option) \<Rightarrow> json \<Rightarrow> de_error + bytes list" where
  "deserialize_vec_bytes20 from_hash v = dec_seq (de_hash from_hash 20) v"

definition deserialize_option_vec_bytes20 ::
  "(nat \<Rightarrow> string \<Rightarrow> bytes option) \<Rightarrow> json \<Rightarrow> de_error + bytes list option" where
  "deserialize_option_vec_bytes20 from_hash v = dec_option (deserialize_vec_bytes20 from_hash) v"

text \<open>The texts the writers make, digit by digit.\<close>

definition hex_pair :: "u8 \<Rightarrow> string" where
  "hex_pair b = [hex_map ! unat (drop_bit 4 b), hex_map ! unat (b AND 0xf)]"

lemma length_hex_pairs: "length (concat (map (\<lambda>x. hex_pair (f x)) xs)) = length xs * 2"
  by (induction xs) (simp_all add: hex_pair_def)

lemma write_hex_prefix:
  assumes "k \<le> n"
  shows "foldl (\<lambda>hex i.
        hex[i * 2 + 2 := hex_map ! unat (drop_bit 4 (bs ! i)),
            i * 2 + 1 + 2 := hex_map ! unat (bs ! i AND 0xf)])
       (''0x'' @ replicate (n * 2) z) [0..<k] =
     ''0x'' @ concat (map (\<lambda>i. hex_pair (bs ! i)) [0..<k]) @ replicate ((n - k) * 2) z"
  using assms
proof (induction k)
  case 0
  then show ?case by simp
next
  case (Suc k)
  let ?pre = "''0x'' @ concat (map (\<lambda>i. hex_pair (bs ! i)) [0..<k])"
  have len: "length ?pre = k * 2 + 2"
    using length_hex_pairs [of "\<lambda>i. bs ! i" "[0..<k]"] by simp
  have "(n - k) * 2 = Suc (Suc ((n - Suc k) * 2))" using Suc.prems by simp
  then have rest: "replicate ((n - k) * 2) z = z # z # replicate ((n - Suc k) * 2) z" by simp
  have upd: "(?pre @ z # z # zs)[k * 2 + 2 := a, k * 2 + 1 + 2 := b] = ?pre @ a # b # zs" for a b and zs :: string
  proof -
    have "(?pre @ z # z # zs)[length ?pre := a] = ?pre @ a # z # zs" by (rule list_update_length)
    moreover have "(?pre @ a # z # zs)[length ?pre + 1 := b] = ?pre @ a # b # zs"
      using list_update_append [of ?pre "a # z # zs" "length ?pre + 1" b] by simp
    ultimately show ?thesis using len by (simp add: add.commute del: append.simps)
  qed
  have "foldl (\<lambda>hex i.
        hex[i * 2 + 2 := hex_map ! unat (drop_bit 4 (bs ! i)),
            i * 2 + 1 + 2 := hex_map ! unat (bs ! i AND 0xf)])
       (''0x'' @ replicate (n * 2) z) [0..<Suc k] =
     (?pre @ z # z # replicate ((n - Suc k) * 2) z)[k * 2 + 2 := hex_map ! unat (drop_bit 4 (bs ! k)),
            k * 2 + 1 + 2 := hex_map ! unat (bs ! k AND 0xf)]"
    using Suc rest by simp
  also have "\<dots> = ?pre @ hex_pair (bs ! k) @ replicate ((n - Suc k) * 2) z"
    unfolding upd by (simp add: hex_pair_def)
  finally show ?case by simp
qed

lemma write_hex_eq: "length bs = n \<Longrightarrow> write_hex n bs = ''0x'' @ concat (map hex_pair bs)"
  using write_hex_prefix [of n n _ "CHR 0x00"] map_nth [of "bs"]
  by (simp add: write_hex_def) (metis (no_types, lifting) map_map o_def map_eq_conv)

text \<open>
  What the readers of the library are relied on for: the prefix and then an even number of hexadecimal
  digits is read two digits to a byte, by the types of a fixed length when there are as many as they hold.
\<close>

fun nibble :: "char \<Rightarrow> nat" where
  "nibble c = length (takeWhile (\<lambda>d. d \<noteq> c) hex_map)"

fun pack_hex :: "string \<Rightarrow> bytes" where
  "pack_hex (a # b # cs) = of_nat (16 * nibble a + nibble b) # pack_hex cs"
| "pack_hex _ = []"

definition reads_hash :: "(nat \<Rightarrow> string \<Rightarrow> bytes option) \<Rightarrow> bool" where
  "reads_hash from_hash \<longleftrightarrow>
     (\<forall>n ds. length ds = n * 2 \<longrightarrow> set ds \<subseteq> set hex_map \<longrightarrow> from_hash n (''0x'' @ ds) = Some (pack_hex ds))"

definition reads_bytes :: "(string \<Rightarrow> bytes option) \<Rightarrow> bool" where
  "reads_bytes from_bytes \<longleftrightarrow>
     (\<forall>ds. even (length ds) \<longrightarrow> set ds \<subseteq> set hex_map \<longrightarrow> from_bytes (''0x'' @ ds) = Some (pack_hex ds))"

lemma nibble_hex_map: "n < 16 \<Longrightarrow> nibble (hex_map ! n) = n \<and> hex_map ! n \<in> set hex_map"
proof -
  assume "n < 16"
  then have "n \<in> set [0..<16]" by simp
  moreover have "list_all (\<lambda>n. nibble (hex_map ! n) = n \<and> hex_map ! n \<in> set hex_map) [0..<16]"
    by code_simp
  ultimately show ?thesis by (simp only: list_all_iff)
qed

lemma nibbles:
  fixes b :: u8
  shows "unat (drop_bit 4 b) < 16" "unat (b AND 0xf) < 16"
    "of_nat (16 * unat (drop_bit 4 b) + unat (b AND 0xf)) = b"
proof -
  have b: "unat b < 256" using unsigned_less [of b] by simp
  have "unat (drop_bit 4 b) = drop_bit 4 (unat b)" by (rule unat_drop_bit_eq)
  also have "\<dots> = unat b div 16" by (simp add: drop_bit_eq_div)
  finally have hi: "unat (drop_bit 4 b) = unat b div 16" .
  have "b AND 0xf = take_bit 4 b" by (simp add: take_bit_eq_mask mask_eq_exp_minus_1)
  then have "unat (b AND 0xf) = unat (take_bit 4 b)" by (rule arg_cong)
  also have "\<dots> = take_bit 4 (unat b)" by (rule unsigned_take_bit_eq)
  also have "\<dots> = unat b mod 16" by (simp add: take_bit_eq_mod)
  finally have lo: "unat (b AND 0xf) = unat b mod 16" .
  show "unat (drop_bit 4 b) < 16" using b hi by simp
  show "unat (b AND 0xf) < 16" using lo by simp
  show "of_nat (16 * unat (drop_bit 4 b) + unat (b AND 0xf)) = b" unfolding hi lo by simp
qed

lemma pack_hex_pairs:
  "pack_hex (concat (map hex_pair bs)) = bs \<and> set (concat (map hex_pair bs)) \<subseteq> set hex_map"
proof (induction bs)
  case (Cons b bs)
  have "pack_hex (hex_pair b @ cs) = b # pack_hex cs" for cs
    using nibbles [of b] by (simp add: hex_pair_def nibble_hex_map del: nibble.simps of_nat_add of_nat_mult)
  moreover have "set (hex_pair b) \<subseteq> set hex_map" using nibbles [of b] by (simp add: hex_pair_def nibble_hex_map)
  ultimately show ?case using Cons by simp
qed simp

lemma reads_write_hash:
  "reads_hash from_hash \<Longrightarrow> length bs = n \<Longrightarrow> from_hash n (write_hex n bs) = Some bs"
  using pack_hex_pairs [of bs] length_hex_pairs [of "\<lambda>b. b" bs]
  by (simp add: write_hex_eq reads_hash_def)

lemma reads_write_bytes: "reads_bytes from_bytes \<Longrightarrow> from_bytes (write_hex (length bs) bs) = Some bs"
  using pack_hex_pairs [of bs] length_hex_pairs [of "\<lambda>b. b" bs]
  by (simp add: write_hex_eq reads_bytes_def)

text \<open>With such readers the writers of bytes meet the contract too.\<close>

lemmas bytes_defs = deserialize_bytes64_def deserialize_bytes32_def deserialize_bytes20_def
  deserialize_vec_u8_def de_hash_def serialize_bytes64_def serialize_bytes32_def serialize_bytes20_def
  serialize_vec_u8_def wire_defs

lemma bytes_codecs:
  assumes "reads_hash from_hash"
  shows "text_codec (\<lambda>bs. length bs = 64) serialize_bytes64 (deserialize_bytes64 from_hash)"
    and "text_codec (\<lambda>bs. length bs = 32) serialize_bytes32 (deserialize_bytes32 from_hash)"
    and "text_codec (\<lambda>bs. length bs = 20) serialize_bytes20 (deserialize_bytes20 from_hash)"
    and "codec (\<lambda>bs. length bs = 32) serialize_bytes32 (de_hash from_hash 32)"
    and "codec (\<lambda>bs. length bs = 20) serialize_bytes20 (de_hash from_hash 20)"
  using assms by (unfold_locales; simp add: bytes_defs reads_write_hash)+

lemma vec_u8_codec:
  "reads_bytes from_bytes \<Longrightarrow> text_codec (\<lambda>_. True) serialize_vec_u8 (deserialize_vec_u8 from_bytes)"
  by unfold_locales (simp_all add: bytes_defs reads_write_bytes)

text \<open>C40: the SDK's forms of values. Whatever the writers of wide integers and of bytes write, alone, in lists, in nested
  lists and in options, their readers read back as the same value; the numbers of requests are
  read back exactly when they are in the signed range, and never as another number; and bytes are written as the
  prefix and two digits each.\<close>

theorem wire_forms_roundtrip:
  assumes hash: "reads_hash from_hash" and bytes: "reads_bytes from_bytes"
  shows "deserialize_u64 (serialize_u64 a) = Ok a \<and> deserialize_u128 (serialize_u128 b) = Ok b \<and>
    (i64_min \<le> c \<and> c \<le> i64_max \<longrightarrow> deserialize_i64 (serialize_i64 c) = Ok c) \<and>
    (pred_option in_i128 x \<longrightarrow> deserialize_option_i128 (serialize_option_i128 x) = Ok x) \<and>
    (list_all (list_all in_i128) xss \<longrightarrow> deserialize_nested_vec_i128 (serialize_nested_vec_i128 xss) = Ok xss) \<and>
    (str_or_u64 (serialize_u64 a) = Ok a' \<longleftrightarrow> a' = a \<and> unat a < 2 ^ 63) \<and>
    (u32_within_i32_range (serialize_wrapped_u32 d) = Ok d' \<longleftrightarrow> d' = d \<and> unat d < 2 ^ 31) \<and>
    (length h = 64 \<longrightarrow> deserialize_option_bytes64 from_hash (serialize_option_bytes64 (Some h)) = Ok (Some h)) \<and>
    (length h32 = 32 \<longrightarrow> deserialize_bytes32 from_hash (serialize_bytes32 h32) = Ok h32) \<and>
    (length h20 = 20 \<longrightarrow> deserialize_bytes20 from_hash (serialize_bytes20 h20) = Ok h20) \<and>
    (list_all (\<lambda>b. length b = 32) bss \<longrightarrow> deserialize_vec_bytes32 from_hash (serialize_vec_bytes32 bss) = Ok bss) \<and>
    (pred_option (list_all (\<lambda>b. length b = 20)) ass \<longrightarrow>
       deserialize_option_vec_bytes20 from_hash (serialize_option_vec_bytes20 ass) = Ok ass) \<and>
    deserialize_option_vec_u8 from_bytes (serialize_option_vec_u8 v) = Ok v \<and>
    serialize_vec_u8 w = JString (''0x'' @ concat (map hex_pair w))"
proof (intro conjI impI)
  show "str_or_u64 (serialize_u64 a) = Ok a' \<longleftrightarrow> a' = a \<and> unat a < 2 ^ 63"
    by (auto simp: str_or_u64_def serialize_u64_def u64_in_i64_range_def word_le_nat_alt)
  have "u32_within_i32_range (serialize_wrapped_u32 d) =
      (if u32_in_i32_range d then Ok d else Err (De_Custom ''u32 value too large''))"
    by (rule u32_within_serialized)
  then show "u32_within_i32_range (serialize_wrapped_u32 d) = Ok d' \<longleftrightarrow> d' = d \<and> unat d < 2 ^ 31"
    by (auto simp: u32_in_i32_range_def word_le_nat_alt)
next
  assume "list_all (list_all in_i128) xss"
  then show "deserialize_nested_vec_i128 (serialize_nested_vec_i128 xss) = Ok xss"
    unfolding deserialize_nested_vec_i128_def serialize_nested_vec_i128_def by (rule vec_i128_codec.dec_seq_enc)
next
  assume "length h = 64"
  then show "deserialize_option_bytes64 from_hash (serialize_option_bytes64 (Some h)) = Ok (Some h)"
    using codec.dec_enc [OF text_codec.option_codec [OF bytes_codecs(1) [OF hash]], of "Some h"]
    by (simp add: deserialize_option_bytes64_def serialize_option_bytes64_def)
next
  assume "length h32 = 32"
  then show "deserialize_bytes32 from_hash (serialize_bytes32 h32) = Ok h32"
    by (rule codec.dec_enc [OF text_codec.axioms(1) [OF bytes_codecs(2) [OF hash]]])
next
  assume "length h20 = 20"
  then show "deserialize_bytes20 from_hash (serialize_bytes20 h20) = Ok h20"
    by (rule codec.dec_enc [OF text_codec.axioms(1) [OF bytes_codecs(3) [OF hash]]])
next
  assume "list_all (\<lambda>b. length b = 32) bss"
  then show "deserialize_vec_bytes32 from_hash (serialize_vec_bytes32 bss) = Ok bss"
    unfolding deserialize_vec_bytes32_def serialize_vec_bytes32_def
    by (rule codec.dec_seq_enc [OF bytes_codecs(4) [OF hash]])
next
  assume "pred_option (list_all (\<lambda>b. length b = 20)) ass"
  then show "deserialize_option_vec_bytes20 from_hash (serialize_option_vec_bytes20 ass) = Ok ass"
    unfolding deserialize_option_vec_bytes20_def serialize_option_vec_bytes20_def
    by (rule codec.dec_option_enc [OF codec.seq_codec [OF bytes_codecs(5) [OF hash]],
          unfolded deserialize_vec_bytes20_def [symmetric] serialize_vec_bytes20_def [symmetric]])
      (simp add: serialize_vec_bytes20_def enc_seq_def)
next
  show "deserialize_option_vec_u8 from_bytes (serialize_option_vec_u8 v) = Ok v"
    using codec.dec_enc [OF text_codec.option_codec [OF vec_u8_codec [OF bytes]], of v]
    by (cases v) (simp_all add: deserialize_option_vec_u8_def serialize_option_vec_u8_def)
next
  assume "pred_option in_i128 x"
  then show "deserialize_option_i128 (serialize_option_i128 x) = Ok x"
    unfolding deserialize_option_i128_def serialize_option_i128_def
    by (rule codec.dec_enc [OF i128_codec.option_codec])
qed (simp_all add: u64_codec.dec_enc u128_codec.dec_enc i64_codec.dec_enc serialize_vec_u8_def write_hex_eq)

definition demo_from_hash :: "nat \<Rightarrow> string \<Rightarrow> bytes option" where
  "demo_from_hash n s = (if length s = n * 2 + 2 then Some (pack_hex (drop 2 s)) else None)"

definition demo_from_bytes :: "string \<Rightarrow> bytes option" where
  "demo_from_bytes s = Some (pack_hex (drop 2 s))"

theorem wire_forms_roundtrip_witness:
  "deserialize_option_vec_u8 demo_from_bytes (serialize_option_vec_u8 (Some [0, 171, 255])) = Ok (Some [0, 171, 255]) \<and>
   deserialize_nested_vec_i128 (serialize_nested_vec_i128 [[1, - 2], []]) = Ok [[1, - 2], []]"
proof -
  have "reads_hash demo_from_hash" "reads_bytes demo_from_bytes"
    by (simp_all add: reads_hash_def reads_bytes_def demo_from_hash_def demo_from_bytes_def)
  from wire_forms_roundtrip [OF this, where v = "Some [0, 171, 255]" and xss = "[[1, - 2], []]"]
  show ?thesis by (simp add: in_i128_iff)
qed

subsection \<open>Codes of transactions\<close>

text \<open>
  The kinds of transactions with their codes (nado_utils/tx.rs). None as a kind is the panic on an unknown code.
  A transaction submitted through the contract is its code and then its encoding, which is a library's.
\<close>

datatype (plugins only: code size) tx_type =
    Tx_LiquidateSubaccount | Tx_DepositCollateral | Tx_WithdrawCollateral | Tx_SpotTick
  | Tx_UpdatePrice | Tx_SettlePnl | Tx_MatchOrders | Tx_DepositInsurance | Tx_ExecuteSlowMode
  | Tx_DumpFees | Tx_PerpTick | Tx_ManualAssert | Tx_UpdateProduct | Tx_LinkSigner
  | Tx_UpdateFeeTier | Tx_TransferQuote | Tx_RebalanceXWithdraw | Tx_AssertCode
  | Tx_WithdrawInsurance | Tx_CreateIsolatedSubaccount | Tx_DelistProduct | Tx_MintNlp | Tx_BurnNlp
  | Tx_MatchOrdersWithAmount | Tx_UpdateTierFeeRates | Tx_AddNlpPool | Tx_UpdateNlpPool
  | Tx_DeleteNlpPool | Tx_AssertProduct | Tx_CloseIsolatedSubaccount | Tx_UpdateBuilder
  | Tx_ClaimBuilderFee

fun tx_code :: "tx_type \<Rightarrow> u8" where
  "tx_code Tx_LiquidateSubaccount = 0"
| "tx_code Tx_DepositCollateral = 1"
| "tx_code Tx_WithdrawCollateral = 2"
| "tx_code Tx_SpotTick = 3"
| "tx_code Tx_UpdatePrice = 4"
| "tx_code Tx_SettlePnl = 5"
| "tx_code Tx_MatchOrders = 6"
| "tx_code Tx_DepositInsurance = 7"
| "tx_code Tx_ExecuteSlowMode = 8"
| "tx_code Tx_DumpFees = 9"
| "tx_code Tx_PerpTick = 10"
| "tx_code Tx_ManualAssert = 11"
| "tx_code Tx_UpdateProduct = 12"
| "tx_code Tx_LinkSigner = 13"
| "tx_code Tx_UpdateFeeTier = 14"
| "tx_code Tx_TransferQuote = 15"
| "tx_code Tx_RebalanceXWithdraw = 16"
| "tx_code Tx_AssertCode = 17"
| "tx_code Tx_WithdrawInsurance = 18"
| "tx_code Tx_CreateIsolatedSubaccount = 19"
| "tx_code Tx_DelistProduct = 20"
| "tx_code Tx_MintNlp = 21"
| "tx_code Tx_BurnNlp = 22"
| "tx_code Tx_MatchOrdersWithAmount = 23"
| "tx_code Tx_UpdateTierFeeRates = 24"
| "tx_code Tx_AddNlpPool = 25"
| "tx_code Tx_UpdateNlpPool = 26"
| "tx_code Tx_DeleteNlpPool = 27"
| "tx_code Tx_AssertProduct = 28"
| "tx_code Tx_CloseIsolatedSubaccount = 29"
| "tx_code Tx_UpdateBuilder = 30"
| "tx_code Tx_ClaimBuilderFee = 31"

definition from_u8 :: "u8 \<Rightarrow> tx_type option" where
  "from_u8 code =
     (let n = unat code in
      if n = 0 then Some Tx_LiquidateSubaccount
      else if n = 1 then Some Tx_DepositCollateral
      else if n = 2 then Some Tx_WithdrawCollateral
      else if n = 3 then Some Tx_SpotTick
      else if n = 4 then Some Tx_UpdatePrice
      else if n = 5 then Some Tx_SettlePnl
      else if n = 6 then Some Tx_MatchOrders
      else if n = 7 then Some Tx_DepositInsurance
      else if n = 8 then Some Tx_ExecuteSlowMode
      else if n = 9 then Some Tx_DumpFees
      else if n = 10 then Some Tx_PerpTick
      else if n = 11 then Some Tx_ManualAssert
      else if n = 12 then Some Tx_UpdateProduct
      else if n = 13 then Some Tx_LinkSigner
      else if n = 14 then Some Tx_UpdateFeeTier
      else if n = 15 then Some Tx_TransferQuote
      else if n = 16 then Some Tx_RebalanceXWithdraw
      else if n = 17 then Some Tx_AssertCode
      else if n = 18 then Some Tx_WithdrawInsurance
      else if n = 19 then Some Tx_CreateIsolatedSubaccount
      else if n = 20 then Some Tx_DelistProduct
      else if n = 21 then Some Tx_MintNlp
      else if n = 22 then Some Tx_BurnNlp
      else if n = 23 then Some Tx_MatchOrdersWithAmount
      else if n = 24 then Some Tx_UpdateTierFeeRates
      else if n = 25 then Some Tx_AddNlpPool
      else if n = 26 then Some Tx_UpdateNlpPool
      else if n = 27 then Some Tx_DeleteNlpPool
      else if n = 28 then Some Tx_AssertProduct
      else if n = 29 then Some Tx_CloseIsolatedSubaccount
      else if n = 30 then Some Tx_UpdateBuilder
      else if n = 31 then Some Tx_ClaimBuilderFee
      else None)"

definition tagged_tx :: "tx_type \<Rightarrow> bytes \<Rightarrow> bytes" where
  "tagged_tx t encoded = tx_code t # encoded"

lemma from_u8_tx_code: "from_u8 (tx_code t) = Some t"
  by (induction t; code_simp)

text \<open>The kind of a submitted transaction and its encoding can be read off its bytes.\<close>

lemma tagged_tx_inj: "tagged_tx t e = tagged_tx t' e' \<longleftrightarrow> t = t' \<and> e = e'"
  unfolding tagged_tx_def list.inject by (metis from_u8_tx_code option.inject)

end

