(* ===== verification/SdkForms.thy ===== *)
theory SdkForms
  imports SdkWire Collections
begin

text \<open>
  The JSON forms of the SDK's types. A struct that derives serde's traits is written as an object with its
  fields in order, and read from an object by the names of its fields, in any order and with others ignored, or
  from an array with the fields in order; a field whose type is an option may be missing from an object. An enum is
  written with the name of its variant as the tag.

  A form is a writer, a reader and the values the type has. Failures of readers are None; their texts are the
  library's. A reader reads the JSON value itself. Over the buffered copy serde makes for an untagged enum
  less may be read, how much depends on how the libraries are built; where that happens the buffered reader
  is a parameter.

  The library's own types (addresses, bytes of any length, 256-bit integers) and the printing of
  floats are in the record wire_lib.
\<close>

subsection \<open>Forms\<close>

record 'a form =
  fm_write :: "'a \<Rightarrow> json"
  fm_read :: "json \<Rightarrow> 'a option"
  fm_typed :: "'a \<Rightarrow> bool"

locale json_form =
  fixes f :: "'a form"
  assumes read_write: "fm_typed f v \<Longrightarrow> fm_read f (fm_write f v) = Some v"
begin

lemma write_inj: "fm_typed f v \<Longrightarrow> fm_typed f w \<Longrightarrow> fm_write f v = fm_write f w \<Longrightarrow> v = w"
  by (metis read_write option.inject)

lemma reads_all: "list_all (fm_typed f) vs \<Longrightarrow> those (map (fm_read f) (map (fm_write f) vs)) = Some vs"
  by (induction vs) (simp_all add: read_write)

end

text \<open>A form whose texts are never null can be told from a missing value.\<close>

definition never_null :: "'a form \<Rightarrow> bool" where
  "never_null f \<longleftrightarrow> (\<forall>v. fm_typed f v \<longrightarrow> fm_write f v \<noteq> JNull)"

named_theorems form_laws
named_theorems form_defs

subsection \<open>Numbers, texts and flags\<close>

definition ju32 :: "u32 \<Rightarrow> json" where
  "ju32 n = JNumber (PosInt (ucast n))"

definition ju64 :: "u64 \<Rightarrow> json" where
  "ju64 n = JNumber (PosInt n)"

definition ji64 :: "i64 \<Rightarrow> json" where
  "ji64 n = JNumber (if 0 \<le> n then PosInt (of_int n) else NegInt n)"

text \<open>A number that is not finite becomes null.\<close>

definition jf64 :: "f64 \<Rightarrow> json" where
  "jf64 x = (if f_is_finite x then JNumber (JFloat x) else JNull)"

definition as_i32 :: "json \<Rightarrow> i32 option" where
  "as_i32 v = filter_opt (\<lambda>n. - 2147483648 \<le> n \<and> n \<le> 2147483647) (as_i64 v)"

fun as_f64 :: "json \<Rightarrow> f64 option" where
  "as_f64 (JNumber (PosInt n)) = Some (f_of_int (uint n))"
| "as_f64 (JNumber (NegInt n)) = Some (f_of_int n)"
| "as_f64 (JNumber (JFloat x)) = Some x"
| "as_f64 v = None"

definition in_i64 :: "i64 \<Rightarrow> bool" where
  "in_i64 n \<longleftrightarrow> i64_min \<le> n \<and> n \<le> i64_max"

definition in_i32 :: "i32 \<Rightarrow> bool" where
  "in_i32 n \<longleftrightarrow> - 2147483648 \<le> n \<and> n \<le> 2147483647"

definition plain_form :: "('a \<Rightarrow> bool) \<Rightarrow> ('a \<Rightarrow> json) \<Rightarrow> (json \<Rightarrow> 'a option) \<Rightarrow> 'a form" where
  "plain_form typed enc dec = \<lparr>fm_write = enc, fm_read = dec, fm_typed = typed\<rparr>"

definition u32_form :: "u32 form" where
  "u32_form = plain_form (\<lambda>_. True) ju32 (\<lambda>v. res_ok (de_u32 v))"

definition u64_form :: "u64 form" where
  "u64_form = plain_form (\<lambda>_. True) ju64 as_u64"

definition i64_form :: "i64 form" where
  "i64_form = plain_form in_i64 ji64 as_i64"

definition i32_form :: "i32 form" where
  "i32_form = plain_form in_i32 ji64 as_i32"

definition f64_form :: "f64 form" where
  "f64_form = plain_form f_is_finite jf64 as_f64"

definition bool_form :: "bool form" where
  "bool_form = plain_form (\<lambda>_. True) JBool as_bool"

definition text_form :: "string form" where
  "text_form = plain_form (\<lambda>_. True) JString as_str"

text \<open>The forms that the attributes of a field name, and the wrapped types.\<close>

definition wire_form :: "('a \<Rightarrow> bool) \<Rightarrow> ('a \<Rightarrow> json) \<Rightarrow> (json \<Rightarrow> de_error + 'a) \<Rightarrow> 'a form" where
  "wire_form typed enc dec = plain_form typed enc (\<lambda>v. res_ok (dec v))"

definition u64_text :: "u64 form" where
  "u64_text = wire_form (\<lambda>_. True) serialize_u64 deserialize_u64"

definition u128_text :: "u128 form" where
  "u128_text = wire_form (\<lambda>_. True) serialize_u128 deserialize_u128"

definition i128_text :: "i128 form" where
  "i128_text = wire_form in_i128 serialize_i128 deserialize_i128"

definition i64_text :: "i64 form" where
  "i64_text = wire_form in_i64 serialize_i64 deserialize_i64"

definition vec_i128_form :: "i128 list form" where
  "vec_i128_form = wire_form (list_all in_i128) serialize_vec_i128 deserialize_vec_i128"

definition wrapped_u64 :: "u64 form" where
  "wrapped_u64 = wire_form u64_in_i64_range serialize_u64 str_or_u64"

definition wrapped_u32 :: "u32 form" where
  "wrapped_u32 = wire_form u32_in_i32_range serialize_wrapped_u32 u32_within_i32_range"

lemma json_form_plain:
  "(\<And>v. typed v \<Longrightarrow> dec (enc v) = Some v) \<Longrightarrow> json_form (plain_form typed enc dec)"
  by unfold_locales (simp add: plain_form_def)

lemma json_form_wire: "codec typed enc dec \<Longrightarrow> json_form (wire_form typed enc dec)"
  unfolding wire_form_def by (rule json_form_plain) (simp add: codec.dec_enc)

lemma ucast_u32 [simp]:
  "unat (ucast (v :: u32) :: u64) < 4294967296" "(ucast (ucast (v :: u32) :: u64) :: u32) = v"
proof -
  have "unat v < 2 ^ 32" using unsigned_less [of v] by simp
  then show "unat (ucast v :: u64) < 4294967296" by (simp add: unsigned_ucast_eq take_bit_nat_eq_self)
  show "(ucast (ucast v :: u64) :: u32) = v" by (auto simp: bit_eq_iff bit_ucast_iff)
qed

lemma uint_of_i64: "0 \<le> n \<Longrightarrow> in_i64 n \<Longrightarrow> int (unat (of_int n :: u64)) = n"
  by (simp add: in_i64_def i64_max_def uint_nat [symmetric] unsigned_of_int take_bit_int_eq_self)

lemma as_i64_ji64 [simp]: "in_i64 n \<Longrightarrow> as_i64 (ji64 n) = Some n"
  using uint_of_i64 [of n] by (cases "0 \<le> n") (simp_all add: ji64_def in_i64_def)

lemma as_i32_ji64 [simp]: "in_i32 n \<Longrightarrow> as_i32 (ji64 n) = Some n"
proof -
  assume "in_i32 n"
  moreover from this have "in_i64 n" by (simp add: in_i32_def in_i64_def i64_min_def i64_max_def)
  ultimately show ?thesis by (simp add: as_i32_def in_i32_def)
qed

lemma number_forms [form_laws]:
  "json_form u32_form" "json_form u64_form" "json_form i64_form" "json_form i32_form"
  "json_form f64_form" "json_form bool_form" "json_form text_form"
  unfolding u32_form_def u64_form_def i64_form_def i32_form_def f64_form_def bool_form_def text_form_def
  by (rule json_form_plain; simp add: ju32_def ju64_def jf64_def)+

lemma codec_i64: "codec in_i64 serialize_i64 deserialize_i64"
  using i64_codec.codec_axioms unfolding in_i64_def [abs_def] .

lemma wire_forms [form_laws]:
  "json_form u64_text" "json_form u128_text" "json_form i128_text" "json_form i64_text"
  "json_form vec_i128_form" "json_form wrapped_u64" "json_form wrapped_u32"
  unfolding u64_text_def u128_text_def i128_text_def i64_text_def vec_i128_form_def wrapped_u64_def wrapped_u32_def
  by (intro json_form_wire u64_codec.codec_axioms u128_codec.codec_axioms i128_codec.codec_axioms codec_i64
      vec_i128_codec.codec_axioms wrapped_u64_codec.codec_axioms wrapped_u32_codec.codec_axioms)+

lemmas primitive_defs = plain_form_def wire_form_def u32_form_def u64_form_def i64_form_def i32_form_def
  f64_form_def bool_form_def text_form_def u64_text_def u128_text_def i128_text_def i64_text_def
  vec_i128_form_def wrapped_u64_def wrapped_u32_def

interpretation u32_json: json_form u32_form
  by (rule number_forms)

subsection \<open>Bytes and the library's types\<close>

text \<open>
  The hexadecimal texts of addresses and of bytes of any length are written and read by the library, as are the
  256-bit integers; a float's text is written by the standard library and read by parse_f64. A
  float belongs to the type when its text reads back, as the standard library documents of all of them.
\<close>

record wire_lib =
  wl_from_hash :: "nat \<Rightarrow> string \<Rightarrow> bytes option"
  wl_from_bytes :: "string \<Rightarrow> bytes option"
  wl_hex :: "bytes \<Rightarrow> string"
  wl_show_f64 :: "f64 \<Rightarrow> string"
  wl_u256_json :: "int \<Rightarrow> json"
  wl_u256_of_json :: "json \<Rightarrow> int option"
  wl_u256_of_dec :: "string \<Rightarrow> int option"

definition in_u256 :: "int \<Rightarrow> bool" where
  "in_u256 n \<longleftrightarrow> 0 \<le> n \<and> n < 2 ^ 256"

text \<open>What is relied on.\<close>

definition wire_lib_ok :: "wire_lib \<Rightarrow> bool" where
  "wire_lib_ok lb \<longleftrightarrow>
     reads_hash (wl_from_hash lb) \<and> reads_bytes (wl_from_bytes lb) \<and>
     (\<forall>bs. wl_from_hash lb (length bs) (wl_hex lb bs) = Some bs \<and> wl_from_bytes lb (wl_hex lb bs) = Some bs) \<and>
     (\<forall>n. in_u256 n \<longrightarrow> wl_u256_of_json lb (wl_u256_json lb n) = Some n \<and>
        wl_u256_of_dec lb (show_nat (nat n)) = Some n)"

lemma wire_lib_okD:
  assumes "wire_lib_ok lb"
  shows "reads_hash (wl_from_hash lb)" "reads_bytes (wl_from_bytes lb)"
    "wl_from_hash lb (length bs) (wl_hex lb bs) = Some bs" "wl_from_bytes lb (wl_hex lb bs) = Some bs"
    "in_u256 n \<Longrightarrow> wl_u256_of_json lb (wl_u256_json lb n) = Some n"
    "in_u256 n \<Longrightarrow> wl_u256_of_dec lb (show_nat (nat n)) = Some n"
  using assms by (simp_all add: wire_lib_ok_def)

definition serialize_f64 :: "wire_lib \<Rightarrow> f64 \<Rightarrow> json" where
  "serialize_f64 lb x = JString (wl_show_f64 lb x)"

definition deserialize_f64 :: "json \<Rightarrow> de_error + f64" where
  "deserialize_f64 v = de_parse ''invalid f64 value'' parse_f64 v"

definition serialize_option_f64 :: "wire_lib \<Rightarrow> f64 option \<Rightarrow> json" where
  "serialize_option_f64 lb v = enc_option (serialize_f64 lb) v"

definition deserialize_option_f64 :: "json \<Rightarrow> de_error + f64 option" where
  "deserialize_option_f64 v = dec_option deserialize_f64 v"

definition serialize_u256 :: "int \<Rightarrow> json" where
  "serialize_u256 n = JString (show_nat (nat n))"

definition deserialize_u256 :: "wire_lib \<Rightarrow> json \<Rightarrow> de_error + int" where
  "deserialize_u256 lb v = de_parse ''invalid u256 value'' (wl_u256_of_dec lb) v"

definition f64_readable :: "wire_lib \<Rightarrow> f64 \<Rightarrow> bool" where
  "f64_readable lb x \<longleftrightarrow> parse_f64 (wl_show_f64 lb x) = Some x"

lemma f64_codec: "text_codec (f64_readable lb) (serialize_f64 lb) deserialize_f64"
  by unfold_locales (simp_all add: serialize_f64_def deserialize_f64_def wire_defs f64_readable_def)

lemma u256_codec: "wire_lib_ok lb \<Longrightarrow> text_codec in_u256 serialize_u256 (deserialize_u256 lb)"
  by unfold_locales (simp_all add: serialize_u256_def deserialize_u256_def wire_defs wire_lib_okD)

definition f64_text :: "wire_lib \<Rightarrow> f64 form" where
  "f64_text lb = wire_form (f64_readable lb) (serialize_f64 lb) deserialize_f64"

definition option_f64_text :: "wire_lib \<Rightarrow> f64 option form" where
  "option_f64_text lb = wire_form (pred_option (f64_readable lb)) (serialize_option_f64 lb) deserialize_option_f64"

definition option_i128_text :: "i128 option form" where
  "option_i128_text = wire_form (pred_option in_i128) serialize_option_i128 deserialize_option_i128"

definition u256_text :: "wire_lib \<Rightarrow> int form" where
  "u256_text lb = wire_form in_u256 serialize_u256 (deserialize_u256 lb)"

definition bytes32_form :: "wire_lib \<Rightarrow> bytes form" where
  "bytes32_form lb = wire_form (\<lambda>bs. length bs = 32) serialize_bytes32 (deserialize_bytes32 (wl_from_hash lb))"

definition bytes20_form :: "wire_lib \<Rightarrow> bytes form" where
  "bytes20_form lb = wire_form (\<lambda>bs. length bs = 20) serialize_bytes20 (deserialize_bytes20 (wl_from_hash lb))"

definition vec_u8_form :: "wire_lib \<Rightarrow> bytes form" where
  "vec_u8_form lb = wire_form (\<lambda>_. True) serialize_vec_u8 (deserialize_vec_u8 (wl_from_bytes lb))"

definition vec_bytes32_form :: "wire_lib \<Rightarrow> bytes list form" where
  "vec_bytes32_form lb =
     wire_form (list_all (\<lambda>bs. length bs = 32)) serialize_vec_bytes32 (deserialize_vec_bytes32 (wl_from_hash lb))"

definition vec_bytes20_form :: "wire_lib \<Rightarrow> bytes list form" where
  "vec_bytes20_form lb =
     wire_form (list_all (\<lambda>bs. length bs = 20)) serialize_vec_bytes20 (deserialize_vec_bytes20 (wl_from_hash lb))"

text \<open>The library's address, its bytes and its 256-bit integers.\<close>

definition address_form :: "wire_lib \<Rightarrow> bytes form" where
  "address_form lb =
     plain_form (\<lambda>bs. length bs = 20) (\<lambda>bs. JString (wl_hex lb bs)) (\<lambda>v. Option.bind (as_str v) (wl_from_hash lb 20))"

definition blob_form :: "wire_lib \<Rightarrow> bytes form" where
  "blob_form lb = plain_form (\<lambda>_. True) (\<lambda>bs. JString (wl_hex lb bs)) (\<lambda>v. Option.bind (as_str v) (wl_from_bytes lb))"

definition u256_form :: "wire_lib \<Rightarrow> int form" where
  "u256_form lb = plain_form in_u256 (wl_u256_json lb) (wl_u256_of_json lb)"

lemma library_forms [form_laws]:
  assumes lb: "wire_lib_ok lb"
  shows "json_form (address_form lb)" "json_form (blob_form lb)" "json_form (u256_form lb)"
    "json_form (bytes32_form lb)" "json_form (bytes20_form lb)" "json_form (vec_u8_form lb)"
    "json_form (u256_text lb)" "json_form (vec_bytes32_form lb)" "json_form (vec_bytes20_form lb)"
proof -
  note ok = wire_lib_okD [OF lb]
  note hash = bytes_codecs [OF ok(1)]
  have hash20: "wl_from_hash lb 20 (wl_hex lb bs) = Some bs" if "length bs = 20" for bs
    using ok(3) [of bs] that by simp
  show "json_form (address_form lb)" "json_form (blob_form lb)" "json_form (u256_form lb)"
    unfolding address_form_def blob_form_def u256_form_def
    by (rule json_form_plain; simp add: hash20 ok(4,5))+
  show "json_form (bytes32_form lb)" "json_form (bytes20_form lb)" "json_form (vec_u8_form lb)" "json_form (u256_text lb)"
    unfolding bytes32_form_def bytes20_form_def vec_u8_form_def u256_text_def
    by (intro json_form_wire text_codec.axioms(1) hash vec_u8_codec [OF ok(2)] u256_codec [OF lb])+
  show "json_form (vec_bytes32_form lb)" "json_form (vec_bytes20_form lb)"
    unfolding vec_bytes32_form_def vec_bytes20_form_def serialize_vec_bytes32_def [abs_def]
      deserialize_vec_bytes32_def [abs_def] serialize_vec_bytes20_def [abs_def] deserialize_vec_bytes20_def [abs_def]
    by (intro json_form_wire codec.seq_codec hash)+
qed

lemma optional_texts [form_laws]: "json_form option_i128_text" "json_form (option_f64_text lb)" "json_form (f64_text lb)"
  unfolding option_i128_text_def option_f64_text_def f64_text_def serialize_option_i128_def [abs_def]
    deserialize_option_i128_def [abs_def] serialize_option_f64_def [abs_def] deserialize_option_f64_def [abs_def]
  by (intro json_form_wire i128_codec.option_codec text_codec.option_codec text_codec.axioms(1) f64_codec)+

subsection \<open>Options, lists and maps\<close>

definition option_form :: "'a form \<Rightarrow> 'a option form" where
  "option_form f =
     \<lparr>fm_write = enc_option (fm_write f),
      fm_read = (\<lambda>v. if v = JNull then Some None else map_option Some (fm_read f v)),
      fm_typed = pred_option (fm_typed f)\<rparr>"

definition list_form :: "'a form \<Rightarrow> 'a list form" where
  "list_form f =
     \<lparr>fm_write = enc_seq (fm_write f),
      fm_read = (\<lambda>v. Option.bind (as_array v) (\<lambda>vs. those (map (fm_read f) vs))),
      fm_typed = list_all (fm_typed f)\<rparr>"

text \<open>An array of bytes without an attribute is an array of numbers.\<close>

definition byte_form :: "u8 form" where
  "byte_form = plain_form (\<lambda>_. True) (\<lambda>b. JNumber (PosInt (ucast b)))
     (\<lambda>v. Option.bind (as_u64 v) (\<lambda>n. if unat n < 256 then Some (ucast n) else None))"

definition raw_bytes_form :: "nat \<Rightarrow> bytes form" where
  "raw_bytes_form n =
     \<lparr>fm_write = fm_write (list_form byte_form),
      fm_read = (\<lambda>v. filter_opt (\<lambda>bs. length bs = n) (fm_read (list_form byte_form) v)),
      fm_typed = (\<lambda>bs. length bs = n)\<rparr>"

text \<open>An array of two numbers.\<close>

definition pair_form :: "'a form \<Rightarrow> ('a \<times> 'a) form" where
  "pair_form f =
     \<lparr>fm_write = (\<lambda>(a, b). JArray [fm_write f a, fm_write f b]),
      fm_read = (\<lambda>v. case v of
          JArray [x, y] \<Rightarrow> do { a \<leftarrow> fm_read f x; b \<leftarrow> fm_read f y; Some (a, b) }
        | _ \<Rightarrow> None),
      fm_typed = (\<lambda>(a, b). fm_typed f a \<and> fm_typed f b)\<rparr>"

text \<open>
  The keys of a map are texts. A key that is a number is read in the form JSON has for it: no sign for a natural
  number, no leading zeros.
\<close>

record 'k key_form =
  kf_write :: "'k \<Rightarrow> string"
  kf_read :: "string \<Rightarrow> 'k option"
  kf_typed :: "'k \<Rightarrow> bool"

locale json_key =
  fixes k :: "'k key_form"
  assumes read_write_key: "kf_typed k x \<Longrightarrow> kf_read k (kf_write k x) = Some x"

definition number_key :: "('k \<Rightarrow> bool) \<Rightarrow> ('k \<Rightarrow> string) \<Rightarrow> (string \<Rightarrow> 'k option) \<Rightarrow> 'k key_form" where
  "number_key typed write parse =
     \<lparr>kf_write = write,
      kf_read = (\<lambda>s. filter_opt (\<lambda>n. write n = s) (parse s)),
      kf_typed = typed\<rparr>"

definition u32_key :: "u32 key_form" where
  "u32_key = number_key (\<lambda>_. True) show_u32 parse_u32"

definition u64_key :: "u64 key_form" where
  "u64_key = number_key (\<lambda>_. True) show_u64 parse_u64"

definition i32_key :: "i32 key_form" where
  "i32_key = number_key in_i32 show_int (\<lambda>s. filter_opt in_i32 (parse_i64 s))"

definition text_key :: "string key_form" where
  "text_key = \<lparr>kf_write = (\<lambda>s. s), kf_read = Some, kf_typed = (\<lambda>_. True)\<rparr>"

definition wrapped_u64_key :: "u64 key_form" where
  "wrapped_u64_key =
     \<lparr>kf_write = show_u64, kf_read = (\<lambda>s. res_ok (str_or_u64 (JString s))), kf_typed = u64_in_i64_range\<rparr>"

definition wrapped_bytes32_key :: "wire_lib \<Rightarrow> bytes key_form" where
  "wrapped_bytes32_key lb =
     \<lparr>kf_write = write_hex 32, kf_read = (\<lambda>s. res_ok (deserialize_bytes32 (wl_from_hash lb) (JString s))),
      kf_typed = (\<lambda>bs. length bs = 32)\<rparr>"

definition map_form :: "'k key_form \<Rightarrow> 'a form \<Rightarrow> ('k, 'a) hashmap form" where
  "map_form k f =
     \<lparr>fm_write = (\<lambda>m. JObject (map (\<lambda>(x, a). (kf_write k x, fm_write f a)) m)),
      fm_read = (\<lambda>v. Option.bind (as_object v) (\<lambda>kvs.
          map_option (foldl (\<lambda>m (x, a). hm_insert x a m) [])
            (those (map (\<lambda>(s, w). do { x \<leftarrow> kf_read k s; a \<leftarrow> fm_read f w; Some (x, a) }) kvs)))),
      fm_typed = (\<lambda>m. hm_wf m \<and> list_all (\<lambda>(x, a). kf_typed k x \<and> fm_typed f a) m)\<rparr>"

text \<open>
  A field of type i128 without an attribute is a JSON number. Whether a number outside of 64 bits survives depends on
  how the library is built: without arbitrary precision it is taken for a float, and no float is read as an
  integer. The form is that one, and promises the numbers inside of 64 bits only.
\<close>

definition ji128 :: "i128 \<Rightarrow> json" where
  "ji128 n = JNumber (if 0 \<le> n \<and> n < 2 ^ 64 then PosInt (of_int n)
                      else if i64_min \<le> n \<and> n < 0 then NegInt n else JFloat (f_of_int n))"

fun de_i128 :: "json \<Rightarrow> i128 option" where
  "de_i128 (JNumber (PosInt n)) = Some (uint n)"
| "de_i128 (JNumber (NegInt n)) = Some n"
| "de_i128 v = None"

definition fits_json :: "i128 \<Rightarrow> bool" where
  "fits_json n \<longleftrightarrow> i64_min \<le> n \<and> n < 2 ^ 64"

definition i128_form :: "i128 form" where
  "i128_form = \<lparr>fm_write = ji128, fm_read = de_i128, fm_typed = fits_json\<rparr>"

lemma json_form_i128 [form_laws]: "json_form i128_form"
  by unfold_locales
    (auto simp: i128_form_def ji128_def fits_json_def unsigned_of_int take_bit_int_eq_self)

lemma i128_form_large: "\<not> fits_json n \<Longrightarrow> fm_read i128_form (fm_write i128_form n) = None"
  by (auto simp: i128_form_def ji128_def fits_json_def i64_min_def)

lemma json_form_list [form_laws]: "json_form f \<Longrightarrow> json_form (list_form f)"
  by unfold_locales (simp add: list_form_def enc_seq_def json_form.reads_all del: map_map)

lemma json_form_option [form_laws]: "json_form f \<Longrightarrow> never_null f \<Longrightarrow> json_form (option_form f)"
proof unfold_locales
  fix v assume "json_form f" "never_null f" "fm_typed (option_form f) v"
  then show "fm_read (option_form f) (fm_write (option_form f) v) = Some v"
    by (cases v) (simp_all add: option_form_def enc_option_def never_null_def json_form.read_write)
qed

lemma json_form_raw_bytes [form_laws]: "json_form (raw_bytes_form n)"
proof unfold_locales
  have "(ucast (ucast (b :: u8) :: u64) :: u8) = b" for b by (auto simp: bit_eq_iff bit_ucast_iff)
  moreover have "unat (ucast (b :: u8) :: u64) < 256" for b
  proof -
    have "unat b < 2 ^ 8" using unsigned_less [of b] by simp
    then show ?thesis by (simp add: unsigned_ucast_eq take_bit_nat_eq_self)
  qed
  ultimately have "json_form byte_form" unfolding byte_form_def by (intro json_form_plain) simp
  then have "json_form (list_form byte_form)" by (rule json_form_list)
  then have "fm_read (list_form byte_form) (fm_write (list_form byte_form) bs) = Some bs" for bs
    by (rule json_form.read_write) (simp add: list_form_def byte_form_def plain_form_def list_all_iff)
  then show "fm_typed (raw_bytes_form n) bs \<Longrightarrow> fm_read (raw_bytes_form n) (fm_write (raw_bytes_form n) bs) = Some bs" for bs
    by (simp add: raw_bytes_form_def)
qed

lemma json_form_pair [form_laws]: "json_form f \<Longrightarrow> json_form (pair_form f)"
  by unfold_locales (auto simp: pair_form_def json_form.read_write)

lemma json_key_number:
  "(\<And>x. typed x \<Longrightarrow> parse (write x) = Some x) \<Longrightarrow> json_key (number_key typed write parse)"
  by unfold_locales (simp add: number_key_def)

lemma parse_show_i32: "in_i32 n \<Longrightarrow> parse_i64 (show_int n) = Some n"
  by (rule parse_show_i64) (simp_all add: in_i32_def i64_min_def i64_max_def)

lemma number_keys [form_laws]: "json_key u32_key" "json_key u64_key" "json_key i32_key"
  unfolding u32_key_def u64_key_def i32_key_def
  by (rule json_key_number; simp add: parse_show_i32)+

lemma text_keys [form_laws]: "json_key text_key" "json_key wrapped_u64_key"
  by (unfold_locales; simp add: text_key_def wrapped_u64_key_def str_or_u64_def)+

lemma bytes_key [form_laws]: "wire_lib_ok lb \<Longrightarrow> json_key (wrapped_bytes32_key lb)"
  by unfold_locales
    (simp add: wrapped_bytes32_key_def deserialize_bytes32_def wire_defs reads_write_hash wire_lib_okD)

interpretation text_json_key: json_key text_key
  by (rule text_keys)

lemma foldl_hm_insert_distinct:
  "distinct (map fst (m @ kvs)) \<Longrightarrow> foldl (\<lambda>m (x, a). hm_insert x a m) m kvs = m @ kvs"
proof (induction kvs arbitrary: m)
  case (Cons kv kvs)
  obtain x a where kv: "kv = (x, a)" by (cases kv)
  have "x \<notin> fst ` set m \<Longrightarrow> hm_insert x a m = m @ [(x, a)]"
    by (induction x a m rule: hm_insert.induct) auto
  then have "hm_insert x a m = m @ [(x, a)]" using Cons.prems kv by auto
  then show ?case using Cons.IH [of "m @ [(x, a)]"] Cons.prems by (simp add: kv)
qed simp

lemma json_form_map [form_laws]:
  assumes "json_key k" "json_form f"
  shows "json_form (map_form k f)"
proof unfold_locales
  fix m assume typed: "fm_typed (map_form k f) m"
  let ?rd = "\<lambda>(s, w). do { x \<leftarrow> kf_read k s; a \<leftarrow> fm_read f w; Some (x, a) }"
  have "those (map ?rd (map (\<lambda>(x, a). (kf_write k x, fm_write f a)) n)) = Some n"
    if "list_all (\<lambda>(x, a). kf_typed k x \<and> fm_typed f a) n" for n
    using that by (induction n)
      (auto simp: json_key.read_write_key [OF assms(1)] json_form.read_write [OF assms(2)])
  then have "those (map ?rd (map (\<lambda>(x, a). (kf_write k x, fm_write f a)) m)) = Some m"
    using typed by (simp add: map_form_def)
  then show "fm_read (map_form k f) (fm_write (map_form k f) m) = Some m"
    using typed foldl_hm_insert_distinct [of "[]" m] by (simp add: map_form_def hm_wf_def)
qed

subsection \<open>Structs and enums\<close>

definition struct_fields :: "string list \<Rightarrow> json \<Rightarrow> (string \<times> json) list option" where
  "struct_fields names v =
     (case v of
        JObject obj \<Rightarrow> Some obj
      | JArray vs \<Rightarrow> if length vs = length names then Some (zip names vs) else None
      | _ \<Rightarrow> None)"

definition field :: "'a form \<Rightarrow> string \<Rightarrow> (string \<times> json) list \<Rightarrow> 'a option" where
  "field f name obj = Option.bind (map_of obj name) (fm_read f)"

definition opt_field :: "'a form \<Rightarrow> string \<Rightarrow> (string \<times> json) list \<Rightarrow> 'a option option" where
  "opt_field f name obj =
     (case map_of obj name of None \<Rightarrow> Some None | Some v \<Rightarrow> fm_read (option_form f) v)"

text \<open>
  A struct lists its fields in order, each with its name, its form and its selector; a field that is an option may be
  missing, and so may one with a default. A field that is skipped when it is None is not written then. The fields are
  read in order and handed to the constructor.
\<close>

record ('r, 'k) fields =
  sf_names :: "string list"
  sf_write :: "'r \<Rightarrow> (string \<times> json option) list"
  sf_read :: "(string \<times> json) list \<Rightarrow> 'k \<Rightarrow> 'r option"
  sf_typed :: "'r \<Rightarrow> bool"

definition no_more :: "('r, 'r) fields" where
  "no_more = \<lparr>sf_names = [], sf_write = (\<lambda>r. []), sf_read = (\<lambda>obj r. Some r), sf_typed = (\<lambda>r. True)\<rparr>"

definition with_read ::
  "string \<Rightarrow> 'a form \<Rightarrow> ((string \<times> json) list \<Rightarrow> 'a option) \<Rightarrow> ('r \<Rightarrow> 'a) \<Rightarrow> ('r, 'k) fields \<Rightarrow>
     ('r, 'a \<Rightarrow> 'k) fields" where
  "with_read name f rd sel rest =
     \<lparr>sf_names = name # sf_names rest,
      sf_write = (\<lambda>r. (name, Some (fm_write f (sel r))) # sf_write rest r),
      sf_read = (\<lambda>obj mk. Option.bind (rd obj) (\<lambda>x. sf_read rest obj (mk x))),
      sf_typed = (\<lambda>r. fm_typed f (sel r) \<and> sf_typed rest r)\<rparr>"

definition with_field :: "string \<Rightarrow> 'a form \<Rightarrow> ('r \<Rightarrow> 'a) \<Rightarrow> ('r, 'k) fields \<Rightarrow> ('r, 'a \<Rightarrow> 'k) fields" where
  "with_field name f sel rest = with_read name f (field f name) sel rest"

definition with_option ::
  "string \<Rightarrow> 'a form \<Rightarrow> ('r \<Rightarrow> 'a option) \<Rightarrow> ('r, 'k) fields \<Rightarrow> ('r, 'a option \<Rightarrow> 'k) fields" where
  "with_option name f sel rest = with_read name (option_form f) (opt_field f name) sel rest"

definition with_default :: "string \<Rightarrow> 'a form \<Rightarrow> 'a \<Rightarrow> ('r \<Rightarrow> 'a) \<Rightarrow> ('r, 'k) fields \<Rightarrow> ('r, 'a \<Rightarrow> 'k) fields" where
  "with_default name f d sel rest =
     with_read name f (\<lambda>obj. case map_of obj name of None \<Rightarrow> Some d | Some v \<Rightarrow> fm_read f v) sel rest"

definition with_skipped ::
  "string \<Rightarrow> 'a form \<Rightarrow> ('r \<Rightarrow> 'a option) \<Rightarrow> ('r, 'k) fields \<Rightarrow> ('r, 'a option \<Rightarrow> 'k) fields" where
  "with_skipped name f sel rest =
     (with_option name f sel rest)
       \<lparr>sf_write := (\<lambda>r. (name, map_option (fm_write f) (sel r)) # sf_write rest r)\<rparr>"

fun present :: "(string \<times> json option) list \<Rightarrow> (string \<times> json) list" where
  "present [] = []"
| "present ((n, Some w) # ws) = (n, w) # present ws"
| "present ((n, None) # ws) = present ws"

definition struct_form :: "'k \<Rightarrow> ('r, 'k) fields \<Rightarrow> 'r form" where
  "struct_form mk fs =
     \<lparr>fm_write = (\<lambda>r. JObject (present (sf_write fs r))),
      fm_read = (\<lambda>v. Option.bind (struct_fields (sf_names fs) v) (\<lambda>obj. sf_read fs obj mk)),
      fm_typed = sf_typed fs\<rparr>"

text \<open>The tag of an enum's value, and what stands under it.\<close>

definition enum_tag :: "json \<Rightarrow> (string \<times> json option) option" where
  "enum_tag v =
     (case v of
        JString s \<Rightarrow> Some (s, None)
      | JObject [(s, w)] \<Rightarrow> Some (s, Some w)
      | _ \<Rightarrow> None)"

definition unit_variant :: "json option \<Rightarrow> bool" where
  "unit_variant w \<longleftrightarrow> w = None \<or> w = Some JNull"

definition newtype_variant :: "'a form \<Rightarrow> ('a \<Rightarrow> 'b) \<Rightarrow> json option \<Rightarrow> 'b option" where
  "newtype_variant f mk w = Option.bind w (\<lambda>x. map_option mk (fm_read f x))"

lemma struct_fields_object [simp]: "struct_fields names (JObject obj) = Some obj"
  by (simp add: struct_fields_def)

lemma struct_fields_array: "length vs = length names \<Longrightarrow> struct_fields names (JArray vs) = Some (zip names vs)"
  by (simp add: struct_fields_def)

text \<open>
  Fields are read back from every object that has them as they were written, whatever else it has: so in any order.
\<close>

definition fields_read :: "('r, 'k) fields \<Rightarrow> 'k \<Rightarrow> 'r \<Rightarrow> bool" where
  "fields_read fs mk r \<longleftrightarrow>
     (\<forall>obj. (\<forall>(n, w) \<in> set (sf_write fs r). map_of obj n = w) \<longrightarrow> sf_typed fs r \<longrightarrow>
        sf_read fs obj mk = Some r)"

lemma fields_read_none: "mk = r \<Longrightarrow> fields_read no_more mk r"
  by (simp add: fields_read_def no_more_def)

lemma fields_read_field:
  "json_form f \<Longrightarrow> fields_read rest (mk (sel r)) r \<Longrightarrow> fields_read (with_field n f sel rest) mk r"
  by (simp add: fields_read_def with_field_def with_read_def field_def json_form.read_write)

lemma fields_read_option:
  "json_form f \<Longrightarrow> never_null f \<Longrightarrow> fields_read rest (mk (sel r)) r \<Longrightarrow>
   fields_read (with_option n f sel rest) mk r"
  by (simp add: fields_read_def with_option_def with_read_def opt_field_def json_form.read_write [OF json_form_option])

lemma fields_read_default:
  "json_form f \<Longrightarrow> fields_read rest (mk (sel r)) r \<Longrightarrow> fields_read (with_default n f d sel rest) mk r"
  by (simp add: fields_read_def with_default_def with_read_def json_form.read_write)

lemma fields_read_skipped:
  assumes "json_form f" "never_null f" "fields_read rest (mk (sel r)) r"
  shows "fields_read (with_skipped n f sel rest) mk r"
proof -
  have "opt_field f n obj = Some (sel r)"
    if "map_of obj n = map_option (fm_write f) (sel r)" "fm_typed (option_form f) (sel r)" for obj
    using that assms(2) json_form.read_write [OF assms(1)]
    by (cases "sel r") (simp_all add: opt_field_def option_form_def never_null_def)
  then show ?thesis
    using assms(3) by (simp add: fields_read_def with_skipped_def with_option_def with_read_def)
qed

definition written_names :: "('r, 'k) fields \<Rightarrow> bool" where
  "written_names fs \<longleftrightarrow> (\<forall>r. map fst (sf_write fs r) = sf_names fs)"

lemma written_names_laws:
  "written_names no_more"
  "written_names rest \<Longrightarrow> written_names (with_field n f sel rest)"
  "written_names rest \<Longrightarrow> written_names (with_option n g sel' rest)"
  "written_names rest \<Longrightarrow> written_names (with_default n f d sel rest)"
  "written_names rest \<Longrightarrow> written_names (with_skipped n g sel' rest)"
  by (simp_all add: written_names_def no_more_def with_field_def with_option_def with_default_def with_skipped_def
      with_read_def)

lemma sf_names_simps [simp]:
  "sf_names no_more = []" "sf_names (with_field n f sel rest) = n # sf_names rest"
  "sf_names (with_option n g sel' rest) = n # sf_names rest"
  "sf_names (with_default n f d sel rest) = n # sf_names rest"
  "sf_names (with_skipped n g sel' rest) = n # sf_names rest"
  by (simp_all add: no_more_def with_field_def with_option_def with_default_def with_skipped_def with_read_def)

lemma present_names: "fst ` set (present ws) \<subseteq> fst ` set ws"
  by (induction ws rule: present.induct) auto

lemma map_of_present: "distinct (map fst ws) \<Longrightarrow> (n, w) \<in> set ws \<Longrightarrow> map_of (present ws) n = w"
proof (induction ws rule: present.induct)
  case (2 n' w' ws)
  then show ?case by (auto simp: image_iff)
next
  case (3 n' ws)
  have "n' \<notin> fst ` set (present ws)" using 3(2) present_names [of ws] by auto
  then show ?case using 3 by (auto simp: map_of_eq_None_iff)
qed simp

lemma json_form_struct:
  assumes names: "written_names fs" "distinct (sf_names fs)" and fields: "\<And>r. fields_read fs mk r"
  shows "json_form (struct_form mk fs)"
proof unfold_locales
  fix r assume typed: "fm_typed (struct_form mk fs) r"
  have "distinct (map fst (sf_write fs r))" using names by (simp add: written_names_def)
  then have "\<forall>(n, w) \<in> set (sf_write fs r). map_of (present (sf_write fs r)) n = w" using map_of_present by auto
  then have "sf_read fs (present (sf_write fs r)) mk = Some r"
    using typed fields [of r] by (simp add: fields_read_def struct_form_def)
  then show "fm_read (struct_form mk fs) (fm_write (struct_form mk fs) r) = Some r"
    by (simp add: struct_form_def)
qed

lemma never_null_struct [form_laws]: "never_null (struct_form mk fs)"
  by (simp add: never_null_def struct_form_def)

lemmas struct_laws = json_form_struct written_names_laws fields_read_field fields_read_option fields_read_default
  fields_read_skipped fields_read_none

text \<open>
  What is written can be permuted and extended, but not by a field that was skipped; and when nothing is skipped it can be
  cut down to the array of its values.
\<close>

lemma struct_read_any:
  assumes "fields_read fs mk r" "sf_typed fs r" "\<forall>(n, w) \<in> set (sf_write fs r). map_of obj n = w"
  shows "fm_read (struct_form mk fs) (JObject obj) = Some r"
  using assms by (simp add: fields_read_def struct_form_def)

lemma struct_read_array:
  assumes "fields_read fs mk r" "sf_typed fs r" "written_names fs" "distinct (sf_names fs)"
    and all: "sf_write fs r = map (\<lambda>(n, w). (n, Some w)) ws"
  shows "fm_read (struct_form mk fs) (JArray (map snd ws)) = Some r"
proof -
  have "map fst (sf_write fs r) = sf_names fs" using assms(3) by (simp add: written_names_def)
  then have names: "map fst ws = sf_names fs" by (simp add: all comp_def case_prod_beta)
  then have "zip (sf_names fs) (map snd ws) = ws" by (metis zip_map_fst_snd)
  moreover have "length ws = length (sf_names fs)" using names by (metis length_map)
  moreover have "\<forall>(n, w) \<in> set (sf_write fs r). map_of ws n = w"
    using names assms(4) by (auto simp: all)
  ultimately show ?thesis using assms(1,2) by (simp add: struct_form_def struct_fields_array fields_read_def)
qed

text \<open>What an object must have to be read as a struct: the fields that are neither options nor have a default.\<close>

definition requires :: "('r, 'k) fields \<Rightarrow> string list \<Rightarrow> bool" where
  "requires fs ns \<longleftrightarrow> (\<forall>obj mk r. sf_read fs obj mk = Some r \<longrightarrow> set ns \<subseteq> fst ` set obj)"

lemma requires_laws:
  "requires no_more []"
  "requires rest ns \<Longrightarrow> requires (with_option n g sel' rest) ns"
  "requires rest ns \<Longrightarrow> requires (with_skipped n g sel' rest) ns"
  "requires rest ns \<Longrightarrow> requires (with_default n f d sel rest) ns"
  by (auto simp: requires_def no_more_def with_option_def with_skipped_def with_default_def with_read_def bind_eq_Some_conv)

lemma requires_field: "requires rest ns \<Longrightarrow> requires (with_field n f sel rest) (n # ns)"
  unfolding requires_def with_field_def with_read_def field_def
  by (auto simp: bind_eq_Some_conv dest!: map_of_SomeD intro: rev_image_eqI)

lemma struct_requires:
  "requires fs ns \<Longrightarrow> fm_read (struct_form mk fs) (JObject obj) \<noteq> None \<Longrightarrow> set ns \<subseteq> fst ` set obj"
  by (auto simp: requires_def struct_form_def)

lemma struct_writes:
  "written_names fs \<Longrightarrow> fm_write (struct_form mk fs) r = JObject obj \<Longrightarrow> fst ` set obj \<subseteq> set (sf_names fs)"
proof -
  assume names: "written_names fs" and "fm_write (struct_form mk fs) r = JObject obj"
  then have "obj = present (sf_write fs r)" by (simp add: struct_form_def)
  moreover have "set (sf_names fs) = fst ` set (sf_write fs r)" using names by (metis image_set written_names_def)
  ultimately show ?thesis using present_names [of "sf_write fs r"] by simp
qed

lemma enum_tag_simps [simp]:
  "enum_tag (JString s) = Some (s, None)" "enum_tag (JObject [(s, w)]) = Some (s, Some w)"
  by (simp_all add: enum_tag_def)

text \<open>The variants with their tags; the value of a variant without content is its tag alone.\<close>

definition enum_read :: "(string \<times> (json option \<Rightarrow> 'a option)) list \<Rightarrow> json \<Rightarrow> 'a option" where
  "enum_read variants v = do { (s, w) \<leftarrow> enum_tag v; rd \<leftarrow> map_of variants s; rd w }"

definition unit_value :: "'a \<Rightarrow> json option \<Rightarrow> 'a option" where
  "unit_value a w = (if unit_variant w then Some a else None)"

definition tagged :: "string \<Rightarrow> 'a form \<Rightarrow> 'a \<Rightarrow> json" where
  "tagged tag f a = JObject [(tag, fm_write f a)]"

lemma enum_read_tagged: "enum_read variants (tagged tag f a) = do { rd \<leftarrow> map_of variants tag; rd (Some (fm_write f a)) }"
  by (simp add: enum_read_def tagged_def)

lemma enum_read_unit [simp]:
  "enum_read variants (JString tag) = do { rd \<leftarrow> map_of variants tag; rd None }" "unit_value a None = Some a"
  by (simp_all add: enum_read_def unit_value_def unit_variant_def)

lemma enum_read_member:
  assumes "distinct (map fst variants)" "(tag, rd) \<in> set variants"
  shows "rd (Some (fm_write f a)) = r \<Longrightarrow> enum_read variants (tagged tag f a) = r"
    and "rd None = r \<Longrightarrow> enum_read variants (JString tag) = r"
  using map_of_is_SomeI [OF assms] by (simp_all add: enum_read_tagged)

text \<open>An enum without contents is written as the name of its value.\<close>

definition names_form :: "('a \<Rightarrow> string) \<Rightarrow> 'a list \<Rightarrow> 'a form" where
  "names_form name all =
     \<lparr>fm_write = (\<lambda>a. JString (name a)),
      fm_read = enum_read (map (\<lambda>a. (name a, unit_value a)) all),
      fm_typed = (\<lambda>a. True)\<rparr>"

lemma json_form_names:
  assumes "distinct (map name all)" "\<And>a. a \<in> set all"
  shows "json_form (names_form name all)"
proof unfold_locales
  fix a
  have "distinct (map fst (map (\<lambda>a. (name a, unit_value a)) all))"
    using assms(1) by (simp add: comp_def)
  moreover have "(name a, unit_value a) \<in> set (map (\<lambda>a. (name a, unit_value a)) all)"
    using assms(2) by auto
  ultimately have "enum_read (map (\<lambda>a. (name a, unit_value a)) all) (JString (name a)) = Some a"
    by (rule enum_read_member(2)) simp
  then show "fm_read (names_form name all) (fm_write (names_form name all) a) = Some a"
    by (simp add: names_form_def)
qed

lemma unit_variant_None [simp]: "unit_variant None"
  by (simp add: unit_variant_def)

lemma newtype_variant_written:
  "json_form f \<Longrightarrow> fm_typed f v \<Longrightarrow> newtype_variant f mk (Some (fm_write f v)) = Some (mk v)"
  by (simp add: newtype_variant_def json_form.read_write)

lemma never_null_forms [form_laws]:
  "never_null u32_form" "never_null u64_form" "never_null f64_form" "never_null bool_form" "never_null text_form"
  "never_null wrapped_u64" "never_null wrapped_u32" "never_null i128_text" "never_null (f64_text lb)"
  "never_null (list_form f)" "never_null (pair_form f)" "never_null (map_form k f)"
  by (auto simp: never_null_def primitive_defs jf64_def ju32_def ju64_def serialize_u64_def serialize_wrapped_u32_def
      serialize_i128_def serialize_f64_def f64_text_def list_form_def enc_seq_def pair_form_def map_form_def
      split: prod.split)

text \<open>A library that meets what is relied on.\<close>

definition demo_lib :: wire_lib where
  "demo_lib =
     \<lparr>wl_from_hash = demo_from_hash, wl_from_bytes = demo_from_bytes, wl_hex = (\<lambda>bs. write_hex (length bs) bs),
      wl_show_f64 = (\<lambda>x. ''0.5''), wl_u256_json = (\<lambda>n. JString (show_nat (nat n))),
      wl_u256_of_json = (\<lambda>v. Option.bind (as_str v) (\<lambda>s. map_option int (parse_unsigned (2 ^ 256 - 1) s))),
      wl_u256_of_dec = (\<lambda>s. map_option int (parse_unsigned (2 ^ 256 - 1) s))\<rparr>"

lemma demo_lib_ok: "wire_lib_ok demo_lib"
proof -
  have hash: "reads_hash demo_from_hash" and bytes: "reads_bytes demo_from_bytes"
    by (simp_all add: reads_hash_def reads_bytes_def demo_from_hash_def demo_from_bytes_def)
  moreover have "map_option int (parse_unsigned (2 ^ 256 - 1) (show_nat (nat n))) = Some n" if "in_u256 n" for n
  proof -
    have "nat n \<le> 2 ^ 256 - 1" using that by (simp add: in_u256_def nat_le_iff)
    then show ?thesis using that by (simp add: parse_unsigned_show_nat in_u256_def del: nat_le_iff)
  qed
  ultimately show ?thesis
    unfolding wire_lib_ok_def demo_lib_def using reads_write_hash [OF hash] reads_write_bytes [OF bytes] by simp
qed

end
