(* ===== verification/SdkTransactions.thy ===== *)
theory SdkTransactions
  imports SdkForms SdkOrder
begin

text \<open>
  The transactions of the exchange (nado-rust-sdk/src/nado_utils/tx.rs) with the structs of the contracts' bindings
  they carry (bindings/endpoint.rs, bindings/offchain_exchange.rs), their JSON forms, and the conversions of signed
  messages into those structs (nado_utils/eip712_structs.rs). Numbers of the bindings that the attributes do not
  name are JSON numbers, where the messages have texts.
\<close>

subsection \<open>The signed messages\<close>

text \<open>The records of SdkOrder with the forms of their structs.\<close>

definition order_form :: "wire_lib \<Rightarrow> order form" where
  "order_form lb = struct_form order.make
     (with_field ''sender'' (bytes32_form lb) ord_sender
     (with_field ''priceX18'' i128_text ord_priceX18
     (with_field ''amount'' i128_text ord_amount
     (with_field ''expiration'' u64_text ord_expiration
     (with_field ''nonce'' u64_text ord_nonce
     (with_field ''appendix'' u128_text ord_appendix
     no_more))))))"

lemma json_form_order [form_laws]: "wire_lib_ok lb \<Longrightarrow> json_form (order_form lb)"
  unfolding order_form_def by (intro struct_laws form_laws) (simp_all add: order.make_def)

definition cancellation_form :: "wire_lib \<Rightarrow> cancellation form" where
  "cancellation_form lb = struct_form cancellation.make
     (with_field ''sender'' (bytes32_form lb) cn_sender
     (with_field ''productIds'' (list_form u32_form) cn_productIds
     (with_field ''digests'' (vec_bytes32_form lb) cn_digests
     (with_field ''nonce'' u64_text cn_nonce
     no_more))))"

lemma json_form_cancellation [form_laws]: "wire_lib_ok lb \<Longrightarrow> json_form (cancellation_form lb)"
  unfolding cancellation_form_def by (intro struct_laws form_laws) (simp_all add: cancellation.make_def)

definition cancellation_products_form :: "wire_lib \<Rightarrow> cancellation_products form" where
  "cancellation_products_form lb = struct_form cancellation_products.make
     (with_field ''sender'' (bytes32_form lb) cp_sender
     (with_field ''productIds'' (list_form u32_form) cp_productIds
     (with_field ''nonce'' u64_text cp_nonce
     no_more)))"

lemma json_form_cancellation_products [form_laws]: "wire_lib_ok lb \<Longrightarrow> json_form (cancellation_products_form lb)"
  unfolding cancellation_products_form_def by (intro struct_laws form_laws) (simp_all add: cancellation_products.make_def)

definition link_signer_form :: "wire_lib \<Rightarrow> link_signer form" where
  "link_signer_form lb = struct_form link_signer.make
     (with_field ''sender'' (bytes32_form lb) ls_sender
     (with_field ''signer'' (bytes32_form lb) ls_signer
     (with_field ''nonce'' u64_text ls_nonce
     no_more)))"

lemma json_form_link_signer [form_laws]: "wire_lib_ok lb \<Longrightarrow> json_form (link_signer_form lb)"
  unfolding link_signer_form_def by (intro struct_laws form_laws) (simp_all add: link_signer.make_def)

definition liquidate_subaccount_form :: "wire_lib \<Rightarrow> liquidate_subaccount form" where
  "liquidate_subaccount_form lb = struct_form liquidate_subaccount.make
     (with_field ''sender'' (bytes32_form lb) lq_sender
     (with_field ''liquidatee'' (bytes32_form lb) lq_liquidatee
     (with_field ''productId'' u32_form lq_productId
     (with_field ''isEncodedSpread'' bool_form lq_isEncodedSpread
     (with_field ''amount'' i128_text lq_amount
     (with_field ''nonce'' u64_text lq_nonce
     no_more))))))"

lemma json_form_liquidate_subaccount [form_laws]: "wire_lib_ok lb \<Longrightarrow> json_form (liquidate_subaccount_form lb)"
  unfolding liquidate_subaccount_form_def by (intro struct_laws form_laws) (simp_all add: liquidate_subaccount.make_def)

definition withdraw_collateral_form :: "wire_lib \<Rightarrow> withdraw_collateral form" where
  "withdraw_collateral_form lb = struct_form withdraw_collateral.make
     (with_field ''sender'' (bytes32_form lb) wc_sender
     (with_field ''productId'' u32_form wc_productId
     (with_field ''amount'' u128_text wc_amount
     (with_field ''nonce'' u64_text wc_nonce
     no_more))))"

lemma json_form_withdraw_collateral [form_laws]: "wire_lib_ok lb \<Longrightarrow> json_form (withdraw_collateral_form lb)"
  unfolding withdraw_collateral_form_def by (intro struct_laws form_laws) (simp_all add: withdraw_collateral.make_def)

definition mint_nlp_form :: "wire_lib \<Rightarrow> mint_nlp form" where
  "mint_nlp_form lb = struct_form mint_nlp.make
     (with_field ''sender'' (bytes32_form lb) mn_sender
     (with_field ''quoteAmount'' u128_text mn_quoteAmount
     (with_field ''nonce'' u64_text mn_nonce
     no_more)))"

lemma json_form_mint_nlp [form_laws]: "wire_lib_ok lb \<Longrightarrow> json_form (mint_nlp_form lb)"
  unfolding mint_nlp_form_def by (intro struct_laws form_laws) (simp_all add: mint_nlp.make_def)

definition burn_nlp_form :: "wire_lib \<Rightarrow> burn_nlp form" where
  "burn_nlp_form lb = struct_form burn_nlp.make
     (with_field ''sender'' (bytes32_form lb) bn_sender
     (with_field ''nlpAmount'' u128_text bn_nlpAmount
     (with_field ''nonce'' u64_text bn_nonce
     no_more)))"

lemma json_form_burn_nlp [form_laws]: "wire_lib_ok lb \<Longrightarrow> json_form (burn_nlp_form lb)"
  unfolding burn_nlp_form_def by (intro struct_laws form_laws) (simp_all add: burn_nlp.make_def)

definition transfer_quote_form :: "wire_lib \<Rightarrow> transfer_quote form" where
  "transfer_quote_form lb = struct_form transfer_quote.make
     (with_field ''sender'' (bytes32_form lb) tq_sender
     (with_field ''recipient'' (bytes32_form lb) tq_recipient
     (with_field ''amount'' u128_text tq_amount
     (with_field ''nonce'' u64_text tq_nonce
     no_more))))"

lemma json_form_transfer_quote [form_laws]: "wire_lib_ok lb \<Longrightarrow> json_form (transfer_quote_form lb)"
  unfolding transfer_quote_form_def by (intro struct_laws form_laws) (simp_all add: transfer_quote.make_def)

record task_authentication =
  ta_sender :: bytes
  ta_expiration :: u64

definition task_authentication_form :: "wire_lib \<Rightarrow> task_authentication form" where
  "task_authentication_form lb = struct_form task_authentication.make
     (with_field ''sender'' (bytes20_form lb) ta_sender
     (with_field ''expiration'' u64_text ta_expiration
     no_more))"

lemma json_form_task_authentication [form_laws]: "wire_lib_ok lb \<Longrightarrow> json_form (task_authentication_form lb)"
  unfolding task_authentication_form_def by (intro struct_laws form_laws) (simp_all add: task_authentication.make_def)

record leaderboard_authentication =
  la_sender :: bytes
  la_expiration :: u64

definition leaderboard_authentication_form :: "wire_lib \<Rightarrow> leaderboard_authentication form" where
  "leaderboard_authentication_form lb = struct_form leaderboard_authentication.make
     (with_field ''sender'' (bytes32_form lb) la_sender
     (with_field ''expiration'' u64_text la_expiration
     no_more))"

lemma json_form_leaderboard_authentication [form_laws]: "wire_lib_ok lb \<Longrightarrow> json_form (leaderboard_authentication_form lb)"
  unfolding leaderboard_authentication_form_def by (intro struct_laws form_laws) (simp_all add: leaderboard_authentication.make_def)

record update_registration =
  urg_tx :: leaderboard_authentication
  urg_signature :: bytes

definition update_registration_form :: "wire_lib \<Rightarrow> update_registration form" where
  "update_registration_form lb = struct_form update_registration.make
     (with_field ''tx'' (leaderboard_authentication_form lb) urg_tx
     (with_field ''signature'' (vec_u8_form lb) urg_signature
     no_more))"

lemma json_form_update_registration [form_laws]: "wire_lib_ok lb \<Longrightarrow> json_form (update_registration_form lb)"
  unfolding update_registration_form_def by (intro struct_laws form_laws) (simp_all add: update_registration.make_def)

subsection \<open>The structs of the bindings\<close>

record ep_add_nlp_pool =
  eanp_owner :: bytes
  eanp_balance_weight_x18 :: u128

definition ep_add_nlp_pool_form :: "wire_lib \<Rightarrow> ep_add_nlp_pool form" where
  "ep_add_nlp_pool_form lb = struct_form ep_add_nlp_pool.make
     (with_field ''owner'' (address_form lb) eanp_owner
     (with_field ''balance_weight_x18'' u128_text eanp_balance_weight_x18
     no_more))"

lemma json_form_ep_add_nlp_pool [form_laws]: "wire_lib_ok lb \<Longrightarrow> json_form (ep_add_nlp_pool_form lb)"
  unfolding ep_add_nlp_pool_form_def by (intro struct_laws form_laws) (simp_all add: ep_add_nlp_pool.make_def)

record ep_assert_code =
  eac_contract_names :: "string list"
  eac_code_hashes :: "bytes list"
  eac_spreads :: int

definition ep_assert_code_form :: "wire_lib \<Rightarrow> ep_assert_code form" where
  "ep_assert_code_form lb = struct_form ep_assert_code.make
     (with_field ''contract_names'' (list_form text_form) eac_contract_names
     (with_field ''code_hashes'' (vec_bytes32_form lb) eac_code_hashes
     (with_field ''spreads'' (u256_text lb) eac_spreads
     no_more)))"

lemma json_form_ep_assert_code [form_laws]: "wire_lib_ok lb \<Longrightarrow> json_form (ep_assert_code_form lb)"
  unfolding ep_assert_code_form_def by (intro struct_laws form_laws) (simp_all add: ep_assert_code.make_def)

record ep_assert_product =
  eap_product_id :: u32
  eap_is_spot :: bool
  eap_quote_id :: u32
  eap_size_increment :: i128
  eap_min_size :: i128
  eap_others_hash :: bytes

definition ep_assert_product_form :: "wire_lib \<Rightarrow> ep_assert_product form" where
  "ep_assert_product_form lb = struct_form ep_assert_product.make
     (with_field ''product_id'' u32_form eap_product_id
     (with_field ''is_spot'' bool_form eap_is_spot
     (with_field ''quote_id'' u32_form eap_quote_id
     (with_field ''size_increment'' i128_text eap_size_increment
     (with_field ''min_size'' i128_text eap_min_size
     (with_field ''others_hash'' (bytes32_form lb) eap_others_hash
     no_more))))))"

lemma json_form_ep_assert_product [form_laws]: "wire_lib_ok lb \<Longrightarrow> json_form (ep_assert_product_form lb)"
  unfolding ep_assert_product_form_def by (intro struct_laws form_laws) (simp_all add: ep_assert_product.make_def)

record ep_burn_nlp =
  ebn_sender :: bytes
  ebn_nlp_amount :: u128
  ebn_nonce :: u64

definition ep_burn_nlp_form :: "wire_lib \<Rightarrow> ep_burn_nlp form" where
  "ep_burn_nlp_form lb = struct_form ep_burn_nlp.make
     (with_field ''sender'' (bytes32_form lb) ebn_sender
     (with_field ''nlp_amount'' u128_text ebn_nlp_amount
     (with_field ''nonce'' u64_form ebn_nonce
     no_more)))"

lemma json_form_ep_burn_nlp [form_laws]: "wire_lib_ok lb \<Longrightarrow> json_form (ep_burn_nlp_form lb)"
  unfolding ep_burn_nlp_form_def by (intro struct_laws form_laws) (simp_all add: ep_burn_nlp.make_def)

record ep_cancellation =
  ec_sender :: bytes
  ec_product_ids :: "u32 list"
  ec_digests :: "bytes list"
  ec_nonce :: u64

definition ep_cancellation_form :: "wire_lib \<Rightarrow> ep_cancellation form" where
  "ep_cancellation_form lb = struct_form ep_cancellation.make
     (with_field ''sender'' (bytes32_form lb) ec_sender
     (with_field ''product_ids'' (list_form u32_form) ec_product_ids
     (with_field ''digests'' (vec_bytes32_form lb) ec_digests
     (with_field ''nonce'' u64_form ec_nonce
     no_more))))"

lemma json_form_ep_cancellation [form_laws]: "wire_lib_ok lb \<Longrightarrow> json_form (ep_cancellation_form lb)"
  unfolding ep_cancellation_form_def by (intro struct_laws form_laws) (simp_all add: ep_cancellation.make_def)

record ep_cancellation_products =
  ecp_sender :: bytes
  ecp_product_ids :: "u32 list"
  ecp_nonce :: u64

definition ep_cancellation_products_form :: "wire_lib \<Rightarrow> ep_cancellation_products form" where
  "ep_cancellation_products_form lb = struct_form ep_cancellation_products.make
     (with_field ''sender'' (bytes32_form lb) ecp_sender
     (with_field ''product_ids'' (list_form u32_form) ecp_product_ids
     (with_field ''nonce'' u64_form ecp_nonce
     no_more)))"

lemma json_form_ep_cancellation_products [form_laws]: "wire_lib_ok lb \<Longrightarrow> json_form (ep_cancellation_products_form lb)"
  unfolding ep_cancellation_products_form_def by (intro struct_laws form_laws) (simp_all add: ep_cancellation_products.make_def)

record ep_claim_builder_fee =
  ecbf_sender :: bytes
  ecbf_builder_id :: u32

definition ep_claim_builder_fee_form :: "wire_lib \<Rightarrow> ep_claim_builder_fee form" where
  "ep_claim_builder_fee_form lb = struct_form ep_claim_builder_fee.make
     (with_field ''sender'' (bytes32_form lb) ecbf_sender
     (with_field ''builder_id'' u32_form ecbf_builder_id
     no_more))"

lemma json_form_ep_claim_builder_fee [form_laws]: "wire_lib_ok lb \<Longrightarrow> json_form (ep_claim_builder_fee_form lb)"
  unfolding ep_claim_builder_fee_form_def by (intro struct_laws form_laws) (simp_all add: ep_claim_builder_fee.make_def)

record ep_close_isolated_subaccount =
  ecis_subaccount :: bytes

definition ep_close_isolated_subaccount_form :: "wire_lib \<Rightarrow> ep_close_isolated_subaccount form" where
  "ep_close_isolated_subaccount_form lb = struct_form ep_close_isolated_subaccount.make
     (with_field ''subaccount'' (bytes32_form lb) ecis_subaccount
     no_more)"

lemma json_form_ep_close_isolated_subaccount [form_laws]: "wire_lib_ok lb \<Longrightarrow> json_form (ep_close_isolated_subaccount_form lb)"
  unfolding ep_close_isolated_subaccount_form_def by (intro struct_laws form_laws) (simp_all add: ep_close_isolated_subaccount.make_def)

record ep_order =
  eo_sender :: bytes
  eo_price_x18 :: i128
  eo_amount :: i128
  eo_expiration :: u64
  eo_nonce :: u64
  eo_appendix :: u128

definition ep_order_form :: "wire_lib \<Rightarrow> ep_order form" where
  "ep_order_form lb = struct_form ep_order.make
     (with_field ''sender'' (bytes32_form lb) eo_sender
     (with_field ''price_x18'' i128_text eo_price_x18
     (with_field ''amount'' i128_text eo_amount
     (with_field ''expiration'' u64_form eo_expiration
     (with_field ''nonce'' u64_form eo_nonce
     (with_field ''appendix'' u128_text eo_appendix
     no_more))))))"

lemma json_form_ep_order [form_laws]: "wire_lib_ok lb \<Longrightarrow> json_form (ep_order_form lb)"
  unfolding ep_order_form_def by (intro struct_laws form_laws) (simp_all add: ep_order.make_def)

record ep_signed_order =
  eso_order :: ep_order
  eso_signature :: bytes

definition ep_signed_order_form :: "wire_lib \<Rightarrow> ep_signed_order form" where
  "ep_signed_order_form lb = struct_form ep_signed_order.make
     (with_field ''order'' (ep_order_form lb) eso_order
     (with_field ''signature'' (blob_form lb) eso_signature
     no_more))"

lemma json_form_ep_signed_order [form_laws]: "wire_lib_ok lb \<Longrightarrow> json_form (ep_signed_order_form lb)"
  unfolding ep_signed_order_form_def by (intro struct_laws form_laws) (simp_all add: ep_signed_order.make_def)

record ep_create_isolated_subaccount =
  ecisx_order :: ep_order
  ecisx_product_id :: u32
  ecisx_signature :: bytes

definition ep_create_isolated_subaccount_form :: "wire_lib \<Rightarrow> ep_create_isolated_subaccount form" where
  "ep_create_isolated_subaccount_form lb = struct_form ep_create_isolated_subaccount.make
     (with_field ''order'' (ep_order_form lb) ecisx_order
     (with_field ''product_id'' u32_form ecisx_product_id
     (with_field ''signature'' (blob_form lb) ecisx_signature
     no_more)))"

lemma json_form_ep_create_isolated_subaccount [form_laws]: "wire_lib_ok lb \<Longrightarrow> json_form (ep_create_isolated_subaccount_form lb)"
  unfolding ep_create_isolated_subaccount_form_def by (intro struct_laws form_laws) (simp_all add: ep_create_isolated_subaccount.make_def)

record ep_delete_nlp_pool =
  ednp_pool_id :: u64

definition ep_delete_nlp_pool_form :: "ep_delete_nlp_pool form" where
  "ep_delete_nlp_pool_form = struct_form ep_delete_nlp_pool.make
     (with_field ''pool_id'' u64_form ednp_pool_id
     no_more)"

lemma json_form_ep_delete_nlp_pool [form_laws]: "json_form ep_delete_nlp_pool_form"
  unfolding ep_delete_nlp_pool_form_def by (intro struct_laws form_laws) (simp_all add: ep_delete_nlp_pool.make_def)

record ep_delist_product =
  edp_product_id :: u32
  edp_price_x18 :: i128
  edp_subaccounts :: "bytes list"

definition ep_delist_product_form :: "wire_lib \<Rightarrow> ep_delist_product form" where
  "ep_delist_product_form lb = struct_form ep_delist_product.make
     (with_field ''product_id'' u32_form edp_product_id
     (with_field ''price_x18'' i128_text edp_price_x18
     (with_field ''subaccounts'' (vec_bytes32_form lb) edp_subaccounts
     no_more)))"

lemma json_form_ep_delist_product [form_laws]: "wire_lib_ok lb \<Longrightarrow> json_form (ep_delist_product_form lb)"
  unfolding ep_delist_product_form_def by (intro struct_laws form_laws) (simp_all add: ep_delist_product.make_def)

record ep_deposit_collateral =
  edc_sender :: bytes
  edc_product_id :: u32
  edc_amount :: u128

definition ep_deposit_collateral_form :: "wire_lib \<Rightarrow> ep_deposit_collateral form" where
  "ep_deposit_collateral_form lb = struct_form ep_deposit_collateral.make
     (with_field ''sender'' (bytes32_form lb) edc_sender
     (with_field ''product_id'' u32_form edc_product_id
     (with_field ''amount'' u128_text edc_amount
     no_more)))"

lemma json_form_ep_deposit_collateral [form_laws]: "wire_lib_ok lb \<Longrightarrow> json_form (ep_deposit_collateral_form lb)"
  unfolding ep_deposit_collateral_form_def by (intro struct_laws form_laws) (simp_all add: ep_deposit_collateral.make_def)

record ep_link_signer =
  els_sender :: bytes
  els_signer :: bytes
  els_nonce :: u64

definition ep_link_signer_form :: "wire_lib \<Rightarrow> ep_link_signer form" where
  "ep_link_signer_form lb = struct_form ep_link_signer.make
     (with_field ''sender'' (bytes32_form lb) els_sender
     (with_field ''signer'' (bytes32_form lb) els_signer
     (with_field ''nonce'' u64_form els_nonce
     no_more)))"

lemma json_form_ep_link_signer [form_laws]: "wire_lib_ok lb \<Longrightarrow> json_form (ep_link_signer_form lb)"
  unfolding ep_link_signer_form_def by (intro struct_laws form_laws) (simp_all add: ep_link_signer.make_def)

record ep_liquidate_subaccount =
  elsx_sender :: bytes
  elsx_liquidatee :: bytes
  elsx_product_id :: u32
  elsx_is_encoded_spread :: bool
  elsx_amount :: i128
  elsx_nonce :: u64

definition ep_liquidate_subaccount_form :: "wire_lib \<Rightarrow> ep_liquidate_subaccount form" where
  "ep_liquidate_subaccount_form lb = struct_form ep_liquidate_subaccount.make
     (with_field ''sender'' (bytes32_form lb) elsx_sender
     (with_field ''liquidatee'' (bytes32_form lb) elsx_liquidatee
     (with_field ''product_id'' u32_form elsx_product_id
     (with_field ''is_encoded_spread'' bool_form elsx_is_encoded_spread
     (with_field ''amount'' i128_text elsx_amount
     (with_field ''nonce'' u64_form elsx_nonce
     no_more))))))"

lemma json_form_ep_liquidate_subaccount [form_laws]: "wire_lib_ok lb \<Longrightarrow> json_form (ep_liquidate_subaccount_form lb)"
  unfolding ep_liquidate_subaccount_form_def by (intro struct_laws form_laws) (simp_all add: ep_liquidate_subaccount.make_def)

record ep_manual_assert =
  ema_insurance :: i128
  ema_spot_states :: "bytes list"
  ema_perp_states :: "bytes list"

definition ep_manual_assert_form :: "wire_lib \<Rightarrow> ep_manual_assert form" where
  "ep_manual_assert_form lb = struct_form ep_manual_assert.make
     (with_field ''insurance'' i128_text ema_insurance
     (with_field ''spot_states'' (list_form (blob_form lb)) ema_spot_states
     (with_field ''perp_states'' (list_form (blob_form lb)) ema_perp_states
     no_more)))"

lemma json_form_ep_manual_assert [form_laws]: "wire_lib_ok lb \<Longrightarrow> json_form (ep_manual_assert_form lb)"
  unfolding ep_manual_assert_form_def by (intro struct_laws form_laws) (simp_all add: ep_manual_assert.make_def)

record ep_match_orders =
  emo_product_id :: u32
  emo_taker :: ep_signed_order
  emo_maker :: ep_signed_order

definition ep_match_orders_form :: "wire_lib \<Rightarrow> ep_match_orders form" where
  "ep_match_orders_form lb = struct_form ep_match_orders.make
     (with_field ''product_id'' u32_form emo_product_id
     (with_field ''taker'' (ep_signed_order_form lb) emo_taker
     (with_field ''maker'' (ep_signed_order_form lb) emo_maker
     no_more)))"

lemma json_form_ep_match_orders [form_laws]: "wire_lib_ok lb \<Longrightarrow> json_form (ep_match_orders_form lb)"
  unfolding ep_match_orders_form_def by (intro struct_laws form_laws) (simp_all add: ep_match_orders.make_def)

record ep_match_orders_with_amount =
  emowa_match_orders :: ep_match_orders
  emowa_taker_amount_delta :: i128

definition ep_match_orders_with_amount_form :: "wire_lib \<Rightarrow> ep_match_orders_with_amount form" where
  "ep_match_orders_with_amount_form lb = struct_form ep_match_orders_with_amount.make
     (with_field ''match_orders'' (ep_match_orders_form lb) emowa_match_orders
     (with_field ''taker_amount_delta'' i128_text emowa_taker_amount_delta
     no_more))"

lemma json_form_ep_match_orders_with_amount [form_laws]: "wire_lib_ok lb \<Longrightarrow> json_form (ep_match_orders_with_amount_form lb)"
  unfolding ep_match_orders_with_amount_form_def by (intro struct_laws form_laws) (simp_all add: ep_match_orders_with_amount.make_def)

record ep_mint_nlp =
  emn_sender :: bytes
  emn_quote_amount :: u128
  emn_nonce :: u64

definition ep_mint_nlp_form :: "wire_lib \<Rightarrow> ep_mint_nlp form" where
  "ep_mint_nlp_form lb = struct_form ep_mint_nlp.make
     (with_field ''sender'' (bytes32_form lb) emn_sender
     (with_field ''quote_amount'' u128_text emn_quote_amount
     (with_field ''nonce'' u64_form emn_nonce
     no_more)))"

lemma json_form_ep_mint_nlp [form_laws]: "wire_lib_ok lb \<Longrightarrow> json_form (ep_mint_nlp_form lb)"
  unfolding ep_mint_nlp_form_def by (intro struct_laws form_laws) (simp_all add: ep_mint_nlp.make_def)

record ep_perp_tick =
  ept_time :: u128
  ept_avg_price_diffs :: "i128 list"

definition ep_perp_tick_form :: "ep_perp_tick form" where
  "ep_perp_tick_form = struct_form ep_perp_tick.make
     (with_field ''time'' u128_text ept_time
     (with_field ''avg_price_diffs'' vec_i128_form ept_avg_price_diffs
     no_more))"

lemma json_form_ep_perp_tick [form_laws]: "json_form ep_perp_tick_form"
  unfolding ep_perp_tick_form_def by (intro struct_laws form_laws) (simp_all add: ep_perp_tick.make_def)

record ep_rebalance_x_withdraw =
  erxw_product_id :: u32
  erxw_amount :: u128
  erxw_send_to :: bytes

definition ep_rebalance_x_withdraw_form :: "wire_lib \<Rightarrow> ep_rebalance_x_withdraw form" where
  "ep_rebalance_x_withdraw_form lb = struct_form ep_rebalance_x_withdraw.make
     (with_field ''product_id'' u32_form erxw_product_id
     (with_field ''amount'' u128_text erxw_amount
     (with_field ''send_to'' (address_form lb) erxw_send_to
     no_more)))"

lemma json_form_ep_rebalance_x_withdraw [form_laws]: "wire_lib_ok lb \<Longrightarrow> json_form (ep_rebalance_x_withdraw_form lb)"
  unfolding ep_rebalance_x_withdraw_form_def by (intro struct_laws form_laws) (simp_all add: ep_rebalance_x_withdraw.make_def)

record ep_settle_pnl =
  esp_subaccounts :: "bytes list"
  esp_product_ids :: "int list"

definition ep_settle_pnl_form :: "wire_lib \<Rightarrow> ep_settle_pnl form" where
  "ep_settle_pnl_form lb = struct_form ep_settle_pnl.make
     (with_field ''subaccounts'' (vec_bytes32_form lb) esp_subaccounts
     (with_field ''product_ids'' (list_form (u256_form lb)) esp_product_ids
     no_more))"

lemma json_form_ep_settle_pnl [form_laws]: "wire_lib_ok lb \<Longrightarrow> json_form (ep_settle_pnl_form lb)"
  unfolding ep_settle_pnl_form_def by (intro struct_laws form_laws) (simp_all add: ep_settle_pnl.make_def)

record ep_spot_tick =
  est_time :: u128

definition ep_spot_tick_form :: "ep_spot_tick form" where
  "ep_spot_tick_form = struct_form ep_spot_tick.make
     (with_field ''time'' u128_text est_time
     no_more)"

lemma json_form_ep_spot_tick [form_laws]: "json_form ep_spot_tick_form"
  unfolding ep_spot_tick_form_def by (intro struct_laws form_laws) (simp_all add: ep_spot_tick.make_def)

record ep_transfer_quote =
  etq_sender :: bytes
  etq_recipient :: bytes
  etq_amount :: u128
  etq_nonce :: u64

definition ep_transfer_quote_form :: "wire_lib \<Rightarrow> ep_transfer_quote form" where
  "ep_transfer_quote_form lb = struct_form ep_transfer_quote.make
     (with_field ''sender'' (bytes32_form lb) etq_sender
     (with_field ''recipient'' (bytes32_form lb) etq_recipient
     (with_field ''amount'' u128_text etq_amount
     (with_field ''nonce'' u64_form etq_nonce
     no_more))))"

lemma json_form_ep_transfer_quote [form_laws]: "wire_lib_ok lb \<Longrightarrow> json_form (ep_transfer_quote_form lb)"
  unfolding ep_transfer_quote_form_def by (intro struct_laws form_laws) (simp_all add: ep_transfer_quote.make_def)

record ep_update_builder =
  eub_builder_id :: u32
  eub_owner :: bytes
  eub_default_fee_tier :: u32
  eub_lowest_fee_rate :: i128
  eub_highest_fee_rate :: i128

definition ep_update_builder_form :: "wire_lib \<Rightarrow> ep_update_builder form" where
  "ep_update_builder_form lb = struct_form ep_update_builder.make
     (with_field ''builder_id'' u32_form eub_builder_id
     (with_field ''owner'' (address_form lb) eub_owner
     (with_field ''default_fee_tier'' u32_form eub_default_fee_tier
     (with_field ''lowest_fee_rate'' i128_text eub_lowest_fee_rate
     (with_field ''highest_fee_rate'' i128_text eub_highest_fee_rate
     no_more)))))"

lemma json_form_ep_update_builder [form_laws]: "wire_lib_ok lb \<Longrightarrow> json_form (ep_update_builder_form lb)"
  unfolding ep_update_builder_form_def by (intro struct_laws form_laws) (simp_all add: ep_update_builder.make_def)

record ep_update_fee_tier =
  euft_user :: bytes
  euft_new_tier :: u32

definition ep_update_fee_tier_form :: "wire_lib \<Rightarrow> ep_update_fee_tier form" where
  "ep_update_fee_tier_form lb = struct_form ep_update_fee_tier.make
     (with_field ''user'' (address_form lb) euft_user
     (with_field ''new_tier'' u32_form euft_new_tier
     no_more))"

lemma json_form_ep_update_fee_tier [form_laws]: "wire_lib_ok lb \<Longrightarrow> json_form (ep_update_fee_tier_form lb)"
  unfolding ep_update_fee_tier_form_def by (intro struct_laws form_laws) (simp_all add: ep_update_fee_tier.make_def)

record ep_update_nlp_pool =
  eunp_pool_id :: u64
  eunp_owner :: bytes
  eunp_balance_weight_x18 :: u128

definition ep_update_nlp_pool_form :: "wire_lib \<Rightarrow> ep_update_nlp_pool form" where
  "ep_update_nlp_pool_form lb = struct_form ep_update_nlp_pool.make
     (with_field ''pool_id'' u64_form eunp_pool_id
     (with_field ''owner'' (address_form lb) eunp_owner
     (with_field ''balance_weight_x18'' u128_text eunp_balance_weight_x18
     no_more)))"

lemma json_form_ep_update_nlp_pool [form_laws]: "wire_lib_ok lb \<Longrightarrow> json_form (ep_update_nlp_pool_form lb)"
  unfolding ep_update_nlp_pool_form_def by (intro struct_laws form_laws) (simp_all add: ep_update_nlp_pool.make_def)

record ep_update_price =
  eup_product_id :: u32
  eup_price_x18 :: i128

definition ep_update_price_form :: "ep_update_price form" where
  "ep_update_price_form = struct_form ep_update_price.make
     (with_field ''product_id'' u32_form eup_product_id
     (with_field ''price_x18'' i128_text eup_price_x18
     no_more))"

lemma json_form_ep_update_price [form_laws]: "json_form ep_update_price_form"
  unfolding ep_update_price_form_def by (intro struct_laws form_laws) (simp_all add: ep_update_price.make_def)

record ep_update_tier_fee_rates =
  eutfr_tier :: u32
  eutfr_product_id :: u32
  eutfr_maker_rate_x18 :: i128
  eutfr_taker_rate_x18 :: i128

definition ep_update_tier_fee_rates_form :: "ep_update_tier_fee_rates form" where
  "ep_update_tier_fee_rates_form = struct_form ep_update_tier_fee_rates.make
     (with_field ''tier'' u32_form eutfr_tier
     (with_field ''product_id'' u32_form eutfr_product_id
     (with_field ''maker_rate_x18'' i128_text eutfr_maker_rate_x18
     (with_field ''taker_rate_x18'' i128_text eutfr_taker_rate_x18
     no_more))))"

lemma json_form_ep_update_tier_fee_rates [form_laws]: "json_form ep_update_tier_fee_rates_form"
  unfolding ep_update_tier_fee_rates_form_def by (intro struct_laws form_laws) (simp_all add: ep_update_tier_fee_rates.make_def)

record ep_withdraw_collateral =
  ewc_sender :: bytes
  ewc_product_id :: u32
  ewc_amount :: u128
  ewc_nonce :: u64

definition ep_withdraw_collateral_form :: "wire_lib \<Rightarrow> ep_withdraw_collateral form" where
  "ep_withdraw_collateral_form lb = struct_form ep_withdraw_collateral.make
     (with_field ''sender'' (bytes32_form lb) ewc_sender
     (with_field ''product_id'' u32_form ewc_product_id
     (with_field ''amount'' u128_text ewc_amount
     (with_field ''nonce'' u64_form ewc_nonce
     no_more))))"

lemma json_form_ep_withdraw_collateral [form_laws]: "wire_lib_ok lb \<Longrightarrow> json_form (ep_withdraw_collateral_form lb)"
  unfolding ep_withdraw_collateral_form_def by (intro struct_laws form_laws) (simp_all add: ep_withdraw_collateral.make_def)

record ep_withdraw_insurance =
  ewi_amount :: u128
  ewi_send_to :: bytes

definition ep_withdraw_insurance_form :: "wire_lib \<Rightarrow> ep_withdraw_insurance form" where
  "ep_withdraw_insurance_form lb = struct_form ep_withdraw_insurance.make
     (with_field ''amount'' u128_text ewi_amount
     (with_field ''send_to'' (address_form lb) ewi_send_to
     no_more))"

lemma json_form_ep_withdraw_insurance [form_laws]: "wire_lib_ok lb \<Longrightarrow> json_form (ep_withdraw_insurance_form lb)"
  unfolding ep_withdraw_insurance_form_def by (intro struct_laws form_laws) (simp_all add: ep_withdraw_insurance.make_def)

record ep_signed_cancellation =
  esc_cancellation :: ep_cancellation
  esc_signature :: bytes

definition ep_signed_cancellation_form :: "wire_lib \<Rightarrow> ep_signed_cancellation form" where
  "ep_signed_cancellation_form lb = struct_form ep_signed_cancellation.make
     (with_field ''cancellation'' (ep_cancellation_form lb) esc_cancellation
     (with_field ''signature'' (blob_form lb) esc_signature
     no_more))"

lemma json_form_ep_signed_cancellation [form_laws]: "wire_lib_ok lb \<Longrightarrow> json_form (ep_signed_cancellation_form lb)"
  unfolding ep_signed_cancellation_form_def by (intro struct_laws form_laws) (simp_all add: ep_signed_cancellation.make_def)

record ep_signed_cancellation_products =
  escp_cancellation_products :: ep_cancellation_products
  escp_signature :: bytes

definition ep_signed_cancellation_products_form :: "wire_lib \<Rightarrow> ep_signed_cancellation_products form" where
  "ep_signed_cancellation_products_form lb = struct_form ep_signed_cancellation_products.make
     (with_field ''cancellation_products'' (ep_cancellation_products_form lb) escp_cancellation_products
     (with_field ''signature'' (blob_form lb) escp_signature
     no_more))"

lemma json_form_ep_signed_cancellation_products [form_laws]: "wire_lib_ok lb \<Longrightarrow> json_form (ep_signed_cancellation_products_form lb)"
  unfolding ep_signed_cancellation_products_form_def by (intro struct_laws form_laws) (simp_all add: ep_signed_cancellation_products.make_def)

record ep_signed_link_signer =
  esls_tx :: ep_link_signer
  esls_signature :: bytes

definition ep_signed_link_signer_form :: "wire_lib \<Rightarrow> ep_signed_link_signer form" where
  "ep_signed_link_signer_form lb = struct_form ep_signed_link_signer.make
     (with_field ''tx'' (ep_link_signer_form lb) esls_tx
     (with_field ''signature'' (blob_form lb) esls_signature
     no_more))"

lemma json_form_ep_signed_link_signer [form_laws]: "wire_lib_ok lb \<Longrightarrow> json_form (ep_signed_link_signer_form lb)"
  unfolding ep_signed_link_signer_form_def by (intro struct_laws form_laws) (simp_all add: ep_signed_link_signer.make_def)

text \<open>The bindings of the off-chain exchange have order structs of their own.\<close>

record ox_order =
  oxo_sender :: bytes
  oxo_price_x18 :: i128
  oxo_amount :: i128
  oxo_expiration :: u64
  oxo_nonce :: u64
  oxo_appendix :: u128

definition ox_order_form :: "wire_lib \<Rightarrow> ox_order form" where
  "ox_order_form lb = struct_form ox_order.make
     (with_field ''sender'' (bytes32_form lb) oxo_sender
     (with_field ''price_x18'' i128_text oxo_price_x18
     (with_field ''amount'' i128_text oxo_amount
     (with_field ''expiration'' u64_form oxo_expiration
     (with_field ''nonce'' u64_form oxo_nonce
     (with_field ''appendix'' u128_text oxo_appendix
     no_more))))))"

lemma json_form_ox_order [form_laws]: "wire_lib_ok lb \<Longrightarrow> json_form (ox_order_form lb)"
  unfolding ox_order_form_def by (intro struct_laws form_laws) (simp_all add: ox_order.make_def)

record ox_signed_order =
  oxs_order :: ox_order
  oxs_signature :: bytes

definition ox_signed_order_form :: "wire_lib \<Rightarrow> ox_signed_order form" where
  "ox_signed_order_form lb = struct_form ox_signed_order.make
     (with_field ''order'' (ox_order_form lb) oxs_order
     (with_field ''signature'' (blob_form lb) oxs_signature
     no_more))"

lemma json_form_ox_signed_order [form_laws]: "wire_lib_ok lb \<Longrightarrow> json_form (ox_signed_order_form lb)"
  unfolding ox_signed_order_form_def by (intro struct_laws form_laws) (simp_all add: ox_signed_order.make_def)

subsection \<open>Transactions\<close>

text \<open>Other stands for transactions the SDK does not know; it has no type.\<close>

datatype (plugins only: code size) nado_tx =
    Nt_LiquidateSubaccount ep_liquidate_subaccount
  | Nt_LinkSigner ep_link_signer
  | Nt_DepositCollateral ep_deposit_collateral
  | Nt_WithdrawCollateral ep_withdraw_collateral
  | Nt_SettlePnl ep_settle_pnl
  | Nt_PerpTick ep_perp_tick
  | Nt_SpotTick ep_spot_tick
  | Nt_UpdatePrice ep_update_price
  | Nt_ManualAssert ep_manual_assert
  | Nt_MatchOrders ep_match_orders
  | Nt_MatchOrdersWithAmount ep_match_orders_with_amount
  | Nt_ExecuteSlowMode
  | Nt_TransferQuote ep_transfer_quote
  | Nt_RebalanceXWithdraw ep_rebalance_x_withdraw
  | Nt_DumpFees
  | Nt_AssertCode ep_assert_code
  | Nt_WithdrawInsurance ep_withdraw_insurance
  | Nt_CreateIsolatedSubaccount ep_create_isolated_subaccount
  | Nt_DelistProduct ep_delist_product
  | Nt_MintNlp ep_mint_nlp
  | Nt_BurnNlp ep_burn_nlp
  | Nt_UpdateTierFeeRates ep_update_tier_fee_rates
  | Nt_UpdateFeeTier ep_update_fee_tier
  | Nt_AddNlpPool ep_add_nlp_pool
  | Nt_UpdateNlpPool ep_update_nlp_pool
  | Nt_DeleteNlpPool ep_delete_nlp_pool
  | Nt_AssertProduct ep_assert_product
  | Nt_CloseIsolatedSubaccount ep_close_isolated_subaccount
  | Nt_UpdateBuilder ep_update_builder
  | Nt_ClaimBuilderFee ep_claim_builder_fee
  | Nt_Other

fun tx_type_of :: "nado_tx \<Rightarrow> tx_type option" where
  "tx_type_of (Nt_LiquidateSubaccount t) = Some Tx_LiquidateSubaccount"
| "tx_type_of (Nt_LinkSigner t) = Some Tx_LinkSigner"
| "tx_type_of (Nt_DepositCollateral t) = Some Tx_DepositCollateral"
| "tx_type_of (Nt_WithdrawCollateral t) = Some Tx_WithdrawCollateral"
| "tx_type_of (Nt_SettlePnl t) = Some Tx_SettlePnl"
| "tx_type_of (Nt_PerpTick t) = Some Tx_PerpTick"
| "tx_type_of (Nt_SpotTick t) = Some Tx_SpotTick"
| "tx_type_of (Nt_UpdatePrice t) = Some Tx_UpdatePrice"
| "tx_type_of (Nt_ManualAssert t) = Some Tx_ManualAssert"
| "tx_type_of (Nt_MatchOrders t) = Some Tx_MatchOrders"
| "tx_type_of (Nt_MatchOrdersWithAmount t) = Some Tx_MatchOrdersWithAmount"
| "tx_type_of Nt_ExecuteSlowMode = Some Tx_ExecuteSlowMode"
| "tx_type_of (Nt_TransferQuote t) = Some Tx_TransferQuote"
| "tx_type_of (Nt_RebalanceXWithdraw t) = Some Tx_RebalanceXWithdraw"
| "tx_type_of Nt_DumpFees = Some Tx_DumpFees"
| "tx_type_of (Nt_AssertCode t) = Some Tx_AssertCode"
| "tx_type_of (Nt_WithdrawInsurance t) = Some Tx_WithdrawInsurance"
| "tx_type_of (Nt_CreateIsolatedSubaccount t) = Some Tx_CreateIsolatedSubaccount"
| "tx_type_of (Nt_DelistProduct t) = Some Tx_DelistProduct"
| "tx_type_of (Nt_MintNlp t) = Some Tx_MintNlp"
| "tx_type_of (Nt_BurnNlp t) = Some Tx_BurnNlp"
| "tx_type_of (Nt_UpdateTierFeeRates t) = Some Tx_UpdateTierFeeRates"
| "tx_type_of (Nt_UpdateFeeTier t) = Some Tx_UpdateFeeTier"
| "tx_type_of (Nt_AddNlpPool t) = Some Tx_AddNlpPool"
| "tx_type_of (Nt_UpdateNlpPool t) = Some Tx_UpdateNlpPool"
| "tx_type_of (Nt_DeleteNlpPool t) = Some Tx_DeleteNlpPool"
| "tx_type_of (Nt_AssertProduct t) = Some Tx_AssertProduct"
| "tx_type_of (Nt_CloseIsolatedSubaccount t) = Some Tx_CloseIsolatedSubaccount"
| "tx_type_of (Nt_UpdateBuilder t) = Some Tx_UpdateBuilder"
| "tx_type_of (Nt_ClaimBuilderFee t) = Some Tx_ClaimBuilderFee"
| "tx_type_of Nt_Other = None"

definition nado_tx_variants :: "wire_lib \<Rightarrow> (string \<times> (json option \<Rightarrow> nado_tx option)) list" where
  "nado_tx_variants lb =
     [(''liquidate_subaccount'', newtype_variant (ep_liquidate_subaccount_form lb) Nt_LiquidateSubaccount),
      (''link_signer'', newtype_variant (ep_link_signer_form lb) Nt_LinkSigner),
      (''deposit_collateral'', newtype_variant (ep_deposit_collateral_form lb) Nt_DepositCollateral),
      (''withdraw_collateral'', newtype_variant (ep_withdraw_collateral_form lb) Nt_WithdrawCollateral),
      (''settle_pnl'', newtype_variant (ep_settle_pnl_form lb) Nt_SettlePnl),
      (''perp_tick'', newtype_variant ep_perp_tick_form Nt_PerpTick),
      (''spot_tick'', newtype_variant ep_spot_tick_form Nt_SpotTick),
      (''update_price'', newtype_variant ep_update_price_form Nt_UpdatePrice),
      (''manual_assert'', newtype_variant (ep_manual_assert_form lb) Nt_ManualAssert),
      (''match_orders'', newtype_variant (ep_match_orders_form lb) Nt_MatchOrders),
      (''match_orders_with_amount'', newtype_variant (ep_match_orders_with_amount_form lb) Nt_MatchOrdersWithAmount),
      (''execute_slow_mode'', unit_value Nt_ExecuteSlowMode),
      (''transfer_quote'', newtype_variant (ep_transfer_quote_form lb) Nt_TransferQuote),
      (''rebalance_x_withdraw'', newtype_variant (ep_rebalance_x_withdraw_form lb) Nt_RebalanceXWithdraw),
      (''dump_fees'', unit_value Nt_DumpFees),
      (''assert_code'', newtype_variant (ep_assert_code_form lb) Nt_AssertCode),
      (''withdraw_insurance'', newtype_variant (ep_withdraw_insurance_form lb) Nt_WithdrawInsurance),
      (''create_isolated_subaccount'', newtype_variant (ep_create_isolated_subaccount_form lb) Nt_CreateIsolatedSubaccount),
      (''delist_product'', newtype_variant (ep_delist_product_form lb) Nt_DelistProduct),
      (''mint_nlp'', newtype_variant (ep_mint_nlp_form lb) Nt_MintNlp),
      (''burn_nlp'', newtype_variant (ep_burn_nlp_form lb) Nt_BurnNlp),
      (''update_tier_fee_rates'', newtype_variant ep_update_tier_fee_rates_form Nt_UpdateTierFeeRates),
      (''update_fee_tier'', newtype_variant (ep_update_fee_tier_form lb) Nt_UpdateFeeTier),
      (''add_nlp_pool'', newtype_variant (ep_add_nlp_pool_form lb) Nt_AddNlpPool),
      (''update_nlp_pool'', newtype_variant (ep_update_nlp_pool_form lb) Nt_UpdateNlpPool),
      (''delete_nlp_pool'', newtype_variant ep_delete_nlp_pool_form Nt_DeleteNlpPool),
      (''assert_product'', newtype_variant (ep_assert_product_form lb) Nt_AssertProduct),
      (''close_isolated_subaccount'', newtype_variant (ep_close_isolated_subaccount_form lb) Nt_CloseIsolatedSubaccount),
      (''update_builder'', newtype_variant (ep_update_builder_form lb) Nt_UpdateBuilder),
      (''claim_builder_fee'', newtype_variant (ep_claim_builder_fee_form lb) Nt_ClaimBuilderFee),
      (''other'', unit_value Nt_Other)]"

definition nado_tx_form :: "wire_lib \<Rightarrow> nado_tx form" where
  "nado_tx_form lb =
     \<lparr>fm_write = (\<lambda>t. case t of
           Nt_LiquidateSubaccount t \<Rightarrow> tagged ''liquidate_subaccount'' (ep_liquidate_subaccount_form lb) t
         | Nt_LinkSigner t \<Rightarrow> tagged ''link_signer'' (ep_link_signer_form lb) t
         | Nt_DepositCollateral t \<Rightarrow> tagged ''deposit_collateral'' (ep_deposit_collateral_form lb) t
         | Nt_WithdrawCollateral t \<Rightarrow> tagged ''withdraw_collateral'' (ep_withdraw_collateral_form lb) t
         | Nt_SettlePnl t \<Rightarrow> tagged ''settle_pnl'' (ep_settle_pnl_form lb) t
         | Nt_PerpTick t \<Rightarrow> tagged ''perp_tick'' ep_perp_tick_form t
         | Nt_SpotTick t \<Rightarrow> tagged ''spot_tick'' ep_spot_tick_form t
         | Nt_UpdatePrice t \<Rightarrow> tagged ''update_price'' ep_update_price_form t
         | Nt_ManualAssert t \<Rightarrow> tagged ''manual_assert'' (ep_manual_assert_form lb) t
         | Nt_MatchOrders t \<Rightarrow> tagged ''match_orders'' (ep_match_orders_form lb) t
         | Nt_MatchOrdersWithAmount t \<Rightarrow> tagged ''match_orders_with_amount'' (ep_match_orders_with_amount_form lb) t
         | Nt_ExecuteSlowMode \<Rightarrow> JString ''execute_slow_mode''
         | Nt_TransferQuote t \<Rightarrow> tagged ''transfer_quote'' (ep_transfer_quote_form lb) t
         | Nt_RebalanceXWithdraw t \<Rightarrow> tagged ''rebalance_x_withdraw'' (ep_rebalance_x_withdraw_form lb) t
         | Nt_DumpFees \<Rightarrow> JString ''dump_fees''
         | Nt_AssertCode t \<Rightarrow> tagged ''assert_code'' (ep_assert_code_form lb) t
         | Nt_WithdrawInsurance t \<Rightarrow> tagged ''withdraw_insurance'' (ep_withdraw_insurance_form lb) t
         | Nt_CreateIsolatedSubaccount t \<Rightarrow> tagged ''create_isolated_subaccount'' (ep_create_isolated_subaccount_form lb) t
         | Nt_DelistProduct t \<Rightarrow> tagged ''delist_product'' (ep_delist_product_form lb) t
         | Nt_MintNlp t \<Rightarrow> tagged ''mint_nlp'' (ep_mint_nlp_form lb) t
         | Nt_BurnNlp t \<Rightarrow> tagged ''burn_nlp'' (ep_burn_nlp_form lb) t
         | Nt_UpdateTierFeeRates t \<Rightarrow> tagged ''update_tier_fee_rates'' ep_update_tier_fee_rates_form t
         | Nt_UpdateFeeTier t \<Rightarrow> tagged ''update_fee_tier'' (ep_update_fee_tier_form lb) t
         | Nt_AddNlpPool t \<Rightarrow> tagged ''add_nlp_pool'' (ep_add_nlp_pool_form lb) t
         | Nt_UpdateNlpPool t \<Rightarrow> tagged ''update_nlp_pool'' (ep_update_nlp_pool_form lb) t
         | Nt_DeleteNlpPool t \<Rightarrow> tagged ''delete_nlp_pool'' ep_delete_nlp_pool_form t
         | Nt_AssertProduct t \<Rightarrow> tagged ''assert_product'' (ep_assert_product_form lb) t
         | Nt_CloseIsolatedSubaccount t \<Rightarrow> tagged ''close_isolated_subaccount'' (ep_close_isolated_subaccount_form lb) t
         | Nt_UpdateBuilder t \<Rightarrow> tagged ''update_builder'' (ep_update_builder_form lb) t
         | Nt_ClaimBuilderFee t \<Rightarrow> tagged ''claim_builder_fee'' (ep_claim_builder_fee_form lb) t
         | Nt_Other \<Rightarrow> JString ''other''),
      fm_read = (enum_read (nado_tx_variants lb)),
      fm_typed = (\<lambda>t. case t of
           Nt_LiquidateSubaccount t \<Rightarrow> fm_typed (ep_liquidate_subaccount_form lb) t
         | Nt_LinkSigner t \<Rightarrow> fm_typed (ep_link_signer_form lb) t
         | Nt_DepositCollateral t \<Rightarrow> fm_typed (ep_deposit_collateral_form lb) t
         | Nt_WithdrawCollateral t \<Rightarrow> fm_typed (ep_withdraw_collateral_form lb) t
         | Nt_SettlePnl t \<Rightarrow> fm_typed (ep_settle_pnl_form lb) t
         | Nt_PerpTick t \<Rightarrow> fm_typed ep_perp_tick_form t
         | Nt_SpotTick t \<Rightarrow> fm_typed ep_spot_tick_form t
         | Nt_UpdatePrice t \<Rightarrow> fm_typed ep_update_price_form t
         | Nt_ManualAssert t \<Rightarrow> fm_typed (ep_manual_assert_form lb) t
         | Nt_MatchOrders t \<Rightarrow> fm_typed (ep_match_orders_form lb) t
         | Nt_MatchOrdersWithAmount t \<Rightarrow> fm_typed (ep_match_orders_with_amount_form lb) t
         | Nt_TransferQuote t \<Rightarrow> fm_typed (ep_transfer_quote_form lb) t
         | Nt_RebalanceXWithdraw t \<Rightarrow> fm_typed (ep_rebalance_x_withdraw_form lb) t
         | Nt_AssertCode t \<Rightarrow> fm_typed (ep_assert_code_form lb) t
         | Nt_WithdrawInsurance t \<Rightarrow> fm_typed (ep_withdraw_insurance_form lb) t
         | Nt_CreateIsolatedSubaccount t \<Rightarrow> fm_typed (ep_create_isolated_subaccount_form lb) t
         | Nt_DelistProduct t \<Rightarrow> fm_typed (ep_delist_product_form lb) t
         | Nt_MintNlp t \<Rightarrow> fm_typed (ep_mint_nlp_form lb) t
         | Nt_BurnNlp t \<Rightarrow> fm_typed (ep_burn_nlp_form lb) t
         | Nt_UpdateTierFeeRates t \<Rightarrow> fm_typed ep_update_tier_fee_rates_form t
         | Nt_UpdateFeeTier t \<Rightarrow> fm_typed (ep_update_fee_tier_form lb) t
         | Nt_AddNlpPool t \<Rightarrow> fm_typed (ep_add_nlp_pool_form lb) t
         | Nt_UpdateNlpPool t \<Rightarrow> fm_typed (ep_update_nlp_pool_form lb) t
         | Nt_DeleteNlpPool t \<Rightarrow> fm_typed ep_delete_nlp_pool_form t
         | Nt_AssertProduct t \<Rightarrow> fm_typed (ep_assert_product_form lb) t
         | Nt_CloseIsolatedSubaccount t \<Rightarrow> fm_typed (ep_close_isolated_subaccount_form lb) t
         | Nt_UpdateBuilder t \<Rightarrow> fm_typed (ep_update_builder_form lb) t
         | Nt_ClaimBuilderFee t \<Rightarrow> fm_typed (ep_claim_builder_fee_form lb) t
         | _ \<Rightarrow> True)\<rparr>"

lemma nado_tx_tags:
  "distinct (map fst (nado_tx_variants lb))"
  unfolding nado_tx_variants_def list.map fst_conv by code_simp

lemma nado_tx_read_write:
  "wire_lib_ok lb \<Longrightarrow> fm_typed (nado_tx_form lb) t \<Longrightarrow>
   fm_read (nado_tx_form lb) (fm_write (nado_tx_form lb) t) = Some t"
  apply (cases t; simp only: nado_tx_form_def form.simps nado_tx.case)
  apply (rule enum_read_member [OF nado_tx_tags], simp only: nado_tx_variants_def list.set,
      (rule insertI1 | rule insertI2)+, simp only: newtype_variant_written form_laws enum_read_unit)+
  done

lemma json_form_nado_tx [form_laws]: "wire_lib_ok lb \<Longrightarrow> json_form (nado_tx_form lb)"
  by unfold_locales (rule nado_tx_read_write)

text \<open>The type of a transaction by its name.\<close>

fun tx_type_name :: "tx_type \<Rightarrow> string" where
  "tx_type_name Tx_LiquidateSubaccount = ''liquidate_subaccount''"
| "tx_type_name Tx_DepositCollateral = ''deposit_collateral''"
| "tx_type_name Tx_WithdrawCollateral = ''withdraw_collateral''"
| "tx_type_name Tx_SpotTick = ''spot_tick''"
| "tx_type_name Tx_UpdatePrice = ''update_price''"
| "tx_type_name Tx_SettlePnl = ''settle_pnl''"
| "tx_type_name Tx_MatchOrders = ''match_orders''"
| "tx_type_name Tx_DepositInsurance = ''deposit_insurance''"
| "tx_type_name Tx_ExecuteSlowMode = ''execute_slow_mode''"
| "tx_type_name Tx_DumpFees = ''dump_fees''"
| "tx_type_name Tx_PerpTick = ''perp_tick''"
| "tx_type_name Tx_ManualAssert = ''manual_assert''"
| "tx_type_name Tx_UpdateProduct = ''update_product''"
| "tx_type_name Tx_LinkSigner = ''link_signer''"
| "tx_type_name Tx_UpdateFeeTier = ''update_fee_tier''"
| "tx_type_name Tx_TransferQuote = ''transfer_quote''"
| "tx_type_name Tx_RebalanceXWithdraw = ''rebalance_x_withdraw''"
| "tx_type_name Tx_AssertCode = ''assert_code''"
| "tx_type_name Tx_WithdrawInsurance = ''withdraw_insurance''"
| "tx_type_name Tx_CreateIsolatedSubaccount = ''create_isolated_subaccount''"
| "tx_type_name Tx_DelistProduct = ''delist_product''"
| "tx_type_name Tx_MintNlp = ''mint_nlp''"
| "tx_type_name Tx_BurnNlp = ''burn_nlp''"
| "tx_type_name Tx_MatchOrdersWithAmount = ''match_orders_with_amount''"
| "tx_type_name Tx_UpdateTierFeeRates = ''update_tier_fee_rates''"
| "tx_type_name Tx_AddNlpPool = ''add_nlp_pool''"
| "tx_type_name Tx_UpdateNlpPool = ''update_nlp_pool''"
| "tx_type_name Tx_DeleteNlpPool = ''delete_nlp_pool''"
| "tx_type_name Tx_AssertProduct = ''assert_product''"
| "tx_type_name Tx_CloseIsolatedSubaccount = ''close_isolated_subaccount''"
| "tx_type_name Tx_UpdateBuilder = ''update_builder''"
| "tx_type_name Tx_ClaimBuilderFee = ''claim_builder_fee''"

definition all_tx_types :: "tx_type list" where
  "all_tx_types =
     [Tx_LiquidateSubaccount, Tx_DepositCollateral, Tx_WithdrawCollateral, Tx_SpotTick, Tx_UpdatePrice,
      Tx_SettlePnl, Tx_MatchOrders, Tx_DepositInsurance, Tx_ExecuteSlowMode, Tx_DumpFees, Tx_PerpTick,
      Tx_ManualAssert, Tx_UpdateProduct, Tx_LinkSigner, Tx_UpdateFeeTier, Tx_TransferQuote,
      Tx_RebalanceXWithdraw, Tx_AssertCode, Tx_WithdrawInsurance, Tx_CreateIsolatedSubaccount, Tx_DelistProduct,
      Tx_MintNlp, Tx_BurnNlp, Tx_MatchOrdersWithAmount, Tx_UpdateTierFeeRates, Tx_AddNlpPool, Tx_UpdateNlpPool,
      Tx_DeleteNlpPool, Tx_AssertProduct, Tx_CloseIsolatedSubaccount, Tx_UpdateBuilder, Tx_ClaimBuilderFee]"

definition tx_type_form :: "tx_type form" where
  "tx_type_form = names_form tx_type_name all_tx_types"

lemma json_form_tx_type [form_laws]: "json_form tx_type_form"
  unfolding tx_type_form_def
proof (rule json_form_names)
  show "distinct (map tx_type_name all_tx_types)" by code_simp
  fix t show "t \<in> set all_tx_types" by (cases t) (simp_all add: all_tx_types_def)
qed

subsection \<open>Messages as bindings\<close>

definition order_to_binding :: "order \<Rightarrow> ep_order" where
  "order_to_binding o' =
     \<lparr>eo_sender = ord_sender o', eo_price_x18 = ord_priceX18 o', eo_amount = ord_amount o',
      eo_expiration = ord_expiration o', eo_nonce = ord_nonce o', eo_appendix = ord_appendix o'\<rparr>"

definition order_to_offchain_binding :: "order \<Rightarrow> ox_order" where
  "order_to_offchain_binding o' =
     \<lparr>oxo_sender = ord_sender o', oxo_price_x18 = ord_priceX18 o', oxo_amount = ord_amount o',
      oxo_expiration = ord_expiration o', oxo_nonce = ord_nonce o', oxo_appendix = ord_appendix o'\<rparr>"

definition order_to_signed_binding :: "bytes \<Rightarrow> order \<Rightarrow> ep_signed_order" where
  "order_to_signed_binding signature o' = \<lparr>eso_order = order_to_binding o', eso_signature = signature\<rparr>"

definition order_to_offchain_signed_binding :: "bytes \<Rightarrow> order \<Rightarrow> ox_signed_order" where
  "order_to_offchain_signed_binding signature o' =
     \<lparr>oxs_order = order_to_offchain_binding o', oxs_signature = signature\<rparr>"

definition order_from_binding :: "ep_order \<Rightarrow> order" where
  "order_from_binding b =
     \<lparr>ord_sender = eo_sender b, ord_priceX18 = eo_price_x18 b, ord_amount = eo_amount b,
      ord_expiration = eo_expiration b, ord_nonce = eo_nonce b, ord_appendix = eo_appendix b\<rparr>"

definition cancellation_to_binding :: "cancellation \<Rightarrow> ep_cancellation" where
  "cancellation_to_binding c =
     \<lparr>ec_sender = cn_sender c, ec_product_ids = cn_productIds c, ec_digests = cn_digests c, ec_nonce = cn_nonce c\<rparr>"

definition cancellation_to_signed_binding :: "bytes \<Rightarrow> cancellation \<Rightarrow> ep_signed_cancellation" where
  "cancellation_to_signed_binding signature c =
     \<lparr>esc_cancellation = cancellation_to_binding c, esc_signature = signature\<rparr>"

definition cancellation_recv_time :: "cancellation \<Rightarrow> u64" where
  "cancellation_recv_time c = drop_bit 20 (cn_nonce c)"

definition products_to_binding :: "cancellation_products \<Rightarrow> ep_cancellation_products" where
  "products_to_binding c = \<lparr>ecp_sender = cp_sender c, ecp_product_ids = cp_productIds c, ecp_nonce = cp_nonce c\<rparr>"

definition products_to_signed_binding :: "bytes \<Rightarrow> cancellation_products \<Rightarrow> ep_signed_cancellation_products" where
  "products_to_signed_binding signature c =
     \<lparr>escp_cancellation_products = products_to_binding c, escp_signature = signature\<rparr>"

definition products_recv_time :: "cancellation_products \<Rightarrow> u64" where
  "products_recv_time c = drop_bit 20 (cp_nonce c)"

definition link_signer_to_binding :: "link_signer \<Rightarrow> ep_link_signer" where
  "link_signer_to_binding l = \<lparr>els_sender = ls_sender l, els_signer = ls_signer l, els_nonce = ls_nonce l\<rparr>"

definition link_signer_to_signed_binding :: "bytes \<Rightarrow> link_signer \<Rightarrow> ep_signed_link_signer" where
  "link_signer_to_signed_binding signature l = \<lparr>esls_tx = link_signer_to_binding l, esls_signature = signature\<rparr>"

definition link_signer_recv_time :: "link_signer \<Rightarrow> u64" where
  "link_signer_recv_time l = drop_bit 20 (ls_nonce l)"

definition liquidation_to_binding :: "liquidate_subaccount \<Rightarrow> ep_liquidate_subaccount" where
  "liquidation_to_binding l =
     \<lparr>elsx_sender = lq_sender l, elsx_liquidatee = lq_liquidatee l, elsx_product_id = lq_productId l,
      elsx_is_encoded_spread = lq_isEncodedSpread l, elsx_amount = lq_amount l, elsx_nonce = lq_nonce l\<rparr>"

definition withdrawal_to_binding :: "withdraw_collateral \<Rightarrow> ep_withdraw_collateral" where
  "withdrawal_to_binding w =
     \<lparr>ewc_sender = wc_sender w, ewc_product_id = wc_productId w, ewc_amount = wc_amount w, ewc_nonce = wc_nonce w\<rparr>"

definition mint_nlp_to_binding :: "mint_nlp \<Rightarrow> ep_mint_nlp" where
  "mint_nlp_to_binding m = \<lparr>emn_sender = mn_sender m, emn_quote_amount = mn_quoteAmount m, emn_nonce = mn_nonce m\<rparr>"

definition burn_nlp_to_binding :: "burn_nlp \<Rightarrow> ep_burn_nlp" where
  "burn_nlp_to_binding b = \<lparr>ebn_sender = bn_sender b, ebn_nlp_amount = bn_nlpAmount b, ebn_nonce = bn_nonce b\<rparr>"

definition transfer_to_binding :: "transfer_quote \<Rightarrow> ep_transfer_quote" where
  "transfer_to_binding t =
     \<lparr>etq_sender = tq_sender t, etq_recipient = tq_recipient t, etq_amount = tq_amount t, etq_nonce = tq_nonce t\<rparr>"

text \<open>The transaction that lists a product: its code and then its encoding, which is the library's.\<close>

definition assert_product ::
  "(ep_assert_product \<Rightarrow> bytes) \<Rightarrow> u32 \<Rightarrow> bool \<Rightarrow> u32 \<Rightarrow> i128 \<Rightarrow> i128 \<Rightarrow> bytes \<Rightarrow> bytes" where
  "assert_product encode pid spot quote_id size_increment min_size others_hash =
     tagged_tx Tx_AssertProduct
       (encode \<lparr>eap_product_id = pid, eap_is_spot = spot, eap_quote_id = quote_id,
          eap_size_increment = size_increment, eap_min_size = min_size, eap_others_hash = others_hash\<rparr>)"

lemmas binding_defs = order_to_binding_def order_to_offchain_binding_def order_from_binding_def
  cancellation_to_binding_def products_to_binding_def link_signer_to_binding_def liquidation_to_binding_def
  withdrawal_to_binding_def mint_nlp_to_binding_def burn_nlp_to_binding_def transfer_to_binding_def

lemma order_binding_roundtrip: "order_from_binding (order_to_binding o') = o'"
  "order_to_binding (order_from_binding b) = b"
  by (simp_all add: binding_defs)

text \<open>A binding of a well-typed message is well-typed, so the exchange's list of transactions can hold it.\<close>

lemma order_binding_typed:
  "fm_typed (ep_order_form lb) (order_to_binding o') \<longleftrightarrow> fm_typed (order_form lb) o'"
  by (simp add: ep_order_form_def order_form_def struct_form_def with_field_def with_read_def no_more_def
      binding_defs primitive_defs)

text \<open>A transaction's JSON form is tagged with the name of its type, and its type has a code of its own.\<close>

lemma tx_tag_is_type:
  "tx_type_of t = Some ty \<Longrightarrow> \<exists>w. enum_tag (fm_write (nado_tx_form lb) t) = Some (tx_type_name ty, w)"
  by (cases t) (auto simp: nado_tx_form_def tagged_def)

text \<open>C38: the exchange's transactions. A transaction of any kind, with values its structs can hold, is read back from
  its JSON form as it was; its form is tagged with the name of its type; and the type is found again from that
  name and from its code.\<close>

theorem transactions_roundtrip:
  assumes "wire_lib_ok lb" "fm_typed (nado_tx_form lb) t" "tx_type_of t = Some ty"
  shows "fm_read (nado_tx_form lb) (fm_write (nado_tx_form lb) t) = Some t \<and>
    (\<exists>w. enum_tag (fm_write (nado_tx_form lb) t) = Some (tx_type_name ty, w)) \<and>
    fm_read tx_type_form (JString (tx_type_name ty)) = Some ty \<and> from_u8 (tx_code ty) = Some ty"
proof (intro conjI)
  show "fm_read (nado_tx_form lb) (fm_write (nado_tx_form lb) t) = Some t"
    by (rule nado_tx_read_write [OF assms(1,2)])
  show "\<exists>w. enum_tag (fm_write (nado_tx_form lb) t) = Some (tx_type_name ty, w)"
    by (rule tx_tag_is_type [OF assms(3)])
  show "fm_read tx_type_form (JString (tx_type_name ty)) = Some ty"
    using json_form.read_write [OF json_form_tx_type, of ty] by (simp add: tx_type_form_def names_form_def)
qed (rule from_u8_tx_code)

definition demo_burn_tx :: nado_tx where
  "demo_burn_tx = Nt_BurnNlp \<lparr>ebn_sender = replicate 32 1, ebn_nlp_amount = 5, ebn_nonce = 7\<rparr>"

theorem transactions_roundtrip_witness:
  "fm_read (nado_tx_form demo_lib) (fm_write (nado_tx_form demo_lib) demo_burn_tx) = Some demo_burn_tx \<and>
   from_u8 (tx_code Tx_BurnNlp) = Some Tx_BurnNlp"
proof -
  have "fm_typed (nado_tx_form demo_lib) demo_burn_tx"
    by (simp add: nado_tx_form_def ep_burn_nlp_form_def struct_form_def with_field_def with_read_def no_more_def
        primitive_defs bytes32_form_def demo_burn_tx_def)
  then show ?thesis
    using transactions_roundtrip [OF demo_lib_ok, of demo_burn_tx Tx_BurnNlp] by (simp add: demo_burn_tx_def)
qed

end
