(* ===== verification/SdkAccount.thy ===== *)
theory SdkAccount
  imports SdkMath Collections
begin

text \<open>
  An account as the exchange returns it (SubaccountInfoResponse of nado-rust-sdk/src/nado_utils/engine.rs, with the
  structs of bindings/querier.rs, spot_engine.rs and perp_engine.rs in it), the operations on it
  (nado_utils/subaccount_info.rs), products and their listing (nado_utils/product.rs, engine.rs),
  the status types of the engine, and the fee calculator (builders/utils/fee_calculator.rs).

  None is a panic: an assertion that fails, an index out of range or an overflow.
\<close>

subsection \<open>Accounts\<close>

record risk =
  rk_long_initial :: i128
  rk_short_initial :: i128
  rk_long_maintenance :: i128
  rk_short_maintenance :: i128
  rk_price :: i128

record book_info =
  bi_size_increment :: i128
  bi_price_increment :: i128
  bi_min_size :: i128
  bi_collected_fees :: i128

record spot_config =
  cf_token :: bytes
  cf_interest_inflection_util :: i128
  cf_interest_floor :: i128
  cf_interest_small_cap :: i128
  cf_interest_large_cap :: i128
  cf_withdraw_fee :: i128
  cf_min_deposit_rate :: i128

record spot_state =
  st_deposits_multiplier :: i128
  st_borrows_multiplier :: i128
  st_total_deposits :: i128
  st_total_borrows :: i128

record perp_state =
  pt_funding_long :: i128
  pt_funding_short :: i128
  pt_available_settle :: i128
  pt_open_interest :: i128

record spot_product =
  sp_product_id :: u32
  sp_oracle_price :: i128
  sp_risk :: risk
  sp_config :: spot_config
  sp_state :: spot_state
  sp_book_info :: book_info

record perp_product =
  pp_product_id :: u32
  pp_oracle_price :: i128
  pp_risk :: risk
  pp_state :: perp_state
  pp_book_info :: book_info

record spot_balance =
  sb_product_id :: u32
  sb_amount :: i128

record perp_balance =
  pb_product_id :: u32
  pb_amount :: i128
  pb_v_quote :: i128
  pb_last_funding :: i128

record health_info =
  hi_assets :: i128
  hi_liabilities :: i128
  hi_health :: i128

record pre_state =
  ps_healths :: "health_info list"
  ps_contributions :: "i128 list list"
  ps_spot_balances :: "spot_balance list"
  ps_perp_balances :: "perp_balance list"

record subaccount_info =
  sa_subaccount :: bytes
  sa_exists :: bool
  sa_healths :: "health_info list"
  sa_contributions :: "i128 list list"
  sa_spot_count :: u32
  sa_perp_count :: u32
  sa_spot_balances :: "spot_balance list"
  sa_perp_balances :: "perp_balance list"
  sa_spot_products :: "spot_product list"
  sa_perp_products :: "perp_product list"
  sa_pre_state :: "pre_state option"

record isolated_position =
  ip_subaccount :: bytes
  ip_quote_balance :: spot_balance
  ip_base_balance :: perp_balance
  ip_quote_product :: spot_product
  ip_base_product :: perp_product
  ip_quote_healths :: "i128 list"
  ip_base_healths :: "i128 list"
  ip_healths :: "health_info list"

record market_price =
  mp_product_id :: u32
  mp_bid :: i128
  mp_ask :: i128

record all_products =
  al_spot_products :: "spot_product list"
  al_perp_products :: "perp_product list"

definition get_spot_balance :: "subaccount_info \<Rightarrow> u32 \<Rightarrow> string + spot_balance" where
  "get_spot_balance info pid =
     ok_or (''spot balance not found for product_id: '' @ show_u32 pid)
       (find (\<lambda>b. sb_product_id b = pid) (sa_spot_balances info))"

definition get_perp_balance :: "subaccount_info \<Rightarrow> u32 \<Rightarrow> string + perp_balance" where
  "get_perp_balance info pid =
     ok_or (''spot balance not found for product_id: '' @ show_u32 pid)
       (find (\<lambda>b. pb_product_id b = pid) (sa_perp_balances info))"

definition get_spot_product :: "subaccount_info \<Rightarrow> u32 \<Rightarrow> string + spot_product" where
  "get_spot_product info pid =
     ok_or (''spot product not found for product_id: '' @ show_u32 pid)
       (find (\<lambda>p. sp_product_id p = pid) (sa_spot_products info))"

definition get_perp_product :: "subaccount_info \<Rightarrow> u32 \<Rightarrow> string + perp_product" where
  "get_perp_product info pid =
     ok_or (''perp product not found for product_id: '' @ show_u32 pid)
       (find (\<lambda>p. pp_product_id p = pid) (sa_perp_products info))"

text \<open>Even product ids other than 0 are perpetual products.\<close>

definition is_perp_id :: "u32 \<Rightarrow> bool" where
  "is_perp_id pid \<longleftrightarrow> pid \<noteq> 0 \<and> pid mod 2 = 0"

definition product_amount :: "subaccount_info \<Rightarrow> u32 \<Rightarrow> string + i128" where
  "product_amount info pid =
     (if is_perp_id pid then res_bind (get_perp_balance info pid) (\<lambda>b. Ok (pb_amount b))
      else res_bind (get_spot_balance info pid) (\<lambda>b. Ok (sb_amount b)))"

fun quote_bias :: "subaccount_info \<Rightarrow> u32 list \<Rightarrow> i128 \<Rightarrow> (string + i128) option" where
  "quote_bias info [] acc = Some (Ok acc)"
| "quote_bias info (pid # pids) acc =
     (case get_perp_balance info pid of
        Inl e \<Rightarrow> Some (Err e)
      | Inr b \<Rightarrow> Option.bind (chk_i128 (acc + pb_v_quote b)) (quote_bias info pids))"

text \<open>Every quote balance of the first three perpetual products is added to the amount of product 0.\<close>

definition add_bias :: "i128 \<Rightarrow> u32 list \<Rightarrow> i128 list \<Rightarrow> i128 list option" where
  "add_bias bias pids amounts =
     those (map2 (\<lambda>pid a. if pid = 0 then chk_i128 (a + bias) else Some a) pids amounts)"

definition get_product_balances :: "subaccount_info \<Rightarrow> u32 list \<Rightarrow> (string + i128 list) option" where
  "get_product_balances info pids =
     (case collect_res (map (product_amount info) pids) of
        Inl e \<Rightarrow> Some (Err e)
      | Inr amounts \<Rightarrow>
          (case quote_bias info [2, 4, 6] 0 of
             None \<Rightarrow> None
           | Some (Inl e) \<Rightarrow> Some (Err e)
           | Some (Inr bias) \<Rightarrow> map_option Inr (add_bias bias pids amounts)))"

definition spot_fees_cleared :: "spot_product \<Rightarrow> spot_product" where
  "spot_fees_cleared p = p\<lparr>sp_book_info := (sp_book_info p)\<lparr>bi_collected_fees := 0\<rparr>\<rparr>"

definition perp_fees_cleared :: "perp_product \<Rightarrow> perp_product" where
  "perp_fees_cleared p = p\<lparr>pp_book_info := (pp_book_info p)\<lparr>bi_collected_fees := 0\<rparr>\<rparr>"

definition spot_increment_cleared :: "spot_product \<Rightarrow> spot_product" where
  "spot_increment_cleared p = p\<lparr>sp_book_info := (sp_book_info p)\<lparr>bi_price_increment := 0\<rparr>\<rparr>"

definition perp_increment_cleared :: "perp_product \<Rightarrow> perp_product" where
  "perp_increment_cleared p = p\<lparr>pp_book_info := (pp_book_info p)\<lparr>bi_price_increment := 0\<rparr>\<rparr>"

definition with_corrected_fees :: "subaccount_info \<Rightarrow> all_products \<Rightarrow> subaccount_info option" where
  "with_corrected_fees info all =
     (if map spot_increment_cleared (sa_spot_products info) = map spot_fees_cleared (al_spot_products all) \<and>
         map perp_increment_cleared (sa_perp_products info) = map perp_fees_cleared (al_perp_products all)
      then Some (info\<lparr>sa_spot_products := al_spot_products all, sa_perp_products := al_perp_products all\<rparr>)
      else None)"

text \<open>The remainder panics on a zero divisor, and on the least number over -1.\<close>

definition divides_checked :: "i128 \<Rightarrow> i128 \<Rightarrow> unit option" where
  "divides_checked a d = (if chk_rem a d = Some 0 then Some () else None)"

definition is_placeholder :: "perp_product \<Rightarrow> bool" where
  "is_placeholder p \<longleftrightarrow>
     bi_size_increment (pp_book_info p) = 0 \<and> rk_long_initial (pp_risk p) = 0 \<and> pp_oracle_price p = 0"

fun size_increments :: "perp_product list \<Rightarrow> (u32, i128) hashmap \<Rightarrow> (u32, i128) hashmap option" where
  "size_increments [] m = Some m"
| "size_increments (p # ps) m =
     (if is_placeholder p then size_increments ps m
      else Option.bind (divides_checked (pt_open_interest (pp_state p)) (bi_size_increment (pp_book_info p)))
             (\<lambda>_. size_increments ps (hm_insert (pp_product_id p) (bi_size_increment (pp_book_info p)) m)))"

fun balances_fit :: "(u32, i128) hashmap \<Rightarrow> perp_balance list \<Rightarrow> unit option" where
  "balances_fit m [] = Some ()"
| "balances_fit m (b # bs) =
     (case hm_get m (pb_product_id b) of
        None \<Rightarrow> balances_fit m bs
      | Some inc \<Rightarrow> Option.bind (divides_checked (pb_amount b) inc) (\<lambda>_. balances_fit m bs))"

definition validate_size_increments :: "subaccount_info \<Rightarrow> unit option" where
  "validate_size_increments info =
     Option.bind (size_increments (sa_perp_products info) []) (\<lambda>m. balances_fit m (sa_perp_balances info))"

definition product_state :: "subaccount_info \<Rightarrow> u32 \<Rightarrow> string + i128 list" where
  "product_state info pid =
     (if is_perp_id pid then
        res_bind (get_perp_product info pid) (\<lambda>p. Ok
          [pt_funding_long (pp_state p), pt_funding_short (pp_state p), pt_open_interest (pp_state p)])
      else
        res_bind (get_spot_product info pid) (\<lambda>p. Ok
          [st_deposits_multiplier (sp_state p), st_borrows_multiplier (sp_state p),
           st_total_deposits (sp_state p), st_total_borrows (sp_state p)]))"

definition get_states :: "subaccount_info \<Rightarrow> u32 list \<Rightarrow> string + i128 list list" where
  "get_states info pids = collect_res (map (product_state info) pids)"

definition get_health_info :: "subaccount_info \<Rightarrow> (health_info \<times> health_info \<times> health_info) option" where
  "get_health_info info =
     (case sa_healths info of h0 # h1 # h2 # hs \<Rightarrow> Some (h0, h1, h2) | _ \<Rightarrow> None)"

text \<open>
  The amounts are those of the balances in the order asked for, and the quote of the first three perpetual
  products is in the amount of product 0.
\<close>

lemma quote_bias_Ok:
  "quote_bias info pids acc = Some (Ok s) \<Longrightarrow>
     \<exists>bs. map (get_perp_balance info) pids = map Ok bs \<and> s = acc + sum_list (map pb_v_quote bs)"
proof (induction pids arbitrary: acc)
  case (Cons pid pids)
  then obtain b where b: "get_perp_balance info pid = Ok b" "quote_bias info pids (acc + pb_v_quote b) = Some (Ok s)"
    by (auto simp: bind_eq_Some_conv split: sum.splits)
  from Cons.IH [OF b(2)] obtain bs where
    "map (get_perp_balance info) pids = map Ok bs" "s = acc + pb_v_quote b + sum_list (map pb_v_quote bs)" by blast
  then show ?case using b(1) by (intro exI [of _ "b # bs"]) simp
qed simp

lemma those_Some_nth: "those xs = Some ys \<Longrightarrow> length ys = length xs \<and> (\<forall>i<length xs. xs ! i = Some (ys ! i))"
proof (induction xs arbitrary: ys)
  case (Cons x xs)
  then obtain y zs where "x = Some y" "those xs = Some zs" "ys = y # zs"
    by (auto split: option.splits)
  then show ?case using Cons.IH [of zs] by (auto simp: nth_Cons split: nat.split)
qed simp

lemma product_balances_correct:
  assumes "get_product_balances info pids = Some (Ok amounts)"
  shows "\<exists>b2 b4 b6. get_perp_balance info 2 = Ok b2 \<and> get_perp_balance info 4 = Ok b4 \<and> get_perp_balance info 6 = Ok b6 \<and>
    length amounts = length pids \<and>
    (\<forall>i<length pids. \<exists>a. product_amount info (pids ! i) = Ok a \<and>
       amounts ! i = (if pids ! i = 0 then a + pb_v_quote b2 + pb_v_quote b4 + pb_v_quote b6 else a))"
proof -
  obtain as where as: "collect_res (map (product_amount info) pids) = Ok as"
    using assms by (cases "collect_res (map (product_amount info) pids)") (auto simp: get_product_balances_def)
  then have amt: "map (product_amount info) pids = map Inr as" by (simp add: collect_res_Inr_iff)
  then have len: "length as = length pids" by (metis length_map)
  obtain bias where bias: "quote_bias info [2, 4, 6] 0 = Some (Ok bias)"
    and add: "add_bias bias pids as = Some amounts"
    using assms as by (auto simp: get_product_balances_def simp del: quote_bias.simps split: option.splits sum.splits)
  obtain bs where bs: "map (get_perp_balance info) [2, 4, 6] = map Ok bs" and "bias = 0 + sum_list (map pb_v_quote bs)"
    using quote_bias_Ok [OF bias] by blast
  then have sum: "bias = sum_list (map pb_v_quote bs)" by simp
  have "length bs = 3" using bs by (metis length_map length_Cons list.size(3) numeral_3_eq_3)
  then obtain b2 b4 b6 where three: "bs = [b2, b4, b6]" by (auto simp: length_Suc_conv numeral_3_eq_3)
  then have b: "get_perp_balance info 2 = Ok b2" "get_perp_balance info 4 = Ok b4" "get_perp_balance info 6 = Ok b6"
    using bs by simp_all
  have bias_eq: "bias = pb_v_quote b2 + pb_v_quote b4 + pb_v_quote b6" using sum three by simp
  have nth: "length amounts = length pids \<and>
      (\<forall>i<length pids. (if pids ! i = 0 then chk_i128 (as ! i + bias) else Some (as ! i)) = Some (amounts ! i))"
    using those_Some_nth [OF add [unfolded add_bias_def]] len by simp
  have "\<exists>a. product_amount info (pids ! i) = Ok a \<and>
       amounts ! i = (if pids ! i = 0 then a + pb_v_quote b2 + pb_v_quote b4 + pb_v_quote b6 else a)"
    if i: "i < length pids" for i
  proof -
    have "product_amount info (pids ! i) = Ok (as ! i)"
      using arg_cong [OF amt, of "\<lambda>l. l ! i"] i len by simp
    moreover have "(if pids ! i = 0 then chk_i128 (as ! i + bias) else Some (as ! i)) = Some (amounts ! i)"
      using nth i by blast
    ultimately show ?thesis using bias_eq by (cases "pids ! i = 0") simp_all
  qed
  then show ?thesis using b nth by blast
qed

text \<open>
  The correction compares products with different fields cleared on the two sides: it goes through only when the
  fees of the account's products are zero and the price increments of the full list are zero as well.
\<close>

lemma mapped_field_zero:
  "map f xs = map g ys \<Longrightarrow> p \<in> set xs \<Longrightarrow> (\<And>q. (F (g q) :: i128) = 0) \<Longrightarrow> (\<And>q. F (f q) = F q) \<Longrightarrow> F p = 0"
  by (induction xs arbitrary: ys) (auto simp: Cons_eq_map_conv, metis)

lemma corrected_fees_needs_zero:
  assumes "with_corrected_fees info all = Some info'"
  shows "(\<forall>p\<in>set (sa_spot_products info). bi_collected_fees (sp_book_info p) = 0) \<and>
    (\<forall>p\<in>set (al_spot_products all). bi_price_increment (sp_book_info p) = 0) \<and>
    (\<forall>p\<in>set (sa_perp_products info). bi_collected_fees (pp_book_info p) = 0) \<and>
    (\<forall>p\<in>set (al_perp_products all). bi_price_increment (pp_book_info p) = 0)"
proof -
  have spot: "map spot_increment_cleared (sa_spot_products info) = map spot_fees_cleared (al_spot_products all)"
    and perp: "map perp_increment_cleared (sa_perp_products info) = map perp_fees_cleared (al_perp_products all)"
    using assms by (auto simp: with_corrected_fees_def split: if_splits)
  have "\<forall>p\<in>set (sa_spot_products info). bi_collected_fees (sp_book_info p) = 0"
    by (rule ballI, rule mapped_field_zero [OF spot])
      (simp_all add: spot_increment_cleared_def spot_fees_cleared_def)
  moreover have "\<forall>p\<in>set (al_spot_products all). bi_price_increment (sp_book_info p) = 0"
    by (rule ballI, rule mapped_field_zero [OF spot [symmetric]])
      (simp_all add: spot_increment_cleared_def spot_fees_cleared_def)
  moreover have "\<forall>p\<in>set (sa_perp_products info). bi_collected_fees (pp_book_info p) = 0"
    by (rule ballI, rule mapped_field_zero [OF perp])
      (simp_all add: perp_increment_cleared_def perp_fees_cleared_def)
  moreover have "\<forall>p\<in>set (al_perp_products all). bi_price_increment (pp_book_info p) = 0"
    by (rule ballI, rule mapped_field_zero [OF perp [symmetric]])
      (simp_all add: perp_increment_cleared_def perp_fees_cleared_def)
  ultimately show ?thesis by blast
qed

text \<open>An account that passes has every perpetual balance in whole units of its product.\<close>

lemma balances_fit_dvd:
  "balances_fit m bs = Some () \<Longrightarrow> b \<in> set bs \<Longrightarrow> hm_get m (pb_product_id b) = Some inc \<Longrightarrow>
     chk_rem (pb_amount b) inc = Some 0"
  by (induction bs) (auto simp: bind_eq_Some_conv divides_checked_def split: option.splits if_splits)

lemma size_increments_listed:
  "size_increments ps m = Some m' \<Longrightarrow> p \<in> set ps \<Longrightarrow> \<not> is_placeholder p \<Longrightarrow> distinct (map pp_product_id ps) \<Longrightarrow>
     hm_get m' (pp_product_id p) = Some (bi_size_increment (pp_book_info p))"
proof -
  have kept: "size_increments ps m = Some m' \<Longrightarrow> \<forall>q\<in>set ps. pp_product_id q \<noteq> k \<Longrightarrow> hm_get m' k = hm_get m k" for ps m k
    by (induction ps m rule: size_increments.induct)
      (auto simp: bind_eq_Some_conv hm_get_insert split: if_splits)
  show "size_increments ps m = Some m' \<Longrightarrow> p \<in> set ps \<Longrightarrow> \<not> is_placeholder p \<Longrightarrow> distinct (map pp_product_id ps) \<Longrightarrow> ?thesis"
  proof (induction ps m rule: size_increments.induct)
    case (2 q ps m)
    show ?case
    proof (cases "p = q")
      case True
      then have "size_increments ps (hm_insert (pp_product_id q) (bi_size_increment (pp_book_info q)) m) = Some m'"
        using "2.prems" by (auto simp: bind_eq_Some_conv split: if_splits)
      moreover have "\<forall>r\<in>set ps. pp_product_id r \<noteq> pp_product_id q" using "2.prems"(4) by simp (metis imageI)
      ultimately show ?thesis
        using kept [of ps _ "pp_product_id q"] True by (simp add: hm_get_insert)
    next
      case False
      then show ?thesis using 2 by (auto simp: bind_eq_Some_conv split: if_splits)
    qed
  qed simp
qed

lemma validated_balances:
  assumes "validate_size_increments info = Some ()" "distinct (map pp_product_id (sa_perp_products info))"
    and "p \<in> set (sa_perp_products info)" "\<not> is_placeholder p"
    and "b \<in> set (sa_perp_balances info)" "pb_product_id b = pp_product_id p"
  shows "chk_rem (pb_amount b) (bi_size_increment (pp_book_info p)) = Some 0"
proof -
  obtain m where m: "size_increments (sa_perp_products info) [] = Some m" "balances_fit m (sa_perp_balances info) = Some ()"
    using assms(1) by (auto simp: validate_size_increments_def bind_eq_Some_conv)
  have "hm_get m (pb_product_id b) = Some (bi_size_increment (pp_book_info p))"
    using size_increments_listed [OF m(1) assms(3, 4, 2)] assms(6) by simp
  then show ?thesis by (rule balances_fit_dvd [OF m(2) assms(5)])
qed

subsection \<open>Products\<close>

text \<open>
  A product as the deployment's file has it, with its numbers as texts, and with them read. The texts go through
  str_to_x18, which panics on what is not a number.
\<close>

record product_texts =
  rx_product_id :: u32
  rx_symbol :: string
  rx_name :: string
  rx_quote :: string
  rx_long_weight_initial :: string
  rx_long_weight_maintenance :: string
  rx_short_weight_initial :: string
  rx_short_weight_maintenance :: string
  rx_size_increment :: string
  rx_price_increment :: string
  rx_initial_price :: string
  rx_price_asset_id :: string
  rx_min_size :: string
  rx_feed :: "string option"
  rx_feed_id :: "string option"
  rx_multiplier :: "string option"

record spot_texts =
  rs_interest_inflection_util :: string
  rs_interest_floor :: string
  rs_interest_small_cap :: string
  rs_interest_large_cap :: string
  rs_address :: string
  rs_decimals :: u8
  rs_withdraw_fee :: string
  rs_min_deposit_rate :: string

record perp_texts =
  rp_spot_index_asset_id :: string
  rp_max_open_interest :: "string option"

text \<open>The fields both kinds have are kept apart from those of one kind.\<close>

datatype product_raw = Raw_Spot product_texts spot_texts | Raw_Perp product_texts perp_texts

record product_numbers =
  pr_product_id :: u32
  pr_symbol :: string
  pr_name :: string
  pr_quote :: string
  pr_long_weight_initial :: i128
  pr_long_weight_maintenance :: i128
  pr_short_weight_initial :: i128
  pr_short_weight_maintenance :: i128
  pr_size_increment :: i128
  pr_price_increment :: i128
  pr_initial_price :: i128
  pr_price_asset_id :: string
  pr_min_size :: i128
  pr_feed :: "string option"
  pr_feed_id :: "string option"
  pr_multiplier :: "i128 option"

record spot_numbers =
  pu_interest_inflection_util :: i128
  pu_interest_floor :: i128
  pu_interest_small_cap :: i128
  pu_interest_large_cap :: i128
  pu_address :: string
  pu_decimals :: u8
  pu_withdraw_fee :: i128
  pu_min_deposit_rate :: i128

record perp_numbers =
  pq_spot_index_asset_id :: string
  pq_max_open_interest :: "i128 option"

datatype sdk_product = Spot_Product product_numbers spot_numbers | Perp_Product product_numbers perp_numbers

definition read_option :: "string option \<Rightarrow> i128 option option" where
  "read_option t = (case t of None \<Rightarrow> Some None | Some s \<Rightarrow> map_option Some (str_to_x18 s))"

definition read_product :: "product_texts \<Rightarrow> product_numbers option" where
  "read_product r = do {
     lwi \<leftarrow> str_to_x18 (rx_long_weight_initial r);
     lwm \<leftarrow> str_to_x18 (rx_long_weight_maintenance r);
     swi \<leftarrow> str_to_x18 (rx_short_weight_initial r);
     swm \<leftarrow> str_to_x18 (rx_short_weight_maintenance r);
     size_inc \<leftarrow> str_to_x18 (rx_size_increment r);
     price_inc \<leftarrow> str_to_x18 (rx_price_increment r);
     price \<leftarrow> str_to_x18 (rx_initial_price r);
     min_size \<leftarrow> str_to_x18 (rx_min_size r);
     multiplier \<leftarrow> read_option (rx_multiplier r);
     Some \<lparr>pr_product_id = rx_product_id r, pr_symbol = rx_symbol r, pr_name = rx_name r, pr_quote = rx_quote r,
       pr_long_weight_initial = lwi, pr_long_weight_maintenance = lwm, pr_short_weight_initial = swi,
       pr_short_weight_maintenance = swm, pr_size_increment = size_inc, pr_price_increment = price_inc,
       pr_initial_price = price, pr_price_asset_id = rx_price_asset_id r, pr_min_size = min_size,
       pr_feed = rx_feed r, pr_feed_id = rx_feed_id r, pr_multiplier = multiplier\<rparr> }"

definition read_spot :: "spot_texts \<Rightarrow> spot_numbers option" where
  "read_spot r = do {
     util \<leftarrow> str_to_x18 (rs_interest_inflection_util r);
     floor \<leftarrow> str_to_x18 (rs_interest_floor r);
     small \<leftarrow> str_to_x18 (rs_interest_small_cap r);
     large \<leftarrow> str_to_x18 (rs_interest_large_cap r);
     fee \<leftarrow> str_to_x18 (rs_withdraw_fee r);
     rate \<leftarrow> str_to_x18 (rs_min_deposit_rate r);
     Some \<lparr>pu_interest_inflection_util = util, pu_interest_floor = floor, pu_interest_small_cap = small,
       pu_interest_large_cap = large, pu_address = rs_address r, pu_decimals = rs_decimals r,
       pu_withdraw_fee = fee, pu_min_deposit_rate = rate\<rparr> }"

definition product_from_raw :: "product_raw \<Rightarrow> sdk_product option" where
  "product_from_raw raw =
     (case raw of
        Raw_Spot r s \<Rightarrow> do { p \<leftarrow> read_product r; q \<leftarrow> read_spot s; Some (Spot_Product p q) }
      | Raw_Perp r s \<Rightarrow> do {
          p \<leftarrow> read_product r;
          oi \<leftarrow> read_option (rp_max_open_interest s);
          Some (Perp_Product p \<lparr>pq_spot_index_asset_id = rp_spot_index_asset_id s, pq_max_open_interest = oi\<rparr>) })"

fun product_common :: "sdk_product \<Rightarrow> product_numbers" where
  "product_common (Spot_Product p s) = p"
| "product_common (Perp_Product p s) = p"

definition product_id :: "sdk_product \<Rightarrow> u32" where "product_id p = pr_product_id (product_common p)"
definition product_min_size :: "sdk_product \<Rightarrow> i128" where "product_min_size p = pr_min_size (product_common p)"
definition product_size_increment :: "sdk_product \<Rightarrow> i128" where
  "product_size_increment p = pr_size_increment (product_common p)"
definition product_long_weight_initial :: "sdk_product \<Rightarrow> i128" where
  "product_long_weight_initial p = pr_long_weight_initial (product_common p)"
definition product_long_weight_maintenance :: "sdk_product \<Rightarrow> i128" where
  "product_long_weight_maintenance p = pr_long_weight_maintenance (product_common p)"
definition product_short_weight_initial :: "sdk_product \<Rightarrow> i128" where
  "product_short_weight_initial p = pr_short_weight_initial (product_common p)"
definition product_short_weight_maintenance :: "sdk_product \<Rightarrow> i128" where
  "product_short_weight_maintenance p = pr_short_weight_maintenance (product_common p)"
definition product_quote :: "sdk_product \<Rightarrow> string" where "product_quote p = pr_quote (product_common p)"
definition product_feed_id :: "sdk_product \<Rightarrow> string option" where "product_feed_id p = pr_feed_id (product_common p)"
definition product_feed :: "sdk_product \<Rightarrow> string option" where "product_feed p = pr_feed (product_common p)"
definition product_asset_id :: "sdk_product \<Rightarrow> string" where "product_asset_id p = pr_price_asset_id (product_common p)"
definition product_multiplier :: "sdk_product \<Rightarrow> i128 option" where
  "product_multiplier p = pr_multiplier (product_common p)"
definition product_symbol :: "sdk_product \<Rightarrow> string" where "product_symbol p = pr_symbol (product_common p)"

fun product_is_spot :: "sdk_product \<Rightarrow> bool" where
  "product_is_spot (Spot_Product p s) = True"
| "product_is_spot (Perp_Product p s) = False"

fun product_max_open_interest :: "sdk_product \<Rightarrow> i128 option" where
  "product_max_open_interest (Spot_Product p s) = None"
| "product_max_open_interest (Perp_Product p s) = pq_max_open_interest s"

text \<open>The status of trading, with its names.\<close>

datatype trading_status = Ts_Live | Ts_PostOnly | Ts_NotTradable | Ts_ReduceOnly | Ts_SoftReduceOnly

fun show_trading_status :: "trading_status \<Rightarrow> string" where
  "show_trading_status Ts_Live = ''live''"
| "show_trading_status Ts_PostOnly = ''post_only''"
| "show_trading_status Ts_ReduceOnly = ''reduce_only''"
| "show_trading_status Ts_NotTradable = ''not_tradable''"
| "show_trading_status Ts_SoftReduceOnly = ''soft_reduce_only''"

definition read_trading_status :: "string \<Rightarrow> string + trading_status" where
  "read_trading_status t =
     (let s = to_lowercase t in
      if s = ''live'' then Ok Ts_Live
      else if s = ''post_only'' then Ok Ts_PostOnly
      else if s = ''reduce_only'' then Ok Ts_ReduceOnly
      else if s = ''not_tradable'' then Ok Ts_NotTradable
      else if s = ''soft_reduce_only'' then Ok Ts_SoftReduceOnly
      else Err (''Invalid trading status: '' @ t))"

lemma trading_status_roundtrip: "read_trading_status (show_trading_status s) = Ok s"
  by (induction s; code_simp)

datatype engine_status = Es_Started | Es_Active | Es_Stopping | Es_Syncing | Es_LiveSyncing | Es_Failed

fun engine_status_code :: "engine_status \<Rightarrow> u8" where
  "engine_status_code Es_Started = 0"
| "engine_status_code Es_Active = 1"
| "engine_status_code Es_Stopping = 2"
| "engine_status_code Es_Syncing = 3"
| "engine_status_code Es_LiveSyncing = 4"
| "engine_status_code Es_Failed = 5"

definition engine_status_of :: "u8 \<Rightarrow> engine_status option" where
  "engine_status_of n =
     (if n = 0 then Some Es_Started else if n = 1 then Some Es_Active else if n = 2 then Some Es_Stopping
      else if n = 3 then Some Es_Syncing else if n = 4 then Some Es_LiveSyncing
      else if n = 5 then Some Es_Failed else None)"

lemma engine_status_roundtrip:
  "engine_status_of (engine_status_code s) = Some s"
  "engine_status_of n = Some s \<Longrightarrow> n = engine_status_code s"
  by (cases s; simp add: engine_status_of_def) (auto simp: engine_status_of_def split: if_splits)

text \<open>A product as it is listed.\<close>

record symbol_listing =
  sl_product_type :: string
  sl_product_id :: u32
  sl_symbol :: string
  sl_price_increment :: i128
  sl_size_increment :: i128
  sl_min_size :: i128
  sl_maker_fee_rate :: i128
  sl_taker_fee_rate :: i128
  sl_long_weight_initial :: i128
  sl_long_weight_maintenance :: i128
  sl_max_open_interest :: "i128 option"
  sl_trading_status :: trading_status
  sl_isolated_only :: bool

definition default_listing :: symbol_listing where
  "default_listing =
     \<lparr>sl_product_type = [], sl_product_id = 0, sl_symbol = [], sl_price_increment = 0, sl_size_increment = 0,
      sl_min_size = 0, sl_maker_fee_rate = 0, sl_taker_fee_rate = 0, sl_long_weight_initial = 0,
      sl_long_weight_maintenance = 0, sl_max_open_interest = None, sl_trading_status = Ts_Live,
      sl_isolated_only = False\<rparr>"

definition placeholder_listing :: symbol_listing where
  "placeholder_listing = default_listing\<lparr>sl_product_type := ''placeholder''\<rparr>"

definition listing_of :: "sdk_product \<Rightarrow> symbol_listing" where
  "listing_of p =
     (let c = product_common p in
      default_listing
       \<lparr>sl_product_type := if product_is_spot p then ''spot'' else ''perp'', sl_product_id := pr_product_id c,
        sl_symbol := pr_symbol c, sl_price_increment := pr_price_increment c, sl_min_size := pr_min_size c,
        sl_size_increment := pr_size_increment c, sl_long_weight_initial := pr_long_weight_initial c,
        sl_long_weight_maintenance := pr_long_weight_maintenance c,
        sl_max_open_interest :=
          (case product_max_open_interest p of None \<Rightarrow> None | Some oi \<Rightarrow> if oi = 0 then None else Some oi)\<rparr>)"

text \<open>A perpetual product whose file sets no limit, or the limit 0, is listed without one.\<close>

lemma listing_open_interest:
  assumes "product_from_raw (Raw_Perp r s) = Some p" "rp_max_open_interest s \<in> {None, Some ''0''}"
  shows "sl_max_open_interest (listing_of p) = None \<and> sl_product_id (listing_of p) = rx_product_id r"
proof -
  have zero: "str_to_x18 ''0'' = Some 0" by code_simp
  show ?thesis
    using assms zero
    by (auto simp: product_from_raw_def read_product_def read_option_def listing_of_def default_listing_def
        bind_eq_Some_conv split: option.splits)
qed

subsection \<open>Fees\<close>

record fee_rates =
  fe_taker_fee_rates :: "i128 list"
  fe_maker_fee_rates :: "i128 list"
  fe_liquidation_sequencer_fee :: i128
  fe_health_check_sequencer_fee :: i128
  fe_taker_sequencer_fee :: i128
  fe_withdraw_sequencer_fees :: "i128 list"
  fe_fee_tier :: u32

definition sat_i128 :: "int \<Rightarrow> i128" where
  "sat_i128 x = max i128_min (min i128_max x)"

text \<open>The part that is kept; the list of rates is indexed by product.\<close>

definition get_keep_rate :: "fee_rates \<Rightarrow> bool \<Rightarrow> u32 \<Rightarrow> i128 option" where
  "get_keep_rate rates taker pid =
     (let row = (if taker then fe_taker_fee_rates rates else fe_maker_fee_rates rates) in
      if unat pid < length row then chk_i128 (ONE_X18 - row ! unat pid) else None)"

definition calc_fee_of :: "fee_rates \<Rightarrow> u32 \<Rightarrow> i128 \<Rightarrow> bool \<Rightarrow> bool \<Rightarrow> i128 option" where
  "calc_fee_of rates pid amount taker include_sequencer_fee = do {
     keep_rate \<leftarrow> get_keep_rate rates taker pid;
     new_amt \<leftarrow> (if amount < 0 then div_x18 amount keep_rate else mul_x18 amount keep_rate);
     let new_amt = (if taker \<and> include_sequencer_fee
                    then sat_i128 (new_amt - fe_taker_sequencer_fee rates) else new_amt);
     Some (sat_i128 (amount - new_amt)) }"

end

