(* ===== verification/SdkArchive.thy ===== *)
theory SdkArchive
  imports SdkTransactions SdkAccount
begin

text \<open>
  What the exchange's archive answers (nado-rust-sdk/src/nado_utils/indexer.rs): balances and products, events with
  their transactions, orders, matches, candles, snapshots and payments, each with its JSON form. 
\<close>

subsection \<open>Balances and products\<close>

definition risk_form :: "risk form" where
  "risk_form = struct_form risk.make
     (with_field ''long_weight_initial_x18'' i128_text rk_long_initial
     (with_field ''short_weight_initial_x18'' i128_text rk_short_initial
     (with_field ''long_weight_maintenance_x18'' i128_text rk_long_maintenance
     (with_field ''short_weight_maintenance_x18'' i128_text rk_short_maintenance
     (with_field ''price_x18'' i128_text rk_price
     no_more)))))"

lemma json_form_risk [form_laws]: "json_form risk_form"
  unfolding risk_form_def by (intro struct_laws form_laws) (simp_all add: risk.make_def)

definition book_info_form :: "book_info form" where
  "book_info_form = struct_form book_info.make
     (with_field ''size_increment'' i128_text bi_size_increment
     (with_field ''price_increment_x18'' i128_text bi_price_increment
     (with_field ''min_size'' i128_text bi_min_size
     (with_field ''collected_fees'' i128_text bi_collected_fees
     no_more))))"

lemma json_form_book_info [form_laws]: "json_form book_info_form"
  unfolding book_info_form_def by (intro struct_laws form_laws) (simp_all add: book_info.make_def)

definition spot_config_form :: "wire_lib \<Rightarrow> spot_config form" where
  "spot_config_form lb = struct_form spot_config.make
     (with_field ''token'' (address_form lb) cf_token
     (with_field ''interest_inflection_util_x18'' i128_text cf_interest_inflection_util
     (with_field ''interest_floor_x18'' i128_text cf_interest_floor
     (with_field ''interest_small_cap_x18'' i128_text cf_interest_small_cap
     (with_field ''interest_large_cap_x18'' i128_text cf_interest_large_cap
     (with_field ''withdraw_fee_x18'' i128_text cf_withdraw_fee
     (with_field ''min_deposit_rate_x18'' i128_text cf_min_deposit_rate
     no_more)))))))"

lemma json_form_spot_config [form_laws]: "wire_lib_ok lb \<Longrightarrow> json_form (spot_config_form lb)"
  unfolding spot_config_form_def by (intro struct_laws form_laws) (simp_all add: spot_config.make_def)

definition spot_state_form :: "spot_state form" where
  "spot_state_form = struct_form spot_state.make
     (with_field ''cumulative_deposits_multiplier_x18'' i128_text st_deposits_multiplier
     (with_field ''cumulative_borrows_multiplier_x18'' i128_text st_borrows_multiplier
     (with_field ''total_deposits_normalized'' i128_text st_total_deposits
     (with_field ''total_borrows_normalized'' i128_text st_total_borrows
     no_more))))"

lemma json_form_spot_state [form_laws]: "json_form spot_state_form"
  unfolding spot_state_form_def by (intro struct_laws form_laws) (simp_all add: spot_state.make_def)

definition perp_state_form :: "perp_state form" where
  "perp_state_form = struct_form perp_state.make
     (with_field ''cumulative_funding_long_x18'' i128_text pt_funding_long
     (with_field ''cumulative_funding_short_x18'' i128_text pt_funding_short
     (with_field ''available_settle'' i128_text pt_available_settle
     (with_field ''open_interest'' i128_text pt_open_interest
     no_more))))"

lemma json_form_perp_state [form_laws]: "json_form perp_state_form"
  unfolding perp_state_form_def by (intro struct_laws form_laws) (simp_all add: perp_state.make_def)

definition spot_product_form :: "wire_lib \<Rightarrow> spot_product form" where
  "spot_product_form lb = struct_form spot_product.make
     (with_field ''product_id'' u32_form sp_product_id
     (with_field ''oracle_price_x18'' i128_text sp_oracle_price
     (with_field ''risk'' risk_form sp_risk
     (with_field ''config'' (spot_config_form lb) sp_config
     (with_field ''state'' spot_state_form sp_state
     (with_field ''book_info'' book_info_form sp_book_info
     no_more))))))"

lemma json_form_spot_product [form_laws]: "wire_lib_ok lb \<Longrightarrow> json_form (spot_product_form lb)"
  unfolding spot_product_form_def by (intro struct_laws form_laws) (simp_all add: spot_product.make_def)

definition perp_product_form :: "perp_product form" where
  "perp_product_form = struct_form perp_product.make
     (with_field ''product_id'' u32_form pp_product_id
     (with_field ''oracle_price_x18'' i128_text pp_oracle_price
     (with_field ''risk'' risk_form pp_risk
     (with_field ''state'' perp_state_form pp_state
     (with_field ''book_info'' book_info_form pp_book_info
     no_more)))))"

lemma json_form_perp_product [form_laws]: "json_form perp_product_form"
  unfolding perp_product_form_def by (intro struct_laws form_laws) (simp_all add: perp_product.make_def)

text \<open>The balance inside a balance is a struct of its own, which the records have flat.\<close>

definition spot_inner_form :: "i128 form" where
  "spot_inner_form = struct_form (\<lambda>a. a) (with_field ''amount'' i128_text (\<lambda>a. a) no_more)"

definition spot_balance_form :: "spot_balance form" where
  "spot_balance_form = struct_form spot_balance.make
     (with_field ''product_id'' u32_form sb_product_id
     (with_field ''balance'' spot_inner_form sb_amount
     no_more))"

definition perp_inner_form :: "(i128 \<times> i128 \<times> i128) form" where
  "perp_inner_form = struct_form (\<lambda>a q f. (a, q, f))
     (with_field ''amount'' i128_text fst
     (with_field ''v_quote_balance'' i128_text (\<lambda>(a, q, f). q)
     (with_field ''last_cumulative_funding_x18'' i128_text (\<lambda>(a, q, f). f)
     no_more)))"

definition perp_balance_form :: "perp_balance form" where
  "perp_balance_form = struct_form (\<lambda>pid (a, q, f). perp_balance.make pid a q f)
     (with_field ''product_id'' u32_form pb_product_id
     (with_field ''balance'' perp_inner_form (\<lambda>b. (pb_amount b, pb_v_quote b, pb_last_funding b))
     no_more))"

lemma json_form_inner [form_laws]: "json_form spot_inner_form" "json_form perp_inner_form"
  unfolding spot_inner_form_def perp_inner_form_def by ((intro struct_laws form_laws)?; simp add: case_prod_beta)+

lemma json_form_balances [form_laws]: "json_form spot_balance_form" "json_form perp_balance_form"
  unfolding spot_balance_form_def perp_balance_form_def
  by ((intro struct_laws form_laws)?; simp add: spot_balance.make_def perp_balance.make_def)+

datatype ix_balance = IB_Spot spot_balance | IB_Perp perp_balance | IB_Pending

definition ix_balance_form :: "ix_balance form" where
  "ix_balance_form =
     \<lparr>fm_write = (\<lambda>b. case b of
           IB_Spot s \<Rightarrow> tagged ''spot'' spot_balance_form s
         | IB_Perp p \<Rightarrow> tagged ''perp'' perp_balance_form p
         | IB_Pending \<Rightarrow> JString ''pending''),
      fm_read = (enum_read
         [(''spot'', newtype_variant spot_balance_form IB_Spot),
          (''perp'', newtype_variant perp_balance_form IB_Perp), (''pending'', unit_value IB_Pending)]),
      fm_typed = (\<lambda>b. case b of
           IB_Spot s \<Rightarrow> fm_typed spot_balance_form s
         | IB_Perp p \<Rightarrow> fm_typed perp_balance_form p
         | IB_Pending \<Rightarrow> True)\<rparr>"

text \<open>None is the panic of a balance that has no such amount.\<close>

fun balance_amount :: "ix_balance \<Rightarrow> i128 option" where
  "balance_amount (IB_Spot s) = Some (sb_amount s)"
| "balance_amount (IB_Perp p) = Some (pb_amount p)"
| "balance_amount IB_Pending = None"

fun balance_quote_amount :: "ix_balance \<Rightarrow> i128 option" where
  "balance_quote_amount (IB_Perp p) = Some (pb_v_quote p)"
| "balance_quote_amount b = None"

datatype ix_product = IP_Spot spot_product | IP_Perp perp_product | IP_Pending

fun product_spot :: "ix_product \<Rightarrow> spot_product option" where
  "product_spot (IP_Spot p) = Some p"
| "product_spot p = None"

fun product_perp :: "ix_product \<Rightarrow> perp_product option" where
  "product_perp (IP_Perp p) = Some p"
| "product_perp p = None"

definition ix_product_form :: "wire_lib \<Rightarrow> ix_product form" where
  "ix_product_form lb =
     \<lparr>fm_write = (\<lambda>p. case p of
           IP_Spot s \<Rightarrow> tagged ''spot'' (spot_product_form lb) s
         | IP_Perp p \<Rightarrow> tagged ''perp'' perp_product_form p
         | IP_Pending \<Rightarrow> JString ''pending''),
      fm_read = (enum_read
         [(''spot'', newtype_variant (spot_product_form lb) IP_Spot),
          (''perp'', newtype_variant perp_product_form IP_Perp), (''pending'', unit_value IP_Pending)]),
      fm_typed = (\<lambda>p. case p of
           IP_Spot s \<Rightarrow> fm_typed (spot_product_form lb) s
         | IP_Perp p \<Rightarrow> fm_typed perp_product_form p
         | IP_Pending \<Rightarrow> True)\<rparr>"

lemma json_form_ix_balance [form_laws]: "json_form ix_balance_form"
  by unfold_locales
    (auto simp: ix_balance_form_def enum_read_tagged newtype_variant_written form_laws split: ix_balance.splits)

lemma json_form_ix_product [form_laws]: "wire_lib_ok lb \<Longrightarrow> json_form (ix_product_form lb)"
  by unfold_locales
    (auto simp: ix_product_form_def enum_read_tagged newtype_variant_written form_laws split: ix_product.splits)

lemma never_null_ix_balance [form_laws]: "never_null ix_balance_form"
  by (simp add: never_null_def ix_balance_form_def tagged_def split: ix_balance.split)

subsection \<open>Events and transactions\<close>

record ix_event =
  xv_subaccount :: bytes
  xv_product_id :: u32
  xv_submission_idx :: i64
  xv_event_type :: tx_type
  xv_isolated :: bool
  xv_isolated_product_id :: "u32 option"
  xv_pre_balance :: ix_balance
  xv_post_balance :: ix_balance
  xv_product :: ix_product
  xv_net_interest_unrealized :: i128
  xv_net_interest_cumulative :: i128
  xv_net_funding_unrealized :: i128
  xv_net_funding_cumulative :: i128
  xv_net_entry_unrealized :: i128
  xv_net_entry_cumulative :: i128
  xv_quote_volume_cumulative :: i128

definition ix_event_form :: "wire_lib \<Rightarrow> ix_event form" where
  "ix_event_form lb = struct_form ix_event.make
     (with_field ''subaccount'' (bytes32_form lb) xv_subaccount
     (with_field ''product_id'' u32_form xv_product_id
     (with_field ''submission_idx'' i64_text xv_submission_idx
     (with_field ''event_type'' tx_type_form xv_event_type
     (with_field ''isolated'' bool_form xv_isolated
     (with_option ''isolated_product_id'' u32_form xv_isolated_product_id
     (with_field ''pre_balance'' ix_balance_form xv_pre_balance
     (with_field ''post_balance'' ix_balance_form xv_post_balance
     (with_field ''product'' (ix_product_form lb) xv_product
     (with_field ''net_interest_unrealized'' i128_text xv_net_interest_unrealized
     (with_field ''net_interest_cumulative'' i128_text xv_net_interest_cumulative
     (with_field ''net_funding_unrealized'' i128_text xv_net_funding_unrealized
     (with_field ''net_funding_cumulative'' i128_text xv_net_funding_cumulative
     (with_field ''net_entry_unrealized'' i128_text xv_net_entry_unrealized
     (with_field ''net_entry_cumulative'' i128_text xv_net_entry_cumulative
     (with_field ''quote_volume_cumulative'' i128_text xv_quote_volume_cumulative
     no_more))))))))))))))))"

lemma json_form_ix_event [form_laws]: "wire_lib_ok lb \<Longrightarrow> json_form (ix_event_form lb)"
  unfolding ix_event_form_def by (intro struct_laws form_laws) (simp_all add: ix_event.make_def)

record ix_tx =
  xt_tx :: nado_tx
  xt_submission_idx :: u64
  xt_timestamp :: u64

definition ix_tx_form :: "wire_lib \<Rightarrow> ix_tx form" where
  "ix_tx_form lb = struct_form ix_tx.make
     (with_field ''tx'' (nado_tx_form lb) xt_tx
     (with_field ''submission_idx'' u64_text xt_submission_idx
     (with_field ''timestamp'' u64_text xt_timestamp
     no_more)))"

lemma json_form_ix_tx [form_laws]: "wire_lib_ok lb \<Longrightarrow> json_form (ix_tx_form lb)"
  unfolding ix_tx_form_def by (intro struct_laws form_laws) (simp_all add: ix_tx.make_def)

record events_response =
  er_events :: "ix_event list"
  er_txs :: "ix_tx list"

definition events_response_form :: "wire_lib \<Rightarrow> events_response form" where
  "events_response_form lb = struct_form events_response.make
     (with_field ''events'' (list_form (ix_event_form lb)) er_events
     (with_field ''txs'' (list_form (ix_tx_form lb)) er_txs
     no_more))"

lemma json_form_events_response [form_laws]: "wire_lib_ok lb \<Longrightarrow> json_form (events_response_form lb)"
  unfolding events_response_form_def by (intro struct_laws form_laws) (simp_all add: events_response.make_def)

record tx_hash =
  th_submission_idx :: i64
  th_length :: i64
  th_tx_hash :: bytes

definition tx_hash_form :: "wire_lib \<Rightarrow> tx_hash form" where
  "tx_hash_form lb = struct_form tx_hash.make
     (with_field ''submission_idx'' i64_text th_submission_idx
     (with_field ''length'' i64_text th_length
     (with_field ''tx_hash'' (bytes32_form lb) th_tx_hash
     no_more)))"

lemma json_form_tx_hash [form_laws]: "wire_lib_ok lb \<Longrightarrow> json_form (tx_hash_form lb)"
  unfolding tx_hash_form_def by (intro struct_laws form_laws) (simp_all add: tx_hash.make_def)

lemma never_null_tx_hash [form_laws]: "never_null (tx_hash_form lb)"
  unfolding tx_hash_form_def by (rule never_null_struct)

record tx_hashes_response =
  thr_tx_hashes :: "tx_hash option list"

definition tx_hashes_response_form :: "wire_lib \<Rightarrow> tx_hashes_response form" where
  "tx_hashes_response_form lb = struct_form tx_hashes_response.make
     (with_field ''tx_hashes'' (list_form (option_form (tx_hash_form lb))) thr_tx_hashes
     no_more)"

lemma json_form_tx_hashes_response [form_laws]: "wire_lib_ok lb \<Longrightarrow> json_form (tx_hashes_response_form lb)"
  unfolding tx_hashes_response_form_def by (intro struct_laws form_laws) (simp_all add: tx_hashes_response.make_def)

record account_snapshots =
  asr_snapshots :: "(bytes, (u64, ix_event list) hashmap) hashmap"

definition account_snapshots_form :: "wire_lib \<Rightarrow> account_snapshots form" where
  "account_snapshots_form lb = struct_form account_snapshots.make
     (with_field ''snapshots'' (map_form (wrapped_bytes32_key lb) (map_form wrapped_u64_key (list_form (ix_event_form lb)))) asr_snapshots
     no_more)"

lemma json_form_account_snapshots [form_laws]: "wire_lib_ok lb \<Longrightarrow> json_form (account_snapshots_form lb)"
  unfolding account_snapshots_form_def by (intro struct_laws form_laws) (simp_all add: account_snapshots.make_def)

subsection \<open>Orders and matches\<close>

record history_order =
  ho_digest :: bytes
  ho_subaccount :: bytes
  ho_product_id :: i32
  ho_submission_idx :: i64
  ho_last_fill_submission_idx :: i64
  ho_amount :: i128
  ho_price :: i128
  ho_base_filled :: i128
  ho_quote_filled :: i128
  ho_fee :: i128
  ho_expiration :: u64
  ho_nonce :: u64
  ho_appendix :: u128
  ho_isolated :: bool
  ho_closed_amount :: i128
  ho_realized_pnl :: i128
  ho_builder_fee :: i128
  ho_closed_net_entry :: i128
  ho_closed_margin :: "i128 option"
  ho_first_fill_timestamp :: u64
  ho_last_fill_timestamp :: u64

definition history_order_form :: "wire_lib \<Rightarrow> history_order form" where
  "history_order_form lb = struct_form history_order.make
     (with_field ''digest'' (bytes32_form lb) ho_digest
     (with_field ''subaccount'' (bytes32_form lb) ho_subaccount
     (with_field ''product_id'' i32_form ho_product_id
     (with_field ''submission_idx'' i64_text ho_submission_idx
     (with_field ''last_fill_submission_idx'' i64_text ho_last_fill_submission_idx
     (with_field ''amount'' i128_text ho_amount
     (with_field ''price_x18'' i128_text ho_price
     (with_field ''base_filled'' i128_text ho_base_filled
     (with_field ''quote_filled'' i128_text ho_quote_filled
     (with_field ''fee'' i128_text ho_fee
     (with_field ''expiration'' u64_text ho_expiration
     (with_field ''nonce'' u64_text ho_nonce
     (with_field ''appendix'' u128_text ho_appendix
     (with_field ''isolated'' bool_form ho_isolated
     (with_field ''closed_amount'' i128_text ho_closed_amount
     (with_field ''realized_pnl'' i128_text ho_realized_pnl
     (with_field ''builder_fee'' i128_text ho_builder_fee
     (with_field ''closed_net_entry'' i128_text ho_closed_net_entry
     (with_field ''closed_margin'' option_i128_text ho_closed_margin
     (with_field ''first_fill_timestamp'' u64_text ho_first_fill_timestamp
     (with_field ''last_fill_timestamp'' u64_text ho_last_fill_timestamp
     no_more)))))))))))))))))))))"

lemma json_form_history_order [form_laws]: "wire_lib_ok lb \<Longrightarrow> json_form (history_order_form lb)"
  unfolding history_order_form_def by (intro struct_laws form_laws) (simp_all add: history_order.make_def)

record history_orders =
  hor_orders :: "history_order list"

definition history_orders_form :: "wire_lib \<Rightarrow> history_orders form" where
  "history_orders_form lb = struct_form history_orders.make
     (with_field ''orders'' (list_form (history_order_form lb)) hor_orders
     no_more)"

lemma json_form_history_orders [form_laws]: "wire_lib_ok lb \<Longrightarrow> json_form (history_orders_form lb)"
  unfolding history_orders_form_def by (intro struct_laws form_laws) (simp_all add: history_orders.make_def)

record ix_balances =
  xb_base :: ix_balance
  xb_quote :: "ix_balance option"

definition ix_balances_form :: "ix_balances form" where
  "ix_balances_form = struct_form ix_balances.make
     (with_field ''base'' ix_balance_form xb_base
     (with_option ''quote'' ix_balance_form xb_quote
     no_more))"

lemma json_form_ix_balances [form_laws]: "json_form ix_balances_form"
  unfolding ix_balances_form_def by (intro struct_laws form_laws) (simp_all add: ix_balances.make_def)

record ix_match =
  xm_digest :: bytes
  xm_order :: order
  xm_base_filled :: i128
  xm_quote_filled :: i128
  xm_fee :: i128
  xm_sequencer_fee :: i128
  xm_cumulative_fee :: i128
  xm_cumulative_base_filled :: i128
  xm_cumulative_quote_filled :: i128
  xm_pre_balance :: ix_balances
  xm_post_balance :: ix_balances
  xm_net_entry_unrealized :: i128
  xm_net_entry_cumulative :: i128
  xm_submission_idx :: u64
  xm_isolated :: bool
  xm_is_taker :: bool
  xm_closed_amount :: i128
  xm_realized_pnl :: i128
  xm_builder_fee :: i128
  xm_closed_net_entry :: i128
  xm_margin :: "i128 option"

definition ix_match_form :: "wire_lib \<Rightarrow> ix_match form" where
  "ix_match_form lb = struct_form ix_match.make
     (with_field ''digest'' (bytes32_form lb) xm_digest
     (with_field ''order'' (order_form lb) xm_order
     (with_field ''base_filled'' i128_text xm_base_filled
     (with_field ''quote_filled'' i128_text xm_quote_filled
     (with_field ''fee'' i128_text xm_fee
     (with_field ''sequencer_fee'' i128_text xm_sequencer_fee
     (with_field ''cumulative_fee'' i128_text xm_cumulative_fee
     (with_field ''cumulative_base_filled'' i128_text xm_cumulative_base_filled
     (with_field ''cumulative_quote_filled'' i128_text xm_cumulative_quote_filled
     (with_field ''pre_balance'' ix_balances_form xm_pre_balance
     (with_field ''post_balance'' ix_balances_form xm_post_balance
     (with_field ''net_entry_unrealized'' i128_text xm_net_entry_unrealized
     (with_field ''net_entry_cumulative'' i128_text xm_net_entry_cumulative
     (with_field ''submission_idx'' u64_text xm_submission_idx
     (with_field ''isolated'' bool_form xm_isolated
     (with_field ''is_taker'' bool_form xm_is_taker
     (with_field ''closed_amount'' i128_text xm_closed_amount
     (with_field ''realized_pnl'' i128_text xm_realized_pnl
     (with_field ''builder_fee'' i128_form xm_builder_fee
     (with_field ''closed_net_entry'' i128_text xm_closed_net_entry
     (with_field ''margin'' option_i128_text xm_margin
     no_more)))))))))))))))))))))"

lemma json_form_ix_match [form_laws]: "wire_lib_ok lb \<Longrightarrow> json_form (ix_match_form lb)"
  unfolding ix_match_form_def by (intro struct_laws form_laws) (simp_all add: ix_match.make_def)

record matches_response =
  mt_matches :: "ix_match list"
  mt_txs :: "ix_tx list"

definition matches_response_form :: "wire_lib \<Rightarrow> matches_response form" where
  "matches_response_form lb = struct_form matches_response.make
     (with_field ''matches'' (list_form (ix_match_form lb)) mt_matches
     (with_field ''txs'' (list_form (ix_tx_form lb)) mt_txs
     no_more))"

lemma json_form_matches_response [form_laws]: "wire_lib_ok lb \<Longrightarrow> json_form (matches_response_form lb)"
  unfolding matches_response_form_def by (intro struct_laws form_laws) (simp_all add: matches_response.make_def)

record ix_signature =
  xsg_digest :: bytes
  xsg_signature :: bytes
  xsg_signer :: bytes
  xsg_is_linked :: bool

definition ix_signature_form :: "wire_lib \<Rightarrow> ix_signature form" where
  "ix_signature_form lb = struct_form ix_signature.make
     (with_field ''digest'' (bytes32_form lb) xsg_digest
     (with_field ''signature'' (blob_form lb) xsg_signature
     (with_field ''signer'' (address_form lb) xsg_signer
     (with_field ''is_linked'' bool_form xsg_is_linked
     no_more))))"

lemma json_form_ix_signature [form_laws]: "wire_lib_ok lb \<Longrightarrow> json_form (ix_signature_form lb)"
  unfolding ix_signature_form_def by (intro struct_laws form_laws) (simp_all add: ix_signature.make_def)

record signature_response =
  xsr_signatures :: "ix_signature list"

definition signature_response_form :: "wire_lib \<Rightarrow> signature_response form" where
  "signature_response_form lb = struct_form signature_response.make
     (with_field ''signatures'' (list_form (ix_signature_form lb)) xsr_signatures
     no_more)"

lemma json_form_signature_response [form_laws]: "wire_lib_ok lb \<Longrightarrow> json_form (signature_response_form lb)"
  unfolding signature_response_form_def by (intro struct_laws form_laws) (simp_all add: signature_response.make_def)

subsection \<open>Candles, products and snapshots\<close>

record candlestick =
  ak_product_id :: i32
  ak_granularity :: i32
  ak_submission_idx :: i64
  ak_timestamp :: i64
  ak_open_x18 :: i128
  ak_high_x18 :: i128
  ak_low_x18 :: i128
  ak_close_x18 :: i128
  ak_volume :: i128

definition candlestick_form :: "candlestick form" where
  "candlestick_form = struct_form candlestick.make
     (with_field ''product_id'' i32_form ak_product_id
     (with_field ''granularity'' i32_form ak_granularity
     (with_field ''submission_idx'' i64_text ak_submission_idx
     (with_field ''timestamp'' i64_text ak_timestamp
     (with_field ''open_x18'' i128_text ak_open_x18
     (with_field ''high_x18'' i128_text ak_high_x18
     (with_field ''low_x18'' i128_text ak_low_x18
     (with_field ''close_x18'' i128_text ak_close_x18
     (with_field ''volume'' i128_text ak_volume
     no_more)))))))))"

lemma json_form_candlestick [form_laws]: "json_form candlestick_form"
  unfolding candlestick_form_def by (intro struct_laws form_laws) (simp_all add: candlestick.make_def)

record candlesticks_response =
  akr_candlesticks :: "candlestick list"

definition candlesticks_response_form :: "candlesticks_response form" where
  "candlesticks_response_form = struct_form candlesticks_response.make
     (with_field ''candlesticks'' (list_form candlestick_form) akr_candlesticks
     no_more)"

lemma json_form_candlesticks_response [form_laws]: "json_form candlesticks_response_form"
  unfolding candlesticks_response_form_def by (intro struct_laws form_laws) (simp_all add: candlesticks_response.make_def)

record product_response =
  xpr_products :: "ix_product list"

definition product_response_form :: "wire_lib \<Rightarrow> product_response form" where
  "product_response_form lb = struct_form product_response.make
     (with_field ''products'' (list_form (ix_product_form lb)) xpr_products
     no_more)"

lemma json_form_product_response [form_laws]: "wire_lib_ok lb \<Longrightarrow> json_form (product_response_form lb)"
  unfolding product_response_form_def by (intro struct_laws form_laws) (simp_all add: product_response.make_def)

record product_snapshot =
  pn_product_id :: u32
  pn_submission_idx :: u64
  pn_product :: ix_product

definition product_snapshot_form :: "wire_lib \<Rightarrow> product_snapshot form" where
  "product_snapshot_form lb = struct_form product_snapshot.make
     (with_field ''product_id'' u32_form pn_product_id
     (with_field ''submission_idx'' u64_text pn_submission_idx
     (with_field ''product'' (ix_product_form lb) pn_product
     no_more)))"

lemma json_form_product_snapshot [form_laws]: "wire_lib_ok lb \<Longrightarrow> json_form (product_snapshot_form lb)"
  unfolding product_snapshot_form_def by (intro struct_laws form_laws) (simp_all add: product_snapshot.make_def)

record products_response =
  pnr_products :: "product_snapshot list"
  pnr_txs :: "ix_tx list"

definition products_response_form :: "wire_lib \<Rightarrow> products_response form" where
  "products_response_form lb = struct_form products_response.make
     (with_field ''products'' (list_form (product_snapshot_form lb)) pnr_products
     (with_field ''txs'' (list_form (ix_tx_form lb)) pnr_txs
     no_more))"

lemma json_form_products_response [form_laws]: "wire_lib_ok lb \<Longrightarrow> json_form (products_response_form lb)"
  unfolding products_response_form_def by (intro struct_laws form_laws) (simp_all add: products_response.make_def)

record nlp_snapshot =
  nsn_submission_idx :: i64
  nsn_timestamp :: i64
  nsn_cumulative_volume :: i128
  nsn_cumulative_trades :: i64
  nsn_cumulative_mint_quote :: i128
  nsn_cumulative_burn_quote :: i128
  nsn_cumulative_pnl :: i128
  nsn_oracle_price_x18 :: i128
  nsn_depositors :: i64
  nsn_tvl :: i128

definition nlp_snapshot_form :: "nlp_snapshot form" where
  "nlp_snapshot_form = struct_form nlp_snapshot.make
     (with_field ''submission_idx'' i64_text nsn_submission_idx
     (with_field ''timestamp'' i64_text nsn_timestamp
     (with_field ''cumulative_volume'' i128_text nsn_cumulative_volume
     (with_field ''cumulative_trades'' i64_text nsn_cumulative_trades
     (with_field ''cumulative_mint_quote'' i128_text nsn_cumulative_mint_quote
     (with_field ''cumulative_burn_quote'' i128_text nsn_cumulative_burn_quote
     (with_field ''cumulative_pnl'' i128_text nsn_cumulative_pnl
     (with_field ''oracle_price_x18'' i128_text nsn_oracle_price_x18
     (with_field ''depositors'' i64_text nsn_depositors
     (with_field ''tvl'' i128_text nsn_tvl
     no_more))))))))))"

lemma json_form_nlp_snapshot [form_laws]: "json_form nlp_snapshot_form"
  unfolding nlp_snapshot_form_def by (intro struct_laws form_laws) (simp_all add: nlp_snapshot.make_def)

record nlp_snapshots =
  nsr_snapshots :: "nlp_snapshot list"

definition nlp_snapshots_form :: "nlp_snapshots form" where
  "nlp_snapshots_form = struct_form nlp_snapshots.make
     (with_field ''snapshots'' (list_form nlp_snapshot_form) nsr_snapshots
     no_more)"

lemma json_form_nlp_snapshots [form_laws]: "json_form nlp_snapshots_form"
  unfolding nlp_snapshots_form_def by (intro struct_laws form_laws) (simp_all add: nlp_snapshots.make_def)

record market_snapshot =
  msd_timestamp :: i64
  msd_cumulative_users :: i64
  msd_daily_active_users :: i64
  msd_cumulative_trades :: "(i32, i64) hashmap"
  msd_cumulative_volumes :: "(i32, i128) hashmap"
  msd_cumulative_trade_sizes :: "(i32, i128) hashmap"
  msd_cumulative_taker_fees :: "(i32, i128) hashmap"
  msd_cumulative_sequencer_fees :: "(i32, i128) hashmap"
  msd_cumulative_maker_fees :: "(i32, i128) hashmap"
  msd_cumulative_liquidation_amounts :: "(i32, i128) hashmap"
  msd_open_interests :: "(i32, i128) hashmap"
  msd_total_deposits :: "(i32, i128) hashmap"
  msd_total_borrows :: "(i32, i128) hashmap"
  msd_funding_rates :: "(i32, i128) hashmap"
  msd_deposit_rates :: "(i32, i128) hashmap"
  msd_borrow_rates :: "(i32, i128) hashmap"
  msd_cumulative_inflows :: "(i32, i128) hashmap"
  msd_cumulative_outflows :: "(i32, i128) hashmap"
  msd_oracle_prices :: "(i32, i128) hashmap"
  msd_tvl :: i128

definition market_snapshot_form :: "market_snapshot form" where
  "market_snapshot_form = struct_form market_snapshot.make
     (with_field ''timestamp'' i64_form msd_timestamp
     (with_field ''cumulative_users'' i64_form msd_cumulative_users
     (with_field ''daily_active_users'' i64_form msd_daily_active_users
     (with_field ''cumulative_trades'' (map_form i32_key i64_form) msd_cumulative_trades
     (with_field ''cumulative_volumes'' (map_form i32_key i128_text) msd_cumulative_volumes
     (with_field ''cumulative_trade_sizes'' (map_form i32_key i128_text) msd_cumulative_trade_sizes
     (with_field ''cumulative_taker_fees'' (map_form i32_key i128_text) msd_cumulative_taker_fees
     (with_field ''cumulative_sequencer_fees'' (map_form i32_key i128_text) msd_cumulative_sequencer_fees
     (with_field ''cumulative_maker_fees'' (map_form i32_key i128_text) msd_cumulative_maker_fees
     (with_field ''cumulative_liquidation_amounts'' (map_form i32_key i128_text) msd_cumulative_liquidation_amounts
     (with_field ''open_interests'' (map_form i32_key i128_text) msd_open_interests
     (with_field ''total_deposits'' (map_form i32_key i128_text) msd_total_deposits
     (with_field ''total_borrows'' (map_form i32_key i128_text) msd_total_borrows
     (with_field ''funding_rates'' (map_form i32_key i128_text) msd_funding_rates
     (with_field ''deposit_rates'' (map_form i32_key i128_text) msd_deposit_rates
     (with_field ''borrow_rates'' (map_form i32_key i128_text) msd_borrow_rates
     (with_field ''cumulative_inflows'' (map_form i32_key i128_text) msd_cumulative_inflows
     (with_field ''cumulative_outflows'' (map_form i32_key i128_text) msd_cumulative_outflows
     (with_field ''oracle_prices'' (map_form i32_key i128_text) msd_oracle_prices
     (with_field ''tvl'' i128_text msd_tvl
     no_more))))))))))))))))))))"

lemma json_form_market_snapshot [form_laws]: "json_form market_snapshot_form"
  unfolding market_snapshot_form_def by (intro struct_laws form_laws) (simp_all add: market_snapshot.make_def)

record market_snapshots =
  msr_snapshots :: "market_snapshot list"

definition market_snapshots_form :: "market_snapshots form" where
  "market_snapshots_form = struct_form market_snapshots.make
     (with_field ''snapshots'' (list_form market_snapshot_form) msr_snapshots
     no_more)"

lemma json_form_market_snapshots [form_laws]: "json_form market_snapshots_form"
  unfolding market_snapshots_form_def by (intro struct_laws form_laws) (simp_all add: market_snapshots.make_def)

record edge_market_snapshots =
  emr_snapshots :: "(u64, market_snapshot list) hashmap"

definition edge_market_snapshots_form :: "edge_market_snapshots form" where
  "edge_market_snapshots_form = struct_form edge_market_snapshots.make
     (with_field ''snapshots'' (map_form u64_key (list_form market_snapshot_form)) emr_snapshots
     no_more)"

lemma json_form_edge_market_snapshots [form_laws]: "json_form edge_market_snapshots_form"
  unfolding edge_market_snapshots_form_def by (intro struct_laws form_laws) (simp_all add: edge_market_snapshots.make_def)

record oracle_snapshot =
  osd_timestamp :: i64
  osd_oracle_prices :: "(i32, i128) hashmap"

definition oracle_snapshot_form :: "oracle_snapshot form" where
  "oracle_snapshot_form = struct_form oracle_snapshot.make
     (with_field ''timestamp'' i64_form osd_timestamp
     (with_field ''oracle_prices'' (map_form i32_key i128_text) osd_oracle_prices
     no_more))"

lemma json_form_oracle_snapshot [form_laws]: "json_form oracle_snapshot_form"
  unfolding oracle_snapshot_form_def by (intro struct_laws form_laws) (simp_all add: oracle_snapshot.make_def)

record oracle_snapshots =
  osr_snapshots :: "oracle_snapshot list"

definition oracle_snapshots_form :: "oracle_snapshots form" where
  "oracle_snapshots_form = struct_form oracle_snapshots.make
     (with_field ''snapshots'' (list_form oracle_snapshot_form) osr_snapshots
     no_more)"

lemma json_form_oracle_snapshots [form_laws]: "json_form oracle_snapshots_form"
  unfolding oracle_snapshots_form_def by (intro struct_laws form_laws) (simp_all add: oracle_snapshots.make_def)

subsection \<open>Accounts, prices and payments\<close>

record liquidatable_account =
  lqa_subaccount :: bytes
  lqa_update_time :: i64

definition liquidatable_account_form :: "wire_lib \<Rightarrow> liquidatable_account form" where
  "liquidatable_account_form lb = struct_form liquidatable_account.make
     (with_field ''subaccount'' (bytes32_form lb) lqa_subaccount
     (with_field ''update_time'' i64_form lqa_update_time
     no_more))"

lemma json_form_liquidatable_account [form_laws]: "wire_lib_ok lb \<Longrightarrow> json_form (liquidatable_account_form lb)"
  unfolding liquidatable_account_form_def by (intro struct_laws form_laws) (simp_all add: liquidatable_account.make_def)

record ix_subaccount =
  xsa_id :: u64
  xsa_subaccount :: bytes
  xsa_address :: bytes
  xsa_subaccount_name :: string
  xsa_created_at :: u64
  xsa_isolated :: bool

definition ix_subaccount_form :: "wire_lib \<Rightarrow> ix_subaccount form" where
  "ix_subaccount_form lb = struct_form ix_subaccount.make
     (with_field ''id'' u64_text xsa_id
     (with_field ''subaccount'' (bytes32_form lb) xsa_subaccount
     (with_field ''address'' (bytes20_form lb) xsa_address
     (with_field ''subaccount_name'' text_form xsa_subaccount_name
     (with_field ''created_at'' u64_text xsa_created_at
     (with_field ''isolated'' bool_form xsa_isolated
     no_more))))))"

lemma json_form_ix_subaccount [form_laws]: "wire_lib_ok lb \<Longrightarrow> json_form (ix_subaccount_form lb)"
  unfolding ix_subaccount_form_def by (intro struct_laws form_laws) (simp_all add: ix_subaccount.make_def)

record subaccounts_response =
  xsar_subaccounts :: "ix_subaccount list"

definition subaccounts_response_form :: "wire_lib \<Rightarrow> subaccounts_response form" where
  "subaccounts_response_form lb = struct_form subaccounts_response.make
     (with_field ''subaccounts'' (list_form (ix_subaccount_form lb)) xsar_subaccounts
     no_more)"

lemma json_form_subaccounts_response [form_laws]: "wire_lib_ok lb \<Longrightarrow> json_form (subaccounts_response_form lb)"
  unfolding subaccounts_response_form_def by (intro struct_laws form_laws) (simp_all add: subaccounts_response.make_def)

record linked_signer =
  lks_subaccount :: bytes
  lks_linked :: bytes
  lks_submission_idx :: i64
  lks_update_time :: i64

definition linked_signer_form :: "wire_lib \<Rightarrow> linked_signer form" where
  "linked_signer_form lb = struct_form linked_signer.make
     (with_field ''subaccount'' (bytes32_form lb) lks_subaccount
     (with_field ''linked'' (raw_bytes_form 20) lks_linked
     (with_field ''submission_idx'' i64_form lks_submission_idx
     (with_field ''update_time'' i64_form lks_update_time
     no_more))))"

lemma json_form_linked_signer [form_laws]: "wire_lib_ok lb \<Longrightarrow> json_form (linked_signer_form lb)"
  unfolding linked_signer_form_def by (intro struct_laws form_laws) (simp_all add: linked_signer.make_def)

record linked_signer_response =
  lkr_events :: "linked_signer list"

definition linked_signer_response_form :: "wire_lib \<Rightarrow> linked_signer_response form" where
  "linked_signer_response_form lb = struct_form linked_signer_response.make
     (with_field ''events'' (list_form (linked_signer_form lb)) lkr_events
     no_more)"

lemma json_form_linked_signer_response [form_laws]: "wire_lib_ok lb \<Longrightarrow> json_form (linked_signer_response_form lb)"
  unfolding linked_signer_response_form_def by (intro struct_laws form_laws) (simp_all add: linked_signer_response.make_def)

record signer_rate_limit =
  srl_remaining_tx :: u64
  srl_wait_time :: u64
  srl_total_tx_limit :: u64
  srl_signer :: bytes

definition signer_rate_limit_form :: "wire_lib \<Rightarrow> signer_rate_limit form" where
  "signer_rate_limit_form lb = struct_form signer_rate_limit.make
     (with_field ''remaining_tx'' u64_text srl_remaining_tx
     (with_field ''wait_time'' u64_text srl_wait_time
     (with_field ''total_tx_limit'' u64_text srl_total_tx_limit
     (with_field ''signer'' (bytes20_form lb) srl_signer
     no_more))))"

lemma json_form_signer_rate_limit [form_laws]: "wire_lib_ok lb \<Longrightarrow> json_form (signer_rate_limit_form lb)"
  unfolding signer_rate_limit_form_def by (intro struct_laws form_laws) (simp_all add: signer_rate_limit.make_def)

record isolated_subaccount =
  isa_subaccount :: bytes
  isa_product_id :: i32
  isa_submission_idx :: i64
  isa_update_time :: i64
  isa_isolated_subaccount :: bytes
  isa_status :: i32

definition isolated_subaccount_form :: "wire_lib \<Rightarrow> isolated_subaccount form" where
  "isolated_subaccount_form lb = struct_form isolated_subaccount.make
     (with_field ''subaccount'' (bytes32_form lb) isa_subaccount
     (with_field ''product_id'' i32_form isa_product_id
     (with_field ''submission_idx'' i64_form isa_submission_idx
     (with_field ''update_time'' i64_form isa_update_time
     (with_field ''isolated_subaccount'' (bytes32_form lb) isa_isolated_subaccount
     (with_field ''status'' i32_form isa_status
     no_more))))))"

lemma json_form_isolated_subaccount [form_laws]: "wire_lib_ok lb \<Longrightarrow> json_form (isolated_subaccount_form lb)"
  unfolding isolated_subaccount_form_def by (intro struct_laws form_laws) (simp_all add: isolated_subaccount.make_def)

record isolated_subaccounts =
  isr_isolated_subaccounts :: "isolated_subaccount list"

definition isolated_subaccounts_form :: "wire_lib \<Rightarrow> isolated_subaccounts form" where
  "isolated_subaccounts_form lb = struct_form isolated_subaccounts.make
     (with_field ''isolated_subaccounts'' (list_form (isolated_subaccount_form lb)) isr_isolated_subaccounts
     no_more)"

lemma json_form_isolated_subaccounts [form_laws]: "wire_lib_ok lb \<Longrightarrow> json_form (isolated_subaccounts_form lb)"
  unfolding isolated_subaccounts_form_def by (intro struct_laws form_laws) (simp_all add: isolated_subaccounts.make_def)

record funding_rate =
  frt_product_id :: u32
  frt_funding_rate_x18 :: i64
  frt_update_time :: u64

definition funding_rate_form :: "funding_rate form" where
  "funding_rate_form = struct_form funding_rate.make
     (with_field ''product_id'' u32_form frt_product_id
     (with_field ''funding_rate_x18'' i64_text frt_funding_rate_x18
     (with_field ''update_time'' u64_text frt_update_time
     no_more)))"

lemma json_form_funding_rate [form_laws]: "json_form funding_rate_form"
  unfolding funding_rate_form_def by (intro struct_laws form_laws) (simp_all add: funding_rate.make_def)

record perp_price =
  ppr_product_id :: u32
  ppr_index_price_x18 :: i128
  ppr_mark_price_x18 :: i128
  ppr_update_time :: u64

definition perp_price_form :: "perp_price form" where
  "perp_price_form = struct_form perp_price.make
     (with_field ''product_id'' u32_form ppr_product_id
     (with_field ''index_price_x18'' i128_text ppr_index_price_x18
     (with_field ''mark_price_x18'' i128_text ppr_mark_price_x18
     (with_field ''update_time'' u64_text ppr_update_time
     no_more))))"

lemma json_form_perp_price [form_laws]: "json_form perp_price_form"
  unfolding perp_price_form_def by (intro struct_laws form_laws) (simp_all add: perp_price.make_def)

record oracle_price =
  op_product_id :: u32
  op_price :: i128
  op_update_time :: u64

definition oracle_price_form :: "oracle_price form" where
  "oracle_price_form = struct_form oracle_price.make
     (with_field ''product_id'' u32_form op_product_id
     (with_field ''oracle_price_x18'' i128_text op_price
     (with_field ''update_time'' u64_text op_update_time
     no_more)))"

lemma json_form_oracle_price [form_laws]: "json_form oracle_price_form"
  unfolding oracle_price_form_def by (intro struct_laws form_laws) (simp_all add: oracle_price.make_def)

record oracle_prices =
  opr_prices :: "oracle_price list"

definition oracle_prices_form :: "oracle_prices form" where
  "oracle_prices_form = struct_form oracle_prices.make
     (with_field ''prices'' (list_form oracle_price_form) opr_prices
     no_more)"

lemma json_form_oracle_prices [form_laws]: "json_form oracle_prices_form"
  unfolding oracle_prices_form_def by (intro struct_laws form_laws) (simp_all add: oracle_prices.make_def)

record quote_price =
  qpr_price_x18 :: i128

definition quote_price_form :: "quote_price form" where
  "quote_price_form = struct_form quote_price.make
     (with_field ''price_x18'' i128_text qpr_price_x18
     no_more)"

lemma json_form_quote_price [form_laws]: "json_form quote_price_form"
  unfolding quote_price_form_def by (intro struct_laws form_laws) (simp_all add: quote_price.make_def)

record payment =
  pm_product_id :: u32
  pm_idx :: u64
  pm_timestamp :: u64
  pm_amount :: i128
  pm_balance_amount :: i128
  pm_rate :: i128
  pm_oracle_price :: i128
  pm_isolated :: bool
  pm_isolated_product_id :: "u32 option"

definition payment_form :: "payment form" where
  "payment_form = struct_form payment.make
     (with_field ''product_id'' u32_form pm_product_id
     (with_field ''idx'' u64_text pm_idx
     (with_field ''timestamp'' u64_text pm_timestamp
     (with_field ''amount'' i128_text pm_amount
     (with_field ''balance_amount'' i128_text pm_balance_amount
     (with_field ''rate_x18'' i128_text pm_rate
     (with_field ''oracle_price_x18'' i128_text pm_oracle_price
     (with_field ''isolated'' bool_form pm_isolated
     (with_option ''isolated_product_id'' u32_form pm_isolated_product_id
     no_more)))))))))"

lemma json_form_payment [form_laws]: "json_form payment_form"
  unfolding payment_form_def by (intro struct_laws form_laws) (simp_all add: payment.make_def)

record funding_response =
  fr_interest_payments :: "payment list"
  fr_funding_payments :: "payment list"
  fr_next_idx :: "u64 option"

definition funding_response_form :: "funding_response form" where
  "funding_response_form = struct_form funding_response.make
     (with_field ''interest_payments'' (list_form payment_form) fr_interest_payments
     (with_field ''funding_payments'' (list_form payment_form) fr_funding_payments
     (with_option ''next_idx'' wrapped_u64 fr_next_idx
     no_more)))"

lemma json_form_funding_response [form_laws]: "json_form funding_response_form"
  unfolding funding_response_form_def by (intro struct_laws form_laws) (simp_all add: funding_response.make_def)

record nlp_funding =
  nfr_funding_payments :: "payment list"
  nfr_next_idx :: "u64 option"

definition nlp_funding_form :: "nlp_funding form" where
  "nlp_funding_form = struct_form nlp_funding.make
     (with_field ''funding_payments'' (list_form payment_form) nfr_funding_payments
     (with_option ''next_idx'' wrapped_u64 nfr_next_idx
     no_more))"

lemma json_form_nlp_funding [form_laws]: "json_form nlp_funding_form"
  unfolding nlp_funding_form_def by (intro struct_laws form_laws) (simp_all add: nlp_funding.make_def)

record nlp_interest =
  nir_interest_payments :: "payment list"
  nir_next_idx :: "u64 option"

definition nlp_interest_form :: "nlp_interest form" where
  "nlp_interest_form = struct_form nlp_interest.make
     (with_field ''interest_payments'' (list_form payment_form) nir_interest_payments
     (with_option ''next_idx'' wrapped_u64 nir_next_idx
     no_more))"

lemma json_form_nlp_interest [form_laws]: "json_form nlp_interest_form"
  unfolding nlp_interest_form_def by (intro struct_laws form_laws) (simp_all add: nlp_interest.make_def)

record fast_withdrawal =
  fwr_idx :: u64
  fwr_tx :: ep_withdraw_collateral
  fwr_tx_bytes :: bytes
  fwr_signatures :: "bytes list"

definition fast_withdrawal_form :: "wire_lib \<Rightarrow> fast_withdrawal form" where
  "fast_withdrawal_form lb = struct_form fast_withdrawal.make
     (with_field ''idx'' wrapped_u64 fwr_idx
     (with_field ''tx'' (ep_withdraw_collateral_form lb) fwr_tx
     (with_field ''tx_bytes'' (blob_form lb) fwr_tx_bytes
     (with_field ''signatures'' (list_form (blob_form lb)) fwr_signatures
     no_more))))"

lemma json_form_fast_withdrawal [form_laws]: "wire_lib_ok lb \<Longrightarrow> json_form (fast_withdrawal_form lb)"
  unfolding fast_withdrawal_form_def by (intro struct_laws form_laws) (simp_all add: fast_withdrawal.make_def)

end
