(* ===== verification/ChartGateway.thy ===== *)
theory ChartGateway
  imports CandleSeries SdkArchive
begin

text \<open>
  The chart gateway (gateway/chart/src/market.rs, main.rs, config.rs, protocol.rs): series of
  candles by symbol and granularity, each filled from the table and the exchange's archive
  before it is used, kept current by the latest_candlestick stream and fanned out to
  subscribers. The table is passed along as a state of its own. What the outside does is a
  parameter of each operation: whether the database accepts a call, what the archive answers,
  what arrives from the stream.
\<close>

subsection \<open>Messages\<close>

datatype chart_message =
    C_Snapshot string u32 u32 u64 "candle_view list"
  | C_Update string u32 u32 u64 candle_view
  | C_Status string u32 u32 string string
  | C_Error string
  | C_Pong u64

record candles_response =
  cs_symbol :: string
  cs_product_id :: u32
  cs_granularity :: u32
  cs_candles :: "candle_view list"
  cs_source :: string

subsection \<open>Series handles\<close>

record series_handle =
  sh_symbol :: string
  sh_product_id :: u32
  sh_granularity :: u32
  sh_client_mode :: client_mode
  sh_nado_ws_url :: "string option"
  sh_nado_archive_url :: "string option"
  sh_history_limit :: nat
  sh_cache_capacity :: nat
  sh_state :: series_state
  sh_seq :: u64
  sh_worker_started :: bool
  sh_next_subscriber_id :: u64
  sh_subscribers :: "(u64, chart_message channel) hashmap"

definition new_series ::
  "string \<Rightarrow> u32 \<Rightarrow> u32 \<Rightarrow> client_mode \<Rightarrow> string option \<Rightarrow> string option \<Rightarrow> nat \<Rightarrow> nat \<Rightarrow> series_handle" where
  "new_series symbol pid gran mode ws_url archive_url history_limit cache_capacity =
     \<lparr>sh_symbol = symbol, sh_product_id = pid, sh_granularity = gran, sh_client_mode = mode,
      sh_nado_ws_url = ws_url, sh_nado_archive_url = archive_url,
      sh_history_limit = history_limit, sh_cache_capacity = cache_capacity, sh_state = [],
      sh_seq = 1, sh_worker_started = False, sh_next_subscriber_id = 1, sh_subscribers = []\<rparr>"

text \<open>The result says whether a worker starts; only the first call starts one.\<close>

definition spawn_series :: "series_handle \<Rightarrow> bool \<times> series_handle" where
  "spawn_series h = (\<not> sh_worker_started h, h\<lparr>sh_worker_started := True\<rparr>)"

definition series_next_seq :: "series_handle \<Rightarrow> u64 \<times> series_handle" where
  "series_next_seq h = (sh_seq h, h\<lparr>sh_seq := sh_seq h + 1\<rparr>)"

definition series_emit :: "chart_message \<Rightarrow> series_handle \<Rightarrow> series_handle" where
  "series_emit m h = h\<lparr>sh_subscribers := emit_to m (sh_subscribers h)\<rparr>"

definition series_status :: "string \<Rightarrow> string \<Rightarrow> series_handle \<Rightarrow> series_handle" where
  "series_status status detail h =
     series_emit (C_Status (sh_symbol h) (sh_product_id h) (sh_granularity h) status detail) h"

definition series_snapshot :: "nat \<Rightarrow> series_handle \<Rightarrow> candle_view list" where
  "series_snapshot limit h = snapshot_views limit (sh_state h)"

definition series_register :: "series_handle \<Rightarrow> u64 \<times> series_handle" where
  "series_register h =
     (let sid = sh_next_subscriber_id h in
      (sid, h\<lparr>sh_next_subscriber_id := sid + 1,
            sh_subscribers := hm_insert sid \<lparr>ch_queue = [], ch_open = True\<rparr> (sh_subscribers h)\<rparr>))"

definition series_first_message :: "nat \<Rightarrow> series_handle \<Rightarrow> chart_message \<times> series_handle" where
  "series_first_message limit h =
     (let candles = snapshot_views limit (sh_state h) in
      if candles = [] then
        (C_Status (sh_symbol h) (sh_product_id h) (sh_granularity h) ''warming_up''
           ''waiting for first candle updates'', h)
      else
        (let (seq, h') = series_next_seq h in
         (C_Snapshot (sh_symbol h) (sh_product_id h) (sh_granularity h) seq candles, h')))"

definition series_subscribe :: "nat \<Rightarrow> series_handle \<Rightarrow> u64 \<times> chart_message \<times> series_handle" where
  "series_subscribe limit h =
     (let (sid, h1) = series_register h; (m, h2) = series_first_message limit h1 in (sid, m, h2))"

definition series_unsubscribe :: "u64 \<Rightarrow> series_handle \<Rightarrow> series_handle" where
  "series_unsubscribe sid h = h\<lparr>sh_subscribers := hm_remove sid (sh_subscribers h)\<rparr>"

definition series_ws_url :: "environment \<Rightarrow> series_handle \<Rightarrow> string" where
  "series_ws_url env h =
     (case sh_nado_ws_url h of
        Some url \<Rightarrow> url
      | None \<Rightarrow> derived_subscribe_url (default_gateway_url env (sh_client_mode h)))"

subsection \<open>The archive\<close>

text \<open>Seconds, from seconds, milliseconds, microseconds or nanoseconds, told apart by their size.\<close>

definition normalize_timestamp_to_sec :: "i64 \<Rightarrow> i64" where
  "normalize_timestamp_to_sec v =
     (if v > 9999999999999999 then tdiv v 1000000000
      else if v > 9999999999999 then tdiv v 1000000
      else if v > 9999999999 then tdiv v 1000
      else v)"

definition archive_row :: "string \<Rightarrow> u32 \<Rightarrow> u32 \<Rightarrow> candlestick \<Rightarrow> candle_row" where
  "archive_row symbol pid gran item =
     \<lparr>cd_product_id = pid, cd_symbol = symbol, cd_granularity = gran,
      cd_bucket_start_sec = normalize_timestamp_to_sec (ak_timestamp item),
      cd_open_x18 = show_int (ak_open_x18 item), cd_high_x18 = show_int (ak_high_x18 item),
      cd_low_x18 = show_int (ak_low_x18 item), cd_close_x18 = show_int (ak_close_x18 item),
      cd_volume_x18 = show_int (ak_volume item),
      cd_submission_idx = ak_submission_idx item, cd_source_ts = ak_timestamp item\<rparr>"

text \<open>The archive answers a request for at most limit candles of a product and granularity.\<close>

type_synonym archive = "u32 \<Rightarrow> u32 \<Rightarrow> u32 \<Rightarrow> string + candlestick list"

definition fetch_archive :: "archive \<Rightarrow> u32 \<Rightarrow> series_handle \<Rightarrow> string + candle_row list" where
  "fetch_archive archive limit h =
     res_bind (map_err (\<lambda>e. ''failed querying archive candlesticks: '' @ e)
         (archive (sh_product_id h) (sh_granularity h) (min limit 500))) (\<lambda>items.
       Ok (dedup_by_key cd_bucket_start_sec (sort_key cd_bucket_start_sec
         (map (archive_row (sh_symbol h) (sh_product_id h) (sh_granularity h)) items))))"

text \<open>What the outside does while a series is filled.\<close>

record fill_env =
  fe_load :: "string option"
  fe_archive :: archive
  fe_upsert :: "candle_row list \<Rightarrow> string option"
  fe_reload :: "string option"

definition series_load :: "string option \<Rightarrow> series_handle \<Rightarrow> candle_store \<Rightarrow> string + candle_row list" where
  "series_load fails h s =
     load_recent fails (sh_symbol h) (sh_product_id h) (sh_granularity h) (sh_history_limit h) s"

definition set_window :: "candle_row list \<Rightarrow> series_handle \<Rightarrow> series_handle" where
  "set_window rows h = h\<lparr>sh_state := replace_all rows (sh_cache_capacity h)\<rparr>"

definition bootstrap :: "fill_env \<Rightarrow> series_handle \<Rightarrow> candle_store \<Rightarrow> (string + series_handle) \<times> candle_store" where
  "bootstrap env h s =
     (case series_load (fe_load env) h s of
        Inl e \<Rightarrow> (Err e, s)
      | Inr rows \<Rightarrow>
          if length rows < sh_history_limit h then
            (case fetch_archive (fe_archive env) (word_of_nat (sh_history_limit h)) h of
               Inl e \<Rightarrow> (Err e, s)
             | Inr fetched \<Rightarrow>
                 if fetched \<noteq> [] then
                   (let (r, s') = upsert_many (fe_upsert env) fetched s in
                    case r of
                      Inl e \<Rightarrow> (Err e, s')
                    | Inr _ \<Rightarrow> (res_bind (series_load (fe_reload env) h s') (\<lambda>rows. Ok (set_window rows h)), s'))
                 else (Ok (set_window rows h), s))
          else (Ok (set_window rows h), s))"

definition backfill_from_archive :: "fill_env \<Rightarrow> series_handle \<Rightarrow> candle_store \<Rightarrow> (string + series_handle) \<times> candle_store" where
  "backfill_from_archive env h s =
     (case fetch_archive (fe_archive env) (word_of_nat (sh_history_limit h)) h of
        Inl e \<Rightarrow> (Err e, s)
      | Inr fetched \<Rightarrow>
          if fetched = [] then (Ok h, s)
          else
            (let (r, s') = upsert_many (fe_upsert env) fetched s in
             case r of
               Inl e \<Rightarrow> (Err e, s')
             | Inr _ \<Rightarrow> (res_bind (series_load (fe_reload env) h s') (\<lambda>rows. Ok (set_window rows h)), s')))"

subsection \<open>The stream\<close>

definition json_i64 :: "json \<Rightarrow> i64 option" where
  "json_i64 v =
     opt_or (as_i64 v)
       (opt_or (Option.bind (as_u64 v) (\<lambda>n. if int (unat n) \<le> i64_max then Some (int (unat n)) else None))
         (Option.bind (as_str v) parse_i64))"

definition value_to_string_number :: "json option \<Rightarrow> string option" where
  "value_to_string_number value =
     Option.bind value (\<lambda>v.
       opt_or (as_str v) (opt_or (map_option show_int (as_i64 v)) (map_option show_u64 (as_u64 v))))"

definition missing_field :: "string \<Rightarrow> string" where
  "missing_field f = ''latest_candlestick missing '' @ f"

text \<open>The argument now is the clock in milliseconds.\<close>

definition parse_latest_candlestick ::
  "u64 \<Rightarrow> json \<Rightarrow> string \<Rightarrow> u32 \<Rightarrow> u32 \<Rightarrow> string + candle_row option" where
  "parse_latest_candlestick now payload symbol expected_product_id expected_granularity =
     (case as_object payload of
        None \<Rightarrow> Ok None
      | Some obj \<Rightarrow>
          (let event_type = to_lowercase (unwrap_or [] (Option.bind (map_of obj ''type'') as_str)) in
           if event_type \<noteq> ''latest_candlestick'' then Ok None
           else
             res_bind (ok_or (missing_field ''product_id'') (Option.bind (map_of obj ''product_id'') json_u32)) (\<lambda>pid.
             if pid \<noteq> expected_product_id then Ok None
             else
             res_bind (ok_or (missing_field ''granularity'') (Option.bind (map_of obj ''granularity'') json_u32)) (\<lambda>gran.
             if gran \<noteq> expected_granularity then Ok None
             else
             res_bind (ok_or (missing_field ''timestamp'') (Option.bind (map_of obj ''timestamp'') json_i64)) (\<lambda>ts.
             res_bind (ok_or (missing_field ''open_x18'') (value_to_string_number (map_of obj ''open_x18''))) (\<lambda>op.
             res_bind (ok_or (missing_field ''high_x18'') (value_to_string_number (map_of obj ''high_x18''))) (\<lambda>hi.
             res_bind (ok_or (missing_field ''low_x18'') (value_to_string_number (map_of obj ''low_x18''))) (\<lambda>lo.
             res_bind (ok_or (missing_field ''close_x18'') (value_to_string_number (map_of obj ''close_x18''))) (\<lambda>cl.
             res_bind (ok_or (missing_field ''volume'') (value_to_string_number (map_of obj ''volume''))) (\<lambda>vol.
             Ok (Some
               \<lparr>cd_product_id = pid, cd_symbol = symbol, cd_granularity = gran,
                cd_bucket_start_sec = normalize_timestamp_to_sec ts,
                cd_open_x18 = op, cd_high_x18 = hi, cd_low_x18 = lo, cd_close_x18 = cl, cd_volume_x18 = vol,
                cd_submission_idx = unwrap_or (sint now) (Option.bind (map_of obj ''submission_idx'') json_i64),
                cd_source_ts = unwrap_or ts (Option.bind (map_of obj ''source_ts'') json_i64)\<rparr>)))))))))))"

text \<open>
  One text from the stream, with the time it is read at and whether the database accepts its
  row. Reading and printing JSON are the library's.
\<close>

record json_lib =
  jl_read :: "string \<Rightarrow> string + json"
  jl_show :: "json \<Rightarrow> string"

definition chart_text ::
  "json_lib \<Rightarrow> u64 \<Rightarrow> (candle_row list \<Rightarrow> string option) \<Rightarrow> string \<Rightarrow> series_handle \<Rightarrow> candle_store \<Rightarrow>
     (string + unit) \<times> series_handle \<times> candle_store" where
  "chart_text lib now fails txt h s =
     (case jl_read lib txt of
        Inl e \<Rightarrow> (Err (''failed parsing upstream payload: '' @ e), h, s)
      | Inr value \<Rightarrow>
          (case json_get ''error'' value of
             Some e \<Rightarrow> (Err (''upstream returned error: '' @ jl_show lib e), h, s)
           | None \<Rightarrow>
               (case parse_latest_candlestick now (unwrap_or value (json_get ''event'' value))
                       (sh_symbol h) (sh_product_id h) (sh_granularity h) of
                  Inl e \<Rightarrow> (Err e, h, s)
                | Inr None \<Rightarrow> (Ok (), h, s)
                | Inr (Some row) \<Rightarrow>
                    (let (r, s') = upsert_candle fails row s in
                     case r of
                       Inl e \<Rightarrow> (Err e, h, s')
                     | Inr _ \<Rightarrow>
                         (let (changed, q) = apply_row row (sh_cache_capacity h) (sh_state h);
                              h1 = h\<lparr>sh_state := q\<rparr> in
                          if changed then
                            (let (seq, h2) = series_next_seq h1 in
                             (Ok (), series_emit (C_Update (sh_symbol h) (sh_product_id h) (sh_granularity h)
                                seq (candle_to_view row)) h2, s'))
                          else (Ok (), h1, s'))))))"

type_synonym chart_inbound = "upstream_inbound \<times> u64 \<times> (candle_row list \<Rightarrow> string option)"

text \<open>The loop over what the reader delivers; it always ends with an error, as in the code.\<close>

fun chart_session_loop ::
  "json_lib \<Rightarrow> series_handle \<Rightarrow> candle_store \<Rightarrow> chart_inbound list \<Rightarrow> string \<times> series_handle \<times> candle_store" where
  "chart_session_loop lib h s [] = (''upstream websocket event channel closed'', h, s)"
| "chart_session_loop lib h s ((In_Closed reason, _) # es) =
     (''upstream websocket closed: '' @ reason, h, s)"
| "chart_session_loop lib h s ((In_Error reason, _) # es) =
     (''upstream websocket receive error: '' @ reason, h, s)"
| "chart_session_loop lib h s ((In_Text txt, now, fails) # es) =
     (let (r, h', s') = chart_text lib now fails txt h s in
      case r of
        Inl e \<Rightarrow> (e, h', s')
      | Inr _ \<Rightarrow> chart_session_loop lib h' s' es)"

datatype chart_run = Chart_Not_Connected string | Chart_Connected "chart_inbound list"

definition chart_stream_once ::
  "json_lib \<Rightarrow> chart_run \<Rightarrow> series_handle \<Rightarrow> candle_store \<Rightarrow> string \<times> series_handle \<times> candle_store" where
  "chart_stream_once lib run h s =
     (case run of
        Chart_Not_Connected e \<Rightarrow> (e, h, s)
      | Chart_Connected inbound \<Rightarrow>
          chart_session_loop lib (series_status ''connected'' ''subscribed to latest_candlestick'' h) s inbound)"

definition chart_next_backoff :: "nat \<Rightarrow> nat" where
  "chart_next_backoff backoff = min (backoff * 2) 20"

definition chart_worker_iteration ::
  "json_lib \<Rightarrow> nat \<Rightarrow> fill_env \<times> chart_run \<Rightarrow> series_handle \<Rightarrow> candle_store \<Rightarrow> series_handle \<times> candle_store" where
  "chart_worker_iteration lib backoff run h s =
     (let (r, s1) = backfill_from_archive (fst run) h s;
          h1 = (case r of Inl _ \<Rightarrow> h | Inr h' \<Rightarrow> h');
          h2 = series_status ''connecting'' ''connecting to latest_candlestick stream'' h1;
          (e, h3, s2) = chart_stream_once lib (snd run) h2 s1 in
      (series_status ''reconnecting''
         (''stream error: '' @ e @ ''; retry in '' @ show_nat backoff @ ''s'') h3, s2))"

text \<open>The loop over a finite number of runs, with its pauses in seconds.\<close>

fun chart_worker_loop ::
  "json_lib \<Rightarrow> nat \<Rightarrow> (fill_env \<times> chart_run) list \<Rightarrow> series_handle \<Rightarrow> candle_store \<Rightarrow>
     (series_handle \<times> candle_store) \<times> nat list" where
  "chart_worker_loop lib backoff [] h s = ((h, s), [])"
| "chart_worker_loop lib backoff (run # runs) h s =
     (let (h1, s1) = chart_worker_iteration lib backoff run h s;
          (r, pauses) = chart_worker_loop lib (chart_next_backoff backoff) runs h1 s1 in
      (r, backoff # pauses))"

subsection \<open>The supervisor\<close>

type_synonym series_key = "string \<times> u32"

record chart_supervisor =
  cp_client_mode :: client_mode
  cp_nado_ws_url :: "string option"
  cp_nado_archive_url :: "string option"
  cp_history_limit :: nat
  cp_cache_capacity :: nat
  cp_supported_granularities :: "u32 list"
  cp_symbols :: "symbol_info list"
  cp_lookup :: "(string, u32) hashmap"
  cp_series :: "(series_key, series_handle) hashmap"

definition new_chart_supervisor ::
  "client_mode \<Rightarrow> string option \<Rightarrow> string option \<Rightarrow> nat \<Rightarrow> nat \<Rightarrow> u32 list \<Rightarrow> symbol_directory \<Rightarrow> chart_supervisor" where
  "new_chart_supervisor mode ws_url archive_url history_limit cache_capacity grans dir =
     \<lparr>cp_client_mode = mode, cp_nado_ws_url = ws_url, cp_nado_archive_url = archive_url,
      cp_history_limit = history_limit, cp_cache_capacity = cache_capacity,
      cp_supported_granularities = grans, cp_symbols = sd_symbols dir, cp_lookup = sd_lookup dir,
      cp_series = []\<rparr>"

text \<open>The directory is loaded by the same code as the orderbook gateway's.\<close>

definition chart_symbol_directory :: "symbol_info list \<Rightarrow> string + symbol_directory" where
  "chart_symbol_directory data = load_symbol_directory data"

definition supports_granularity :: "chart_supervisor \<Rightarrow> u32 \<Rightarrow> bool" where
  "supports_granularity sv gran \<longleftrightarrow> gran \<in> set (cp_supported_granularities sv)"

text \<open>
  The first half of ensure_series: refuse, or find the series, or put a new one in the map. The
  flag says that the series is new and the caller has to fill it.
\<close>

definition ensure_entry :: "string \<Rightarrow> u32 \<Rightarrow> chart_supervisor \<Rightarrow> string + (series_handle \<times> bool \<times> chart_supervisor)" where
  "ensure_entry symbol gran sv =
     (if \<not> supports_granularity sv gran then
        Err (''unsupported granularity '' @ CHR 0x27 # show_u32 gran @ [CHR 0x27])
      else
        (let normalized = normalize_symbol symbol in
         case hm_get (cp_lookup sv) normalized of
           None \<Rightarrow> Err (''unknown symbol '' @ CHR 0x27 # symbol @ [CHR 0x27])
         | Some pid \<Rightarrow>
             (case hm_get (cp_series sv) (normalized, gran) of
                Some existing \<Rightarrow> Ok (existing, False, sv)
              | None \<Rightarrow>
                  (let h = new_series normalized pid gran (cp_client_mode sv) (cp_nado_ws_url sv)
                             (cp_nado_archive_url sv) (cp_history_limit sv) (cp_cache_capacity sv) in
                   Ok (h, True, sv\<lparr>cp_series := hm_insert (normalized, gran) h (cp_series sv)\<rparr>)))))"

text \<open>The second half, for a new series: fill it, then start its worker, or take it out again.\<close>

definition ensure_fill ::
  "fill_env \<Rightarrow> series_key \<Rightarrow> series_handle \<Rightarrow> chart_supervisor \<times> candle_store \<Rightarrow>
     (string + series_handle) \<times> chart_supervisor \<times> candle_store" where
  "ensure_fill env key h st =
     (let (sv, s) = st; (r, s') = bootstrap env h s in
      case r of
        Inl e \<Rightarrow> (Err e, sv\<lparr>cp_series := hm_remove key (cp_series sv)\<rparr>, s')
      | Inr h1 \<Rightarrow>
          (let (_, h2) = spawn_series h1 in
           (Ok h2, sv\<lparr>cp_series := hm_insert key h2 (cp_series sv)\<rparr>, s')))"

definition ensure_series ::
  "fill_env \<Rightarrow> string \<Rightarrow> u32 \<Rightarrow> chart_supervisor \<times> candle_store \<Rightarrow>
     (string + series_handle) \<times> chart_supervisor \<times> candle_store" where
  "ensure_series env symbol gran st =
     (case ensure_entry symbol gran (fst st) of
        Inl e \<Rightarrow> (Err e, st)
      | Inr (h, fresh, sv) \<Rightarrow>
          if fresh then ensure_fill env (normalize_symbol symbol, gran) h (sv, snd st)
          else (Ok h, sv, snd st))"

definition active_series :: "chart_supervisor \<Rightarrow> nat" where
  "active_series sv = length (cp_series sv)"

subsection \<open>Requests\<close>

datatype chart_error = C_BadRequest string | C_NotFound string | C_Internal string

fun chart_error_status :: "chart_error \<Rightarrow> nat" where
  "chart_error_status (C_BadRequest _) = 400"
| "chart_error_status (C_NotFound _) = 404"
| "chart_error_status (C_Internal _) = 500"

fun chart_error_text :: "chart_error \<Rightarrow> string" where
  "chart_error_text (C_BadRequest m) = m"
| "chart_error_text (C_NotFound m) = m"
| "chart_error_text (C_Internal m) = m"

definition timeframe_to_granularity :: "string \<Rightarrow> u32 option" where
  "timeframe_to_granularity v =
     (if v = ''1m'' then Some 60
      else if v = ''5m'' then Some 300
      else if v = ''15m'' then Some 900
      else if v = ''1h'' then Some 3600
      else if v = ''2h'' then Some 7200
      else if v = ''4h'' then Some 14400
      else if v = ''1d'' then Some 86400
      else if v = ''1w'' then Some 604800
      else if v = ''4w'' then Some 2419200
      else None)"

definition parse_granularity :: "string option \<Rightarrow> u32 option \<Rightarrow> u32 \<Rightarrow> chart_error + u32" where
  "parse_granularity tf granularity default_granularity =
     (case granularity of
        Some v \<Rightarrow> if v = 0 then Err (C_BadRequest ''granularity must be > 0'') else Ok v
      | None \<Rightarrow>
          (case tf of
             None \<Rightarrow> Ok default_granularity
           | Some tf \<Rightarrow>
               (let normalized = to_lowercase (trim tf);
                    bad = C_BadRequest (''unsupported tf '' @ CHR 0x27 # tf @ [CHR 0x27]) in
                if normalized = [] then Ok default_granularity
                else
                  (case timeframe_to_granularity normalized of
                     Some v \<Rightarrow> Ok v
                   | None \<Rightarrow>
                       (case parse_u32 normalized of
                          Some v \<Rightarrow> if v > 0 then Ok v else Err bad
                        | None \<Rightarrow> Err bad)))))"

definition map_ensure_error :: "string \<Rightarrow> chart_error" where
  "map_ensure_error message =
     (if str_contains message ''unknown symbol'' then C_NotFound message
      else if str_contains message ''unsupported granularity'' then C_BadRequest message
      else C_Internal message)"

text \<open>Ord::clamp, on arguments with lo not above hi.\<close>

definition clamp :: "nat \<Rightarrow> nat \<Rightarrow> nat \<Rightarrow> nat" where
  "clamp lo hi x = max lo (min hi x)"

definition snapshot_limit :: "nat option \<Rightarrow> nat \<Rightarrow> nat" where
  "snapshot_limit limit max_snapshot_limit = clamp 1 (max max_snapshot_limit 1) (unwrap_or 300 limit)"

record candles_query =
  cq_symbol :: string
  cq_tf :: "string option"
  cq_granularity :: "u32 option"
  cq_limit :: "nat option"

definition get_candles ::
  "fill_env \<Rightarrow> u32 \<Rightarrow> nat \<Rightarrow> candles_query \<Rightarrow> chart_supervisor \<times> candle_store \<Rightarrow>
     (chart_error + candles_response) \<times> chart_supervisor \<times> candle_store" where
  "get_candles env default_granularity max_snapshot_limit query st =
     (let symbol = normalize_symbol (cq_symbol query) in
      if symbol = [] then (Err (C_BadRequest ''symbol is required''), st)
      else
        (case parse_granularity (cq_tf query) (cq_granularity query) default_granularity of
           Inl e \<Rightarrow> (Err e, st)
         | Inr gran \<Rightarrow>
             (let (r, st') = ensure_series env symbol gran st in
              (res_bind (map_err map_ensure_error r) (\<lambda>h.
                 let candles = series_snapshot (snapshot_limit (cq_limit query) max_snapshot_limit) h in
                 Ok \<lparr>cs_symbol = sh_symbol h, cs_product_id = sh_product_id h, cs_granularity = sh_granularity h,
                     cs_candles = candles,
                     cs_source = (if candles = [] then ''empty'' else ''timeseries-db+cache'')\<rparr>), st'))))"

text \<open>The websocket request: a status with an error message, or the series and the limit to serve.\<close>

definition ws_candles ::
  "fill_env \<Rightarrow> u32 \<Rightarrow> nat \<Rightarrow> candles_query \<Rightarrow> chart_supervisor \<times> candle_store \<Rightarrow>
     (nat \<times> chart_message + series_handle \<times> nat) \<times> chart_supervisor \<times> candle_store" where
  "ws_candles env default_granularity max_snapshot_limit query st =
     (let symbol = normalize_symbol (cq_symbol query) in
      if symbol = [] then (Err (400, C_Error ''symbol is required''), st)
      else
        (case parse_granularity (cq_tf query) (cq_granularity query) default_granularity of
           Inl e \<Rightarrow> (Err (400, C_Error (''invalid granularity: '' @ chart_error_text e)), st)
         | Inr gran \<Rightarrow>
             (let (r, st') = ensure_series env symbol gran st in
              (case r of
                 Inl message \<Rightarrow>
                   Err (if str_contains message ''unknown symbol'' then 404 else 400, C_Error message)
               | Inr h \<Rightarrow> Ok (h, snapshot_limit (cq_limit query) max_snapshot_limit), st'))))"

definition chart_ws_client ::
  "(string \<Rightarrow> client_message option) \<Rightarrow> bool \<Rightarrow> (chart_message client_event \<times> u64 \<times> bool) list \<Rightarrow> nat \<Rightarrow>
     series_handle \<Rightarrow> chart_message out_frame list \<times> series_handle" where
  "chart_ws_client from_text first_sent evs limit h =
     (let (sid, first, h1) = series_subscribe limit h in
      (if first_sent then Out_Json first # client_loop C_Pong from_text evs else [],
       series_unsubscribe sid h1))"

subsection \<open>Configuration\<close>

record chart_config =
  cc_bind_addr :: string
  cc_client_mode :: client_mode
  cc_database_url :: string
  cc_nado_ws_url :: "string option"
  cc_nado_archive_url :: "string option"
  cc_default_granularity :: u32
  cc_supported_granularities :: "u32 list"
  cc_history_limit :: nat
  cc_cache_capacity :: nat
  cc_prewarm_symbols :: "string list"
  cc_prewarm_granularities :: "u32 list"
  cc_prewarm_all :: bool

definition parse_chunk :: "string \<Rightarrow> string + u32" where
  "parse_chunk chunk =
     ok_or (''invalid granularity value '' @ CHR 0x27 # chunk @ CHR 0x27 # '' (expected integer seconds)'')
       (parse_u32 chunk)"

definition parse_granularity_csv :: "string \<Rightarrow> string + u32 list" where
  "parse_granularity_csv raw =
     res_bind (collect_res (map parse_chunk (read_list trim raw))) (\<lambda>out.
       let out = dedup_by_key (\<lambda>v. v) (sort out) in
       if 0 \<in> set out then Err ''granularity cannot be 0'' else Ok out)"

definition default_granularities :: string where
  "default_granularities = ''60,300,900,3600,7200,14400,86400,604800,2419200''"

definition chart_config_from_env :: "environment \<Rightarrow> string + chart_config" where
  "chart_config_from_env env =
     res_bind (read_mode ''CHART_NETWORK'' (unwrap_or ''test'' (env ''CHART_NETWORK''))) (\<lambda>mode.
     res_bind (ok_or (''missing CHART_DATABASE_URL (or DATABASE_URL fallback) for chart time-series storage'')
         (map_option trim (opt_or (env ''CHART_DATABASE_URL'') (env ''DATABASE_URL'')))) (\<lambda>database_url.
     if database_url = [] then Err ''CHART_DATABASE_URL cannot be empty''
     else
     res_bind (case env ''CHART_SUPPORTED_GRANULARITIES'' of
         Some v \<Rightarrow> parse_granularity_csv v
       | None \<Rightarrow> Ok (unwrap_or [] (res_ok (parse_granularity_csv default_granularities)))) (\<lambda>supported.
     if supported = [] then Err ''CHART_SUPPORTED_GRANULARITIES must include at least one granularity''
     else
     (let default_granularity = unwrap_or 60 (Option.bind (env ''CHART_DEFAULT_GRANULARITY'') parse_u32) in
      if default_granularity \<notin> set supported then
        Err (''CHART_DEFAULT_GRANULARITY='' @ show_u32 default_granularity @ '' is not in CHART_SUPPORTED_GRANULARITIES'')
      else
      (let history_limit = clamp 50 2000 (env_usize env ''CHART_HISTORY_LIMIT'' 500);
           cache_capacity = clamp history_limit 10000 (env_usize env ''CHART_CACHE_CAPACITY'' 1500) in
       res_bind (case env ''CHART_PREWARM_GRANULARITIES'' of
           Some raw \<Rightarrow> parse_granularity_csv raw
         | None \<Rightarrow> Ok [default_granularity]) (\<lambda>prewarm.
       if list_ex (\<lambda>v. v \<notin> set supported) prewarm then
         Err ''CHART_PREWARM_GRANULARITIES must be a subset of CHART_SUPPORTED_GRANULARITIES''
       else Ok
         \<lparr>cc_bind_addr = unwrap_or ''0.0.0.0:3004'' (env ''CHART_BIND_ADDR''), cc_client_mode = mode,
          cc_database_url = database_url, cc_nado_ws_url = env_nonempty env ''CHART_NADO_WS_URL'',
          cc_nado_archive_url = env_nonempty env ''CHART_NADO_ARCHIVE_URL'',
          cc_default_granularity = default_granularity, cc_supported_granularities = supported,
          cc_history_limit = history_limit, cc_cache_capacity = cache_capacity,
          cc_prewarm_symbols =
            unwrap_or [] (map_option (read_list (\<lambda>s. to_uppercase (trim s))) (env ''CHART_PREWARM_SYMBOLS'')),
          cc_prewarm_granularities = prewarm,
          cc_prewarm_all = unwrap_or False (map_option read_bool (env ''CHART_PREWARM_ALL''))\<rparr>))))))"

text \<open>The start of the service: every chosen symbol at every chosen granularity.\<close>

definition chart_prewarm ::
  "(string \<Rightarrow> u32 \<Rightarrow> fill_env) \<Rightarrow> chart_config \<Rightarrow> chart_supervisor \<times> candle_store \<Rightarrow> chart_supervisor \<times> candle_store" where
  "chart_prewarm env cfg st =
     foldl (\<lambda>st symbol. foldl (\<lambda>st gran. snd (ensure_series (env symbol gran) symbol gran st)) st
         (cc_prewarm_granularities cfg)) st
       (if cc_prewarm_all cfg then map si_symbol (cp_symbols (fst st)) else cc_prewarm_symbols cfg)"

subsection \<open>A series and the table\<close>

definition series_ok :: "series_handle \<Rightarrow> candle_store \<Rightarrow> bool" where
  "series_ok h s \<longleftrightarrow>
     0 < sh_history_limit h \<and> 0 < sh_cache_capacity h \<and> hm_wf (sh_subscribers h) \<and>
     store_inv s \<and> own_rows (sh_symbol h) (sh_product_id h) (sh_granularity h) s \<and>
     window_inv (sh_cache_capacity h) (sh_state h) \<and>
     mirrors s (sh_product_id h) (sh_granularity h) (sh_state h)"

definition same_series :: "series_handle \<Rightarrow> series_handle \<Rightarrow> bool" where
  "same_series h h' \<longleftrightarrow>
     sh_symbol h' = sh_symbol h \<and> sh_product_id h' = sh_product_id h \<and> sh_granularity h' = sh_granularity h \<and>
     sh_history_limit h' = sh_history_limit h \<and> sh_cache_capacity h' = sh_cache_capacity h"

text \<open>No row of the table is replaced by an older one.\<close>

definition no_older :: "candle_store \<Rightarrow> candle_store \<Rightarrow> bool" where
  "no_older s s' \<longleftrightarrow>
     (\<forall>k old. hm_get s k = Some old \<longrightarrow>
        (\<exists>r. hm_get s' k = Some r \<and> cd_submission_idx old \<le> cd_submission_idx r))"

text \<open>The table has this row or a newer one in its place.\<close>

definition holds :: "candle_store \<Rightarrow> candle_row \<Rightarrow> bool" where
  "holds s r \<longleftrightarrow> (\<exists>x. hm_get s (candle_key r) = Some x \<and> cd_submission_idx r \<le> cd_submission_idx x)"

lemma no_older_refl [simp]: "no_older s s"
  by (simp add: no_older_def)

lemma no_older_trans: "no_older s s1 \<Longrightarrow> no_older s1 s2 \<Longrightarrow> no_older s s2"
  unfolding no_older_def by (meson order_trans)

lemma holds_no_older: "holds s r \<Longrightarrow> no_older s s' \<Longrightarrow> holds s' r"
  unfolding no_older_def holds_def by (meson order_trans)

lemma no_older_upsert: "no_older s (upsert_row r s)"
  by (auto simp: no_older_def hm_get_upsert)

lemma holds_upsert: "holds (upsert_row r s) r"
  by (auto simp: holds_def hm_get_upsert split: option.split)

lemma upsert_all:
  "no_older s (foldl (\<lambda>s r. upsert_row r s) s rows) \<and> (\<forall>r\<in>set rows. holds (foldl (\<lambda>s r. upsert_row r s) s rows) r)"
proof (induction rows arbitrary: s)
  case (Cons x rows)
  from Cons.IH [of "upsert_row x s"] show ?case
    using no_older_trans [OF no_older_upsert] holds_no_older [OF holds_upsert] by auto
qed simp

lemma upsert_many_no_older:
  "upsert_many fails rows s = (r, s') \<Longrightarrow>
     no_older s s' \<and> (r = Ok () \<longrightarrow> (\<forall>x\<in>set rows. holds s' x)) \<and> (\<forall>e. r = Err e \<longrightarrow> s' = s)"
  using upsert_all [of s rows]
  by (auto simp: upsert_many_def split: if_splits option.splits)

lemma set_dedup_by_key: "set (dedup_by_key f xs) \<subseteq> set xs"
  by (induction f xs rule: dedup_by_key.induct) auto

text \<open>
  What is left of the archive's answer: of the candles of one bucket the first one answered, since the sort is stable
  and of a run the first element stays.
\<close>

lemma first_kept: "k \<in> f ` set xs \<Longrightarrow> hd (filter (\<lambda>y. f y = k) xs) \<in> set (dedup_by_key f xs)"
proof (induction f xs rule: dedup_by_key.induct)
  case (3 f a b xs)
  show ?case
  proof (cases "f b = f a")
    case True
    then have "hd (filter (\<lambda>y. f y = k) (a # b # xs)) = hd (filter (\<lambda>y. f y = k) (a # xs))"
      and "k \<in> f ` set (a # xs)"
      using "3.prems" by auto
    then show ?thesis using "3.IH"(1) [OF True] True by (simp only: dedup_by_key.simps simp_thms if_True)
  next
    case False
    then show ?thesis using "3.IH"(2) "3.prems" by (cases "k = f a") auto
  qed
qed auto

definition candle_bucket :: "candlestick \<Rightarrow> i64" where
  "candle_bucket item = normalize_timestamp_to_sec (ak_timestamp item)"

lemma first_fetched:
  assumes items: "archive (sh_product_id h) (sh_granularity h) (min limit 500) = Ok items"
    and fetch: "fetch_archive archive limit h = Ok rows" and item: "item \<in> set items"
  shows "archive_row (sh_symbol h) (sh_product_id h) (sh_granularity h)
    (hd (filter (\<lambda>x. candle_bucket x = candle_bucket item) items)) \<in> set rows"
proof -
  let ?row = "archive_row (sh_symbol h) (sh_product_id h) (sh_granularity h)"
  let ?all = "sort_key cd_bucket_start_sec (map ?row items)"
  have key: "cd_bucket_start_sec (?row x) = candle_bucket x" for x
    by (simp add: archive_row_def candle_bucket_def)
  have "candle_bucket item \<in> cd_bucket_start_sec ` set ?all" using item by (auto simp: key intro!: image_eqI [of _ _ "?row item"])
  from first_kept [OF this]
  have "hd (filter (\<lambda>y. cd_bucket_start_sec y = candle_bucket item) ?all) \<in> set rows"
    using fetch items by (simp add: fetch_archive_def res_bind_Inr_iff key)
  moreover have "filter (\<lambda>y. cd_bucket_start_sec y = candle_bucket item) ?all =
      map ?row (filter (\<lambda>x. candle_bucket x = candle_bucket item) items)"
    by (simp add: sort_key_stable filter_map o_def key)
  moreover have "filter (\<lambda>x. candle_bucket x = candle_bucket item) items \<noteq> []"
    using item by (auto simp: filter_empty_conv)
  ultimately show ?thesis by (simp add: hd_map)
qed

lemma fetched_items:
  "fetch_archive archive limit h = Ok rows \<Longrightarrow>
     \<exists>items. archive (sh_product_id h) (sh_granularity h) (min limit 500) = Ok items"
  by (auto simp: fetch_archive_def res_bind_Inr_iff)

lemma fetch_archive_rows:
  "fetch_archive archive limit h = Ok rows \<Longrightarrow>
     \<forall>r\<in>set rows. row_of (sh_symbol h) (sh_product_id h) (sh_granularity h) r"
  using set_dedup_by_key
  by (fastforce simp: fetch_archive_def res_bind_Inr_iff row_of_def archive_row_def)

lemma set_window_simps [simp]:
  "sh_state (set_window rows h) = replace_all rows (sh_cache_capacity h)"
  "sh_subscribers (set_window rows h) = sh_subscribers h" "sh_seq (set_window rows h) = sh_seq h"
  "same_series h (set_window rows h)"
  by (simp_all add: set_window_def same_series_def)

lemma same_series_refl [simp]: "same_series h h"
  by (simp add: same_series_def)

lemma same_series_trans: "same_series h h1 \<Longrightarrow> same_series h1 h2 \<Longrightarrow> same_series h h2"
  by (simp add: same_series_def)

text \<open>Filling a window from the table.\<close>

lemma load_window:
  assumes inv: "store_inv s" "own_rows (sh_symbol h) (sh_product_id h) (sh_granularity h) s"
    and pos: "0 < sh_history_limit h" "0 < sh_cache_capacity h" "hm_wf (sh_subscribers h)"
    and load: "series_load fails h s = Ok rows"
  shows "series_ok (set_window rows h) s \<and>
    rows = drop (length (series_rows (sh_symbol h) (sh_product_id h) (sh_granularity h) s) - sh_history_limit h)
      (series_rows (sh_symbol h) (sh_product_id h) (sh_granularity h) s)"
proof -
  note L = load_replace [OF inv pos(1,2) load [unfolded series_load_def]]
  have "series_ok (set_window rows h) s"
    using conjunct1 [OF L] conjunct1 [OF conjunct2 [OF L]] inv pos
    by (simp add: series_ok_def set_window_def)
  then show ?thesis using conjunct2 [OF conjunct2 [OF L]] by blast
qed

text \<open>Storing what the archive answered, whatever becomes of it.\<close>

lemma store_fetched:
  assumes inv: "store_inv s" "own_rows (sh_symbol h) (sh_product_id h) (sh_granularity h) s"
    and fetch: "fetch_archive archive limit h = Ok rows" and up: "upsert_many fails rows s = (r, s')"
  shows "store_inv s' \<and> own_rows (sh_symbol h) (sh_product_id h) (sh_granularity h) s' \<and> no_older s s' \<and>
    (r = Ok () \<longrightarrow> (\<forall>x\<in>set rows. holds s' x)) \<and> (\<forall>e. r = Err e \<longrightarrow> s' = s)"
  using upsert_many_inv [OF up inv fetch_archive_rows [OF fetch]] upsert_many_no_older [OF up] by blast

lemma backfill_ok:
  assumes ok: "series_ok h s" and run: "backfill_from_archive env h s = (r, s')" and env: "fe_reload env = None"
  shows "no_older s s' \<and>
    (case r of
       Inl e \<Rightarrow> series_ok h s'
     | Inr h' \<Rightarrow> series_ok h' s' \<and> same_series h h' \<and> sh_subscribers h' = sh_subscribers h \<and> sh_seq h' = sh_seq h)"
proof (cases "fetch_archive (fe_archive env) (word_of_nat (sh_history_limit h)) h")
  case (Inl e)
  then show ?thesis using run ok by (auto simp: backfill_from_archive_def)
next
  case fetch: (Inr rows)
  have inv: "store_inv s" "own_rows (sh_symbol h) (sh_product_id h) (sh_granularity h) s"
    and pos: "0 < sh_history_limit h" "0 < sh_cache_capacity h" "hm_wf (sh_subscribers h)"
    using ok by (simp_all add: series_ok_def)
  show ?thesis
  proof (cases "rows = []")
    case True
    then show ?thesis using run ok fetch by (auto simp: backfill_from_archive_def)
  next
    case False
    obtain ru s1 where up: "upsert_many (fe_upsert env) rows s = (ru, s1)" by fastforce
    note st = store_fetched [OF inv fetch up]
    show ?thesis
    proof (cases ru)
      case (Inl e)
      then show ?thesis using run ok fetch up False st by (auto simp: backfill_from_archive_def)
    next
      case (Inr u)
      obtain new where load: "series_load None h s1 = Ok new"
        by (simp add: series_load_def load_recent_def)
      have "r = Ok (set_window new h)" "s' = s1"
        using run fetch up False Inr load env by (auto simp: backfill_from_archive_def)
      moreover have "series_ok (set_window new h) s1" using load_window [OF _ _ pos load] st by blast
      ultimately show ?thesis using st by simp
    qed
  qed
qed

subsection \<open>The stream of a series\<close>

fun chart_seq_of :: "chart_message \<Rightarrow> u64 option" where
  "chart_seq_of (C_Snapshot _ _ _ n _) = Some n"
| "chart_seq_of (C_Update _ _ _ n _) = Some n"
| "chart_seq_of _ = None"

definition chart_seqs :: "chart_message list \<Rightarrow> u64 list" where
  "chart_seqs ms = map the (filter (\<lambda>n. n \<noteq> None) (map chart_seq_of ms))"

text \<open>The n numbers from a sequence counter on.\<close>

definition counted :: "u64 \<Rightarrow> nat \<Rightarrow> u64 list" where
  "counted start n = map (\<lambda>i. start + word_of_nat i) [0..<n]"

lemma chart_seqs_simps [simp]:
  "chart_seqs [] = []" "chart_seqs (ms @ ns) = chart_seqs ms @ chart_seqs ns"
  "chart_seqs (m # ms) = (case chart_seq_of m of None \<Rightarrow> chart_seqs ms | Some n \<Rightarrow> n # chart_seqs ms)"
  by (auto simp: chart_seqs_def split: option.split)

lemma length_counted [simp]: "length (counted start n) = n"
  by (simp add: counted_def)

lemma counted_append: "counted start m @ counted (start + word_of_nat m) n = counted start (m + n)"
proof -
  have "counted (start + word_of_nat m) n = map (\<lambda>i. start + word_of_nat i) [m..<m + n]"
    unfolding counted_def by (rule nth_equalityI) (simp_all add: algebra_simps)
  moreover have "[0..<m + n] = [0..<m] @ [m..<m + n]"
    using upt_add_eq_append [of 0 m n] by simp
  ultimately show ?thesis by (simp add: counted_def)
qed

text \<open>
  An update shows a row of the series that the table holds (or has replaced by a newer one).
\<close>

definition shows_row :: "series_handle \<Rightarrow> candle_store \<Rightarrow> chart_message \<Rightarrow> bool" where
  "shows_row h s m \<longleftrightarrow>
     (case m of
        C_Update symbol pid gran _ v \<Rightarrow>
          \<exists>r. v = candle_to_view r \<and> row_of symbol pid gran r \<and> holds s r \<and>
            symbol = sh_symbol h \<and> pid = sh_product_id h \<and> gran = sh_granularity h
      | C_Status symbol pid gran _ _ \<Rightarrow>
          symbol = sh_symbol h \<and> pid = sh_product_id h \<and> gran = sh_granularity h
      | _ \<Rightarrow> False)"

text \<open>What a stretch of the worker's work does to the series, its subscribers and the table.\<close>

definition stretch ::
  "series_handle \<Rightarrow> candle_store \<Rightarrow> series_handle \<Rightarrow> candle_store \<Rightarrow> chart_message list \<Rightarrow> bool" where
  "stretch h s h' s' ms \<longleftrightarrow>
     series_ok h' s' \<and> same_series h h' \<and> no_older s s' \<and>
     handed_to (sh_subscribers h) (sh_subscribers h') ms \<and>
     chart_seqs ms = counted (sh_seq h) (length (chart_seqs ms)) \<and>
     sh_seq h' = sh_seq h + word_of_nat (length (chart_seqs ms)) \<and>
     (\<forall>m\<in>set ms. shows_row h s' m)"

lemma shows_row_mono: "shows_row h s m \<Longrightarrow> no_older s s' \<Longrightarrow> same_series h h' \<Longrightarrow> shows_row h' s' m"
  by (auto simp: shows_row_def same_series_def split: chart_message.splits intro: holds_no_older)

lemma same_series_sym: "same_series h h' \<Longrightarrow> same_series h' h"
  by (simp add: same_series_def)

lemma stretch_refl: "series_ok h s \<Longrightarrow> stretch h s h s []"
  by (simp add: stretch_def counted_def handed_to_refl series_ok_def)

lemma stretch_trans:
  assumes a: "stretch h s h1 s1 ms" and b: "stretch h1 s1 h2 s2 ns"
  shows "stretch h s h2 s2 (ms @ ns)"
proof -
  let ?m = "length (chart_seqs ms)" and ?n = "length (chart_seqs ns)"
  have "chart_seqs (ms @ ns) = counted (sh_seq h) ?m @ counted (sh_seq h + word_of_nat ?m) ?n"
    using a b by (simp add: stretch_def)
  then have seqs: "chart_seqs (ms @ ns) = counted (sh_seq h) (length (chart_seqs (ms @ ns)))"
    by (simp add: counted_append)
  have shown: "\<forall>m\<in>set (ms @ ns). shows_row h s2 m"
    using a b unfolding stretch_def
    by (auto intro: shows_row_mono [OF _ _ same_series_refl] shows_row_mono [OF _ no_older_refl same_series_sym])
  show ?thesis
    using a b seqs shown unfolding stretch_def
    by (auto intro: same_series_trans no_older_trans handed_to_trans simp: algebra_simps)
qed

lemma stretch_status: "series_ok h s \<Longrightarrow> \<exists>m. stretch h s (series_status status detail h) s [m]"
proof (intro exI)
  assume ok: "series_ok h s"
  let ?m = "C_Status (sh_symbol h) (sh_product_id h) (sh_granularity h) status detail"
  have "handed_to (sh_subscribers h) (emit_to ?m (sh_subscribers h)) ([] @ [?m])"
    using ok by (intro handed_to_emit handed_to_refl) (simp add: series_ok_def)
  then show "stretch h s (series_status status detail h) s [?m]"
    using ok by (simp add: stretch_def series_status_def series_emit_def same_series_def series_ok_def
        counted_def shows_row_def handed_to_def)
qed

lemma parsed_row:
  "parse_latest_candlestick now payload symbol pid gran = Ok (Some row) \<Longrightarrow> row_of symbol pid gran row"
  by (auto simp: parse_latest_candlestick_def res_bind_Inr_iff row_of_def Let_def
      split: option.splits if_splits)

text \<open>A text changes something only when it is an event of the series and the table takes its row.\<close>

lemma chart_text_cases:
  assumes run: "chart_text lib now fails txt h s = (r, h', s')"
  shows "(h' = h \<and> s' = s) \<or>
    (\<exists>row c q. row_of (sh_symbol h) (sh_product_id h) (sh_granularity h) row \<and>
       upsert_candle fails row s = (Ok (), s') \<and>
       apply_row row (sh_cache_capacity h) (sh_state h) = (c, q) \<and>
       h' = (if c then series_emit (C_Update (sh_symbol h) (sh_product_id h) (sh_granularity h)
          (sh_seq h) (candle_to_view row)) (h\<lparr>sh_state := q, sh_seq := sh_seq h + 1\<rparr>) else h\<lparr>sh_state := q\<rparr>))"
proof (cases "jl_read lib txt")
  case (Inl e)
  then show ?thesis using run by (simp add: chart_text_def)
next
  case read: (Inr v)
  show ?thesis
  proof (cases "json_get ''error'' v")
    case (Some e)
    then show ?thesis using run read by (simp add: chart_text_def)
  next
    case noerr: None
    let ?p = "parse_latest_candlestick now (unwrap_or v (json_get ''event'' v)) (sh_symbol h) (sh_product_id h) (sh_granularity h)"
    show ?thesis
    proof (cases ?p)
      case (Inl e)
      then show ?thesis using run read noerr by (simp add: chart_text_def)
    next
      case parsed: (Inr maybe)
      show ?thesis
      proof (cases maybe)
        case None
        then show ?thesis using run read noerr parsed by (simp add: chart_text_def)
      next
        case row: (Some row)
        obtain ru s1 where up: "upsert_candle fails row s = (ru, s1)" by fastforce
        obtain c q where q: "apply_row row (sh_cache_capacity h) (sh_state h) = (c, q)" by fastforce
        show ?thesis
        proof (cases ru)
          case (Inl e)
          then have "s1 = s" using up upsert_many_no_older unfolding upsert_candle_def by blast
          then show ?thesis using run read noerr parsed row up Inl by (simp add: chart_text_def)
        next
          case (Inr u)
          have "s' = s1 \<and> h' = (if c then series_emit (C_Update (sh_symbol h) (sh_product_id h) (sh_granularity h)
              (sh_seq h) (candle_to_view row)) (h\<lparr>sh_state := q, sh_seq := sh_seq h + 1\<rparr>) else h\<lparr>sh_state := q\<rparr>)"
            using run read noerr parsed row up q Inr
            by (cases c) (simp_all add: chart_text_def series_next_seq_def)
          then show ?thesis using parsed_row [OF parsed [unfolded row]] up q Inr by (metis old.unit.exhaust)
        qed
      qed
    qed
  qed
qed

lemma chart_text_stretch:
  assumes ok: "series_ok h s" and run: "chart_text lib now fails txt h s = (r, h', s')"
  shows "\<exists>ms. stretch h s h' s' ms"
proof (cases "h' = h \<and> s' = s")
  case True
  then show ?thesis using stretch_refl [OF ok] by blast
next
  case False
  then obtain row s1 c q where rowok: "row_of (sh_symbol h) (sh_product_id h) (sh_granularity h) row"
    and up: "upsert_candle fails row s = (Ok (), s1)"
    and q: "apply_row row (sh_cache_capacity h) (sh_state h) = (c, q)"
    and s': "s' = s1"
    and h': "h' = (if c then series_emit (C_Update (sh_symbol h) (sh_product_id h) (sh_granularity h)
        (sh_seq h) (candle_to_view row)) (h\<lparr>sh_state := q, sh_seq := sh_seq h + 1\<rparr>) else h\<lparr>sh_state := q\<rparr>)"
    using chart_text_cases [OF run] by blast
  have s1: "s1 = upsert_row row s"
    using up by (auto simp: upsert_candle_def upsert_many_def split: option.splits)
  have row: "cd_product_id row = sh_product_id h" "cd_granularity row = sh_granularity h"
    using rowok by (simp_all add: row_of_def)
  have inv: "window_inv (sh_cache_capacity h) (sh_state h)" "0 < sh_cache_capacity h"
      "mirrors s (sh_product_id h) (sh_granularity h) (sh_state h)"
    using ok by (simp_all add: series_ok_def)
  let ?m = "C_Update (sh_symbol h) (sh_product_id h) (sh_granularity h) (sh_seq h) (candle_to_view row)"
  have good: "series_ok (h\<lparr>sh_state := q\<rparr>) s1"
    using ok window_inv_apply_row [OF inv(1,2) q] mirrors_apply_row [OF inv(3,1,2) row q] rowok
    by (simp add: series_ok_def s1 store_inv_upsert own_rows_upsert)
  have frame: "same_series h (h\<lparr>sh_state := q\<rparr>)" "no_older s s1" "holds s1 row"
    by (simp_all add: same_series_def s1 no_older_upsert holds_upsert)
  show ?thesis
  proof (cases c)
    case True
    have handed: "handed_to (sh_subscribers h) (emit_to ?m (sh_subscribers h)) ([] @ [?m])"
      using ok by (intro handed_to_emit handed_to_refl) (simp add: series_ok_def)
    then have "hm_wf (emit_to ?m (sh_subscribers h))" by (simp add: handed_to_def)
    then have "stretch h s h' s' [?m]"
      using good frame rowok handed True
      by (auto simp: stretch_def h' s' series_emit_def series_ok_def same_series_def counted_def shows_row_def)
    then show ?thesis by blast
  next
    case False
    then have "stretch h s h' s' []"
      using good frame ok by (simp add: stretch_def h' s' counted_def handed_to_refl series_ok_def)
    then show ?thesis by blast
  qed
qed

lemma chart_session_stretch:
  "series_ok h s \<Longrightarrow> chart_session_loop lib h s es = (e, h', s') \<Longrightarrow> \<exists>ms. stretch h s h' s' ms"
proof (induction lib h s es rule: chart_session_loop.induct)
  case (4 lib h s msg clock flt es)
  obtain r h1 s1 where t: "chart_text lib clock flt msg h s = (r, h1, s1)" by (metis prod_cases3)
  obtain ms where ms: "stretch h s h1 s1 ms" using chart_text_stretch [OF "4.prems"(1) t] by blast
  show ?case
  proof (cases r)
    case (Inl x)
    then show ?thesis using ms "4.prems"(2) t by auto
  next
    case (Inr u)
    have "series_ok h1 s1" using ms by (simp add: stretch_def)
    moreover have "chart_session_loop lib h1 s1 es = (e, h', s')" using "4.prems"(2) t Inr by simp
    ultimately obtain ns where "stretch h1 s1 h' s' ns"
      using "4.IH" [OF t [symmetric] refl refl Inr] by blast
    then show ?thesis using stretch_trans [OF ms] by blast
  qed
qed (auto intro: stretch_refl)

lemma stream_once_stretch:
  assumes ok: "series_ok h s" and run: "chart_stream_once lib run h s = (e, h', s')"
  shows "\<exists>ms. stretch h s h' s' ms"
proof (cases run)
  case (Chart_Not_Connected x)
  then show ?thesis using run stretch_refl [OF ok] by (auto simp: chart_stream_once_def)
next
  case (Chart_Connected es)
  obtain m where m: "stretch h s (series_status ''connected'' ''subscribed to latest_candlestick'' h) s [m]"
    using stretch_status [OF ok] by blast
  then have "series_ok (series_status ''connected'' ''subscribed to latest_candlestick'' h) s"
    by (simp add: stretch_def)
  moreover have "chart_session_loop lib (series_status ''connected'' ''subscribed to latest_candlestick'' h) s es =
      (e, h', s')"
    using run Chart_Connected by (simp add: chart_stream_once_def)
  ultimately obtain ms where
    "stretch (series_status ''connected'' ''subscribed to latest_candlestick'' h) s h' s' ms"
    using chart_session_stretch by blast
  from stretch_trans [OF m this] show ?thesis by blast
qed

lemma worker_iteration_stretch:
  assumes ok: "series_ok h s" and env: "fe_reload (fst run) = None"
    and run: "chart_worker_iteration lib backoff run h s = (h', s')"
  shows "\<exists>ms. stretch h s h' s' ms"
proof -
  obtain r s1 where b: "backfill_from_archive (fst run) h s = (r, s1)" by fastforce
  define h1 where "h1 = (case r of Inl _ \<Rightarrow> h | Inr x \<Rightarrow> x)"
  have st1: "stretch h s h1 s1 []"
    using backfill_ok [OF ok b env] ok
    by (cases r) (auto simp: h1_def stretch_def counted_def handed_to_def series_ok_def)
  define h2 where "h2 = series_status ''connecting'' ''connecting to latest_candlestick stream'' h1"
  obtain m1 where st2: "stretch h1 s1 h2 s1 [m1]"
    using stretch_status [of h1 s1] st1 unfolding h2_def stretch_def [of h s] by blast
  obtain e h3 s3 where once: "chart_stream_once lib (snd run) h2 s1 = (e, h3, s3)"
    by (metis prod_cases3)
  obtain ms where st3: "stretch h2 s1 h3 s3 ms"
    using stream_once_stretch [OF _ once] st2 unfolding stretch_def [of h1] by blast
  have h': "h' = series_status ''reconnecting'' (''stream error: '' @ e @ ''; retry in '' @ show_nat backoff @ ''s'') h3"
    "s' = s3"
    using run b once by (auto simp: chart_worker_iteration_def h1_def h2_def)
  obtain m4 where st4: "stretch h3 s3 h' s' [m4]"
    using stretch_status [of h3 s3] st3 unfolding h' stretch_def [of h2] by blast
  show ?thesis
    using stretch_trans [OF stretch_trans [OF stretch_trans [OF st1 st2] st3] st4] by blast
qed

lemma chart_next_backoff_power: "chart_next_backoff (min (2 ^ k) 20) = min (2 ^ Suc k) 20"
  by (simp add: chart_next_backoff_def min_def)

lemma worker_loop_stretch:
  assumes "series_ok h s" "\<forall>run\<in>set runs. fe_reload (fst run) = None"
    "chart_worker_loop lib (min (2 ^ k) 20) runs h s = ((h', s'), pauses)"
  shows "(\<exists>ms. stretch h s h' s' ms) \<and> pauses = map (\<lambda>i. min (2 ^ i) 20) [k..<k + length runs]"
  using assms
proof (induction runs arbitrary: h s k pauses)
  case Nil
  then show ?case using stretch_refl by auto
next
  case (Cons run runs)
  obtain h1 s1 where it: "chart_worker_iteration lib (min (2 ^ k) 20) run h s = (h1, s1)" by fastforce
  obtain ps where rest: "chart_worker_loop lib (min (2 ^ Suc k) 20) runs h1 s1 = ((h', s'), ps)" "pauses = min (2 ^ k) 20 # ps"
    using Cons.prems(3) it by (auto simp: chart_next_backoff_power simp del: power_Suc split: prod.splits)
  obtain ms where ms: "stretch h s h1 s1 ms"
    using worker_iteration_stretch [OF Cons.prems(1) _ it] Cons.prems(2) by auto
  then have ok1: "series_ok h1 s1" by (simp add: stretch_def)
  have IH: "(\<exists>ms. stretch h1 s1 h' s' ms) \<and> ps = map (\<lambda>i. min (2 ^ i) 20) [Suc k..<Suc k + length runs]"
    using Cons.IH [OF ok1 _ rest(1)] Cons.prems(2) by simp
  moreover have "[k..<k + length (run # runs)] = k # [Suc k..<Suc k + length runs]"
    by (simp add: upt_rec)
  ultimately show ?case using rest(2) stretch_trans [OF ms] by auto
qed

subsection \<open>The tasks of one series interleaved\<close>

text \<open>
  The series is shared: its worker fills it, handles the texts of the stream and sends statuses; the clients' tasks
  register with it, take their first message with a number of the same counter, and leave; and the other series write
  their rows to the same table. Each step is what one task does without letting another in; handling a text (writing its
  row, applying it, numbering and sending the update) is one step. A client's channel is kept here with everything sent
  through it. The numbers are followed up to the last u64.
\<close>

inductive series_step :: "json_lib \<Rightarrow> series_handle \<times> candle_store \<Rightarrow> series_handle \<times> candle_store \<Rightarrow> bool" for lib where
  worker_backfill:
    "fe_reload env = None \<Longrightarrow> backfill_from_archive env h s = (r, s') \<Longrightarrow>
     series_step lib (h, s) (case r of Inl _ \<Rightarrow> h | Inr h' \<Rightarrow> h', s')"
| worker_status:
    "series_step lib (h, s) (series_status status detail h, s)"
| worker_text:
    "chart_text lib now fails txt h s = (r, h', s') \<Longrightarrow> sh_seq h < - 1 \<Longrightarrow> series_step lib (h, s) (h', s')"
| client_subscribe:
    "series_subscribe limit h = (sid, m, h') \<Longrightarrow> sh_seq h < - 1 \<Longrightarrow> series_step lib (h, s) (h', s)"
| client_leave:
    "series_step lib (h, s) (series_unsubscribe sid h, s)"
| client_gone:
    "hm_get (sh_subscribers h) sid = Some ch \<Longrightarrow>
     series_step lib (h, s)
       (h\<lparr>sh_subscribers := hm_insert sid (ch\<lparr>ch_open := False\<rparr>) (sh_subscribers h)\<rparr>, s)"
| other_series:
    "cd_product_id row \<noteq> sh_product_id h \<or> cd_granularity row \<noteq> sh_granularity h \<Longrightarrow>
     series_step lib (h, s) (h, upsert_row row s)"

definition channel_ok :: "series_handle \<Rightarrow> candle_store \<Rightarrow> chart_message list \<Rightarrow> bool" where
  "channel_ok h s q \<longleftrightarrow>
     sorted_wrt (<) (chart_seqs q) \<and> (\<forall>n\<in>set (chart_seqs q). n < sh_seq h) \<and> (\<forall>m\<in>set q. shows_row h s m)"

definition channels_ok :: "series_handle \<Rightarrow> candle_store \<Rightarrow> bool" where
  "channels_ok h s \<longleftrightarrow> (\<forall>i ch. hm_get (sh_subscribers h) i = Some ch \<longrightarrow> channel_ok h s (ch_queue ch))"

definition series_inv :: "series_handle \<Rightarrow> candle_store \<Rightarrow> series_handle \<Rightarrow> candle_store \<Rightarrow> bool" where
  "series_inv h0 s0 h s \<longleftrightarrow> series_ok h s \<and> same_series h0 h \<and> no_older s0 s \<and> channels_ok h s"

lemma series_invI:
  assumes "series_inv h0 s0 h s" "series_ok h' s'" "same_series h h'" "no_older s s'" "channels_ok h' s'"
  shows "series_inv h0 s0 h' s'"
  using assms by (auto simp: series_inv_def intro: same_series_trans no_older_trans)

lemma counter_grows: "(q :: u64) < - 1 \<Longrightarrow> q < q + 1"
  using inc_le [of q "- 1"] by (metis inc_less_eq_triv_imp linorder_not_le word_order.extremum_strict)

lemma channel_ok_later:
  assumes "channel_ok h s q" "same_series h h'" "no_older s s'" "sh_seq h \<le> sh_seq h'"
  shows "channel_ok h' s' q"
  using assms by (auto simp: channel_ok_def intro: shows_row_mono)

lemma channel_ok_send:
  assumes "channel_ok h s q" "same_series h h'" "no_older s s'" "shows_row h' s' m"
    and "chart_seq_of m = None \<and> sh_seq h \<le> sh_seq h' \<or> chart_seq_of m = Some (sh_seq h) \<and> sh_seq h < sh_seq h'"
  shows "channel_ok h' s' (q @ [m])"
  using assms
  by (auto simp: channel_ok_def sorted_wrt_append intro: shows_row_mono less_trans)

lemma channels_ok_later:
  assumes "channels_ok h s" "same_series h h'" "no_older s s'" "sh_seq h \<le> sh_seq h'"
    and "\<And>i ch. hm_get (sh_subscribers h') i = Some ch \<Longrightarrow>
      ch_queue ch = [] \<or> (\<exists>ch0. hm_get (sh_subscribers h) i = Some ch0 \<and> ch_queue ch = ch_queue ch0)"
  shows "channels_ok h' s'"
  unfolding channels_ok_def
proof (intro allI impI)
  fix i ch assume "hm_get (sh_subscribers h') i = Some ch"
  from assms(5) [OF this] show "channel_ok h' s' (ch_queue ch)"
  proof (elim disjE exE conjE)
    assume "ch_queue ch = []"
    then show ?thesis by (simp add: channel_ok_def)
  next
    fix ch0 assume "hm_get (sh_subscribers h) i = Some ch0" "ch_queue ch = ch_queue ch0"
    then show ?thesis using assms(1) channel_ok_later [OF _ assms(2-4)] by (simp add: channels_ok_def)
  qed
qed

lemma channels_ok_send:
  assumes "channels_ok h s" "same_series h h'" "no_older s s'" "hm_wf (sh_subscribers h)"
    and "sh_subscribers h' = emit_to m (sh_subscribers h)" "shows_row h' s' m"
    and "chart_seq_of m = None \<and> sh_seq h \<le> sh_seq h' \<or> chart_seq_of m = Some (sh_seq h) \<and> sh_seq h < sh_seq h'"
  shows "channels_ok h' s'"
  unfolding channels_ok_def
proof (intro allI impI)
  fix i ch assume "hm_get (sh_subscribers h') i = Some ch"
  then obtain ch0 where "hm_get (sh_subscribers h) i = Some ch0" "ch_queue ch = ch_queue ch0 @ [m]"
    using assms(4,5) by (auto simp: emit_to_eq hm_get_broadcast push_def split: option.splits if_splits)
  then show "channel_ok h' s' (ch_queue ch)"
    using assms(1) channel_ok_send [OF _ assms(2,3,6,7)] by (auto simp: channels_ok_def)
qed

lemma series_subscribe_frame:
  assumes "series_subscribe limit h = (sid, m, h')" "sh_seq h < - 1"
  shows "sh_state h' = sh_state h \<and> same_series h h' \<and> sh_seq h \<le> sh_seq h' \<and>
    sh_subscribers h' = hm_insert (sh_next_subscriber_id h) \<lparr>ch_queue = [], ch_open = True\<rparr> (sh_subscribers h)"
  using assms counter_grows [OF assms(2)]
  by (auto simp: series_subscribe_def series_register_def series_first_message_def series_next_seq_def Let_def
      same_series_def split: if_splits)

lemma other_series_mirrors:
  assumes "cd_product_id row \<noteq> pid \<or> cd_granularity row \<noteq> gran"
  shows "mirrors (upsert_row row s) pid gran q \<longleftrightarrow> mirrors s pid gran q"
  using assms by (auto simp: mirrors_def hm_get_upsert candle_key_def)

lemma other_series_own:
  assumes "cd_product_id row \<noteq> pid \<or> cd_granularity row \<noteq> gran" "own_rows symbol pid gran s"
  shows "own_rows symbol pid gran (upsert_row row s)"
  using assms set_hm_insert [of "candle_key row" row s]
  by (fastforce simp: own_rows_def upsert_row_def split: option.split)

lemma backfill_channels:
  assumes "backfill_from_archive env h s = (r, s')"
  shows "\<forall>h'. r = Ok h' \<longrightarrow> sh_subscribers h' = sh_subscribers h \<and> sh_seq h' = sh_seq h"
  using assms by (auto simp: backfill_from_archive_def res_bind_Inr_iff split: sum.splits if_splits prod.splits)

lemma series_step_inv:
  assumes step: "series_step lib (h, s) (h', s')" and inv: "series_inv h0 s0 h s"
  shows "series_inv h0 s0 h' s'"
proof -
  have ok: "series_ok h s" and ch: "channels_ok h s" using inv by (simp_all add: series_inv_def)
  have wf: "hm_wf (sh_subscribers h)" using ok by (simp add: series_ok_def)
  note I = series_invI [OF inv]
  show ?thesis
    using step
  proof (cases rule: series_step.cases)
    case (worker_backfill env r)
    then show ?thesis
      using backfill_ok [OF ok worker_backfill(3,2)] backfill_channels [OF worker_backfill(3)]
      by (cases r) (auto intro!: I channels_ok_later [OF ch])
  next
    case (worker_status status detail)
    obtain m where "stretch h s h' s' [m]" using stretch_status [OF ok] worker_status by auto
    then have "series_ok h' s'" "same_series h h'" "no_older s s'" by (simp_all add: stretch_def)
    moreover have "channels_ok h' s'"
      by (rule channels_ok_send [OF ch calculation(2,3) wf,
            where m = "C_Status (sh_symbol h) (sh_product_id h) (sh_granularity h) status detail"])
        (simp_all add: worker_status series_status_def series_emit_def shows_row_def)
    ultimately show ?thesis by (rule I)
  next
    case (worker_text clock flt msg r)
    obtain ms where "stretch h s h' s' ms" using chart_text_stretch [OF ok worker_text(1)] by blast
    then have h': "series_ok h' s'" "same_series h h'" "no_older s s'" by (simp_all add: stretch_def)
    have "channels_ok h' s'"
      using chart_text_cases [OF worker_text(1)]
    proof (elim disjE exE conjE)
      assume "h' = h" "s' = s"
      then show ?thesis using ch by simp
    next
      fix row c q
      assume row: "row_of (sh_symbol h) (sh_product_id h) (sh_granularity h) row"
        and up: "upsert_candle flt row s = (Ok (), s')"
        and h'_def: "h' = (if c then series_emit (C_Update (sh_symbol h) (sh_product_id h) (sh_granularity h)
          (sh_seq h) (candle_to_view row)) (h\<lparr>sh_state := q, sh_seq := sh_seq h + 1\<rparr>) else h\<lparr>sh_state := q\<rparr>)"
      have s': "s' = upsert_row row s"
        using up by (auto simp: upsert_candle_def upsert_many_def split: option.splits)
      show ?thesis
      proof (cases c)
        case True
        let ?m = "C_Update (sh_symbol h) (sh_product_id h) (sh_granularity h) (sh_seq h) (candle_to_view row)"
        have "shows_row h' s' ?m"
          using row by (auto simp: shows_row_def h'_def s' True series_emit_def intro: holds_upsert)
        then show ?thesis
          using counter_grows [OF worker_text(2)]
          by (intro channels_ok_send [OF ch h'(2,3) wf, where m = ?m]) (simp_all add: h'_def True series_emit_def)
      next
        case False
        then show ?thesis by (intro channels_ok_later [OF ch h'(2,3)]) (auto simp: h'_def)
      qed
    qed
    with h' show ?thesis by (rule I)
  next
    case (client_subscribe limit sid m)
    note F = series_subscribe_frame [OF client_subscribe(2,3)]
    have ok': "series_ok h' s"
      using ok F by (auto simp: series_ok_def same_series_def hm_wf_insert)
    have "channels_ok h' s"
      using F by (intro channels_ok_later [OF ch]) (auto simp: hm_get_insert split: if_splits)
    with ok' show ?thesis using F client_subscribe(1) by (auto intro!: I)
  next
    case (client_leave sid)
    then show ?thesis
      using ok
      by (intro I channels_ok_later [OF ch])
        (auto simp: series_unsubscribe_def series_ok_def same_series_def hm_wf_remove hm_get_remove split: if_splits)
  next
    case (client_gone sid c)
    then show ?thesis
      using ok
      by (intro I channels_ok_later [OF ch])
        (auto simp: series_ok_def same_series_def hm_wf_insert hm_get_insert split: if_splits)
  next
    case (other_series row)
    have "series_ok h s'"
      using ok other_series by (simp add: series_ok_def other_series_mirrors other_series_own store_inv_upsert)
    then show ?thesis
      using other_series by (auto intro!: I channels_ok_later [OF ch] simp: no_older_upsert)
  qed
qed

lemma series_steps_inv:
  assumes "(series_step lib)\<^sup>*\<^sup>* (h, s) (h', s')" "series_inv h0 s0 h s"
  shows "series_inv h0 s0 h' s'"
  using assms
proof (induction "(h', s')" arbitrary: h' s' rule: rtranclp_induct)
  case (step y)
  then show ?case by (cases y) (auto intro: series_step_inv)
qed simp

lemma window_filled:
  assumes load: "series_load flt h t = Ok rows"
    and t: "store_inv t" "own_rows (sh_symbol h) (sh_product_id h) (sh_granularity h) t"
    and h: "0 < sh_history_limit h" "sh_history_limit h \<le> sh_cache_capacity h" "hm_wf (sh_subscribers h)"
  shows "series_ok (set_window rows h) t \<and> same_series h (set_window rows h) \<and>
    (let all = series_rows (sh_symbol h) (sh_product_id h) (sh_granularity h) t in
     sh_state (set_window rows h) = drop (length all - sh_history_limit h) all \<and>
     length rows = min (length all) (sh_history_limit h))"
proof -
  let ?all = "series_rows (sh_symbol h) (sh_product_id h) (sh_granularity h) t"
  have "0 < sh_cache_capacity h" using h by simp
  note L = load_window [OF t h(1) this h(3) load]
  have rows: "rows = drop (length ?all - sh_history_limit h) ?all" using L by blast
  have "length rows \<le> sh_cache_capacity h" using h(2) by (simp add: rows)
  then have "replace_all rows (sh_cache_capacity h) = rows" by (simp add: replace_all_eq)
  moreover have "length rows = min (length ?all) (sh_history_limit h)" by (simp add: rows min_def)
  ultimately show ?thesis using L rows by (simp add: Let_def)
qed

subsection \<open>Properties\<close>

text \<open>C22: filling a series, where the table's rows of its product and granularity carry its own symbol (no series under
  another name of the same product has written them). Whatever the database and the archive do, a bootstrap never
  replaces a row by an older one, and when it succeeds the window of the series is exactly the newest candles the table
  has of the series, in order, at most the history limit of them. If the table had fewer than that before, the archive
  was asked for as many (at most 500), and for every candle it answered the first one it answered of the same bucket is in
  the table now, or a newer one in its place; otherwise the table is unchanged.\<close>

theorem bootstrap_correct:
  assumes s: "store_inv s" "own_rows (sh_symbol h) (sh_product_id h) (sh_granularity h) s"
    and h: "0 < sh_history_limit h" "sh_history_limit h \<le> sh_cache_capacity h" "hm_wf (sh_subscribers h)"
    and run: "bootstrap env h s = (r, s')"
  shows "no_older s s' \<and>
    (\<forall>h'. r = Ok h' \<longrightarrow>
       series_ok h' s' \<and> same_series h h' \<and>
       (let rows = series_rows (sh_symbol h) (sh_product_id h) (sh_granularity h) in
        sh_state h' = drop (length (rows s') - sh_history_limit h) (rows s') \<and>
        (if length (rows s) < sh_history_limit h
         then \<exists>items. fe_archive env (sh_product_id h) (sh_granularity h)
                  (min (word_of_nat (sh_history_limit h)) 500) = Ok items \<and>
                (\<forall>item\<in>set items. holds s' (archive_row (sh_symbol h) (sh_product_id h) (sh_granularity h)
                   (hd (filter (\<lambda>x. candle_bucket x = candle_bucket item) items))))
         else s' = s)))"
proof -
  let ?rows = "series_rows (sh_symbol h) (sh_product_id h) (sh_granularity h)"
  note filled = window_filled [OF _ _ _ h]
  show ?thesis
  proof (cases "series_load (fe_load env) h s")
    case (Inl e)
    then show ?thesis using run by (auto simp: bootstrap_def)
  next
    case load: (Inr rows)
    note F = filled [OF load s]
    show ?thesis
    proof (cases "length rows < sh_history_limit h")
      case False
      then show ?thesis using run load F by (auto simp: bootstrap_def Let_def)
    next
      case short: True
      then have len: "length (?rows s) < sh_history_limit h" using F unfolding Let_def by linarith
      show ?thesis
      proof (cases "fetch_archive (fe_archive env) (word_of_nat (sh_history_limit h)) h")
        case (Inl e)
        then show ?thesis using run load short by (auto simp: bootstrap_def)
      next
        case fetch: (Inr fetched)
        obtain items where items: "fe_archive env (sh_product_id h) (sh_granularity h)
            (min (word_of_nat (sh_history_limit h)) 500) = Ok items"
          using fetched_items [OF fetch] by blast
        note first = first_fetched [OF items fetch]
        show ?thesis
        proof (cases "fetched = []")
          case True
          then have "items = []" using first by (cases items) auto
          then show ?thesis using run load short fetch F len items True by (auto simp: bootstrap_def Let_def)
        next
          case some: False
          obtain ru s1 where up: "upsert_many (fe_upsert env) fetched s = (ru, s1)" by fastforce
          note S = store_fetched [OF s fetch up]
          have s': "s' = s1" and r: "r = (case ru of Inl e \<Rightarrow> Err e | Inr _ \<Rightarrow>
              res_bind (series_load (fe_reload env) h s1) (\<lambda>rows. Ok (set_window rows h)))"
            using run load short fetch some up by (auto simp: bootstrap_def split: sum.splits)
          show ?thesis
          proof (intro conjI allI impI)
            show "no_older s s'" using S s' by blast
            fix h' assume h': "r = Ok h'"
            then obtain new where new: "ru = Ok ()" "series_load (fe_reload env) h s1 = Ok new" "h' = set_window new h"
              using r by (auto simp: res_bind_Inr_iff split: sum.splits)
            have "store_inv s1" "own_rows (sh_symbol h) (sh_product_id h) (sh_granularity h) s1"
              using S by blast+
            from filled [OF new(2) this] show "series_ok h' s'" "same_series h h'"
              using new(3) s' by blast+
            show "let rows = ?rows in
              sh_state h' = drop (length (rows s') - sh_history_limit h) (rows s') \<and>
              (if length (rows s) < sh_history_limit h
               then \<exists>items. fe_archive env (sh_product_id h) (sh_granularity h)
                  (min (word_of_nat (sh_history_limit h)) 500) = Ok items \<and>
                (\<forall>item\<in>set items. holds s' (archive_row (sh_symbol h) (sh_product_id h) (sh_granularity h)
                   (hd (filter (\<lambda>x. candle_bucket x = candle_bucket item) items)))) else s' = s)"
              using items first filled [OF new(2) \<open>store_inv s1\<close> \<open>own_rows _ _ _ s1\<close>] new S fetch len s' by (simp add: Let_def)
          qed
        qed
      qed
    qed
  qed
qed

theorem bootstrap_correct_witness:
  "\<exists>h' s'. bootstrap \<lparr>fe_load = None, fe_archive = (\<lambda>_ _ _. Ok [\<lparr>ak_product_id = 2, ak_granularity = 60, ak_submission_idx = 3, ak_timestamp = 60,
        ak_open_x18 = 1, ak_high_x18 = 2, ak_low_x18 = 1, ak_close_x18 = 2, ak_volume = 5\<rparr>]),
        fe_upsert = (\<lambda>_. None), fe_reload = None\<rparr>
      (new_series ''A'' 2 60 Test None None 50 60) [] = (Ok h', s') \<and>
    series_ok h' s' \<and> length (sh_state h') = 1"
proof -
  let ?env = "\<lparr>fe_load = None, fe_archive = (\<lambda>_ _ _. Ok [\<lparr>ak_product_id = 2, ak_granularity = 60, ak_submission_idx = 3, ak_timestamp = 60,
        ak_open_x18 = 1, ak_high_x18 = 2, ak_low_x18 = 1, ak_close_x18 = 2, ak_volume = 5\<rparr>]),
        fe_upsert = (\<lambda>_. None), fe_reload = None\<rparr>"
  let ?h = "new_series ''A'' 2 60 Test None None 50 60"
  let ?row = "archive_row ''A'' 2 60 \<lparr>ak_product_id = 2, ak_granularity = 60, ak_submission_idx = 3, ak_timestamp = 60,
        ak_open_x18 = 1, ak_high_x18 = 2, ak_low_x18 = 1, ak_close_x18 = 2, ak_volume = 5\<rparr>"
  have run: "bootstrap ?env ?h [] = (Ok (set_window [?row] ?h), [(candle_key ?row, ?row)])"
    by (simp add: bootstrap_def series_load_def load_recent_def fetch_archive_def new_series_def
        upsert_many_def upsert_row_def hm_get_def row_of_def archive_row_def)
  have "store_inv []" "own_rows (sh_symbol ?h) (sh_product_id ?h) (sh_granularity ?h) []"
    "0 < sh_history_limit ?h" "sh_history_limit ?h \<le> sh_cache_capacity ?h" "hm_wf (sh_subscribers ?h)"
    by (simp_all add: new_series_def own_rows_def)
  from bootstrap_correct [OF this run] run show ?thesis
    by (simp add: new_series_def replace_all_eq)
qed

text \<open>C23: a series and the table stay together, where the table's rows of the series carry its own symbol (no series under
  another name of the same product writes them) and the table can be read after each backfill. First, from a series
  nothing has been sent from: however the worker's steps (backfills that fail or succeed, statuses, texts of the stream
  with accepted or rejected writes) interleave with clients that subscribe, which draws a number of the same counter,
  leave or go away, and with the writes of other series to the table, the window stays sorted, within its capacity and
  equal to what the table has of the series from its oldest candle on; the table never exchanges a row for an older one;
  and what is sent through a client's channel has strictly increasing numbers, each update showing a candle the table
  holds or has replaced by a newer one. Second, over any number of the worker's runs during which no client subscribes or
  leaves and no other series writes: the same holds of window and table, every subscriber whose channel is open is handed
  the same messages, numbered without a gap from the counter on, and the pauses double from 1 to 20 seconds.\<close>

theorem series_follows_table:
  assumes ok: "series_ok h s"
  shows "((\<forall>i ch. hm_get (sh_subscribers h) i = Some ch \<longrightarrow> ch_queue ch = []) \<longrightarrow>
      (\<forall>h' s'. (series_step lib)\<^sup>*\<^sup>* (h, s) (h', s') \<longrightarrow>
         window_inv (sh_cache_capacity h) (sh_state h') \<and>
         mirrors s' (sh_product_id h) (sh_granularity h) (sh_state h') \<and> no_older s s' \<and>
         (\<forall>i ch. hm_get (sh_subscribers h') i = Some ch \<longrightarrow>
            sorted_wrt (<) (chart_seqs (ch_queue ch)) \<and> (\<forall>m\<in>set (ch_queue ch). shows_row h s' m)))) \<and>
    (\<forall>runs h' s' pauses. (\<forall>run\<in>set runs. fe_reload (fst run) = None) \<longrightarrow>
      chart_worker_loop lib 1 runs h s = ((h', s'), pauses) \<longrightarrow>
         window_inv (sh_cache_capacity h) (sh_state h') \<and>
         mirrors s' (sh_product_id h) (sh_granularity h) (sh_state h') \<and> no_older s s' \<and>
         (\<exists>ms. handed_to (sh_subscribers h) (sh_subscribers h') ms \<and>
           chart_seqs ms = counted (sh_seq h) (length (chart_seqs ms)) \<and> (\<forall>m\<in>set ms. shows_row h s' m)) \<and>
         pauses = map (\<lambda>i. min (2 ^ i) 20) [0..<length runs])"
proof (intro conjI impI allI)
  fix h' s'
  assume "\<forall>i ch. hm_get (sh_subscribers h) i = Some ch \<longrightarrow> ch_queue ch = []"
    and steps: "(series_step lib)\<^sup>*\<^sup>* (h, s) (h', s')"
  then have "series_inv h s h s" using ok by (simp add: series_inv_def channels_ok_def channel_ok_def)
  note inv = series_steps_inv [OF steps this, unfolded series_inv_def]
  have same: "same_series h h'" and ok': "series_ok h' s'" and "no_older s s'" using inv by simp_all
  show "window_inv (sh_cache_capacity h) (sh_state h')" "mirrors s' (sh_product_id h) (sh_granularity h) (sh_state h')"
    using same ok' by (simp_all add: same_series_def series_ok_def)
  show "no_older s s'" by fact
  fix i ch assume "hm_get (sh_subscribers h') i = Some ch"
  then have "channel_ok h' s' (ch_queue ch)" "same_series h' h"
    using inv by (simp_all add: channels_ok_def same_series_sym)
  then show "sorted_wrt (<) (chart_seqs (ch_queue ch))" "\<forall>m\<in>set (ch_queue ch). shows_row h s' m"
    by (auto simp: channel_ok_def intro: shows_row_mono [OF _ no_older_refl])
next
  fix runs h' s' pauses
  assume reload: "\<forall>run\<in>set runs. fe_reload (fst run) = None"
    and run: "chart_worker_loop lib 1 runs h s = ((h', s'), pauses)"
  obtain ms where ms: "stretch h s h' s' ms" and pauses: "pauses = map (\<lambda>i. min (2 ^ i) 20) [0..<length runs]"
    using worker_loop_stretch [OF ok reload, of lib 0] run by auto
  from ms have same: "same_series h h'" and ok': "series_ok h' s'" by (simp_all add: stretch_def)
  show "window_inv (sh_cache_capacity h) (sh_state h')" "mirrors s' (sh_product_id h) (sh_granularity h) (sh_state h')"
    using same ok' by (simp_all add: same_series_def series_ok_def)
  show "no_older s s'" using ms by (simp add: stretch_def)
  show "\<exists>ms. handed_to (sh_subscribers h) (sh_subscribers h') ms \<and>
      chart_seqs ms = counted (sh_seq h) (length (chart_seqs ms)) \<and> (\<forall>m\<in>set ms. shows_row h s' m)"
    using ms by (auto simp: stretch_def)
  show "pauses = map (\<lambda>i. min (2 ^ i) 20) [0..<length runs]" by (rule pauses)
qed

text \<open>A stream of one text, an event for the bucket 60 of the product 2.\<close>

definition demo_event :: json where
  "demo_event = JObject
     [(''type'', JString ''latest_candlestick''), (''timestamp'', JNumber (PosInt 60)),
      (''product_id'', JNumber (PosInt 2)), (''granularity'', JNumber (PosInt 60)),
      (''open_x18'', JString ''1''), (''high_x18'', JString ''2''), (''low_x18'', JString ''1''),
      (''close_x18'', JString ''2''), (''volume'', JString ''5''), (''submission_idx'', JNumber (PosInt 3))]"

definition demo_row :: candle_row where
  "demo_row = \<lparr>cd_product_id = 2, cd_symbol = ''A'', cd_granularity = 60, cd_bucket_start_sec = 60,
     cd_open_x18 = ''1'', cd_high_x18 = ''2'', cd_low_x18 = ''1'', cd_close_x18 = ''2'', cd_volume_x18 = ''5'',
     cd_submission_idx = 3, cd_source_ts = 60\<rparr>"

lemma demo_event_row: "parse_latest_candlestick 7 demo_event ''A'' 2 60 = Ok (Some demo_row)"
proof -
  have "to_lowercase ''latest_candlestick'' = ''latest_candlestick''" by code_simp
  then show ?thesis
    by (simp add: parse_latest_candlestick_def demo_event_def demo_row_def json_u32_def json_i64_def
        value_to_string_number_def normalize_timestamp_to_sec_def i64_max_def)
qed

definition demo_lib :: json_lib where
  "demo_lib = \<lparr>jl_read = (\<lambda>t. if t = ''x'' then Ok demo_event else Err ''bad''), jl_show = (\<lambda>_. ''v'')\<rparr>"

lemma demo_text:
  assumes "sh_symbol h = ''A''" "sh_product_id h = 2" "sh_granularity h = 60" "sh_state h = []" "sh_cache_capacity h = 60"
  shows "chart_text demo_lib 7 (\<lambda>_. None) ''x'' h s =
    (Ok (), series_emit (C_Update ''A'' 2 60 (sh_seq h) (candle_to_view demo_row))
      (h\<lparr>sh_state := [demo_row], sh_seq := sh_seq h + 1\<rparr>), upsert_row demo_row s)"
proof -
  have "json_get ''error'' demo_event = None" "json_get ''event'' demo_event = None"
    by (simp_all add: demo_event_def json_get_def)
  then show ?thesis
    using assms demo_event_row
    by (simp add: chart_text_def demo_lib_def upsert_candle_def upsert_many_def apply_row_def series_next_seq_def)
qed

theorem series_follows_table_witness:
  "let h = new_series ''A'' 2 60 Test None None 50 60;
       env = \<lparr>fe_load = None, fe_archive = (\<lambda>_ _ _. Err ''down''), fe_upsert = (\<lambda>_. None), fe_reload = None\<rparr>;
       ((h2, s2), pauses) = chart_worker_loop demo_lib 1
         [(env, Chart_Connected [(In_Text ''x'', 7, \<lambda>_. None)]), (env, Chart_Not_Connected ''no'')] h []
   in window_inv 60 (sh_state h2) \<and> pauses = [1, 2] \<and>
     (\<exists>h1 s1 ch. (series_step demo_lib)\<^sup>*\<^sup>* (h, []) (h1, s1) \<and> hm_get (sh_subscribers h1) 1 = Some ch \<and>
        length (ch_queue ch) = 2 \<and> sh_state h1 = [demo_row] \<and>
        mirrors s1 2 60 [demo_row] \<and> (\<forall>m\<in>set (ch_queue ch). shows_row h s1 m))"
proof -
  let ?env = "\<lparr>fe_load = None, fe_archive = (\<lambda>_ _ _. Err ''down''), fe_upsert = (\<lambda>_. None), fe_reload = None\<rparr>"
  let ?runs = "[(?env, Chart_Connected [(In_Text ''x'', 7, \<lambda>_. None)]), (?env, Chart_Not_Connected ''no'')]"
  let ?h = "new_series ''A'' 2 60 Test None None 50 60"
  obtain h2 s2 pauses where run: "chart_worker_loop demo_lib 1 ?runs ?h [] = ((h2, s2), pauses)"
    by (metis surj_pair)
  have ok: "series_ok ?h []"
    by (simp add: series_ok_def new_series_def own_rows_def window_inv_def mirrors_def hm_get_def)
  note F = series_follows_table [OF ok, of demo_lib]
  have reload: "fe_reload (fst run) = None" if "run \<in> set ?runs" for run using that by auto
  have alone: "window_inv 60 (sh_state h2)" "pauses = [1, 2]"
    using conjunct2 [OF F, rule_format, OF reload run] by (simp_all add: new_series_def numeral_2_eq_2)
  let ?ha = "snd (snd (series_subscribe 10 ?h))"
  let ?hb = "series_status ''connected'' [] ?ha"
  let ?hc = "series_emit (C_Update ''A'' 2 60 (sh_seq ?hb) (candle_to_view demo_row))
    (?hb\<lparr>sh_state := [demo_row], sh_seq := sh_seq ?hb + 1\<rparr>)"
  have small: "(1 :: u64) < - 1" by code_simp
  have seq: "sh_seq ?h = 1" "sh_seq ?hb = 1" by (simp_all add: new_series_def series_subscribe_def series_register_def
      series_first_message_def series_status_def series_emit_def snapshot_views_def)
  have a: "series_step demo_lib (?h, []) (?ha, [])"
    by (rule client_subscribe [of 10 _ "fst (series_subscribe 10 ?h)" "fst (snd (series_subscribe 10 ?h))"]) (simp_all add: seq small)
  have b: "series_step demo_lib (?ha, []) (?hb, [])" by (rule worker_status)
  have c: "series_step demo_lib (?hb, []) (?hc, upsert_row demo_row [])"
    by (rule worker_text [OF demo_text]) (simp_all add: seq small, simp_all add: new_series_def series_subscribe_def
        series_register_def series_first_message_def series_status_def series_emit_def snapshot_views_def)
  have steps: "(series_step demo_lib)\<^sup>*\<^sup>* (?h, []) (?hc, upsert_row demo_row [])"
    using a b c by (meson rtranclp.intros)
  obtain ch where ch: "hm_get (sh_subscribers ?hc) 1 = Some ch" "length (ch_queue ch) = 2"
    by (simp add: new_series_def series_subscribe_def series_register_def series_first_message_def series_status_def
        series_emit_def snapshot_views_def emit_to_def hm_get_def)
  have "mirrors (upsert_row demo_row []) 2 60 [demo_row] \<and> (\<forall>m\<in>set (ch_queue ch). shows_row ?h (upsert_row demo_row []) m)"
    using conjunct1 [OF F, rule_format, OF _ steps] ch by (simp add: new_series_def hm_get_def series_emit_def)
  then have "\<exists>h1 s1 ch. (series_step demo_lib)\<^sup>*\<^sup>* (?h, []) (h1, s1) \<and> hm_get (sh_subscribers h1) 1 = Some ch \<and>
      length (ch_queue ch) = 2 \<and> sh_state h1 = [demo_row] \<and>
      mirrors s1 2 60 [demo_row] \<and> (\<forall>m\<in>set (ch_queue ch). shows_row ?h s1 m)"
    using steps ch by (intro exI conjI) (assumption | simp add: series_emit_def)+
  then show ?thesis using alone by (simp only: Let_def run prod.case simp_thms)
qed

text \<open>An event as the exchange writes it, with the time in some unit of a second.\<close>

definition candle_json :: "int \<Rightarrow> candle_row \<Rightarrow> json" where
  "candle_json unit r = JObject
     [(''type'', JString ''latest_candlestick''),
      (''timestamp'', JString (show_int (cd_bucket_start_sec r * unit))),
      (''product_id'', JNumber (PosInt (ucast (cd_product_id r)))),
      (''granularity'', JNumber (PosInt (ucast (cd_granularity r)))),
      (''open_x18'', JString (cd_open_x18 r)), (''high_x18'', JString (cd_high_x18 r)),
      (''low_x18'', JString (cd_low_x18 r)), (''close_x18'', JString (cd_close_x18 r)),
      (''volume'', JString (cd_volume_x18 r)),
      (''submission_idx'', JString (show_int (cd_submission_idx r)))]"

lemma json_u32_ucast [simp]: "json_u32 (JNumber (PosInt (ucast (p :: u32)))) = Some p"
proof -
  have lt: "unat p < 2 ^ 32" using unsigned_less [of p] by simp
  then have "take_bit 64 (unat p) = unat p" by (simp add: take_bit_nat_eq_self_iff)
  then have "unat (ucast p :: u64) = unat p" by (simp add: unsigned_ucast_eq)
  moreover have "ucast (ucast p :: u64) = p"
    by (rule bit_word_eqI) (auto simp: bit_simps)
  moreover note lt
  ultimately show ?thesis by (simp add: json_u32_def)
qed

lemma json_i64_string: "i64_min \<le> x \<Longrightarrow> x \<le> i64_max \<Longrightarrow> json_i64 (JString (show_int x)) = Some x"
  by (simp add: json_i64_def parse_i64_def parse_signed_show_int)

lemma normalize_units:
  assumes "10000000 \<le> sec" "sec \<le> 9223372036" "unit \<in> {1, 1000, 1000000, 1000000000}"
  shows "normalize_timestamp_to_sec (sec * unit) = sec"
  using assms by (auto simp: normalize_timestamp_to_sec_def tdiv_nonneg)

text \<open>C24: reading a candle event. An event of the series, with its time written in seconds,
  milliseconds, microseconds or nanoseconds (for times from April 1970 to 2262), is read back as
  the very candle: the bucket in seconds, the prices as their decimal texts, the submission
  index, and the raw time as the source time; an event of another product or granularity is
  passed over.\<close>

theorem candle_event_roundtrip:
  assumes sec: "10000000 \<le> cd_bucket_start_sec r" "cd_bucket_start_sec r \<le> 9223372036"
    and unit: "unit \<in> {1, 1000, 1000000, 1000000000}"
    and idx: "i64_min \<le> cd_submission_idx r" "cd_submission_idx r \<le> i64_max"
  shows "parse_latest_candlestick now (candle_json unit r) symbol pid gran =
    Ok (if cd_product_id r = pid \<and> cd_granularity r = gran
        then Some (r\<lparr>cd_symbol := symbol, cd_source_ts := cd_bucket_start_sec r * unit\<rparr>) else None)"
proof -
  have t: "to_lowercase ''latest_candlestick'' = ''latest_candlestick''" by code_simp
  let ?ts = "cd_bucket_start_sec r * unit"
  have "i64_min \<le> ?ts" "?ts \<le> i64_max" using sec unit by (auto simp: i64_min_def i64_max_def)
  note ts = json_i64_string [OF this] and ix = json_i64_string [OF idx]
  show ?thesis
    using normalize_units [OF sec unit] ts ix
    by (cases r) (simp add: parse_latest_candlestick_def candle_json_def t value_to_string_number_def)
qed

theorem candle_event_roundtrip_witness:
  "parse_latest_candlestick 0 (candle_json 1000000
      (archive_row ''A'' 2 60 \<lparr>ak_product_id = 2, ak_granularity = 60, ak_submission_idx = 3, ak_timestamp = 1700000040,
        ak_open_x18 = 1, ak_high_x18 = 2, ak_low_x18 = 1, ak_close_x18 = 2, ak_volume = 5\<rparr>)) ''A'' 3 60 = Ok None"
  using candle_event_roundtrip [of "archive_row ''A'' 2 60 \<lparr>ak_product_id = 2, ak_granularity = 60, ak_submission_idx = 3, ak_timestamp = 1700000040,
        ak_open_x18 = 1, ak_high_x18 = 2, ak_low_x18 = 1, ak_close_x18 = 2, ak_volume = 5\<rparr>" 1000000 0 "''A''" 3 60]
  by (simp add: archive_row_def normalize_timestamp_to_sec_def i64_min_def i64_max_def)

definition chart_sv_ok :: "chart_supervisor \<Rightarrow> bool" where
  "chart_sv_ok sv \<longleftrightarrow> hm_wf (cp_series sv) \<and>
     (\<forall>symbol gran h. hm_get (cp_series sv) (symbol, gran) = Some h \<longrightarrow>
        sh_symbol h = symbol \<and> sh_granularity h = gran \<and> supports_granularity sv gran \<and>
        hm_get (cp_lookup sv) symbol = Some (sh_product_id h))"

lemma str_contains_chars: "str_contains s pat \<Longrightarrow> set pat \<subseteq> set s"
proof (induction s)
  case (Cons c cs)
  then show ?case
    by (auto simp: starts_with_def) (metis in_set_takeD set_ConsD)+
qed simp

lemma unknown_symbol_404: "map_ensure_error (''unknown symbol '' @ x) = C_NotFound (''unknown symbol '' @ x)"
  using str_contains_append [of "[]" "''unknown symbol''" "CHR '' '' # x"] by (simp add: map_ensure_error_def)

lemma digit_char_not_k: "n < 10 \<Longrightarrow> digit_char n \<noteq> CHR ''k''"
  by (intro digit_char_neq) simp_all

lemma unsupported_400:
  "map_ensure_error (''unsupported granularity '' @ CHR 0x27 # show_u32 g @ [CHR 0x27]) =
     C_BadRequest (''unsupported granularity '' @ CHR 0x27 # show_u32 g @ [CHR 0x27])"
proof -
  let ?m = "''unsupported granularity '' @ CHR 0x27 # show_u32 g @ [CHR 0x27]"
  have "CHR ''k'' \<notin> set (show_u32 g)"
    using set_show_nat [of "CHR ''k''" "unat g"] digit_char_not_k by (metis show_u32_def)
  then have "CHR ''k'' \<notin> set ?m" by simp
  then have "\<not> str_contains ?m ''unknown symbol''" using str_contains_chars [of ?m "''unknown symbol''"] by auto
  moreover have "str_contains ?m ''unsupported granularity''"
    using str_contains_append [of "[]" "''unsupported granularity''" "CHR '' '' # CHR 0x27 # show_u32 g @ [CHR 0x27]"]
    by simp
  ultimately show ?thesis by (simp add: map_ensure_error_def)
qed

lemma bootstrap_same: "bootstrap env h s = (Ok h', s') \<Longrightarrow> \<exists>rows. h' = set_window rows h"
  by (auto simp: bootstrap_def res_bind_Inr_iff split: sum.splits if_splits prod.splits)

text \<open>C25: the supervisor. On a consistent supervisor a request for a series either gives the series
  of the normalised symbol and the granularity, with the product the directory has for it, in
  the map under its key and (when it is new) with its worker started, no other series touched
  and an old series returned as it is; or an error, and then the map is as it was. A granularity
  that is not offered is answered with 400 and a symbol that is not known with 404, neither
  touching the table. The only other error is that of filling a new series, and it is answered with 500 where its text
  (the database's or the archive's) has neither of the two phrases by which the code tells the errors apart.\<close>

theorem ensure_series_correct:
  assumes inv: "chart_sv_ok sv" and run: "ensure_series env symbol gran (sv, s) = (r, sv', s')"
  shows "chart_sv_ok sv' \<and>
    (let key = (normalize_symbol symbol, gran); pid = hm_get (cp_lookup sv) (normalize_symbol symbol) in
     case r of
       Inr h \<Rightarrow>
         supports_granularity sv gran \<and> pid = Some (sh_product_id h) \<and>
         sh_symbol h = normalize_symbol symbol \<and> sh_granularity h = gran \<and>
         hm_get (cp_series sv') = (hm_get (cp_series sv))(key := Some h) \<and>
         (case hm_get (cp_series sv) key of
            None \<Rightarrow> sh_worker_started h
          | Some old \<Rightarrow> h = old \<and> sv' = sv \<and> s' = s)
     | Inl e \<Rightarrow>
         hm_get (cp_series sv') = hm_get (cp_series sv) \<and>
         (if \<not> supports_granularity sv gran
          then s' = s \<and> map_ensure_error e = C_BadRequest e \<and> chart_error_status (map_ensure_error e) = 400
          else if pid = None
          then s' = s \<and> map_ensure_error e = C_NotFound e \<and> chart_error_status (map_ensure_error e) = 404
          else hm_get (cp_series sv) key = None \<and>
            bootstrap env (new_series (normalize_symbol symbol) (the pid) gran (cp_client_mode sv) (cp_nado_ws_url sv)
              (cp_nado_archive_url sv) (cp_history_limit sv) (cp_cache_capacity sv)) s = (Err e, s') \<and>
            (\<not> str_contains e ''unknown symbol'' \<longrightarrow> \<not> str_contains e ''unsupported granularity'' \<longrightarrow>
               map_ensure_error e = C_Internal e \<and> chart_error_status (map_ensure_error e) = 500)))"
proof (cases "supports_granularity sv gran")
  case False
  then show ?thesis using run inv unsupported_400 [of gran]
    by (auto simp: ensure_series_def ensure_entry_def Let_def)
next
  case gran: True
  let ?n = "normalize_symbol symbol"
  show ?thesis
  proof (cases "hm_get (cp_lookup sv) ?n")
    case None
    then show ?thesis using run inv gran unknown_symbol_404 [of "CHR 0x27 # symbol @ [CHR 0x27]"]
      by (auto simp: ensure_series_def ensure_entry_def Let_def)
  next
    case pid: (Some pid)
    show ?thesis
    proof (cases "hm_get (cp_series sv) (?n, gran)")
      case (Some old)
      then have "r = Ok old" "sv' = sv" "s' = s"
        using run gran pid by (auto simp: ensure_series_def ensure_entry_def Let_def)
      then show ?thesis using inv gran Some by (auto simp: chart_sv_ok_def)
    next
      case None
      let ?h = "new_series ?n pid gran (cp_client_mode sv) (cp_nado_ws_url sv) (cp_nado_archive_url sv)
        (cp_history_limit sv) (cp_cache_capacity sv)"
      have wf: "hm_wf (cp_series sv)" using inv by (simp add: chart_sv_ok_def)
      obtain rb s1 where b: "bootstrap env ?h s = (rb, s1)" by fastforce
      show ?thesis
      proof (cases rb)
        case (Inl e)
        then have res: "r = Err e" "s' = s1" "sv' = sv\<lparr>cp_series := hm_remove (?n, gran) (hm_insert (?n, gran) ?h (cp_series sv))\<rparr>"
          using run gran pid None b by (auto simp: ensure_series_def ensure_entry_def ensure_fill_def Let_def)
        have "hm_get (cp_series sv') = hm_get (cp_series sv)"
          using None by (auto simp: res hm_get_remove hm_get_insert)
        moreover have "chart_sv_ok sv'"
          using inv calculation wf
          by (auto simp: chart_sv_ok_def res(3) hm_wf_remove hm_wf_insert supports_granularity_def)
        ultimately show ?thesis using res gran pid None b Inl by (simp add: Let_def map_ensure_error_def)
      next
        case (Inr h1)
        obtain rows where h1: "h1 = set_window rows ?h" using bootstrap_same b Inr by blast
        define h2 where "h2 = h1\<lparr>sh_worker_started := True\<rparr>"
        have res: "r = Ok h2" "sv' = sv\<lparr>cp_series := hm_insert (?n, gran) h2 (hm_insert (?n, gran) ?h (cp_series sv))\<rparr>"
          using run gran pid None b Inr
          by (auto simp: ensure_series_def ensure_entry_def ensure_fill_def spawn_series_def Let_def h2_def)
        have h2: "sh_symbol h2 = ?n" "sh_granularity h2 = gran" "sh_product_id h2 = pid" "sh_worker_started h2"
          by (simp_all add: h2_def h1 set_window_def new_series_def)
        have get: "hm_get (cp_series sv') = (hm_get (cp_series sv))((?n, gran) := Some h2)"
          by (auto simp: res hm_get_insert)
        have "chart_sv_ok sv'"
          using inv get wf h2 pid gran
          by (auto simp: chart_sv_ok_def res(2) hm_wf_insert supports_granularity_def split: if_splits)
        then show ?thesis using res(1) get h2 gran pid None by (simp add: Let_def)
      qed
    qed
  qed
qed

definition demo_supervisor :: chart_supervisor where
  "demo_supervisor = new_chart_supervisor Test None None 50 60 [60]
     \<lparr>sd_symbols = [\<lparr>si_symbol = ''BTC_USDT'', si_product_id = 2\<rparr>], sd_lookup = [(''BTC_USDT'', 2), (''BTC'', 2)]\<rparr>"

definition demo_fill :: fill_env where
  "demo_fill = \<lparr>fe_load = None, fe_archive = (\<lambda>_ _ _. Ok [\<lparr>ak_product_id = 2, ak_granularity = 60, ak_submission_idx = 3, ak_timestamp = 60,
     ak_open_x18 = 1, ak_high_x18 = 2, ak_low_x18 = 1, ak_close_x18 = 2, ak_volume = 5\<rparr>]),
     fe_upsert = (\<lambda>_. None), fe_reload = None\<rparr>"

lemma demo_supervisor_ok: "chart_sv_ok demo_supervisor"
  by (simp add: chart_sv_ok_def demo_supervisor_def new_chart_supervisor_def hm_get_def)

theorem ensure_series_correct_witness:
  "chart_sv_ok (fst (snd (ensure_series demo_fill '' btc'' 60 (demo_supervisor, [])))) \<and>
   (case fst (ensure_series (demo_fill\<lparr>fe_archive := \<lambda>_ _ _. Err ''down''\<rparr>) '' btc'' 60 (demo_supervisor, [])) of
      Inl e \<Rightarrow> chart_error_status (map_ensure_error e) = 500 | Inr _ \<Rightarrow> False)"
proof -
  obtain r sv' s' where run: "ensure_series demo_fill '' btc'' 60 (demo_supervisor, []) = (r, sv', s')"
    by (metis prod_cases3)
  let ?down = "demo_fill\<lparr>fe_archive := \<lambda>_ _ _. Err ''down''\<rparr>"
  obtain r2 sv2 s2 where run2: "ensure_series ?down '' btc'' 60 (demo_supervisor, []) = (r2, sv2, s2)"
    by (metis prod_cases3)
  have "r2 = Err ''failed querying archive candlesticks: down''"
  proof -
    have "fst (ensure_series ?down '' btc'' 60 (demo_supervisor, [])) = Err ''failed querying archive candlesticks: down''"
      by code_simp
    then show ?thesis by (simp add: run2)
  qed
  moreover have "supports_granularity demo_supervisor 60" "normalize_symbol '' btc'' = ''BTC''"
      "hm_get (cp_lookup demo_supervisor) ''BTC'' = Some 2"
      "\<not> str_contains ''failed querying archive candlesticks: down'' ''unknown symbol''"
      "\<not> str_contains ''failed querying archive candlesticks: down'' ''unsupported granularity''"
    by code_simp+
  ultimately have "r2 = Err ''failed querying archive candlesticks: down'' \<and>
      chart_error_status (map_ensure_error ''failed querying archive candlesticks: down'') = 500"
    using ensure_series_correct [OF demo_supervisor_ok run2] by (simp add: Let_def)
  moreover have "chart_sv_ok sv'" using ensure_series_correct [OF demo_supervisor_ok run] by blast
  ultimately show ?thesis by (simp add: run run2)
qed

text \<open>A failed filling whose text has one of the phrases is taken for the client's error.\<close>

lemma filling_error_misread:
  "map_ensure_error ''failed querying archive candlesticks: unknown symbol'' =
     C_NotFound ''failed querying archive candlesticks: unknown symbol''"
  by code_simp

lemma dedup_by_key_sorted:
  "sorted xs \<Longrightarrow> sorted_wrt (<) (dedup_by_key (\<lambda>v. v) xs) \<and> set (dedup_by_key (\<lambda>v. v) xs) = set xs"
  for xs :: "'a :: linorder list"
  by (induction "\<lambda>v :: 'a. v" xs rule: dedup_by_key.induct) (auto simp: less_le)

lemma parse_csv_sorted:
  "parse_granularity_csv raw = Ok gs \<Longrightarrow> sorted_wrt (<) gs \<and> 0 \<notin> set gs"
  using dedup_by_key_sorted [OF sorted_sort]
  by (auto simp: parse_granularity_csv_def res_bind_Inr_iff Let_def split: if_splits)

lemma default_list:
  "parse_granularity_csv default_granularities = Ok [60, 300, 900, 3600, 7200, 14400, 86400, 604800, 2419200]"
proof -
  have "read_list trim default_granularities =
      [''60'', ''300'', ''900'', ''3600'', ''7200'', ''14400'', ''86400'', ''604800'', ''2419200'']"
    by code_simp
  then show ?thesis
    by (simp add: parse_granularity_csv_def parse_chunk_def parse_u32_def parse_unsigned_def digit_vals)
qed

lemma timeframe_listed:
  "timeframe_to_granularity tf = Some g \<Longrightarrow> g \<in> {60, 300, 900, 3600, 7200, 14400, 86400, 604800, 2419200}"
  by (auto simp: timeframe_to_granularity_def split: if_splits)

lemma clamp_bounds: "lo \<le> hi \<Longrightarrow> lo \<le> clamp lo hi x \<and> clamp lo hi x \<le> hi"
  by (simp add: clamp_def)

text \<open>The configuration. When it loads, the offered granularities are positive and strictly
  ascending, the default one and the prewarmed ones are among them, the history limit is
  between 50 and 2000 and the cache holds at least that many and at most 10000 candles, so
  that no snapshot a client may ask for (at least 1 candle, at most the history limit) is cut by
  the cache; and with the built-in list every named timeframe is offered.\<close>

theorem chart_config_correct:
  assumes load: "chart_config_from_env env = Ok cfg"
  shows "sorted_wrt (<) (cc_supported_granularities cfg) \<and> 0 \<notin> set (cc_supported_granularities cfg) \<and>
    cc_default_granularity cfg \<in> set (cc_supported_granularities cfg) \<and>
    set (cc_prewarm_granularities cfg) \<subseteq> set (cc_supported_granularities cfg) \<and>
    50 \<le> cc_history_limit cfg \<and> cc_history_limit cfg \<le> 2000 \<and>
    cc_history_limit cfg \<le> cc_cache_capacity cfg \<and> cc_cache_capacity cfg \<le> 10000 \<and>
    (\<forall>limit. snapshot_limit limit (cc_history_limit cfg) \<in> {1..cc_cache_capacity cfg}) \<and>
    (env ''CHART_SUPPORTED_GRANULARITIES'' = None \<longrightarrow>
       (\<forall>tf g. timeframe_to_granularity tf = Some g \<longrightarrow> g \<in> set (cc_supported_granularities cfg)))"
proof -
  let ?d = "unwrap_or 60 (Option.bind (env ''CHART_DEFAULT_GRANULARITY'') parse_u32)"
  obtain supported prewarm where sup: "(case env ''CHART_SUPPORTED_GRANULARITIES'' of Some v \<Rightarrow> parse_granularity_csv v
      | None \<Rightarrow> Ok (unwrap_or [] (res_ok (parse_granularity_csv default_granularities)))) = Ok supported"
    and pre: "(case env ''CHART_PREWARM_GRANULARITIES'' of Some raw \<Rightarrow> parse_granularity_csv raw | None \<Rightarrow> Ok [?d]) = Ok prewarm"
    and def: "?d \<in> set supported" "\<not> list_ex (\<lambda>v. v \<notin> set supported) prewarm"
    and cfg: "cc_supported_granularities cfg = supported" "cc_prewarm_granularities cfg = prewarm"
      "cc_default_granularity cfg = ?d" "cc_history_limit cfg = clamp 50 2000 (env_usize env ''CHART_HISTORY_LIMIT'' 500)"
      "cc_cache_capacity cfg = clamp (clamp 50 2000 (env_usize env ''CHART_HISTORY_LIMIT'' 500)) 10000
         (env_usize env ''CHART_CACHE_CAPACITY'' 1500)"
    using load unfolding chart_config_from_env_def
    by (auto simp: res_bind_Inr_iff Let_def split: if_splits)
  let ?h = "cc_history_limit cfg"
  have h: "50 \<le> ?h" "?h \<le> 2000" using clamp_bounds [of 50 2000] by (simp_all add: cfg)
  have c: "?h \<le> cc_cache_capacity cfg" "cc_cache_capacity cfg \<le> 10000"
    using clamp_bounds [of ?h 10000] h by (simp_all add: cfg(4,5))
  have "snapshot_limit limit ?h \<in> {1..cc_cache_capacity cfg}" for limit
    using clamp_bounds [of 1 "max ?h 1" "unwrap_or 300 limit"] h c by (simp add: snapshot_limit_def)
  moreover have "sorted_wrt (<) supported \<and> 0 \<notin> set supported"
    using sup parse_csv_sorted [OF default_list] by (auto simp: default_list parse_csv_sorted split: option.splits)
  moreover have "env ''CHART_SUPPORTED_GRANULARITIES'' = None \<Longrightarrow>
      set supported = {60, 300, 900, 3600, 7200, 14400, 86400, 604800, 2419200}"
    using sup by (auto simp: default_list)
  ultimately show ?thesis
    using def h c timeframe_listed by (auto simp: cfg(1-3) list_ex_iff)
qed

theorem chart_config_correct_witness:
  "\<exists>cfg. chart_config_from_env (\<lambda>v. if v = ''DATABASE_URL'' then Some ''db'' else None) = Ok cfg \<and>
     cc_history_limit cfg \<le> cc_cache_capacity cfg"
proof -
  let ?env = "\<lambda>v. if v = ''DATABASE_URL'' then Some ''db'' else None :: string option"
  have "trim ''db'' = ''db''" "read_mode ''CHART_NETWORK'' ''test'' = Ok Test" by code_simp+
  then obtain cfg where cfg: "chart_config_from_env ?env = Ok cfg"
    by (simp add: chart_config_from_env_def default_list env_usize_def Let_def)
  from chart_config_correct [OF cfg] show ?thesis using cfg by blast
qed

subsection \<open>Two names of one product, and a failed filling\<close>

text \<open>
  The directory gives a symbol and its alias the same product, but the primary key of the table
  has only the product: a row stored for the alias takes the place of the symbol's row, which
  the symbol's query then does not find any more.
\<close>

lemma alias_takes_rows:
  assumes s: "store_inv s" "hm_get s (candle_key r) = None"
    and r: "row_of symbol pid gran r" and ne: "alias \<noteq> symbol"
  shows "let s1 = upsert_row r s; s2 = upsert_row (r\<lparr>cd_symbol := alias\<rparr>) s1 in
    r \<in> set (series_rows symbol pid gran s1) \<and>
    cd_bucket_start_sec r \<notin> cd_bucket_start_sec ` set (series_rows symbol pid gran s2)"
proof -
  let ?s1 = "upsert_row r s" and ?a = "r\<lparr>cd_symbol := alias\<rparr>"
  let ?s2 = "upsert_row ?a ?s1"
  have inv: "store_inv ?s1" "store_inv ?s2" by (simp_all add: store_inv_upsert s(1))
  have key: "candle_key ?a = candle_key r" by (simp add: candle_key_def)
  have g1: "hm_get ?s1 (candle_key r) = Some r" using s(2) by (simp add: hm_get_upsert)
  then have g2: "hm_get ?s2 (candle_key r) = Some ?a" by (simp add: hm_get_upsert [of ?a] key)
  have "(candle_key r, r) \<in> set ?s1" using g1 by (simp add: hm_get_def map_of_SomeD)
  then have "r \<in> set (series_rows symbol pid gran ?s1)"
    using r by (force simp: series_rows_def)
  moreover have "cd_bucket_start_sec x \<noteq> cd_bucket_start_sec r" if x: "x \<in> set (series_rows symbol pid gran ?s2)" for x
  proof
    assume same: "cd_bucket_start_sec x = cd_bucket_start_sec r"
    obtain k where k: "(k, x) \<in> set ?s2" and xr: "row_of symbol pid gran x"
      using x by (auto simp: series_rows_def)
    have "k = candle_key r"
      using k inv(2) xr r same by (auto simp: store_inv_def candle_key_def row_of_def)
    then have "hm_get ?s2 (candle_key r) = Some x"
      using k inv(2) by (auto simp: store_inv_def hm_wf_def hm_get_def)
    then show False using g2 xr ne by (auto simp: row_of_def)
  qed
  ultimately show ?thesis unfolding Let_def by (metis imageE)
qed

text \<open>
  Between the two halves of ensure_series another request finds the new series in the map and
  serves it. When the filling then fails, the series is taken out and its worker never starts:
  the other request's client is left with a series nobody feeds.
\<close>

lemma failed_fill_orphans:
  assumes entry: "ensure_entry symbol gran sv = Ok (h, True, sv1)" and wf: "hm_wf (cp_series sv)"
    and fill: "bootstrap env h s = (Err e, s')"
  shows "ensure_entry symbol gran sv1 = Ok (h, False, sv1) \<and>
    (\<exists>sv2. ensure_fill env (normalize_symbol symbol, gran) h (sv1, s) = (Err e, sv2, s') \<and>
       hm_get (cp_series sv2) (normalize_symbol symbol, gran) = None) \<and> \<not> sh_worker_started h"
  using entry fill wf
  by (auto simp: ensure_entry_def ensure_fill_def Let_def hm_get_insert hm_get_remove new_series_def
      supports_granularity_def split: option.splits if_splits)

end
