(* ===== verification/SdkStatistics.thy ===== *)
theory SdkStatistics
  imports SdkTransactions
begin

text \<open>
  The rest of what the archive answers (nado-rust-sdk/src/nado_utils/indexer.rs): rewards, makers, leaderboards,
  points, the tickers, contracts and trades of its second version, and single answers, each with its JSON form.
\<close>

subsection \<open>Rewards and makers\<close>

record global_reward =
  gr_product_id :: u32
  gr_reward_coefficient :: f64
  gr_q_scores :: f64
  gr_maker_volumes :: f64
  gr_taker_volumes :: f64
  gr_maker_fees :: f64
  gr_taker_fees :: f64
  gr_maker_tokens :: f64
  gr_taker_tokens :: f64
  gr_uptimes :: u32

definition global_reward_form :: "wire_lib \<Rightarrow> global_reward form" where
  "global_reward_form lb = struct_form global_reward.make
     (with_field ''product_id'' u32_form gr_product_id
     (with_field ''reward_coefficient'' (f64_text lb) gr_reward_coefficient
     (with_field ''q_scores'' (f64_text lb) gr_q_scores
     (with_field ''maker_volumes'' (f64_text lb) gr_maker_volumes
     (with_field ''taker_volumes'' (f64_text lb) gr_taker_volumes
     (with_field ''maker_fees'' (f64_text lb) gr_maker_fees
     (with_field ''taker_fees'' (f64_text lb) gr_taker_fees
     (with_field ''maker_tokens'' (f64_text lb) gr_maker_tokens
     (with_field ''taker_tokens'' (f64_text lb) gr_taker_tokens
     (with_field ''uptimes'' u32_form gr_uptimes
     no_more))))))))))"

lemma json_form_global_reward [form_laws]: "wire_lib_ok lb \<Longrightarrow> json_form (global_reward_form lb)"
  unfolding global_reward_form_def by (intro struct_laws form_laws) (simp_all add: global_reward.make_def)

record address_reward =
  adr_product_id :: u32
  adr_q_score :: f64
  adr_sum_q_min :: f64
  adr_uptime :: u32
  adr_maker_volume :: f64
  adr_taker_volume :: f64
  adr_maker_fee :: f64
  adr_taker_fee :: f64
  adr_maker_tokens :: f64
  adr_taker_tokens :: f64
  adr_taker_referral_fee :: f64
  adr_taker_referral_tokens :: f64
  adr_rebates :: f64

definition address_reward_form :: "wire_lib \<Rightarrow> address_reward form" where
  "address_reward_form lb = struct_form address_reward.make
     (with_field ''product_id'' u32_form adr_product_id
     (with_field ''q_score'' (f64_text lb) adr_q_score
     (with_field ''sum_q_min'' (f64_text lb) adr_sum_q_min
     (with_field ''uptime'' u32_form adr_uptime
     (with_field ''maker_volume'' (f64_text lb) adr_maker_volume
     (with_field ''taker_volume'' (f64_text lb) adr_taker_volume
     (with_field ''maker_fee'' (f64_text lb) adr_maker_fee
     (with_field ''taker_fee'' (f64_text lb) adr_taker_fee
     (with_field ''maker_tokens'' (f64_text lb) adr_maker_tokens
     (with_field ''taker_tokens'' (f64_text lb) adr_taker_tokens
     (with_field ''taker_referral_fee'' (f64_text lb) adr_taker_referral_fee
     (with_field ''taker_referral_tokens'' (f64_text lb) adr_taker_referral_tokens
     (with_field ''rebates'' (f64_text lb) adr_rebates
     no_more)))))))))))))"

lemma json_form_address_reward [form_laws]: "wire_lib_ok lb \<Longrightarrow> json_form (address_reward_form lb)"
  unfolding address_reward_form_def by (intro struct_laws form_laws) (simp_all add: address_reward.make_def)

record reward =
  rw_epoch :: u32
  rw_start_time :: u64
  rw_period :: u64
  rw_address_rewards :: "address_reward list"
  rw_global_rewards :: "global_reward list"
  rw_num_eligible_addresses :: u32

definition reward_form :: "wire_lib \<Rightarrow> reward form" where
  "reward_form lb = struct_form reward.make
     (with_field ''epoch'' u32_form rw_epoch
     (with_field ''start_time'' u64_text rw_start_time
     (with_field ''period'' u64_text rw_period
     (with_field ''address_rewards'' (list_form (address_reward_form lb)) rw_address_rewards
     (with_field ''global_rewards'' (list_form (global_reward_form lb)) rw_global_rewards
     (with_field ''num_eligible_addresses'' u32_form rw_num_eligible_addresses
     no_more))))))"

lemma json_form_reward [form_laws]: "wire_lib_ok lb \<Longrightarrow> json_form (reward_form lb)"
  unfolding reward_form_def by (intro struct_laws form_laws) (simp_all add: reward.make_def)

record rewards_response =
  rwr_rewards :: "reward list"
  rwr_update_time :: u64
  rwr_total_referrals :: u64

definition rewards_response_form :: "wire_lib \<Rightarrow> rewards_response form" where
  "rewards_response_form lb = struct_form rewards_response.make
     (with_field ''rewards'' (list_form (reward_form lb)) rwr_rewards
     (with_field ''update_time'' u64_text rwr_update_time
     (with_field ''total_referrals'' u64_text rwr_total_referrals
     no_more)))"

lemma json_form_rewards_response [form_laws]: "wire_lib_ok lb \<Longrightarrow> json_form (rewards_response_form lb)"
  unfolding rewards_response_form_def by (intro struct_laws form_laws) (simp_all add: rewards_response.make_def)

record taker_reward =
  tw_epoch :: u32
  tw_taker_tokens :: f64
  tw_taker_referral_tokens :: f64

definition taker_reward_form :: "wire_lib \<Rightarrow> taker_reward form" where
  "taker_reward_form lb = struct_form taker_reward.make
     (with_field ''epoch'' u32_form tw_epoch
     (with_field ''taker_tokens'' (f64_text lb) tw_taker_tokens
     (with_field ''taker_referral_tokens'' (f64_text lb) tw_taker_referral_tokens
     no_more)))"

lemma json_form_taker_reward [form_laws]: "wire_lib_ok lb \<Longrightarrow> json_form (taker_reward_form lb)"
  unfolding taker_reward_form_def by (intro struct_laws form_laws) (simp_all add: taker_reward.make_def)

record taker_rewards_response =
  twr_taker_rewards :: "taker_reward list"
  twr_update_time :: u64
  twr_total_referrals :: u64

definition taker_rewards_response_form :: "wire_lib \<Rightarrow> taker_rewards_response form" where
  "taker_rewards_response_form lb = struct_form taker_rewards_response.make
     (with_field ''taker_rewards'' (list_form (taker_reward_form lb)) twr_taker_rewards
     (with_field ''update_time'' u64_text twr_update_time
     (with_field ''total_referrals'' u64_text twr_total_referrals
     no_more)))"

lemma json_form_taker_rewards_response [form_laws]: "wire_lib_ok lb \<Longrightarrow> json_form (taker_rewards_response_form lb)"
  unfolding taker_rewards_response_form_def by (intro struct_laws form_laws) (simp_all add: taker_rewards_response.make_def)

record foundation_global =
  fg_product_id :: u32
  fg_taker_volumes :: f64
  fg_taker_fees :: f64
  fg_taker_tokens :: f64
  fg_maker_fees :: f64

definition foundation_global_form :: "wire_lib \<Rightarrow> foundation_global form" where
  "foundation_global_form lb = struct_form foundation_global.make
     (with_field ''product_id'' u32_form fg_product_id
     (with_field ''taker_volumes'' (f64_text lb) fg_taker_volumes
     (with_field ''taker_fees'' (f64_text lb) fg_taker_fees
     (with_field ''taker_tokens'' (f64_text lb) fg_taker_tokens
     (with_field ''maker_fees'' (f64_text lb) fg_maker_fees
     no_more)))))"

lemma json_form_foundation_global [form_laws]: "wire_lib_ok lb \<Longrightarrow> json_form (foundation_global_form lb)"
  unfolding foundation_global_form_def by (intro struct_laws form_laws) (simp_all add: foundation_global.make_def)

record foundation_address =
  fad_product_id :: u32
  fad_taker_volume :: f64
  fad_taker_fee :: f64
  fad_taker_tokens :: f64
  fad_maker_fee :: f64

definition foundation_address_form :: "wire_lib \<Rightarrow> foundation_address form" where
  "foundation_address_form lb = struct_form foundation_address.make
     (with_field ''product_id'' u32_form fad_product_id
     (with_field ''taker_volume'' (f64_text lb) fad_taker_volume
     (with_field ''taker_fee'' (f64_text lb) fad_taker_fee
     (with_field ''taker_tokens'' (f64_text lb) fad_taker_tokens
     (with_field ''maker_fee'' (f64_text lb) fad_maker_fee
     no_more)))))"

lemma json_form_foundation_address [form_laws]: "wire_lib_ok lb \<Longrightarrow> json_form (foundation_address_form lb)"
  unfolding foundation_address_form_def by (intro struct_laws form_laws) (simp_all add: foundation_address.make_def)

record foundation_reward =
  fdr_week :: u32
  fdr_start_time :: u64
  fdr_period :: u64
  fdr_address_rewards :: "foundation_address list"
  fdr_global_rewards :: "foundation_global list"

definition foundation_reward_form :: "wire_lib \<Rightarrow> foundation_reward form" where
  "foundation_reward_form lb = struct_form foundation_reward.make
     (with_field ''week'' u32_form fdr_week
     (with_field ''start_time'' u64_text fdr_start_time
     (with_field ''period'' u64_text fdr_period
     (with_field ''address_rewards'' (list_form (foundation_address_form lb)) fdr_address_rewards
     (with_field ''global_rewards'' (list_form (foundation_global_form lb)) fdr_global_rewards
     no_more)))))"

lemma json_form_foundation_reward [form_laws]: "wire_lib_ok lb \<Longrightarrow> json_form (foundation_reward_form lb)"
  unfolding foundation_reward_form_def by (intro struct_laws form_laws) (simp_all add: foundation_reward.make_def)

record arb_rewards =
  arr_arb_rewards :: "foundation_reward list"
  arr_update_time :: u64

definition arb_rewards_form :: "wire_lib \<Rightarrow> arb_rewards form" where
  "arb_rewards_form lb = struct_form arb_rewards.make
     (with_field ''arb_rewards'' (list_form (foundation_reward_form lb)) arr_arb_rewards
     (with_field ''update_time'' u64_text arr_update_time
     no_more))"

lemma json_form_arb_rewards [form_laws]: "wire_lib_ok lb \<Longrightarrow> json_form (arb_rewards_form lb)"
  unfolding arb_rewards_form_def by (intro struct_laws form_laws) (simp_all add: arb_rewards.make_def)

record foundation_rewards =
  ftr_foundation_taker_rewards :: "foundation_reward list"
  ftr_update_time :: u64

definition foundation_rewards_form :: "wire_lib \<Rightarrow> foundation_rewards form" where
  "foundation_rewards_form lb = struct_form foundation_rewards.make
     (with_field ''foundation_taker_rewards'' (list_form (foundation_reward_form lb)) ftr_foundation_taker_rewards
     (with_field ''update_time'' u64_text ftr_update_time
     no_more))"

lemma json_form_foundation_rewards [form_laws]: "wire_lib_ok lb \<Longrightarrow> json_form (foundation_rewards_form lb)"
  unfolding foundation_rewards_form_def by (intro struct_laws form_laws) (simp_all add: foundation_rewards.make_def)

record initial_drop =
  idr_amount :: f64
  idr_deadline :: u64
  idr_account_value_reached :: bool
  idr_perp_trades_done :: bool
  idr_tweeted :: bool
  idr_claimed :: bool

definition initial_drop_form :: "wire_lib \<Rightarrow> initial_drop form" where
  "initial_drop_form lb = struct_form initial_drop.make
     (with_field ''amount'' (f64_text lb) idr_amount
     (with_field ''deadline'' u64_text idr_deadline
     (with_field ''account_value_reached'' bool_form idr_account_value_reached
     (with_field ''perp_trades_done'' bool_form idr_perp_trades_done
     (with_field ''tweeted'' bool_form idr_tweeted
     (with_field ''claimed'' bool_form idr_claimed
     no_more))))))"

lemma json_form_initial_drop [form_laws]: "wire_lib_ok lb \<Longrightarrow> json_form (initial_drop_form lb)"
  unfolding initial_drop_form_def by (intro struct_laws form_laws) (simp_all add: initial_drop.make_def)

record active_users =
  aur_addresses :: "bytes list"

definition active_users_form :: "wire_lib \<Rightarrow> active_users form" where
  "active_users_form lb = struct_form active_users.make
     (with_field ''addresses'' (vec_bytes20_form lb) aur_addresses
     no_more)"

lemma json_form_active_users [form_laws]: "wire_lib_ok lb \<Longrightarrow> json_form (active_users_form lb)"
  unfolding active_users_form_def by (intro struct_laws form_laws) (simp_all add: active_users.make_def)

record ratelimit_response =
  rlr_description :: "string option"
  rlr_ip :: "string option"
  rlr_wallet :: "string option"
  rlr_gateway_query :: "(u64 \<times> u64) option"
  rlr_gateway_execute :: "(u64 \<times> u64) option"
  rlr_archive_query :: "(u64 \<times> u64) option"
  rlr_subscriptions :: "u64 option"
  rlr_authenticated_subscriptions :: "u64 option"
  rlr_private_gateway_access :: "bool option"

definition ratelimit_response_form :: "ratelimit_response form" where
  "ratelimit_response_form = struct_form ratelimit_response.make
     (with_option ''description'' text_form rlr_description
     (with_option ''ip'' text_form rlr_ip
     (with_option ''wallet'' text_form rlr_wallet
     (with_option ''gateway_query'' (pair_form u64_form) rlr_gateway_query
     (with_option ''gateway_execute'' (pair_form u64_form) rlr_gateway_execute
     (with_option ''archive_query'' (pair_form u64_form) rlr_archive_query
     (with_option ''subscriptions'' u64_form rlr_subscriptions
     (with_option ''authenticated_subscriptions'' u64_form rlr_authenticated_subscriptions
     (with_option ''private_gateway_access'' bool_form rlr_private_gateway_access
     no_more)))))))))"

lemma json_form_ratelimit_response [form_laws]: "json_form ratelimit_response_form"
  unfolding ratelimit_response_form_def by (intro struct_laws form_laws) (simp_all add: ratelimit_response.make_def)

record maker_statistic =
  mks_timestamp :: u64
  mks_maker_fee :: f64
  mks_uptime :: f64
  mks_sum_q_min :: f64
  mks_q_score :: f64
  mks_maker_share :: f64
  mks_expected_maker_reward :: f64

definition maker_statistic_form :: "wire_lib \<Rightarrow> maker_statistic form" where
  "maker_statistic_form lb = struct_form maker_statistic.make
     (with_field ''timestamp'' u64_text mks_timestamp
     (with_field ''maker_fee'' (f64_text lb) mks_maker_fee
     (with_field ''uptime'' (f64_text lb) mks_uptime
     (with_field ''sum_q_min'' (f64_text lb) mks_sum_q_min
     (with_field ''q_score'' (f64_text lb) mks_q_score
     (with_field ''maker_share'' (f64_text lb) mks_maker_share
     (with_field ''expected_maker_reward'' (f64_text lb) mks_expected_maker_reward
     no_more)))))))"

lemma json_form_maker_statistic [form_laws]: "wire_lib_ok lb \<Longrightarrow> json_form (maker_statistic_form lb)"
  unfolding maker_statistic_form_def by (intro struct_laws form_laws) (simp_all add: maker_statistic.make_def)

record maker_info =
  mki_address :: bytes
  mki_data :: "maker_statistic list"

definition maker_info_form :: "wire_lib \<Rightarrow> maker_info form" where
  "maker_info_form lb = struct_form maker_info.make
     (with_field ''address'' (address_form lb) mki_address
     (with_field ''data'' (list_form (maker_statistic_form lb)) mki_data
     no_more))"

lemma json_form_maker_info [form_laws]: "wire_lib_ok lb \<Longrightarrow> json_form (maker_info_form lb)"
  unfolding maker_info_form_def by (intro struct_laws form_laws) (simp_all add: maker_info.make_def)

record maker_statistics =
  mkr_reward_coefficient :: f64
  mkr_makers :: "maker_info list"

definition maker_statistics_form :: "wire_lib \<Rightarrow> maker_statistics form" where
  "maker_statistics_form lb = struct_form maker_statistics.make
     (with_field ''reward_coefficient'' f64_form mkr_reward_coefficient
     (with_field ''makers'' (list_form (maker_info_form lb)) mkr_makers
     no_more))"

lemma json_form_maker_statistics [form_laws]: "wire_lib_ok lb \<Longrightarrow> json_form (maker_statistics_form lb)"
  unfolding maker_statistics_form_def by (intro struct_laws form_laws) (simp_all add: maker_statistics.make_def)

subsection \<open>Activity, tickers and trades\<close>

record market_activity =
  mac_product_id :: i32
  mac_cumulative_volume_x18 :: i128
  mac_volume_24hr_x18 :: i128
  mac_cumulative_trades :: i64
  mac_trades_24hr :: i64
  mac_cumulative_maker_fees_x18 :: i128
  mac_maker_fees_24hr_x18 :: i128
  mac_cumulative_taker_fees_x18 :: i128
  mac_taker_fees_24hr_x18 :: i128

definition market_activity_form :: "market_activity form" where
  "market_activity_form = struct_form market_activity.make
     (with_field ''product_id'' i32_form mac_product_id
     (with_field ''cumulative_volume_x18'' i128_text mac_cumulative_volume_x18
     (with_field ''volume_24hr_x18'' i128_text mac_volume_24hr_x18
     (with_field ''cumulative_trades'' i64_text mac_cumulative_trades
     (with_field ''trades_24hr'' i64_text mac_trades_24hr
     (with_field ''cumulative_maker_fees_x18'' i128_text mac_cumulative_maker_fees_x18
     (with_field ''maker_fees_24hr_x18'' i128_text mac_maker_fees_24hr_x18
     (with_field ''cumulative_taker_fees_x18'' i128_text mac_cumulative_taker_fees_x18
     (with_field ''taker_fees_24hr_x18'' i128_text mac_taker_fees_24hr_x18
     no_more)))))))))"

lemma json_form_market_activity [form_laws]: "json_form market_activity_form"
  unfolding market_activity_form_def by (intro struct_laws form_laws) (simp_all add: market_activity.make_def)

record market_activities =
  mar_markets :: "market_activity list"

definition market_activities_form :: "market_activities form" where
  "market_activities_form = struct_form market_activities.make
     (with_field ''markets'' (list_form market_activity_form) mar_markets
     no_more)"

lemma json_form_market_activities [form_laws]: "json_form market_activities_form"
  unfolding market_activities_form_def by (intro struct_laws form_laws) (simp_all add: market_activities.make_def)

record ticker_data =
  td_product_id :: u32
  td_ticker_id :: string
  td_base_currency :: string
  td_quote_currency :: string
  td_last_price :: f64
  td_base_volume :: f64
  td_quote_volume :: f64
  td_price_change_percent_24h :: f64

definition ticker_data_form :: "ticker_data form" where
  "ticker_data_form = struct_form ticker_data.make
     (with_field ''product_id'' u32_form td_product_id
     (with_field ''ticker_id'' text_form td_ticker_id
     (with_field ''base_currency'' text_form td_base_currency
     (with_field ''quote_currency'' text_form td_quote_currency
     (with_field ''last_price'' f64_form td_last_price
     (with_field ''base_volume'' f64_form td_base_volume
     (with_field ''quote_volume'' f64_form td_quote_volume
     (with_field ''price_change_percent_24h'' f64_form td_price_change_percent_24h
     no_more))))))))"

lemma json_form_ticker_data [form_laws]: "json_form ticker_data_form"
  unfolding ticker_data_form_def by (intro struct_laws form_laws) (simp_all add: ticker_data.make_def)

record contract_data =
  kd_product_id :: u32
  kd_ticker_id :: string
  kd_base_currency :: string
  kd_quote_currency :: string
  kd_last_price :: f64
  kd_base_volume :: f64
  kd_quote_volume :: f64
  kd_product_type :: string
  kd_contract_price :: f64
  kd_contract_price_currency :: string
  kd_open_interest :: f64
  kd_open_interest_usd :: f64
  kd_index_price :: f64
  kd_mark_price :: f64
  kd_funding_rate :: f64
  kd_next_funding_rate_timestamp :: u64
  kd_price_change_percent_24h :: f64

definition contract_data_form :: "contract_data form" where
  "contract_data_form = struct_form contract_data.make
     (with_field ''product_id'' u32_form kd_product_id
     (with_field ''ticker_id'' text_form kd_ticker_id
     (with_field ''base_currency'' text_form kd_base_currency
     (with_field ''quote_currency'' text_form kd_quote_currency
     (with_field ''last_price'' f64_form kd_last_price
     (with_field ''base_volume'' f64_form kd_base_volume
     (with_field ''quote_volume'' f64_form kd_quote_volume
     (with_field ''product_type'' text_form kd_product_type
     (with_field ''contract_price'' f64_form kd_contract_price
     (with_field ''contract_price_currency'' text_form kd_contract_price_currency
     (with_field ''open_interest'' f64_form kd_open_interest
     (with_field ''open_interest_usd'' f64_form kd_open_interest_usd
     (with_field ''index_price'' f64_form kd_index_price
     (with_field ''mark_price'' f64_form kd_mark_price
     (with_field ''funding_rate'' f64_form kd_funding_rate
     (with_field ''next_funding_rate_timestamp'' u64_form kd_next_funding_rate_timestamp
     (with_field ''price_change_percent_24h'' f64_form kd_price_change_percent_24h
     no_more)))))))))))))))))"

lemma json_form_contract_data [form_laws]: "json_form contract_data_form"
  unfolding contract_data_form_def by (intro struct_laws form_laws) (simp_all add: contract_data.make_def)

record ix_trade =
  itr_product_id :: u32
  itr_ticker_id :: string
  itr_trade_id :: u64
  itr_price :: f64
  itr_base_filled :: f64
  itr_quote_filled :: f64
  itr_timestamp :: u64
  itr_trade_type :: string

definition ix_trade_form :: "ix_trade form" where
  "ix_trade_form = struct_form ix_trade.make
     (with_field ''product_id'' u32_form itr_product_id
     (with_field ''ticker_id'' text_form itr_ticker_id
     (with_field ''trade_id'' u64_form itr_trade_id
     (with_field ''price'' f64_form itr_price
     (with_field ''base_filled'' f64_form itr_base_filled
     (with_field ''quote_filled'' f64_form itr_quote_filled
     (with_field ''timestamp'' u64_form itr_timestamp
     (with_field ''trade_type'' text_form itr_trade_type
     no_more))))))))"

lemma json_form_ix_trade [form_laws]: "json_form ix_trade_form"
  unfolding ix_trade_form_def by (intro struct_laws form_laws) (simp_all add: ix_trade.make_def)

record merkle_proof =
  mp_total_amount :: string
  mp_proof :: "string list"

definition merkle_proof_form :: "merkle_proof form" where
  "merkle_proof_form = struct_form merkle_proof.make
     (with_field ''total_amount'' text_form mp_total_amount
     (with_field ''proof'' (list_form text_form) mp_proof
     no_more))"

lemma json_form_merkle_proof [form_laws]: "json_form merkle_proof_form"
  unfolding merkle_proof_form_def by (intro struct_laws form_laws) (simp_all add: merkle_proof.make_def)

subsection \<open>Leaderboards and points\<close>

record leaderboard_position =
  lbp_subaccount :: bytes
  lbp_contest_id :: u32
  lbp_pnl :: f64
  lbp_pnl_rank :: u64
  lbp_roi :: f64
  lbp_roi_rank :: u64
  lbp_account_value :: f64
  lbp_volume :: "f64 option"
  lbp_staked_vrtx :: "f64 option"
  lbp_update_time :: u64

definition leaderboard_position_form :: "wire_lib \<Rightarrow> leaderboard_position form" where
  "leaderboard_position_form lb = struct_form leaderboard_position.make
     (with_field ''subaccount'' (bytes32_form lb) lbp_subaccount
     (with_field ''contest_id'' u32_form lbp_contest_id
     (with_field ''pnl'' (f64_text lb) lbp_pnl
     (with_field ''pnl_rank'' u64_text lbp_pnl_rank
     (with_field ''roi'' (f64_text lb) lbp_roi
     (with_field ''roi_rank'' u64_text lbp_roi_rank
     (with_field ''account_value'' (f64_text lb) lbp_account_value
     (with_field ''volume'' (option_f64_text lb) lbp_volume
     (with_field ''staked_vrtx'' (option_f64_text lb) lbp_staked_vrtx
     (with_field ''update_time'' u64_text lbp_update_time
     no_more))))))))))"

lemma json_form_leaderboard_position [form_laws]: "wire_lib_ok lb \<Longrightarrow> json_form (leaderboard_position_form lb)"
  unfolding leaderboard_position_form_def by (intro struct_laws form_laws) (simp_all add: leaderboard_position.make_def)

record leaderboard_contest =
  lbc_contest_id :: u32
  lbc_start_time :: u64
  lbc_end_time :: u64
  lbc_timeframe :: u64
  lbc_count :: u64
  lbc_threshold :: f64
  lbc_volume_threshold :: f64
  lbc_staking_threshold :: f64
  lbc_last_updated :: u64
  lbc_product_ids :: "u32 list"
  lbc_active :: bool

definition leaderboard_contest_form :: "wire_lib \<Rightarrow> leaderboard_contest form" where
  "leaderboard_contest_form lb = struct_form leaderboard_contest.make
     (with_field ''contest_id'' u32_form lbc_contest_id
     (with_field ''start_time'' u64_text lbc_start_time
     (with_field ''end_time'' u64_text lbc_end_time
     (with_field ''timeframe'' u64_text lbc_timeframe
     (with_field ''count'' u64_text lbc_count
     (with_field ''threshold'' (f64_text lb) lbc_threshold
     (with_field ''volume_threshold'' (f64_text lb) lbc_volume_threshold
     (with_field ''staking_threshold'' (f64_text lb) lbc_staking_threshold
     (with_field ''last_updated'' u64_text lbc_last_updated
     (with_field ''product_ids'' (list_form u32_form) lbc_product_ids
     (with_field ''active'' bool_form lbc_active
     no_more)))))))))))"

lemma json_form_leaderboard_contest [form_laws]: "wire_lib_ok lb \<Longrightarrow> json_form (leaderboard_contest_form lb)"
  unfolding leaderboard_contest_form_def by (intro struct_laws form_laws) (simp_all add: leaderboard_contest.make_def)

record leaderboard_response =
  lbr_positions :: "leaderboard_position list"

definition leaderboard_response_form :: "wire_lib \<Rightarrow> leaderboard_response form" where
  "leaderboard_response_form lb = struct_form leaderboard_response.make
     (with_field ''positions'' (list_form (leaderboard_position_form lb)) lbr_positions
     no_more)"

lemma json_form_leaderboard_response [form_laws]: "wire_lib_ok lb \<Longrightarrow> json_form (leaderboard_response_form lb)"
  unfolding leaderboard_response_form_def by (intro struct_laws form_laws) (simp_all add: leaderboard_response.make_def)

record leaderboard_rank =
  lbk_positions :: "(string, leaderboard_position) hashmap"

definition leaderboard_rank_form :: "wire_lib \<Rightarrow> leaderboard_rank form" where
  "leaderboard_rank_form lb = struct_form leaderboard_rank.make
     (with_field ''positions'' (map_form text_key (leaderboard_position_form lb)) lbk_positions
     no_more)"

lemma json_form_leaderboard_rank [form_laws]: "wire_lib_ok lb \<Longrightarrow> json_form (leaderboard_rank_form lb)"
  unfolding leaderboard_rank_form_def by (intro struct_laws form_laws) (simp_all add: leaderboard_rank.make_def)

record leaderboard_contests =
  lbcs_contests :: "leaderboard_contest list"

definition leaderboard_contests_form :: "wire_lib \<Rightarrow> leaderboard_contests form" where
  "leaderboard_contests_form lb = struct_form leaderboard_contests.make
     (with_field ''contests'' (list_form (leaderboard_contest_form lb)) lbcs_contests
     no_more)"

lemma json_form_leaderboard_contests [form_laws]: "wire_lib_ok lb \<Longrightarrow> json_form (leaderboard_contests_form lb)"
  unfolding leaderboard_contests_form_def by (intro struct_laws form_laws) (simp_all add: leaderboard_contests.make_def)

record leaderboard_registration =
  lbg_subaccount :: bytes
  lbg_contest_id :: u32
  lbg_update_time :: u64

definition leaderboard_registration_form :: "wire_lib \<Rightarrow> leaderboard_registration form" where
  "leaderboard_registration_form lb = struct_form leaderboard_registration.make
     (with_field ''subaccount'' (bytes32_form lb) lbg_subaccount
     (with_field ''contest_id'' u32_form lbg_contest_id
     (with_field ''update_time'' u64_text lbg_update_time
     no_more)))"

lemma json_form_leaderboard_registration [form_laws]: "wire_lib_ok lb \<Longrightarrow> json_form (leaderboard_registration_form lb)"
  unfolding leaderboard_registration_form_def by (intro struct_laws form_laws) (simp_all add: leaderboard_registration.make_def)

lemma never_null_registration [form_laws]: "never_null (leaderboard_registration_form lb)"
  unfolding leaderboard_registration_form_def by (rule never_null_struct)

record registration_response =
  lbgr_registration :: "leaderboard_registration option"

definition registration_response_form :: "wire_lib \<Rightarrow> registration_response form" where
  "registration_response_form lb = struct_form registration_response.make
     (with_option ''registration'' (leaderboard_registration_form lb) lbgr_registration
     no_more)"

lemma json_form_registration_response [form_laws]: "wire_lib_ok lb \<Longrightarrow> json_form (registration_response_form lb)"
  unfolding registration_response_form_def by (intro struct_laws form_laws) (simp_all add: registration_response.make_def)

record backlog_data =
  bl_total_txs :: u64
  bl_total_submissions :: u64
  bl_backlog_size :: u64
  bl_updated_at :: u64
  bl_backlog_eta_in_seconds :: "u64 option"
  bl_txs_per_second :: "f64 option"

definition backlog_data_form :: "wire_lib \<Rightarrow> backlog_data form" where
  "backlog_data_form lb = struct_form backlog_data.make
     (with_field ''total_txs'' u64_text bl_total_txs
     (with_field ''total_submissions'' u64_text bl_total_submissions
     (with_field ''backlog_size'' u64_text bl_backlog_size
     (with_field ''updated_at'' u64_text bl_updated_at
     (with_option ''backlog_eta_in_seconds'' wrapped_u64 bl_backlog_eta_in_seconds
     (with_option ''txs_per_second'' (f64_text lb) bl_txs_per_second
     no_more))))))"

lemma json_form_backlog_data [form_laws]: "wire_lib_ok lb \<Longrightarrow> json_form (backlog_data_form lb)"
  unfolding backlog_data_form_def by (intro struct_laws form_laws) (simp_all add: backlog_data.make_def)

record direct_deposit =
  dda_v1_address :: string

definition direct_deposit_form :: "direct_deposit form" where
  "direct_deposit_form = struct_form direct_deposit.make
     (with_field ''v1_address'' text_form dda_v1_address
     no_more)"

lemma json_form_direct_deposit [form_laws]: "json_form direct_deposit_form"
  unfolding direct_deposit_form_def by (intro struct_laws form_laws) (simp_all add: direct_deposit.make_def)

record ink_airdrop =
  ink_amount :: string

definition ink_airdrop_form :: "ink_airdrop form" where
  "ink_airdrop_form = struct_form ink_airdrop.make
     (with_field ''amount'' text_form ink_amount
     no_more)"

lemma json_form_ink_airdrop [form_laws]: "json_form ink_airdrop_form"
  unfolding ink_airdrop_form_def by (intro struct_laws form_laws) (simp_all add: ink_airdrop.make_def)

record alpha_choice =
  pac_points :: i128
  pac_fee_refund :: i128
  pac_nft_eligibility :: bool

definition alpha_choice_form :: "alpha_choice form" where
  "alpha_choice_form = struct_form alpha_choice.make
     (with_field ''points'' i128_text pac_points
     (with_field ''fee_refund'' i128_text pac_fee_refund
     (with_field ''nft_eligibility'' bool_form pac_nft_eligibility
     no_more)))"

lemma json_form_alpha_choice [form_laws]: "json_form alpha_choice_form"
  unfolding alpha_choice_form_def by (intro struct_laws form_laws) (simp_all add: alpha_choice.make_def)

record points_epoch =
  pe_epoch :: u32
  pe_description :: string
  pe_start_time :: u64
  pe_end_time :: u64
  pe_total_points :: i128
  pe_points :: i128
  pe_rank :: u64
  pe_tier :: u32

definition points_epoch_form :: "points_epoch form" where
  "points_epoch_form = struct_form points_epoch.make
     (with_field ''epoch'' u32_form pe_epoch
     (with_field ''description'' text_form pe_description
     (with_field ''start_time'' u64_text pe_start_time
     (with_field ''end_time'' u64_text pe_end_time
     (with_field ''total_points'' i128_text pe_total_points
     (with_field ''points'' i128_text pe_points
     (with_field ''rank'' u64_form pe_rank
     (with_field ''tier'' u32_form pe_tier
     no_more))))))))"

lemma json_form_points_epoch [form_laws]: "json_form points_epoch_form"
  unfolding points_epoch_form_def by (intro struct_laws form_laws) (simp_all add: points_epoch.make_def)

record points_all_time =
  pat_points :: i128
  pat_rank :: u64
  pat_tier :: u32

definition points_all_time_form :: "points_all_time form" where
  "points_all_time_form = struct_form points_all_time.make
     (with_field ''points'' i128_text pat_points
     (with_field ''rank'' u64_form pat_rank
     (with_field ''tier'' u32_form pat_tier
     no_more)))"

lemma json_form_points_all_time [form_laws]: "json_form points_all_time_form"
  unfolding points_all_time_form_def by (intro struct_laws form_laws) (simp_all add: points_all_time.make_def)

record points_response =
  npr_points_per_epoch :: "points_epoch list"
  npr_all_time_points :: points_all_time

definition points_response_form :: "points_response form" where
  "points_response_form = struct_form points_response.make
     (with_field ''points_per_epoch'' (list_form points_epoch_form) npr_points_per_epoch
     (with_field ''all_time_points'' points_all_time_form npr_all_time_points
     no_more))"

lemma json_form_points_response [form_laws]: "json_form points_response_form"
  unfolding points_response_form_def by (intro struct_laws form_laws) (simp_all add: points_response.make_def)

end
