(* ===== verification/MarketsGateway.thy ===== *)
theory MarketsGateway
  imports GatewayCommon SdkStatistics
begin

text \<open>
  The markets gateway (gateway/markets/src/service.rs, main.rs, config.rs, protocol.rs): three
  pollers refresh the symbols, the tickers and the contracts of the exchange; every refresh
  rebuilds the table of market rows, and when a row changed a message goes out on a broadcast
  channel of bounded capacity to the websocket clients, the first time the whole table, then
  the rows that changed and the keys that went.

  The responses of the exchange are lists of their records in the iteration order of the
  response's hash map. The clock is an argument. The service's critical section (under its
  write lock) and the send after it are separate steps, as the pollers run on several threads.
\<close>

subsection \<open>Rows and messages\<close>

record market_row =
  mr_symbol :: string
  mr_ticker_id :: string
  mr_product_id :: u32
  mr_market_type :: string
  mr_base :: string
  mr_quote :: string
  mr_price :: "f64 option"
  mr_change_24h :: "f64 option"
  mr_volume_24h :: "f64 option"
  mr_ann_funding :: "f64 option"
  mr_funding_rate :: "f64 option"
  mr_mark_price :: "f64 option"
  mr_index_price :: "f64 option"
  mr_open_interest :: "f64 option"
  mr_open_interest_usd :: "f64 option"
  mr_updated_at :: u64
  mr_stale :: bool

datatype market_message =
    MM_Snapshot u64 u64 "market_row list"
  | MM_Delta u64 u64 "market_row list" "string list"
  | MM_Status string string u64
  | MM_Error string
  | MM_Pong u64

record symbol_meta =
  ym_product_id :: u32
  ym_symbol :: string
  ym_market_type :: string
  ym_base :: string
  ym_quote :: string
  ym_updated_at :: u64

record ticker_meta =
  tm_product_id :: u32
  tm_ticker_id :: string
  tm_base :: string
  tm_quote :: string
  tm_last_price :: f64
  tm_base_volume :: f64
  tm_quote_volume :: f64
  tm_change_24h :: f64
  tm_updated_at :: u64

record contract_meta =
  km_product_id :: u32
  km_ticker_id :: string
  km_base :: string
  km_quote :: string
  km_market_type :: string
  km_funding_rate :: f64
  km_mark_price :: f64
  km_index_price :: f64
  km_open_interest :: f64
  km_open_interest_usd :: f64
  km_updated_at :: u64

record markets_state =
  ms_seq :: u64
  ms_source_ts :: u64
  ms_symbols :: "(u32, symbol_meta) hashmap"
  ms_tickers :: "(u32, ticker_meta) hashmap"
  ms_contracts :: "(u32, contract_meta) hashmap"
  ms_markets :: "(string, market_row) btree"

definition empty_markets :: markets_state where
  "empty_markets =
     \<lparr>ms_seq = 0, ms_source_ts = 0, ms_symbols = [], ms_tickers = [], ms_contracts = [],
      ms_markets = []\<rparr>"

text \<open>The fields the gateway reads of the exchange's symbols.\<close>

record symbol_data =
  yd_product_type :: string
  yd_product_id :: u32
  yd_symbol :: string

record markets_config =
  mc_bind_addr :: string
  mc_client_mode :: client_mode
  mc_edge :: "bool option"
  mc_symbols_refresh_ms :: u64
  mc_tickers_poll_ms :: u64
  mc_contracts_poll_ms :: u64
  mc_stale_after_ms :: u64
  mc_funding_interval_hours :: f64

subsection \<open>Names and numbers\<close>

definition normalize_market_type :: "string \<Rightarrow> string" where
  "normalize_market_type v =
     (let normalized = to_lowercase (trim v) in
      if normalized = [] then ''unknown'' else normalized)"

definition split_base_quote :: "string \<Rightarrow> string \<times> string" where
  "split_base_quote symbol =
     (let normalized = normalize_symbol symbol in
      if normalized = [] then ([], [])
      else case split_once (CHR ''/'') normalized of
        Some (base, quote) \<Rightarrow> (base, quote)
      | None \<Rightarrow>
          (case split_once (CHR ''_'') normalized of
             Some (left, right) \<Rightarrow>
               (case split_once (CHR ''-'') left of
                  Some (base, _) \<Rightarrow> (base, right)
                | None \<Rightarrow> (left, right))
           | None \<Rightarrow>
               (let parts = filter (\<lambda>part. part \<noteq> []) (split_on (CHR ''-'') normalized) in
                if length parts \<ge> 2 then (hd parts, last parts) else (normalized, []))))"

definition sanitize_pair_fields :: "string \<Rightarrow> string \<Rightarrow> string \<Rightarrow> string \<times> string" where
  "sanitize_pair_fields base quote symbol_fallback =
     (let clean_base = normalize_symbol base; clean_quote = normalize_symbol quote in
      if clean_base \<noteq> [] \<and> clean_quote \<noteq> [] then (clean_base, clean_quote)
      else split_base_quote symbol_fallback)"

definition finite_option :: "f64 \<Rightarrow> f64 option" where
  "finite_option v = (if f_is_finite v then Some v else None)"

definition positive :: "f64 option \<Rightarrow> bool" where
  "positive v = (case v of Some x \<Rightarrow> f_lt (f_of_int 0) x | None \<Rightarrow> False)"

definition preferred_volume :: "f64 \<Rightarrow> f64 \<Rightarrow> f64 option" where
  "preferred_volume base_volume quote_volume =
     (let base = finite_option base_volume; quote = finite_option quote_volume in
      if positive quote then quote
      else if positive base then base
      else (case (base, quote) of
              (Some b, None) \<Rightarrow> Some b
            | (None, Some q) \<Rightarrow> Some q
            | _ \<Rightarrow> None))"

definition annualize_funding_rate :: "f64 \<Rightarrow> f64 \<Rightarrow> f64" where
  "annualize_funding_rate rate funding_interval_hours =
     (let normalized = (if f_lt (f_of_int 1) (f_abs rate) then f_div rate (f_of_int 100) else rate);
          periods_per_day = f_max (f_div (f_of_int 24) funding_interval_hours) (f_of_int 1) in
      f_mul (f_mul (f_mul normalized periods_per_day) (f_of_int 365)) (f_of_int 100))"

subsection \<open>Building the table\<close>

definition symbol_row :: "symbol_meta \<Rightarrow> market_row" where
  "symbol_row s =
     \<lparr>mr_symbol = ym_symbol s, mr_ticker_id = ym_symbol s, mr_product_id = ym_product_id s,
      mr_market_type = ym_market_type s, mr_base = ym_base s, mr_quote = ym_quote s,
      mr_price = None, mr_change_24h = None, mr_volume_24h = None, mr_ann_funding = None,
      mr_funding_rate = None, mr_mark_price = None, mr_index_price = None,
      mr_open_interest = None, mr_open_interest_usd = None,
      mr_updated_at = ym_updated_at s, mr_stale = False\<rparr>"

definition ticker_row :: "string \<Rightarrow> ticker_meta \<Rightarrow> market_row" where
  "ticker_row key t =
     \<lparr>mr_symbol = key, mr_ticker_id = tm_ticker_id t, mr_product_id = tm_product_id t,
      mr_market_type = ''unknown'', mr_base = tm_base t, mr_quote = tm_quote t,
      mr_price = None, mr_change_24h = None, mr_volume_24h = None, mr_ann_funding = None,
      mr_funding_rate = None, mr_mark_price = None, mr_index_price = None,
      mr_open_interest = None, mr_open_interest_usd = None,
      mr_updated_at = tm_updated_at t, mr_stale = False\<rparr>"

definition contract_row :: "string \<Rightarrow> contract_meta \<Rightarrow> market_row" where
  "contract_row key k =
     \<lparr>mr_symbol = key, mr_ticker_id = km_ticker_id k, mr_product_id = km_product_id k,
      mr_market_type = km_market_type k, mr_base = km_base k, mr_quote = km_quote k,
      mr_price = None, mr_change_24h = None, mr_volume_24h = None, mr_ann_funding = None,
      mr_funding_rate = None, mr_mark_price = None, mr_index_price = None,
      mr_open_interest = None, mr_open_interest_usd = None,
      mr_updated_at = km_updated_at k, mr_stale = False\<rparr>"

definition fill_ticker :: "ticker_meta \<Rightarrow> market_row \<Rightarrow> market_row" where
  "fill_ticker t row =
     row\<lparr>mr_product_id := tm_product_id t, mr_ticker_id := tm_ticker_id t,
         mr_base := (if mr_base row = [] then tm_base t else mr_base row),
         mr_quote := (if mr_quote row = [] then tm_quote t else mr_quote row),
         mr_price := finite_option (tm_last_price t),
         mr_change_24h := finite_option (tm_change_24h t),
         mr_volume_24h := preferred_volume (tm_base_volume t) (tm_quote_volume t),
         mr_updated_at := max (mr_updated_at row) (tm_updated_at t)\<rparr>"

definition fill_contract :: "f64 \<Rightarrow> contract_meta \<Rightarrow> market_row \<Rightarrow> market_row" where
  "fill_contract hours k row =
     row\<lparr>mr_product_id := km_product_id k, mr_ticker_id := km_ticker_id k,
         mr_market_type :=
           (if mr_market_type row = ''unknown'' \<or> mr_market_type row = [] then km_market_type k
            else mr_market_type row),
         mr_base := (if mr_base row = [] then km_base k else mr_base row),
         mr_quote := (if mr_quote row = [] then km_quote k else mr_quote row),
         mr_funding_rate := finite_option (km_funding_rate k),
         mr_ann_funding :=
           map_option (\<lambda>rate. annualize_funding_rate rate hours) (finite_option (km_funding_rate k)),
         mr_mark_price := finite_option (km_mark_price k),
         mr_index_price := finite_option (km_index_price k),
         mr_open_interest := finite_option (km_open_interest k),
         mr_open_interest_usd := finite_option (km_open_interest_usd k),
         mr_updated_at := max (mr_updated_at row) (km_updated_at k)\<rparr>"

definition symbol_key :: "markets_state \<Rightarrow> u32 \<Rightarrow> string \<Rightarrow> string" where
  "symbol_key s product fallback =
     (case hm_get (ms_symbols s) product of Some meta \<Rightarrow> ym_symbol meta | None \<Rightarrow> fallback)"

definition add_symbol :: "(string, market_row) btree \<Rightarrow> symbol_meta \<Rightarrow> (string, market_row) btree" where
  "add_symbol out y = bt_insert (ym_symbol y) (symbol_row y) out"

text \<open>The entry API: the row under the key, or the default, edited in place.\<close>

definition add_ticker ::
  "markets_state \<Rightarrow> (string, market_row) btree \<Rightarrow> ticker_meta \<Rightarrow> (string, market_row) btree" where
  "add_ticker s out t =
     (let key = symbol_key s (tm_product_id t) (tm_ticker_id t);
          row = unwrap_or (ticker_row key t) (bt_get out key) in
      bt_insert key (fill_ticker t row) out)"

definition add_contract ::
  "markets_state \<Rightarrow> f64 \<Rightarrow> (string, market_row) btree \<Rightarrow> contract_meta \<Rightarrow> (string, market_row) btree" where
  "add_contract s hours out k =
     (let key = symbol_key s (km_product_id k) (km_ticker_id k);
          row = unwrap_or (contract_row key k) (bt_get out key) in
      bt_insert key (fill_contract hours k row) out)"

definition finish_row :: "u64 \<Rightarrow> u64 \<Rightarrow> market_row \<Rightarrow> market_row" where
  "finish_row now stale_after row =
     (let updated_at = (if mr_updated_at row = 0 then now else mr_updated_at row);
          age = (if updated_at \<le> now then now - updated_at else 0) in
      row\<lparr>mr_ticker_id := (if mr_ticker_id row = [] then mr_symbol row else mr_ticker_id row),
          mr_updated_at := updated_at, mr_stale := age > stale_after\<rparr>)"

definition build_market_rows ::
  "markets_state \<Rightarrow> u64 \<Rightarrow> u64 \<Rightarrow> f64 \<Rightarrow> (string, market_row) btree" where
  "build_market_rows s now stale_after hours =
     (let out = foldl add_symbol [] (map snd (ms_symbols s));
          out = foldl (add_ticker s) out (map snd (ms_tickers s));
          out = foldl (add_contract s hours) out (map snd (ms_contracts s)) in
      map (\<lambda>(key, row). (key, finish_row now stale_after row)) out)"

subsection \<open>The difference of two tables\<close>

text \<open>The derived equality of rows: field by field, on f64 the operator of f64.\<close>

definition opt_eq :: "f64 option \<Rightarrow> f64 option \<Rightarrow> bool" where
  "opt_eq a b =
     (case (a, b) of (None, None) \<Rightarrow> True | (Some x, Some y) \<Rightarrow> f_eq x y | _ \<Rightarrow> False)"

definition row_eq :: "market_row \<Rightarrow> market_row \<Rightarrow> bool" where
  "row_eq r s \<longleftrightarrow>
     mr_symbol r = mr_symbol s \<and> mr_ticker_id r = mr_ticker_id s \<and>
     mr_product_id r = mr_product_id s \<and> mr_market_type r = mr_market_type s \<and>
     mr_base r = mr_base s \<and> mr_quote r = mr_quote s \<and>
     opt_eq (mr_price r) (mr_price s) \<and> opt_eq (mr_change_24h r) (mr_change_24h s) \<and>
     opt_eq (mr_volume_24h r) (mr_volume_24h s) \<and>
     opt_eq (mr_ann_funding r) (mr_ann_funding s) \<and>
     opt_eq (mr_funding_rate r) (mr_funding_rate s) \<and>
     opt_eq (mr_mark_price r) (mr_mark_price s) \<and>
     opt_eq (mr_index_price r) (mr_index_price s) \<and>
     opt_eq (mr_open_interest r) (mr_open_interest s) \<and>
     opt_eq (mr_open_interest_usd r) (mr_open_interest_usd s) \<and>
     mr_updated_at r = mr_updated_at s \<and> mr_stale r = mr_stale s"

definition row_changed :: "(string, market_row) btree \<Rightarrow> string \<times> market_row \<Rightarrow> bool" where
  "row_changed old entry =
     (case entry of (symbol, next_row) \<Rightarrow>
        (case bt_get old symbol of
           Some prev_row \<Rightarrow> \<not> row_eq prev_row next_row
         | None \<Rightarrow> True))"

definition diff_market_rows ::
  "(string, market_row) btree \<Rightarrow> (string, market_row) btree \<Rightarrow> market_row list \<times> string list" where
  "diff_market_rows old new =
     (map snd (filter (row_changed old) new),
      filter (\<lambda>symbol. bt_get new symbol = None) (map fst old))"

subsection \<open>Refreshes\<close>

definition rebuild :: "markets_config \<Rightarrow> u64 \<Rightarrow> markets_state \<Rightarrow> market_message option \<times> markets_state" where
  "rebuild cfg now s =
     (let next_markets = build_market_rows s now (mc_stale_after_ms cfg) (mc_funding_interval_hours cfg);
          (updated, removed) = diff_market_rows (ms_markets s) next_markets in
      if updated = [] \<and> removed = [] then (None, s)
      else
        (let seq = (if ms_seq s = - 1 then - 1 else ms_seq s + 1);
             s' = s\<lparr>ms_seq := seq, ms_source_ts := now, ms_markets := next_markets\<rparr> in
         if seq = 1 then (Some (MM_Snapshot seq now (map snd next_markets)), s')
         else (Some (MM_Delta seq now updated removed), s')))"

definition symbol_metas :: "u64 \<Rightarrow> symbol_data list \<Rightarrow> (u32, symbol_meta) hashmap" where
  "symbol_metas now data =
     foldl (\<lambda>next d.
       let symbol = normalize_symbol (yd_symbol d) in
       if symbol = [] then next
       else
         (let (base, quote) = split_base_quote symbol in
          hm_insert (yd_product_id d)
            \<lparr>ym_product_id = yd_product_id d, ym_symbol = symbol,
             ym_market_type = normalize_market_type (yd_product_type d),
             ym_base = base, ym_quote = quote, ym_updated_at = now\<rparr> next)) [] data"

definition ticker_metas :: "u64 \<Rightarrow> ticker_data list \<Rightarrow> (u32, ticker_meta) hashmap" where
  "ticker_metas now data =
     foldl (\<lambda>next d.
       let ticker_id = normalize_symbol (td_ticker_id d) in
       if ticker_id = [] then next
       else
         (let (base, quote) =
                sanitize_pair_fields (td_base_currency d) (td_quote_currency d) ticker_id in
          hm_insert (td_product_id d)
            \<lparr>tm_product_id = td_product_id d, tm_ticker_id = ticker_id, tm_base = base,
             tm_quote = quote, tm_last_price = td_last_price d,
             tm_base_volume = td_base_volume d, tm_quote_volume = td_quote_volume d,
             tm_change_24h = td_price_change_percent_24h d, tm_updated_at = now\<rparr> next)) [] data"

definition contract_metas :: "u64 \<Rightarrow> contract_data list \<Rightarrow> (u32, contract_meta) hashmap" where
  "contract_metas now data =
     foldl (\<lambda>next d.
       let ticker_id = normalize_symbol (kd_ticker_id d) in
       if ticker_id = [] then next
       else
         (let (base, quote) =
                sanitize_pair_fields (kd_base_currency d) (kd_quote_currency d) ticker_id in
          hm_insert (kd_product_id d)
            \<lparr>km_product_id = kd_product_id d, km_ticker_id = ticker_id, km_base = base,
             km_quote = quote, km_market_type = normalize_market_type (kd_product_type d),
             km_funding_rate = kd_funding_rate d, km_mark_price = kd_mark_price d,
             km_index_price = kd_index_price d, km_open_interest = kd_open_interest d,
             km_open_interest_usd = kd_open_interest_usd d, km_updated_at = now\<rparr> next)) [] data"

text \<open>
  What a poller gets from the exchange: an answer, or the client's error. The clock is read
  once for the new metadata and once when the table is rebuilt. The outcome is the error or
  the message the poller has to send, if any, and the new state.
\<close>

datatype poll =
    Poll_Symbols "string + symbol_data list"
  | Poll_Tickers "string + ticker_data list"
  | Poll_Contracts "string + contract_data list"

definition install_symbols :: "u64 \<Rightarrow> string + symbol_data list \<Rightarrow> markets_state \<Rightarrow> string + markets_state" where
  "install_symbols now answer s =
     res_bind (map_err (\<lambda>err. ''failed to query symbols from Nado: '' @ err) answer) (\<lambda>data.
       let next = symbol_metas now data in
       if next = [] then Err ''no symbols returned from Nado''
       else Ok (s\<lparr>ms_symbols := next\<rparr>))"

definition install_tickers :: "u64 \<Rightarrow> string + ticker_data list \<Rightarrow> markets_state \<Rightarrow> string + markets_state" where
  "install_tickers now answer s =
     res_bind (map_err (\<lambda>err. ''failed to query tickers from Nado: '' @ err) answer) (\<lambda>data.
       if data = [] then Err ''empty tickers payload''
       else
         (let next = ticker_metas now data in
          if next = [] then Err ''tickers payload had no valid rows''
          else Ok (s\<lparr>ms_tickers := next\<rparr>)))"

definition install_contracts ::
  "u64 \<Rightarrow> string + contract_data list \<Rightarrow> markets_state \<Rightarrow> string + markets_state" where
  "install_contracts now answer s =
     res_bind (map_err (\<lambda>err. ''failed to query contracts from Nado: '' @ err) answer) (\<lambda>data.
       Ok (s\<lparr>ms_contracts := contract_metas now data\<rparr>))"

definition install :: "u64 \<Rightarrow> poll \<Rightarrow> markets_state \<Rightarrow> string + markets_state" where
  "install now p s =
     (case p of
        Poll_Symbols a \<Rightarrow> install_symbols now a s
      | Poll_Tickers a \<Rightarrow> install_tickers now a s
      | Poll_Contracts a \<Rightarrow> install_contracts now a s)"

definition poll_name :: "poll \<Rightarrow> string" where
  "poll_name p =
     (case p of Poll_Symbols _ \<Rightarrow> ''symbols'' | Poll_Tickers _ \<Rightarrow> ''tickers''
      | Poll_Contracts _ \<Rightarrow> ''contracts'')"

text \<open>
  One turn of a poller's loop up to the point where it sends: a refresh that fails leaves the
  state as it was and is told to the clients as a status.
\<close>

definition poll_turn ::
  "markets_config \<Rightarrow> u64 \<Rightarrow> u64 \<Rightarrow> u64 \<Rightarrow> poll \<Rightarrow> markets_state \<Rightarrow> market_message option \<times> markets_state" where
  "poll_turn cfg now later clock p s =
     (case install now p s of
        Ok s' \<Rightarrow> rebuild cfg later s'
      | Err err \<Rightarrow>
          (Some (MM_Status ''degraded'' (poll_name p @ '' refresh failed: '' @ err) clock), s))"

definition bootstrap_poll ::
  "markets_config \<Rightarrow> u64 \<Rightarrow> poll \<Rightarrow> markets_state \<Rightarrow> market_message list \<times> markets_state" where
  "bootstrap_poll cfg now p s =
     (case install now p s of
        Ok s' \<Rightarrow> (let (m, s'') = rebuild cfg now s' in ((case m of None \<Rightarrow> [] | Some m \<Rightarrow> [m]), s''))
      | Err err \<Rightarrow>
          ([MM_Status ''degraded'' (poll_name p @ '' bootstrap failed: '' @ err) now], s))"

text \<open>Only a failure to load the symbols stops the gateway from starting.\<close>

definition markets_bootstrap ::
  "markets_config \<Rightarrow> u64 \<Rightarrow> string + symbol_data list \<Rightarrow> string + ticker_data list \<Rightarrow>
     string + contract_data list \<Rightarrow> string + market_message list \<times> markets_state" where
  "markets_bootstrap cfg now symbols tickers contracts =
     res_bind (install_symbols now symbols empty_markets) (\<lambda>s0.
       let (m, s1) = rebuild cfg now s0;
           (ms2, s2) = bootstrap_poll cfg now (Poll_Tickers tickers) s1;
           (ms3, s3) = bootstrap_poll cfg now (Poll_Contracts contracts) s2 in
       Ok ((case m of None \<Rightarrow> [] | Some m \<Rightarrow> [m]) @ ms2 @ ms3, s3))"

subsection \<open>The table is a function of the lookups\<close>

text \<open>
  What the row under a key has to be, given the symbol, the ticker and the contract of that key,
  where there are such.
\<close>

fun first_some :: "'a option list \<Rightarrow> 'a option" where
  "first_some [] = None"
| "first_some (x # xs) = opt_or x (first_some xs)"

definition row_spec ::
  "f64 \<Rightarrow> string \<Rightarrow> symbol_meta option \<Rightarrow> ticker_meta option \<Rightarrow> contract_meta option \<Rightarrow> market_row option" where
  "row_spec hours key y t k =
     (if y = None \<and> t = None \<and> k = None then None
      else
        (let type = unwrap_or ''unknown'' (first_some
               [filter_opt (\<lambda>m. m \<noteq> ''unknown'' \<and> m \<noteq> []) (map_option ym_market_type y),
                map_option km_market_type k, map_option ym_market_type y]);
             side = (\<lambda>names. unwrap_or [] (first_some (map (filter_opt (\<lambda>n. n \<noteq> [])) names)));
             number = (\<lambda>f. Option.bind k (\<lambda>k. finite_option (f k))) in
         Some
          \<lparr>mr_symbol = key,
           mr_ticker_id = unwrap_or key (first_some [map_option km_ticker_id k, map_option tm_ticker_id t]),
           mr_product_id = the (first_some
             [map_option km_product_id k, map_option tm_product_id t, map_option ym_product_id y]),
           mr_market_type = type,
           mr_base = side [map_option ym_base y, map_option tm_base t, map_option km_base k],
           mr_quote = side [map_option ym_quote y, map_option tm_quote t, map_option km_quote k],
           mr_price = Option.bind t (\<lambda>t. finite_option (tm_last_price t)),
           mr_change_24h = Option.bind t (\<lambda>t. finite_option (tm_change_24h t)),
           mr_volume_24h = Option.bind t (\<lambda>t. preferred_volume (tm_base_volume t) (tm_quote_volume t)),
           mr_ann_funding = map_option (\<lambda>rate. annualize_funding_rate rate hours) (number km_funding_rate),
           mr_funding_rate = number km_funding_rate,
           mr_mark_price = number km_mark_price,
           mr_index_price = number km_index_price,
           mr_open_interest = number km_open_interest,
           mr_open_interest_usd = number km_open_interest_usd,
           mr_updated_at = max (case y of None \<Rightarrow> 0 | Some y \<Rightarrow> ym_updated_at y)
             (max (case t of None \<Rightarrow> 0 | Some t \<Rightarrow> tm_updated_at t)
                  (case k of None \<Rightarrow> 0 | Some k \<Rightarrow> km_updated_at k)),
           mr_stale = False\<rparr>))"

text \<open>The metadata that belongs to a key.\<close>

definition symbol_at :: "markets_state \<Rightarrow> string \<Rightarrow> symbol_meta option" where
  "symbol_at s key = map_of (map (\<lambda>y. (ym_symbol y, y)) (map snd (ms_symbols s))) key"

definition ticker_key :: "markets_state \<Rightarrow> ticker_meta \<Rightarrow> string" where
  "ticker_key s t = symbol_key s (tm_product_id t) (tm_ticker_id t)"

definition contract_key :: "markets_state \<Rightarrow> contract_meta \<Rightarrow> string" where
  "contract_key s k = symbol_key s (km_product_id k) (km_ticker_id k)"

definition ticker_at :: "markets_state \<Rightarrow> string \<Rightarrow> ticker_meta option" where
  "ticker_at s key = map_of (map (\<lambda>t. (ticker_key s t, t)) (map snd (ms_tickers s))) key"

definition contract_at :: "markets_state \<Rightarrow> string \<Rightarrow> contract_meta option" where
  "contract_at s key = map_of (map (\<lambda>k. (contract_key s k, k)) (map snd (ms_contracts s))) key"

text \<open>No two symbols, tickers or contracts fall on one key.\<close>

definition one_per_key :: "markets_state \<Rightarrow> bool" where
  "one_per_key s \<longleftrightarrow>
     distinct (map ym_symbol (map snd (ms_symbols s))) \<and>
     distinct (map (ticker_key s) (map snd (ms_tickers s))) \<and>
     distinct (map (contract_key s) (map snd (ms_contracts s)))"

text \<open>
  A fold that edits one key per element leaves, under a key, what the elements of that key
  make of it; with distinct keys, the one element.
\<close>

lemma fold_keyed:
  assumes step: "\<And>m x. bt_get (add m x) = (bt_get m)(key x := Some (edit x (bt_get m (key x))))"
    and one: "distinct (map key xs)"
  shows "bt_get (foldl add m xs) q =
    (case map_of (map (\<lambda>x. (key x, x)) xs) q of
       None \<Rightarrow> bt_get m q
     | Some x \<Rightarrow> Some (edit x (bt_get m q)))"
  using one
proof (induction xs arbitrary: m)
  case (Cons x xs)
  have no: "map_of (map (\<lambda>x. (key x, x)) xs) (key x) = None"
    using Cons.prems by (auto simp: map_of_eq_None_iff)
  show ?case using Cons no by (auto simp: step split: option.split)
qed simp

lemma fold_wf:
  assumes "\<And>m x. bt_wf m \<Longrightarrow> bt_wf (add m x)" "bt_wf m"
  shows "bt_wf (foldl add m xs)"
  using assms(2) by (induction xs arbitrary: m) (auto intro: assms(1))

lemma add_symbol_get:
  "bt_get (add_symbol m y) = (bt_get m)(ym_symbol y := Some (symbol_row y))"
  by (simp add: add_symbol_def bt_get_insert)

lemma add_ticker_get:
  "bt_get (add_ticker s m t) = (bt_get m)(ticker_key s t :=
     Some (fill_ticker t (unwrap_or (ticker_row (ticker_key s t) t) (bt_get m (ticker_key s t)))))"
  by (simp add: add_ticker_def bt_get_insert ticker_key_def Let_def)

lemma add_contract_get:
  "bt_get (add_contract s hours m k) = (bt_get m)(contract_key s k :=
     Some (fill_contract hours k (unwrap_or (contract_row (contract_key s k) k) (bt_get m (contract_key s k)))))"
  by (simp add: add_contract_def bt_get_insert contract_key_def Let_def)

lemma keyed_Some:
  "map_of (map (\<lambda>x. (key x, x)) xs) q = Some x \<Longrightarrow> key x = q \<and> x \<in> set xs"
  by (induction xs) (auto split: if_splits)

lemma bt_get_map: "bt_get (map (\<lambda>(k, v). (k, f v)) m) q = map_option f (bt_get m q)"
  by (simp add: bt_get_def map_of_map)

lemma bt_wf_map: "bt_wf (map (\<lambda>(k, v). (k, f v)) m) = bt_wf m"
  by (simp add: bt_wf_def o_def split_def)

lemma bt_wf_build: "bt_wf (build_market_rows s now stale_after hours)"
  unfolding build_market_rows_def Let_def bt_wf_map
  by (intro fold_wf bt_wf_Nil)
    (simp_all add: add_symbol_def add_ticker_def add_contract_def Let_def bt_wf_insert)

text \<open>Rows stand under their own symbol.\<close>

definition table_ok :: "(string, market_row) btree \<Rightarrow> bool" where
  "table_ok m \<longleftrightarrow> bt_wf m \<and> (\<forall>k r. bt_get m k = Some r \<longrightarrow> mr_symbol r = k)"

lemma table_ok_Nil [simp]: "table_ok []"
  by (simp add: table_ok_def)

lemma table_ok_rows: "table_ok m \<Longrightarrow> (k, r) \<in> set m \<Longrightarrow> mr_symbol r = k"
  unfolding table_ok_def using bt.in_entries_iff [of m k r] by blast

lemma table_ok_insert: "table_ok m \<Longrightarrow> mr_symbol r = k \<Longrightarrow> table_ok (bt_insert k r m)"
  by (auto simp: table_ok_def bt_wf_insert bt_get_insert)

lemma table_ok_fold:
  assumes "\<And>m x. table_ok m \<Longrightarrow> table_ok (add m x)" "table_ok m"
  shows "table_ok (foldl add m xs)"
  using assms(2) by (induction xs arbitrary: m) (auto intro: assms(1))

lemma row_symbols [simp]:
  "mr_symbol (symbol_row y) = ym_symbol y"
  "mr_symbol (ticker_row key t) = key"
  "mr_symbol (contract_row key k) = key"
  "mr_symbol (fill_ticker t r) = mr_symbol r"
  "mr_symbol (fill_contract hours k r) = mr_symbol r"
  "mr_symbol (finish_row now stale_after r) = mr_symbol r"
  by (simp_all add: symbol_row_def ticker_row_def contract_row_def fill_ticker_def
      fill_contract_def finish_row_def Let_def)

lemma entry_symbol: "table_ok m \<Longrightarrow> mr_symbol d = k \<Longrightarrow> mr_symbol (unwrap_or d (bt_get m k)) = k"
  by (cases "bt_get m k") (auto simp: table_ok_def)

lemma table_ok_steps:
  "table_ok m \<Longrightarrow> table_ok (add_symbol m y)"
  "table_ok m \<Longrightarrow> table_ok (add_ticker s m t)"
  "table_ok m \<Longrightarrow> table_ok (add_contract s hours m k)"
  by (simp_all add: add_symbol_def add_ticker_def add_contract_def Let_def table_ok_insert entry_symbol)

lemma table_ok_build: "table_ok (build_market_rows s now stale_after hours)"
proof -
  let ?m = "foldl (add_contract s hours) (foldl (add_ticker s)
      (foldl add_symbol [] (map snd (ms_symbols s))) (map snd (ms_tickers s))) (map snd (ms_contracts s))"
  have "table_ok ?m" by (intro table_ok_fold table_ok_steps table_ok_Nil)
  then have wf: "bt_wf ?m" and sym: "\<And>k r. bt_get ?m k = Some r \<Longrightarrow> mr_symbol r = k"
    by (simp_all add: table_ok_def)
  show ?thesis
    unfolding build_market_rows_def table_ok_def bt_wf_map bt_get_map Let_def
    using wf sym by auto
qed

text \<open>The three passes, seen from one key.\<close>

lemma passes_at_key:
  assumes "one_per_key s"
  shows "bt_get (build_market_rows s now stale_after hours) key =
    map_option (finish_row now stale_after)
      (let r = map_option symbol_row (symbol_at s key);
           r = (case ticker_at s key of None \<Rightarrow> r
                | Some t \<Rightarrow> Some (fill_ticker t (unwrap_or (ticker_row (ticker_key s t) t) r))) in
       case contract_at s key of None \<Rightarrow> r
       | Some k \<Rightarrow> Some (fill_contract hours k (unwrap_or (contract_row (contract_key s k) k) r)))"
proof -
  have d: "distinct (map ym_symbol (map snd (ms_symbols s)))"
    "distinct (map (ticker_key s) (map snd (ms_tickers s)))"
    "distinct (map (contract_key s) (map snd (ms_contracts s)))"
    using assms by (simp_all only: one_per_key_def)
  show ?thesis
    unfolding build_market_rows_def Let_def bt_get_map
      fold_keyed [of add_symbol ym_symbol "\<lambda>y _. symbol_row y", OF add_symbol_get d(1)]
      fold_keyed [of "add_ticker s" "ticker_key s", OF add_ticker_get d(2)]
      fold_keyed [of "add_contract s hours" "contract_key s", OF add_contract_get d(3)]
      symbol_at_def ticker_at_def contract_at_def
    by (simp split: option.split)
qed

lemma word_max_0 [simp]: "max 0 (x :: 'a :: len word) = x" "max x (0 :: 'a :: len word) = x"
  by (simp_all add: max_absorb1 max_absorb2)

lemma row_spec_passes:
  assumes "\<And>y'. y = Some y' \<Longrightarrow> ym_symbol y' = key"
  shows "(let r = map_option symbol_row y;
           r = (case t of None \<Rightarrow> r
                | Some t \<Rightarrow> Some (fill_ticker t (unwrap_or (ticker_row key t) r))) in
       case k of None \<Rightarrow> r
       | Some k \<Rightarrow> Some (fill_contract hours k (unwrap_or (contract_row key k) r))) = row_spec hours key y t k"
proof (cases y)
  case None
  then show ?thesis
    by (cases t; cases k)
      (simp_all add: row_spec_def fill_ticker_def fill_contract_def ticker_row_def contract_row_def Let_def)
next
  case (Some y')
  with assms have "ym_symbol y' = key" by simp
  with Some show ?thesis
    by (cases t; cases k)
      (simp_all add: row_spec_def fill_ticker_def fill_contract_def symbol_row_def Let_def max.assoc)
qed

lemma keyed_at:
  "symbol_at s key = Some y \<Longrightarrow> ym_symbol y = key"
  "ticker_at s key = Some t \<Longrightarrow> ticker_key s t = key"
  "contract_at s key = Some k \<Longrightarrow> contract_key s k = key"
  unfolding symbol_at_def ticker_at_def contract_at_def by (drule keyed_Some, simp)+

lemma build_get:
  assumes "one_per_key s"
  shows "bt_get (build_market_rows s now stale_after hours) key =
    map_option (finish_row now stale_after)
      (row_spec hours key (symbol_at s key) (ticker_at s key) (contract_at s key))"
  unfolding passes_at_key [OF assms]
  by (subst row_spec_passes [symmetric, OF keyed_at(1)], assumption)
    (auto simp: Let_def keyed_at(2,3) split: option.split)

text \<open>The iteration order of the three hash maps does not show.\<close>

definition same_metadata :: "markets_state \<Rightarrow> markets_state \<Rightarrow> bool" where
  "same_metadata s s' \<longleftrightarrow>
     mset (ms_symbols s) = mset (ms_symbols s') \<and>
     mset (ms_tickers s) = mset (ms_tickers s') \<and>
     mset (ms_contracts s) = mset (ms_contracts s') \<and>
     hm_wf (ms_symbols s) \<and> hm_wf (ms_tickers s) \<and> hm_wf (ms_contracts s)"

lemma keyed_mset:
  assumes "mset xs = mset ys" "distinct (map key xs)"
  shows "distinct (map key ys)" "map_of (map (\<lambda>x. (key x, x)) xs) = map_of (map (\<lambda>x. (key x, x)) ys)"
proof -
  have "mset (map key xs) = mset (map key ys)" using assms(1) by simp
  then show d: "distinct (map key ys)" using assms(2) mset_eq_imp_distinct_iff by blast
  have "set xs = set ys" using assms(1) by (rule mset_eq_setD)
  then show "map_of (map (\<lambda>x. (key x, x)) xs) = map_of (map (\<lambda>x. (key x, x)) ys)"
    using assms(2) d by (subst map_of_inject_set) (auto simp: o_def)
qed

lemma hm_get_mset: "mset m = mset m' \<Longrightarrow> hm_wf m \<Longrightarrow> hm_get m = hm_get m'"
proof -
  assume m: "mset m = mset m'" and wf: "hm_wf m"
  have "mset (map fst m) = mset (map fst m')" using m by simp
  then have "distinct (map fst m')" using wf mset_eq_imp_distinct_iff unfolding hm_wf_def by blast
  moreover have "set m = set m'" using m by (rule mset_eq_setD)
  ultimately show ?thesis using wf by (simp add: hm_get_def hm_wf_def map_of_inject_set)
qed

lemma build_order:
  assumes same: "same_metadata s s'" and one: "one_per_key s"
  shows "build_market_rows s now stale_after hours = build_market_rows s' now stale_after hours"
proof -
  have keys: "ticker_key s = ticker_key s'" "contract_key s = contract_key s'"
    using same hm_get_mset [of "ms_symbols s" "ms_symbols s'"]
    by (simp_all add: fun_eq_iff ticker_key_def contract_key_def symbol_key_def same_metadata_def)
  have snd: "mset (map snd (ms_symbols s)) = mset (map snd (ms_symbols s'))"
    "mset (map snd (ms_tickers s)) = mset (map snd (ms_tickers s'))"
    "mset (map snd (ms_contracts s)) = mset (map snd (ms_contracts s'))"
    using same by (simp_all add: same_metadata_def)
  note d = one [unfolded one_per_key_def]
  note y = keyed_mset [OF snd(1) conjunct1 [OF d]]
  note t = keyed_mset [OF snd(2) conjunct1 [OF conjunct2 [OF d]]]
  note k = keyed_mset [OF snd(3) conjunct2 [OF conjunct2 [OF d]]]
  have one': "one_per_key s'"
    using y(1) t(1) k(1) by (simp add: one_per_key_def keys)
  have "symbol_at s = symbol_at s'" "ticker_at s = ticker_at s'" "contract_at s = contract_at s'"
    using y(2) t(2) k(2) by (simp_all add: fun_eq_iff symbol_at_def ticker_at_def contract_at_def keys)
  then have "bt_get (build_market_rows s now stale_after hours) = bt_get (build_market_rows s' now stale_after hours)"
    by (simp add: fun_eq_iff build_get one one')
  then show ?thesis by (rule bt.lookup_ext [OF bt_wf_build bt_wf_build])
qed

text \<open>What completing a row does, with the times as numbers.\<close>

lemma finish_row_eq:
  "finish_row now stale_after r =
     (let shown = (if mr_updated_at r = 0 then now else mr_updated_at r) in
      r\<lparr>mr_ticker_id := (if mr_ticker_id r = [] then mr_symbol r else mr_ticker_id r),
        mr_updated_at := shown, mr_stale := (unat shown + unat stale_after < unat now)\<rparr>)"
proof -
  have "stale_after < (if x \<le> now then now - x else 0) \<longleftrightarrow> unat x + unat stale_after < unat now" for x
    by (auto simp: word_le_nat_alt word_less_nat_alt unat_sub)
  then show ?thesis unfolding finish_row_def Let_def by (simp only:)
qed

text \<open>C27: the table of markets. With at most one symbol, ticker and contract per key, the table has a row under exactly
  the keys that have metadata, and the row is the one the metadata determines (names from the symbol first, then the
  ticker, then the contract; numbers only when finite; the newest time of the three, or now where there is none; the
  symbol where there is no ticker name), stale exactly when its time plus the threshold is before now; the keys are in
  order and the iteration order of the hash maps does not show.\<close>

theorem build_market_rows_correct:
  assumes "one_per_key s" "same_metadata s s'"
  shows "table_ok (build_market_rows s now stale_after hours) \<and>
    (\<forall>key. case row_spec hours key (symbol_at s key) (ticker_at s key) (contract_at s key) of
       None \<Rightarrow> bt_get (build_market_rows s now stale_after hours) key = None
     | Some r \<Rightarrow>
         let shown = (if mr_updated_at r = 0 then now else mr_updated_at r) in
         bt_get (build_market_rows s now stale_after hours) key =
           Some (r\<lparr>mr_ticker_id := (if mr_ticker_id r = [] then key else mr_ticker_id r), mr_updated_at := shown,
                   mr_stale := (unat shown + unat stale_after < unat now)\<rparr>)) \<and>
    build_market_rows s' now stale_after hours = build_market_rows s now stale_after hours"
proof (intro conjI allI)
  let ?rows = "build_market_rows s now stale_after hours"
  show ok: "table_ok ?rows" by (rule table_ok_build)
  show "build_market_rows s' now stale_after hours = ?rows" using build_order [OF assms(2,1)] by simp
  fix key
  let ?spec = "row_spec hours key (symbol_at s key) (ticker_at s key) (contract_at s key)"
  note get = build_get [OF assms(1), of now stale_after hours key]
  show "case ?spec of None \<Rightarrow> bt_get ?rows key = None
     | Some r \<Rightarrow> let shown = (if mr_updated_at r = 0 then now else mr_updated_at r) in
         bt_get ?rows key =
           Some (r\<lparr>mr_ticker_id := (if mr_ticker_id r = [] then key else mr_ticker_id r), mr_updated_at := shown,
                   mr_stale := (unat shown + unat stale_after < unat now)\<rparr>)"
  proof (cases ?spec)
    case None
    then show ?thesis using get by simp
  next
    case (Some r)
    then have row: "bt_get ?rows key = Some (finish_row now stale_after r)" using get by simp
    then have "mr_symbol (finish_row now stale_after r) = key" using ok unfolding table_ok_def by blast
    then have "mr_symbol r = key" by (simp add: finish_row_def Let_def)
    then show ?thesis using row Some by (simp add: finish_row_eq Let_def)
  qed
qed

definition demo_row_state :: markets_state where
  "demo_row_state = empty_markets
     \<lparr>ms_symbols := [(2, \<lparr>ym_product_id = 2, ym_symbol = ''BTC-PERP'', ym_market_type = ''perp'',
                     ym_base = ''BTC'', ym_quote = ''PERP'', ym_updated_at = 5\<rparr>)],
      ms_tickers := [(2, \<lparr>tm_product_id = 2, tm_ticker_id = ''BTC-PERP_USDT0'', tm_base = ''BTC'',
                     tm_quote = ''USDT0'', tm_last_price = f_of_int 3, tm_base_volume = f_of_int 1,
                     tm_quote_volume = f_of_int 3, tm_change_24h = F_NaN, tm_updated_at = 7\<rparr>),
                     (4, \<lparr>tm_product_id = 4, tm_ticker_id = ''ETH'', tm_base = ''ETH'', tm_quote = [],
                     tm_last_price = F_Inf False, tm_base_volume = f_of_int 0,
                     tm_quote_volume = F_NaN, tm_change_24h = F_NaN, tm_updated_at = 6\<rparr>)]\<rparr>"

theorem build_market_rows_correct_witness:
  "build_market_rows (demo_row_state\<lparr>ms_tickers := rev (ms_tickers demo_row_state)\<rparr>) 30 20 (f_of_int 1) =
     build_market_rows demo_row_state 30 20 (f_of_int 1) \<and>
   map_option mr_stale (bt_get (build_market_rows demo_row_state 30 20 (f_of_int 1)) ''BTC-PERP'') = Some True"
proof -
  have one: "one_per_key demo_row_state"
    by (simp add: one_per_key_def demo_row_state_def empty_markets_def ticker_key_def symbol_key_def hm_get_def)
  have same: "same_metadata demo_row_state (demo_row_state\<lparr>ms_tickers := rev (ms_tickers demo_row_state)\<rparr>)"
    by (simp add: same_metadata_def demo_row_state_def empty_markets_def hm_wf_def)
  have "symbol_at demo_row_state ''BTC-PERP'' \<noteq> None \<and>
      map_option ym_updated_at (symbol_at demo_row_state ''BTC-PERP'') = Some 5 \<and>
      map_option tm_updated_at (ticker_at demo_row_state ''BTC-PERP'') = Some 7 \<and>
      contract_at demo_row_state ''BTC-PERP'' = None"
    by (simp add: symbol_at_def ticker_at_def contract_at_def demo_row_state_def empty_markets_def
        ticker_key_def symbol_key_def hm_get_def)
  then show ?thesis
    using build_market_rows_correct [OF one same, of 30 20 "f_of_int 1"]
    by (auto simp: row_spec_def Let_def max_def dest!: spec [of _ "''BTC-PERP''"])
qed

subsection \<open>What a client makes of the messages\<close>

text \<open>
  A client keeps a table: a snapshot replaces it, a delta sets the rows it carries and deletes
  the keys it names. The function edit_at is what a message does to one key.
\<close>

type_synonym table = "string \<Rightarrow> market_row option"

definition rows_at :: "market_row list \<Rightarrow> table" where
  "rows_at rows = map_of (map (\<lambda>r. (mr_symbol r, r)) rows)"

definition edit_at :: "string \<Rightarrow> market_message \<Rightarrow> market_row option \<Rightarrow> market_row option" where
  "edit_at key m x =
     (case m of
        MM_Snapshot _ _ rows \<Rightarrow> rows_at rows key
      | MM_Delta _ _ updated removed \<Rightarrow>
          if key \<in> set removed then None else opt_or (rows_at updated key) x
      | _ \<Rightarrow> x)"

definition client_apply :: "table \<Rightarrow> market_message \<Rightarrow> table" where
  "client_apply v m = (\<lambda>key. edit_at key m (v key))"

text \<open>Two rows the service takes for the same: equal, or equal field by field.\<close>

definition alike :: "market_row option \<Rightarrow> market_row option \<Rightarrow> bool" where
  "alike a b \<longleftrightarrow> a = b \<or> (case (a, b) of (Some r, Some s) \<Rightarrow> row_eq r s | _ \<Rightarrow> False)"

lemma opt_eq_trans: "opt_eq a b \<Longrightarrow> opt_eq b c \<Longrightarrow> opt_eq a c"
  by (auto simp: opt_eq_def split: option.splits intro: f_eq_trans)

lemma opt_eq_sym: "opt_eq a b \<Longrightarrow> opt_eq b a"
  by (auto simp: opt_eq_def split: option.splits intro: f_eq_sym)

lemma row_eq_trans: "row_eq r s \<Longrightarrow> row_eq s t \<Longrightarrow> row_eq r t"
  unfolding row_eq_def by (elim conjE, intro conjI) (simp | rule opt_eq_trans, assumption, assumption)+

lemma row_eq_sym: "row_eq r s \<Longrightarrow> row_eq s r"
  unfolding row_eq_def by (elim conjE, intro conjI) (simp | rule opt_eq_sym, assumption)+

lemma alike_refl [simp]: "alike a a"
  by (simp add: alike_def)

lemma alike_trans: "alike a b \<Longrightarrow> alike b c \<Longrightarrow> alike a c"
  by (auto simp: alike_def split: option.splits intro: row_eq_trans)

lemma alike_sym: "alike a b \<Longrightarrow> alike b a"
  by (auto simp: alike_def split: option.splits intro: row_eq_sym)

subsection \<open>A difference carries the change\<close>

lemma rows_at_filter:
  assumes "table_ok m"
  shows "rows_at (map snd (filter p m)) key =
    (case bt_get m key of Some r \<Rightarrow> if p (key, r) then Some r else None | None \<Rightarrow> None)"
proof -
  have "map (\<lambda>r. (mr_symbol r, r)) (map snd (filter p m)) = map (\<lambda>x. x) (filter p m)"
    unfolding map_map using table_ok_rows [OF assms] by (intro map_cong) auto
  then have rows: "rows_at (map snd (filter p m)) = map_of (filter p m)"
    by (simp add: rows_at_def)
  have wf: "bt_wf m" using assms by (simp add: table_ok_def)
  then have d: "distinct (map fst (filter p m))"
    by (simp add: distinct_map_filter bt_wf_distinct)
  show ?thesis
  proof (cases "map_of (filter p m) key")
    case None
    then have "(key, r) \<notin> set (filter p m)" for r
      using d by (metis map_of_eq_Some_iff option.distinct(1))
    then show ?thesis
      using None bt.in_entries_iff [OF wf, of key] by (auto simp: rows split: option.split)
  next
    case (Some r)
    then have "(key, r) \<in> set (filter p m)" using d by simp
    then show ?thesis
      using Some bt.in_entries_iff [OF wf, of key r] by (auto simp: rows)
  qed
qed

lemma rows_at_all: "table_ok m \<Longrightarrow> rows_at (map snd m) key = bt_get m key"
  using rows_at_filter [of m "\<lambda>_. True" key] by (simp split: option.splits)

lemma diff_edit:
  assumes "table_ok old" "table_ok new" "diff_market_rows old new = (updated, removed)"
  shows "(key \<in> set removed \<longleftrightarrow> bt_get new key = None \<and> bt_get old key \<noteq> None) \<and>
    rows_at updated key =
      (case bt_get new key of
         Some r \<Rightarrow> if row_changed old (key, r) then Some r else None | None \<Rightarrow> None)"
proof -
  have "updated = map snd (filter (row_changed old) new)"
    "removed = filter (\<lambda>k. bt_get new k = None) (map fst old)"
    using assms(3) by (auto simp: diff_market_rows_def)
  moreover have "key \<in> fst ` set old \<longleftrightarrow> bt_get old key \<noteq> None"
    using bt.dom_lookup [of old] assms(1) by (auto simp: table_ok_def)
  ultimately show ?thesis
    using rows_at_filter [OF assms(2)] by auto
qed

lemma delta_edit:
  assumes "table_ok old" "table_ok new" "diff_market_rows old new = (updated, removed)"
    and "alike x (bt_get old key)"
  shows "alike (edit_at key (MM_Delta seq ts updated removed) x) (bt_get new key)"
proof -
  note d = diff_edit [OF assms(1-3), of key]
  have "alike x (Some r)" if "bt_get new key = Some r" "\<not> row_changed old (key, r)" for r
  proof -
    obtain p where "bt_get old key = Some p" "row_eq p r"
      using \<open>\<not> row_changed old (key, r)\<close> by (auto simp: row_changed_def split: option.splits)
    then have "alike (bt_get old key) (Some r)" by (simp add: alike_def)
    with assms(4) show ?thesis by (rule alike_trans)
  qed
  moreover have "x = None" if "bt_get old key = None"
    using assms(4) that by (auto simp: alike_def split: option.splits)
  ultimately show ?thesis
    using d by (auto simp: edit_at_def split: option.splits if_splits)
qed

text \<open>A key the difference does not mention has not changed.\<close>

lemma diff_silent:
  assumes "table_ok old" "table_ok new" "diff_market_rows old new = (updated, removed)"
    and "key \<notin> set removed" "rows_at updated key = None"
  shows "alike (bt_get old key) (bt_get new key)"
  using diff_edit [OF assms(1-3), of key] assms(4,5)
  by (auto simp: alike_def row_changed_def split: option.splits if_splits)

text \<open>C28: the difference of two tables. Applied to the old table it gives the new one (row for row
  the same as far as the service's own comparison goes); it says nothing exactly when the tables
  agree so; and no key is both updated and removed.\<close>

theorem diff_market_rows_correct:
  assumes "table_ok old" "table_ok new" "diff_market_rows old new = (updated, removed)"
  shows "(\<forall>key. alike (client_apply (bt_get old) (MM_Delta seq ts updated removed) key) (bt_get new key)) \<and>
    (updated = [] \<and> removed = [] \<longleftrightarrow>
       (\<forall>key. case (bt_get old key, bt_get new key) of
          (None, None) \<Rightarrow> True | (Some r, Some r') \<Rightarrow> row_eq r r' | _ \<Rightarrow> False)) \<and>
    (\<forall>r\<in>set updated. bt_get new (mr_symbol r) = Some r) \<and>
    mr_symbol ` set updated \<inter> set removed = {}"
proof -
  have up: "updated = map snd (filter (row_changed old) new)"
    and re: "removed = filter (\<lambda>k. bt_get new k = None) (map fst old)"
    using assms(3) by (auto simp: diff_market_rows_def)
  have new: "(k, r) \<in> set new \<longleftrightarrow> bt_get new k = Some r" for k r
    using bt.in_entries_iff [of new k r] assms(2) by (simp add: table_ok_def)
  have old: "k \<in> fst ` set old \<longleftrightarrow> bt_get old k \<noteq> None" for k
    using bt.dom_lookup [of old] assms(1) by (auto simp: table_ok_def)
  have rows: "bt_get new (mr_symbol r) = Some r" if "r \<in> set updated" for r
    using that new table_ok_rows [OF assms(2)] by (auto simp: up)
  have "updated = [] \<longleftrightarrow> (\<forall>k r. bt_get new k = Some r \<longrightarrow> \<not> row_changed old (k, r))"
    using new by (auto simp: up filter_empty_conv)
  moreover have "removed = [] \<longleftrightarrow> (\<forall>k. bt_get old k \<noteq> None \<longrightarrow> bt_get new k \<noteq> None)"
    unfolding old [symmetric] by (auto simp: re filter_empty_conv)
  ultimately have "updated = [] \<and> removed = [] \<longleftrightarrow>
      (\<forall>key. case (bt_get old key, bt_get new key) of
          (None, None) \<Rightarrow> True | (Some r, Some r') \<Rightarrow> row_eq r r' | _ \<Rightarrow> False)"
    by (auto simp: row_changed_def split: option.splits) (metis option.distinct(1))
  moreover have "mr_symbol ` set updated \<inter> set removed = {}"
    using rows by (auto simp: re)
  moreover have "alike (client_apply (bt_get old) (MM_Delta seq ts updated removed) key) (bt_get new key)" for key
    unfolding client_apply_def by (rule delta_edit [OF assms alike_refl])
  ultimately show ?thesis using rows by blast
qed

theorem diff_market_rows_correct_witness:
  "\<exists>updated removed.
     diff_market_rows (build_market_rows demo_row_state 8 20 (f_of_int 1)) [] = (updated, removed) \<and>
     mr_symbol ` set updated \<inter> set removed = {}"
proof -
  obtain updated removed where
    d: "diff_market_rows (build_market_rows demo_row_state 8 20 (f_of_int 1)) [] = (updated, removed)"
    by (metis surj_pair)
  show ?thesis using diff_market_rows_correct [OF table_ok_build table_ok_Nil d] d by blast
qed

subsection \<open>Clients on the broadcast channel\<close>

text \<open>
  The broadcast channel keeps the last 2048 messages; the log is everything that was sent on
  it. A receiver is a position in the log; one that has fallen out of the kept part is told how
  many messages it lost and goes on with the oldest kept one. A client remembers whether it
  still has to send a snapshot, as it does when it connects and after it lagged, and the frames
  it has sent.
\<close>

definition broadcast_capacity :: nat where "broadcast_capacity = 2048"

record ws_client =
  wc_pos :: nat
  wc_pending :: bool
  wc_sent :: "market_message out_frame list"

definition snapshot_of :: "markets_state \<Rightarrow> market_message" where
  "snapshot_of s = MM_Snapshot (ms_seq s) (ms_source_ts s) (map snd (ms_markets s))"

text \<open>A send that fails ends the client.\<close>

definition send_frame :: "bool \<Rightarrow> market_message out_frame \<Rightarrow> ws_client \<Rightarrow> ws_client option" where
  "send_frame sent f c = (if sent then Some (c\<lparr>wc_sent := wc_sent c @ [f]\<rparr>) else None)"

definition recv_update :: "market_message list \<Rightarrow> u64 \<Rightarrow> bool \<Rightarrow> ws_client \<Rightarrow> ws_client option" where
  "recv_update msgs now sent c =
     (let behind = length msgs - wc_pos c in
      if behind > broadcast_capacity then
        (let skipped = behind - broadcast_capacity in
         send_frame sent
           (Out_Json (MM_Status ''lagged'' (''skipped '' @ show_nat skipped @ '' market updates'') now))
           (c\<lparr>wc_pos := wc_pos c + skipped, wc_pending := True\<rparr>))
      else if behind > 0 then
        send_frame sent (Out_Json (msgs ! wc_pos c)) (c\<lparr>wc_pos := wc_pos c + 1\<rparr>)
      else Some c)"

definition incoming ::
  "(string \<Rightarrow> client_message option) \<Rightarrow> u64 \<Rightarrow> bool \<Rightarrow> socket_event \<Rightarrow> ws_client \<Rightarrow> ws_client option" where
  "incoming from_text now sent ev c =
     (case socket_round MM_Pong MM_Error from_text now ev of
        None \<Rightarrow> None
      | Some None \<Rightarrow> Some c
      | Some (Some f) \<Rightarrow> send_frame sent f c)"

text \<open>
  One turn of a client: the snapshot it owes, or else what its loop selects, the next update
  (None) or an event of its socket. The outcome None is the end of the client.
\<close>

definition ws_turn ::
  "(string \<Rightarrow> client_message option) \<Rightarrow> markets_state \<Rightarrow> market_message list \<Rightarrow> u64 \<Rightarrow> bool \<Rightarrow>
     socket_event option \<Rightarrow> ws_client \<Rightarrow> ws_client option" where
  "ws_turn from_text s msgs now sent turn c =
     (if wc_pending c then send_frame sent (Out_Json (snapshot_of s)) (c\<lparr>wc_pending := False\<rparr>)
      else case turn of
             None \<Rightarrow> recv_update msgs now sent c
           | Some ev \<Rightarrow> incoming from_text now sent ev c)"

definition new_client :: "market_message list \<Rightarrow> ws_client" where
  "new_client msgs = \<lparr>wc_pos = length msgs, wc_pending = True, wc_sent = []\<rparr>"

text \<open>
  The running gateway. A poller has nothing to do, or has installed new metadata and has to
  rebuild the table, or has a message to send: each of the three takes the state's lock, or the
  channel, on its own, so the pollers may run in any order in between.
\<close>

datatype poller = P_Symbols | P_Tickers | P_Contracts

datatype phase = Ph_Idle | Ph_Installed | Ph_Sending market_message

definition poller_of :: "poll \<Rightarrow> poller" where
  "poller_of p =
     (case p of Poll_Symbols _ \<Rightarrow> P_Symbols | Poll_Tickers _ \<Rightarrow> P_Tickers | Poll_Contracts _ \<Rightarrow> P_Contracts)"

record markets_sys =
  sy_state :: markets_state
  sy_phase :: "poller \<Rightarrow> phase"
  sy_log :: "market_message list"
  sy_clients :: "(nat, ws_client) hashmap"

definition start_sys :: "market_message list \<Rightarrow> markets_state \<Rightarrow> markets_sys" where
  "start_sys ms s = \<lparr>sy_state = s, sy_phase = (\<lambda>_. Ph_Idle), sy_log = ms, sy_clients = []\<rparr>"

inductive markets_step ::
  "markets_config \<Rightarrow> (string \<Rightarrow> client_message option) \<Rightarrow> markets_sys \<Rightarrow> markets_sys \<Rightarrow> bool"
  for cfg from_text where
  step_install:
    "sy_phase y (poller_of p) = Ph_Idle \<Longrightarrow> install now p (sy_state y) = Ok s' \<Longrightarrow>
     markets_step cfg from_text y
       (y\<lparr>sy_state := s', sy_phase := (sy_phase y)(poller_of p := Ph_Installed)\<rparr>)"
| step_failed:
    "sy_phase y (poller_of p) = Ph_Idle \<Longrightarrow> install now p (sy_state y) = Err err \<Longrightarrow>
     markets_step cfg from_text y
       (y\<lparr>sy_phase := (sy_phase y)(poller_of p := Ph_Sending
          (MM_Status ''degraded'' (poll_name p @ '' refresh failed: '' @ err) clock))\<rparr>)"
| step_rebuild:
    "sy_phase y p = Ph_Installed \<Longrightarrow> rebuild cfg now (sy_state y) = (m, s') \<Longrightarrow>
     markets_step cfg from_text y
       (y\<lparr>sy_state := s', sy_phase := (sy_phase y)(p :=
          (case m of None \<Rightarrow> Ph_Idle | Some m \<Rightarrow> Ph_Sending m))\<rparr>)"
| step_send:
    "sy_phase y p = Ph_Sending m \<Longrightarrow>
     markets_step cfg from_text y
       (y\<lparr>sy_log := sy_log y @ [m], sy_phase := (sy_phase y)(p := Ph_Idle)\<rparr>)"
| step_connect:
    "hm_get (sy_clients y) i = None \<Longrightarrow>
     markets_step cfg from_text y
       (y\<lparr>sy_clients := hm_insert i (new_client (sy_log y)) (sy_clients y)\<rparr>)"
| step_client:
    "hm_get (sy_clients y) i = Some c \<Longrightarrow>
     ws_turn from_text (sy_state y) (sy_log y) now sent turn c = Some c' \<Longrightarrow>
     markets_step cfg from_text y (y\<lparr>sy_clients := hm_insert i c' (sy_clients y)\<rparr>)"
| step_leave:
    "hm_get (sy_clients y) i = Some c \<Longrightarrow>
     ws_turn from_text (sy_state y) (sy_log y) now sent turn c = None \<Longrightarrow>
     markets_step cfg from_text y (y\<lparr>sy_clients := hm_remove i (sy_clients y)\<rparr>)"

subsection \<open>Runs in which no poller overtakes another\<close>

text \<open>
  The messages that change tables, and the ones that are in a poller's hands. A run is orderly
  when never two pollers hold one: then the channel has the messages in the order of the changes.
\<close>

fun is_table :: "market_message \<Rightarrow> bool" where
  "is_table (MM_Snapshot _ _ _) = True"
| "is_table (MM_Delta _ _ _ _) = True"
| "is_table _ = False"

fun table_seq :: "market_message \<Rightarrow> u64" where
  "table_seq (MM_Snapshot seq _ _) = seq"
| "table_seq (MM_Delta seq _ _ _) = seq"
| "table_seq _ = 0"

definition held :: "phase \<Rightarrow> market_message list" where
  "held ph = (case ph of Ph_Sending m \<Rightarrow> if is_table m then [m] else [] | _ \<Rightarrow> [])"

definition in_hands :: "markets_sys \<Rightarrow> market_message list" where
  "in_hands y = held (sy_phase y P_Symbols) @ held (sy_phase y P_Tickers) @ held (sy_phase y P_Contracts)"

definition orderly :: "markets_sys \<Rightarrow> bool" where
  "orderly y \<longleftrightarrow> length (in_hands y) \<le> 1"

inductive orderly_run ::
  "markets_config \<Rightarrow> (string \<Rightarrow> client_message option) \<Rightarrow> markets_sys \<Rightarrow> markets_sys \<Rightarrow> bool"
  for cfg from_text y0 where
  run_start: "orderly y0 \<Longrightarrow> orderly_run cfg from_text y0 y0"
| run_step:
    "orderly_run cfg from_text y0 y \<Longrightarrow> markets_step cfg from_text y y' \<Longrightarrow> orderly y' \<Longrightarrow>
     orderly_run cfg from_text y0 y'"

lemma in_hands_rest:
  "sy_phase y p = Ph_Sending m \<Longrightarrow> is_table m \<Longrightarrow> orderly y \<Longrightarrow>
     in_hands y = [m] \<and> in_hands (y\<lparr>sy_phase := (sy_phase y)(p := Ph_Idle)\<rparr>) = []"
  by (cases p) (auto simp: orderly_def in_hands_def held_def split: phase.splits if_splits)

lemma in_hands_quiet:
  "held (sy_phase y p) = [] \<Longrightarrow> held ph = [] \<Longrightarrow>
     in_hands (y\<lparr>sy_phase := (sy_phase y)(p := ph)\<rparr>) = in_hands y"
  by (cases p) (auto simp: in_hands_def)

lemma in_hands_new:
  "held (sy_phase y p) = [] \<Longrightarrow> held ph = [m] \<Longrightarrow>
     orderly (y\<lparr>sy_phase := (sy_phase y)(p := ph)\<rparr>) \<Longrightarrow>
     in_hands y = [] \<and> in_hands (y\<lparr>sy_phase := (sy_phase y)(p := ph)\<rparr>) = [m]"
  by (cases p) (auto simp: in_hands_def orderly_def)

lemma in_hands_other [simp]:
  "in_hands (y\<lparr>sy_state := s\<rparr>) = in_hands y"
  "in_hands (y\<lparr>sy_log := l\<rparr>) = in_hands y"
  "in_hands (y\<lparr>sy_clients := cs\<rparr>) = in_hands y"
  by (simp_all add: in_hands_def)

subsection \<open>The channel reproduces the table\<close>

definition replay :: "string \<Rightarrow> market_message list \<Rightarrow> market_row option \<Rightarrow> market_row option" where
  "replay key ms x = foldl (\<lambda>x m. edit_at key m x) x ms"

definition numbered :: "market_message list \<Rightarrow> u64 \<Rightarrow> bool" where
  "numbered ms seq \<longleftrightarrow>
     (let tables = filter is_table ms in
      length tables < 2 ^ 64 \<longrightarrow>
        map table_seq tables = map of_nat [1..<Suc (length tables)] \<and> seq = of_nat (length tables))"

text \<open>
  Every suffix of the messages, applied to the current table, leaves it as it is: what the
  messages set is what the table has, or was overwritten by a later one. So it does not matter
  how much of the past a client gets again after its snapshot.
\<close>

definition consistent :: "market_message list \<Rightarrow> markets_state \<Rightarrow> bool" where
  "consistent ms s \<longleftrightarrow>
     table_ok (ms_markets s) \<and> numbered ms (ms_seq s) \<and>
     (\<forall>n key. alike (replay key (drop n ms) (bt_get (ms_markets s) key)) (bt_get (ms_markets s) key))"

definition view_of :: "ws_client \<Rightarrow> table" where
  "view_of c = foldl (\<lambda>v f. case f of Out_Json m \<Rightarrow> client_apply v m | Out_Pong _ \<Rightarrow> v) Map.empty (wc_sent c)"

definition tracks :: "market_message list \<Rightarrow> nat \<Rightarrow> markets_state \<Rightarrow> ws_client \<Rightarrow> bool" where
  "tracks ms sent s c \<longleftrightarrow>
     wc_pos c \<le> sent \<and>
     (\<not> wc_pending c \<longrightarrow>
        (\<forall>key. alike (replay key (drop (wc_pos c) ms) (view_of c key)) (bt_get (ms_markets s) key)))"

lemma replay_simps [simp]:
  "replay key [] x = x"
  "replay key (m # ms) x = replay key ms (edit_at key m x)"
  "replay key (ms @ ms') x = replay key ms' (replay key ms x)"
  by (simp_all add: replay_def)

lemma edit_not_table [simp]: "\<not> is_table m \<Longrightarrow> edit_at key m x = x"
  by (cases m) (simp_all add: edit_at_def)

lemma edit_alike: "alike x y \<Longrightarrow> alike (edit_at key m x) (edit_at key m y)"
  by (cases m) (auto simp: edit_at_def opt_or_def split: option.split)

lemma replay_alike: "alike x y \<Longrightarrow> alike (replay key ms x) (replay key ms y)"
  by (induction ms arbitrary: x y) (auto intro: edit_alike)

text \<open>A message either says nothing about a key or fixes it.\<close>

lemma edit_cases:
  obtains "\<And>x. edit_at key m x = x" | "\<And>x y. edit_at key m x = edit_at key m y"
proof (cases m)
  case (MM_Delta seq ts updated removed)
  show ?thesis
  proof (cases "key \<in> set removed \<or> rows_at updated key \<noteq> None")
    case True
    then have "\<And>x y. edit_at key m x = edit_at key m y" by (auto simp: edit_at_def MM_Delta)
    then show ?thesis by (rule that(2))
  next
    case False
    then have "\<And>x. edit_at key m x = x" by (auto simp: edit_at_def MM_Delta)
    then show ?thesis by (rule that(1))
  qed
qed (auto simp: edit_at_def intro: that)

lemma rebuild_commit:
  assumes "table_ok (ms_markets s)" "rebuild cfg now s = (Some m, s')"
  shows "table_ok (ms_markets s') \<and> is_table m \<and> table_seq m = ms_seq s' \<and>
    ms_seq s' = (if ms_seq s = - 1 then - 1 else ms_seq s + 1) \<and>
    (\<forall>key x. alike x (bt_get (ms_markets s) key) \<longrightarrow> alike (edit_at key m x) (bt_get (ms_markets s') key)) \<and>
    (\<forall>key. (\<forall>x. edit_at key m x = x) \<longrightarrow> alike (bt_get (ms_markets s) key) (bt_get (ms_markets s') key))"
proof -
  let ?new = "build_market_rows s now (mc_stale_after_ms cfg) (mc_funding_interval_hours cfg)"
  obtain updated removed where d: "diff_market_rows (ms_markets s) ?new = (updated, removed)"
    by (metis surj_pair)
  have s': "ms_markets s' = ?new" "ms_seq s' = (if ms_seq s = - 1 then - 1 else ms_seq s + 1)"
    and m: "m = MM_Snapshot (ms_seq s') now (map snd ?new) \<or> m = MM_Delta (ms_seq s') now updated removed"
    using assms(2) by (auto simp: rebuild_def d Let_def split: if_splits)
  have edit: "alike (edit_at key m x) (bt_get ?new key)" if "alike x (bt_get (ms_markets s) key)" for key x
    using m
  proof
    assume "m = MM_Snapshot (ms_seq s') now (map snd ?new)"
    then show ?thesis by (simp add: edit_at_def rows_at_all [OF table_ok_build])
  next
    assume "m = MM_Delta (ms_seq s') now updated removed"
    then show ?thesis using delta_edit [OF assms(1) table_ok_build d that] by simp
  qed
  moreover have "alike (bt_get (ms_markets s) key) (bt_get ?new key)" if "\<forall>x. edit_at key m x = x" for key
    using edit [OF alike_refl, of key] that by simp
  ultimately show ?thesis using m s' table_ok_build by auto
qed

lemma numbered_snoc:
  assumes "numbered ms seq" "is_table m" "table_seq m = seq'" "seq' = (if seq = - 1 then - 1 else seq + 1)"
  shows "numbered (ms @ [m]) seq'"
  unfolding numbered_def Let_def
proof (intro impI conjI)
  let ?n = "length (filter is_table ms)"
  assume "length (filter is_table (ms @ [m])) < 2 ^ 64"
  then have n: "Suc ?n < 2 ^ 64" using assms(2) by simp
  then have old: "map table_seq (filter is_table ms) = map of_nat [1..<Suc ?n]" "seq = of_nat ?n"
    using assms(1) by (auto simp: numbered_def Let_def)
  have "unat (- 1 :: u64) = 2 ^ 64 - 1" by (simp add: unsigned_minus_1_eq_mask mask_eq_exp_minus_1)
  moreover have "unat (of_nat ?n :: u64) = ?n" using n by (simp add: unat_of_nat)
  ultimately have "seq \<noteq> - 1" using n old(2) by auto
  then have seq': "seq' = of_nat (Suc ?n)" using assms(4) old(2) by simp
  then show "seq' = of_nat (length (filter is_table (ms @ [m])))" using assms(2) by simp
  show "map table_seq (filter is_table (ms @ [m])) = map of_nat [1..<Suc (length (filter is_table (ms @ [m])))]"
    using assms(2,3) old(1) seq' by simp
qed

lemma consistent_empty: "consistent [] empty_markets"
  by (simp add: consistent_def empty_markets_def numbered_def)

lemma consistent_rebuild:
  assumes c: "consistent ms s" and r: "rebuild cfg now s = (Some m, s')"
  shows "consistent (ms @ [m]) s'"
proof -
  note k = rebuild_commit [OF _ r]
  have ok: "table_ok (ms_markets s)" using c by (simp add: consistent_def)
  have "alike (replay key (drop n (ms @ [m])) (bt_get (ms_markets s') key)) (bt_get (ms_markets s') key)" for n key
  proof (cases "n \<le> length ms")
    case True
    let ?M = "bt_get (ms_markets s) key" and ?N = "bt_get (ms_markets s') key"
    let ?R = "replay key (drop n ms)"
    have old: "alike (?R ?M) ?M" using c by (simp add: consistent_def)
    show ?thesis
    proof (cases rule: edit_cases [of key m])
      case 1
      then have mn: "alike ?M ?N" using k [OF ok] by blast
      then have "alike (?R ?N) (?R ?M)" by (rule replay_alike [OF alike_sym])
      then have "alike (?R ?N) ?N" using old mn by (blast intro: alike_trans)
      then show ?thesis using True by (simp add: 1)
    next
      case 2
      have "alike (edit_at key m ?M) ?N" using k [OF ok] by simp
      then show ?thesis using True 2 [of "?R ?N" ?M] by simp
    qed
  qed simp
  moreover have "numbered (ms @ [m]) (ms_seq s')"
    using c k [OF ok] by (intro numbered_snoc [of ms "ms_seq s"]) (auto simp: consistent_def)
  ultimately show ?thesis using k [OF ok] unfolding consistent_def by blast
qed

lemma rebuild_None: "rebuild cfg now s = (None, s') \<Longrightarrow> s' = s"
  by (auto simp: rebuild_def Let_def split: prod.splits if_splits)

lemma replay_status: "\<not> is_table m \<Longrightarrow> replay key (drop n (xs @ m # ys)) x =
    replay key (drop (if n \<le> length xs then n else n - 1) (xs @ ys)) x"
  by (cases "n \<le> length xs") (auto simp: drop_Cons')

lemma consistent_status: "consistent (xs @ ys) s \<Longrightarrow> \<not> is_table m \<Longrightarrow> consistent (xs @ m # ys) s"
  unfolding consistent_def by (simp add: replay_status numbered_def del: drop_append replay_simps(3))

lemma install_markets:
  "install now p s = Ok s' \<Longrightarrow> ms_markets s' = ms_markets s \<and> ms_seq s' = ms_seq s"
  by (auto simp: install_def install_symbols_def install_tickers_def install_contracts_def
      res_bind_Inr_iff Let_def split: poll.splits if_splits)

lemma consistent_install: "consistent ms s \<Longrightarrow> install now p s = Ok s' \<Longrightarrow> consistent ms s'"
  using install_markets [of now p s s'] by (simp add: consistent_def)

lemma tracks_rebuild:
  assumes "consistent ms s" "tracks ms n s c" "n \<le> length ms" "rebuild cfg now s = (Some m, s')"
  shows "tracks (ms @ [m]) n s' c"
  using assms rebuild_commit [OF _ assms(4)] by (auto simp: tracks_def consistent_def)

lemma tracks_status:
  "tracks (xs @ ys) (length xs) s c \<Longrightarrow> \<not> is_table m \<Longrightarrow> tracks (xs @ m # ys) (Suc (length xs)) s c"
  by (auto simp: tracks_def)

subsection \<open>Clients follow the table\<close>

lemma view_of_sent [simp]:
  "view_of (c\<lparr>wc_pos := n\<rparr>) = view_of c"
  "view_of (c\<lparr>wc_pending := b\<rparr>) = view_of c"
  "view_of (c\<lparr>wc_sent := wc_sent c @ [Out_Json m]\<rparr>) = client_apply (view_of c) m"
  "view_of (c\<lparr>wc_sent := wc_sent c @ [Out_Pong p]\<rparr>) = view_of c"
  by (simp_all add: view_of_def)

lemma apply_not_table: "\<not> is_table m \<Longrightarrow> client_apply v m = v"
  by (simp add: client_apply_def fun_eq_iff)

lemma tracks_incoming:
  assumes "incoming from_text now sent ev c = Some c'"
  shows "view_of c' = view_of c \<and> wc_pos c' = wc_pos c \<and> wc_pending c' = wc_pending c"
  using assms by (auto simp: incoming_def socket_round_def send_frame_def apply_not_table
      split: socket_event.splits option.splits client_message.splits if_splits)

lemma tracks_turn:
  assumes turn: "ws_turn from_text s msgs now sent turn c = Some c'"
    and con: "consistent (msgs @ hands) s"
    and tr: "tracks (msgs @ hands) (length msgs) s c"
  shows "tracks (msgs @ hands) (length msgs) s c'"
proof (cases "wc_pending c")
  case True
  then have c': "c' = (c\<lparr>wc_pending := False\<rparr>)\<lparr>wc_sent := wc_sent c @ [Out_Json (snapshot_of s)]\<rparr>"
    using turn by (auto simp: ws_turn_def send_frame_def split: if_splits)
  have "view_of c' key = bt_get (ms_markets s) key" for key
    using con view_of_sent(3) [of "c\<lparr>wc_pending := False\<rparr>" "snapshot_of s"]
    by (simp add: c' client_apply_def edit_at_def snapshot_of_def rows_at_all consistent_def)
  moreover have "wc_pos c' \<le> length msgs" using tr by (simp add: c' tracks_def)
  ultimately show ?thesis using con by (simp add: tracks_def consistent_def del: drop_append)
next
  case live: False
  show ?thesis
  proof (cases turn)
    case None
    then have recv: "recv_update msgs now sent c = Some c'" using turn live by (simp add: ws_turn_def)
    consider (lagged) "wc_pending c'" "wc_pos c' \<le> length msgs" | (none) "c' = c"
      | (one) "wc_pos c < length msgs"
        "c' = (c\<lparr>wc_pos := wc_pos c + 1\<rparr>)\<lparr>wc_sent := wc_sent c @ [Out_Json (msgs ! wc_pos c)]\<rparr>"
      using recv by (auto simp: recv_update_def send_frame_def Let_def split: if_splits)
    then show ?thesis
    proof cases
      case lagged
      then show ?thesis by (simp add: tracks_def)
    next
      case none
      with tr show ?thesis by simp
    next
      case one
      have "drop (wc_pos c) (msgs @ hands) = msgs ! wc_pos c # drop (Suc (wc_pos c)) (msgs @ hands)"
        using one(1) by (subst Cons_nth_drop_Suc [symmetric]) (auto simp: nth_append)
      moreover have "view_of c' = client_apply (view_of c) (msgs ! wc_pos c)"
        using view_of_sent(3) [of "c\<lparr>wc_pos := wc_pos c + 1\<rparr>"] by (simp add: one(2))
      moreover have "wc_pos c' = Suc (wc_pos c)" by (simp add: one(2))
      moreover have "\<forall>key. alike (replay key (drop (wc_pos c) (msgs @ hands)) (view_of c key)) (bt_get (ms_markets s) key)"
        using tr live by (simp add: tracks_def del: drop_append)
      ultimately show ?thesis
        using one(1) unfolding tracks_def client_apply_def by (simp del: drop_append)
    qed
  next
    case (Some ev)
    then show ?thesis
      using turn live tr tracks_incoming [of from_text now sent ev c c'] by (simp add: ws_turn_def tracks_def del: drop_append)
  qed
qed

definition markets_inv :: "markets_sys \<Rightarrow> bool" where
  "markets_inv y \<longleftrightarrow>
     consistent (sy_log y @ in_hands y) (sy_state y) \<and>
     (\<forall>i c. hm_get (sy_clients y) i = Some c \<longrightarrow>
        tracks (sy_log y @ in_hands y) (length (sy_log y)) (sy_state y) c)"

lemma markets_inv_step:
  assumes "markets_step cfg from_text y y'" "orderly y" "orderly y'" "markets_inv y"
  shows "markets_inv y'"
  using assms
proof cases
  case (step_install p now s')
  have "in_hands y' = in_hands y"
    using in_hands_quiet [of "y\<lparr>sy_state := s'\<rparr>" "poller_of p" Ph_Installed] step_install(2)
    by (simp add: step_install held_def)
  then show ?thesis
    using assms(4) consistent_install [OF _ step_install(3)] install_markets [OF step_install(3)]
    by (simp add: markets_inv_def step_install(1) tracks_def del: drop_append)
next
  case (step_failed p now err clock)
  have "in_hands y' = in_hands y"
    unfolding step_failed(1) by (rule in_hands_quiet) (simp_all add: step_failed held_def)
  then show ?thesis using assms(4) by (simp add: markets_inv_def step_failed(1))
next
  case (step_rebuild p now m s')
  show ?thesis
  proof (cases m)
    case None
    have "in_hands y' = in_hands y"
      using in_hands_quiet [of "y\<lparr>sy_state := s'\<rparr>" p Ph_Idle] step_rebuild(2) None
      by (simp add: step_rebuild held_def)
    then show ?thesis
      using assms(4) rebuild_None [of cfg now "sy_state y" s'] step_rebuild(3) None
      by (simp add: markets_inv_def step_rebuild(1))
  next
    case (Some msg)
    have r: "rebuild cfg now (sy_state y) = (Some msg, s')" using step_rebuild(3) Some by simp
    have con: "consistent (sy_log y @ in_hands y) (sy_state y)" using assms(4) by (simp add: markets_inv_def)
    then have "is_table msg" using rebuild_commit [OF _ r] by (simp add: consistent_def)
    then have hands: "in_hands y = [] \<and> in_hands y' = [msg]"
      using in_hands_new [of "y\<lparr>sy_state := s'\<rparr>" p "Ph_Sending msg" msg] step_rebuild(2) assms(3)
      by (simp add: step_rebuild(1) Some held_def)
    then show ?thesis
      using consistent_rebuild [OF con r] assms(4) tracks_rebuild [OF con _ _ r]
      by (simp add: markets_inv_def step_rebuild(1))
  qed
next
  case (step_send p m)
  have same: "sy_state y' = sy_state y" "sy_clients y' = sy_clients y" "sy_log y' = sy_log y @ [m]"
    by (simp_all add: step_send(1))
  have y': "in_hands y' = in_hands (y\<lparr>sy_phase := (sy_phase y)(p := Ph_Idle)\<rparr>)"
    by (simp add: step_send(1) in_hands_def)
  show ?thesis
  proof (cases "is_table m")
    case True
    have total: "sy_log y' @ in_hands y' = sy_log y @ in_hands y"
      using in_hands_rest [OF step_send(2) True assms(2)] by (simp add: y' same)
    show ?thesis
      using assms(4) unfolding markets_inv_def total same(1,2)
      by (auto simp: same(3) tracks_def simp del: drop_append intro: le_SucI)
  next
    case False
    have "in_hands y' = in_hands y"
      unfolding y' by (rule in_hands_quiet) (simp_all add: step_send(2) held_def False)
    then have "sy_log y' @ in_hands y' = sy_log y @ m # in_hands y" by (simp add: same)
    then show ?thesis
      using assms(4) consistent_status [OF _ False] tracks_status [OF _ False]
      by (simp add: markets_inv_def same)
  qed
next
  case (step_connect i)
  have "tracks (sy_log y @ in_hands y) (length (sy_log y)) (sy_state y) (new_client (sy_log y))"
    by (simp add: tracks_def new_client_def)
  then show ?thesis
    using assms(4) by (simp add: markets_inv_def step_connect(1) hm_get_insert)
next
  case (step_client i c now sent turn c')
  then show ?thesis
    using assms(4) tracks_turn [OF step_client(3)] by (auto simp: markets_inv_def hm_get_insert)
next
  case (step_leave i c now sent turn)
  then show ?thesis using assms(4) by (auto simp: markets_inv_def hm_get_remove)
qed

lemma orderly_run_inv: "orderly_run cfg from_text y0 y \<Longrightarrow> markets_inv y0 \<Longrightarrow> markets_inv y \<and> orderly y"
proof (induction rule: orderly_run.induct)
  case (run_step y y')
  then show ?case using markets_inv_step by blast
qed simp

lemma consistent_poll:
  assumes "consistent ms s" "bootstrap_poll cfg now p s = (ms', s')"
  shows "consistent (ms @ ms') s'"
proof (cases "install now p s")
  case (Inl err)
  then show ?thesis
    using assms consistent_status [of ms "[]" s] by (auto simp: bootstrap_poll_def)
next
  case (Inr s1)
  obtain m s2 where r: "rebuild cfg now s1 = (m, s2)" by (metis surj_pair)
  have "consistent ms s1" using assms(1) Inr by (rule consistent_install)
  then show ?thesis
    using assms(2) Inr r rebuild_None [of cfg now s1 s2] consistent_rebuild [of ms s1 cfg now _ s2]
    by (cases m) (auto simp: bootstrap_poll_def)
qed

lemma bootstrap_inv:
  assumes "markets_bootstrap cfg now ys ts ks = Ok (ms, s)"
  shows "consistent ms s"
proof -
  obtain s0 where s0: "install_symbols now ys empty_markets = Ok s0"
    using assms by (auto simp: markets_bootstrap_def res_bind_Inr_iff)
  obtain m1 s1 where p1: "bootstrap_poll cfg now (Poll_Symbols ys) empty_markets = (m1, s1)"
    by (metis surj_pair)
  obtain m2 s2 where p2: "bootstrap_poll cfg now (Poll_Tickers ts) s1 = (m2, s2)" by (metis surj_pair)
  obtain m3 s3 where p3: "bootstrap_poll cfg now (Poll_Contracts ks) s2 = (m3, s3)" by (metis surj_pair)
  have "ms = m1 @ m2 @ m3 \<and> s = s3"
    using assms s0 p1 p2 p3
    by (auto simp: markets_bootstrap_def bootstrap_poll_def install_def split: prod.splits)
  then show ?thesis
    using consistent_poll [OF consistent_poll [OF consistent_poll [OF consistent_empty p1] p2] p3]
    by simp
qed

lemma start_sys_consistent: "consistent ms s \<Longrightarrow> markets_inv (start_sys ms s)"
  by (simp add: markets_inv_def start_sys_def in_hands_def held_def hm_get_def)

text \<open>A client that takes its turns while nothing else happens.\<close>

fun catch_up ::
  "(string \<Rightarrow> client_message option) \<Rightarrow> markets_state \<Rightarrow> market_message list \<Rightarrow> u64 \<Rightarrow> nat \<Rightarrow> ws_client \<Rightarrow> ws_client option" where
  "catch_up from_text s msgs now 0 c = Some c"
| "catch_up from_text s msgs now (Suc n) c =
     Option.bind (ws_turn from_text s msgs now True None c) (catch_up from_text s msgs now n)"

definition behind :: "market_message list \<Rightarrow> ws_client \<Rightarrow> nat" where
  "behind msgs c = 2 * (length msgs - wc_pos c) + (if wc_pending c then 1 else 0)"

lemma turn_progress:
  assumes "wc_pos c \<le> length msgs"
  shows "\<exists>c'. ws_turn from_text s msgs now True None c = Some c' \<and>
    (behind msgs c' < behind msgs c \<or> behind msgs c = 0 \<and> c' = c)"
  using assms by (auto simp: ws_turn_def recv_update_def send_frame_def behind_def Let_def)

lemma catch_up_done:
  assumes "consistent (msgs @ []) s" "tracks (msgs @ []) (length msgs) s c" "behind msgs c \<le> n"
  shows "\<exists>c'. catch_up from_text s msgs now n c = Some c' \<and> behind msgs c' = 0 \<and>
    tracks (msgs @ []) (length msgs) s c'"
  using assms(2,3)
proof (induction n arbitrary: c)
  case (Suc n)
  obtain c' where c': "ws_turn from_text s msgs now True None c = Some c'"
    and less: "behind msgs c' < behind msgs c \<or> behind msgs c = 0 \<and> c' = c"
    using Suc.prems(1) turn_progress [of c msgs from_text s now] by (auto simp: tracks_def)
  have "tracks (msgs @ []) (length msgs) s c'" by (rule tracks_turn [OF c' assms(1) Suc.prems(1)])
  moreover have "behind msgs c' \<le> n" using less Suc.prems(2) by auto
  ultimately show ?case using Suc.IH c' by simp
qed simp

text \<open>C26: the clients of the markets gateway. In every state an orderly run reaches from a
  bootstrapped service, whatever the exchange answers, the clock, the clients and the failures:
  the table messages carry the numbers 1, 2, 3, ... without a gap; and as soon as no poller holds a
  message, any connected client, lagging or not, has after finitely many turns the service's
  table, by applying what it was sent in the order it was sent.\<close>

theorem markets_clients_converge:
  assumes boot: "markets_bootstrap cfg now ys ts ks = Ok (ms, s)"
    and run: "orderly_run cfg from_text (start_sys ms s) y"
    and client: "hm_get (sy_clients y) i = Some c"
  shows "numbered (sy_log y @ in_hands y) (ms_seq (sy_state y)) \<and>
    (in_hands y = [] \<longrightarrow>
      (\<exists>c'. catch_up from_text (sy_state y) (sy_log y) t (behind (sy_log y) c) c = Some c' \<and>
        behind (sy_log y) c' = 0 \<and>
        (\<forall>key. alike (view_of c' key) (bt_get (ms_markets (sy_state y)) key))))"
proof -
  have inv: "markets_inv y"
    using orderly_run_inv [OF run] start_sys_consistent [OF bootstrap_inv [OF boot]] by blast
  then have con: "consistent (sy_log y @ in_hands y) (sy_state y)"
    and tr: "tracks (sy_log y @ in_hands y) (length (sy_log y)) (sy_state y) c"
    using client by (auto simp: markets_inv_def)
  have "\<exists>c'. catch_up from_text (sy_state y) (sy_log y) t (behind (sy_log y) c) c = Some c' \<and>
      behind (sy_log y) c' = 0 \<and> (\<forall>key. alike (view_of c' key) (bt_get (ms_markets (sy_state y)) key))"
    if none: "in_hands y = []"
  proof -
    obtain c' where c': "catch_up from_text (sy_state y) (sy_log y) t (behind (sy_log y) c) c = Some c'"
      "behind (sy_log y) c' = 0" "tracks (sy_log y @ []) (length (sy_log y)) (sy_state y) c'"
      using catch_up_done [where msgs = "sy_log y" and s = "sy_state y" and c = c
          and n = "behind (sy_log y) c" and from_text = from_text and now = t] con tr none by auto
    then have "wc_pos c' = length (sy_log y)" "\<not> wc_pending c'"
      by (auto simp: behind_def tracks_def split: if_splits)
    with c' show ?thesis by (auto simp: tracks_def)
  qed
  then show ?thesis using con by (simp add: consistent_def)
qed

definition demo_symbols :: "symbol_data list" where
  "demo_symbols = [\<lparr>yd_product_type = ''perp'', yd_product_id = 2, yd_symbol = ''a''\<rparr>]"

definition demo_markets_config :: markets_config where
  "demo_markets_config =
     \<lparr>mc_bind_addr = [], mc_client_mode = Test, mc_edge = None, mc_symbols_refresh_ms = 300000,
      mc_tickers_poll_ms = 1000, mc_contracts_poll_ms = 3000, mc_stale_after_ms = 20000,
      mc_funding_interval_hours = F_Fin False 1 0\<rparr>"

definition demo_ticker :: ticker_data where
  "demo_ticker =
     \<lparr>td_product_id = 2, td_ticker_id = ''a'', td_base_currency = [], td_quote_currency = [],
      td_last_price = F_Fin False 1 0, td_base_volume = F_Fin False 1 0, td_quote_volume = F_Fin False 1 0,
      td_price_change_percent_24h = F_Fin False 1 0\<rparr>"

definition demo_contract :: contract_data where
  "demo_contract =
     \<lparr>kd_product_id = 2, kd_ticker_id = ''a'', kd_base_currency = [], kd_quote_currency = [],
      kd_last_price = F_Fin False 1 0, kd_base_volume = F_Fin False 1 0, kd_quote_volume = F_Fin False 1 0,
      kd_product_type = ''perp'', kd_contract_price = F_Fin False 1 0, kd_contract_price_currency = [],
      kd_open_interest = F_Fin False 1 0, kd_open_interest_usd = F_Fin False 1 0, kd_index_price = F_Fin False 1 0,
      kd_mark_price = F_Fin False 1 0, kd_funding_rate = F_Fin False 1 0, kd_next_funding_rate_timestamp = 0,
      kd_price_change_percent_24h = F_Fin False 1 0\<rparr>"
definition demo_boot :: "string + market_message list \<times> markets_state" where
  "demo_boot = markets_bootstrap demo_markets_config 1 (Ok demo_symbols) (Err ''down'') (Err ''down'')"

lemma demo_metas:
  "symbol_metas 1 demo_symbols =
     [(2, \<lparr>ym_product_id = 2, ym_symbol = ''A'', ym_market_type = ''perp'', ym_base = ''A'',
       ym_quote = [], ym_updated_at = 1\<rparr>)]"
  by code_simp
lemma demo_metas1:
  "ticker_metas 2 [demo_ticker] =
     [(2, \<lparr>tm_product_id = 2, tm_ticker_id = ''A'', tm_base = ''A'', tm_quote = [],
       tm_last_price = F_Fin False 1 0, tm_base_volume = F_Fin False 1 0,
       tm_quote_volume = F_Fin False 1 0, tm_change_24h = F_Fin False 1 0, tm_updated_at = 2\<rparr>)]"
  by code_simp
lemma demo_metas2:
  "contract_metas 3 [demo_contract] =
     [(2, \<lparr>km_product_id = 2, km_ticker_id = ''A'', km_base = ''A'', km_quote = [],
       km_market_type = ''perp'', km_funding_rate = F_Fin False 1 0, km_mark_price = F_Fin False 1 0,
       km_index_price = F_Fin False 1 0, km_open_interest = F_Fin False 1 0,
       km_open_interest_usd = F_Fin False 1 0, km_updated_at = 3\<rparr>)]"
  by code_simp

lemmas markets_eval = markets_bootstrap_def bootstrap_poll_def install_def install_symbols_def
  install_tickers_def install_contracts_def rebuild_def build_market_rows_def add_symbol_def
  add_ticker_def add_contract_def diff_market_rows_def row_changed_def row_eq_def opt_eq_def
  symbol_row_def fill_ticker_def fill_contract_def symbol_key_def finish_row_def finite_option_def
  f_is_finite_def preferred_volume_def positive_def bt_get_def hm_get_def empty_markets_def
  poll_name_def

lemma zero_one: "f_lt (f_of_int 0) (F_Fin False 1 0)" "f_eq (F_Fin False 1 0) (F_Fin False 1 0)"
  by (simp_all add: f64_eval)

lemma demo_boot_ok: "\<exists>ms s. demo_boot = Ok (ms, s)"
  by (simp add: demo_boot_def demo_metas markets_eval Let_def demo_markets_config_def)

theorem markets_clients_converge_witness:
  "\<exists>ms s c'. demo_boot = Ok (ms, s) \<and>
     catch_up (\<lambda>_. None) s ms 5 1 (new_client ms) = Some c' \<and>
     (\<forall>key. alike (view_of c' key) (bt_get (ms_markets s) key))"
proof -
  obtain ms s where boot: "demo_boot = Ok (ms, s)" using demo_boot_ok by blast
  define y where "y = (start_sys ms s)\<lparr>sy_clients := hm_insert 0 (new_client ms) []\<rparr>"
  have hands: "in_hands (start_sys ms s) = []" "in_hands y = []"
    by (simp_all add: y_def in_hands_def start_sys_def held_def)
  have "markets_step demo_markets_config (\<lambda>_. None) (start_sys ms s) y"
    using step_connect [of "start_sys ms s" 0 demo_markets_config "\<lambda>_. None"]
    by (simp add: y_def start_sys_def hm_get_def)
  then have run: "orderly_run demo_markets_config (\<lambda>_. None) (start_sys ms s) y"
    using hands by (intro run_step [OF run_start]) (auto simp: orderly_def)
  have client: "hm_get (sy_clients y) 0 = Some (new_client ms)" by (simp add: y_def hm_get_def)
  show ?thesis
    using markets_clients_converge [OF boot [unfolded demo_boot_def] run client, of 5] boot hands
    by (auto simp: y_def start_sys_def behind_def new_client_def)
qed

text \<open>
  Without the order the client can be left behind for good: the ticker poller changes the table,
  then the contract poller does, but its delta is the first on the channel. The client applies
  the contract's delta and then the older one, which carries the row without the contract, and the
  two are never sent again.
\<close>

lemma overtaken_delta_lost:
  "\<exists>ms s y c. demo_boot = Ok (ms, s) \<and>
     (markets_step demo_markets_config (\<lambda>_. None))\<^sup>*\<^sup>* (start_sys ms s) y \<and>
     sy_phase y = (\<lambda>_. Ph_Idle) \<and> hm_get (sy_clients y) 0 = Some c \<and> behind (sy_log y) c = 0 \<and>
     \<not> alike (view_of c ''A'') (bt_get (ms_markets (sy_state y)) ''A'')"
proof -
  let ?cfg = demo_markets_config and ?ft = "\<lambda>_ :: string. None :: client_message option"
  define b where "b = projr demo_boot"
  define s1 where "s1 = projr (install 2 (Poll_Tickers (Ok [demo_ticker])) (snd b))"
  define p2 where "p2 = rebuild ?cfg 2 s1"
  define s3 where "s3 = projr (install 3 (Poll_Contracts (Ok [demo_contract])) (snd p2))"
  define p4 where "p4 = rebuild ?cfg 3 s3"
  define ms s0 m2 s2 m4 s4 where "ms = fst b" and "s0 = snd b" and "m2 = the (fst p2)"
    and "s2 = snd p2" and "m4 = the (fst p4)" and "s4 = snd p4"
  note parts = ms_def s0_def m2_def s2_def m4_def s4_def
  note ev [simp] = demo_metas demo_metas1 demo_metas2 markets_eval Let_def demo_markets_config_def zero_one
  note b = b_def [unfolded demo_boot_def, simplified]
  note s1 = s1_def [unfolded b, simplified]
  note p2 = p2_def [unfolded s1, simplified]
  note s3 = s3_def [unfolded p2, simplified]
  note p4 = p4_def [unfolded s3, simplified]
  have boot: "demo_boot = Ok (ms, s0)" by (simp add: demo_boot_def parts b)
  have t1: "install 2 (Poll_Tickers (Ok [demo_ticker])) s0 = Ok s1" by (simp add: s1_def parts)
  have t3: "install 3 (Poll_Contracts (Ok [demo_contract])) s2 = Ok s3" by (simp add: s3_def parts)
  have r2: "rebuild ?cfg 2 s1 = (Some m2, s2)"
    unfolding p2_def [symmetric] by (simp add: parts p2 del: ev)
  have r4: "rebuild ?cfg 3 s3 = (Some m4, s4)"
    unfolding p4_def [symmetric] by (simp add: parts p4 del: ev)
  define c0 where "c0 = new_client ms"
  define c1 where "c1 = (c0\<lparr>wc_pending := False\<rparr>)\<lparr>wc_sent := wc_sent c0 @ [Out_Json (snapshot_of s0)]\<rparr>"
  define c2 where "c2 = (c1\<lparr>wc_pos := wc_pos c1 + 1\<rparr>)\<lparr>wc_sent := wc_sent c1 @ [Out_Json m4]\<rparr>"
  define c3 where "c3 = (c2\<lparr>wc_pos := wc_pos c2 + 1\<rparr>)\<lparr>wc_sent := wc_sent c2 @ [Out_Json m2]\<rparr>"
  note cs = c1_def c2_def c3_def c0_def new_client_def
  have turns: "ws_turn ?ft s0 ms 1 True None c0 = Some c1"
    "ws_turn ?ft s4 (ms @ [m4, m2]) 4 True None c1 = Some c2"
    "ws_turn ?ft s4 (ms @ [m4, m2]) 4 True None c2 = Some c3"
    by (simp_all add: ws_turn_def recv_update_def send_frame_def cs broadcast_capacity_def nth_append)
  let ?step = "markets_step ?cfg ?ft"
  define y0 where "y0 = start_sys ms s0"
  define y1 where "y1 = y0\<lparr>sy_clients := hm_insert 0 (new_client (sy_log y0)) (sy_clients y0)\<rparr>"
  define y2 where "y2 = y1\<lparr>sy_clients := hm_insert 0 c1 (sy_clients y1)\<rparr>"
  define y3 where "y3 = y2\<lparr>sy_state := s1,
    sy_phase := (sy_phase y2)(poller_of (Poll_Tickers (Ok [demo_ticker])) := Ph_Installed)\<rparr>"
  define y4 where "y4 = y3\<lparr>sy_state := s2, sy_phase := (sy_phase y3)(P_Tickers :=
    (case Some m2 of None \<Rightarrow> Ph_Idle | Some m \<Rightarrow> Ph_Sending m))\<rparr>"
  define y5 where "y5 = y4\<lparr>sy_state := s3,
    sy_phase := (sy_phase y4)(poller_of (Poll_Contracts (Ok [demo_contract])) := Ph_Installed)\<rparr>"
  define y6 where "y6 = y5\<lparr>sy_state := s4, sy_phase := (sy_phase y5)(P_Contracts :=
    (case Some m4 of None \<Rightarrow> Ph_Idle | Some m \<Rightarrow> Ph_Sending m))\<rparr>"
  define y7 where "y7 = y6\<lparr>sy_log := sy_log y6 @ [m4], sy_phase := (sy_phase y6)(P_Contracts := Ph_Idle)\<rparr>"
  define y8 where "y8 = y7\<lparr>sy_log := sy_log y7 @ [m2], sy_phase := (sy_phase y7)(P_Tickers := Ph_Idle)\<rparr>"
  define y9 where "y9 = y8\<lparr>sy_clients := hm_insert 0 c2 (sy_clients y8)\<rparr>"
  define y10 where "y10 = y9\<lparr>sy_clients := hm_insert 0 c3 (sy_clients y9)\<rparr>"
  have hm1: "hm_get [(0 :: nat, c)] 0 = Some c" for c :: ws_client by (simp add: hm_get_def)
  note ys = y1_def y2_def y3_def y4_def y5_def y6_def y7_def y8_def y9_def y10_def y0_def start_sys_def
    poller_of_def hm1
  have "?step y0 y1" unfolding y1_def by (rule step_connect) (simp add: ys hm_get_def)
  moreover have "?step y1 y2"
    unfolding y2_def by (rule step_client [where c = c0 and now = 1 and sent = True and turn = None])
      (simp_all add: ys c0_def turns(1) [unfolded c0_def] del: ev)
  moreover have "?step y2 y3" unfolding y3_def by (rule step_install [where now = 2]) (simp_all add: ys t1 del: ev)
  moreover have "?step y3 y4" unfolding y4_def by (rule step_rebuild [where now = 2]) (simp_all add: ys r2 del: ev)
  moreover have "?step y4 y5" unfolding y5_def by (rule step_install [where now = 3]) (simp_all add: ys t3 del: ev)
  moreover have "?step y5 y6" unfolding y6_def by (rule step_rebuild [where now = 3]) (simp_all add: ys r4 del: ev)
  moreover have "?step y6 y7" unfolding y7_def by (rule step_send) (simp add: ys del: ev)
  moreover have "?step y7 y8" unfolding y8_def by (rule step_send) (simp add: ys del: ev)
  moreover have "?step y8 y9"
    unfolding y9_def by (rule step_client [where c = c1 and now = 4 and sent = True and turn = None])
      (simp_all add: ys turns(2) del: ev)
  moreover have "?step y9 y10"
    unfolding y10_def by (rule step_client [where c = c2 and now = 4 and sent = True and turn = None])
      (simp_all add: ys turns(3) del: ev)
  ultimately have run: "?step\<^sup>*\<^sup>* y0 y10" by (meson rtranclp.rtrancl_refl converse_rtranclp_into_rtranclp)
  have y10: "sy_phase y10 = (\<lambda>_. Ph_Idle)" "hm_get (sy_clients y10) 0 = Some c3"
    "sy_state y10 = s4" "sy_log y10 = ms @ [m4, m2]"
    by (auto simp: ys simp del: ev)
  have "behind (sy_log y10) c3 = 0" by (simp add: y10(4) behind_def cs)
  moreover have "\<not> alike (view_of c3 ''A'') (bt_get (ms_markets s4) ''A'')"
    by (simp add: view_of_def cs client_apply_def edit_at_def rows_at_def parts b p2 p4 snapshot_of_def
        alike_def)
  ultimately show ?thesis using boot run y10 unfolding y0_def by blast
qed

subsection \<open>Outages\<close>

text \<open>
  Refreshes that fail leave the table as it was, whatever the time: so while the exchange
  does not answer, no row is ever marked stale, however old it gets.
\<close>

lemma outage_keeps_rows:
  "\<forall>(now, p)\<in>set polls. isl (install now p s) \<Longrightarrow>
     foldl (\<lambda>s (now, p). snd (poll_turn cfg now now now p s)) s polls = s"
  by (induction polls) (auto simp: poll_turn_def split: sum.splits)

subsection \<open>Names of pairs\<close>

definition plain_name :: "string \<Rightarrow> bool" where
  "plain_name t \<longleftrightarrow> t \<noteq> [] \<and> CHR ''/'' \<notin> set t \<and> CHR ''_'' \<notin> set t \<and> CHR ''-'' \<notin> set t"

lemma split_once_at: "d \<notin> set l \<Longrightarrow> split_once d (l @ d # r) = Some (l, r)"
  by (simp add: split_once_Some_iff)

lemma split_once_no: "d \<notin> set s \<Longrightarrow> split_once d s = None"
  by (simp add: split_once_None_iff)

text \<open>The base and the quote of a symbol. Whatever the case and the blanks around it, a symbol
  written base/quote, base_quote, base-kind_quote, base-quote or base-kind-quote gives its
  base and its quote, and a single name is a base without a quote.\<close>

theorem split_base_quote_correct:
  assumes "plain_name b" "plain_name k" "plain_name q"
  shows "(normalize_symbol s = b @ ''/'' @ q \<longrightarrow> split_base_quote s = (b, q)) \<and>
    (normalize_symbol s = b @ ''_'' @ q \<longrightarrow> split_base_quote s = (b, q)) \<and>
    (normalize_symbol s = b @ ''-'' @ k @ ''_'' @ q \<longrightarrow> split_base_quote s = (b, q)) \<and>
    (normalize_symbol s = b @ ''-'' @ q \<longrightarrow> split_base_quote s = (b, q)) \<and>
    (normalize_symbol s = b @ ''-'' @ k @ ''-'' @ q \<longrightarrow> split_base_quote s = (b, q)) \<and>
    (normalize_symbol s = b \<longrightarrow> split_base_quote s = (b, []))"
proof -
  have no: "CHR ''/'' \<notin> set t \<and> CHR ''_'' \<notin> set t \<and> CHR ''-'' \<notin> set t \<and> t \<noteq> []" if "t \<in> {b, k, q}" for t
    using that assms by (auto simp: plain_name_def)
  have kind: "split_once (CHR ''_'') (b @ ''-'' @ k @ ''_'' @ q) = Some (b @ ''-'' @ k, q)"
    using split_once_at [of "CHR ''_''" "b @ ''-'' @ k" q] no by simp
  have parts: "split_on (CHR ''-'') (b @ ''-'' @ t) = b # split_on (CHR ''-'') t" for t
    using split_on_append [of "CHR ''-''" b t] no by simp
  show ?thesis
    using no kind parts split_on_no_sep [of "CHR ''-''" q] split_on_append [of "CHR ''-''" k q]
      split_on_no_sep [of "CHR ''-''" b]
    by (auto simp: split_base_quote_def Let_def split_once_at split_once_no)
qed

theorem split_base_quote_correct_witness: "split_base_quote '' Btc-Perp_usdt0'' = (''BTC'', ''USDT0'')"
proof -
  have "normalize_symbol '' Btc-Perp_usdt0'' = ''BTC'' @ ''-'' @ ''PERP'' @ ''_'' @ ''USDT0''" by code_simp
  moreover have "plain_name ''BTC''" "plain_name ''PERP''" "plain_name ''USDT0''"
    by (simp_all add: plain_name_def)
  ultimately show ?thesis
    using split_base_quote_correct [of "''BTC''" "''PERP''" "''USDT0''"] by blast
qed

subsection \<open>Configuration\<close>

definition env_u64 :: "environment \<Rightarrow> string \<Rightarrow> u64 \<Rightarrow> string + u64" where
  "env_u64 env key d =
     (case env key of
        None \<Rightarrow> Ok d
      | Some raw \<Rightarrow> ok_or (key @ '' must be a valid positive integer'') (parse_u64 raw))"

definition env_f64 :: "environment \<Rightarrow> string \<Rightarrow> f64 \<Rightarrow> string + f64" where
  "env_f64 env key d =
     (case env key of
        None \<Rightarrow> Ok d
      | Some raw \<Rightarrow> ok_or (key @ '' must be a valid number'') (parse_f64 raw))"

definition parse_optional_bool :: "string \<Rightarrow> bool option" where
  "parse_optional_bool v =
     (let w = to_lowercase (trim v) in
      if w \<in> {''1'', ''true'', ''yes'', ''y'', ''on''} then Some True
      else if w \<in> {''0'', ''false'', ''no'', ''n'', ''off''} then Some False
      else None)"

definition markets_config_from_env :: "environment \<Rightarrow> string + markets_config" where
  "markets_config_from_env env =
     res_bind (read_mode ''MARKETS_NETWORK'' (unwrap_or ''test'' (env ''MARKETS_NETWORK''))) (\<lambda>mode.
     res_bind (env_u64 env ''MARKETS_SYMBOLS_REFRESH_MS'' 300000) (\<lambda>symbols_ms.
     res_bind (env_u64 env ''MARKETS_TICKERS_POLL_MS'' 1000) (\<lambda>tickers_ms.
     res_bind (env_u64 env ''MARKETS_CONTRACTS_POLL_MS'' 3000) (\<lambda>contracts_ms.
     res_bind (env_u64 env ''MARKETS_STALE_AFTER_MS'' 20000) (\<lambda>stale_ms.
     res_bind (env_f64 env ''MARKETS_FUNDING_INTERVAL_HOURS'' (f_of_int 1)) (\<lambda>hours.
     if symbols_ms < 1000 then Err ''MARKETS_SYMBOLS_REFRESH_MS must be >= 1000''
     else if tickers_ms < 200 then Err ''MARKETS_TICKERS_POLL_MS must be >= 200''
     else if contracts_ms < 200 then Err ''MARKETS_CONTRACTS_POLL_MS must be >= 200''
     else if \<not> f_is_finite hours \<or> f_lt hours (f_of_int 0) \<or> f_eq hours (f_of_int 0) then
       Err ''MARKETS_FUNDING_INTERVAL_HOURS must be > 0''
     else Ok
       \<lparr>mc_bind_addr = unwrap_or ''0.0.0.0:3005'' (env ''MARKETS_BIND_ADDR''), mc_client_mode = mode,
        mc_edge = Option.bind (env ''MARKETS_EDGE'') parse_optional_bool,
        mc_symbols_refresh_ms = symbols_ms, mc_tickers_poll_ms = tickers_ms,
        mc_contracts_poll_ms = contracts_ms, mc_stale_after_ms = stale_ms,
        mc_funding_interval_hours = hours\<rparr>))))))"

lemma env_u64_Ok:
  "env_u64 env key d = Ok v \<longleftrightarrow> (case env key of None \<Rightarrow> v = d | Some raw \<Rightarrow> parse_u64 raw = Some v)"
  by (auto simp: env_u64_def split: option.split)

lemma read_mode_Ok: "read_mode var v = Ok m \<longleftrightarrow> mode_of_name (to_lowercase (trim v)) = Some m"
  by (simp add: read_mode_def Let_def split: option.split)

lemma f_val_positive: "f_is_finite x \<Longrightarrow> \<not> f_lt x (f_of_int 0) \<Longrightarrow> \<not> f_eq x (f_of_int 0) \<Longrightarrow> 0 < f_val x"
  by (cases x) (auto simp: f_is_finite_def f_val_def f64_eval zero_less_mult_iff mult_less_0_iff)

text \<open>The configuration of the markets gateway. When it loads, no poller runs more often than the limits
  and the funding interval is a positive finite number of hours; the numbers in it are the ones
  of the environment or the defaults, and a number that does not parse is an error, not a default.\<close>

theorem markets_config_correct:
  assumes "markets_config_from_env env = Ok cfg"
  shows "1000 \<le> mc_symbols_refresh_ms cfg \<and> 200 \<le> mc_tickers_poll_ms cfg \<and>
    200 \<le> mc_contracts_poll_ms cfg \<and> f_is_finite (mc_funding_interval_hours cfg) \<and>
    0 < f_val (mc_funding_interval_hours cfg) \<and>
    (case env ''MARKETS_TICKERS_POLL_MS'' of
       None \<Rightarrow> mc_tickers_poll_ms cfg = 1000
     | Some raw \<Rightarrow> parse_u64 raw = Some (mc_tickers_poll_ms cfg)) \<and>
    (case env ''MARKETS_STALE_AFTER_MS'' of
       None \<Rightarrow> mc_stale_after_ms cfg = 20000
     | Some raw \<Rightarrow> parse_u64 raw = Some (mc_stale_after_ms cfg)) \<and>
    mode_of_name (to_lowercase (trim (unwrap_or ''test'' (env ''MARKETS_NETWORK'')))) = Some (mc_client_mode cfg)"
proof -
  let ?c = "mc_funding_interval_hours cfg"
  have "read_mode ''MARKETS_NETWORK'' (unwrap_or ''test'' (env ''MARKETS_NETWORK'')) = Ok (mc_client_mode cfg) \<and>
      env_u64 env ''MARKETS_TICKERS_POLL_MS'' 1000 = Ok (mc_tickers_poll_ms cfg) \<and>
      env_u64 env ''MARKETS_STALE_AFTER_MS'' 20000 = Ok (mc_stale_after_ms cfg) \<and>
      \<not> mc_symbols_refresh_ms cfg < 1000 \<and> \<not> mc_tickers_poll_ms cfg < 200 \<and>
      \<not> mc_contracts_poll_ms cfg < 200 \<and> f_is_finite ?c \<and>
      \<not> f_lt ?c (f_of_int 0) \<and> \<not> f_eq ?c (f_of_int 0)"
    using assms unfolding markets_config_from_env_def res_bind_Inr_iff
    by (elim exE conjE) (simp split: if_splits, auto)
  then show ?thesis
    unfolding env_u64_Ok by (simp add: f_val_positive read_mode_Ok not_less)
qed

theorem markets_config_correct_witness:
  "\<exists>cfg. markets_config_from_env (\<lambda>v. if v = ''MARKETS_TICKERS_POLL_MS'' then Some ''250'' else None) = Ok cfg \<and>
     mc_tickers_poll_ms cfg = 250"
proof -
  let ?env = "\<lambda>v. if v = ''MARKETS_TICKERS_POLL_MS'' then Some ''250'' else None"
  have mode: "read_mode ''MARKETS_NETWORK'' ''test'' = Ok Test" by code_simp
  have poll: "parse_u64 ''250'' = Some 250"
    by (simp add: parse_u64_def parse_unsigned_def digit_vals)
  have "f_is_finite (f_of_int 1) \<and> \<not> f_lt (f_of_int 1) (f_of_int 0) \<and> \<not> f_eq (f_of_int 1) (f_of_int 0)"
    by (simp add: f64_eval f_is_finite_def)
  then obtain cfg where cfg: "markets_config_from_env ?env = Ok cfg"
    by (simp add: markets_config_from_env_def env_u64_def env_f64_def mode poll)
  with markets_config_correct [OF cfg] show ?thesis by (simp add: poll)
qed

end
