(* ===== verification/PortfolioData.thy ===== *)
theory PortfolioData
  imports GatewayCommon OrderBook SdkArchive
begin

text \<open>
  The payload of the portfolio gateway (gateway/portfolio/src/main.rs): a subaccount's balances, positions,
  orders, trades, payments and prices, gathered from the exchange into one payload of JSON values. Its sessions
  are in the theory PortfolioGateway.

  The answers of the exchange are arguments: for the queries whose failure the gateway ignores,
  an option. None as the outcome of a mapping is the panic of an absolute value that overflows.
  Printing bytes in hexadecimal is a library's and a parameter. A JSON object is the list of its
  entries in the order they are written.
\<close>

subsection \<open>What the exchange returns\<close>

record pf_symbol =
  py_key :: string
  py_product_type :: string
  py_product_id :: u32
  py_symbol :: string

subsection \<open>Values\<close>

definition one_x18 :: nat where "one_x18 = 1000000000000000000"

text \<open>The fraction is printed with 18 digits and its trailing zeros are popped.\<close>

definition x18_to_decimal_string :: "i128 \<Rightarrow> string" where
  "x18_to_decimal_string v =
     (let sign = (if v < 0 then ''-'' else '''');
          abs = nat \<bar>v\<bar>;
          int_part = abs div one_x18;
          frac_part = abs mod one_x18 in
      if frac_part = 0 then sign @ show_nat int_part
      else
        (let digits = show_nat frac_part;
             padded = replicate (18 - length digits) (CHR ''0'') @ digits in
         sign @ show_nat int_part @ ''.'' @ trim_end_matches (CHR ''0'') padded))"

definition dedup_u32 :: "u32 list \<Rightarrow> u32 list" where
  "dedup_u32 vs = map fst (foldl (\<lambda>set v. bt_insert v () set) [] vs)"

definition sat_millis :: "u64 \<Rightarrow> u64" where
  "sat_millis t = (if unat t * 1000 < 2 ^ 64 then t * 1000 else - 1)"

definition perp_name :: "u32 \<Rightarrow> string" where
  "perp_name pid = ''Perp #'' @ show_u32 pid"

definition market_name :: "(u32, string) hashmap \<Rightarrow> u32 \<Rightarrow> string" where
  "market_name symbols pid = unwrap_or (perp_name pid) (hm_get symbols pid)"

subsection \<open>The summary\<close>

definition nth_or_zero :: "i128 list \<Rightarrow> nat \<Rightarrow> i128" where
  "nth_or_zero row i = (if i < length row then row ! i else 0)"

definition health_contributions_for :: "i128 list list \<Rightarrow> u32 \<Rightarrow> string \<times> string \<times> string" where
  "health_contributions_for contributions pid =
     (if unat pid < length contributions then
        (let row = contributions ! unat pid in
         (show_int (nth_or_zero row 0), show_int (nth_or_zero row 1), show_int (nth_or_zero row 2)))
      else (''0'', ''0'', ''0''))"

definition contributions_json :: "string \<times> string \<times> string \<Rightarrow> json" where
  "contributions_json h =
     (case h of (initial, maintenance, unweighted) \<Rightarrow>
        JObject [(''initial'', JString initial), (''maintenance'', JString maintenance),
                 (''unweighted'', JString unweighted)])"

definition map_health :: "health_info option \<Rightarrow> json" where
  "map_health h =
     (case h of
        Some v \<Rightarrow> JObject [(''health'', JString (show_int (hi_health v))),
            (''assets'', JString (show_int (hi_assets v))),
            (''liabilities'', JString (show_int (hi_liabilities v)))]
      | None \<Rightarrow> JObject [(''health'', JString ''0''), (''assets'', JString ''0''),
            (''liabilities'', JString ''0'')])"

definition weights_json :: "i128 \<Rightarrow> risk \<Rightarrow> (string \<times> json) list" where
  "weights_json oracle_price risk =
     [(''oraclePrice'', JString (x18_to_decimal_string oracle_price)),
      (''longWeightInitial'', JString (x18_to_decimal_string (rk_long_initial risk))),
      (''longWeightMaintenance'', JString (x18_to_decimal_string (rk_long_maintenance risk))),
      (''shortWeightInitial'', JString (x18_to_decimal_string (rk_short_initial risk))),
      (''shortWeightMaintenance'', JString (x18_to_decimal_string (rk_short_maintenance risk)))]"

definition spot_balance_json ::
  "(bytes \<Rightarrow> string) \<Rightarrow> i128 list list \<Rightarrow> spot_balance \<Rightarrow> spot_product \<Rightarrow> json" where
  "spot_balance_json hex contributions b p =
     JObject ([(''type'', JString ''spot''), (''productId'', ju32 (sb_product_id b)),
        (''product_id'', ju32 (sb_product_id b)), (''amount'', JString (show_int (sb_amount b))),
        (''tokenAddr'', JString (''0x'' @ hex (cf_token (sp_config p))))] @
        weights_json (sp_oracle_price p) (sp_risk p) @
        [(''healthContributions'',
          contributions_json (health_contributions_for contributions (sb_product_id b)))])"

definition perp_balance_json :: "i128 list list \<Rightarrow> perp_balance \<Rightarrow> perp_product \<Rightarrow> json" where
  "perp_balance_json contributions b p =
     JObject ([(''type'', JString ''perp''), (''productId'', ju32 (pb_product_id b)),
        (''product_id'', ju32 (pb_product_id b)), (''amount'', JString (show_int (pb_amount b))),
        (''vQuoteBalance'', JString (show_int (pb_v_quote b)))] @
        weights_json (pp_oracle_price p) (pp_risk p) @
        [(''healthContributions'',
          contributions_json (health_contributions_for contributions (pb_product_id b)))])"

definition spot_by_id :: "subaccount_info \<Rightarrow> (u32, spot_product) hashmap" where
  "spot_by_id info = foldl (\<lambda>m p. hm_insert (sp_product_id p) p m) [] (sa_spot_products info)"

definition perp_by_id :: "subaccount_info \<Rightarrow> (u32, perp_product) hashmap" where
  "perp_by_id info = foldl (\<lambda>m p. hm_insert (pp_product_id p) p m) [] (sa_perp_products info)"

definition keep_some :: "'a option list \<Rightarrow> 'a list" where
  "keep_some xs = map the (filter (\<lambda>x. x \<noteq> None) xs)"

text \<open>The balances of products the answer describes; the others are passed over.\<close>

definition known_spots :: "subaccount_info \<Rightarrow> (spot_balance \<times> spot_product) list" where
  "known_spots info =
     keep_some (map (\<lambda>b. map_option (Pair b) (hm_get (spot_by_id info) (sb_product_id b))) (sa_spot_balances info))"

definition known_perps :: "subaccount_info \<Rightarrow> (perp_balance \<times> perp_product) list" where
  "known_perps info =
     keep_some (map (\<lambda>b. map_option (Pair b) (hm_get (perp_by_id info) (pb_product_id b))) (sa_perp_balances info))"

definition nth_option :: "'a list \<Rightarrow> nat \<Rightarrow> 'a option" where
  "nth_option xs i = (if i < length xs then Some (xs ! i) else None)"

definition map_summary ::
  "(bytes \<Rightarrow> string) \<Rightarrow> subaccount_info \<Rightarrow> json \<times> u32 list \<times> u32 list \<times> (u32, string) hashmap" where
  "map_summary hex info =
     (let spots = known_spots info;
          perps = known_perps info;
          balances =
            map (\<lambda>(b, p). spot_balance_json hex (sa_contributions info) b p) spots @
            map (\<lambda>(b, p). perp_balance_json (sa_contributions info) b p) perps;
          spot_ids = map (\<lambda>(b, p). sb_product_id b) spots;
          perp_ids = map (\<lambda>(b, p). pb_product_id b) perps;
          symbols = foldl (\<lambda>m pid. hm_insert pid (perp_name pid) m) [] perp_ids;
          health = JObject
            [(''initial'', map_health (nth_option (sa_healths info) 0)),
             (''maintenance'', map_health (nth_option (sa_healths info) 1)),
             (''unweighted'', map_health (nth_option (sa_healths info) 2))] in
      (JObject [(''exists'', JBool (sa_exists info)), (''balances'', JArray balances), (''health'', health)],
       dedup_u32 (spot_ids @ perp_ids), dedup_u32 perp_ids, symbols))"

definition symbol_json :: "pf_symbol \<Rightarrow> json" where
  "symbol_json v =
     JObject [(''productId'', ju32 (py_product_id v)), (''product_id'', ju32 (py_product_id v)),
              (''symbol'', JString (py_symbol v)), (''type'', JString (py_product_type v))]"

text \<open>The map of JSON values keeps its keys in order.\<close>

definition fetch_symbols_value :: "(u32 list \<Rightarrow> string + pf_symbol list) \<Rightarrow> u32 list \<Rightarrow> json" where
  "fetch_symbols_value get_symbols pids =
     (if pids = [] then JObject [(''symbols'', JObject [])]
      else case get_symbols pids of
        Inr rows \<Rightarrow>
          JObject [(''symbols'', JObject (foldl (\<lambda>m v. bt_insert (py_key v) (symbol_json v) m) [] rows))]
      | Inl err \<Rightarrow> JObject [(''symbols'', JObject [])])"

text \<open>The names of the symbols section overwrite the made-up ones.\<close>

definition symbol_names :: "(u32, string) hashmap \<Rightarrow> json \<Rightarrow> (u32, string) hashmap" where
  "symbol_names hints symbols =
     (case Option.bind (json_get ''symbols'' symbols) as_object of
        None \<Rightarrow> hints
      | Some entries \<Rightarrow>
          foldl (\<lambda>m (key, v).
            case (map_option ucast (Option.bind (json_get ''productId'' v) as_u64),
                  Option.bind (json_get ''symbol'' v) as_str) of
              (Some pid, Some name) \<Rightarrow> hm_insert pid name m
            | _ \<Rightarrow> m) hints entries)"

subsection \<open>Positions, orders and trades\<close>

definition implied_entry :: "perp_balance \<Rightarrow> f64 option" where
  "implied_entry b =
     (if pb_amount b \<noteq> 0 then
        (let implied = f_neg (f_div (f_of_int (pb_v_quote b)) (f_of_int (pb_amount b))) in
         if f_is_finite implied then Some implied else None)
      else None)"

definition position_json ::
  "(u32, string) hashmap \<Rightarrow> nat \<Rightarrow> perp_balance \<Rightarrow> perp_product \<Rightarrow> i128 \<Rightarrow> json" where
  "position_json symbols idx b p abs_amount =
     (let size = x18_to_f64 abs_amount;
          mark = x18_to_f64 (pp_oracle_price p);
          notional = f_mul size mark;
          pnl = x18_to_f64 (pb_v_quote b) in
      JObject
        [(''id'', JString (''pos-'' @ show_u32 (pb_product_id b) @ ''-'' @ show_nat idx)),
         (''productId'', ju32 (pb_product_id b)),
         (''market'', JString (market_name symbols (pb_product_id b))),
         (''side'', JString (if pb_amount b > 0 then ''LONG'' else ''SHORT'')),
         (''size'', jf64 size),
         (''entry'', case implied_entry b of None \<Rightarrow> JNull | Some e \<Rightarrow> jf64 e),
         (''mark'', jf64 mark), (''pnl'', jf64 pnl), (''notional'', jf64 notional),
         (''isolated'', JBool False)])"

text \<open>One row per balance that is not zero and whose product is described.\<close>

fun position_rows ::
  "(u32, perp_product) hashmap \<Rightarrow> (u32, string) hashmap \<Rightarrow> nat \<Rightarrow> perp_balance list \<Rightarrow> json list option" where
  "position_rows products symbols idx [] = Some []"
| "position_rows products symbols idx (b # bs) =
     (case hm_get products (pb_product_id b) of
        None \<Rightarrow> position_rows products symbols (Suc idx) bs
      | Some p \<Rightarrow>
          if pb_amount b = 0 then position_rows products symbols (Suc idx) bs
          else do {
            abs_amount \<leftarrow> chk_i128 \<bar>pb_amount b\<bar>;
            rows \<leftarrow> position_rows products symbols (Suc idx) bs;
            Some (position_json symbols idx b p abs_amount # rows) })"

definition map_positions :: "subaccount_info \<Rightarrow> (u32, string) hashmap \<Rightarrow> json option" where
  "map_positions info symbols =
     map_option JArray (position_rows (perp_by_id info) symbols 0 (sa_perp_balances info))"

definition healths_json :: "health_info list \<Rightarrow> json" where
  "healths_json hs =
     (let health = (\<lambda>i. JString (case nth_option hs i of None \<Rightarrow> ''0'' | Some h \<Rightarrow> show_int (hi_health h))) in
      JObject [(''initial'', health 0), (''maintenance'', health 1), (''unweighted'', health 2)])"

definition isolated_json :: "(u32, string) hashmap \<Rightarrow> isolated_position \<Rightarrow> json" where
  "isolated_json symbols r =
     (let b = ip_base_balance r; q = ip_quote_balance r in
      JObject
        [(''subaccount'', JObject [(''subaccountName'', JNull)]),
         (''healths'', healths_json (ip_healths r)),
         (''baseBalance'', JObject
            ([(''productId'', ju32 (pb_product_id b)),
              (''market'', JString (market_name symbols (pb_product_id b))),
              (''amount'', JString (show_int (pb_amount b))),
              (''vQuoteBalance'', JString (show_int (pb_v_quote b)))] @
             weights_json (pp_oracle_price (ip_base_product r)) (pp_risk (ip_base_product r)) @
             [(''healthContributions'', contributions_json
                (show_int (nth_or_zero (ip_base_healths r) 0), show_int (nth_or_zero (ip_base_healths r) 1),
                 show_int (nth_or_zero (ip_base_healths r) 2)))])),
         (''quoteBalance'', JObject
            [(''productId'', ju32 (sb_product_id q)), (''amount'', JString (show_int (sb_amount q))),
             (''oraclePrice'', JString (x18_to_decimal_string (sp_oracle_price (ip_quote_product r))))])])"

definition map_isolated_positions :: "isolated_position list option \<Rightarrow> (u32, string) hashmap \<Rightarrow> json" where
  "map_isolated_positions response symbols =
     (case response of None \<Rightarrow> JArray [] | Some rows \<Rightarrow> JArray (map (isolated_json symbols) rows))"

definition order_json ::
  "(bytes \<Rightarrow> string) \<Rightarrow> (u32, string) hashmap \<Rightarrow> history_order \<Rightarrow> i128 \<Rightarrow> json" where
  "order_json hex symbols o' open_amount =
     (let pid = of_int (ho_product_id o') in
      JObject
        [(''id'', JString (''0x'' @ hex (ho_digest o'))), (''productId'', ju32 pid),
         (''market'', JString (market_name symbols pid)),
         (''side'', JString (if ho_amount o' \<ge> 0 then ''LONG'' else ''SHORT'')),
         (''price'', JString (x18_to_decimal_string (ho_price o'))),
         (''size'', JString (x18_to_decimal_string open_amount)),
         (''status'', JString ''OPEN''),
         (''createdAt'', ju64 (sat_millis (ho_last_fill_timestamp o')))])"

text \<open>Saturating subtraction on i128.\<close>

definition sat_sub :: "i128 \<Rightarrow> i128 \<Rightarrow> i128" where
  "sat_sub a b = max i128_min (min i128_max (a - b))"

fun order_rows ::
  "(bytes \<Rightarrow> string) \<Rightarrow> (u32, string) hashmap \<Rightarrow> history_order list \<Rightarrow> json list option" where
  "order_rows hex symbols [] = Some []"
| "order_rows hex symbols (o' # os) = do {
     total \<leftarrow> chk_i128 \<bar>ho_amount o'\<bar>;
     closed \<leftarrow> chk_i128 \<bar>ho_closed_amount o'\<bar>;
     let open_amount = sat_sub total closed;
     if open_amount = 0 \<or> ho_product_id o' < 0 then order_rows hex symbols os
     else do {
       rows \<leftarrow> order_rows hex symbols os;
       Some (order_json hex symbols o' open_amount # rows) } }"

definition map_orders ::
  "(bytes \<Rightarrow> string) \<Rightarrow> history_order list option \<Rightarrow> (u32, string) hashmap \<Rightarrow> json option" where
  "map_orders hex response symbols =
     (case response of None \<Rightarrow> Some (JArray []) | Some orders \<Rightarrow> map_option JArray (order_rows hex symbols orders))"

fun indexer_balance_amount :: "ix_balance \<Rightarrow> i128 option" where
  "indexer_balance_amount (IB_Spot b) = Some (sb_amount b)"
| "indexer_balance_amount (IB_Perp b) = Some (pb_amount b)"
| "indexer_balance_amount IB_Pending = None"

fun indexer_balance_product_id :: "ix_balance \<Rightarrow> u32 option" where
  "indexer_balance_product_id (IB_Spot b) = Some (sb_product_id b)"
| "indexer_balance_product_id (IB_Perp b) = Some (pb_product_id b)"
| "indexer_balance_product_id IB_Pending = None"

definition amounts_json :: "ix_balances \<Rightarrow> json" where
  "amounts_json b =
     (let base = unwrap_or 0 (indexer_balance_amount (xb_base b));
          quote = unwrap_or 0 (Option.bind (xb_quote b) indexer_balance_amount) in
      JObject [(''base'', JObject [(''amount'', JString (show_int base))]),
               (''quote'', JObject [(''amount'', JString (show_int quote))])])"

definition trade_json :: "(bytes \<Rightarrow> string) \<Rightarrow> (u64, u64) hashmap \<Rightarrow> ix_match \<Rightarrow> json" where
  "trade_json hex ts m =
     (let pid = unwrap_or 0 (opt_or (indexer_balance_product_id (xb_base (xm_pre_balance m)))
                                    (indexer_balance_product_id (xb_base (xm_post_balance m)))) in
      JObject
        [(''productId'', ju32 pid), (''submissionIndex'', ju64 (xm_submission_idx m)),
         (''baseFilled'', JString (show_int (xm_base_filled m))),
         (''quoteFilled'', JString (show_int (xm_quote_filled m))),
         (''totalFee'', JString (show_int (xm_fee m))),
         (''realizedPnl'', JString (show_int (xm_realized_pnl m))),
         (''timestamp'', ju64 (unwrap_or 0 (hm_get ts (xm_submission_idx m)))),
         (''digest'', JString (''0x'' @ hex (xm_digest m))),
         (''order'', JObject [(''amount'', JString (show_int (ord_amount (xm_order m))))]),
         (''preBalances'', amounts_json (xm_pre_balance m)),
         (''postBalances'', amounts_json (xm_post_balance m))])"

definition map_trades :: "(bytes \<Rightarrow> string) \<Rightarrow> matches_response option \<Rightarrow> json" where
  "map_trades hex response =
     (case response of
        None \<Rightarrow> JObject [(''events'', JArray [])]
      | Some r \<Rightarrow>
          (let ts = foldl (\<lambda>m t. hm_insert (xt_submission_idx t) (sat_millis (xt_timestamp t)) m) [] (mt_txs r) in
           JObject [(''events'', JArray (map (trade_json hex ts) (mt_matches r)))]))"

definition payment_json :: "payment \<Rightarrow> json" where
  "payment_json p =
     JObject
       [(''productId'', ju32 (pm_product_id p)), (''product_id'', ju32 (pm_product_id p)),
        (''timestamp'', ju64 (pm_timestamp p)), (''paymentAmount'', JString (show_int (pm_amount p))),
        (''annualPaymentRate'', JString (x18_to_decimal_string (pm_rate p))),
        (''oraclePrice'', JString (x18_to_decimal_string (pm_oracle_price p))),
        (''isolated'', JBool (pm_isolated p))]"

definition map_funding :: "funding_response option \<Rightarrow> json" where
  "map_funding response =
     (case response of
        None \<Rightarrow> JObject [(''fundingPayments'', JArray []), (''interestPayments'', JArray [])]
      | Some r \<Rightarrow>
          JObject [(''fundingPayments'', JArray (map payment_json (fr_funding_payments r))),
                   (''interestPayments'', JArray (map payment_json (fr_interest_payments r)))])"

definition map_latest_market_prices :: "market_price list option \<Rightarrow> json" where
  "map_latest_market_prices response =
     (case response of
        None \<Rightarrow> JArray []
      | Some prices \<Rightarrow> JArray (map (\<lambda>p.
          let bid = x18_to_f64 (mp_bid p); ask = x18_to_f64 (mp_ask p);
              mark = f_div (f_add bid ask) (f_of_int 2) in
          JObject [(''productId'', ju32 (mp_product_id p)), (''bid'', jf64 bid), (''ask'', jf64 ask),
                   (''markPrice'', jf64 mark)]) prices))"

definition map_latest_oracle_prices :: "oracle_price list option \<Rightarrow> json" where
  "map_latest_oracle_prices response =
     (case response of
        None \<Rightarrow> JArray []
      | Some prices \<Rightarrow> JArray (map (\<lambda>p.
          JObject [(''productId'', ju32 (op_product_id p)), (''oraclePrice'', jf64 (x18_to_f64 (op_price p))),
                   (''updateTime'', ju64 (op_update_time p))]) prices))"

subsection \<open>Profit and loss, risk\<close>

text \<open>The sum of an iterator of f64 starts from the negative zero.\<close>

definition f_sum :: "f64 list \<Rightarrow> f64" where
  "f_sum xs = foldl f_add (F_Fin True 0 (- 1074)) xs"

definition json_path :: "string list \<Rightarrow> json \<Rightarrow> json option" where
  "json_path keys v = foldl (\<lambda>r k. Option.bind r (json_get k)) (Some v) keys"

definition unrealized_pnl :: "json \<Rightarrow> f64" where
  "unrealized_pnl positions =
     unwrap_or (f_of_int 0) (map_option
       (\<lambda>rows. f_sum (keep_some (map (\<lambda>row. Option.bind (json_get ''pnl'' row) as_f64) rows)))
       (as_array positions))"

definition realized_pnl :: "json \<Rightarrow> f64" where
  "realized_pnl trades =
     unwrap_or (f_of_int 0) (map_option
       (\<lambda>rows. f_sum (keep_some (map (\<lambda>row.
          map_option (\<lambda>v. f_div v f_1e18)
            (Option.bind (Option.bind (json_get ''realizedPnl'' row) as_str) parse_f64)) rows)))
       (Option.bind (json_get ''events'' trades) as_array))"

definition equity :: "json \<Rightarrow> f64" where
  "equity summary =
     (let read = (\<lambda>k. Option.bind (Option.bind (json_path [''health'', ''unweighted'', k] summary) as_str) parse_f64) in
      case (read ''assets'', read ''liabilities'') of
        (Some assets, Some liab) \<Rightarrow> f_div (f_sub assets liab) f_1e18
      | _ \<Rightarrow> f_of_int 0)"

definition map_pnl :: "json \<Rightarrow> json \<Rightarrow> json \<Rightarrow> json" where
  "map_pnl summary positions trades =
     JObject [(''equity'', jf64 (equity summary)), (''unrealizedPnl'', jf64 (unrealized_pnl positions)),
              (''realizedPnl'', jf64 (realized_pnl trades))]"

definition map_risk :: "json \<Rightarrow> json" where
  "map_risk summary =
     JObject [(''maintenanceHealth'',
       unwrap_or (JString ''0'') (json_path [''health'', ''maintenance'', ''health''] summary))]"

subsection \<open>The payload\<close>

datatype pf_error =
    Pf_BadRequest string
  | Pf_Unauthorized string
  | Pf_Upstream string
  | Pf_Internal string

fun pf_status :: "pf_error \<Rightarrow> nat" where
  "pf_status (Pf_BadRequest _) = 400"
| "pf_status (Pf_Unauthorized _) = 401"
| "pf_status (Pf_Upstream _) = 502"
| "pf_status (Pf_Internal _) = 500"

fun format_error :: "pf_error \<Rightarrow> string" where
  "format_error (Pf_BadRequest msg) = msg"
| "format_error (Pf_Unauthorized msg) = msg"
| "format_error (Pf_Upstream msg) = msg"
| "format_error (Pf_Internal msg) = msg"

record pf_payload =
  pl_owner_address :: string
  pl_subaccount_name :: string
  pl_subaccount :: string
  pl_summary :: json
  pl_positions :: json
  pl_orders :: json
  pl_trades :: json
  pl_funding :: json
  pl_pnl :: json
  pl_risk :: json
  pl_symbols :: json
  pl_account_snapshot :: "json option"
  pl_isolated_positions :: json
  pl_latest_market_prices :: json
  pl_latest_oracle_prices :: json

text \<open>What the exchange answers during one fetch.\<close>

record pf_exchange =
  px_info :: "bytes \<Rightarrow> string + subaccount_info"
  px_symbols :: "u32 list \<Rightarrow> string + pf_symbol list"
  px_isolated :: "bytes \<Rightarrow> isolated_position list option"
  px_orders :: "bytes \<Rightarrow> nat \<Rightarrow> history_order list option"
  px_matches :: "bytes \<Rightarrow> nat \<Rightarrow> matches_response option"
  px_funding :: "bytes \<Rightarrow> u32 list \<Rightarrow> nat \<Rightarrow> funding_response option"
  px_market_prices :: "u32 list \<Rightarrow> market_price list option"
  px_oracle_prices :: "u32 list \<Rightarrow> oracle_price list option"

definition fetch_portfolio_payload ::
  "(bytes \<Rightarrow> string) \<Rightarrow> pf_exchange \<Rightarrow> bytes \<Rightarrow> string \<Rightarrow> (pf_error + pf_payload) option" where
  "fetch_portfolio_payload hex x owner name =
     (let sub = concat_to_bytes32 owner (to_bytes12 (as_bytes name)) in
      case px_info x sub of
        Inl err \<Rightarrow> Some (Err (Pf_Upstream (''failed to fetch subaccount summary: '' @ err)))
      | Inr info \<Rightarrow>
          (let (summary, pids, perp_pids, hints) = map_summary hex info;
               symbols = fetch_symbols_value (px_symbols x) pids;
               names = symbol_names hints symbols in
           do {
             positions \<leftarrow> map_positions info names;
             let isolated = map_isolated_positions (px_isolated x sub) names;
             orders \<leftarrow> map_orders hex (px_orders x sub 200) names;
             let trades = map_trades hex (px_matches x sub 120);
             let funding = map_funding (if perp_pids = [] then None else px_funding x sub perp_pids 300);
             let market_prices = map_latest_market_prices (if perp_pids = [] then None else px_market_prices x perp_pids);
             let oracle_prices = map_latest_oracle_prices (if pids = [] then None else px_oracle_prices x pids);
             Some (Ok
               \<lparr>pl_owner_address = ''0x'' @ hex owner, pl_subaccount_name = name, pl_subaccount = ''0x'' @ hex sub,
                pl_summary = summary, pl_positions = positions, pl_orders = orders, pl_trades = trades,
                pl_funding = funding, pl_pnl = map_pnl summary positions trades, pl_risk = map_risk summary,
                pl_symbols = symbols, pl_account_snapshot = None, pl_isolated_positions = isolated,
                pl_latest_market_prices = market_prices, pl_latest_oracle_prices = oracle_prices\<rparr>) }))"

subsection \<open>Decimal texts\<close>

lemma length_show_nat: "n < 10 ^ Suc k \<Longrightarrow> length (show_nat n) \<le> Suc k"
proof (induction n arbitrary: k rule: show_nat.induct)
  case (1 n)
  show ?case
  proof (cases "n < 10")
    case True
    then show ?thesis by (simp add: show_nat.simps [of n])
  next
    case False
    then obtain k' where k: "k = Suc k'" using 1(2) by (cases k) auto
    have "n div 10 < 10 ^ Suc k'" using 1(2) unfolding k by (simp add: less_mult_imp_div_less)
    then have "length (show_nat (n div 10)) \<le> Suc k'" using 1(1) False by blast
    then show ?thesis using False k by (simp add: show_nat.simps [of n])
  qed
qed

lemma strip_zeros: "\<exists>ds n. es = ds @ replicate n (0 :: nat) \<and> (ds = [] \<or> last ds \<noteq> 0)"
proof (induction es rule: rev_induct)
  case Nil
  then show ?case by simp
next
  case (snoc e es)
  then obtain ds n where "es = ds @ replicate n 0" "ds = [] \<or> last ds \<noteq> 0" by blast
  then show ?case
    by (cases "e = 0") (metis append_assoc replicate_Suc replicate_append_same, metis append_Nil2 last_snoc replicate_0)
qed

lemma digit_zero_iff: "d < 10 \<Longrightarrow> digit_char d = CHR ''0'' \<longleftrightarrow> d = 0"
proof -
  assume "d < 10"
  then have "digit_val (digit_char d) = Some d" "digit_val (digit_char 0) = Some 0" by simp_all
  then show ?thesis by (metis digit_chars(1) option.inject)
qed

lemma trim_zeros:
  assumes "\<forall>d\<in>set ds. d < 10" "ds = [] \<or> last ds \<noteq> 0"
  shows "trim_end_matches (CHR ''0'') (map digit_char (ds @ replicate n 0)) = map digit_char ds"
proof -
  have zero: "digit_char 0 = CHR ''0''" by (simp add: digit_chars)
  have rev: "rev (map digit_char (ds @ replicate n 0)) = replicate n (CHR ''0'') @ rev (map digit_char ds)"
    by (simp add: zero)
  have "rev (map digit_char ds) = [] \<or> hd (rev (map digit_char ds)) \<noteq> CHR ''0''"
    using assms digit_zero_iff [of "last ds"] by (auto simp: hd_rev last_map)
  then have "dropWhile (\<lambda>c. c = CHR ''0'') (rev (map digit_char (ds @ replicate n 0))) = rev (map digit_char ds)"
    unfolding rev using dropWhile_hd_False [of "rev (map digit_char ds)" "\<lambda>c. c = CHR ''0''"]
    by (subst dropWhile_append2) auto
  then show ?thesis by (simp add: trim_end_matches_def del: map_append)
qed

lemma dec_val_leading: "dec_val (replicate n 0 @ ds) = dec_val ds"
proof -
  have "foldl (\<lambda>a d. 10 * a + d) 0 (replicate n 0) = (0 :: nat)" by (induction n) auto
  then show ?thesis by (simp add: dec_val_def)
qed

lemma padded_digits:
  assumes "f < one_x18"
  shows "\<exists>es. replicate (18 - length (show_nat f)) (CHR ''0'') @ show_nat f = map digit_char es \<and>
    length es = 18 \<and> (\<forall>d\<in>set es. d < 10) \<and> dec_val es = f"
proof -
  obtain ds where ds: "show_nat f = map digit_char ds" "\<forall>d\<in>set ds. d < 10" "dec_val ds = f"
    using show_nat_digits by blast
  have "f < 10 ^ Suc 17" using assms by (simp add: one_x18_def)
  then have len: "length ds \<le> 18" using length_show_nat [of f 17] ds(1) by simp
  have zero: "digit_char 0 = CHR ''0''" by (simp add: digit_chars)
  show ?thesis
    using ds len
    by (intro exI [of _ "replicate (18 - length ds) 0 @ ds"]) (auto simp: dec_val_leading zero)
qed

definition decimal_text :: "bool \<Rightarrow> nat \<Rightarrow> nat list \<Rightarrow> string" where
  "decimal_text negative int_part ds =
     (if negative then ''-'' else '''') @ show_nat int_part @
     (if ds = [] then [] else CHR ''.'' # map digit_char ds)"

lemma decimal_string_parts:
  "\<exists>ds. x18_to_decimal_string v = decimal_text (v < 0) (nat \<bar>v\<bar> div one_x18) ds \<and>
     (\<forall>d\<in>set ds. d < 10) \<and> length ds \<le> 18 \<and> (ds = [] \<or> last ds \<noteq> 0) \<and>
     dec_val ds * 10 ^ (18 - length ds) = nat \<bar>v\<bar> mod one_x18"
proof (cases "nat \<bar>v\<bar> mod one_x18 = 0")
  case True
  then show ?thesis
    by (intro exI [of _ "[]"]) (simp add: x18_to_decimal_string_def decimal_text_def dec_val_def)
next
  case False
  let ?f = "nat \<bar>v\<bar> mod one_x18"
  have "?f < one_x18" by (simp add: one_x18_def)
  then obtain es where es: "replicate (18 - length (show_nat ?f)) (CHR ''0'') @ show_nat ?f = map digit_char es"
    "length es = 18" "\<forall>d\<in>set es. d < 10" "dec_val es = ?f"
    using padded_digits by blast
  obtain ds n where es_ds: "es = ds @ replicate n 0" and last: "ds = [] \<or> last ds \<noteq> 0"
    using strip_zeros by blast
  have digits: "\<forall>d\<in>set ds. d < 10" and n: "n = 18 - length ds" and len: "length ds \<le> 18"
    using es(2,3) by (auto simp: es_ds)
  have val: "dec_val ds * 10 ^ (18 - length ds) = ?f"
    using es(4) by (simp add: es_ds dec_val_zeros n)
  moreover have "ds \<noteq> []" using val False by (auto simp: dec_val_def)
  ultimately show ?thesis
    using trim_zeros [OF digits last, of n] digits len last False
    by (intro exI [of _ ds]) (simp add: x18_to_decimal_string_def decimal_text_def Let_def es(1) es_ds del: map_append)
qed

text \<open>What the SDK's parser makes of a decimal text: the sign goes to the whole part only.\<close>

lemma parse_signed_whole:
  assumes "int w \<le> i128_max"
  shows "parse_i128 ((if negative then ''-'' else '''') @ show_nat w) = Some (if negative then - int w else int w)"
    and "CHR ''.'' \<notin> set ((if negative then ''-'' else '''') @ show_nat w)"
proof -
  obtain ws where ws: "show_nat w = map digit_char ws" "ws \<noteq> []" "\<forall>d\<in>set ws. d < 10" "dec_val ws = w"
    using show_nat_digits by blast
  have "show_nat w \<noteq> []" by (simp add: ws(1,2))
  show "parse_i128 ((if negative then ''-'' else '''') @ show_nat w) = Some (if negative then - int w else int w)"
  proof (cases negative)
    case True
    then show ?thesis
      using assms \<open>show_nat w \<noteq> []\<close>
      by (simp add: parse_i128_def parse_signed_def digits_val_show_nat i128_min_def i128_max_def)
  next
    case False
    have "parse_i128 (map digit_char ws) = Some (int w)"
      using assms parse_i128_digits [OF ws(3,2)] ws(4) by simp
    then show ?thesis using False by (simp add: ws(1))
  qed
  show "CHR ''.'' \<notin> set ((if negative then ''-'' else '''') @ show_nat w)"
    using dot_not_digit [OF ws(3)] by (simp add: ws(1))
qed

lemma decimal_text_read:
  assumes ds: "\<forall>d\<in>set ds. d < 10" "length ds \<le> 18" and range: "int w * 10 ^ 18 + 10 ^ 18 \<le> i128_max"
  shows "str_to_x18 (decimal_text negative w ds) =
    Some ((if negative then - int w else int w) * 10 ^ 18 + int (dec_val ds) * 10 ^ (18 - length ds))"
proof -
  let ?pre = "(if negative then ''-'' else '''') @ show_nat w" and ?w = "if negative then - int w else int w"
  have "int w \<le> i128_max" using range by simp
  note whole = parse_signed_whole [OF this, of negative]
  show ?thesis
  proof (cases "ds = []")
    case True
    have "split_on (CHR ''.'') ?pre = [?pre]" by (rule split_on_no_sep [OF whole(2)])
    moreover have "in_i128 (?w * ONE_X18)"
      using range by (auto simp: in_i128_def ONE_X18_def i128_min_def i128_max_def)
    ultimately have "str_to_x18 ?pre = Some (?w * ONE_X18)"
      unfolding str_to_x18_def by (simp add: Let_def whole(1) chk_i128_def del: append_Cons append_Nil)
    then show ?thesis using True by (simp add: decimal_text_def dec_val_def ONE_X18_def)
  next
    case False
    have "decimal_text negative w ds = ?pre @ CHR ''.'' # map digit_char ds"
      using False by (simp add: decimal_text_def)
    moreover have "\<bar>?w\<bar> * 10 ^ 18 + 10 ^ 18 \<le> i128_max" using range by simp
    moreover have "take 18 ds = ds" "18 - min 18 (length ds) = 18 - length ds" using ds(2) by simp_all
    ultimately show ?thesis using str_to_x18_parts [OF ds(1) False whole(2,1)] by simp
  qed
qed

text \<open>C34: numbers with 18 decimals as decimal text. For every i128 the text is its sign, its whole part and,
  after a point, the fraction's digits without trailing zeros, at most 18 of them, and the digits
  give the number back exactly. The parser of the SDK, on the text of a number at least one unit inside i128, reads the
  number back exactly when it is not negative or has no fraction; of a negative number it adds the fraction to the
  negated whole part instead of subtracting it.\<close>

theorem x18_to_decimal_string_correct:
  "(\<exists>ds. x18_to_decimal_string v = decimal_text (v < 0) (nat \<bar>v\<bar> div 10 ^ 18) ds \<and>
      (\<forall>d\<in>set ds. d < 10) \<and> length ds \<le> 18 \<and> (ds = [] \<or> last ds \<noteq> 0) \<and>
      dec_val ds * 10 ^ (18 - length ds) = nat \<bar>v\<bar> mod 10 ^ 18) \<and>
   (\<bar>v\<bar> + 10 ^ 18 \<le> i128_max \<longrightarrow>
      (str_to_x18 (x18_to_decimal_string v) = Some v \<longleftrightarrow> 0 \<le> v \<or> \<bar>v\<bar> mod 10 ^ 18 = 0) \<and>
      (v < 0 \<longrightarrow> str_to_x18 (x18_to_decimal_string v) =
         Some (- (\<bar>v\<bar> div 10 ^ 18 * 10 ^ 18) + \<bar>v\<bar> mod 10 ^ 18)))"
proof -
  have one: "one_x18 = 10 ^ 18" by (simp add: one_x18_def)
  obtain ds where ds: "x18_to_decimal_string v = decimal_text (v < 0) (nat \<bar>v\<bar> div 10 ^ 18) ds"
    "\<forall>d\<in>set ds. d < 10" "length ds \<le> 18" "ds = [] \<or> last ds \<noteq> 0"
    "dec_val ds * 10 ^ (18 - length ds) = nat \<bar>v\<bar> mod 10 ^ 18"
    using decimal_string_parts [of v] unfolding one by blast
  define w f where "w = \<bar>v\<bar> div 10 ^ 18" and "f = \<bar>v\<bar> mod 10 ^ 18"
  have parts: "\<bar>v\<bar> = w * 10 ^ 18 + f" "0 \<le> f" by (simp_all add: w_def f_def)
  have nats: "int (nat \<bar>v\<bar> div 10 ^ 18) = w" "int (nat \<bar>v\<bar> mod 10 ^ 18) = f"
    by (simp_all add: w_def f_def zdiv_int zmod_int)
  have frac: "int (dec_val ds) * 10 ^ (18 - length ds) = f"
    using arg_cong [OF ds(5), of int] nats(2) by simp
  have read: "str_to_x18 (x18_to_decimal_string v) = Some ((if v < 0 then - w else w) * 10 ^ 18 + f)"
    if "\<bar>v\<bar> + 10 ^ 18 \<le> i128_max"
  proof -
    have range: "int (nat \<bar>v\<bar> div 10 ^ 18) * 10 ^ 18 + 10 ^ 18 \<le> i128_max"
      unfolding nats(1) using that parts by linarith
    show ?thesis unfolding ds(1) decimal_text_read [OF ds(2,3) range] nats(1) frac ..
  qed
  have "(if v < 0 then - w else w) * 10 ^ 18 + f = v \<longleftrightarrow> 0 \<le> v \<or> f = 0" using parts by auto
  then show ?thesis using ds read unfolding w_def [symmetric] f_def [symmetric] by auto
qed

theorem x18_to_decimal_string_correct_witness:
  "str_to_x18 (x18_to_decimal_string 1250000000000000000) = Some 1250000000000000000 \<and>
   str_to_x18 (x18_to_decimal_string (- 1250000000000000000)) = Some (- 750000000000000000)"
  using x18_to_decimal_string_correct [of 1250000000000000000] x18_to_decimal_string_correct [of "- 1250000000000000000"]
  by (simp add: i128_max_def)

subsection \<open>Open orders\<close>

text \<open>The orders that are listed, with the amount that counts as open.\<close>

definition open_amount :: "history_order \<Rightarrow> i128" where
  "open_amount o' = \<bar>ho_amount o'\<bar> - \<bar>ho_closed_amount o'\<bar>"

definition is_listed :: "history_order \<Rightarrow> bool" where
  "is_listed o' \<longleftrightarrow> open_amount o' \<noteq> 0 \<and> 0 \<le> ho_product_id o'"

definition amounts_in_range :: "history_order \<Rightarrow> bool" where
  "amounts_in_range o' \<longleftrightarrow> in_i128 (ho_amount o') \<and> in_i128 (ho_closed_amount o')"

lemma abs_in_range: "in_i128 x \<Longrightarrow> in_i128 \<bar>x\<bar> \<longleftrightarrow> x \<noteq> i128_min"
  by (auto simp: in_i128_def i128_min_def i128_max_def)

lemma sat_sub_abs: "in_i128 \<bar>a\<bar> \<Longrightarrow> in_i128 \<bar>b\<bar> \<Longrightarrow> sat_sub \<bar>a\<bar> \<bar>b\<bar> = \<bar>a\<bar> - \<bar>b\<bar>"
  by (auto simp: sat_sub_def in_i128_def i128_min_def i128_max_def)

lemma chk_bind: "Option.bind (chk_i128 x) f = (if in_i128 x then f x else None)"
  by (simp add: chk_i128_def)

lemma order_rows_eq:
  assumes "list_all amounts_in_range os"
  shows "order_rows hex symbols os =
    (if \<exists>o'\<in>set os. ho_amount o' = i128_min \<or> ho_closed_amount o' = i128_min then None
     else Some (map (\<lambda>o'. order_json hex symbols o' (open_amount o')) (filter is_listed os)))"
  using assms
proof (induction os)
  case (Cons o' os)
  have range: "in_i128 (ho_amount o')" "in_i128 (ho_closed_amount o')" and "list_all amounts_in_range os"
    using Cons.prems by (auto simp: amounts_in_range_def list_all_iff)
  note IH = Cons.IH [OF this(3)]
  show ?case
  proof (cases "ho_amount o' = i128_min \<or> ho_closed_amount o' = i128_min")
    case True
    then have "\<not> (in_i128 \<bar>ho_amount o'\<bar> \<and> in_i128 \<bar>ho_closed_amount o'\<bar>)"
      using abs_in_range range by auto
    then show ?thesis using True by (auto simp: chk_bind)
  next
    case False
    then have abs: "in_i128 \<bar>ho_amount o'\<bar>" "in_i128 \<bar>ho_closed_amount o'\<bar>"
      using abs_in_range range by simp_all
    then have "sat_sub \<bar>ho_amount o'\<bar> \<bar>ho_closed_amount o'\<bar> = open_amount o'"
      by (simp add: sat_sub_abs open_amount_def)
    moreover have "(open_amount o' = 0 \<or> ho_product_id o' < 0) = (\<not> is_listed o')"
      by (auto simp: is_listed_def)
    ultimately show ?thesis using False abs by (simp add: IH Let_def chk_bind)
  qed
qed simp

text \<open>C33: the open orders of the portfolio. The mapping panics exactly when an amount is the least i128;
  otherwise it lists, in order, the orders of a product whose amounts differ, each with the difference as its
  size, written exactly, its side from the sign of the amount and its identifier from the digest.\<close>

theorem map_orders_correct:
  assumes "list_all amounts_in_range os"
  shows "(map_orders hex (Some os) symbols = None \<longleftrightarrow>
      (\<exists>o'\<in>set os. ho_amount o' = i128_min \<or> ho_closed_amount o' = i128_min)) \<and>
    (\<forall>rows. map_orders hex (Some os) symbols = Some (JArray rows) \<longrightarrow>
      map (json_get ''id'') rows = map (\<lambda>o'. Some (JString (''0x'' @ hex (ho_digest o')))) (filter is_listed os) \<and>
      map (json_get ''side'') rows =
        map (\<lambda>o'. Some (JString (if 0 \<le> ho_amount o' then ''LONG'' else ''SHORT''))) (filter is_listed os) \<and>
      map (json_get ''size'') rows =
        map (\<lambda>o'. Some (JString (x18_to_decimal_string (\<bar>ho_amount o'\<bar> - \<bar>ho_closed_amount o'\<bar>)))) (filter is_listed os))"
  unfolding map_orders_def option.case order_rows_eq [OF assms]
  by (auto simp: order_json_def Let_def open_amount_def)

definition filled_order :: history_order where
  "filled_order = \<lparr>ho_digest = [1], ho_subaccount = [], ho_product_id = 2, ho_submission_idx = 0,
     ho_last_fill_submission_idx = 0, ho_amount = 5, ho_price = 3, ho_base_filled = 5, ho_quote_filled = - 15,
     ho_fee = 0, ho_expiration = 0, ho_nonce = 0, ho_appendix = 0, ho_isolated = False, ho_closed_amount = 0,
     ho_realized_pnl = 0, ho_builder_fee = 0, ho_closed_net_entry = 0, ho_closed_margin = None,
     ho_first_fill_timestamp = 7, ho_last_fill_timestamp = 7\<rparr>"

theorem map_orders_correct_witness:
  "map_orders (\<lambda>_. []) (Some [filled_order]) [] \<noteq> None"
  using map_orders_correct [of "[filled_order]" "\<lambda>_. []" "[]"]
  by (simp add: filled_order_def amounts_in_range_def in_i128_def i128_min_def i128_max_def)

text \<open>
  The open amount is computed from the closed amount, which is the part of the position the order
  closed, and not from what was filled: an order that opened a position and is filled to the last unit is
  listed as open with its full size.
\<close>

lemma filled_order_listed:
  "ho_base_filled filled_order = ho_amount filled_order \<and> is_listed filled_order \<and>
   open_amount filled_order = ho_amount filled_order"
  by (simp add: filled_order_def is_listed_def open_amount_def)

subsection \<open>Positions\<close>

text \<open>The positions: the balances that are not zero and whose product is described, each with its index.\<close>

definition open_positions :: "subaccount_info \<Rightarrow> (nat \<times> perp_balance \<times> perp_product) list" where
  "open_positions info = map (\<lambda>(i, b). (i, b, the (hm_get (perp_by_id info) (pb_product_id b))))
     (filter (\<lambda>(i, b). pb_amount b \<noteq> 0 \<and> hm_get (perp_by_id info) (pb_product_id b) \<noteq> None)
       (enumerate 0 (sa_perp_balances info)))"

lemma position_rows_eq:
  assumes "\<forall>b\<in>set bs. in_i128 (pb_amount b) \<and> pb_amount b \<noteq> i128_min"
  shows "position_rows products symbols idx bs = Some (map (\<lambda>(i, b).
       position_json symbols i b (the (hm_get products (pb_product_id b))) \<bar>pb_amount b\<bar>)
     (filter (\<lambda>(i, b). pb_amount b \<noteq> 0 \<and> hm_get products (pb_product_id b) \<noteq> None) (enumerate idx bs)))"
  using assms
proof (induction bs arbitrary: idx)
  case (Cons b bs)
  then have "position_rows products symbols (Suc idx) bs = Some (map (\<lambda>(i, b).
       position_json symbols i b (the (hm_get products (pb_product_id b))) \<bar>pb_amount b\<bar>)
     (filter (\<lambda>(i, b). pb_amount b \<noteq> 0 \<and> hm_get products (pb_product_id b) \<noteq> None) (enumerate (Suc idx) bs)))"
    by simp
  moreover have "in_i128 \<bar>pb_amount b\<bar>" using Cons.prems abs_in_range by simp
  ultimately show ?case by (cases "hm_get products (pb_product_id b)") (auto simp: chk_bind)
qed simp

lemma map_positions_eq:
  assumes "\<forall>b\<in>set (sa_perp_balances info). in_i128 (pb_amount b) \<and> pb_amount b \<noteq> i128_min"
  shows "map_positions info symbols = Some (JArray
    (map (\<lambda>(i, b, p). position_json symbols i b p \<bar>pb_amount b\<bar>) (open_positions info)))"
  unfolding map_positions_def position_rows_eq [OF assms] open_positions_def
  by (simp add: o_def split_def)

text \<open>
  The profit of a position is its quote balance alone: the value of the position itself is
  never added, so the profit does not depend on the mark price, and a position that was opened at the mark
  price shows its whole cost as a loss.
\<close>

lemma pnl_ignores_mark:
  "json_get ''pnl'' (position_json symbols idx b p a) = Some (jf64 (x18_to_f64 (pb_v_quote b)))"
  "json_get ''pnl'' (position_json symbols idx b (p\<lparr>pp_oracle_price := price\<rparr>) a) =
     json_get ''pnl'' (position_json symbols idx b p a)"
  by (simp_all add: position_json_def Let_def)

subsection \<open>The summary\<close>

lemma bt_units:
  "bt_wf m \<Longrightarrow> bt_wf (foldl (\<lambda>set v. bt_insert v () set) m vs) \<and>
     fst ` set (foldl (\<lambda>set v. bt_insert v () set) m vs) = fst ` set m \<union> set vs"
  by (induction vs arbitrary: m) (auto simp: bt_wf_insert keys_bt_insert)

lemma dedup_u32_spec: "sorted_wrt (<) (dedup_u32 vs) \<and> set (dedup_u32 vs) = set vs"
  using bt_units [of "[]" vs] by (simp add: dedup_u32_def bt_wf_def)

lemma keep_some_map: "keep_some (map f xs) = map (\<lambda>x. the (f x)) (filter (\<lambda>x. f x \<noteq> None) xs)"
  by (simp add: keep_some_def filter_map o_def)

lemma hm_get_empty [simp]: "hm_get [] k = None"
  by (simp add: hm_get_def)

lemma fold_hints:
  "hm_get (foldl (\<lambda>m pid. hm_insert pid (f pid) m) m pids) q =
     (if q \<in> set pids then Some (f q) else hm_get m q)"
  by (induction pids arbitrary: m) (auto simp: hm_get_insert)

text \<open>The products of the summary, whatever the amounts are.\<close>

definition spot_ids :: "subaccount_info \<Rightarrow> u32 set" where
  "spot_ids info = {sb_product_id b |b. b \<in> set (sa_spot_balances info) \<and>
     hm_get (spot_by_id info) (sb_product_id b) \<noteq> None}"

definition perp_ids :: "subaccount_info \<Rightarrow> u32 set" where
  "perp_ids info = {pb_product_id b |b. b \<in> set (sa_perp_balances info) \<and>
     hm_get (perp_by_id info) (pb_product_id b) \<noteq> None}"

lemma known_parts:
  "known_spots info = map (\<lambda>b. (b, the (hm_get (spot_by_id info) (sb_product_id b))))
     (filter (\<lambda>b. hm_get (spot_by_id info) (sb_product_id b) \<noteq> None) (sa_spot_balances info))"
  "known_perps info = map (\<lambda>b. (b, the (hm_get (perp_by_id info) (pb_product_id b))))
     (filter (\<lambda>b. hm_get (perp_by_id info) (pb_product_id b) \<noteq> None) (sa_perp_balances info))"
  unfolding known_spots_def known_perps_def keep_some_map by (intro map_cong; auto)+

lemma summary_ids:
  assumes "map_summary hex info = (summary, pids, perp_pids, hints)"
  shows "sorted_wrt (<) pids" "sorted_wrt (<) perp_pids" "set perp_pids = perp_ids info"
    and "set pids = spot_ids info \<union> perp_ids info"
    and "hm_get hints pid = (if pid \<in> perp_ids info then Some (perp_name pid) else None)"
proof -
  let ?S = "filter (\<lambda>b. hm_get (spot_by_id info) (sb_product_id b) \<noteq> None) (sa_spot_balances info)"
  let ?P = "filter (\<lambda>b. hm_get (perp_by_id info) (pb_product_id b) \<noteq> None) (sa_perp_balances info)"
  have parts: "pids = dedup_u32 (map sb_product_id ?S @ map pb_product_id ?P)"
    "perp_pids = dedup_u32 (map pb_product_id ?P)"
    "hints = foldl (\<lambda>m pid. hm_insert pid (perp_name pid) m) [] (map pb_product_id ?P)"
    using assms by (auto simp: map_summary_def Let_def known_parts o_def)
  show "sorted_wrt (<) pids" "sorted_wrt (<) perp_pids" using dedup_u32_spec by (simp_all add: parts)
  show perp: "set perp_pids = perp_ids info" using dedup_u32_spec by (auto simp: parts perp_ids_def)
  show "set pids = spot_ids info \<union> perp_ids info" using dedup_u32_spec by (auto simp: parts perp_ids_def spot_ids_def)
  have "set (map pb_product_id ?P) = perp_ids info" by (auto simp: perp_ids_def)
  then show "hm_get hints pid = (if pid \<in> perp_ids info then Some (perp_name pid) else None)"
    unfolding parts(3) fold_hints by simp
qed

text \<open>C32: the account summary. The product ids are, without repetition and in ascending order, those of the balances whose
  product the answer describes (the perpetual ones apart as well), every such perpetual product gets a
  made-up name, and the balances are one entry per such balance, spot ones first, with the
  amount as a text that reads back as the amount.\<close>

theorem map_summary_correct:
  assumes "map_summary hex info = (summary, pids, perp_pids, hints)"
    and "list_all (\<lambda>b. in_i128 (sb_amount b)) (sa_spot_balances info)"
    and "list_all (\<lambda>b. in_i128 (pb_amount b)) (sa_perp_balances info)"
  shows "sorted_wrt (<) pids \<and> sorted_wrt (<) perp_pids \<and> set perp_pids \<subseteq> set pids \<and>
    set perp_pids = {pb_product_id b |b. b \<in> set (sa_perp_balances info) \<and>
      hm_get (perp_by_id info) (pb_product_id b) \<noteq> None} \<and>
    set pids = set perp_pids \<union> {sb_product_id b |b. b \<in> set (sa_spot_balances info) \<and>
      hm_get (spot_by_id info) (sb_product_id b) \<noteq> None} \<and>
    (\<forall>pid. hm_get hints pid = (if pid \<in> set perp_pids then Some (perp_name pid) else None)) \<and>
    map_option (map (\<lambda>v. Option.bind (Option.bind (json_get ''amount'' v) as_str) parse_i128))
      (Option.bind (json_get ''balances'' summary) as_array) =
    Some (map (\<lambda>b. Some (sb_amount b)) (filter (\<lambda>b. hm_get (spot_by_id info) (sb_product_id b) \<noteq> None) (sa_spot_balances info)) @
          map (\<lambda>b. Some (pb_amount b)) (filter (\<lambda>b. hm_get (perp_by_id info) (pb_product_id b) \<noteq> None) (sa_perp_balances info)))"
proof -
  let ?S = "filter (\<lambda>b. hm_get (spot_by_id info) (sb_product_id b) \<noteq> None) (sa_spot_balances info)"
  let ?P = "filter (\<lambda>b. hm_get (perp_by_id info) (pb_product_id b) \<noteq> None) (sa_perp_balances info)"
  have "map_option (map (\<lambda>v. Option.bind (Option.bind (json_get ''amount'' v) as_str) parse_i128))
      (Option.bind (json_get ''balances'' summary) as_array) =
    Some (map (\<lambda>b. parse_i128 (show_int (sb_amount b))) ?S @ map (\<lambda>b. parse_i128 (show_int (pb_amount b))) ?P)"
    using assms(1)
    by (auto simp: map_summary_def Let_def known_parts o_def spot_balance_json_def perp_balance_json_def)
  also have "\<dots> = Some (map (\<lambda>b. Some (sb_amount b)) ?S @ map (\<lambda>b. Some (pb_amount b)) ?P)"
    using assms(2,3) by (auto simp: list_all_iff)
  finally have balances: "map_option (map (\<lambda>v. Option.bind (Option.bind (json_get ''amount'' v) as_str) parse_i128))
      (Option.bind (json_get ''balances'' summary) as_array) =
    Some (map (\<lambda>b. Some (sb_amount b)) ?S @ map (\<lambda>b. Some (pb_amount b)) ?P)" .
  note ids = summary_ids [OF assms(1)]
  have "set perp_pids \<subseteq> set pids" "set pids = set perp_pids \<union> spot_ids info" unfolding ids(3,4) by blast+
  moreover have "hm_get hints pid = (if pid \<in> set perp_pids then Some (perp_name pid) else None)" for pid
    using ids(5) by (simp only: ids(3))
  ultimately show ?thesis
    using balances ids(1-3) unfolding perp_ids_def spot_ids_def by (intro conjI allI) assumption+
qed

definition demo_info :: subaccount_info where
  "demo_info =
     \<lparr>sa_subaccount = [1], sa_exists = True, sa_healths = [], sa_contributions = [[1, 2, 3]],
      sa_spot_count = 1, sa_perp_count = 2, sa_spot_balances = [\<lparr>sb_product_id = 3, sb_amount = 7\<rparr>],
      sa_perp_balances = [\<lparr>pb_product_id = 2, pb_amount = - 5, pb_v_quote = 10, pb_last_funding = 0\<rparr>,
                          \<lparr>pb_product_id = 4, pb_amount = 1, pb_v_quote = 1, pb_last_funding = 0\<rparr>],
      sa_spot_products = [], sa_perp_products =
        [\<lparr>pp_product_id = 2, pp_oracle_price = 3,
          pp_risk = \<lparr>rk_long_initial = 1, rk_short_initial = 1, rk_long_maintenance = 1, rk_short_maintenance = 1,
                     rk_price = 3\<rparr>,
          pp_state = \<lparr>pt_funding_long = 0, pt_funding_short = 0, pt_available_settle = 0, pt_open_interest = 6\<rparr>,
          pp_book_info = \<lparr>bi_size_increment = 1, bi_price_increment = 1, bi_min_size = 1, bi_collected_fees = 0\<rparr>\<rparr>],
      sa_pre_state = None\<rparr>"

theorem map_summary_correct_witness:
  "\<exists>summary pids perp_pids hints. map_summary (\<lambda>_. []) demo_info = (summary, pids, perp_pids, hints) \<and>
     sorted_wrt (<) pids \<and> set perp_pids \<subseteq> set pids"
proof -
  obtain summary pids perp_pids hints where
    m: "map_summary (\<lambda>_. []) demo_info = (summary, pids, perp_pids, hints)" by (metis prod_cases4)
  have "list_all (\<lambda>b. in_i128 (sb_amount b)) (sa_spot_balances demo_info)"
    "list_all (\<lambda>b. in_i128 (pb_amount b)) (sa_perp_balances demo_info)"
    by (simp_all add: demo_info_def in_i128_iff)
  note c = map_summary_correct [OF m this]
  show ?thesis using m conjunct1 [OF c] conjunct1 [OF conjunct2 [OF conjunct2 [OF c]]] by blast
qed

subsection \<open>One fetch\<close>

definition whole_order :: "history_order \<Rightarrow> bool" where
  "whole_order o' \<longleftrightarrow> amounts_in_range o' \<and> ho_amount o' \<noteq> i128_min \<and> ho_closed_amount o' \<noteq> i128_min"

lemma map_orders_total:
  "\<forall>os. response = Some os \<longrightarrow> list_all whole_order os \<Longrightarrow> \<exists>v. map_orders hex response symbols = Some v"
proof (cases response)
  case (Some os)
  assume "\<forall>os. response = Some os \<longrightarrow> list_all whole_order os"
  then have whole: "\<forall>o'\<in>set os. whole_order o'" using Some by (simp add: list_all_iff)
  then have "list_all amounts_in_range os" by (simp add: list_all_iff whole_order_def)
  from order_rows_eq [OF this, of hex symbols] show ?thesis
    using whole Some by (auto simp: map_orders_def whole_order_def)
qed (simp add: map_orders_def)

text \<open>The names of the products: those of the symbols the exchange lists.\<close>

abbreviation symbol_entry :: "pf_symbol \<Rightarrow> string \<times> json" where
  "symbol_entry v \<equiv> (py_key v, symbol_json v)"

definition symbol_entries :: "pf_symbol list \<Rightarrow> (string, json) btree" where
  "symbol_entries rows = foldl (\<lambda>m v. bt_insert (py_key v) (symbol_json v) m) [] rows"

lemma symbol_entries_get:
  "distinct (map py_key rows) \<Longrightarrow>
     bt_get (foldl (\<lambda>m v. bt_insert (py_key v) (symbol_json v) m) m rows) k =
       (case map_of (map symbol_entry rows) k of None \<Rightarrow> bt_get m k | Some j \<Rightarrow> Some j)"
proof (induction rows arbitrary: m)
  case (Cons v rows)
  have "map_of (map symbol_entry rows) (py_key v) = None"
    using Cons.prems by (auto simp: map_of_eq_None_iff)
  then show ?case using Cons by (auto simp: bt_get_insert split: option.split)
qed simp

lemma symbol_entries_wf: "bt_wf (symbol_entries rows)"
proof -
  have "bt_wf m \<Longrightarrow> bt_wf (foldl (\<lambda>m v. bt_insert (py_key v) (symbol_json v) m) m rows)" for m
    by (induction rows arbitrary: m) (simp_all add: bt_wf_insert)
  then show ?thesis by (simp add: symbol_entries_def)
qed

lemma set_symbol_entries:
  assumes "distinct (map py_key rows)"
  shows "set (symbol_entries rows) = symbol_entry ` set rows"
proof -
  have d: "distinct (map fst (map symbol_entry rows))" using assms by (simp add: o_def)
  have "(k, j) \<in> set (symbol_entries rows) \<longleftrightarrow> (k, j) \<in> set (map symbol_entry rows)" for k j
    using bt.in_entries_iff [OF symbol_entries_wf, of k j rows] symbol_entries_get [OF assms, of "[]" k]
      map_of_eq_Some_iff [OF d, of k j]
    by (simp add: symbol_entries_def split: option.splits)
  then show ?thesis by auto
qed

lemma symbol_entries_rows:
  assumes "distinct (map py_key rows)"
  shows "\<exists>vs. symbol_entries rows = map symbol_entry vs \<and> set vs = set rows"
proof (intro exI conjI)
  have inj: "inj_on symbol_entry (set rows)" using assms by (auto simp: distinct_map inj_on_def)
  let ?vs = "map (inv_into (set rows) symbol_entry) (symbol_entries rows)"
  show "symbol_entries rows = map symbol_entry ?vs"
    unfolding map_map
    by (rule map_idI [symmetric]) (simp only: o_apply set_symbol_entries [OF assms], erule f_inv_into_f)
  show "set ?vs = set rows"
    using inv_into_image_cancel [OF inj subset_refl] by (simp add: set_symbol_entries [OF assms])
qed

lemma symbol_json_fields:
  "Option.bind (json_get ''productId'' (symbol_json v)) as_u64 = Some (ucast (py_product_id v))"
  "Option.bind (json_get ''symbol'' (symbol_json v)) as_str = Some (py_symbol v)"
  "ucast (ucast (py_product_id v) :: u64) = py_product_id v"
proof -
  show "ucast (ucast (py_product_id v) :: u64) = py_product_id v" by (rule bit_word_eqI) (auto simp: bit_simps)
qed (simp_all add: symbol_json_def ju32_def)

lemma names_of_rows:
  "if \<exists>v\<in>set vs. py_product_id v = pid
   then \<exists>v\<in>set vs. py_product_id v = pid \<and>
     hm_get (foldl (\<lambda>m v. hm_insert (py_product_id v) (py_symbol v) m) m vs) pid = Some (py_symbol v)
   else hm_get (foldl (\<lambda>m v. hm_insert (py_product_id v) (py_symbol v) m) m vs) pid = hm_get m pid"
proof (induction vs rule: rev_induct)
  case (snoc v vs)
  show ?case
  proof (cases "py_product_id v = pid")
    case True
    then show ?thesis by (auto simp: hm_get_insert)
  next
    case False
    then show ?thesis using snoc by (auto simp: hm_get_insert)
  qed
qed simp

text \<open>The symbols of one answer: the section's entries, and the names the other sections use.\<close>

lemma symbols_named:
  assumes "distinct (map py_key rows)"
    and hints: "\<And>pid. hm_get hints pid = (if pid \<in> P then Some (perp_name pid) else None)"
  shows "if \<exists>v\<in>set rows. py_product_id v = pid
    then \<exists>v\<in>set rows. py_product_id v = pid \<and>
      market_name (symbol_names hints (JObject [(''symbols'', JObject (symbol_entries rows))])) pid = py_symbol v
    else market_name (symbol_names hints (JObject [(''symbols'', JObject (symbol_entries rows))])) pid = perp_name pid"
proof -
  obtain vs where vs: "symbol_entries rows = map symbol_entry vs" "set vs = set rows"
    using symbol_entries_rows [OF assms(1)] by blast
  have "symbol_names hints (JObject [(''symbols'', JObject (symbol_entries rows))]) =
      foldl (\<lambda>m v. hm_insert (py_product_id v) (py_symbol v) m) hints vs"
    unfolding vs(1) by (simp add: symbol_names_def foldl_map symbol_json_fields)
  then have names: "market_name (symbol_names hints (JObject [(''symbols'', JObject (symbol_entries rows))])) pid =
      unwrap_or (perp_name pid) (hm_get (foldl (\<lambda>m v. hm_insert (py_product_id v) (py_symbol v) m) hints vs) pid)"
    by (simp add: market_name_def)
  note N = names_of_rows [of vs pid hints, unfolded vs(2)]
  show ?thesis
  proof (cases "\<exists>v\<in>set rows. py_product_id v = pid")
    case True
    obtain v where "v \<in> set rows" "py_product_id v = pid"
        "hm_get (foldl (\<lambda>m v. hm_insert (py_product_id v) (py_symbol v) m) hints vs) pid = Some (py_symbol v)"
      using N unfolding if_P [OF True] by blast
    then show ?thesis unfolding if_P [OF True] names by (intro bexI [of _ v]) simp_all
  next
    case False
    show ?thesis using N hints [of pid] unfolding if_not_P [OF False] names by simp
  qed
qed

text \<open>The rows of the price sections.\<close>

definition market_price_row :: "market_price \<Rightarrow> json" where
  "market_price_row p = JObject
     [(''productId'', ju32 (mp_product_id p)), (''bid'', jf64 (x18_to_f64 (mp_bid p))),
      (''ask'', jf64 (x18_to_f64 (mp_ask p))),
      (''markPrice'', jf64 (f_div (f_add (x18_to_f64 (mp_bid p)) (x18_to_f64 (mp_ask p))) (f_of_int 2)))]"

definition oracle_price_row :: "oracle_price \<Rightarrow> json" where
  "oracle_price_row p = JObject
     [(''productId'', ju32 (op_product_id p)), (''oraclePrice'', jf64 (x18_to_f64 (op_price p))),
      (''updateTime'', ju64 (op_update_time p))]"

definition answered :: "'a list option \<Rightarrow> 'a list" where
  "answered r = (case r of None \<Rightarrow> [] | Some xs \<Rightarrow> xs)"

lemma answered_simps [simp]: "answered None = []" "answered (Some xs) = xs"
  by (simp_all add: answered_def)

lemma price_sections:
  "map_latest_market_prices r = JArray (map market_price_row (answered r))"
  "map_latest_oracle_prices r' = JArray (map oracle_price_row (answered r'))"
  by (simp_all add: map_latest_market_prices_def map_latest_oracle_prices_def market_price_row_def
      oracle_price_row_def answered_def Let_def split: option.split)

lemma isolated_section: "map_isolated_positions r names = JArray (map (isolated_json names) (answered r))"
  by (simp add: map_isolated_positions_def answered_def split: option.split)

lemma orders_section:
  assumes "\<forall>os. r = Some os \<longrightarrow> list_all whole_order os"
  shows "map_orders hex r names =
    Some (JArray (map (\<lambda>o'. order_json hex names o' (open_amount o')) (filter is_listed (answered r))))"
proof (cases r)
  case (Some os)
  then have "list_all amounts_in_range os" "\<not> (\<exists>o'\<in>set os. ho_amount o' = i128_min \<or> ho_closed_amount o' = i128_min)"
    using assms by (auto simp: list_all_iff whole_order_def)
  then show ?thesis by (simp add: Some map_orders_def answered_def order_rows_eq)
qed (simp add: map_orders_def answered_def)

lemma funding_section:
  "map_funding r = JObject
     [(''fundingPayments'', JArray (map payment_json (answered (map_option fr_funding_payments r)))),
      (''interestPayments'', JArray (map payment_json (answered (map_option fr_interest_payments r))))]"
  by (simp add: map_funding_def answered_def split: option.split)

lemma symbols_section:
  "fetch_symbols_value get pids =
     JObject [(''symbols'', JObject (symbol_entries (if pids = [] then [] else answered (res_ok (get pids)))))]"
  by (simp add: fetch_symbols_value_def symbol_entries_def answered_def res_ok_def split: sum.split)

text \<open>C29: one fetch of the portfolio. It fails exactly when the account itself cannot be fetched, with the exchange's
  message. Otherwise, with amounts above the least i128 and symbols listed once each, it gives a payload for the very
  subaccount, in which each section has one row for each element of its own query's answer, in order, and none when
  the query failed: the symbols and the oracle prices are asked for the products the account has, market prices and
  payments for its perpetual ones, each only when there is such a product; isolated positions, at most 200 orders (of
  which the open ones are listed) and 120 matches for the subaccount. The positions are the account's balances that are
  not zero and whose product is described. Every product is named as its symbol in the answer, or by its number.\<close>

theorem fetch_portfolio_payload_correct:
  assumes sub: "sub = concat_to_bytes32 owner (to_bytes12 (as_bytes name))"
    and perps: "\<forall>info. px_info x sub = Inr info \<longrightarrow>
      (\<forall>b\<in>set (sa_perp_balances info). in_i128 (pb_amount b) \<and> pb_amount b \<noteq> i128_min)"
    and orders: "\<forall>os. px_orders x sub 200 = Some os \<longrightarrow> list_all whole_order os"
    and keys: "\<forall>pids rows. px_symbols x pids = Inr rows \<longrightarrow> distinct (map py_key rows)"
  shows "case px_info x sub of
      Inl err \<Rightarrow> fetch_portfolio_payload hex x owner name =
        Some (Err (Pf_Upstream (''failed to fetch subaccount summary: '' @ err)))
    | Inr info \<Rightarrow> \<exists>pl pids perps names.
        fetch_portfolio_payload hex x owner name = Some (Ok pl) \<and>
        sorted_wrt (<) pids \<and> set pids = spot_ids info \<union> perp_ids info \<and>
        sorted_wrt (<) perps \<and> set perps = perp_ids info \<and>
        (let symbols = (if pids = [] then [] else answered (res_ok (px_symbols x pids)));
             payments = (if perps = [] then None else px_funding x sub perps 300) in
         pl_owner_address pl = ''0x'' @ hex owner \<and> pl_subaccount pl = ''0x'' @ hex sub \<and>
         pl_subaccount_name pl = name \<and> pl_summary pl = fst (map_summary hex info) \<and>
         (\<exists>entries. pl_symbols pl = JObject [(''symbols'', JObject entries)] \<and>
            set entries = (\<lambda>v. (py_key v, symbol_json v)) ` set symbols) \<and>
         (\<forall>pid. if \<exists>v\<in>set symbols. py_product_id v = pid
            then \<exists>v\<in>set symbols. py_product_id v = pid \<and> market_name names pid = py_symbol v
            else market_name names pid = perp_name pid) \<and>
         pl_positions pl =
           JArray (map (\<lambda>(i, b, p). position_json names i b p \<bar>pb_amount b\<bar>) (open_positions info)) \<and>
         pl_isolated_positions pl = JArray (map (isolated_json names) (answered (px_isolated x sub))) \<and>
         pl_orders pl = JArray (map (\<lambda>o'. order_json hex names o' (open_amount o'))
           (filter is_listed (answered (px_orders x sub 200)))) \<and>
         pl_trades pl = map_trades hex (px_matches x sub 120) \<and>
         pl_funding pl = JObject
           [(''fundingPayments'', JArray (map payment_json (answered (map_option fr_funding_payments payments)))),
            (''interestPayments'', JArray (map payment_json (answered (map_option fr_interest_payments payments))))] \<and>
         pl_latest_market_prices pl =
           JArray (map market_price_row (if perps = [] then [] else answered (px_market_prices x perps))) \<and>
         pl_latest_oracle_prices pl =
           JArray (map oracle_price_row (if pids = [] then [] else answered (px_oracle_prices x pids)))) \<and>
        pl_pnl pl = map_pnl (pl_summary pl) (pl_positions pl) (pl_trades pl) \<and>
        pl_risk pl = map_risk (pl_summary pl) \<and> pl_account_snapshot pl = None"
proof (cases "px_info x sub")
  case (Inl err)
  then show ?thesis by (simp add: fetch_portfolio_payload_def sub)
next
  case (Inr info)
  obtain summary pids perp_pids hints where m: "map_summary hex info = (summary, pids, perp_pids, hints)"
    by (metis prod_cases4)
  note ids = summary_ids [OF m]
  define symbols where "symbols = (if pids = [] then [] else answered (res_ok (px_symbols x pids)))"
  have distinct: "distinct (map py_key symbols)"
    using keys by (auto simp: symbols_def answered_def res_ok_def split: sum.splits)
  let ?symbols = "JObject [(''symbols'', JObject (symbol_entries symbols))]"
  have listed: "fetch_symbols_value (px_symbols x) pids = ?symbols"
    by (simp add: symbols_section symbols_def)
  let ?names = "symbol_names hints ?symbols"
  have pos: "map_positions info ?names = Some (JArray
      (map (\<lambda>(i, b, p). position_json ?names i b p \<bar>pb_amount b\<bar>) (open_positions info)))"
    using perps Inr by (intro map_positions_eq) simp
  note sections = orders_section [OF orders, of hex ?names] isolated_section [of "px_isolated x sub" ?names]
    price_sections funding_section
  note named = symbols_named [OF distinct ids(5)]
  define pl where "pl =
     \<lparr>pl_owner_address = ''0x'' @ hex owner, pl_subaccount_name = name, pl_subaccount = ''0x'' @ hex sub,
      pl_summary = summary,
      pl_positions = JArray (map (\<lambda>(i, b, p). position_json ?names i b p \<bar>pb_amount b\<bar>) (open_positions info)),
      pl_orders = JArray (map (\<lambda>o'. order_json hex ?names o' (open_amount o'))
        (filter is_listed (answered (px_orders x sub 200)))),
      pl_trades = map_trades hex (px_matches x sub 120),
      pl_funding = map_funding (if perp_pids = [] then None else px_funding x sub perp_pids 300),
      pl_pnl = map_pnl summary
        (JArray (map (\<lambda>(i, b, p). position_json ?names i b p \<bar>pb_amount b\<bar>) (open_positions info)))
        (map_trades hex (px_matches x sub 120)),
      pl_risk = map_risk summary, pl_symbols = ?symbols, pl_account_snapshot = None,
      pl_isolated_positions = map_isolated_positions (px_isolated x sub) ?names,
      pl_latest_market_prices = map_latest_market_prices (if perp_pids = [] then None else px_market_prices x perp_pids),
      pl_latest_oracle_prices = map_latest_oracle_prices (if pids = [] then None else px_oracle_prices x pids)\<rparr>"
  have pl: "fetch_portfolio_payload hex x owner name = Some (Ok pl)"
    using Inr m pos sections(1) unfolding sub [symmetric]
    by (simp add: fetch_portfolio_payload_def Let_def sub [symmetric] listed pl_def)
  show ?thesis
    unfolding Inr sum.case Let_def
    by (intro exI [of _ pl] exI [of _ pids] exI [of _ perp_pids] exI [of _ ?names] conjI allI)
      (use pl ids(1-4) sections m named set_symbol_entries [OF distinct] in
        \<open>simp_all add: symbols_def [symmetric] pl_def\<close>)
qed

definition demo_exchange :: pf_exchange where
  "demo_exchange =
     \<lparr>px_info = (\<lambda>_. Inr demo_info), px_symbols = (\<lambda>_. Inl ''down''), px_isolated = (\<lambda>_. None),
      px_orders = (\<lambda>_ _. None), px_matches = (\<lambda>_ _. None), px_funding = (\<lambda>_ _ _. None),
      px_market_prices = (\<lambda>_. None), px_oracle_prices = (\<lambda>_. None)\<rparr>"

lemma ids_images:
  "spot_ids info = sb_product_id ` set (filter (\<lambda>b. hm_get (spot_by_id info) (sb_product_id b) \<noteq> None) (sa_spot_balances info))"
  "perp_ids info = pb_product_id ` set (filter (\<lambda>b. hm_get (perp_by_id info) (pb_product_id b) \<noteq> None) (sa_perp_balances info))"
  by (auto simp: spot_ids_def perp_ids_def)

theorem fetch_portfolio_payload_correct_witness:
  "\<exists>pl price. fetch_portfolio_payload (\<lambda>_. []) (demo_exchange
       \<lparr>px_symbols := \<lambda>_. Inr [\<lparr>py_key = ''BTC'', py_product_type = ''perp'', py_product_id = 2, py_symbol = ''BTC-PERP''\<rparr>],
        px_orders := \<lambda>_ _. Some [filled_order], px_oracle_prices := \<lambda>_. Some [price]\<rparr>) [] ''a'' = Some (Ok pl) \<and>
     (\<exists>order. pl_orders pl = JArray [order] \<and> json_get ''market'' order = Some (JString ''BTC-PERP'')) \<and>
     pl_latest_oracle_prices pl = JArray [oracle_price_row price] \<and> pl_latest_market_prices pl = JArray []"
proof -
  let ?btc = "\<lparr>py_key = ''BTC'', py_product_type = ''perp'', py_product_id = 2, py_symbol = ''BTC-PERP''\<rparr>"
  let ?price = "\<lparr>op_product_id = 2, op_price = 3, op_update_time = 9\<rparr>"
  let ?x = "demo_exchange\<lparr>px_symbols := \<lambda>_. Inr [?btc], px_orders := \<lambda>_ _. Some [filled_order],
    px_oracle_prices := \<lambda>_. Some [?price]\<rparr>"
  have ids: "spot_ids demo_info \<union> perp_ids demo_info = {2}" "perp_ids demo_info = {2}"
    by (simp_all add: ids_images demo_info_def perp_by_id_def spot_by_id_def hm_get_def)
  have order: "list_all whole_order [filled_order]" "filter is_listed [filled_order] = [filled_order]"
    by (simp_all add: filled_order_def whole_order_def amounts_in_range_def in_i128_def i128_min_def i128_max_def
        is_listed_def open_amount_def)
  let ?sub = "concat_to_bytes32 [] (to_bytes12 (as_bytes ''a''))"
  have h: "\<forall>info. px_info ?x ?sub = Inr info \<longrightarrow>
        (\<forall>b\<in>set (sa_perp_balances info). in_i128 (pb_amount b) \<and> pb_amount b \<noteq> i128_min)"
      "\<forall>os. px_orders ?x ?sub 200 = Some os \<longrightarrow> list_all whole_order os"
      "\<forall>pids rows. px_symbols ?x pids = Inr rows \<longrightarrow> distinct (map py_key rows)"
    using order by (simp_all add: demo_exchange_def demo_info_def in_i128_def i128_min_def i128_max_def)
  have info: "px_info ?x ?sub = Inr demo_info" by (simp add: demo_exchange_def)
  obtain pl pids perps names where pl: "fetch_portfolio_payload (\<lambda>_. []) ?x [] ''a'' = Some (Ok pl)"
    "set pids = spot_ids demo_info \<union> perp_ids demo_info"
    "\<forall>pid. if \<exists>v\<in>set (if pids = [] then [] else answered (res_ok (px_symbols ?x pids))). py_product_id v = pid
       then \<exists>v\<in>set (if pids = [] then [] else answered (res_ok (px_symbols ?x pids))).
         py_product_id v = pid \<and> market_name names pid = py_symbol v
       else market_name names pid = perp_name pid"
    "pl_orders pl = JArray (map (\<lambda>o'. order_json (\<lambda>_. []) names o' (open_amount o'))
       (filter is_listed (answered (px_orders ?x ?sub 200))))"
    "pl_latest_market_prices pl =
       JArray (map market_price_row (if perps = [] then [] else answered (px_market_prices ?x perps)))"
    "pl_latest_oracle_prices pl =
       JArray (map oracle_price_row (if pids = [] then [] else answered (px_oracle_prices ?x pids)))"
    using fetch_portfolio_payload_correct [OF refl h, of "\<lambda>_. []", unfolded info sum.case Let_def]
    by (elim exE conjE) (rule that)
  have pids: "pids \<noteq> []" using pl(2) ids(1) by auto
  then have names: "market_name names 2 = ''BTC-PERP''"
    using pl(3) [rule_format, of 2] by (simp add: res_ok_def)
  have "json_get ''market'' (order_json (\<lambda>_. []) names filled_order (open_amount filled_order)) = Some (JString ''BTC-PERP'')"
    using names by (simp add: order_json_def Let_def filled_order_def)
  then show ?thesis
    using pl(1,4-6) pids order(2)
    by (intro exI [of _ pl] exI [of _ ?price]) (simp add: demo_exchange_def)
qed

end
