(* ===== verification/PortfolioGateway.thy ===== *)
theory PortfolioGateway
  imports PortfolioData
begin

text \<open>
  The sessions of the portfolio gateway (gateway/portfolio/src/main.rs, config.rs): the loop of a websocket
  client with the numbers and the pace of its updates, the worker that keeps the exchange's subscription, the
  configuration, and the request for a single snapshot. The payload itself is in the theory PortfolioData.
\<close>

subsection \<open>Websocket clients\<close>

text \<open>
  A client gets a snapshot, and then an update on every tick of the poll timer and on every
  signal of the subscription that is not within the debounce interval of the last one that counted.
  Every event comes with the fetch it would make (one that returns: where the fetch panics the task
  of the client dies without counting itself out), the wall clock and the monotonic clock in milliseconds, and whether sending in its round
  succeeds.
\<close>

datatype pf_message =
    PM_Snapshot u64 u64 string pf_payload
  | PM_Update u64 u64 string pf_payload
  | PM_Status string string u64
  | PM_Error string
  | PM_Pong u64

datatype pf_signal = Sig_Event | Sig_Disconnected string

datatype pf_event =
    Pe_Tick
  | Pe_Signal pf_signal
  | Pe_UpstreamEnded
  | Pe_Socket socket_event

record pf_round_env =
  pr_event :: pf_event
  pr_fetch :: "pf_error + pf_payload"
  pr_now :: u64
  pr_instant :: int
  pr_sent :: bool

record pf_session =
  pn_seq :: u64
  pn_last_refresh :: int
  pn_sent :: "pf_message out_frame list"

definition pf_send :: "bool \<Rightarrow> pf_message out_frame \<Rightarrow> pf_session \<Rightarrow> pf_session option" where
  "pf_send sent f s = (if sent then Some (s\<lparr>pn_sent := pn_sent s @ [f]\<rparr>) else None)"

text \<open>A refresh that fails is a status; it uses up its number all the same.\<close>

definition send_update :: "pf_round_env \<Rightarrow> string \<Rightarrow> pf_session \<Rightarrow> pf_session option" where
  "send_update r cause s =
     (case pr_fetch r of
        Inr portfolio \<Rightarrow>
          pf_send (pr_sent r) (Out_Json (PM_Update (pn_seq s) (pr_now r) cause portfolio)) s
      | Inl err \<Rightarrow>
          pf_send (pr_sent r) (Out_Json (PM_Status ''refresh_failed'' (format_error err) (pr_now r))) s)"

definition next_seq_sat :: "u64 \<Rightarrow> u64" where
  "next_seq_sat n = (if n = - 1 then - 1 else n + 1)"

text \<open>One round of the loop; None is the end of the client.\<close>

definition pf_round ::
  "u64 \<Rightarrow> (string \<Rightarrow> client_message option) \<Rightarrow> pf_round_env \<Rightarrow> pf_session \<Rightarrow> pf_session option" where
  "pf_round debounce from_text r s =
     (case pr_event r of
        Pe_Tick \<Rightarrow> send_update r ''poll'' (s\<lparr>pn_seq := next_seq_sat (pn_seq s)\<rparr>)
      | Pe_Signal Sig_Event \<Rightarrow>
          (let elapsed_ms = (of_nat (nat (pr_instant r - pn_last_refresh s)) :: u64) in
           if elapsed_ms < debounce then Some s
           else send_update r ''event''
             (s\<lparr>pn_last_refresh := pr_instant r, pn_seq := next_seq_sat (pn_seq s)\<rparr>))
      | Pe_Signal (Sig_Disconnected detail) \<Rightarrow>
          pf_send (pr_sent r) (Out_Json (PM_Status ''degraded''
            (''upstream subscription disconnected ('' @ detail @ ''); polling fallback active'') (pr_now r))) s
      | Pe_UpstreamEnded \<Rightarrow>
          pf_send (pr_sent r) (Out_Json (PM_Status ''degraded''
            ''upstream subscription disconnected; polling fallback active'' (pr_now r))) s
      | Pe_Socket ev \<Rightarrow>
          (case socket_round PM_Pong PM_Error from_text (pr_now r) ev of
             None \<Rightarrow> None
           | Some None \<Rightarrow> Some s
           | Some (Some f) \<Rightarrow> pf_send (pr_sent r) f s))"

text \<open>The rounds of a client, None when one of them ended it.\<close>

fun pf_rounds ::
  "u64 \<Rightarrow> (string \<Rightarrow> client_message option) \<Rightarrow> pf_round_env list \<Rightarrow> pf_session \<Rightarrow> pf_session option" where
  "pf_rounds debounce from_text [] s = Some s"
| "pf_rounds debounce from_text (r # rs) s =
     Option.bind (pf_round debounce from_text r s) (pf_rounds debounce from_text rs)"

definition pf_start :: "u64 \<Rightarrow> u64 \<Rightarrow> int \<Rightarrow> pf_payload \<Rightarrow> pf_session" where
  "pf_start debounce now instant portfolio =
     \<lparr>pn_seq = 1, pn_last_refresh = instant - int (unat debounce),
      pn_sent = [Out_Json (PM_Snapshot 1 now ''initial'' portfolio)]\<rparr>"

text \<open>
  The handler with its count of active clients: what was sent, whether the client is still
  there, and the count after it.
\<close>

definition handle_portfolio_client ::
  "u64 \<Rightarrow> (string \<Rightarrow> client_message option) \<Rightarrow> pf_error + pf_payload \<Rightarrow> bool \<Rightarrow> u64 \<Rightarrow> int \<Rightarrow>
     pf_round_env list \<Rightarrow> u64 \<Rightarrow> pf_session option \<times> u64" where
  "handle_portfolio_client debounce from_text initial first_sent now instant rounds active =
     (let active = active + 1 in
      case initial of
        Inr portfolio \<Rightarrow>
          if \<not> first_sent then (None, active - 1)
          else
            (case pf_rounds debounce from_text rounds (pf_start debounce now instant portfolio) of
               Some s \<Rightarrow> (Some s, active)
             | None \<Rightarrow> (None, active - 1))
      | Inl err \<Rightarrow> (None, active - 1))"

subsection \<open>The numbers and the pace of a client's updates\<close>

fun update_seq :: "pf_message out_frame \<Rightarrow> u64 option" where
  "update_seq (Out_Json (PM_Snapshot n _ _ _)) = Some n"
| "update_seq (Out_Json (PM_Update n _ _ _)) = Some n"
| "update_seq f = None"

definition update_seqs :: "pf_session \<Rightarrow> u64 list" where
  "update_seqs s = keep_some (map update_seq (pn_sent s))"

lemma keep_some_simps [simp]:
  "keep_some [] = []" "keep_some (None # xs) = keep_some xs" "keep_some (Some x # xs) = x # keep_some xs"
  "keep_some (xs @ ys) = keep_some xs @ keep_some ys"
  by (simp_all add: keep_some_def)

definition count_ticks :: "pf_round_env list \<Rightarrow> nat" where
  "count_ticks rs = length (filter (\<lambda>r. pr_event r = Pe_Tick) rs)"

text \<open>
  The invariant: the numbers sent ascend and are at most the current one, which counts the snapshot, the
  ticks and the refreshes for events, and those are at least the debounce interval apart.
\<close>

definition paced :: "nat \<Rightarrow> int \<Rightarrow> nat \<Rightarrow> pf_session \<Rightarrow> bool" where
  "paced d start ticks s \<longleftrightarrow>
     (\<exists>later. update_seqs s = 1 # later) \<and> sorted_wrt (<) (update_seqs s) \<and> (\<forall>n\<in>set (update_seqs s). n \<le> pn_seq s) \<and>
     (\<exists>events. unat (pn_seq s) = 1 + ticks + events \<and> int d * int events \<le> pn_last_refresh s - start)"

lemma next_seq_sat_less:
  "unat n < 2 ^ 64 - 1 \<Longrightarrow> unat (next_seq_sat n) = Suc (unat n) \<and> n < next_seq_sat n"
proof -
  assume n: "unat n < 2 ^ 64 - 1"
  have "unat (- 1 :: u64) = 2 ^ 64 - 1" by (simp add: unsigned_minus_1_eq_mask mask_eq_exp_minus_1)
  then have ne: "n \<noteq> - 1" using n by auto
  then have "unat (n + 1) = Suc (unat n)"
    by (metis add.commute add.inverse_inverse add_eq_0_iff unatSuc)
  then show ?thesis using ne by (simp add: next_seq_sat_def word_less_nat_alt)
qed

lemma update_seqs_send:
  "pf_send sent f s = Some s' \<Longrightarrow>
     update_seqs s' = update_seqs s @ (case update_seq f of None \<Rightarrow> [] | Some n \<Rightarrow> [n]) \<and>
     pn_seq s' = pn_seq s \<and> pn_last_refresh s' = pn_last_refresh s"
  by (auto simp: pf_send_def update_seqs_def split: if_splits option.splits)

lemma paced_send:
  "pf_send sent f s = Some s' \<Longrightarrow> update_seq f = None \<Longrightarrow> paced d start ticks s \<Longrightarrow> paced d start ticks s'"
  using update_seqs_send [of sent f s s'] by (simp add: paced_def)

lemma send_update_seqs:
  assumes "send_update r cause s = Some s'"
  shows "(update_seqs s' = update_seqs s \<or> update_seqs s' = update_seqs s @ [pn_seq s]) \<and>
    pn_seq s' = pn_seq s \<and> pn_last_refresh s' = pn_last_refresh s"
proof -
  obtain f where f: "pf_send (pr_sent r) f s = Some s'" "update_seq f = None \<or> update_seq f = Some (pn_seq s)"
    using assms by (auto simp: send_update_def split: option.splits sum.splits)
  then show ?thesis using update_seqs_send [OF f(1)] by auto
qed

lemma paced_update:
  assumes up: "send_update r cause (s\<lparr>pn_last_refresh := l, pn_seq := next_seq_sat (pn_seq s)\<rparr>) = Some s'"
    and paced: "paced d start ticks s" and room: "unat (pn_seq s) < 2 ^ 64 - 1"
    and step: "int d * int e \<le> l - pn_last_refresh s" and one: "t + e = 1"
  shows "paced d start (ticks + t) s'"
proof -
  let ?n = "next_seq_sat (pn_seq s)"
  have n: "unat ?n = Suc (unat (pn_seq s))" "pn_seq s < ?n" using next_seq_sat_less [OF room] by simp_all
  have s': "update_seqs s' = update_seqs s \<or> update_seqs s' = update_seqs s @ [?n]"
    "pn_seq s' = ?n" "pn_last_refresh s' = l"
    using send_update_seqs [OF up] by (simp_all add: update_seqs_def)
  obtain events where ev: "unat (pn_seq s) = 1 + ticks + events" "int d * int events \<le> pn_last_refresh s - start"
    using paced by (auto simp: paced_def)
  have below: "\<forall>k\<in>set (update_seqs s). k < ?n"
    using paced n(2) by (auto simp: paced_def intro: le_less_trans)
  have "\<exists>later. update_seqs s' = 1 # later" using s'(1) paced by (auto simp: paced_def)
  moreover have "sorted_wrt (<) (update_seqs s')" "\<forall>k\<in>set (update_seqs s'). k \<le> ?n"
    using s'(1) paced below by (auto simp: paced_def sorted_wrt_append less_imp_le)
  moreover have "unat ?n = 1 + (ticks + t) + (events + e)" using n(1) ev(1) one by simp
  moreover have "int d * int (events + e) \<le> l - start" using ev(2) step by (simp add: distrib_left)
  ultimately show ?thesis using s'(2,3) unfolding paced_def by metis
qed

lemma elapsed_bound:
  assumes "\<not> (of_nat (nat x) :: u64) < d" "0 \<le> x"
  shows "int (unat d) \<le> x"
proof -
  have "unat d \<le> unat (of_nat (nat x) :: u64)" using assms(1) by (simp add: word_le_nat_alt not_less)
  also have "\<dots> \<le> nat x" by (simp add: unat_of_nat)
  finally have "int (unat d) \<le> int (nat x)" by (simp only: of_nat_le_iff)
  then show ?thesis using assms(2) by (simp only: nat_0_le)
qed

lemma paced_round:
  assumes "pf_round debounce from_text r s = Some s'" "paced (unat debounce) start ticks s"
    and "unat (pn_seq s) < 2 ^ 64 - 1" "pn_last_refresh s \<le> pr_instant r"
  shows "paced (unat debounce) start (ticks + (if pr_event r = Pe_Tick then 1 else 0)) s' \<and>
    unat (pn_seq s') \<le> Suc (unat (pn_seq s)) \<and> pn_last_refresh s' \<in> {pn_last_refresh s, pr_instant r}"
proof -
  have quiet: "paced (unat debounce) start ticks s' \<and> unat (pn_seq s') \<le> Suc (unat (pn_seq s)) \<and>
      pn_last_refresh s' = pn_last_refresh s"
    if "pf_send (pr_sent r) f s = Some s'" "update_seq f = None" for f
    using paced_send [OF that assms(2)] update_seqs_send [OF that(1)] by simp
  show ?thesis
  proof (cases "pr_event r")
    case Pe_Tick
    then have up: "send_update r ''poll''
        (s\<lparr>pn_last_refresh := pn_last_refresh s, pn_seq := next_seq_sat (pn_seq s)\<rparr>) = Some s'"
      using assms(1) by (simp add: pf_round_def)
    show ?thesis
      using paced_update [OF up assms(2,3), of 0 1] send_update_seqs [OF up] next_seq_sat_less [OF assms(3)] Pe_Tick
      by simp
  next
    case (Pe_Signal sig)
    show ?thesis
    proof (cases sig)
      case Sig_Event
      show ?thesis
      proof (cases "(of_nat (nat (pr_instant r - pn_last_refresh s)) :: u64) < debounce")
        case True
        then show ?thesis using assms(1,2) Pe_Signal Sig_Event by (simp add: pf_round_def)
      next
        case False
        then have up: "send_update r ''event''
            (s\<lparr>pn_last_refresh := pr_instant r, pn_seq := next_seq_sat (pn_seq s)\<rparr>) = Some s'"
          using assms(1) Pe_Signal Sig_Event by (simp add: pf_round_def)
        have "int (unat debounce) * int 1 \<le> pr_instant r - pn_last_refresh s"
          using elapsed_bound [OF False] assms(4) by simp
        then show ?thesis
          using paced_update [OF up assms(2,3), of 1 0] send_update_seqs [OF up]
            next_seq_sat_less [OF assms(3)] Pe_Signal by simp
      qed
    next
      case (Sig_Disconnected detail)
      then show ?thesis using assms(1) Pe_Signal quiet by (simp add: pf_round_def)
    qed
  next
    case Pe_UpstreamEnded
    then show ?thesis using assms(1) quiet by (simp add: pf_round_def)
  next
    case (Pe_Socket ev)
    then show ?thesis
      using assms(1,2) quiet
      by (auto simp: pf_round_def socket_round_def split: socket_event.splits option.splits client_message.splits)
  qed
qed

lemma paced_rounds:
  assumes "pf_rounds debounce from_text rs s = Some s'" "paced (unat debounce) start ticks s"
    and "unat (pn_seq s) + length rs < 2 ^ 64 - 1"
    and "sorted (map pr_instant rs)" "\<forall>r\<in>set rs. pn_last_refresh s \<le> pr_instant r"
  shows "paced (unat debounce) start (ticks + count_ticks rs) s'"
  using assms
proof (induction rs arbitrary: s ticks)
  case (Cons r rs)
  obtain s1 where s1: "pf_round debounce from_text r s = Some s1" "pf_rounds debounce from_text rs s1 = Some s'"
    using Cons.prems(1) by (auto simp: bind_eq_Some_conv)
  have round: "paced (unat debounce) start (ticks + (if pr_event r = Pe_Tick then 1 else 0)) s1"
    "unat (pn_seq s1) \<le> Suc (unat (pn_seq s))" "pn_last_refresh s1 \<in> {pn_last_refresh s, pr_instant r}"
    using paced_round [OF s1(1) Cons.prems(2)] Cons.prems(3,5) by auto
  have "paced (unat debounce) start (ticks + (if pr_event r = Pe_Tick then 1 else 0) + count_ticks rs) s'"
    using Cons.prems(3-5) round(2,3) by (intro Cons.IH [OF s1(2) round(1)]) auto
  then show ?case by (simp add: count_ticks_def split: if_splits)
qed (simp add: count_ticks_def)

lemma send_update_sent: "send_update r cause s = Some s' \<Longrightarrow> \<exists>fs. pn_sent s' = pn_sent s @ fs"
  by (auto simp: send_update_def pf_send_def split: option.splits sum.splits if_splits)

lemma pf_round_sent:
  assumes "pf_round debounce from_text r s = Some s'"
  shows "\<exists>fs. pn_sent s' = pn_sent s @ fs"
proof -
  have "\<exists>fs. pn_sent s' = pn_sent s @ fs" if "send_update r cause (s\<lparr>pn_seq := n\<rparr>) = Some s'" for cause n
    using send_update_sent [OF that] by simp
  moreover have "\<exists>fs. pn_sent s' = pn_sent s @ fs"
    if "send_update r cause (s\<lparr>pn_last_refresh := l, pn_seq := n\<rparr>) = Some s'" for cause l n
    using send_update_sent [OF that] by simp
  ultimately show ?thesis
    using assms
    by (auto simp: pf_round_def pf_send_def Let_def
        split: pf_event.splits pf_signal.splits option.splits if_splits)
qed

lemma pf_rounds_sent:
  "pf_rounds debounce from_text rs s = Some s' \<Longrightarrow> \<exists>fs. pn_sent s' = pn_sent s @ fs"
proof (induction rs arbitrary: s)
  case (Cons r rs)
  obtain s1 where s1: "pf_round debounce from_text r s = Some s1" "pf_rounds debounce from_text rs s1 = Some s'"
    using Cons.prems by (auto simp: bind_eq_Some_conv)
  then show ?case using pf_round_sent [OF s1(1)] Cons.IH [OF s1(2)] by auto
qed simp

text \<open>C30: what a client of the portfolio gateway is sent. As long as it is connected, the snapshot has the
  number 1 and the updates that follow have ascending numbers; the current number counts the snapshot,
  the ticks of the timer and the refreshes that a signal caused, whether they succeeded or
  not; and there are at most as many of the latter as debounce intervals fit into the time since
  the client came, and one more. The count of active clients is raised by one while it is connected and
  back where it was when it is gone.\<close>

theorem portfolio_client_correct:
  assumes "sorted (map pr_instant rs)" "\<forall>r\<in>set rs. instant \<le> pr_instant r" "length rs < 2 ^ 64 - 2"
  shows "case handle_portfolio_client debounce from_text (Inr portfolio) True now instant rs active of
      (None, active') \<Rightarrow> active' = active
    | (Some s, active') \<Rightarrow>
        active' = active + 1 \<and> hd (pn_sent s) = Out_Json (PM_Snapshot 1 now ''initial'' portfolio) \<and>
        sorted_wrt (<) (update_seqs s) \<and>
        (\<exists>events. unat (pn_seq s) = 1 + count_ticks rs + events \<and>
           int (unat debounce) * int events \<le> int (unat debounce) + (pn_last_refresh s - instant))"
proof (cases "pf_rounds debounce from_text rs (pf_start debounce now instant portfolio)")
  case None
  then show ?thesis by (simp add: handle_portfolio_client_def)
next
  case (Some s)
  let ?s0 = "pf_start debounce now instant portfolio"
  let ?start = "instant - int (unat debounce)"
  have "paced (unat debounce) ?start 0 ?s0" by (simp add: paced_def pf_start_def update_seqs_def)
  moreover have "unat (pn_seq ?s0) + length rs < 2 ^ 64 - 1" using assms(3) by (simp add: pf_start_def)
  moreover have "\<forall>r\<in>set rs. pn_last_refresh ?s0 \<le> pr_instant r"
  proof
    fix r assume "r \<in> set rs"
    then have "instant \<le> pr_instant r" using assms(2) by blast
    moreover have "pn_last_refresh ?s0 \<le> instant" by (simp add: pf_start_def)
    ultimately show "pn_last_refresh ?s0 \<le> pr_instant r" by linarith
  qed
  ultimately have paced: "paced (unat debounce) ?start (0 + count_ticks rs) s"
    using assms(1) by (intro paced_rounds [OF Some])
  have "\<exists>fs. pn_sent s = pn_sent ?s0 @ fs" by (rule pf_rounds_sent [OF Some])
  then have "hd (pn_sent s) = Out_Json (PM_Snapshot 1 now ''initial'' portfolio)" by (auto simp: pf_start_def)
  then show ?thesis
    using paced by (auto simp: handle_portfolio_client_def Some paced_def algebra_simps)
qed

definition demo_payload :: pf_payload where
  "demo_payload =
     \<lparr>pl_owner_address = [], pl_subaccount_name = [], pl_subaccount = [], pl_summary = JNull,
      pl_positions = JNull, pl_orders = JNull, pl_trades = JNull, pl_funding = JNull, pl_pnl = JNull,
      pl_risk = JNull, pl_symbols = JNull, pl_account_snapshot = None, pl_isolated_positions = JNull,
      pl_latest_market_prices = JNull, pl_latest_oracle_prices = JNull\<rparr>"

definition demo_rounds :: "pf_round_env list" where
  "demo_rounds =
     [\<lparr>pr_event = Pe_Tick, pr_fetch = Inr demo_payload, pr_now = 6, pr_instant = 10, pr_sent = True\<rparr>,
      \<lparr>pr_event = Pe_Signal Sig_Event, pr_fetch = Inr demo_payload, pr_now = 7, pr_instant = 11, pr_sent = True\<rparr>,
      \<lparr>pr_event = Pe_Signal Sig_Event, pr_fetch = Inr demo_payload, pr_now = 8, pr_instant = 12, pr_sent = True\<rparr>]"

theorem portfolio_client_correct_witness:
  "\<exists>s. handle_portfolio_client 750 (\<lambda>_. None) (Inr demo_payload) True 5 9 demo_rounds 2 = (Some s, 3) \<and>
     sorted_wrt (<) (update_seqs s)"
proof -
  have "sorted (map pr_instant demo_rounds)" "\<forall>r\<in>set demo_rounds. 9 \<le> pr_instant r"
    "length demo_rounds < 2 ^ 64 - 2"
    by (simp_all add: demo_rounds_def)
  note c = portfolio_client_correct [OF this, where debounce = 750 and from_text = "\<lambda>_. None" and portfolio = demo_payload and now = 5 and active = 2]
  have "pf_rounds 750 (\<lambda>_. None) demo_rounds (pf_start 750 5 9 demo_payload) \<noteq> None"
    by (simp add: demo_rounds_def pf_round_def pf_start_def send_update_def pf_send_def next_seq_sat_def Let_def)
  then obtain s where "pf_rounds 750 (\<lambda>_. None) demo_rounds (pf_start 750 5 9 demo_payload) = Some s" by auto
  then show ?thesis using c by (simp add: handle_portfolio_client_def)
qed

text \<open>
  When the upstream task is gone its end of the channel is replaced by a channel whose sender is dropped at
  once, so that it is at its end again immediately: every round that looks at it sends the same status again,
  without a pause.
\<close>

lemma ended_channel_floods:
  assumes "list_all (\<lambda>r. pr_event r = Pe_UpstreamEnded \<and> pr_sent r) rs"
  shows "\<exists>s'. pf_rounds debounce from_text rs s = Some s' \<and>
    pn_sent s' = pn_sent s @ map (\<lambda>r. Out_Json (PM_Status ''degraded''
      ''upstream subscription disconnected; polling fallback active'' (pr_now r))) rs"
  using assms
proof (induction rs arbitrary: s)
  case (Cons r rs)
  then show ?case
    using Cons.IH [of "s\<lparr>pn_sent := pn_sent s @ [Out_Json (PM_Status ''degraded''
      ''upstream subscription disconnected; polling fallback active'' (pr_now r))]\<rparr>"]
    by (simp add: pf_round_def pf_send_def)
qed simp

subsection \<open>The upstream subscription\<close>

text \<open>
  A text of the exchange's subscription: what is not JSON and the acknowledgements are passed over, an error
  ends the session, everything else is a signal to the client, if it is still there. Reading and printing JSON
  are the library's.
\<close>

definition process_upstream_event_text ::
  "(string \<Rightarrow> json option) \<Rightarrow> (json \<Rightarrow> string) \<Rightarrow> bool \<Rightarrow> string \<Rightarrow> string + pf_signal list" where
  "process_upstream_event_text from_text to_text listening msg =
     (case from_text msg of
        None \<Rightarrow> Ok []
      | Some v \<Rightarrow>
          (case json_get ''error'' v of
             Some e \<Rightarrow> Err (''upstream returned error: '' @ to_text e)
           | None \<Rightarrow>
               if json_get ''id'' v \<noteq> None \<and> json_get ''result'' v \<noteq> None then Ok []
               else if listening then Ok [Sig_Event]
               else Err ''local portfolio websocket channel closed while forwarding upstream update''))"

text \<open>
  The session over the frames that came so far: the signals it gave, and its error if it has ended. Each frame
  comes with whether the client's channel is open.
\<close>

fun upstream_event_ws ::
  "(bytes \<Rightarrow> string option) \<Rightarrow> (string \<Rightarrow> json option) \<Rightarrow> (json \<Rightarrow> string) \<Rightarrow> (ws_frame \<times> bool) list \<Rightarrow>
     pf_signal list \<times> string option" where
  "upstream_event_ws from_utf8 from_text to_text [] = ([], None)"
| "upstream_event_ws from_utf8 from_text to_text ((frame, listening) # fs) =
     (let handle = (\<lambda>bytes bad.
        case from_utf8 bytes of
          None \<Rightarrow> ([], Some bad)
        | Some msg \<Rightarrow>
            (case process_upstream_event_text from_text to_text listening msg of
               Inl err \<Rightarrow> ([], Some err)
             | Inr signals \<Rightarrow>
                 (let (more, res) = upstream_event_ws from_utf8 from_text to_text fs in (signals @ more, res))))
      in case frame of
           Frame_Text b \<Rightarrow> handle b ''received invalid utf8 text frame''
         | Frame_Binary b \<Rightarrow> handle b ''received non-utf8 binary frame''
         | Frame_Ping \<Rightarrow> upstream_event_ws from_utf8 from_text to_text fs
         | Frame_Pong \<Rightarrow> upstream_event_ws from_utf8 from_text to_text fs
         | Frame_Close f \<Rightarrow> ([], Some (''upstream websocket closed: '' @ f))
         | Frame_Error e \<Rightarrow> ([], Some (''upstream websocket read error: '' @ e)))"

text \<open>
  The fallback over the SDK's client: connecting, the two subscriptions, then a signal per event (each with whether the
  client's channel is open) until the stream ends.
\<close>

fun sdk_events :: "bool list \<Rightarrow> pf_signal list \<times> string" where
  "sdk_events [] = ([], ''upstream nado-sdk websocket stream closed while waiting for events'')"
| "sdk_events (listening # es) =
     (if listening then (let (signals, err) = sdk_events es in (Sig_Event # signals, err))
      else ([], ''local portfolio websocket channel closed while forwarding upstream update''))"

definition upstream_event_sdk ::
  "string \<Rightarrow> string + unit \<Rightarrow> (string + unit) list \<Rightarrow> bool list \<Rightarrow> pf_signal list \<times> string" where
  "upstream_event_sdk ws_url connect subscribes events =
     (case connect of
        Inl err \<Rightarrow> ([], ''failed connecting to upstream subscriptions WS ('' @ ws_url @ ''): '' @ err)
      | Inr _ \<Rightarrow>
          (case collect_res subscribes of
             Inl err \<Rightarrow> ([], ''failed sending subscribe payload via nado-sdk: '' @ err)
           | Inr _ \<Rightarrow> sdk_events events))"

definition upstream_event_session ::
  "pf_signal list \<times> string \<Rightarrow> pf_signal list \<times> string \<Rightarrow> pf_signal list \<times> string" where
  "upstream_event_session ratchet sdk =
     (fst ratchet @ fst sdk,
      ''upstream subscriptions failed (ratchet: '' @ snd ratchet @ ''; nado-sdk fallback: '' @ snd sdk @ '')'')"

text \<open>
  The worker: one session after another, each failure told to the client, with a pause in between that doubles
  from 1 to 15 seconds and starts over after a session of at least 30 seconds.
\<close>

record worker_run =
  wr_signals :: "pf_signal list"
  wr_result :: "string + unit"
  wr_elapsed_ms :: nat
  wr_closed_before :: bool
  wr_closed_after :: bool
  wr_send_ok :: bool

definition upstream_pause :: "nat \<Rightarrow> nat \<Rightarrow> nat" where
  "upstream_pause elapsed_ms backoff = (if elapsed_ms \<ge> 30000 then 1 else backoff)"

definition upstream_backoff :: "nat \<Rightarrow> nat" where
  "upstream_backoff pause = min (pause * 2) 15"

fun upstream_worker :: "nat \<Rightarrow> worker_run list \<Rightarrow> pf_signal list \<times> nat list" where
  "upstream_worker backoff [] = ([], [])"
| "upstream_worker backoff (r # rs) =
     (if wr_closed_before r then ([], [])
      else
        (let detail = (case wr_result r of
               Inr _ \<Rightarrow> ''upstream subscriptions session ended unexpectedly'' | Inl err \<Rightarrow> err) in
         if wr_closed_after r \<or> \<not> wr_send_ok r then (wr_signals r, [])
         else
           (let pause = upstream_pause (wr_elapsed_ms r) backoff;
                (signals, pauses) = upstream_worker (upstream_backoff pause) rs in
            (wr_signals r @ Sig_Disconnected detail # signals, pause # pauses))))"

definition listening :: "worker_run \<Rightarrow> bool" where
  "listening r \<longleftrightarrow> \<not> wr_closed_before r \<and> \<not> wr_closed_after r \<and> wr_send_ok r"

text \<open>The pause before the next session, from the pause before this one.\<close>

fun pauses_from :: "nat \<Rightarrow> nat list \<Rightarrow> nat list" where
  "pauses_from b [] = []"
| "pauses_from b (e # es) = (let p = upstream_pause e b in p # pauses_from (upstream_backoff p) es)"

lemma upstream_worker_listening:
  "list_all listening rs \<Longrightarrow>
     snd (upstream_worker b rs) = pauses_from b (map wr_elapsed_ms rs) \<and>
     fst (upstream_worker b rs) = concat (map (\<lambda>r. wr_signals r @ [Sig_Disconnected
       (case wr_result r of Inr _ \<Rightarrow> ''upstream subscriptions session ended unexpectedly'' | Inl err \<Rightarrow> err)]) rs)"
proof (induction rs arbitrary: b)
  case (Cons r rs)
  let ?b = "upstream_backoff (upstream_pause (wr_elapsed_ms r) b)"
  obtain xs ps where e: "upstream_worker ?b rs = (xs, ps)" by (cases "upstream_worker ?b rs")
  have l: "list_all listening rs" and r: "listening r" using Cons.prems by simp_all
  show ?case using Cons.IH [OF l, of ?b] e r by (simp add: listening_def Let_def)
qed simp

lemma pauses_from_nth:
  "i < length es \<Longrightarrow> pauses_from b es ! i =
     (if es ! i \<ge> 30000 then 1 else if i = 0 then b else min (pauses_from b es ! (i - 1) * 2) 15)"
proof (induction es arbitrary: b i)
  case (Cons e es)
  show ?case
  proof (cases i)
    case 0
    then show ?thesis by (simp add: upstream_pause_def Let_def)
  next
    case (Suc k)
    let ?b = "upstream_backoff (upstream_pause e b)"
    have step: "pauses_from b (e # es) ! Suc n = pauses_from ?b es ! n" for n by (simp add: Let_def)
    have "k < length es" using Cons.prems Suc by simp
    note ih = Cons.IH [OF \<open>k < length es\<close>, of ?b]
    show ?thesis
    proof (cases k)
      case 0
      have h: "pauses_from ?b es ! 0 = (if es ! 0 \<ge> 30000 then 1 else min (upstream_pause e b * 2) 15)"
        using \<open>k < length es\<close> by (cases es) (simp_all add: Let_def upstream_pause_def upstream_backoff_def)
      have i: "i = Suc 0" using \<open>i = Suc k\<close> 0 by simp
      have "pauses_from b (e # es) ! (i - 1) = upstream_pause e b" unfolding i by (simp add: Let_def)
      moreover have "pauses_from b (e # es) ! i = pauses_from ?b es ! 0" unfolding i by (rule step)
      moreover have "(e # es) ! i = es ! 0" "i \<noteq> 0" unfolding i by simp_all
      ultimately show ?thesis using h by (simp only: if_False)
    next
      case (Suc j)
      have "pauses_from b (e # es) ! i = pauses_from ?b es ! k" "pauses_from b (e # es) ! (i - 1) = pauses_from ?b es ! (k - 1)"
        "(e # es) ! i = es ! k" "i \<noteq> 0" "k \<noteq> 0"
        using step [of k] step [of j] \<open>i = Suc k\<close> \<open>k = Suc j\<close> by (simp_all del: pauses_from.simps)
      then show ?thesis using ih by (simp only: if_False)
    qed
  qed
qed simp

lemma pauses_from_range:
  "1 \<le> b \<Longrightarrow> b \<le> 15 \<Longrightarrow> length (pauses_from b es) = length es \<and> (\<forall>p\<in>set (pauses_from b es). 1 \<le> p \<and> p \<le> 15)"
proof (induction es arbitrary: b)
  case (Cons e es)
  have p: "1 \<le> upstream_pause e b \<and> upstream_pause e b \<le> 15"
    using Cons.prems unfolding upstream_pause_def by simp
  then have "1 \<le> upstream_backoff (upstream_pause e b)" "upstream_backoff (upstream_pause e b) \<le> 15"
    by (simp_all add: upstream_backoff_def)
  from Cons.IH [OF this] p show ?case by (simp only: pauses_from.simps Let_def list.size list.set ball_simps) blast
qed simp

text \<open>C31: the worker of the upstream subscription. As long as the client listens, every session is followed by another,
  the client is told the signals of each and then its end, in order, and the pauses are between 1
  and 15 seconds: 1 after a session of 30 seconds or more, otherwise twice the last one up to 15, and
  1 at first.\<close>

theorem upstream_worker_correct:
  assumes "list_all listening rs"
  shows "fst (upstream_worker 1 rs) = concat (map (\<lambda>r. wr_signals r @ [Sig_Disconnected
       (case wr_result r of Inr _ \<Rightarrow> ''upstream subscriptions session ended unexpectedly'' | Inl err \<Rightarrow> err)]) rs) \<and>
    length (snd (upstream_worker 1 rs)) = length rs \<and>
    (\<forall>p\<in>set (snd (upstream_worker 1 rs)). 1 \<le> p \<and> p \<le> 15) \<and>
    (\<forall>i<length rs. snd (upstream_worker 1 rs) ! i =
       (if wr_elapsed_ms (rs ! i) \<ge> 30000 \<or> i = 0 then 1 else min (snd (upstream_worker 1 rs) ! (i - 1) * 2) 15))"
proof -
  let ?es = "map wr_elapsed_ms rs"
  have p: "snd (upstream_worker 1 rs) = pauses_from 1 ?es"
    by (rule upstream_worker_listening [OF assms, THEN conjunct1])
  have r: "length (pauses_from 1 ?es) = length rs \<and> (\<forall>p\<in>set (pauses_from 1 ?es). 1 \<le> p \<and> p \<le> 15)"
    using pauses_from_range [of 1 ?es] by simp
  have "pauses_from 1 ?es ! i =
      (if wr_elapsed_ms (rs ! i) \<ge> 30000 \<or> i = 0 then 1 else min (pauses_from 1 ?es ! (i - 1) * 2) 15)"
    if "i < length rs" for i
    using pauses_from_nth [of i ?es 1] that by simp
  with r upstream_worker_listening [OF assms, THEN conjunct2] show ?thesis unfolding p by blast
qed

definition demo_worker_runs :: "worker_run list" where
  "demo_worker_runs = replicate 3 \<lparr>wr_signals = [Sig_Event], wr_result = Inl ''down'', wr_elapsed_ms = 5,
     wr_closed_before = False, wr_closed_after = False, wr_send_ok = True\<rparr>"

theorem upstream_worker_correct_witness: "snd (upstream_worker 1 demo_worker_runs) ! 2 = 4"
proof -
  have l: "list_all listening demo_worker_runs" by (simp add: demo_worker_runs_def listening_def eval_nat_numeral)
  have n: "length demo_worker_runs = 3" "\<forall>i<3. wr_elapsed_ms (demo_worker_runs ! i) = 5" by (simp_all add: demo_worker_runs_def)
  from upstream_worker_correct [OF l] n(1)
  have p: "\<forall>i<3. snd (upstream_worker 1 demo_worker_runs) ! i = (if wr_elapsed_ms (demo_worker_runs ! i) \<ge> 30000 \<or> i = 0 then 1
      else min (snd (upstream_worker 1 demo_worker_runs) ! (i - 1) * 2) 15)" by simp
  from p [rule_format, of 0] p [rule_format, of 1] p [rule_format, of 2] n(2) show ?thesis by simp
qed

subsection \<open>Configuration\<close>

record portfolio_config =
  pc_bind_addr :: string
  pc_client_mode :: client_mode
  pc_gateway_url :: "string option"
  pc_nado_ws_url :: "string option"
  pc_archive_url :: "string option"
  pc_default_subaccount_name :: string
  pc_poll_ms :: u64
  pc_event_refresh_debounce_ms :: u64

definition gateway_to_subscription_ws_url :: "string \<Rightarrow> string" where
  "gateway_to_subscription_ws_url gateway_url =
     (let ws_gateway = trim_end_matches (CHR ''/'') (ws_of_http gateway_url) in
      if ends_with ws_gateway ''/subscribe'' then ws_gateway else ws_gateway @ ''/subscribe'')"

definition pf_subscription_ws_url :: "environment \<Rightarrow> client_mode \<Rightarrow> string option \<Rightarrow> string" where
  "pf_subscription_ws_url env m nado_ws_url =
     (case nado_ws_url of Some url \<Rightarrow> url | None \<Rightarrow> derived_subscribe_url (default_gateway_url env m))"

text \<open>The wording of a number that does not parse is the library's.\<close>

definition env_trimmed_u64 :: "(string \<Rightarrow> string) \<Rightarrow> environment \<Rightarrow> string \<Rightarrow> u64 \<Rightarrow> string + u64" where
  "env_trimmed_u64 why env name d =
     (case env name of
        None \<Rightarrow> Ok d
      | Some v \<Rightarrow> ok_or (name @ '' must be u64: '' @ why (trim v)) (parse_u64 (trim v)))"

definition portfolio_config_from_env :: "(string \<Rightarrow> string) \<Rightarrow> environment \<Rightarrow> string + portfolio_config" where
  "portfolio_config_from_env why env =
     res_bind (read_mode ''PORTFOLIO_NETWORK'' (unwrap_or ''test'' (env ''PORTFOLIO_NETWORK''))) (\<lambda>mode.
     let gateway_url = env_nonempty env ''PORTFOLIO_NADO_GATEWAY_URL'';
         nado_ws_url = opt_or (env_nonempty env ''PORTFOLIO_NADO_WS_URL'')
                              (map_option gateway_to_subscription_ws_url gateway_url);
         archive_url = env_nonempty env ''PORTFOLIO_NADO_ARCHIVE_URL'';
         name = trim (unwrap_or ''default'' (env ''PORTFOLIO_DEFAULT_SUBACCOUNT'')) in
     if name = [] then Err ''PORTFOLIO_DEFAULT_SUBACCOUNT cannot be empty''
     else if length name > 12 then
       Err (''PORTFOLIO_DEFAULT_SUBACCOUNT too long: '' @ show_nat (length name) @ '' bytes (max 12)'')
     else
       res_bind (env_trimmed_u64 why env ''PORTFOLIO_POLL_MS'' 5000) (\<lambda>poll_ms.
       if poll_ms < 1000 then Err ''PORTFOLIO_POLL_MS must be >= 1000''
       else
         res_bind (env_trimmed_u64 why env ''PORTFOLIO_EVENT_REFRESH_DEBOUNCE_MS'' 750) (\<lambda>debounce.
         Ok \<lparr>pc_bind_addr = unwrap_or ''0.0.0.0:3006'' (env ''PORTFOLIO_BIND_ADDR''), pc_client_mode = mode,
             pc_gateway_url = gateway_url, pc_nado_ws_url = nado_ws_url, pc_archive_url = archive_url,
             pc_default_subaccount_name = name, pc_poll_ms = poll_ms,
             pc_event_refresh_debounce_ms = debounce\<rparr>)))"

definition pf_subaccount_name :: "string option \<Rightarrow> string \<Rightarrow> pf_error + string" where
  "pf_subaccount_name name default_name =
     (let n = trim (unwrap_or default_name name) in
      if n = [] then Err (Pf_BadRequest ''subaccount_name cannot be empty'')
      else if length n > 12 then
        Err (Pf_BadRequest (''subaccount_name is too long ('' @ show_nat (length n) @ '' > 12)''))
      else Ok n)"

text \<open>The header is missing, or not text, or an address the library can read or not.\<close>

definition pf_session_address :: "(string \<Rightarrow> bytes option) \<Rightarrow> string option option \<Rightarrow> pf_error + bytes" where
  "pf_session_address parse_address header =
     (case header of
        None \<Rightarrow> Err (Pf_Unauthorized ''missing session address header'')
      | Some None \<Rightarrow> Err (Pf_Unauthorized ''invalid session address header'')
      | Some (Some v) \<Rightarrow> ok_or (Pf_Unauthorized (''invalid session address: '' @ v)) (parse_address v))"

record snapshot_envelope =
  se_as_of_ms :: u64
  se_cause :: string
  se_portfolio :: pf_payload

definition get_portfolio_snapshot ::
  "(bytes \<Rightarrow> string) \<Rightarrow> (string \<Rightarrow> bytes option) \<Rightarrow> pf_exchange \<Rightarrow> string \<Rightarrow> u64 \<Rightarrow> string option option \<Rightarrow>
     string option \<Rightarrow> (pf_error + snapshot_envelope) option" where
  "get_portfolio_snapshot hex parse_address x default_name now header name_param =
     (case res_bind (pf_session_address parse_address header) (\<lambda>owner.
             res_bind (pf_subaccount_name name_param default_name) (\<lambda>name. Ok (owner, name))) of
        Inl e \<Rightarrow> Some (Err e)
      | Inr (owner, name) \<Rightarrow>
          map_option (\<lambda>r. res_bind r (\<lambda>portfolio.
            Ok \<lparr>se_as_of_ms = now, se_cause = ''snapshot'', se_portfolio = portfolio\<rparr>))
            (fetch_portfolio_payload hex x owner name))"

fun network_label :: "client_mode \<Rightarrow> string" where
  "network_label Test = ''test''"
| "network_label Prod = ''prod''"
| "network_label Local = ''local''"
| "network_label LocalAlt = ''local-alt''"

record portfolio_health =
  ph_status :: string
  ph_network :: string
  ph_gateway_url :: string
  ph_nado_ws_url :: "string option"
  ph_archive_url :: string
  ph_active_ws_clients :: u64

definition get_portfolio_health :: "portfolio_config \<Rightarrow> string \<Rightarrow> string \<Rightarrow> u64 \<Rightarrow> portfolio_health" where
  "get_portfolio_health cfg gateway_url archive_url active =
     \<lparr>ph_status = ''ok'', ph_network = network_label (pc_client_mode cfg), ph_gateway_url = gateway_url,
      ph_nado_ws_url = pc_nado_ws_url cfg, ph_archive_url = archive_url, ph_active_ws_clients = active\<rparr>"

text \<open>A configuration that loads has a default name a request without one may use, and does not poll too often.\<close>

lemma portfolio_config_bounds:
  assumes "portfolio_config_from_env why env = Ok cfg"
  shows "1000 \<le> pc_poll_ms cfg \<and> pf_subaccount_name None (pc_default_subaccount_name cfg) = Ok (pc_default_subaccount_name cfg)"
  using assms
  by (auto simp: portfolio_config_from_env_def pf_subaccount_name_def res_bind_Inr_iff Let_def not_less split: if_splits)

lemma subscription_url_ends: "ends_with (gateway_to_subscription_ws_url url) ''/subscribe''"
  by (simp add: gateway_to_subscription_ws_url_def Let_def ends_with_def)

end
