(* ===== verification/SdkSubscriptions.thy ===== *)
theory SdkSubscriptions
  imports SdkWire ClientMode Collections
begin

text \<open>
  The SDK's client of the exchange's subscriptions (nado-rust-sdk/src/subscriptions.rs): the streams and how they
  are written and read, the apart-picking of what the exchange sends, and the worker of a
  connection with the channels between it and the client: requests go in through a bounded channel and each
  gets its answer through a channel of its own, events come out through another bounded channel.

  Printing and reading JSON texts, hexadecimal, UTF-8, the signature of an authentication and the clock are
  parameters. The requests of a client are numbered from 0 in the order they drew their ids; such a
  number stands for the sending end of the channel of the answer.
\<close>

subsection \<open>Streams\<close>

datatype (plugins only: code size) stream_type =
    ST_Default | ST_OrderUpdate | ST_Trade | ST_BestBidOffer | ST_Fill | ST_PositionChange
  | ST_BookDepth | ST_Liquidation | ST_LatestCandlestick | ST_FundingPayment | ST_FundingRate
  | ST_Unknown

text \<open>A product id may be absent, or present and null.\<close>

record stream =
  sm_type :: stream_type
  sm_product_id :: "u32 option option"
  sm_subaccount :: "string option"
  sm_granularity :: "u32 option"

definition account_stream :: "(bytes \<Rightarrow> string) \<Rightarrow> stream_type \<Rightarrow> bytes \<Rightarrow> u32 option \<Rightarrow> stream" where
  "account_stream hex ty subaccount product_id =
     \<lparr>sm_type = ty, sm_product_id = Some product_id, sm_subaccount = Some (''0x'' @ hex subaccount),
      sm_granularity = None\<rparr>"

definition stream_order_update :: "(bytes \<Rightarrow> string) \<Rightarrow> bytes \<Rightarrow> u32 option \<Rightarrow> stream" where
  "stream_order_update hex subaccount product_id = account_stream hex ST_OrderUpdate subaccount product_id"

definition stream_fill :: "(bytes \<Rightarrow> string) \<Rightarrow> bytes \<Rightarrow> u32 option \<Rightarrow> stream" where
  "stream_fill hex subaccount product_id = account_stream hex ST_Fill subaccount product_id"

definition stream_position_change :: "(bytes \<Rightarrow> string) \<Rightarrow> bytes \<Rightarrow> u32 option \<Rightarrow> stream" where
  "stream_position_change hex subaccount product_id = account_stream hex ST_PositionChange subaccount product_id"

definition market_stream :: "stream_type \<Rightarrow> u32 option \<Rightarrow> stream" where
  "market_stream ty product_id =
     \<lparr>sm_type = ty, sm_product_id = Some product_id, sm_subaccount = None, sm_granularity = None\<rparr>"

definition stream_trade :: "u32 \<Rightarrow> stream" where
  "stream_trade product_id = market_stream ST_Trade (Some product_id)"

definition stream_best_bid_offer :: "u32 \<Rightarrow> stream" where
  "stream_best_bid_offer product_id = market_stream ST_BestBidOffer (Some product_id)"

definition stream_book_depth :: "u32 \<Rightarrow> stream" where
  "stream_book_depth product_id = market_stream ST_BookDepth (Some product_id)"

definition stream_liquidation :: "u32 option \<Rightarrow> stream" where
  "stream_liquidation product_id = market_stream ST_Liquidation product_id"

definition stream_latest_candlestick :: "u32 \<Rightarrow> u32 \<Rightarrow> stream" where
  "stream_latest_candlestick product_id granularity =
     (market_stream ST_LatestCandlestick (Some product_id))\<lparr>sm_granularity := Some granularity\<rparr>"

definition stream_funding_payment :: "u32 \<Rightarrow> stream" where
  "stream_funding_payment product_id = market_stream ST_FundingPayment (Some product_id)"

definition stream_funding_rate :: "u32 option \<Rightarrow> stream" where
  "stream_funding_rate product_id = market_stream ST_FundingRate product_id"

text \<open>Names are in snake case; any other name is read as the unknown type.\<close>

fun stream_type_name :: "stream_type \<Rightarrow> string" where
  "stream_type_name ST_Default = ''default''"
| "stream_type_name ST_OrderUpdate = ''order_update''"
| "stream_type_name ST_Trade = ''trade''"
| "stream_type_name ST_BestBidOffer = ''best_bid_offer''"
| "stream_type_name ST_Fill = ''fill''"
| "stream_type_name ST_PositionChange = ''position_change''"
| "stream_type_name ST_BookDepth = ''book_depth''"
| "stream_type_name ST_Liquidation = ''liquidation''"
| "stream_type_name ST_LatestCandlestick = ''latest_candlestick''"
| "stream_type_name ST_FundingPayment = ''funding_payment''"
| "stream_type_name ST_FundingRate = ''funding_rate''"
| "stream_type_name ST_Unknown = ''unknown''"

definition stream_types :: "stream_type list" where
  "stream_types = [ST_Default, ST_OrderUpdate, ST_Trade, ST_BestBidOffer, ST_Fill, ST_PositionChange,
     ST_BookDepth, ST_Liquidation, ST_LatestCandlestick, ST_FundingPayment, ST_FundingRate]"

definition stream_type_of :: "string \<Rightarrow> stream_type" where
  "stream_type_of name =
     unwrap_or ST_Unknown (map_of (map (\<lambda>t. (stream_type_name t, t)) stream_types) name)"

definition stream_json :: "stream \<Rightarrow> json" where
  "stream_json s = JObject
     ([(''type'', JString (stream_type_name (sm_type s)))] @
      (case sm_product_id s of None \<Rightarrow> []
       | Some p \<Rightarrow> [(''product_id'', case p of None \<Rightarrow> JNull | Some n \<Rightarrow> serialize_wrapped_u32 n)]) @
      (case sm_subaccount s of None \<Rightarrow> [] | Some a \<Rightarrow> [(''subaccount'', JString a)]) @
      (case sm_granularity s of None \<Rightarrow> [] | Some g \<Rightarrow> [(''granularity'', serialize_wrapped_u32 g)]))"

text \<open>
  Reading a stream: an absent optional field and a null one are both None, so a product id
  that is present and null does not survive. Only the form of an object is read here, the one the
  exchange sends and the SDK writes.
\<close>

definition de_field :: "(json \<Rightarrow> de_error + 'a) \<Rightarrow> json option \<Rightarrow> de_error + 'a option" where
  "de_field dec v = (case v of None \<Rightarrow> Ok None | Some w \<Rightarrow> dec_option dec w)"

definition stream_of_json :: "json \<Rightarrow> de_error + stream" where
  "stream_of_json v =
     (case as_object v of
        None \<Rightarrow> Err De_Type
      | Some _ \<Rightarrow>
          res_bind (res_bind (ok_or De_Type (json_get ''type'' v)) de_string) (\<lambda>name.
          res_bind (de_field de_u32 (json_get ''product_id'' v)) (\<lambda>pid.
          res_bind (de_field de_string (json_get ''subaccount'' v)) (\<lambda>subaccount.
          res_bind (de_field de_u32 (json_get ''granularity'' v)) (\<lambda>granularity.
          Ok \<lparr>sm_type = stream_type_of name, sm_product_id = map_option Some pid,
              sm_subaccount = subaccount, sm_granularity = granularity\<rparr>)))))"

lemma stream_type_of_name: "stream_type_of (stream_type_name t) = t"
  by (induction t; code_simp)

lemma de_u32_number: "de_u32 (serialize_wrapped_u32 n) = Ok n"
proof -
  have "unat n < 2 ^ 32" using unsigned_less [of n] by simp
  then have "unat (ucast n :: u64) < 2 ^ 32" by (simp add: unsigned_ucast_eq take_bit_nat_eq_self)
  moreover have "(ucast (ucast n :: u64) :: u32) = n" by (auto simp: bit_eq_iff bit_ucast_iff)
  ultimately show ?thesis by (simp add: serialize_wrapped_u32_def)
qed

text \<open>What is written is read back, but for the product id that stands for all products.\<close>

lemma stream_json_roundtrip:
  "stream_of_json (stream_json s) =
     Ok (s\<lparr>sm_product_id := (case sm_product_id s of Some None \<Rightarrow> None | p \<Rightarrow> p)\<rparr>)"
proof -
  have n: "serialize_wrapped_u32 n \<noteq> JNull" for n by (simp add: serialize_wrapped_u32_def)
  show ?thesis
    by (cases s; cases "sm_product_id s"; cases "sm_subaccount s"; cases "sm_granularity s";
        cases "the (sm_product_id s)")
      (simp_all add: stream_json_def stream_of_json_def de_field_def dec_option_def de_string_def
        de_u32_number n stream_type_of_name)
qed

lemma all_products_stream_lost:
  "stream_of_json (stream_json (stream_funding_rate None)) \<noteq> Ok (stream_funding_rate None)"
  by (simp add: stream_json_roundtrip stream_funding_rate_def market_stream_def)

subsection \<open>Events and responses\<close>

record subscription_event =
  sv_stream :: "stream option"
  sv_payload :: json
  sv_raw :: json

record rpc_response =
  rr_result :: "json option"
  rr_error :: "json option"
  rr_id :: u64

definition get_u64_field :: "json \<Rightarrow> string \<Rightarrow> u64 option" where
  "get_u64_field v field =
     Option.bind (json_get field v) (\<lambda>f.
       case as_u64 f of Some n \<Rightarrow> Some n | None \<Rightarrow> Option.bind (as_str f) parse_u64)"

definition event_stream_type :: "subscription_event \<Rightarrow> stream_type option" where
  "event_stream_type ev = map_option sm_type (sv_stream ev)"

definition last_max_timestamp :: "subscription_event \<Rightarrow> u64 option" where
  "last_max_timestamp ev =
     opt_or (get_u64_field (sv_payload ev) ''last_max_timestamp'')
       (get_u64_field (sv_raw ev) ''last_max_timestamp'')"

text \<open>A response has an id and a result or an error.\<close>

definition parse_rpc_response :: "json \<Rightarrow> string + rpc_response option" where
  "parse_rpc_response v =
     (case json_get ''id'' v of
        None \<Rightarrow> Ok None
      | Some id_value \<Rightarrow>
          if json_get ''result'' v = None \<and> json_get ''error'' v = None then Ok None
          else
            (case as_u64 id_value of
               None \<Rightarrow> Err ''response id is not a u64''
             | Some n \<Rightarrow> Ok (Some \<lparr>rr_result = json_get ''result'' v, rr_error = json_get ''error'' v, rr_id = n\<rparr>)))"

definition parse_event :: "json \<Rightarrow> subscription_event" where
  "parse_event v =
     \<lparr>sv_stream = Option.bind (json_get ''stream'' v) (\<lambda>s. res_ok (stream_of_json s)),
      sv_payload = unwrap_or v (json_get ''event'' v), sv_raw = v\<rparr>"

text \<open>The requests, as the values that are printed.\<close>

record stream_authentication =
  sx_sender :: bytes
  sx_expiration :: u64

definition stream_request :: "string \<Rightarrow> u64 \<Rightarrow> stream \<Rightarrow> json" where
  "stream_request what n s =
     JObject [(''method'', JString what), (''id'', JNumber (PosInt n)), (''stream'', stream_json s)]"

definition list_request :: "u64 \<Rightarrow> json" where
  "list_request n = JObject [(''method'', JString ''list''), (''id'', JNumber (PosInt n))]"

definition authenticate_request :: "u64 \<Rightarrow> stream_authentication \<Rightarrow> string \<Rightarrow> json" where
  "authenticate_request n tx signature =
     JObject [(''method'', JString ''authenticate''), (''id'', JNumber (PosInt n)),
       (''tx'', JObject [(''sender'', serialize_bytes32 (sx_sender tx)),
                         (''expiration'', serialize_u64 (sx_expiration tx))]),
       (''signature'', JString signature)]"

text \<open>
  The authentication a client makes for itself: the expiration is the clock plus the time to live, held at
  the end of u64. The subaccount and the signature may fail.
\<close>

definition sat_add64 :: "u64 \<Rightarrow> nat \<Rightarrow> u64" where
  "sat_add64 a b = (if unat a + b < 2 ^ 64 then a + of_nat b else - 1)"

definition authenticate_with_nado ::
  "(bytes \<Rightarrow> string) \<Rightarrow> (stream_authentication \<Rightarrow> string + bytes) \<Rightarrow> string + u64 \<Rightarrow> nat \<Rightarrow> string + bytes \<Rightarrow>
     u64 \<Rightarrow> string + json" where
  "authenticate_with_nado hex sign now ttl_ms subaccount n =
     res_bind now (\<lambda>now_ms.
     if ttl_ms \<ge> 2 ^ 64 then Err ''ttl overflows u64 milliseconds''
     else
       res_bind subaccount (\<lambda>sender.
       let tx = \<lparr>sx_sender = sender, sx_expiration = sat_add64 now_ms ttl_ms\<rparr> in
       res_bind (sign tx) (\<lambda>signature.
       Ok (authenticate_request n tx (''0x'' @ hex signature)))))"

text \<open>An event of the exchange is not taken for a response, and its stream and payload are picked out.\<close>

lemma event_of_exchange:
  assumes "v = JObject ((''stream'', stream_json s) # (''event'', p) # rest)"
    and "map_of rest ''id'' = None"
  shows "parse_rpc_response v = Ok None" "sv_payload (parse_event v) = p"
    "event_stream_type (parse_event v) = Some (sm_type s)"
  using assms
  by (simp_all add: parse_rpc_response_def parse_event_def event_stream_type_def stream_json_roundtrip)

definition subscriptions_url :: "environment \<Rightarrow> client_mode \<Rightarrow> string" where
  "subscriptions_url env m = derived_subscribe_url (default_gateway_url env m)"

subsection \<open>The connection\<close>

datatype sub_command = Cmd_Request nat u64 string | Cmd_Close

datatype sub_frame =
    SF_Text string
  | SF_Binary bytes
  | SF_Ping bytes
  | SF_Pong
  | SF_Raw
  | SF_Close "(string \<times> string) option"

datatype sub_out = SO_Text string | SO_Ping | SO_Pong bytes | SO_Close

text \<open>
  The state of a connection: the requests that have an id but are not in the channel yet, with their texts;
  the channel of commands; the worker's map of requests that wait for their answer; the answers
  given, and the channels of answers that were dropped without one; the requests that found the worker gone; the
  channel of events, and an event the worker holds until there is room in it; the frames written;
  and whether the worker runs.
\<close>

record sub_system =
  ss_next :: nat
  ss_drafted :: "(nat \<times> string) list"
  ss_queue :: "sub_command list"
  ss_pending :: "(u64, nat) hashmap"
  ss_replies :: "(nat \<times> (string + rpc_response)) list"
  ss_dropped :: "nat list"
  ss_refused :: "nat list"
  ss_events :: "subscription_event list"
  ss_held :: "subscription_event option"
  ss_out :: "sub_out list"
  ss_running :: bool

record sub_config =
  sc_command_buffer :: nat
  sc_event_buffer :: nat

definition default_sub_config :: sub_config where
  "default_sub_config = \<lparr>sc_command_buffer = 128, sc_event_buffer = 1024\<rparr>"

definition sub_start :: sub_system where
  "sub_start =
     \<lparr>ss_next = 0, ss_drafted = [], ss_queue = [], ss_pending = [], ss_replies = [], ss_dropped = [],
      ss_refused = [], ss_events = [], ss_held = None, ss_out = [], ss_running = True\<rparr>"

text \<open>The ids count up from 1.\<close>

definition request_id :: "nat \<Rightarrow> u64" where
  "request_id t = of_nat (t + 1)"

fun queued_ticket :: "sub_command \<Rightarrow> nat list" where
  "queued_ticket (Cmd_Request t n payload) = [t]"
| "queued_ticket Cmd_Close = []"

text \<open>
  The end of the worker: every waiting request is answered with the error, or with the message of
  a closed connection; the commands still in the channel are dropped with it, and their answers' channels too.
\<close>

definition end_worker :: "string + unit \<Rightarrow> sub_system \<Rightarrow> sub_system" where
  "end_worker r s =
     (let msg = (case r of Inl e \<Rightarrow> e | Inr _ \<Rightarrow> ''websocket connection closed'') in
      s\<lparr>ss_replies := ss_replies s @ map (\<lambda>(n, t). (t, Err msg)) (ss_pending s), ss_pending := [],
        ss_dropped := ss_dropped s @ concat (map queued_ticket (ss_queue s)), ss_queue := [],
        ss_held := None, ss_running := False\<rparr>)"

text \<open>A response that nobody waits for is passed over.\<close>

definition give_answer :: "rpc_response \<Rightarrow> sub_system \<Rightarrow> sub_system" where
  "give_answer r s =
     (case hm_get (ss_pending s) (rr_id r) of
        None \<Rightarrow> s
      | Some t \<Rightarrow> s\<lparr>ss_pending := hm_remove (rr_id r) (ss_pending s), ss_replies := ss_replies s @ [(t, Ok r)]\<rparr>)"

text \<open>An event waits for room in its channel, and the worker with it.\<close>

definition forward_event :: "sub_config \<Rightarrow> subscription_event \<Rightarrow> sub_system \<Rightarrow> sub_system" where
  "forward_event cfg ev s =
     (if length (ss_events s) < sc_event_buffer cfg then s\<lparr>ss_events := ss_events s @ [ev]\<rparr>
      else s\<lparr>ss_held := Some ev\<rparr>)"

definition handle_text_message ::
  "sub_config \<Rightarrow> (string \<Rightarrow> string + json) \<Rightarrow> string \<Rightarrow> sub_system \<Rightarrow> string + sub_system" where
  "handle_text_message cfg from_text txt s =
     res_bind (from_text txt) (\<lambda>v.
     res_bind (parse_rpc_response v) (\<lambda>r.
     case r of
       Some response \<Rightarrow> Ok (give_answer response s)
     | None \<Rightarrow> Ok (forward_event cfg (parse_event v) s)))"

text \<open>The outcome of a write is None, or its error.\<close>

definition handle_message ::
  "sub_config \<Rightarrow> (bytes \<Rightarrow> string option) \<Rightarrow> (string \<Rightarrow> string + json) \<Rightarrow> sub_frame \<Rightarrow> string option \<Rightarrow> sub_system \<Rightarrow>
     string + sub_system" where
  "handle_message cfg from_utf8 from_text message written s =
     (case message of
        SF_Text txt \<Rightarrow> handle_text_message cfg from_text txt s
      | SF_Binary b \<Rightarrow>
          (case from_utf8 b of
             None \<Rightarrow> Err ''received non-utf8 websocket binary frame''
           | Some txt \<Rightarrow> handle_text_message cfg from_text txt s)
      | SF_Ping payload \<Rightarrow>
          (case written of None \<Rightarrow> Ok (s\<lparr>ss_out := ss_out s @ [SO_Pong payload]\<rparr>) | Some e \<Rightarrow> Err e)
      | SF_Pong \<Rightarrow> Ok s
      | SF_Raw \<Rightarrow> Ok s
      | SF_Close frame \<Rightarrow>
          (case frame of
             Some (reason, code) \<Rightarrow> Err (''websocket closed: '' @ reason @ '' ('' @ code @ '')'')
           | None \<Rightarrow> Err ''websocket closed''))"

text \<open>
  One round of the worker's loop. While it holds an event, nothing but room in the channel of events
  makes it go on. Each input comes with the outcome of the round's write.
\<close>

datatype worker_input =
    Wi_Command "string option"
  | Wi_Tick "string option"
  | Wi_Frame sub_frame "string option"
  | Wi_ReadError string
  | Wi_ReadEnded
  | Wi_Room

definition run_command :: "string option \<Rightarrow> sub_command \<Rightarrow> sub_system \<Rightarrow> sub_system" where
  "run_command written c s =
     (case c of
        Cmd_Request t n payload \<Rightarrow>
          (case written of
             Some e \<Rightarrow>
               (let msg = ''failed sending websocket request: '' @ e in
                end_worker (Err msg) (s\<lparr>ss_replies := ss_replies s @ [(t, Err msg)]\<rparr>))
           | None \<Rightarrow>
               s\<lparr>ss_out := ss_out s @ [SO_Text payload], ss_pending := hm_insert n t (ss_pending s),
                 ss_dropped := ss_dropped s @ (case hm_get (ss_pending s) n of None \<Rightarrow> [] | Some old \<Rightarrow> [old])\<rparr>)
      | Cmd_Close \<Rightarrow> end_worker (Ok ()) (s\<lparr>ss_out := ss_out s @ [SO_Close]\<rparr>))"

definition worker_round ::
  "sub_config \<Rightarrow> (bytes \<Rightarrow> string option) \<Rightarrow> (string \<Rightarrow> string + json) \<Rightarrow> worker_input \<Rightarrow> sub_system \<Rightarrow>
     sub_system option" where
  "worker_round cfg from_utf8 from_text inp s =
     (if \<not> ss_running s then None
      else case ss_held s of
        Some ev \<Rightarrow>
          if inp = Wi_Room \<and> length (ss_events s) < sc_event_buffer cfg
          then Some (s\<lparr>ss_events := ss_events s @ [ev], ss_held := None\<rparr>) else None
      | None \<Rightarrow>
          (case inp of
             Wi_Command written \<Rightarrow>
               (case ss_queue s of
                  [] \<Rightarrow> None
                | c # cs \<Rightarrow> Some (run_command written c (s\<lparr>ss_queue := cs\<rparr>)))
           | Wi_Tick written \<Rightarrow>
               (case written of
                  None \<Rightarrow> Some (s\<lparr>ss_out := ss_out s @ [SO_Ping]\<rparr>)
                | Some e \<Rightarrow> Some (end_worker (Err (''failed sending ping: '' @ e)) s))
           | Wi_Frame message written \<Rightarrow>
               (case handle_message cfg from_utf8 from_text message written s of
                  Inr s' \<Rightarrow> Some s'
                | Inl e \<Rightarrow> Some (end_worker (Err e) s))
           | Wi_ReadError e \<Rightarrow> Some (end_worker (Err (''websocket read error: '' @ e)) s)
           | Wi_ReadEnded \<Rightarrow> Some (end_worker (Ok ()) s)
           | Wi_Room \<Rightarrow> None))"

text \<open>
  The steps of the whole: a client task draws an id and prints its request; sends it, when the channel has room
  or the worker is gone; closes; takes an event; drops the client, which aborts the worker; or the worker does a round.
\<close>

datatype sub_action =
    Sa_Draw "u64 \<Rightarrow> string"
  | Sa_Send nat
  | Sa_Close
  | Sa_NextEvent
  | Sa_Drop
  | Sa_Worker worker_input

fun take_draft :: "nat \<Rightarrow> (nat \<times> string) list \<Rightarrow> (string \<times> (nat \<times> string) list) option" where
  "take_draft t [] = None"
| "take_draft t ((t', p) # ds) =
     (if t = t' then Some (p, ds) else map_option (\<lambda>(q, rest). (q, (t', p) # rest)) (take_draft t ds))"

definition send_request :: "sub_config \<Rightarrow> nat \<Rightarrow> sub_system \<Rightarrow> sub_system option" where
  "send_request cfg t s =
     (case take_draft t (ss_drafted s) of
        None \<Rightarrow> None
      | Some (payload, rest) \<Rightarrow>
          if \<not> ss_running s then Some (s\<lparr>ss_drafted := rest, ss_refused := ss_refused s @ [t]\<rparr>)
          else if length (ss_queue s) < sc_command_buffer cfg then
            Some (s\<lparr>ss_drafted := rest, ss_queue := ss_queue s @ [Cmd_Request t (request_id t) payload]\<rparr>)
          else None)"

definition drop_client :: "sub_system \<Rightarrow> sub_system" where
  "drop_client s =
     s\<lparr>ss_dropped := ss_dropped s @ concat (map queued_ticket (ss_queue s)) @ map snd (ss_pending s),
       ss_queue := [], ss_pending := [], ss_held := None, ss_running := False\<rparr>"

definition sub_act ::
  "sub_config \<Rightarrow> (bytes \<Rightarrow> string option) \<Rightarrow> (string \<Rightarrow> string + json) \<Rightarrow> sub_action \<Rightarrow> sub_system \<Rightarrow>
     sub_system option" where
  "sub_act cfg from_utf8 from_text a s =
     (case a of
        Sa_Draw payload \<Rightarrow>
          Some (s\<lparr>ss_next := ss_next s + 1,
                  ss_drafted := ss_drafted s @ [(ss_next s, payload (request_id (ss_next s)))]\<rparr>)
      | Sa_Send t \<Rightarrow> send_request cfg t s
      | Sa_Close \<Rightarrow>
          (if \<not> ss_running s then Some s
           else if length (ss_queue s) < sc_command_buffer cfg then Some (s\<lparr>ss_queue := ss_queue s @ [Cmd_Close]\<rparr>)
           else None)
      | Sa_NextEvent \<Rightarrow> (case ss_events s of [] \<Rightarrow> None | ev # evs \<Rightarrow> Some (s\<lparr>ss_events := evs\<rparr>))
      | Sa_Drop \<Rightarrow> Some (if ss_running s then drop_client s else s)
      | Sa_Worker inp \<Rightarrow> worker_round cfg from_utf8 from_text inp s)"

fun sub_run ::
  "sub_config \<Rightarrow> (bytes \<Rightarrow> string option) \<Rightarrow> (string \<Rightarrow> string + json) \<Rightarrow> sub_action list \<Rightarrow> sub_system \<Rightarrow>
     sub_system option" where
  "sub_run cfg from_utf8 from_text [] s = Some s"
| "sub_run cfg from_utf8 from_text (a # as) s =
     Option.bind (sub_act cfg from_utf8 from_text a s) (sub_run cfg from_utf8 from_text as)"

text \<open>
  What a call of the client ends with: the worker was gone, the time was up, an answer came, or the
  channel of the answer was dropped.
\<close>

datatype request_end = Re_Refused | Re_TimedOut | Re_Answered "string + rpc_response" | Re_Dropped

definition request_outcome :: "request_end \<Rightarrow> string + rpc_response" where
  "request_outcome e =
     (case e of
        Re_Refused \<Rightarrow> Err ''websocket connection worker is not running''
      | Re_TimedOut \<Rightarrow> Err ''timed out waiting for websocket response''
      | Re_Answered r \<Rightarrow> r
      | Re_Dropped \<Rightarrow> Err ''websocket response channel dropped'')"

definition expect_ok :: "(json \<Rightarrow> string) \<Rightarrow> request_end \<Rightarrow> string + unit" where
  "expect_ok to_text e =
     res_bind (request_outcome e) (\<lambda>response.
       case rr_error response of
         Some err \<Rightarrow> Err (''request failed: '' @ to_text err)
       | None \<Rightarrow> Ok ())"

definition list_outcome :: "(json \<Rightarrow> string) \<Rightarrow> (de_error \<Rightarrow> string) \<Rightarrow> request_end \<Rightarrow> string + stream list" where
  "list_outcome to_text why e =
     res_bind (request_outcome e) (\<lambda>response.
       case rr_error response of
         Some err \<Rightarrow> Err (''list failed: '' @ to_text err)
       | None \<Rightarrow>
           (case rr_result response of
              None \<Rightarrow> Ok []
            | Some r \<Rightarrow> map_err why (dec_seq stream_of_json r)))"

subsection \<open>Every request is accounted for\<close>

definition places :: "sub_system \<Rightarrow> nat multiset" where
  "places s =
     mset (map fst (ss_drafted s)) + mset (concat (map queued_ticket (ss_queue s))) +
     mset (map snd (ss_pending s)) + mset (map fst (ss_replies s)) + mset (ss_dropped s) + mset (ss_refused s)"

text \<open>The id of a waiting or sent request is its own, and so is that of every response it was given.\<close>

fun labelled_command :: "sub_command \<Rightarrow> bool" where
  "labelled_command (Cmd_Request t n payload) \<longleftrightarrow> n = request_id t"
| "labelled_command Cmd_Close \<longleftrightarrow> True"

fun labelled_reply :: "nat \<times> (string + rpc_response) \<Rightarrow> bool" where
  "labelled_reply (t, Inr r) \<longleftrightarrow> rr_id r = request_id t"
| "labelled_reply (t, Inl e) \<longleftrightarrow> True"

definition labelled :: "sub_system \<Rightarrow> bool" where
  "labelled s \<longleftrightarrow>
     list_all labelled_command (ss_queue s) \<and> list_all (\<lambda>(n, t). n = request_id t) (ss_pending s) \<and>
     list_all labelled_reply (ss_replies s)"

definition within_buffers :: "sub_config \<Rightarrow> sub_system \<Rightarrow> bool" where
  "within_buffers cfg s \<longleftrightarrow>
     length (ss_queue s) \<le> sc_command_buffer cfg \<and> length (ss_events s) \<le> sc_event_buffer cfg"

text \<open>A worker that runs has dropped nothing, one that is gone has nothing left.\<close>

definition settled :: "sub_system \<Rightarrow> bool" where
  "settled s \<longleftrightarrow>
     (if ss_running s then ss_next s < 2 ^ 64 \<longrightarrow> ss_dropped s = [] \<and> ss_refused s = []
      else ss_queue s = [] \<and> ss_pending s = [])"

definition sub_ok :: "sub_config \<Rightarrow> sub_system \<Rightarrow> bool" where
  "sub_ok cfg s \<longleftrightarrow>
     places s = mset [0..<ss_next s] \<and> hm_wf (ss_pending s) \<and> labelled s \<and> within_buffers cfg s \<and> settled s"

lemma hm_remove_Nil: "hm_remove k [] = []"
  by (simp add: hm_remove_def)

lemma mset_hm_remove:
  "hm_wf m \<Longrightarrow> hm_get m k = Some t \<Longrightarrow> mset (map snd m) = add_mset t (mset (map snd (hm_remove k m)))"
proof (induction m)
  case (Cons x m)
  obtain k' t' where x: "x = (k', t')" by (cases x)
  have wf: "hm_wf m" and k': "k' \<notin> fst ` set m" using Cons.prems(1) x by (auto simp: hm_wf_def)
  show ?case
  proof (cases "k = k'")
    case True
    then have "filter (\<lambda>(k', _). k' \<noteq> k) m = m" using k' by (force simp: filter_id_conv)
    then show ?thesis using True Cons.prems(2) by (simp add: x hm_get_def hm_remove_def)
  next
    case False
    then show ?thesis using Cons.IH [OF wf] Cons.prems(2) by (simp add: x hm_get_def hm_remove_def)
  qed
qed (simp add: hm_get_def)

lemma mset_hm_insert:
  "mset (map snd (hm_insert k t m)) + mset (case hm_get m k of None \<Rightarrow> [] | Some old \<Rightarrow> [old]) =
     add_mset t (mset (map snd m))"
  by (induction k t m rule: hm_insert.induct) (auto simp: hm_get_def split: option.splits)

lemma mset_take_draft:
  "take_draft t ds = Some (p, rest) \<Longrightarrow> mset (map fst ds) = add_mset t (mset (map fst rest))"
  by (induction t ds arbitrary: p rest rule: take_draft.induct) (auto split: if_splits)

lemma places_end_worker: "places (end_worker r s) = places s"
  by (simp add: places_def end_worker_def Let_def o_def split_def)

lemma places_give_answer: "hm_wf (ss_pending s) \<Longrightarrow> places (give_answer r s) = places s"
  by (auto simp: places_def give_answer_def dest: mset_hm_remove split: option.split)

lemma places_forward_event: "places (forward_event cfg ev s) = places s"
  by (simp add: places_def forward_event_def)

lemma places_run_command:
  "places (run_command written c s) = places s + mset (queued_ticket c)"
proof (cases c)
  case (Cmd_Request t n payload)
  show ?thesis
  proof (cases written)
    case None
    then show ?thesis
      using mset_hm_insert [of n t "ss_pending s"]
      by (simp add: places_def run_command_def Cmd_Request ac_simps)
  next
    case (Some e)
    then show ?thesis by (simp add: run_command_def Cmd_Request Let_def places_end_worker) (simp add: places_def)
  qed
next
  case Cmd_Close
  then show ?thesis by (simp add: run_command_def places_end_worker) (simp add: places_def)
qed

text \<open>A handled message gives an answer, forwards an event, or writes a pong.\<close>

lemma handle_message_cases:
  assumes "handle_message cfg from_utf8 from_text message written s = Inr s'"
  obtains (answer) r where "s' = give_answer r s"
    | (event) ev where "s' = forward_event cfg ev s"
    | (other) out where "s' = s\<lparr>ss_out := out\<rparr>"
proof -
  have m_text: thesis if h: "handle_text_message cfg from_text m_text s = Inr s'" for m_text
  proof -
    obtain v r where "from_text m_text = Inr v" "parse_rpc_response v = Inr r"
      and s': "(case r of Some response \<Rightarrow> Ok (give_answer response s)
        | None \<Rightarrow> Ok (forward_event cfg (parse_event v) s)) = (Inr s' :: string + sub_system)"
      using h unfolding handle_text_message_def res_bind_Inr_iff by blast
    show thesis
    proof (cases r)
      case None
      then show thesis using s' by (intro event [of "parse_event v"]) simp
    next
      case (Some a)
      then show thesis using s' by (intro answer [of a]) simp
    qed
  qed
  have keep: "s = s\<lparr>ss_out := ss_out s\<rparr>" by simp
  show thesis
  proof (cases message)
    case (SF_Text x)
    then show thesis using assms m_text by (simp add: handle_message_def)
  next
    case (SF_Binary b)
    then show thesis using assms m_text by (auto simp: handle_message_def split: option.splits)
  next
    case (SF_Ping payload)
    then show thesis
      using assms by (intro other [of "ss_out s @ [SO_Pong payload]"]) (simp add: handle_message_def split: option.splits)
  next
    case SF_Pong
    then show thesis using assms keep by (intro other [of "ss_out s"]) (simp add: handle_message_def)
  next
    case SF_Raw
    then show thesis using assms keep by (intro other [of "ss_out s"]) (simp add: handle_message_def)
  next
    case (SF_Close frame)
    then show thesis using assms by (simp add: handle_message_def split: option.splits prod.splits)
  qed
qed

text \<open>The parts of the invariant under the parts of a step.\<close>

lemma sub_ok_end_worker:
  assumes "sub_ok cfg s"
  shows "sub_ok cfg (end_worker r s)"
proof -
  have "labelled (end_worker r s)"
    using assms by (auto simp: sub_ok_def labelled_def end_worker_def Let_def list_all_iff)
  moreover have "places (end_worker r s) = mset [0..<ss_next s]"
    using assms by (simp add: places_end_worker sub_ok_def)
  ultimately show ?thesis
    using assms by (simp add: sub_ok_def within_buffers_def settled_def end_worker_def Let_def)
qed

lemma sub_ok_give_answer:
  assumes "sub_ok cfg s"
  shows "sub_ok cfg (give_answer r s)"
proof -
  have wf: "hm_wf (ss_pending s)" using assms by (simp add: sub_ok_def)
  have "labelled (give_answer r s)"
  proof (cases "hm_get (ss_pending s) (rr_id r)")
    case None
    then show ?thesis using assms by (simp add: give_answer_def sub_ok_def)
  next
    case (Some t)
    then have "(rr_id r, t) \<in> set (ss_pending s)" using hm.in_entries_iff [OF wf] by simp
    then have "rr_id r = request_id t" using assms by (auto simp: sub_ok_def labelled_def list_all_iff)
    then show ?thesis using assms Some
      by (auto simp: give_answer_def sub_ok_def labelled_def list_all_iff hm_remove_def)
  qed
  moreover have "places (give_answer r s) = mset [0..<ss_next s]"
    using assms by (simp add: places_give_answer wf sub_ok_def)
  ultimately show ?thesis
    using assms wf
    by (auto simp: sub_ok_def within_buffers_def settled_def give_answer_def hm_wf_remove hm_remove_Nil split: option.split)
qed

lemma sub_ok_forward_event:
  assumes "sub_ok cfg s"
  shows "sub_ok cfg (forward_event cfg ev s)"
proof -
  have "places (forward_event cfg ev s) = mset [0..<ss_next s]"
    using assms by (simp add: places_forward_event sub_ok_def)
  then show ?thesis
    using assms by (simp add: sub_ok_def within_buffers_def settled_def labelled_def forward_event_def)
qed

lemma sub_ok_unrelated: "sub_ok cfg s \<Longrightarrow> sub_ok cfg (s\<lparr>ss_out := out\<rparr>)"
  by (simp add: sub_ok_def within_buffers_def settled_def labelled_def places_def)

text \<open>An id in the map belongs to a request that is not in the channel any more: nothing is overwritten.\<close>

lemma request_id_inj: "t < 2 ^ 64 \<Longrightarrow> u < 2 ^ 64 \<Longrightarrow> request_id t = request_id u \<Longrightarrow> t = u"
proof -
  assume tu: "t < 2 ^ 64" "u < 2 ^ 64" "request_id t = request_id u"
  then have "(of_nat t :: u64) = of_nat u" by (simp add: request_id_def)
  then have "unat (of_nat t :: u64) = unat (of_nat u :: u64)" by simp
  then show "t = u" using tu(1, 2) by (simp add: unsigned_of_nat take_bit_nat_eq_self)
qed

lemma pending_fresh:
  assumes ok: "sub_ok cfg s" and queue: "ss_queue s = Cmd_Request t n payload # cs" and few: "ss_next s < 2 ^ 64"
  shows "hm_get (ss_pending s) n = None"
proof (rule ccontr)
  assume "hm_get (ss_pending s) n \<noteq> None"
  then obtain u where u: "hm_get (ss_pending s) n = Some u" by blast
  have wf: "hm_wf (ss_pending s)" and lab: "labelled s" and p: "places s = mset [0..<ss_next s]"
    using ok by (simp_all add: sub_ok_def)
  have "(n, u) \<in> set (ss_pending s)" using u hm.in_entries_iff [OF wf] by simp
  then have id: "request_id t = request_id u" and mem: "u \<in># mset (map snd (ss_pending s))"
    using lab queue by (force simp: labelled_def list_all_iff)+
  have "{#t#} + mset (map snd (ss_pending s)) \<subseteq># places s"
    by (simp add: places_def queue)
  then have sub: "{#t#} + mset (map snd (ss_pending s)) \<subseteq># mset [0..<ss_next s]" unfolding p .
  then have "set_mset ({#t#} + mset (map snd (ss_pending s))) \<subseteq> set [0..<ss_next s]"
    using set_mset_mono [OF sub] by simp
  then have "t < ss_next s" "u < ss_next s" using mem by auto
  then have "t = u" using few id by (intro request_id_inj) simp_all
  then have "2 \<le> count ({#t#} + mset (map snd (ss_pending s))) t"
    using mem count_greater_zero_iff [of "mset (map snd (ss_pending s))" u] by simp
  also have "\<dots> \<le> count (mset [0..<ss_next s]) t" using sub by (rule mset_subset_eq_count)
  also have "\<dots> \<le> 1" by (simp add: count_mset_set')
  finally show False by simp
qed

lemma sub_ok_run_command:
  assumes ok: "sub_ok cfg s" and queue: "ss_queue s = c # cs"
  shows "sub_ok cfg (run_command written c (s\<lparr>ss_queue := cs\<rparr>))"
proof (cases c)
  case (Cmd_Request t n payload)
  let ?s = "s\<lparr>ss_queue := cs\<rparr>"
  have n: "n = request_id t" using ok queue Cmd_Request by (simp add: sub_ok_def labelled_def)
  have p: "places s = places ?s + {#t#}" by (simp add: places_def queue Cmd_Request)
  show ?thesis
  proof (cases written)
    case None
    have "places (run_command None c ?s) = mset [0..<ss_next s]"
      using ok p by (simp add: places_run_command Cmd_Request sub_ok_def del: mset_upt)
    moreover have "labelled (run_command None c ?s)"
      using ok queue n set_hm_insert [of n t "ss_pending s"]
      by (auto simp: sub_ok_def labelled_def run_command_def Cmd_Request list_all_iff)
    moreover have "hm_wf (ss_pending (run_command None c ?s))"
      using ok by (simp add: sub_ok_def run_command_def Cmd_Request hm_wf_insert)
    moreover have "settled (run_command None c ?s)"
    proof -
      have "ss_running s" using ok queue by (auto simp: sub_ok_def settled_def split: if_splits)
      then show ?thesis
        using ok pending_fresh [OF ok, of t n payload cs] queue
        by (auto simp: sub_ok_def settled_def run_command_def Cmd_Request)
    qed
    moreover have "within_buffers cfg (run_command None c ?s)"
      using ok queue by (simp add: sub_ok_def within_buffers_def run_command_def Cmd_Request)
    ultimately show ?thesis
      using None by (simp add: sub_ok_def run_command_def Cmd_Request)
  next
    case (Some e)
    let ?r = "?s\<lparr>ss_replies := ss_replies s @ [(t, Err (''failed sending websocket request: '' @ e))]\<rparr>"
    have "places ?r = places s" using p by (simp add: places_def)
    then have "sub_ok cfg ?r"
      using ok queue by (auto simp: sub_ok_def labelled_def within_buffers_def settled_def split: if_splits)
    then have "sub_ok cfg (end_worker (Err (''failed sending websocket request: '' @ e)) ?r)" by (rule sub_ok_end_worker)
    then show ?thesis using Some by (simp add: run_command_def Cmd_Request Let_def)
  qed
next
  case Cmd_Close
  let ?r = "s\<lparr>ss_queue := cs, ss_out := ss_out s @ [SO_Close]\<rparr>"
  have "places ?r = places s" by (simp add: places_def queue Cmd_Close)
  then have "sub_ok cfg ?r"
    using ok queue by (auto simp: sub_ok_def labelled_def within_buffers_def settled_def Cmd_Close split: if_splits)
  then have "sub_ok cfg (end_worker (Ok ()) ?r)" by (rule sub_ok_end_worker)
  then show ?thesis by (simp add: run_command_def Cmd_Close)
qed

lemma sub_ok_worker_round:
  assumes ok: "sub_ok cfg s" and step: "worker_round cfg from_utf8 from_text inp s = Some s'"
  shows "sub_ok cfg s'"
proof -
  have run: "ss_running s" using step by (auto simp: worker_round_def split: if_splits)
  show ?thesis
  proof (cases "ss_held s")
    case (Some ev)
    then have "length (ss_events s) < sc_event_buffer cfg" "s' = s\<lparr>ss_events := ss_events s @ [ev], ss_held := None\<rparr>"
      using step run by (auto simp: worker_round_def split: if_splits)
    then show ?thesis
      using ok by (simp add: sub_ok_def labelled_def within_buffers_def settled_def places_def)
  next
    case None
    show ?thesis
    proof (cases inp)
      case (Wi_Command written)
      obtain c cs where "ss_queue s = c # cs" "s' = run_command written c (s\<lparr>ss_queue := cs\<rparr>)"
        using step run None Wi_Command by (auto simp: worker_round_def split: list.splits)
      then show ?thesis using ok sub_ok_run_command by blast
    next
      case (Wi_Tick written)
      then show ?thesis
        using step run None ok
        by (auto simp: worker_round_def sub_ok_end_worker sub_ok_unrelated split: option.splits)
    next
      case (Wi_Frame message written)
      show ?thesis
      proof (cases "handle_message cfg from_utf8 from_text message written s")
        case (Inl e)
        then show ?thesis
          using step run None Wi_Frame ok by (auto simp: worker_round_def sub_ok_end_worker)
      next
        case (Inr a)
        then have "s' = a" using step run None Wi_Frame by (simp add: worker_round_def)
        moreover have "sub_ok cfg a"
          using Inr ok
          by (rule_tac handle_message_cases [OF Inr])
            (simp_all add: sub_ok_give_answer sub_ok_forward_event sub_ok_unrelated)
        ultimately show ?thesis by simp
      qed
    qed (use step run None ok in \<open>auto simp: worker_round_def sub_ok_end_worker\<close>)
  qed
qed

lemma sub_ok_act:
  assumes ok: "sub_ok cfg s" and step: "sub_act cfg from_utf8 from_text a s = Some s'"
  shows "sub_ok cfg s'"
proof (cases a)
  case (Sa_Draw payload)
  then show ?thesis
    using step ok
    by (auto simp: sub_act_def sub_ok_def labelled_def within_buffers_def settled_def places_def simp del: mset_upt)
next
  case (Sa_Send t)
  obtain payload rest where d: "take_draft t (ss_drafted s) = Some (payload, rest)"
    using step Sa_Send by (auto simp: sub_act_def send_request_def split: option.splits)
  note m = mset_take_draft [OF d]
  show ?thesis
  proof (cases "ss_running s")
    case True
    then have "length (ss_queue s) < sc_command_buffer cfg"
      "s' = s\<lparr>ss_drafted := rest, ss_queue := ss_queue s @ [Cmd_Request t (request_id t) payload]\<rparr>"
      using step Sa_Send d by (auto simp: sub_act_def send_request_def split: if_splits)
    then show ?thesis
      using ok True m by (auto simp: sub_ok_def labelled_def within_buffers_def settled_def places_def)
  next
    case False
    then have "s' = s\<lparr>ss_drafted := rest, ss_refused := ss_refused s @ [t]\<rparr>"
      using step Sa_Send d by (simp add: sub_act_def send_request_def)
    then show ?thesis
      using ok False m by (auto simp: sub_ok_def labelled_def within_buffers_def settled_def places_def)
  qed
next
  case Sa_Close
  then show ?thesis
    using step ok
    by (auto simp: sub_act_def sub_ok_def labelled_def within_buffers_def settled_def places_def split: if_splits)
next
  case Sa_NextEvent
  then show ?thesis
    using step ok
    by (auto simp: sub_act_def sub_ok_def labelled_def within_buffers_def settled_def places_def split: list.splits)
next
  case Sa_Drop
  have "places (drop_client s) = places s" by (simp add: places_def drop_client_def)
  then have "sub_ok cfg (drop_client s)"
    using ok by (simp add: sub_ok_def labelled_def within_buffers_def settled_def drop_client_def)
  then show ?thesis using step ok Sa_Drop by (auto simp: sub_act_def split: if_splits)
next
  case (Sa_Worker inp)
  then show ?thesis using step ok sub_ok_worker_round by (auto simp: sub_act_def)
qed

lemma sub_ok_run:
  "sub_ok cfg s \<Longrightarrow> sub_run cfg from_utf8 from_text as s = Some s' \<Longrightarrow> sub_ok cfg s'"
proof (induction as arbitrary: s)
  case (Cons a as)
  then obtain s1 where "sub_act cfg from_utf8 from_text a s = Some s1" "sub_run cfg from_utf8 from_text as s1 = Some s'"
    by (auto simp: bind_eq_Some_conv)
  then show ?case using Cons.IH [of s1] sub_ok_act [OF Cons.prems(1)] by simp
qed simp

lemma sub_ok_start: "sub_ok cfg sub_start"
  by (simp add: sub_ok_def sub_start_def places_def labelled_def within_buffers_def settled_def)

text \<open>C35: requests on a subscription's connection. In every interleaving of client tasks and worker, with fewer than 2^64 of
  them, each request is in exactly one place: not sent yet, in the channel, waiting, answered, dropped or
  refused; an answer that is a response carries the request's own id, whatever the order of the responses; nothing is dropped
  or refused while the worker runs, and nothing is left waiting when it is gone; and the channels keep to
  their sizes.\<close>

theorem every_request_accounted:
  assumes "sub_run cfg from_utf8 from_text as sub_start = Some s" "ss_next s < 2 ^ 64"
  shows "mset (map fst (ss_drafted s) @ concat (map queued_ticket (ss_queue s)) @ map snd (ss_pending s) @
      map fst (ss_replies s) @ ss_dropped s @ ss_refused s) = mset [0..<ss_next s] \<and>
    (\<forall>t r. (t, Ok r) \<in> set (ss_replies s) \<longrightarrow> rr_id r = request_id t) \<and>
    (if ss_running s then ss_dropped s = [] \<and> ss_refused s = [] else ss_queue s = [] \<and> ss_pending s = []) \<and>
    length (ss_queue s) \<le> sc_command_buffer cfg \<and> length (ss_events s) \<le> sc_event_buffer cfg"
proof -
  have ok: "sub_ok cfg s" by (rule sub_ok_run [OF sub_ok_start assms(1)])
  then have "places s = mset [0..<ss_next s]" "labelled s" "settled s" "within_buffers cfg s" by (simp_all add: sub_ok_def)
  moreover have "rr_id r = request_id t" if "(t, Ok r) \<in> set (ss_replies s)" for t r
  proof -
    have "labelled_reply (t, Ok r)" using that ok unfolding sub_ok_def labelled_def list_all_iff by blast
    then show ?thesis by simp
  qed
  ultimately show ?thesis
    using assms(2) by (simp add: places_def settled_def within_buffers_def ac_simps del: mset_upt)
qed

definition demo_response :: json where
  "demo_response = JObject [(''id'', JNumber (PosInt 2)), (''result'', JNull)]"

definition demo_actions :: "sub_action list" where
  "demo_actions = [Sa_Draw (\<lambda>n. ''first''), Sa_Draw (\<lambda>n. ''second''), Sa_Send 1, Sa_Send 0,
     Sa_Worker (Wi_Command None), Sa_Worker (Wi_Command None), Sa_Worker (Wi_Frame (SF_Text ''x'') None),
     Sa_Worker Wi_ReadEnded]"

theorem every_request_accounted_witness:
  "\<exists>s. sub_run default_sub_config (\<lambda>_. None) (\<lambda>_. Ok demo_response) demo_actions sub_start = Some s \<and>
     mset (map fst (ss_replies s)) = mset [0, 1] \<and> \<not> ss_running s \<and> ss_pending s = []"
proof -
  have "\<exists>s. sub_run default_sub_config (\<lambda>_. None) (\<lambda>_. Ok demo_response) demo_actions sub_start = Some s \<and>
      ss_next s = 2 \<and> \<not> ss_running s \<and> ss_drafted s = [] \<and> ss_dropped s = [] \<and> ss_refused s = []"
    by (simp add: demo_actions_def sub_start_def sub_act_def send_request_def default_sub_config_def
        worker_round_def run_command_def request_id_def handle_message_def handle_text_message_def
        demo_response_def parse_rpc_response_def give_answer_def end_worker_def hm_get_def hm_remove_def)
  then obtain s where s: "sub_run default_sub_config (\<lambda>_. None) (\<lambda>_. Ok demo_response) demo_actions sub_start = Some s"
    "ss_next s = 2" "\<not> ss_running s" "ss_drafted s = []" "ss_dropped s = []" "ss_refused s = []" by blast
  have two: "[0..<2] = [0::nat, 1]" by (simp add: eval_nat_numeral)
  note acc = every_request_accounted [OF s(1)]
  have gone: "ss_queue s = []" "ss_pending s = []" using acc s(2, 3) by simp_all
  have "mset (map fst (ss_replies s)) = mset [0..<ss_next s]"
    using acc s(2, 4-6) gone by (simp del: mset_upt)
  with s(1-3) two gone show ?thesis by auto
qed

text \<open>
  The answer of a waiting request reaches it as soon as the worker reads it, unless the worker waits for room
  in the channel of events: then nothing that the exchange sends or a client asks for is looked at until the
  client takes an event. A client that waits for an answer does not take events meanwhile.
\<close>

lemma answer_reaches_request:
  assumes "ss_running s" "ss_held s = None" "from_text m = Inr v" "parse_rpc_response v = Inr (Some r)"
    and "hm_get (ss_pending s) (rr_id r) = Some t"
  shows "\<exists>s'. worker_round cfg from_utf8 from_text (Wi_Frame (SF_Text m) None) s = Some s' \<and>
    (t, Ok r) \<in> set (ss_replies s') \<and> hm_get (ss_pending s') (rr_id r) = None"
  using assms
  by (simp add: worker_round_def handle_message_def handle_text_message_def give_answer_def hm_get_remove)

lemma full_event_channel_blocks:
  assumes "ss_held s = Some ev" "sc_event_buffer cfg \<le> length (ss_events s)"
  shows "worker_round cfg from_utf8 from_text inp s = None"
  using assms by (simp add: worker_round_def)

lemma event_fills_channel:
  assumes "ss_running s" "ss_held s = None" "sc_event_buffer cfg \<le> length (ss_events s)"
    and "from_text m = Inr v" "parse_rpc_response v = Inr None"
  shows "\<exists>s'. worker_round cfg from_utf8 from_text (Wi_Frame (SF_Text m) None) s = Some s' \<and>
    (\<forall>inp. worker_round cfg from_utf8 from_text inp s' = None)"
  using assms
  by (simp add: worker_round_def handle_message_def handle_text_message_def forward_event_def)

text \<open>Any text that is not JSON ends the connection, and every waiting request with it.\<close>

lemma bad_text_ends_worker:
  assumes "ss_running s" "ss_held s = None" "from_text m = Inl e"
  shows "worker_round cfg from_utf8 from_text (Wi_Frame (SF_Text m) written) s = Some (end_worker (Err e) s)"
  using assms by (simp add: worker_round_def handle_message_def handle_text_message_def)

end

