(* ===== verification/SdkAnswers.thy ===== *)
theory SdkAnswers
  imports ExecutionGateway SdkAccount SdkWire MarketLevels
begin

text \<open>
  The answers of the engine (nado_utils/engine.rs) with the way an answer is recognised by its fields.
\<close>

subsection \<open>Answers of the engine\<close>

record nonces_response =
  no_tx_nonce :: u64
  no_order_nonce :: u64

record order_response =
  or_product_id :: u32
  or_sender :: bytes
  or_price_x18 :: i128
  or_amount :: i128
  or_expiration :: string
  or_order_type :: string
  or_nonce :: string
  or_appendix :: u128
  or_unfilled_amount :: i128
  or_digest :: bytes
  or_placed_at :: u64
  or_id :: "u64 option"

record validate_order_response =
  vo_product_id :: u32
  vo_order :: bytes
  vo_valid :: bool

record subaccount_orders =
  so_sender :: bytes
  so_product_id :: u32
  so_orders :: "order_response list"

record product_orders =
  ro_product_id :: u32
  ro_orders :: "order_response list"

record orders_response =
  os_sender :: bytes
  os_product_orders :: "product_orders list"

record nlp_pool =
  np_pool_id :: u64
  np_subaccount :: bytes
  np_owner :: bytes
  np_balance_weight_x18 :: u128
  np_subaccount_info :: subaccount_info
  np_open_orders :: "order_response list"

record nlp_locked_balance =
  nl_balance :: spot_balance
  nl_unlocked_at :: u64

record nlp_locked_balances =
  nb_balance_locked :: spot_balance
  nb_balance_unlocked :: spot_balance
  nb_locked_balances :: "nlp_locked_balance list"

datatype (plugins only: code size) query_data =
    Qd_StatusResponse engine_status
  | Qd_Contracts contracts_info
  | Qd_FeeRates fee_rates
  | Qd_Nonces nonces_response
  | Qd_LinkedSigner bytes
  | Qd_SubaccountInfo subaccount_info
  | Qd_MarketPrice market_price
  | Qd_MarketPrices "market_price list"
  | Qd_Order order_response
  | Qd_Orders orders_response
  | Qd_ValidateOrder validate_order_response
  | Qd_SubaccountOrders subaccount_orders
  | Qd_MarketLiquidity market_liquidity
  | Qd_AllProducts all_products
  | Qd_EdgeAllProducts "(u64, all_products) hashmap"
  | Qd_MaxOrderSize i128
  | Qd_MaxWithdrawable i128
  | Qd_MaxNlpMintable i128
  | Qd_MaxNlpBurnable i128
  | Qd_HealthGroups "(u32 \<times> u32) list"
  | Qd_Insurance i128
  | Qd_Symbols "(string, symbol_listing) hashmap"
  | Qd_IsolatedPositions "isolated_position list"
  | Qd_NlpPoolInfo "nlp_pool list"
  | Qd_NlpLockedBalances nlp_locked_balances
  | Qd_Error string

datatype execute_data =
    Xd_PlaceOrder bytes
  | Xd_PlaceOrders "(bytes option \<times> string option) list"
  | Xd_CancelOrders "order_response list"
  | Xd_CancelProductOrders "order_response list"

text \<open>
  An answer is told by its fields alone: it is read as the first kind, in the order of the kinds, whose fields it has.
  The fields of an answer as it is written, and those its reader insists on.
\<close>

definition answer_fields :: "(string \<times> string list \<times> string list) list" where
  "answer_fields =
    [(''Contracts'', [''chain_id'', ''endpoint_addr''], []),
     (''FeeRates'', [''taker_fee_rates_x18'', ''maker_fee_rates_x18'', ''liquidation_sequencer_fee'',
        ''health_check_sequencer_fee'', ''taker_sequencer_fee'', ''withdraw_sequencer_fees'', ''fee_tier''], []),
     (''Nonces'', [''tx_nonce'', ''order_nonce''], []),
     (''LinkedSigner'', [''linked_signer''], []),
     (''SubaccountInfo'', [''subaccount'', ''exists'', ''healths'', ''health_contributions'', ''spot_count'',
        ''perp_count'', ''spot_balances'', ''perp_balances'', ''spot_products'', ''perp_products''], [''pre_state'']),
     (''MarketPrice'', [''product_id'', ''bid_x18'', ''ask_x18''], []),
     (''MarketPrices'', [''market_prices''], []),
     (''Order'', [''product_id'', ''sender'', ''price_x18'', ''amount'', ''expiration'', ''order_type'', ''nonce'',
        ''appendix'', ''unfilled_amount'', ''digest'', ''placed_at''], [''id'']),
     (''Orders'', [''sender'', ''product_orders''], []),
     (''ValidateOrder'', [''product_id'', ''order'', ''valid''], []),
     (''SubaccountOrders'', [''sender'', ''product_id'', ''orders''], []),
     (''MarketLiquidity'', [''bids'', ''asks'', ''product_id'', ''timestamp''], []),
     (''AllProducts'', [''spot_products'', ''perp_products''], []),
     (''EdgeAllProducts'', [''edge_all_products''], []),
     (''MaxOrderSize'', [''max_order_size''], []),
     (''MaxWithdrawable'', [''max_withdrawable''], []),
     (''MaxNlpMintable'', [''max_quote_amount''], []),
     (''MaxNlpBurnable'', [''max_nlp_amount''], []),
     (''HealthGroups'', [''health_groups''], []),
     (''Insurance'', [''insurance''], []),
     (''Symbols'', [''symbols''], []),
     (''IsolatedPositions'', [''isolated_positions''], []),
     (''NlpPoolInfo'', [''nlp_pools''], []),
     (''NlpLockedBalances'', [''balance_locked'', ''balance_unlocked'', ''locked_balances''], [])]"

definition untagged :: "(string \<Rightarrow> json \<Rightarrow> 'd option) \<Rightarrow> string list \<Rightarrow> json \<Rightarrow> 'd option" where
  "untagged reader kinds v = fold (\<lambda>k found. opt_or found (reader k v)) kinds None"

definition answer_kinds :: "string list" where
  "answer_kinds = ''StatusResponse'' # map fst answer_fields @ [''Error'']"

definition read_answer :: "(string \<Rightarrow> json \<Rightarrow> query_data option) \<Rightarrow> json \<Rightarrow> query_data option" where
  "read_answer reader v = untagged reader answer_kinds v"

lemma untagged_first:
  assumes "reader k v = Some d" "\<forall>k'\<in>set before. reader k' v = None"
  shows "untagged reader (before @ k # after) v = Some d"
proof -
  have found: "fold (\<lambda>k found. opt_or found (reader k v)) ks (Some d) = Some d" for ks d
    by (induction ks) simp_all
  have "fold (\<lambda>k found. opt_or found (reader k v)) before None = None"
    using assms(2) by (induction before) simp_all
  then show ?thesis using assms(1) found by (simp add: untagged_def)
qed

lemma answer_fields_apart:
  assumes "i < length answer_fields" "answer_fields ! i = (k, needed, extra)" "j < i"
  shows "\<not> set (fst (snd (answer_fields ! j))) \<subseteq> set needed \<union> set extra"
proof -
  let ?all = "\<lambda>i. set (fst (snd (answer_fields ! i))) \<union> set (snd (snd (answer_fields ! i)))"
  have "list_all (\<lambda>i. list_all (\<lambda>j. \<not> list_all (\<lambda>n. n \<in> set (fst (snd (answer_fields ! i))) \<union> set (snd (snd (answer_fields ! i))))
      (fst (snd (answer_fields ! j)))) [0..<i]) [0..<length answer_fields]"
    by code_simp
  then have "\<forall>i\<in>{0..<length answer_fields}. \<forall>j\<in>{0..<i}. \<not> set (fst (snd (answer_fields ! j))) \<subseteq> ?all i"
    by (simp only: list_all_iff set_upt subset_eq)
  then have "\<not> set (fst (snd (answer_fields ! j))) \<subseteq> ?all i" using assms(1, 3) by simp
  then show ?thesis using assms(2) by simp
qed

text \<open>
  An answer that is written with its fields is read back as what it is: no kind before its own finds its fields
  there. What a derived reader does is assumed: it finds nothing where a field it needs is missing, in what is
  not an object only the texts of a status are found before an error.
\<close>

lemma answer_found:
  assumes needs: "\<And>k needed extra obj. (k, needed, extra) \<in> set answer_fields \<Longrightarrow>
      reader k (JObject obj) \<noteq> None \<Longrightarrow> set needed \<subseteq> fst ` set obj"
    and status: "reader ''StatusResponse'' (JObject obj) = None"
    and kind: "(k, needed, extra) \<in> set answer_fields"
    and written: "set needed \<subseteq> fst ` set obj" "fst ` set obj \<subseteq> set needed \<union> set extra"
    and own: "reader k (JObject obj) = Some d"
  shows "read_answer reader (JObject obj) = Some d"
proof -
  obtain i where i: "i < length answer_fields" "answer_fields ! i = (k, needed, extra)"
    using kind by (metis in_set_conv_nth)
  have none: "reader (fst (answer_fields ! j)) (JObject obj) = None" if "j < i" for j
  proof (rule ccontr)
    assume r: "reader (fst (answer_fields ! j)) (JObject obj) \<noteq> None"
    obtain k' needed' extra' where j: "answer_fields ! j = (k', needed', extra')" by (metis prod_cases3)
    have "(k', needed', extra') \<in> set answer_fields" using that i(1) j by (metis nth_mem order_less_trans)
    from needs [OF this, of obj] have "set needed' \<subseteq> fst ` set obj" using r j by simp
    then show False using answer_fields_apart [OF i that] j written(2) by auto
  qed
  have split: "answer_kinds = (''StatusResponse'' # map fst (take i answer_fields)) @ k #
      (map fst (drop (Suc i) answer_fields) @ [''Error''])"
    using id_take_nth_drop [OF i(1)] i(2)
    by (simp add: answer_kinds_def) (metis append_Cons append_assoc fst_conv list.simps(9) map_append)
  have "\<forall>k'\<in>set (''StatusResponse'' # map fst (take i answer_fields)). reader k' (JObject obj) = None"
    using none status i(1) by (auto simp: in_set_conv_nth) (metis fst_conv)
  then show ?thesis unfolding read_answer_def split by (intro untagged_first own)
qed

end
