(* ===== verification/SdkQueries.thy ===== *)
theory SdkQueries
  imports SdkTransactions
begin

text \<open>
  The queries of the engine (nado_utils/engine.rs), of the trigger service (nado_utils/trigger.rs) and of the archive
  (nado_utils/indexer.rs).
\<close>

subsection \<open>Requests\<close>

datatype direction = Dir_Long | Dir_Short

record product_delta =
  pd_product_id :: u32
  pd_subaccount :: bytes
  pd_amount_delta :: i128
  pd_v_quote_delta :: i128

datatype (plugins only: code size) engine_query =
    Q_Status
  | Q_Contracts
  | Q_Nonces bytes
  | Q_LinkedSigner bytes
  | Q_SubaccountInfo bytes "string option" "string option"
  | Q_AllProducts
  | Q_EdgeAllProducts
  | Q_MarketPrice u32
  | Q_MarketPrices "u32 list"
  | Q_Order u32 bytes
  | Q_Orders bytes "u32 list"
  | Q_ValidateOrder u32 bytes
  | Q_FeeRates bytes
  | Q_SubaccountOrders bytes u32
  | Q_MarketLiquidity u32 u32
  | Q_MaxOrderSize bytes u32 i128 direction "string option" "string option" "string option" "string option"
  | Q_MaxWithdrawable bytes u32 "string option"
  | Q_MaxNlpMintable bytes "string option"
  | Q_MaxNlpBurnable bytes
  | Q_IsolatedPositions bytes
  | Q_HealthGroups
  | Q_Insurance
  | Q_Versions
  | Q_Symbols "u32 list option" "string option"
  | Q_NlpPoolInfo
  | Q_NlpLockedBalances bytes

record list_trigger_orders =
  lt_sender :: bytes
  lt_recvTime :: u64

datatype (plugins only: code size) trigger_status_type =
    St_Cancelled | St_Triggered | St_InternalError | St_Triggering | St_WaitingPrice | St_WaitingDependency
  | St_TwapExecuting | St_TwapCompleted

record trigger_listing =
  tl_tx :: list_trigger_orders
  tl_signature :: bytes
  tl_product_ids :: "u32 list option"
  tl_trigger_types :: "trigger_type list option"
  tl_status_types :: "trigger_status_type list option"
  tl_max_update_time :: "u64 option"
  tl_max_digest :: "bytes option"
  tl_digests :: "bytes list option"
  tl_limit :: "u32 option"
  tl_reduce_only :: "bool option"

datatype trigger_query = Tq_ListTriggerOrders trigger_listing | Tq_ListTwapExecutions bytes

record interval =
  iv_count :: u64
  iv_granularity :: u64
  iv_max_time :: "u64 option"

datatype timestamps = Ts_Timestamp u64 | Ts_Timestamps "u64 list"
datatype event_limit = Limit_Raw u32 | Limit_Txs u32
datatype leaderboard_type = Lb_PNL | Lb_ROI

text \<open>The queries of the archive.\<close>

datatype (plugins only: code size) archive_query =
    Aq_LiquidationFeed
  | Aq_FundingRate u32
  | Aq_FundingRates "u32 list"
  | Aq_Candlesticks u32 u32 "u64 option" "u32 option"
  | Aq_Products u32 "u64 option" "u32 option" "u64 option"
  | Aq_ProductSnapshots "u32 list" "timestamps option"
  | Aq_Events "bytes list option" "u32 list option" "tx_type list option" "u64 option" "event_limit option"
      "u64 option" "bool option" "bool option"
  | Aq_Orders "bytes list option" "u32 list option" "bytes list option" "u64 option" "u32 option" "u64 option"
      "bool option" "trigger_type list option"
  | Aq_AccountSnapshots "bytes list" "u64 list" "bool option" "bool option"
  | Aq_Matches "bytes list option" "u32 list option" "u64 option" "u32 option" "u64 option" "bool option"
  | Aq_Subaccounts "bytes option" "u64 option" "u64 option"
  | Aq_Price u32
  | Aq_PerpPrices "u32 list"
  | Aq_OraclePrice "u32 list"
  | Aq_OracleSnapshots interval "u32 list option"
  | Aq_QuotePrice
  | Aq_LinkedSignerRateLimit bytes
  | Aq_LinkedSigners "u64 option" "u32 option"
  | Aq_IsolatedSubaccounts "bytes option" "u64 option" "u32 option"
  | Aq_MarketSnapshots interval "u32 list option"
  | Aq_EdgeMarketSnapshots interval
  | Aq_EdgeCandlesticks u32 u32 "u64 option" "u32 option"
  | Aq_InterestAndFunding bytes "u32 list" "u64 option" "u64 option" u32
  | Aq_NlpFundingPayments "u64 option" "u64 option" u32
  | Aq_NlpInterestPayments "u64 option" "u64 option" u32
  | Aq_Signatures "bytes list"
  | Aq_Leaderboard u32 leaderboard_type "u64 option" "u64 option"
  | Aq_LeaderboardRank "u32 list" bytes
  | Aq_LeaderboardContests "u32 list"
  | Aq_LeaderboardRegistration bytes u32 "update_registration option"
  | Aq_FastWithdrawalSignature u64
  | Aq_Ratelimit "string option" "string option" string
  | Aq_NlpSnapshots "interval option" "u64 option" "u64 option" "u32 option"
  | Aq_TxHashes "u64 list"
  | Aq_Backlog
  | Aq_DirectDepositAddress bytes
  | Aq_InkAirdrop bytes
  | Aq_PrivateAlphaChoice bytes
  | Aq_NadoPoints bytes

text \<open>The numbers and digests of a request are wrapped for their JSON forms; the wrapping keeps the value.\<close>

definition optional_bool_to_string :: "bool option \<Rightarrow> string option" where
  "optional_bool_to_string b = map_option (\<lambda>v. if v then ''true'' else ''false'') b"

definition timestamps_of :: "timestamps \<Rightarrow> u64 list" where
  "timestamps_of t = (case t of Ts_Timestamp n \<Rightarrow> [n] | Ts_Timestamps ns \<Rightarrow> ns)"

definition is_single_timestamp :: "timestamps \<Rightarrow> bool" where
  "is_single_timestamp t = (case t of Ts_Timestamp n \<Rightarrow> True | Ts_Timestamps ns \<Rightarrow> False)"

end
