(* ===== verification/SdkTriggers.thy ===== *)
theory SdkTriggers
  imports SdkAnswers SdkQueries
begin

text \<open>Trigger orders with their status, and the answers of the trigger service (nado_utils/trigger.rs).\<close>

subsection \<open>Trigger orders\<close>

datatype resp_status = Rs_Success | Rs_Failure

record execute_response =
  xr_status :: resp_status
  xr_signature :: "bytes option"
  xr_id :: "u64 option"
  xr_data :: "execute_data option"
  xr_error_code :: "i32 option"
  xr_error :: "string option"
  xr_request_type :: "string option"

datatype cancel_reason =
    Cr_UserRequested | Cr_LinkedSignerChanged | Cr_Expired | Cr_AccountHealth | Cr_IsolatedSubaccountClosed
  | Cr_DependentOrderCancelled

datatype (plugins only: code size) trigger_order_status =
    To_Cancelled cancel_reason
  | To_Triggered execute_response
  | To_InternalError string
  | To_Triggering
  | To_WaitingPrice
  | To_WaitingDependency
  | To_TwapExecuting u32 u32
  | To_TwapCompleted u32 u32

fun status_type_code :: "trigger_status_type \<Rightarrow> i32" where
  "status_type_code St_Cancelled = 0"
| "status_type_code St_Triggered = 1"
| "status_type_code St_InternalError = 2"
| "status_type_code St_Triggering = 3"
| "status_type_code St_WaitingPrice = 4"
| "status_type_code St_WaitingDependency = 5"
| "status_type_code St_TwapExecuting = 6"
| "status_type_code St_TwapCompleted = 7"

definition pending_types :: "trigger_status_type list" where
  "pending_types = [St_WaitingPrice, St_WaitingDependency, St_TwapExecuting]"

definition pending_byte :: "i32 list" where
  "pending_byte = map status_type_code pending_types"

fun status_type :: "trigger_order_status \<Rightarrow> trigger_status_type" where
  "status_type (To_Cancelled _) = St_Cancelled"
| "status_type (To_Triggered _) = St_Triggered"
| "status_type (To_InternalError _) = St_InternalError"
| "status_type To_Triggering = St_Triggering"
| "status_type To_WaitingPrice = St_WaitingPrice"
| "status_type To_WaitingDependency = St_WaitingDependency"
| "status_type (To_TwapExecuting _ _) = St_TwapExecuting"
| "status_type (To_TwapCompleted _ _) = St_TwapCompleted"

definition status_byte :: "trigger_order_status \<Rightarrow> i32" where
  "status_byte s = status_type_code (status_type s)"

definition byte_from_str :: "string \<Rightarrow> string + i32" where
  "byte_from_str s =
     (if s = ''cancelled'' then Ok 0
      else if s = ''triggered'' then Ok 1
      else if s = ''internal_error'' then Ok 2
      else if s = ''triggering'' then Ok 3
      else if s = ''waiting_price'' then Ok 4
      else if s = ''waiting_dependency'' then Ok 5
      else if s = ''twap_executing'' then Ok 6
      else if s = ''twap_completed'' then Ok 7
      else Err ''Invalid status string'')"

text \<open>The names the derived writer gives the kinds of a status.\<close>

fun status_type_name :: "trigger_status_type \<Rightarrow> string" where
  "status_type_name St_Cancelled = ''cancelled''"
| "status_type_name St_Triggered = ''triggered''"
| "status_type_name St_InternalError = ''internal_error''"
| "status_type_name St_Triggering = ''triggering''"
| "status_type_name St_WaitingPrice = ''waiting_price''"
| "status_type_name St_WaitingDependency = ''waiting_dependency''"
| "status_type_name St_TwapExecuting = ''twap_executing''"
| "status_type_name St_TwapCompleted = ''twap_completed''"

lemma byte_from_name: "byte_from_str (status_type_name t) = Ok (status_type_code t)"
  by (induction t; code_simp)

lemma status_type_code_inj: "status_type_code s = status_type_code t \<longleftrightarrow> s = t"
  by (cases s; cases t) simp_all

record trigger_order_info =
  ti_order :: place_trigger_order
  ti_status :: trigger_order_status
  ti_placed_at :: u64
  ti_updated_at :: u64

definition contains_digest :: "trigger_order_info list \<Rightarrow> bytes \<Rightarrow> bool" where
  "contains_digest orders digest = list_ex (\<lambda>o'. pt_digest (ti_order o') = Some digest) orders"

datatype twap_status =
    Tw_Pending | Tw_Executing | Tw_Executed i64 execute_response | Tw_Failed string | Tw_Cancelled cancel_reason

record twap_execution =
  te_execution_id :: u32
  te_scheduled_time :: i64
  te_status :: twap_status
  te_updated_at :: i64

datatype trigger_data =
    Td_ListTriggerOrders "trigger_order_info list"
  | Td_ListTwapExecutions "twap_execution list"
  | Td_Error string

end
