(* ===== verification/SdkClient.thy ===== *)
theory SdkClient
  imports SdkTriggers
begin

text \<open>
  The SDK's client (nado_client.rs, core/base.rs, core/query.rs, core/indexer.rs, utils/response.rs,
  utils/client_utils.rs): its settings, and the queries with what they make of the answers.

  A call runs over the list of what was sent so far and ends with a value, an error, or a panic. The services
  and the chain are in the record world: the n-th thing that is sent may be answered differently
  each time. Wallets, hashing and the reading of an answer's fields are libraries'.
\<close>

subsection \<open>The client\<close>

record deployment =
  dy_node_url :: string
  dy_quote :: bytes
  dy_clearinghouse :: bytes
  dy_endpoint :: bytes
  dy_spot_engine :: bytes
  dy_perp_engine :: bytes
  dy_querier :: bytes
  dy_offchain_exchange :: bytes
  dy_verifier :: bytes
  dy_contract_owner :: bytes

record 'w nado_client =
  nc_client_mode :: client_mode
  nc_deployment :: deployment
  nc_gateway_url :: string
  nc_archive_url :: string
  nc_trigger_url :: string
  nc_subaccount_name :: "bytes option"
  nc_wallet :: "'w option"
  nc_chain_id :: "u64 option"
  nc_custom_node_url :: "string option"

text \<open>The deployment of a network is read from a file.\<close>

definition client_new :: "environment \<Rightarrow> (client_mode \<Rightarrow> deployment) \<Rightarrow> client_mode \<Rightarrow> 'w nado_client" where
  "client_new env deployment_of mode =
     \<lparr>nc_client_mode = mode, nc_deployment = deployment_of mode,
      nc_gateway_url = default_gateway_url env mode, nc_archive_url = default_archive_url env mode,
      nc_trigger_url = default_trigger_url env mode, nc_subaccount_name = None, nc_wallet = None,
      nc_chain_id = None, nc_custom_node_url = None\<rparr>"

definition with_gateway_url :: "string \<Rightarrow> 'w nado_client \<Rightarrow> 'w nado_client" where
  "with_gateway_url url c = c\<lparr>nc_gateway_url := url\<rparr>"

definition with_archive_url :: "string \<Rightarrow> 'w nado_client \<Rightarrow> 'w nado_client" where
  "with_archive_url url c = c\<lparr>nc_archive_url := url\<rparr>"

definition with_trigger_url :: "string \<Rightarrow> 'w nado_client \<Rightarrow> 'w nado_client" where
  "with_trigger_url url c = c\<lparr>nc_trigger_url := url\<rparr>"

definition with_custom_node_url :: "string \<Rightarrow> 'w nado_client \<Rightarrow> 'w nado_client" where
  "with_custom_node_url url c = c\<lparr>nc_custom_node_url := Some url\<rparr>"

definition with_subaccount_name_bytes :: "bytes \<Rightarrow> 'w nado_client \<Rightarrow> 'w nado_client" where
  "with_subaccount_name_bytes name c = c\<lparr>nc_subaccount_name := Some name\<rparr>"

definition validate_subaccount_name :: "string \<Rightarrow> string + unit" where
  "validate_subaccount_name name =
     (if 12 < length name then
        Err (''Subaccount name byte size, '' @ show_nat (length name) @ '', must be less than 12 bytes'')
      else Ok ())"

text \<open>A name that is too long is a panic.\<close>

definition with_subaccount_name :: "string \<Rightarrow> 'w nado_client \<Rightarrow> 'w nado_client option" where
  "with_subaccount_name name c =
     (case validate_subaccount_name name of
        Inl e \<Rightarrow> None
      | Inr _ \<Rightarrow> Some (with_subaccount_name_bytes (to_bytes12 (as_bytes name)) c))"

definition client_wallet :: "'w nado_client \<Rightarrow> string + 'w" where
  "client_wallet c = ok_or (none_error ''wallet'') (nc_wallet c)"

definition client_chain_id :: "'w nado_client \<Rightarrow> string + u64" where
  "client_chain_id c = ok_or (none_error ''chain_id'') (nc_chain_id c)"

definition subaccount_name_bytes :: "'w nado_client \<Rightarrow> bytes" where
  "subaccount_name_bytes c = unwrap_or (to_bytes12 (as_bytes ''default'')) (nc_subaccount_name c)"

definition client_node_url :: "'w nado_client \<Rightarrow> string" where
  "client_node_url c = unwrap_or (dy_node_url (nc_deployment c)) (nc_custom_node_url c)"

definition endpoint_addr :: "'w nado_client \<Rightarrow> bytes" where
  "endpoint_addr c = dy_endpoint (nc_deployment c)"

definition querier_addr :: "'w nado_client \<Rightarrow> bytes" where
  "querier_addr c = dy_querier (nc_deployment c)"

subsection \<open>The world\<close>

record 'd api_response =
  ar_status :: resp_status
  ar_data :: "'d option"
  ar_error_code :: "i32 option"
  ar_error :: "string option"
  ar_request_type :: "string option"

record deposit_params =
  de_product_id :: u32
  de_subaccount :: bytes
  de_amount :: u128
  de_referral_code :: "string option"
  de_approves_allowance :: bool
  de_mints_tokens :: bool
  de_erc20_sleep_secs :: "u64 option"
  de_gas_price :: "u128 option"

text \<open>What goes out: requests to services, transactions to the chain, and the pauses between them in milliseconds.\<close>

datatype (plugins only: code size) sent =
    Sent_Query string engine_query
  | Sent_TriggerQuery string trigger_query
  | Sent_Execute string engine_execute
  | Sent_TriggerExecute string trigger_execute
  | Sent_Archive string archive_query
  | Sent_Get string
  | Sent_Mint bytes bytes u128
  | Sent_Approve bytes bytes u128 "u128 option"
  | Sent_Deposit bytes bytes u32 u128 "u128 option"
  | Sent_DepositReferral bytes bytes u32 u128 string "u128 option"
  | Sent_SlowMode bytes bytes "u128 option"
  | Sent_Pause nat

record 'w world =
  wo_query :: "nat \<Rightarrow> string \<Rightarrow> engine_query \<Rightarrow> string + query_data api_response"
  wo_trigger_query :: "nat \<Rightarrow> string \<Rightarrow> trigger_query \<Rightarrow> string + trigger_data api_response"
  wo_execute :: "nat \<Rightarrow> string \<Rightarrow> engine_execute \<Rightarrow> string + execute_response"
  wo_trigger_execute :: "nat \<Rightarrow> string \<Rightarrow> trigger_execute \<Rightarrow> string + execute_response"
  wo_archive :: "nat \<Rightarrow> string \<Rightarrow> archive_query \<Rightarrow> string + json"
  wo_get :: "nat \<Rightarrow> string \<Rightarrow> string + json"
  wo_chain :: "nat \<Rightarrow> sent \<Rightarrow> string + bytes option"
  wo_failed_query :: "query_data api_response \<Rightarrow> string"
  wo_failed_trigger :: "trigger_data api_response \<Rightarrow> string"
  wo_failed_execute :: "execute_response \<Rightarrow> string"
  wo_wallet :: "string \<Rightarrow> u64 \<Rightarrow> string + 'w"
  wo_address :: "'w \<Rightarrow> bytes"
  wo_sign_hash :: "'w \<Rightarrow> bytes \<Rightarrow> string + bytes"

datatype sdk_error = Sdk_Error string | Sdk_Panic string

type_synonym 'a call = "sent list \<Rightarrow> (sdk_error + 'a) \<times> sent list"

definition call_bind :: "'a call \<Rightarrow> ('a \<Rightarrow> 'b call) \<Rightarrow> 'b call" where
  "call_bind m f tr = (case m tr of (Inl e, tr') \<Rightarrow> (Inl e, tr') | (Inr a, tr') \<Rightarrow> f a tr')"

definition returns :: "'a \<Rightarrow> 'a call" where
  "returns a tr = (Ok a, tr)"

definition lift_res :: "string + 'a \<Rightarrow> 'a call" where
  "lift_res r tr = (map_err Sdk_Error r, tr)"

definition lift_option :: "string \<Rightarrow> 'a option \<Rightarrow> 'a call" where
  "lift_option panic r tr = (ok_or (Sdk_Panic panic) r, tr)"

definition send_out :: "sent \<Rightarrow> (nat \<Rightarrow> string + 'a) \<Rightarrow> 'a call" where
  "send_out s answer tr = (map_err Sdk_Error (answer (length tr)), tr @ [s])"

lemma call_bind_Ok:
  "call_bind m f tr = (Ok b, tr'') \<longleftrightarrow> (\<exists>a tr'. m tr = (Ok a, tr') \<and> f a tr' = (Ok b, tr''))"
  by (auto simp: call_bind_def split: prod.splits sum.splits)

lemmas call_defs = call_bind_def returns_def lift_res_def lift_option_def send_out_def

subsection \<open>Queries of the engine\<close>

text \<open>An answer that says success and has no data is a panic.\<close>

definition unwrap_data :: "string \<Rightarrow> 'd api_response \<Rightarrow> 'd call" where
  "unwrap_data failed r =
     (if ar_status r = Rs_Failure then lift_res (Err failed)
      else lift_option ''called `Option::unwrap()` on a `None` value'' (ar_data r))"

definition query :: "'w world \<Rightarrow> 'w nado_client \<Rightarrow> engine_query \<Rightarrow> query_data call" where
  "query w c q =
     (let url = nc_gateway_url c @ ''/query'' in
      call_bind (send_out (Sent_Query url q) (\<lambda>n. wo_query w n url q)) (\<lambda>r. unwrap_data (wo_failed_query w r) r))"

definition query_trigger :: "'w world \<Rightarrow> 'w nado_client \<Rightarrow> trigger_query \<Rightarrow> trigger_data call" where
  "query_trigger w c q =
     (let url = nc_trigger_url c @ ''/query'' in
      call_bind (send_out (Sent_TriggerQuery url q) (\<lambda>n. wo_trigger_query w n url q))
        (\<lambda>r. unwrap_data (wo_failed_trigger w r) r))"

definition expect :: "string \<Rightarrow> ('d \<Rightarrow> 'a option) \<Rightarrow> 'd \<Rightarrow> 'a call" where
  "expect kind get d = lift_res (ok_or (''expected '' @ kind @ '' response'') (get d))"

definition ask :: "'w world \<Rightarrow> 'w nado_client \<Rightarrow> engine_query \<Rightarrow> string \<Rightarrow> (query_data \<Rightarrow> 'a option) \<Rightarrow> 'a call" where
  "ask w c q kind get = call_bind (query w c q) (expect (''QueryResponseData::'' @ kind) get)"

definition get_status :: "'w world \<Rightarrow> 'w nado_client \<Rightarrow> engine_status call" where
  "get_status w c = ask w c Q_Status ''StatusResponse'' (\<lambda>d. case d of Qd_StatusResponse r \<Rightarrow> Some r | _ \<Rightarrow> None)"

definition get_contracts :: "'w world \<Rightarrow> 'w nado_client \<Rightarrow> contracts_info call" where
  "get_contracts w c = ask w c Q_Contracts ''Contracts'' (\<lambda>d. case d of Qd_Contracts r \<Rightarrow> Some r | _ \<Rightarrow> None)"

definition get_nonces :: "'w world \<Rightarrow> 'w nado_client \<Rightarrow> bytes \<Rightarrow> nonces_response call" where
  "get_nonces w c address = ask w c (Q_Nonces address) ''Nonces'' (\<lambda>d. case d of Qd_Nonces r \<Rightarrow> Some r | _ \<Rightarrow> None)"

definition next_tx_nonce :: "'w world \<Rightarrow> 'w nado_client \<Rightarrow> bytes \<Rightarrow> u64 call" where
  "next_tx_nonce w c address = call_bind (get_nonces w c address) (\<lambda>n. returns (no_tx_nonce n))"

definition get_linked_signer :: "'w world \<Rightarrow> 'w nado_client \<Rightarrow> bytes \<Rightarrow> bytes call" where
  "get_linked_signer w c sub =
     ask w c (Q_LinkedSigner sub) ''LinkedSigner'' (\<lambda>d. case d of Qd_LinkedSigner r \<Rightarrow> Some r | _ \<Rightarrow> None)"

text \<open>Hypothetical changes are sent as text; writing them is a library's.\<close>

definition get_subaccount_info_with_txns ::
  "(product_delta list \<Rightarrow> string + string) \<Rightarrow> 'w world \<Rightarrow> 'w nado_client \<Rightarrow> bytes \<Rightarrow> product_delta list \<Rightarrow>
     subaccount_info call" where
  "get_subaccount_info_with_txns to_text w c sub txns =
     call_bind (if txns = [] then returns None else call_bind (lift_res (to_text txns)) (\<lambda>t. returns (Some t))) (\<lambda>t.
       ask w c (Q_SubaccountInfo sub t None) ''SubaccountInfo''
         (\<lambda>d. case d of Qd_SubaccountInfo r \<Rightarrow> Some r | _ \<Rightarrow> None))"

definition get_subaccount_info ::
  "(product_delta list \<Rightarrow> string + string) \<Rightarrow> 'w world \<Rightarrow> 'w nado_client \<Rightarrow> bytes \<Rightarrow> subaccount_info call" where
  "get_subaccount_info to_text w c sub = get_subaccount_info_with_txns to_text w c sub []"

definition get_all_products :: "'w world \<Rightarrow> 'w nado_client \<Rightarrow> all_products call" where
  "get_all_products w c = ask w c Q_AllProducts ''AllProducts'' (\<lambda>d. case d of Qd_AllProducts r \<Rightarrow> Some r | _ \<Rightarrow> None)"

definition get_token_address :: "'w world \<Rightarrow> 'w nado_client \<Rightarrow> u32 \<Rightarrow> bytes call" where
  "get_token_address w c pid =
     call_bind (get_all_products w c) (\<lambda>all.
       lift_res (ok_or ''get_token_address: product id not found''
         (map_option (\<lambda>p. cf_token (sp_config p)) (find (\<lambda>p. sp_product_id p = pid) (al_spot_products all)))))"

definition get_market_price :: "'w world \<Rightarrow> 'w nado_client \<Rightarrow> u32 \<Rightarrow> market_price call" where
  "get_market_price w c pid =
     ask w c (Q_MarketPrice pid) ''MarketPrice'' (\<lambda>d. case d of Qd_MarketPrice r \<Rightarrow> Some r | _ \<Rightarrow> None)"

definition get_market_prices :: "'w world \<Rightarrow> 'w nado_client \<Rightarrow> u32 list \<Rightarrow> market_price list call" where
  "get_market_prices w c pids =
     ask w c (Q_MarketPrices pids) ''MarketPrices'' (\<lambda>d. case d of Qd_MarketPrices r \<Rightarrow> Some r | _ \<Rightarrow> None)"

definition get_order :: "'w world \<Rightarrow> 'w nado_client \<Rightarrow> u32 \<Rightarrow> bytes \<Rightarrow> order_response call" where
  "get_order w c pid digest = ask w c (Q_Order pid digest) ''Order'' (\<lambda>d. case d of Qd_Order r \<Rightarrow> Some r | _ \<Rightarrow> None)"

definition get_fee_rates :: "'w world \<Rightarrow> 'w nado_client \<Rightarrow> bytes \<Rightarrow> fee_rates call" where
  "get_fee_rates w c sender =
     ask w c (Q_FeeRates sender) ''FeeRates'' (\<lambda>d. case d of Qd_FeeRates r \<Rightarrow> Some r | _ \<Rightarrow> None)"

definition get_subaccount_orders :: "'w world \<Rightarrow> 'w nado_client \<Rightarrow> bytes \<Rightarrow> u32 \<Rightarrow> subaccount_orders call" where
  "get_subaccount_orders w c sender pid =
     ask w c (Q_SubaccountOrders sender pid) ''SubaccountOrders''
       (\<lambda>d. case d of Qd_SubaccountOrders r \<Rightarrow> Some r | _ \<Rightarrow> None)"

definition get_market_liquidity :: "'w world \<Rightarrow> 'w nado_client \<Rightarrow> u32 \<Rightarrow> u32 \<Rightarrow> market_liquidity call" where
  "get_market_liquidity w c pid depth =
     ask w c (Q_MarketLiquidity pid depth) ''MarketLiquidity''
       (\<lambda>d. case d of Qd_MarketLiquidity r \<Rightarrow> Some r | _ \<Rightarrow> None)"

definition get_max_order_size :: "'w world \<Rightarrow> 'w nado_client \<Rightarrow> engine_query \<Rightarrow> i128 call" where
  "get_max_order_size w c q = ask w c q ''MaxOrderSize'' (\<lambda>d. case d of Qd_MaxOrderSize r \<Rightarrow> Some r | _ \<Rightarrow> None)"

definition get_max_withdrawable :: "'w world \<Rightarrow> 'w nado_client \<Rightarrow> engine_query \<Rightarrow> i128 call" where
  "get_max_withdrawable w c q =
     ask w c q ''MaxWithdrawable'' (\<lambda>d. case d of Qd_MaxWithdrawable r \<Rightarrow> Some r | _ \<Rightarrow> None)"

definition get_max_nlp_mintable :: "'w world \<Rightarrow> 'w nado_client \<Rightarrow> engine_query \<Rightarrow> i128 call" where
  "get_max_nlp_mintable w c q =
     ask w c q ''MaxNlpMintable'' (\<lambda>d. case d of Qd_MaxNlpMintable r \<Rightarrow> Some r | _ \<Rightarrow> None)"

definition get_max_nlp_burnable :: "'w world \<Rightarrow> 'w nado_client \<Rightarrow> engine_query \<Rightarrow> i128 call" where
  "get_max_nlp_burnable w c q =
     ask w c q ''MaxNlpBurnable'' (\<lambda>d. case d of Qd_MaxNlpBurnable r \<Rightarrow> Some r | _ \<Rightarrow> None)"

definition get_nlp_pool_info :: "'w world \<Rightarrow> 'w nado_client \<Rightarrow> engine_query \<Rightarrow> nlp_pool list call" where
  "get_nlp_pool_info w c q = ask w c q ''NlpPoolInfo'' (\<lambda>d. case d of Qd_NlpPoolInfo r \<Rightarrow> Some r | _ \<Rightarrow> None)"

definition get_nlp_locked_balances :: "'w world \<Rightarrow> 'w nado_client \<Rightarrow> engine_query \<Rightarrow> nlp_locked_balances call" where
  "get_nlp_locked_balances w c q =
     ask w c q ''NlpLockedBalances'' (\<lambda>d. case d of Qd_NlpLockedBalances r \<Rightarrow> Some r | _ \<Rightarrow> None)"

definition get_health_groups :: "'w world \<Rightarrow> 'w nado_client \<Rightarrow> (u32 \<times> u32) list call" where
  "get_health_groups w c =
     ask w c Q_HealthGroups ''HealthGroups'' (\<lambda>d. case d of Qd_HealthGroups r \<Rightarrow> Some r | _ \<Rightarrow> None)"

definition get_insurance :: "'w world \<Rightarrow> 'w nado_client \<Rightarrow> i128 call" where
  "get_insurance w c = ask w c Q_Insurance ''Insurance'' (\<lambda>d. case d of Qd_Insurance r \<Rightarrow> Some r | _ \<Rightarrow> None)"

definition get_symbols ::
  "'w world \<Rightarrow> 'w nado_client \<Rightarrow> u32 list option \<Rightarrow> string option \<Rightarrow> (string, symbol_listing) hashmap call" where
  "get_symbols w c pids product_type =
     ask w c (Q_Symbols pids product_type) ''Symbols'' (\<lambda>d. case d of Qd_Symbols r \<Rightarrow> Some r | _ \<Rightarrow> None)"

definition get_isolated_positions :: "'w world \<Rightarrow> 'w nado_client \<Rightarrow> bytes \<Rightarrow> isolated_position list call" where
  "get_isolated_positions w c sub =
     ask w c (Q_IsolatedPositions sub) ''IsolatedPositions''
       (\<lambda>d. case d of Qd_IsolatedPositions r \<Rightarrow> Some r | _ \<Rightarrow> None)"

definition list_trigger_orders_call :: "'w world \<Rightarrow> 'w nado_client \<Rightarrow> trigger_query \<Rightarrow> trigger_order_info list call" where
  "list_trigger_orders_call w c q =
     call_bind (query_trigger w c q) (expect ''trigger::QueryResponseData::ListTriggerOrders''
       (\<lambda>d. case d of Td_ListTriggerOrders r \<Rightarrow> Some r | _ \<Rightarrow> None))"

definition list_twap_executions_call :: "'w world \<Rightarrow> 'w nado_client \<Rightarrow> trigger_query \<Rightarrow> twap_execution list call" where
  "list_twap_executions_call w c q =
     call_bind (query_trigger w c q) (expect ''trigger::QueryResponseData::ListTwapExecutions''
       (\<lambda>d. case d of Td_ListTwapExecutions r \<Rightarrow> Some r | _ \<Rightarrow> None))"

text \<open>
  A query gives a value exactly when the service reports success with data of the kind asked for. A report of
  success without data is a panic.
\<close>

lemma query_Ok:
  "query w c q tr = (Ok d, tr') \<longleftrightarrow>
     (\<exists>r. wo_query w (length tr) (nc_gateway_url c @ ''/query'') q = Ok r \<and> ar_status r = Rs_Success \<and>
       ar_data r = Some d \<and> tr' = tr @ [Sent_Query (nc_gateway_url c @ ''/query'') q])"
  by (auto simp: query_def call_defs unwrap_data_def Let_def split: sum.splits resp_status.splits option.splits
      intro: resp_status.exhaust)

lemma ask_Ok:
  "ask w c q kind get tr = (Ok a, tr') \<longleftrightarrow>
     (\<exists>r d. wo_query w (length tr) (nc_gateway_url c @ ''/query'') q = Ok r \<and> ar_status r = Rs_Success \<and>
       ar_data r = Some d \<and> get d = Some a \<and> tr' = tr @ [Sent_Query (nc_gateway_url c @ ''/query'') q])"
  unfolding ask_def call_bind_Ok query_Ok by (auto simp: expect_def lift_res_def)

lemma ask_sends_once: "snd (ask w c q kind get tr) = tr @ [Sent_Query (nc_gateway_url c @ ''/query'') q]"
  by (auto simp: ask_def query_def call_defs unwrap_data_def expect_def Let_def split: sum.splits prod.splits)

lemma success_without_data_panics:
  assumes "wo_query w (length tr) (nc_gateway_url c @ ''/query'') q = Ok r" "ar_status r = Rs_Success" "ar_data r = None"
  shows "\<exists>m. fst (ask w c q kind get tr) = Inl (Sdk_Panic m)"
  using assms by (simp add: ask_def query_def call_defs unwrap_data_def Let_def)

subsection \<open>Other services\<close>

text \<open>The parameters of an address are written by a library. Answers of the archive are JSON here; the theory
  SdkArchiveClient reads them by their types.\<close>

datatype v2_query =
    V2_Orderbook string u32
  | V2_Pairs "string option"
  | V2_Assets
  | V2_Apr
  | V2_Tickers "string option" "bool option"
  | V2_Contracts "bool option"
  | V2_Trades string "u64 option" "u32 option"

definition v2_url :: "string \<Rightarrow> string \<Rightarrow> string \<Rightarrow> string" where
  "v2_url base path params = str_replace ''/v1'' [] base @ ''/v2'' @ path @ ''?'' @ params"

definition query_v2_at ::
  "(v2_query \<Rightarrow> string + string) \<Rightarrow> 'w world \<Rightarrow> string \<Rightarrow> string \<Rightarrow> v2_query \<Rightarrow> json call" where
  "query_v2_at to_params w base path q =
     call_bind (lift_res (to_params q)) (\<lambda>params.
       let url = v2_url base path params in send_out (Sent_Get url) (\<lambda>n. wo_get w n url))"

definition get_orderbook :: "(v2_query \<Rightarrow> string + string) \<Rightarrow> 'w world \<Rightarrow> 'w nado_client \<Rightarrow> string \<Rightarrow> u32 \<Rightarrow> json call" where
  "get_orderbook to_params w c ticker depth =
     query_v2_at to_params w (nc_gateway_url c) ''/orderbook'' (V2_Orderbook ticker depth)"

definition get_pairs :: "(v2_query \<Rightarrow> string + string) \<Rightarrow> 'w world \<Rightarrow> 'w nado_client \<Rightarrow> string option \<Rightarrow> json call" where
  "get_pairs to_params w c market = query_v2_at to_params w (nc_gateway_url c) ''/pairs'' (V2_Pairs market)"

definition get_assets :: "(v2_query \<Rightarrow> string + string) \<Rightarrow> 'w world \<Rightarrow> 'w nado_client \<Rightarrow> json call" where
  "get_assets to_params w c = query_v2_at to_params w (nc_gateway_url c) ''/assets'' V2_Assets"

definition get_tickers ::
  "(v2_query \<Rightarrow> string + string) \<Rightarrow> 'w world \<Rightarrow> 'w nado_client \<Rightarrow> string option \<Rightarrow> bool option \<Rightarrow> json call" where
  "get_tickers to_params w c market edge =
     query_v2_at to_params w (nc_archive_url c) ''/tickers'' (V2_Tickers market edge)"

definition get_trades :: "(v2_query \<Rightarrow> string + string) \<Rightarrow> 'w world \<Rightarrow> 'w nado_client \<Rightarrow> v2_query \<Rightarrow> json call" where
  "get_trades to_params w c q = query_v2_at to_params w (nc_archive_url c) ''/trades'' q"

definition get_contracts_v2 :: "(v2_query \<Rightarrow> string + string) \<Rightarrow> 'w world \<Rightarrow> 'w nado_client \<Rightarrow> bool option \<Rightarrow> json call" where
  "get_contracts_v2 to_params w c edge = query_v2_at to_params w (nc_archive_url c) ''/contracts'' (V2_Contracts edge)"

definition archive_call :: "'w world \<Rightarrow> 'w nado_client \<Rightarrow> archive_query \<Rightarrow> json call" where
  "archive_call w c q = send_out (Sent_Archive (nc_archive_url c) q) (\<lambda>n. wo_archive w n (nc_archive_url c) q)"

definition get_liquidation_feed :: "'w world \<Rightarrow> 'w nado_client \<Rightarrow> json call" where
  "get_liquidation_feed w c = archive_call w c Aq_LiquidationFeed"

definition get_funding_rate :: "'w world \<Rightarrow> 'w nado_client \<Rightarrow> u32 \<Rightarrow> json call" where
  "get_funding_rate w c pid = archive_call w c (Aq_FundingRate pid)"

definition get_funding_rates :: "'w world \<Rightarrow> 'w nado_client \<Rightarrow> u32 list \<Rightarrow> json call" where
  "get_funding_rates w c pids = archive_call w c (Aq_FundingRates pids)"

definition get_perp_prices :: "'w world \<Rightarrow> 'w nado_client \<Rightarrow> u32 list \<Rightarrow> json call" where
  "get_perp_prices w c pids = archive_call w c (Aq_PerpPrices pids)"

definition get_oracle_price :: "'w world \<Rightarrow> 'w nado_client \<Rightarrow> u32 list \<Rightarrow> json call" where
  "get_oracle_price w c pids = archive_call w c (Aq_OraclePrice pids)"

definition get_quote_price :: "'w world \<Rightarrow> 'w nado_client \<Rightarrow> json call" where
  "get_quote_price w c = archive_call w c Aq_QuotePrice"

definition get_linked_signer_rate_limit :: "'w world \<Rightarrow> 'w nado_client \<Rightarrow> bytes \<Rightarrow> json call" where
  "get_linked_signer_rate_limit w c sub = archive_call w c (Aq_LinkedSignerRateLimit sub)"

definition get_linked_signers :: "'w world \<Rightarrow> 'w nado_client \<Rightarrow> u64 option \<Rightarrow> u32 option \<Rightarrow> json call" where
  "get_linked_signers w c start limit = archive_call w c (Aq_LinkedSigners start limit)"

definition get_isolated_subaccounts ::
  "'w world \<Rightarrow> 'w nado_client \<Rightarrow> bytes option \<Rightarrow> u64 option \<Rightarrow> u32 option \<Rightarrow> json call" where
  "get_isolated_subaccounts w c sub start limit = archive_call w c (Aq_IsolatedSubaccounts sub start limit)"

definition get_fast_withdrawal_signature :: "'w world \<Rightarrow> 'w nado_client \<Rightarrow> u64 \<Rightarrow> json call" where
  "get_fast_withdrawal_signature w c idx = archive_call w c (Aq_FastWithdrawalSignature idx)"

text \<open>
  What a service answers is read as the type asked for, as a block of the address, as an error of the archive, or
  kept as it is and read once more. The two readings of a type differ: the first goes over a buffered copy, where a
  map's number keys, for one, are not read.
\<close>

datatype 'r rest_response =
    Rest_Success 'r
  | Rest_IPBlocked string bool
  | Rest_IndexerError string i32
  | Rest_Unknown json

definition read_pair :: "string \<Rightarrow> (json \<Rightarrow> 'a option) \<Rightarrow> string \<Rightarrow> (json \<Rightarrow> 'b option) \<Rightarrow> json \<Rightarrow> ('a \<times> 'b) option" where
  "read_pair a get_a b get_b v =
     (case v of
        JObject obj \<Rightarrow> do { x \<leftarrow> Option.bind (json_get a v) get_a; y \<leftarrow> Option.bind (json_get b v) get_b; Some (x, y) }
      | JArray [j, k] \<Rightarrow> do { x \<leftarrow> get_a j; y \<leftarrow> get_b k; Some (x, y) }
      | _ \<Rightarrow> None)"

definition read_rest :: "(json \<Rightarrow> 'r option) \<Rightarrow> json \<Rightarrow> 'r rest_response" where
  "read_rest buffered v =
     (case buffered v of
        Some r \<Rightarrow> Rest_Success r
      | None \<Rightarrow>
          (case read_pair ''reason'' as_str ''blocked'' as_bool v of
             Some (reason, blocked) \<Rightarrow> Rest_IPBlocked reason blocked
           | None \<Rightarrow>
               (case read_pair ''error'' as_str ''error_code'' as_i32 v of
                  Some (e, code) \<Rightarrow> Rest_IndexerError e code
                | None \<Rightarrow> Rest_Unknown v)))"

definition extract_response :: "(json \<Rightarrow> string + 'r) \<Rightarrow> 'r rest_response \<Rightarrow> string + 'r" where
  "extract_response from_value r =
     (case r of
        Rest_Success v \<Rightarrow> Ok v
      | Rest_IndexerError e code \<Rightarrow> Err e
      | Rest_IPBlocked reason blocked \<Rightarrow>
          Err ''Access from your IP is blocked. Please check your location and try again.''
      | Rest_Unknown v \<Rightarrow> from_value v)"

text \<open>
  A value comes back only from one of the type's own readers; an error of the archive comes back with its text,
  unless the type itself can be read from it.
\<close>

lemma extract_response_Ok:
  "extract_response from_value (read_rest buffered v) = Ok r \<Longrightarrow> buffered v = Some r \<or> from_value v = Ok r"
  by (auto simp: extract_response_def read_rest_def split: option.splits prod.splits)

lemma indexer_error_reported:
  assumes "buffered v = None" "v = JObject [(''error'', JString e), (''error_code'', n)]" "as_i32 n = Some code"
  shows "extract_response from_value (read_rest buffered v) = Err e"
  using assms by (simp add: extract_response_def read_rest_def read_pair_def json_get_def)

subsection \<open>Signing\<close>

definition client_address :: "'w world \<Rightarrow> 'w nado_client \<Rightarrow> string + bytes" where
  "client_address w c = res_bind (client_wallet c) (\<lambda>x. Ok (wo_address w x))"

definition client_subaccount :: "'w world \<Rightarrow> 'w nado_client \<Rightarrow> string + bytes" where
  "client_subaccount w c =
     res_bind (client_address w c) (\<lambda>address. Ok (concat_to_bytes32 address (subaccount_name_bytes c)))"

definition subaccount_matches_wallet :: "'w world \<Rightarrow> 'w nado_client \<Rightarrow> bytes \<Rightarrow> string + unit" where
  "subaccount_matches_wallet w c sub =
     res_bind (client_address w c) (\<lambda>address.
       if take 20 address = take 20 sub then Ok () else Err ''Subaccount does not match wallet address'')"

definition with_signer :: "'w world \<Rightarrow> 'w nado_client \<Rightarrow> string \<Rightarrow> 'w nado_client call" where
  "with_signer w c private_key =
     call_bind (get_contracts w c) (\<lambda>contracts.
     call_bind (lift_res (wo_wallet w private_key (ci_chain_id contracts))) (\<lambda>wallet.
       returns (c\<lparr>nc_chain_id := Some (ci_chain_id contracts), nc_wallet := Some wallet\<rparr>)))"

text \<open>A message is signed over its digest in a domain: that of the endpoint, or of the order's product.\<close>

definition client_domain :: "'w nado_client \<Rightarrow> bytes \<Rightarrow> string + eip712_domain" where
  "client_domain c contract = res_bind (client_chain_id c) (\<lambda>chain_id. Ok (sdk_domain chain_id contract))"

definition domain2 :: "u64 \<Rightarrow> bytes \<Rightarrow> eip712_domain" where
  "domain2 chain_id contract = sdk_domain chain_id contract"

definition endpoint_domain :: "'w nado_client \<Rightarrow> string + eip712_domain" where
  "endpoint_domain c = client_domain c (endpoint_addr c)"

definition order_domain :: "'r externals \<Rightarrow> 'w nado_client \<Rightarrow> u32 \<Rightarrow> string + eip712_domain" where
  "order_domain ex c pid = client_domain c (ex_low_u64_be ex (ucast pid))"

definition sign_with_domain ::
  "'w world \<Rightarrow> 'w nado_client \<Rightarrow> (eip712_domain \<Rightarrow> bytes) \<Rightarrow> eip712_domain \<Rightarrow> string + bytes" where
  "sign_with_domain w c digest domain = res_bind (client_wallet c) (\<lambda>x. wo_sign_hash w x (digest domain))"

definition endpoint_digest :: "'w nado_client \<Rightarrow> (eip712_domain \<Rightarrow> bytes) \<Rightarrow> string + bytes" where
  "endpoint_digest c digest = res_bind (endpoint_domain c) (\<lambda>d. Ok (digest d))"

definition endpoint_signature_base ::
  "'w world \<Rightarrow> 'w nado_client \<Rightarrow> (eip712_domain \<Rightarrow> bytes) \<Rightarrow> string + bytes" where
  "endpoint_signature_base w c digest = res_bind (endpoint_domain c) (sign_with_domain w c digest)"

definition endpoint_signature_concat ::
  "'w world \<Rightarrow> 'w nado_client \<Rightarrow> (eip712_domain \<Rightarrow> bytes) \<Rightarrow> string + bytes" where
  "endpoint_signature_concat w c digest =
     res_bind (endpoint_signature_base w c digest) (\<lambda>s. res_bind (client_address w c) (\<lambda>a. Ok (s @ a)))"

definition order_signature_base ::
  "'r externals \<Rightarrow> 'w world \<Rightarrow> 'w nado_client \<Rightarrow> u32 \<Rightarrow> (eip712_domain \<Rightarrow> bytes) \<Rightarrow> string + bytes" where
  "order_signature_base ex w c pid digest = res_bind (order_domain ex c pid) (sign_with_domain w c digest)"

definition order_signature_concat ::
  "'r externals \<Rightarrow> 'w world \<Rightarrow> 'w nado_client \<Rightarrow> u32 \<Rightarrow> (eip712_domain \<Rightarrow> bytes) \<Rightarrow> string + bytes" where
  "order_signature_concat ex w c pid digest =
     res_bind (order_signature_base ex w c pid digest) (\<lambda>s. res_bind (client_address w c) (\<lambda>a. Ok (s @ a)))"

text \<open>A client that is not a REST client would add its address; this one is always a REST client.\<close>

definition is_rest_client :: "'w nado_client \<Rightarrow> bool" where
  "is_rest_client c \<longleftrightarrow> True"

definition endpoint_signature ::
  "'w world \<Rightarrow> 'w nado_client \<Rightarrow> (eip712_domain \<Rightarrow> bytes) \<Rightarrow> string + bytes" where
  "endpoint_signature w c digest =
     (if is_rest_client c then endpoint_signature_base w c digest else endpoint_signature_concat w c digest)"

definition order_signature ::
  "'r externals \<Rightarrow> 'w world \<Rightarrow> 'w nado_client \<Rightarrow> u32 \<Rightarrow> (eip712_domain \<Rightarrow> bytes) \<Rightarrow> string + bytes" where
  "order_signature ex w c pid digest =
     (if is_rest_client c then order_signature_base ex w c pid digest
      else order_signature_concat ex w c pid digest)"

lemma signed_needs_signer:
  assumes "nc_wallet c = None \<or> nc_chain_id c = None"
  shows "\<exists>e. endpoint_signature w c digest = Err e" "\<exists>e. order_signature ex w c pid digest = Err e"
  using assms
  by (auto simp: endpoint_signature_def order_signature_def is_rest_client_def endpoint_signature_base_def
      order_signature_base_def endpoint_domain_def order_domain_def client_domain_def client_chain_id_def
      sign_with_domain_def client_wallet_def res_bind_def split: sum.splits option.splits)

lemma with_signer_signs:
  assumes "with_signer w c key tr = (Ok c', tr')"
  shows "nc_wallet c' \<noteq> None \<and> nc_chain_id c' \<noteq> None \<and> nc_deployment c' = nc_deployment c \<and>
    nc_subaccount_name c' = nc_subaccount_name c \<and> nc_gateway_url c' = nc_gateway_url c"
  using assms by (auto simp: with_signer_def call_bind_Ok returns_def)

text \<open>A world and a client to try the calls on.\<close>

definition demo_world :: "bytes world" where
  "demo_world =
     \<lparr>wo_query = (\<lambda>n url q. Ok \<lparr>ar_status = Rs_Success, ar_data = Some (Qd_Nonces \<lparr>no_tx_nonce = 5, no_order_nonce = 6\<rparr>),
        ar_error_code = None, ar_error = None, ar_request_type = None\<rparr>),
      wo_trigger_query = (\<lambda>n url q. Err ''down''), wo_execute = (\<lambda>n url e. Err ''down''),
      wo_trigger_execute = (\<lambda>n url e. Err ''down''), wo_archive = (\<lambda>n url q. Err ''down''),
      wo_get = (\<lambda>n url. Err ''down''), wo_chain = (\<lambda>n s. Err ''down''),
      wo_failed_query = (\<lambda>r. []), wo_failed_trigger = (\<lambda>r. []), wo_failed_execute = (\<lambda>r. []),
      wo_wallet = (\<lambda>key chain. Err ''none''), wo_address = (\<lambda>x. x), wo_sign_hash = (\<lambda>x h. Ok (x @ replicate 45 0))\<rparr>"

definition demo_client :: "bytes nado_client" where
  "demo_client =
     \<lparr>nc_client_mode = Test,
      nc_deployment = \<lparr>dy_node_url = [], dy_quote = [], dy_clearinghouse = [], dy_endpoint = replicate 20 1,
        dy_spot_engine = [], dy_perp_engine = [], dy_querier = [], dy_offchain_exchange = [], dy_verifier = [],
        dy_contract_owner = []\<rparr>,
      nc_gateway_url = ''g'', nc_archive_url = ''a'', nc_trigger_url = ''t'', nc_subaccount_name = None,
      nc_wallet = Some (replicate 20 0xaa), nc_chain_id = Some 7, nc_custom_node_url = None\<rparr>"

end
