(* ===== verification/SdkConnection.thy ===== *)
theory SdkConnection
  imports SdkClient
begin

text \<open>
  What the SDK needs to reach the exchange and the chain: the deployment of a network, which is read from a file
  (utils/deployment.rs, utils/client_mode.rs), and the ensemble of nodes that stand in for each other
  (nado_utils/provider.rs). The files, those built into the program, the JSON parser and the nodes are parameters.
\<close>

subsection \<open>Deployments\<close>

definition deployment_form :: "wire_lib \<Rightarrow> deployment form" where
  "deployment_form lb = struct_form deployment.make
     (with_field ''nodeUrl'' text_form dy_node_url
     (with_field ''quote'' (address_form lb) dy_quote
     (with_field ''clearinghouse'' (address_form lb) dy_clearinghouse
     (with_field ''endpoint'' (address_form lb) dy_endpoint
     (with_field ''spotEngine'' (address_form lb) dy_spot_engine
     (with_field ''perpEngine'' (address_form lb) dy_perp_engine
     (with_field ''querier'' (address_form lb) dy_querier
     (with_field ''offchainExchange'' (address_form lb) dy_offchain_exchange
     (with_field ''verifier'' (address_form lb) dy_verifier
     (with_field ''contractOwner'' (address_form lb) dy_contract_owner
     no_more))))))))))"

lemma json_form_deployment [form_laws]: "wire_lib_ok lb \<Longrightarrow> json_form (deployment_form lb)"
  unfolding deployment_form_def by (intro struct_laws form_laws) (simp_all add: deployment.make_def)

text \<open>The path of a file in a directory.\<close>

definition path_join :: "string \<Rightarrow> string \<Rightarrow> string" where
  "path_join dir name = (if dir = [] \<or> last dir = CHR ''/'' then dir @ name else dir @ CHR ''/'' # name)"

definition deployment_path :: "client_mode \<Rightarrow> string" where
  "deployment_path m = path_join (nado_envtag m) ''deployment.json''"

text \<open>
  The directory of a variable comes first, and then nothing else is tried; without it the directory of the package, and
  after it the files built into the program. A failure is a panic, with its text.
\<close>

definition deployment_text ::
  "environment \<Rightarrow> (string \<Rightarrow> string option) \<Rightarrow> (string \<Rightarrow> bytes option) \<Rightarrow> (bytes \<Rightarrow> string option) \<Rightarrow> string \<Rightarrow>
   client_mode \<Rightarrow> string + string" where
  "deployment_text env read_file built_in utf8 package m =
     (case env ''NADO_CONFIGS_DIR'' of
        Some dir \<Rightarrow>
          (let path = path_join (path_join dir (nado_envtag m)) ''deployment.json'' in
           ok_or (''Failed to read '' @ path) (read_file path))
      | None \<Rightarrow>
          (case read_file (path_join (path_join (path_join package ''src/nado_utils/configs'') (nado_envtag m))
                             ''deployment.json'') of
             Some text \<Rightarrow> Ok text
           | None \<Rightarrow>
               res_bind (ok_or ''Deployment file not found'' (built_in (deployment_path m)))
                 (\<lambda>file. ok_or ''Failed to read deployment file'' (utf8 file))))"

definition read_deployment ::
  "wire_lib \<Rightarrow> (string \<Rightarrow> json option) \<Rightarrow> environment \<Rightarrow> (string \<Rightarrow> string option) \<Rightarrow> (string \<Rightarrow> bytes option) \<Rightarrow>
   (bytes \<Rightarrow> string option) \<Rightarrow> string \<Rightarrow> client_mode \<Rightarrow> string + deployment" where
  "read_deployment lb parse env read_file built_in utf8 package m =
     res_bind (deployment_text env read_file built_in utf8 package m)
       (\<lambda>text. ok_or ''called unwrap on an error'' (Option.bind (parse text) (fm_read (deployment_form lb))))"

text \<open>A configured directory is the only one that counts: what the package or the program has does not help.\<close>

lemma configured_deployment:
  assumes "env ''NADO_CONFIGS_DIR'' = Some dir"
  shows "deployment_text env read_file built_in utf8 package m = deployment_text env read_file built_in' utf8' package' m"
  using assms by (simp add: deployment_text_def)

lemma deployment_panics_iff:
  "(\<exists>e. deployment_text env read_file built_in utf8 package m = Err e) \<longleftrightarrow>
     (case env ''NADO_CONFIGS_DIR'' of
        Some dir \<Rightarrow> read_file (path_join (path_join dir (nado_envtag m)) ''deployment.json'') = None
      | None \<Rightarrow>
          read_file (path_join (path_join (path_join package ''src/nado_utils/configs'') (nado_envtag m)) ''deployment.json'')
            = None \<and> Option.bind (built_in (deployment_path m)) utf8 = None)"
  by (auto simp: deployment_text_def Let_def res_bind_def ok_or_def split: option.splits)

text \<open>The file a deployment was written to gives the deployment back, whichever place it is found at.\<close>

lemma deployment_read_back:
  assumes lb: "wire_lib_ok lb" and typed: "fm_typed (deployment_form lb) d"
    and found: "deployment_text env read_file built_in utf8 package m = Ok text"
      "parse text = Some (fm_write (deployment_form lb) d)"
  shows "read_deployment lb parse env read_file built_in utf8 package m = Ok d"
  using json_form.read_write [OF json_form_deployment [OF lb] typed] found
  by (simp add: read_deployment_def res_bind_def ok_or_def)

subsection \<open>The ensemble of nodes\<close>

text \<open>
  A request goes to the nodes in turn until one answers. An error that carries the gas of a reverted call comes from the
  chain and not from the node, so it ends the search. The nodes asked are returned with the answer.
\<close>

definition revert_mark :: string where "revert_mark = '': G ''"

primrec ask_nodes ::
  "('p \<Rightarrow> 'e + 'r) \<Rightarrow> ('e \<Rightarrow> string) \<Rightarrow> bool \<Rightarrow> 'e + 'r \<Rightarrow> 'p list \<Rightarrow> ('e + 'r) \<times> 'p list" where
  "ask_nodes request show_error first last_res [] = (last_res, [])"
| "ask_nodes request show_error first last_res (p # ps) =
     (if \<not> first \<and> (\<exists>e. last_res = Err e \<and> str_contains (show_error e) revert_mark) then (last_res, [])
      else
        (case request p of
           Inr r \<Rightarrow> (Inr r, [p])
         | Inl e \<Rightarrow> (let (res, asked) = ask_nodes request show_error False (Inl e) ps in (res, p # asked))))"

definition ensemble_request :: "('p \<Rightarrow> 'e + 'r) \<Rightarrow> ('e \<Rightarrow> string) \<Rightarrow> 'e \<Rightarrow> 'p list \<Rightarrow> ('e + 'r) \<times> 'p list" where
  "ensemble_request request show_error no_nodes ps = ask_nodes request show_error True (Inl no_nodes) ps"

lemma ask_nodes_marked:
  "str_contains (show_error e) revert_mark \<Longrightarrow> ask_nodes request show_error False (Inl e) ps = (Inl e, [])"
  by (cases ps) simp_all

lemma ask_nodes_spec:
  assumes "ask_nodes request show_error first last_res ps = (res, asked)"
    and "first \<or> (\<exists>e. last_res = Inl e \<and> \<not> str_contains (show_error e) revert_mark)"
  shows "\<exists>rest. ps = asked @ rest \<and>
    (\<forall>p \<in> set (butlast asked). \<exists>e. request p = Inl e \<and> \<not> str_contains (show_error e) revert_mark) \<and>
    (if asked = [] then ps = [] \<and> res = last_res else res = request (last asked)) \<and>
    (rest \<noteq> [] \<longrightarrow> (\<exists>r. res = Inr r) \<or> (\<exists>e. res = Inl e \<and> str_contains (show_error e) revert_mark))"
  using assms
proof (induction ps arbitrary: first last_res asked)
  case (Cons p ps)
  have going: "\<not> (\<not> first \<and> (\<exists>e. last_res = Inl e \<and> str_contains (show_error e) revert_mark))"
    using Cons.prems(2) by auto
  show ?case
  proof (cases "request p")
    case (Inr r)
    then have "res = Inr r" "asked = [p]" using Cons.prems(1) going by auto
    then show ?thesis using Inr by simp
  next
    case (Inl e)
    obtain asked' where rest: "ask_nodes request show_error False (Inl e) ps = (res, asked')" and asked: "asked = p # asked'"
      using Cons.prems(1) going Inl by (auto split: prod.splits)
    show ?thesis
    proof (cases "str_contains (show_error e) revert_mark")
      case True
      then show ?thesis using rest asked Inl by (auto simp: ask_nodes_marked)
    next
      case False
      with Cons.IH [OF rest] obtain rest' where IH: "ps = asked' @ rest'"
          "\<forall>p \<in> set (butlast asked'). \<exists>e. request p = Inl e \<and> \<not> str_contains (show_error e) revert_mark"
          "if asked' = [] then ps = [] \<and> res = Inl e else res = request (last asked')"
          "rest' \<noteq> [] \<longrightarrow> (\<exists>r. res = Inr r) \<or> (\<exists>e. res = Inl e \<and> str_contains (show_error e) revert_mark)"
        by auto
      then show ?thesis using asked Inl False by (cases "asked' = []") auto
    qed
  qed
qed simp

text \<open>
  The nodes are asked in their order. All but the last that is asked failed, not with a reverted call; the answer is the
  last one's; and nodes are left out only after an answer or a reverted call. Without nodes there is an error.
\<close>

lemma ensemble_request_correct:
  assumes "ensemble_request request show_error no_nodes ps = (res, asked)"
  shows "\<exists>rest. ps = asked @ rest \<and>
    (\<forall>p \<in> set (butlast asked). \<exists>e. request p = Inl e \<and> \<not> str_contains (show_error e) revert_mark) \<and>
    (if asked = [] then ps = [] \<and> res = Inl no_nodes else res = request (last asked)) \<and>
    (rest \<noteq> [] \<longrightarrow> (\<exists>r. res = Inr r) \<or> (\<exists>e. res = Inl e \<and> str_contains (show_error e) revert_mark))"
  using ask_nodes_spec [OF assms [unfolded ensemble_request_def]] by simp

text \<open>So one node that works is enough, unless a call reverts before it.\<close>

lemma one_node_is_enough:
  assumes "p \<in> set ps" "request p = Inr r"
    and "\<And>q e. q \<in> set ps \<Longrightarrow> request q = Inl e \<Longrightarrow> \<not> str_contains (show_error e) revert_mark"
  shows "\<exists>r. fst (ensemble_request request show_error no_nodes ps) = Inr r"
proof -
  obtain res asked where run: "ensemble_request request show_error no_nodes ps = (res, asked)" by fastforce
  from ensemble_request_correct [OF run] obtain rest where spec: "ps = asked @ rest"
      "if asked = [] then ps = [] \<and> res = Inl no_nodes else res = request (last asked)"
      "\<forall>p \<in> set (butlast asked). \<exists>e. request p = Inl e \<and> \<not> str_contains (show_error e) revert_mark"
      "rest \<noteq> [] \<longrightarrow> (\<exists>r. res = Inr r) \<or> (\<exists>e. res = Inl e \<and> str_contains (show_error e) revert_mark)"
    by blast
  have asked: "asked \<noteq> []" using spec(2) assms(1) by (auto split: if_splits)
  then have last: "last asked \<in> set ps" "res = request (last asked)" using spec(1,2) by auto
  show ?thesis
  proof (cases res)
    case (Inl e)
    then have "rest = []" using spec(4) assms(3) [OF last(1)] last(2) by auto
    then have "p \<in> set (butlast asked) \<or> p = last asked"
      using assms(1) spec(1) append_butlast_last_id [OF asked, symmetric] by (metis Un_iff append_Nil2 empty_iff insert_iff list.set set_append)
    then show ?thesis using spec(3) assms(2) last(2) Inl by auto
  qed (use run in auto)
qed

end
