(* ===== verification/SdkRequests.thy ===== *)
theory SdkRequests
  imports SdkTriggers
begin

text \<open>
  The requests of the SDK as JSON (nado_utils/engine.rs, nado_utils/trigger.rs): the messages to execute with
  their forms, which the execution gateway reads, and the queries, which are only written.
\<close>

subsection \<open>Orders\<close>

definition h256_form :: "wire_lib \<Rightarrow> bytes form" where
  "h256_form lb =
     plain_form (\<lambda>bs. length bs = 32) (\<lambda>bs. JString (wl_hex lb bs)) (\<lambda>v. Option.bind (as_str v) (wl_from_hash lb 32))"

lemma json_form_h256 [form_laws]:
  assumes "wire_lib_ok lb"
  shows "json_form (h256_form lb)"
proof -
  have "wl_from_hash lb 32 (wl_hex lb bs) = Some bs" if "length bs = 32" for bs
    using wire_lib_okD(3) [OF assms, of bs] that by simp
  then show ?thesis unfolding h256_form_def by (intro json_form_plain) simp
qed

lemma never_null_bytes [form_laws]: "never_null (h256_form lb)" "never_null (bytes32_form lb)" "never_null (vec_u8_form lb)"
  by (simp_all add: never_null_def primitive_defs h256_form_def bytes32_form_def vec_u8_form_def serialize_bytes32_def
      serialize_vec_u8_def)

definition place_order_form :: "wire_lib \<Rightarrow> place_order form" where
  "place_order_form lb = struct_form place_order.make
     (with_field ''order'' (order_form lb) po_order
     (with_field ''signature'' (vec_u8_form lb) po_signature
     (with_field ''product_id'' u32_form po_product_id
     (with_option ''digest'' (bytes32_form lb) po_digest
     (with_skipped ''id'' u64_form po_id
     (with_option ''spot_leverage'' bool_form po_spot_leverage
     (with_option ''borrow_margin'' bool_form po_borrow_margin
     no_more)))))))"

lemma json_form_place_order [form_laws]: "wire_lib_ok lb \<Longrightarrow> json_form (place_order_form lb)"
  unfolding place_order_form_def by (intro struct_laws form_laws) (simp_all add: place_order.make_def)

definition price_requirement_variants :: "(string \<times> (json option \<Rightarrow> price_requirement option)) list" where
  "price_requirement_variants =
     [(''oracle_price_above'', newtype_variant i128_text OraclePriceAbove),
      (''oracle_price_below'', newtype_variant i128_text OraclePriceBelow),
      (''last_price_above'', newtype_variant i128_text LastPriceAbove),
      (''last_price_below'', newtype_variant i128_text LastPriceBelow),
      (''mid_price_above'', newtype_variant i128_text MidPriceAbove),
      (''mid_price_below'', newtype_variant i128_text MidPriceBelow)]"

definition price_requirement_form :: "price_requirement form" where
  "price_requirement_form =
     \<lparr>fm_write = (\<lambda>e. case e of
           OraclePriceAbove a \<Rightarrow> tagged ''oracle_price_above'' i128_text a
         | OraclePriceBelow a \<Rightarrow> tagged ''oracle_price_below'' i128_text a
         | LastPriceAbove a \<Rightarrow> tagged ''last_price_above'' i128_text a
         | LastPriceBelow a \<Rightarrow> tagged ''last_price_below'' i128_text a
         | MidPriceAbove a \<Rightarrow> tagged ''mid_price_above'' i128_text a
         | MidPriceBelow a \<Rightarrow> tagged ''mid_price_below'' i128_text a),
      fm_read = enum_read price_requirement_variants,
      fm_typed = (\<lambda>e. case e of
           OraclePriceAbove a \<Rightarrow> fm_typed i128_text a
         | OraclePriceBelow a \<Rightarrow> fm_typed i128_text a
         | LastPriceAbove a \<Rightarrow> fm_typed i128_text a
         | LastPriceBelow a \<Rightarrow> fm_typed i128_text a
         | MidPriceAbove a \<Rightarrow> fm_typed i128_text a
         | MidPriceBelow a \<Rightarrow> fm_typed i128_text a)\<rparr>"

lemma price_requirement_tags: "distinct (map fst price_requirement_variants)"
  unfolding price_requirement_variants_def list.map fst_conv by code_simp

lemma price_requirement_read_write:
  "fm_typed price_requirement_form e \<Longrightarrow>
   fm_read price_requirement_form (fm_write price_requirement_form e) = Some e"
  apply (cases e; simp only: price_requirement_form_def form.simps price_requirement.case)
  apply (rule enum_read_member [OF price_requirement_tags], simp only: price_requirement_variants_def list.set,
      (rule insertI1 | rule insertI2)+, simp only: newtype_variant_written form_laws enum_read_unit prod.case)+
  done

lemma json_form_price_requirement [form_laws]: "json_form price_requirement_form"
  by unfold_locales (rule price_requirement_read_write)

definition dependency_form :: "wire_lib \<Rightarrow> dependency form" where
  "dependency_form lb = struct_form dependency.make
     (with_field ''digest'' (h256_form lb) dp_digest
     (with_field ''on_partial_fill'' bool_form dp_on_partial_fill
     no_more))"

lemma json_form_dependency [form_laws]: "wire_lib_ok lb \<Longrightarrow> json_form (dependency_form lb)"
  unfolding dependency_form_def by (intro struct_laws form_laws) (simp_all add: dependency.make_def)

lemma never_null_dependency [form_laws]: "never_null (dependency_form lb)"
  unfolding dependency_form_def by (rule never_null_struct)

definition trigger_criteria_price_trigger_body :: "wire_lib \<Rightarrow> (price_requirement \<times> (dependency option)) form" where
  "trigger_criteria_price_trigger_body lb = struct_form (\<lambda>a b. (a, b))
     (with_field ''price_requirement'' price_requirement_form (\<lambda>(a, b). a)
     (with_option ''dependency'' (dependency_form lb) (\<lambda>(a, b). b)
     no_more))"

lemma json_form_trigger_criteria_price_trigger [form_laws]: "wire_lib_ok lb \<Longrightarrow> json_form (trigger_criteria_price_trigger_body lb)"
  unfolding trigger_criteria_price_trigger_body_def by (intro struct_laws form_laws) (simp_all add: case_prod_beta)

definition trigger_criteria_time_trigger_body :: "(u64 \<times> (i128 list option)) form" where
  "trigger_criteria_time_trigger_body = struct_form (\<lambda>a b. (a, b))
     (with_field ''interval'' u64_form (\<lambda>(a, b). a)
     (with_option ''amounts'' (list_form i128_text) (\<lambda>(a, b). b)
     no_more))"

lemma json_form_trigger_criteria_time_trigger [form_laws]: "json_form trigger_criteria_time_trigger_body"
  unfolding trigger_criteria_time_trigger_body_def by (intro struct_laws form_laws) (simp_all add: case_prod_beta)

definition trigger_criteria_variants :: "wire_lib \<Rightarrow> (string \<times> (json option \<Rightarrow> trigger_criteria option)) list" where
  "trigger_criteria_variants lb =
     [(''price_trigger'', newtype_variant (trigger_criteria_price_trigger_body lb) (\<lambda>(a, b). PriceTrigger a b)),
      (''time_trigger'', newtype_variant trigger_criteria_time_trigger_body (\<lambda>(a, b). TimeTrigger a b))]"

definition trigger_criteria_form :: "wire_lib \<Rightarrow> trigger_criteria form" where
  "trigger_criteria_form lb =
     \<lparr>fm_write = (\<lambda>e. case e of
           PriceTrigger a b \<Rightarrow> tagged ''price_trigger'' (trigger_criteria_price_trigger_body lb) (a, b)
         | TimeTrigger a b \<Rightarrow> tagged ''time_trigger'' trigger_criteria_time_trigger_body (a, b)),
      fm_read = enum_read (trigger_criteria_variants lb),
      fm_typed = (\<lambda>e. case e of
           PriceTrigger a b \<Rightarrow> fm_typed (trigger_criteria_price_trigger_body lb) (a, b)
         | TimeTrigger a b \<Rightarrow> fm_typed trigger_criteria_time_trigger_body (a, b))\<rparr>"

lemma trigger_criteria_tags: "distinct (map fst (trigger_criteria_variants lb))"
  unfolding trigger_criteria_variants_def list.map fst_conv by code_simp

lemma trigger_criteria_read_write:
  "wire_lib_ok lb \<Longrightarrow> fm_typed (trigger_criteria_form lb) e \<Longrightarrow>
   fm_read (trigger_criteria_form lb) (fm_write (trigger_criteria_form lb) e) = Some e"
  apply (cases e; simp only: trigger_criteria_form_def form.simps trigger_criteria.case)
  apply (rule enum_read_member [OF trigger_criteria_tags], simp only: trigger_criteria_variants_def list.set,
      (rule insertI1 | rule insertI2)+, simp only: newtype_variant_written form_laws enum_read_unit prod.case)+
  done

lemma json_form_trigger_criteria [form_laws]: "wire_lib_ok lb \<Longrightarrow> json_form (trigger_criteria_form lb)"
  by unfold_locales (rule trigger_criteria_read_write)

definition place_trigger_order_form :: "wire_lib \<Rightarrow> place_trigger_order form" where
  "place_trigger_order_form lb = struct_form place_trigger_order.make
     (with_field ''order'' (order_form lb) pt_order
     (with_field ''signature'' (blob_form lb) pt_signature
     (with_field ''product_id'' u32_form pt_product_id
     (with_option ''spot_leverage'' bool_form pt_spot_leverage
     (with_option ''borrow_margin'' bool_form pt_borrow_margin
     (with_field ''trigger'' (trigger_criteria_form lb) pt_trigger
     (with_option ''digest'' ((h256_form lb)) pt_digest
     (with_option ''id'' u64_form pt_id
     no_more))))))))"

lemma json_form_place_trigger_order [form_laws]: "wire_lib_ok lb \<Longrightarrow> json_form (place_trigger_order_form lb)"
  unfolding place_trigger_order_form_def by (intro struct_laws form_laws) (simp_all add: place_trigger_order.make_def)

subsection \<open>Messages to execute\<close>

definition engine_execute_liquidate_subaccount_body :: "wire_lib \<Rightarrow> (liquidate_subaccount \<times> bytes) form" where
  "engine_execute_liquidate_subaccount_body lb = struct_form (\<lambda>a b. (a, b))
     (with_field ''tx'' (liquidate_subaccount_form lb) (\<lambda>(a, b). a)
     (with_field ''signature'' (vec_u8_form lb) (\<lambda>(a, b). b)
     no_more))"

lemma json_form_engine_execute_liquidate_subaccount [form_laws]: "wire_lib_ok lb \<Longrightarrow> json_form (engine_execute_liquidate_subaccount_body lb)"
  unfolding engine_execute_liquidate_subaccount_body_def by (intro struct_laws form_laws) (simp_all add: case_prod_beta)

definition engine_execute_withdraw_collateral_body :: "wire_lib \<Rightarrow> (withdraw_collateral \<times> bytes \<times> (bool option) \<times> (bool option)) form" where
  "engine_execute_withdraw_collateral_body lb = struct_form (\<lambda>a b c d. (a, b, c, d))
     (with_field ''tx'' (withdraw_collateral_form lb) (\<lambda>(a, b, c, d). a)
     (with_field ''signature'' (vec_u8_form lb) (\<lambda>(a, b, c, d). b)
     (with_option ''spot_leverage'' bool_form (\<lambda>(a, b, c, d). c)
     (with_option ''sequencer_risk_check'' bool_form (\<lambda>(a, b, c, d). d)
     no_more))))"

lemma json_form_engine_execute_withdraw_collateral [form_laws]: "wire_lib_ok lb \<Longrightarrow> json_form (engine_execute_withdraw_collateral_body lb)"
  unfolding engine_execute_withdraw_collateral_body_def by (intro struct_laws form_laws) (simp_all add: case_prod_beta)

definition engine_execute_cancel_orders_body :: "wire_lib \<Rightarrow> (cancellation \<times> bytes) form" where
  "engine_execute_cancel_orders_body lb = struct_form (\<lambda>a b. (a, b))
     (with_field ''tx'' (cancellation_form lb) (\<lambda>(a, b). a)
     (with_field ''signature'' (vec_u8_form lb) (\<lambda>(a, b). b)
     no_more))"

lemma json_form_engine_execute_cancel_orders [form_laws]: "wire_lib_ok lb \<Longrightarrow> json_form (engine_execute_cancel_orders_body lb)"
  unfolding engine_execute_cancel_orders_body_def by (intro struct_laws form_laws) (simp_all add: case_prod_beta)

definition engine_execute_cancel_product_orders_body :: "wire_lib \<Rightarrow> (cancellation_products \<times> bytes \<times> (bytes option)) form" where
  "engine_execute_cancel_product_orders_body lb = struct_form (\<lambda>a b c. (a, b, c))
     (with_field ''tx'' (cancellation_products_form lb) (\<lambda>(a, b, c). a)
     (with_field ''signature'' (vec_u8_form lb) (\<lambda>(a, b, c). b)
     (with_option ''digest'' (bytes32_form lb) (\<lambda>(a, b, c). c)
     no_more)))"

lemma json_form_engine_execute_cancel_product_orders [form_laws]: "wire_lib_ok lb \<Longrightarrow> json_form (engine_execute_cancel_product_orders_body lb)"
  unfolding engine_execute_cancel_product_orders_body_def by (intro struct_laws form_laws) (simp_all add: case_prod_beta)

definition engine_execute_link_signer_body :: "wire_lib \<Rightarrow> (link_signer \<times> bytes) form" where
  "engine_execute_link_signer_body lb = struct_form (\<lambda>a b. (a, b))
     (with_field ''tx'' (link_signer_form lb) (\<lambda>(a, b). a)
     (with_field ''signature'' (vec_u8_form lb) (\<lambda>(a, b). b)
     no_more))"

lemma json_form_engine_execute_link_signer [form_laws]: "wire_lib_ok lb \<Longrightarrow> json_form (engine_execute_link_signer_body lb)"
  unfolding engine_execute_link_signer_body_def by (intro struct_laws form_laws) (simp_all add: case_prod_beta)

definition engine_execute_cancel_and_place_body :: "wire_lib \<Rightarrow> (cancellation \<times> bytes \<times> place_order \<times> (bool option)) form" where
  "engine_execute_cancel_and_place_body lb = struct_form (\<lambda>a b c d. (a, b, c, d))
     (with_field ''cancel_tx'' (cancellation_form lb) (\<lambda>(a, b, c, d). a)
     (with_field ''cancel_signature'' (vec_u8_form lb) (\<lambda>(a, b, c, d). b)
     (with_field ''place_order'' (place_order_form lb) (\<lambda>(a, b, c, d). c)
     (with_option ''place_requires_unfilled'' bool_form (\<lambda>(a, b, c, d). d)
     no_more))))"

lemma json_form_engine_execute_cancel_and_place [form_laws]: "wire_lib_ok lb \<Longrightarrow> json_form (engine_execute_cancel_and_place_body lb)"
  unfolding engine_execute_cancel_and_place_body_def by (intro struct_laws form_laws) (simp_all add: case_prod_beta)

definition engine_execute_transfer_quote_body :: "wire_lib \<Rightarrow> (transfer_quote \<times> bytes) form" where
  "engine_execute_transfer_quote_body lb = struct_form (\<lambda>a b. (a, b))
     (with_field ''tx'' (transfer_quote_form lb) (\<lambda>(a, b). a)
     (with_field ''signature'' (vec_u8_form lb) (\<lambda>(a, b). b)
     no_more))"

lemma json_form_engine_execute_transfer_quote [form_laws]: "wire_lib_ok lb \<Longrightarrow> json_form (engine_execute_transfer_quote_body lb)"
  unfolding engine_execute_transfer_quote_body_def by (intro struct_laws form_laws) (simp_all add: case_prod_beta)

definition engine_execute_mint_nlp_body :: "wire_lib \<Rightarrow> (mint_nlp \<times> bytes \<times> (bool option)) form" where
  "engine_execute_mint_nlp_body lb = struct_form (\<lambda>a b c. (a, b, c))
     (with_field ''tx'' (mint_nlp_form lb) (\<lambda>(a, b, c). a)
     (with_field ''signature'' (vec_u8_form lb) (\<lambda>(a, b, c). b)
     (with_option ''spot_leverage'' bool_form (\<lambda>(a, b, c). c)
     no_more)))"

lemma json_form_engine_execute_mint_nlp [form_laws]: "wire_lib_ok lb \<Longrightarrow> json_form (engine_execute_mint_nlp_body lb)"
  unfolding engine_execute_mint_nlp_body_def by (intro struct_laws form_laws) (simp_all add: case_prod_beta)

definition engine_execute_burn_nlp_body :: "wire_lib \<Rightarrow> (burn_nlp \<times> bytes) form" where
  "engine_execute_burn_nlp_body lb = struct_form (\<lambda>a b. (a, b))
     (with_field ''tx'' (burn_nlp_form lb) (\<lambda>(a, b). a)
     (with_field ''signature'' (vec_u8_form lb) (\<lambda>(a, b). b)
     no_more))"

lemma json_form_engine_execute_burn_nlp [form_laws]: "wire_lib_ok lb \<Longrightarrow> json_form (engine_execute_burn_nlp_body lb)"
  unfolding engine_execute_burn_nlp_body_def by (intro struct_laws form_laws) (simp_all add: case_prod_beta)

definition engine_execute_variants :: "wire_lib \<Rightarrow> (string \<times> (json option \<Rightarrow> engine_execute option)) list" where
  "engine_execute_variants lb =
     [(''liquidate_subaccount'', newtype_variant (engine_execute_liquidate_subaccount_body lb) (\<lambda>(a, b). E_LiquidateSubaccount a b)),
      (''withdraw_collateral'', newtype_variant (engine_execute_withdraw_collateral_body lb) (\<lambda>(a, b, c, d). E_WithdrawCollateral a b c d)),
      (''place_order'', newtype_variant (place_order_form lb) E_PlaceOrder),
      (''cancel_orders'', newtype_variant (engine_execute_cancel_orders_body lb) (\<lambda>(a, b). E_CancelOrders a b)),
      (''cancel_product_orders'', newtype_variant (engine_execute_cancel_product_orders_body lb) (\<lambda>(a, b, c). E_CancelProductOrders a b c)),
      (''link_signer'', newtype_variant (engine_execute_link_signer_body lb) (\<lambda>(a, b). E_LinkSigner a b)),
      (''cancel_and_place'', newtype_variant (engine_execute_cancel_and_place_body lb) (\<lambda>(a, b, c, d). E_CancelAndPlace a b c d)),
      (''transfer_quote'', newtype_variant (engine_execute_transfer_quote_body lb) (\<lambda>(a, b). E_TransferQuote a b)),
      (''mint_nlp'', newtype_variant (engine_execute_mint_nlp_body lb) (\<lambda>(a, b, c). E_MintNlp a b c)),
      (''burn_nlp'', newtype_variant (engine_execute_burn_nlp_body lb) (\<lambda>(a, b). E_BurnNlp a b))]"

definition engine_execute_form :: "wire_lib \<Rightarrow> engine_execute form" where
  "engine_execute_form lb =
     \<lparr>fm_write = (\<lambda>e. case e of
           E_LiquidateSubaccount a b \<Rightarrow> tagged ''liquidate_subaccount'' (engine_execute_liquidate_subaccount_body lb) (a, b)
         | E_WithdrawCollateral a b c d \<Rightarrow> tagged ''withdraw_collateral'' (engine_execute_withdraw_collateral_body lb) (a, b, c, d)
         | E_PlaceOrder a \<Rightarrow> tagged ''place_order'' (place_order_form lb) a
         | E_CancelOrders a b \<Rightarrow> tagged ''cancel_orders'' (engine_execute_cancel_orders_body lb) (a, b)
         | E_CancelProductOrders a b c \<Rightarrow> tagged ''cancel_product_orders'' (engine_execute_cancel_product_orders_body lb) (a, b, c)
         | E_LinkSigner a b \<Rightarrow> tagged ''link_signer'' (engine_execute_link_signer_body lb) (a, b)
         | E_CancelAndPlace a b c d \<Rightarrow> tagged ''cancel_and_place'' (engine_execute_cancel_and_place_body lb) (a, b, c, d)
         | E_TransferQuote a b \<Rightarrow> tagged ''transfer_quote'' (engine_execute_transfer_quote_body lb) (a, b)
         | E_MintNlp a b c \<Rightarrow> tagged ''mint_nlp'' (engine_execute_mint_nlp_body lb) (a, b, c)
         | E_BurnNlp a b \<Rightarrow> tagged ''burn_nlp'' (engine_execute_burn_nlp_body lb) (a, b)),
      fm_read = enum_read (engine_execute_variants lb),
      fm_typed = (\<lambda>e. case e of
           E_LiquidateSubaccount a b \<Rightarrow> fm_typed (engine_execute_liquidate_subaccount_body lb) (a, b)
         | E_WithdrawCollateral a b c d \<Rightarrow> fm_typed (engine_execute_withdraw_collateral_body lb) (a, b, c, d)
         | E_PlaceOrder a \<Rightarrow> fm_typed (place_order_form lb) a
         | E_CancelOrders a b \<Rightarrow> fm_typed (engine_execute_cancel_orders_body lb) (a, b)
         | E_CancelProductOrders a b c \<Rightarrow> fm_typed (engine_execute_cancel_product_orders_body lb) (a, b, c)
         | E_LinkSigner a b \<Rightarrow> fm_typed (engine_execute_link_signer_body lb) (a, b)
         | E_CancelAndPlace a b c d \<Rightarrow> fm_typed (engine_execute_cancel_and_place_body lb) (a, b, c, d)
         | E_TransferQuote a b \<Rightarrow> fm_typed (engine_execute_transfer_quote_body lb) (a, b)
         | E_MintNlp a b c \<Rightarrow> fm_typed (engine_execute_mint_nlp_body lb) (a, b, c)
         | E_BurnNlp a b \<Rightarrow> fm_typed (engine_execute_burn_nlp_body lb) (a, b))\<rparr>"

lemma engine_execute_tags: "distinct (map fst (engine_execute_variants lb))"
  unfolding engine_execute_variants_def list.map fst_conv by code_simp

lemma engine_execute_read_write:
  "wire_lib_ok lb \<Longrightarrow> fm_typed (engine_execute_form lb) e \<Longrightarrow>
   fm_read (engine_execute_form lb) (fm_write (engine_execute_form lb) e) = Some e"
  apply (cases e; simp only: engine_execute_form_def form.simps engine_execute.case)
  apply (rule enum_read_member [OF engine_execute_tags], simp only: engine_execute_variants_def list.set,
      (rule insertI1 | rule insertI2)+, simp only: newtype_variant_written form_laws enum_read_unit prod.case)+
  done

lemma json_form_engine_execute [form_laws]: "wire_lib_ok lb \<Longrightarrow> json_form (engine_execute_form lb)"
  by unfold_locales (rule engine_execute_read_write)

definition trigger_execute_place_orders_body :: "wire_lib \<Rightarrow> ((place_trigger_order list) \<times> (bool option)) form" where
  "trigger_execute_place_orders_body lb = struct_form (\<lambda>a b. (a, b))
     (with_field ''orders'' (list_form (place_trigger_order_form lb)) (\<lambda>(a, b). a)
     (with_option ''stop_on_failure'' bool_form (\<lambda>(a, b). b)
     no_more))"

lemma json_form_trigger_execute_place_orders [form_laws]: "wire_lib_ok lb \<Longrightarrow> json_form (trigger_execute_place_orders_body lb)"
  unfolding trigger_execute_place_orders_body_def by (intro struct_laws form_laws) (simp_all add: case_prod_beta)

definition trigger_execute_cancel_orders_body :: "wire_lib \<Rightarrow> (cancellation \<times> bytes) form" where
  "trigger_execute_cancel_orders_body lb = struct_form (\<lambda>a b. (a, b))
     (with_field ''tx'' (cancellation_form lb) (\<lambda>(a, b). a)
     (with_field ''signature'' (blob_form lb) (\<lambda>(a, b). b)
     no_more))"

lemma json_form_trigger_execute_cancel_orders [form_laws]: "wire_lib_ok lb \<Longrightarrow> json_form (trigger_execute_cancel_orders_body lb)"
  unfolding trigger_execute_cancel_orders_body_def by (intro struct_laws form_laws) (simp_all add: case_prod_beta)

definition trigger_execute_cancel_product_orders_body :: "wire_lib \<Rightarrow> (cancellation_products \<times> bytes) form" where
  "trigger_execute_cancel_product_orders_body lb = struct_form (\<lambda>a b. (a, b))
     (with_field ''tx'' (cancellation_products_form lb) (\<lambda>(a, b). a)
     (with_field ''signature'' (blob_form lb) (\<lambda>(a, b). b)
     no_more))"

lemma json_form_trigger_execute_cancel_product_orders [form_laws]: "wire_lib_ok lb \<Longrightarrow> json_form (trigger_execute_cancel_product_orders_body lb)"
  unfolding trigger_execute_cancel_product_orders_body_def by (intro struct_laws form_laws) (simp_all add: case_prod_beta)

definition trigger_execute_variants :: "wire_lib \<Rightarrow> (string \<times> (json option \<Rightarrow> trigger_execute option)) list" where
  "trigger_execute_variants lb =
     [(''place_order'', newtype_variant (place_trigger_order_form lb) T_PlaceOrder),
      (''place_orders'', newtype_variant (trigger_execute_place_orders_body lb) (\<lambda>(a, b). T_PlaceOrders a b)),
      (''cancel_orders'', newtype_variant (trigger_execute_cancel_orders_body lb) (\<lambda>(a, b). T_CancelOrders a b)),
      (''cancel_product_orders'', newtype_variant (trigger_execute_cancel_product_orders_body lb) (\<lambda>(a, b). T_CancelProductOrders a b))]"

definition trigger_execute_form :: "wire_lib \<Rightarrow> trigger_execute form" where
  "trigger_execute_form lb =
     \<lparr>fm_write = (\<lambda>e. case e of
           T_PlaceOrder a \<Rightarrow> tagged ''place_order'' (place_trigger_order_form lb) a
         | T_PlaceOrders a b \<Rightarrow> tagged ''place_orders'' (trigger_execute_place_orders_body lb) (a, b)
         | T_CancelOrders a b \<Rightarrow> tagged ''cancel_orders'' (trigger_execute_cancel_orders_body lb) (a, b)
         | T_CancelProductOrders a b \<Rightarrow> tagged ''cancel_product_orders'' (trigger_execute_cancel_product_orders_body lb) (a, b)),
      fm_read = enum_read (trigger_execute_variants lb),
      fm_typed = (\<lambda>e. case e of
           T_PlaceOrder a \<Rightarrow> fm_typed (place_trigger_order_form lb) a
         | T_PlaceOrders a b \<Rightarrow> fm_typed (trigger_execute_place_orders_body lb) (a, b)
         | T_CancelOrders a b \<Rightarrow> fm_typed (trigger_execute_cancel_orders_body lb) (a, b)
         | T_CancelProductOrders a b \<Rightarrow> fm_typed (trigger_execute_cancel_product_orders_body lb) (a, b))\<rparr>"

lemma trigger_execute_tags: "distinct (map fst (trigger_execute_variants lb))"
  unfolding trigger_execute_variants_def list.map fst_conv by code_simp

lemma trigger_execute_read_write:
  "wire_lib_ok lb \<Longrightarrow> fm_typed (trigger_execute_form lb) e \<Longrightarrow>
   fm_read (trigger_execute_form lb) (fm_write (trigger_execute_form lb) e) = Some e"
  apply (cases e; simp only: trigger_execute_form_def form.simps trigger_execute.case)
  apply (rule enum_read_member [OF trigger_execute_tags], simp only: trigger_execute_variants_def list.set,
      (rule insertI1 | rule insertI2)+, simp only: newtype_variant_written form_laws enum_read_unit prod.case)+
  done

lemma json_form_trigger_execute [form_laws]: "wire_lib_ok lb \<Longrightarrow> json_form (trigger_execute_form lb)"
  by unfold_locales (rule trigger_execute_read_write)

definition list_trigger_orders_form :: "wire_lib \<Rightarrow> list_trigger_orders form" where
  "list_trigger_orders_form lb = struct_form list_trigger_orders.make
     (with_field ''sender'' (bytes32_form lb) lt_sender
     (with_field ''recvTime'' u64_text lt_recvTime
     no_more))"

lemma json_form_list_trigger_orders [form_laws]: "wire_lib_ok lb \<Longrightarrow> json_form (list_trigger_orders_form lb)"
  unfolding list_trigger_orders_form_def by (intro struct_laws form_laws) (simp_all add: list_trigger_orders.make_def)

subsection \<open>Queries\<close>

text \<open>A query is an object with its fields after the name of its type; a missing option is written as null.\<close>

definition direction_text :: "direction \<Rightarrow> string" where
  "direction_text d = (case d of Dir_Long \<Rightarrow> ''long'' | Dir_Short \<Rightarrow> ''short'')"

definition typed_query :: "string \<Rightarrow> (string \<times> json) list \<Rightarrow> json" where
  "typed_query name vs = JObject ((''type'', JString name) # vs)"

definition sub_json :: "wire_lib \<Rightarrow> bytes \<Rightarrow> json" where "sub_json lb = fm_write (bytes32_form lb)"
definition text_opt_json :: "string option \<Rightarrow> json" where "text_opt_json = fm_write (option_form text_form)"
definition u32s_json :: "u32 list \<Rightarrow> json" where "u32s_json = fm_write (list_form u32_form)"

fun engine_query_json :: "wire_lib \<Rightarrow> engine_query \<Rightarrow> json" where
  "engine_query_json lb Q_Status = typed_query ''status'' []"
| "engine_query_json lb Q_Contracts = typed_query ''contracts'' []"
| "engine_query_json lb (Q_Nonces address) =
     typed_query ''nonces'' [(''address'', fm_write (bytes20_form lb) address)]"
| "engine_query_json lb (Q_LinkedSigner sub) = typed_query ''linked_signer'' [(''subaccount'', sub_json lb sub)]"
| "engine_query_json lb (Q_SubaccountInfo sub txns pre_state) =
     typed_query ''subaccount_info''
       [(''subaccount'', sub_json lb sub), (''txns'', text_opt_json txns), (''pre_state'', text_opt_json pre_state)]"
| "engine_query_json lb Q_AllProducts = typed_query ''all_products'' []"
| "engine_query_json lb Q_EdgeAllProducts = typed_query ''edge_all_products'' []"
| "engine_query_json lb (Q_MarketPrice pid) = typed_query ''market_price'' [(''product_id'', ju32 pid)]"
| "engine_query_json lb (Q_MarketPrices pids) = typed_query ''market_prices'' [(''product_ids'', u32s_json pids)]"
| "engine_query_json lb (Q_Order pid digest) =
     typed_query ''order'' [(''product_id'', ju32 pid), (''digest'', sub_json lb digest)]"
| "engine_query_json lb (Q_Orders sender pids) =
     typed_query ''orders'' [(''sender'', sub_json lb sender), (''product_ids'', u32s_json pids)]"
| "engine_query_json lb (Q_ValidateOrder pid order) =
     typed_query ''validate_order'' [(''product_id'', ju32 pid), (''order'', fm_write (vec_u8_form lb) order)]"
| "engine_query_json lb (Q_FeeRates sender) = typed_query ''fee_rates'' [(''sender'', sub_json lb sender)]"
| "engine_query_json lb (Q_SubaccountOrders sender pid) =
     typed_query ''subaccount_orders'' [(''sender'', sub_json lb sender), (''product_id'', ju32 pid)]"
| "engine_query_json lb (Q_MarketLiquidity pid depth) =
     typed_query ''market_liquidity'' [(''product_id'', ju32 pid), (''depth'', ju32 depth)]"
| "engine_query_json lb (Q_MaxOrderSize sender pid price direction leverage reduce isolated margin) =
     typed_query ''max_order_size''
       [(''sender'', sub_json lb sender), (''product_id'', ju32 pid), (''price_x18'', serialize_i128 price),
        (''direction'', JString (direction_text direction)), (''spot_leverage'', text_opt_json leverage),
        (''reduce_only'', text_opt_json reduce), (''isolated'', text_opt_json isolated),
        (''borrow_margin'', text_opt_json margin)]"
| "engine_query_json lb (Q_MaxWithdrawable sender pid leverage) =
     typed_query ''max_withdrawable''
       [(''sender'', sub_json lb sender), (''product_id'', ju32 pid), (''spot_leverage'', text_opt_json leverage)]"
| "engine_query_json lb (Q_MaxNlpMintable sender leverage) =
     typed_query ''max_nlp_mintable'' [(''sender'', sub_json lb sender), (''spot_leverage'', text_opt_json leverage)]"
| "engine_query_json lb (Q_MaxNlpBurnable sender) = typed_query ''max_nlp_burnable'' [(''sender'', sub_json lb sender)]"
| "engine_query_json lb (Q_IsolatedPositions sub) =
     typed_query ''isolated_positions'' [(''subaccount'', sub_json lb sub)]"
| "engine_query_json lb Q_HealthGroups = typed_query ''health_groups'' []"
| "engine_query_json lb Q_Insurance = typed_query ''insurance'' []"
| "engine_query_json lb Q_Versions = typed_query ''versions'' []"
| "engine_query_json lb (Q_Symbols pids kind) =
     typed_query ''symbols''
       [(''product_ids'', fm_write (option_form (list_form u32_form)) pids), (''product_type'', text_opt_json kind)]"
| "engine_query_json lb Q_NlpPoolInfo = typed_query ''nlp_pool_info'' []"
| "engine_query_json lb (Q_NlpLockedBalances sub) =
     typed_query ''nlp_locked_balances'' [(''subaccount'', sub_json lb sub)]"

definition status_type_form :: "trigger_status_type form" where
  "status_type_form = names_form status_type_name
     [St_Cancelled, St_Triggered, St_InternalError, St_Triggering, St_WaitingPrice, St_WaitingDependency,
      St_TwapExecuting, St_TwapCompleted]"

fun trigger_type_text :: "trigger_type \<Rightarrow> string" where
  "trigger_type_text TT_PriceTrigger = ''price_trigger''"
| "trigger_type_text TT_TimeTrigger = ''time_trigger''"
| "trigger_type_text TT_None = ''none''"

definition trigger_type_form :: "trigger_type form" where
  "trigger_type_form = names_form trigger_type_text [TT_PriceTrigger, TT_TimeTrigger, TT_None]"

lemma json_form_kinds [form_laws]: "json_form status_type_form" "json_form trigger_type_form"
proof -
  show "json_form status_type_form" unfolding status_type_form_def
  proof (rule json_form_names)
    show "t \<in> set [St_Cancelled, St_Triggered, St_InternalError, St_Triggering, St_WaitingPrice, St_WaitingDependency,
        St_TwapExecuting, St_TwapCompleted]" for t by (cases t) simp_all
  qed code_simp
  show "json_form trigger_type_form" unfolding trigger_type_form_def
  proof (rule json_form_names)
    show "t \<in> set [TT_PriceTrigger, TT_TimeTrigger, TT_None]" for t by (cases t) simp_all
  qed code_simp
qed

fun trigger_query_json :: "wire_lib \<Rightarrow> trigger_query \<Rightarrow> json" where
  "trigger_query_json lb (Tq_ListTriggerOrders l) =
     typed_query ''list_trigger_orders''
       [(''tx'', fm_write (list_trigger_orders_form lb) (tl_tx l)), (''signature'', fm_write (blob_form lb) (tl_signature l)),
        (''product_ids'', fm_write (option_form (list_form u32_form)) (tl_product_ids l)),
        (''trigger_types'', fm_write (option_form (list_form trigger_type_form)) (tl_trigger_types l)),
        (''status_types'', fm_write (option_form (list_form status_type_form)) (tl_status_types l)),
        (''max_update_time'', fm_write (option_form u64_form) (tl_max_update_time l)),
        (''max_digest'', fm_write (option_form (bytes32_form lb)) (tl_max_digest l)),
        (''digests'', fm_write (option_form (list_form (bytes32_form lb))) (tl_digests l)),
        (''limit'', fm_write (option_form u32_form) (tl_limit l)),
        (''reduce_only'', fm_write (option_form bool_form) (tl_reduce_only l))]"
| "trigger_query_json lb (Tq_ListTwapExecutions digest) =
     typed_query ''list_twap_executions'' [(''digest'', sub_json lb digest)]"

text \<open>C36: the messages to execute. Whatever a client asks the engine or the trigger service to execute is read from its JSON
  form as the message it was, so the gateway between them checks and forwards what the client signed; and two
  different messages never have the same form.\<close>

theorem requests_read_back:
  assumes lb: "wire_lib_ok lb"
    and typed: "fm_typed (engine_execute_form lb) e" "fm_typed (engine_execute_form lb) e'"
      "fm_typed (trigger_execute_form lb) t" "fm_typed (trigger_execute_form lb) t'"
  shows "fm_read (engine_execute_form lb) (fm_write (engine_execute_form lb) e) = Some e \<and>
    fm_read (trigger_execute_form lb) (fm_write (trigger_execute_form lb) t) = Some t \<and>
    (fm_write (engine_execute_form lb) e = fm_write (engine_execute_form lb) e' \<longleftrightarrow> e = e') \<and>
    (fm_write (trigger_execute_form lb) t = fm_write (trigger_execute_form lb) t' \<longleftrightarrow> t = t')"
  using json_form.read_write [OF json_form_engine_execute [OF lb] typed(1)]
    json_form.read_write [OF json_form_trigger_execute [OF lb] typed(3)]
    json_form.write_inj [OF json_form_engine_execute [OF lb] typed(1,2)]
    json_form.write_inj [OF json_form_trigger_execute [OF lb] typed(3,4)] by blast

definition demo_mint :: mint_nlp where
  "demo_mint = \<lparr>mn_sender = replicate 32 1, mn_quoteAmount = 5, mn_nonce = 7\<rparr>"

theorem requests_read_back_witness:
  "fm_read (engine_execute_form demo_lib) (fm_write (engine_execute_form demo_lib) (E_MintNlp demo_mint [1, 2] None)) =
     Some (E_MintNlp demo_mint [1, 2] None) \<and>
   fm_read (trigger_execute_form demo_lib) (fm_write (trigger_execute_form demo_lib) (T_PlaceOrders [] (Some True))) =
     Some (T_PlaceOrders [] (Some True))"
proof -
  let ?e = "E_MintNlp demo_mint [1, 2] None" and ?t = "T_PlaceOrders [] (Some True)"
  have e: "fm_typed (engine_execute_form demo_lib) ?e"
    by (simp add: engine_execute_form_def engine_execute_mint_nlp_body_def mint_nlp_form_def struct_form_def
        with_field_def with_option_def with_read_def no_more_def option_form_def primitive_defs bytes32_form_def
        vec_u8_form_def demo_mint_def)
  have t: "fm_typed (trigger_execute_form demo_lib) ?t"
    by (simp add: trigger_execute_form_def trigger_execute_place_orders_body_def struct_form_def with_field_def
        with_option_def with_read_def no_more_def option_form_def list_form_def primitive_defs)
  show ?thesis using requests_read_back [OF demo_lib_ok e e t t] by blast
qed

end
