(* ===== verification/SdkEngine.thy ===== *)
theory SdkEngine
  imports SdkArchive SdkRequests SdkClient
begin

text \<open>
  The answers of the engine and of the trigger service as JSON (nado_utils/engine.rs, nado_utils/trigger.rs): the
  form of every struct, and how an answer is found among the kinds it may be of. An answer comes without a tag
  and is read over the buffered copy serde makes; that reading is a parameter, relied on only not to
  make another value of it than the value itself gives.
\<close>

subsection \<open>Accounts and products\<close>

definition nested_i128_form :: "i128 list list form" where
  "nested_i128_form = wire_form (list_all (list_all in_i128)) serialize_nested_vec_i128 deserialize_nested_vec_i128"

lemma json_form_nested_i128 [form_laws]: "json_form nested_i128_form"
  unfolding nested_i128_form_def wire_form_def
  by (rule json_form_plain)
    (simp add: deserialize_nested_vec_i128_def serialize_nested_vec_i128_def vec_i128_codec.dec_seq_enc)

definition health_info_form :: "health_info form" where
  "health_info_form = struct_form health_info.make
     (with_field ''assets'' i128_text hi_assets
     (with_field ''liabilities'' i128_text hi_liabilities
     (with_field ''health'' i128_text hi_health
     no_more)))"

lemma json_form_health_info [form_laws]: "json_form health_info_form"
  unfolding health_info_form_def by (intro struct_laws form_laws) (simp_all add: health_info.make_def)

text \<open>The engine writes a product's token as the exchange's other addresses, not as the bindings do.\<close>

definition engine_config_form :: "wire_lib \<Rightarrow> spot_config form" where
  "engine_config_form lb = struct_form spot_config.make
     (with_field ''token'' (bytes20_form lb) cf_token
     (with_field ''interest_inflection_util_x18'' i128_text cf_interest_inflection_util
     (with_field ''interest_floor_x18'' i128_text cf_interest_floor
     (with_field ''interest_small_cap_x18'' i128_text cf_interest_small_cap
     (with_field ''interest_large_cap_x18'' i128_text cf_interest_large_cap
     (with_field ''withdraw_fee_x18'' i128_text cf_withdraw_fee
     (with_field ''min_deposit_rate_x18'' i128_text cf_min_deposit_rate
     no_more)))))))"

lemma json_form_engine_config [form_laws]: "wire_lib_ok lb \<Longrightarrow> json_form (engine_config_form lb)"
  unfolding engine_config_form_def by (intro struct_laws form_laws) (simp_all add: spot_config.make_def)

definition engine_spot_form :: "wire_lib \<Rightarrow> spot_product form" where
  "engine_spot_form lb = struct_form spot_product.make
     (with_field ''product_id'' u32_form sp_product_id
     (with_field ''oracle_price_x18'' i128_text sp_oracle_price
     (with_field ''risk'' risk_form sp_risk
     (with_field ''config'' (engine_config_form lb) sp_config
     (with_field ''state'' spot_state_form sp_state
     (with_field ''book_info'' book_info_form sp_book_info
     no_more))))))"

lemma json_form_engine_spot [form_laws]: "wire_lib_ok lb \<Longrightarrow> json_form (engine_spot_form lb)"
  unfolding engine_spot_form_def by (intro struct_laws form_laws) (simp_all add: spot_product.make_def)

definition all_products_form :: "wire_lib \<Rightarrow> all_products form" where
  "all_products_form lb = struct_form all_products.make
     (with_field ''spot_products'' (list_form (engine_spot_form lb)) al_spot_products
     (with_field ''perp_products'' (list_form perp_product_form) al_perp_products
     no_more))"

lemma json_form_all_products [form_laws]: "wire_lib_ok lb \<Longrightarrow> json_form (all_products_form lb)"
  unfolding all_products_form_def by (intro struct_laws form_laws) (simp_all add: all_products.make_def)

definition edge_products_form :: "wire_lib \<Rightarrow> ((u64, all_products) hashmap) form" where
  "edge_products_form lb = struct_form (\<lambda>a. a)
     (with_field ''edge_all_products'' (map_form u64_key (all_products_form lb)) (\<lambda>a. a)
     no_more)"

lemma json_form_edge_products [form_laws]: "wire_lib_ok lb \<Longrightarrow> json_form (edge_products_form lb)"
  unfolding edge_products_form_def by (intro struct_laws form_laws) (simp_all)

definition pre_state_form :: "pre_state form" where
  "pre_state_form = struct_form pre_state.make
     (with_field ''healths'' (list_form health_info_form) ps_healths
     (with_field ''health_contributions'' nested_i128_form ps_contributions
     (with_field ''spot_balances'' (list_form spot_balance_form) ps_spot_balances
     (with_field ''perp_balances'' (list_form perp_balance_form) ps_perp_balances
     no_more))))"

lemma json_form_pre_state [form_laws]: "json_form pre_state_form"
  unfolding pre_state_form_def by (intro struct_laws form_laws) (simp_all add: pre_state.make_def)

lemma never_null_pre_state [form_laws]: "never_null pre_state_form"
  unfolding pre_state_form_def by (rule never_null_struct)

definition subaccount_info_form :: "wire_lib \<Rightarrow> subaccount_info form" where
  "subaccount_info_form lb = struct_form subaccount_info.make
     (with_field ''subaccount'' (bytes32_form lb) sa_subaccount
     (with_field ''exists'' bool_form sa_exists
     (with_field ''healths'' (list_form health_info_form) sa_healths
     (with_field ''health_contributions'' nested_i128_form sa_contributions
     (with_field ''spot_count'' u32_form sa_spot_count
     (with_field ''perp_count'' u32_form sa_perp_count
     (with_field ''spot_balances'' (list_form spot_balance_form) sa_spot_balances
     (with_field ''perp_balances'' (list_form perp_balance_form) sa_perp_balances
     (with_field ''spot_products'' (list_form (engine_spot_form lb)) sa_spot_products
     (with_field ''perp_products'' (list_form perp_product_form) sa_perp_products
     (with_skipped ''pre_state'' pre_state_form sa_pre_state
     no_more)))))))))))"

lemma json_form_subaccount_info [form_laws]: "wire_lib_ok lb \<Longrightarrow> json_form (subaccount_info_form lb)"
  unfolding subaccount_info_form_def by (intro struct_laws form_laws) (simp_all add: subaccount_info.make_def)

definition contracts_info_form :: "wire_lib \<Rightarrow> contracts_info form" where
  "contracts_info_form lb = struct_form contracts_info.make
     (with_field ''chain_id'' u64_text ci_chain_id
     (with_field ''endpoint_addr'' (bytes20_form lb) ci_endpoint_addr
     no_more))"

lemma json_form_contracts_info [form_laws]: "wire_lib_ok lb \<Longrightarrow> json_form (contracts_info_form lb)"
  unfolding contracts_info_form_def by (intro struct_laws form_laws) (simp_all add: contracts_info.make_def)

definition nonces_response_form :: "nonces_response form" where
  "nonces_response_form = struct_form nonces_response.make
     (with_field ''tx_nonce'' u64_text no_tx_nonce
     (with_field ''order_nonce'' u64_text no_order_nonce
     no_more))"

lemma json_form_nonces_response [form_laws]: "json_form nonces_response_form"
  unfolding nonces_response_form_def by (intro struct_laws form_laws) (simp_all add: nonces_response.make_def)

definition linked_signer_answer_form :: "wire_lib \<Rightarrow> bytes form" where
  "linked_signer_answer_form lb = struct_form (\<lambda>a. a)
     (with_field ''linked_signer'' (bytes20_form lb) (\<lambda>a. a)
     no_more)"

lemma json_form_linked_signer_answer [form_laws]: "wire_lib_ok lb \<Longrightarrow> json_form (linked_signer_answer_form lb)"
  unfolding linked_signer_answer_form_def by (intro struct_laws form_laws) (simp_all)

definition isolated_position_form :: "wire_lib \<Rightarrow> isolated_position form" where
  "isolated_position_form lb = struct_form isolated_position.make
     (with_field ''subaccount'' (bytes32_form lb) ip_subaccount
     (with_field ''quote_balance'' spot_balance_form ip_quote_balance
     (with_field ''base_balance'' perp_balance_form ip_base_balance
     (with_field ''quote_product'' (engine_spot_form lb) ip_quote_product
     (with_field ''base_product'' perp_product_form ip_base_product
     (with_field ''quote_healths'' vec_i128_form ip_quote_healths
     (with_field ''base_healths'' vec_i128_form ip_base_healths
     (with_field ''healths'' (list_form health_info_form) ip_healths
     no_more))))))))"

lemma json_form_isolated_position [form_laws]: "wire_lib_ok lb \<Longrightarrow> json_form (isolated_position_form lb)"
  unfolding isolated_position_form_def by (intro struct_laws form_laws) (simp_all add: isolated_position.make_def)

definition isolated_positions_form :: "wire_lib \<Rightarrow> (isolated_position list) form" where
  "isolated_positions_form lb = struct_form (\<lambda>a. a)
     (with_field ''isolated_positions'' (list_form (isolated_position_form lb)) (\<lambda>a. a)
     no_more)"

lemma json_form_isolated_positions [form_laws]: "wire_lib_ok lb \<Longrightarrow> json_form (isolated_positions_form lb)"
  unfolding isolated_positions_form_def by (intro struct_laws form_laws) (simp_all)

subsection \<open>Prices and orders\<close>

definition market_price_form :: "market_price form" where
  "market_price_form = struct_form market_price.make
     (with_field ''product_id'' u32_form mp_product_id
     (with_field ''bid_x18'' i128_text mp_bid
     (with_field ''ask_x18'' i128_text mp_ask
     no_more)))"

lemma json_form_market_price [form_laws]: "json_form market_price_form"
  unfolding market_price_form_def by (intro struct_laws form_laws) (simp_all add: market_price.make_def)

definition market_prices_form :: "(market_price list) form" where
  "market_prices_form = struct_form (\<lambda>a. a)
     (with_field ''market_prices'' (list_form market_price_form) (\<lambda>a. a)
     no_more)"

lemma json_form_market_prices [form_laws]: "json_form market_prices_form"
  unfolding market_prices_form_def by (intro struct_laws form_laws) (simp_all)

definition order_response_form :: "wire_lib \<Rightarrow> order_response form" where
  "order_response_form lb = struct_form order_response.make
     (with_field ''product_id'' u32_form or_product_id
     (with_field ''sender'' (bytes32_form lb) or_sender
     (with_field ''price_x18'' i128_text or_price_x18
     (with_field ''amount'' i128_text or_amount
     (with_field ''expiration'' text_form or_expiration
     (with_field ''order_type'' text_form or_order_type
     (with_field ''nonce'' text_form or_nonce
     (with_field ''appendix'' u128_text or_appendix
     (with_field ''unfilled_amount'' i128_text or_unfilled_amount
     (with_field ''digest'' (bytes32_form lb) or_digest
     (with_field ''placed_at'' u64_form or_placed_at
     (with_skipped ''id'' u64_form or_id
     no_more))))))))))))"

lemma json_form_order_response [form_laws]: "wire_lib_ok lb \<Longrightarrow> json_form (order_response_form lb)"
  unfolding order_response_form_def by (intro struct_laws form_laws) (simp_all add: order_response.make_def)

definition validate_order_response_form :: "wire_lib \<Rightarrow> validate_order_response form" where
  "validate_order_response_form lb = struct_form validate_order_response.make
     (with_field ''product_id'' u32_form vo_product_id
     (with_field ''order'' (vec_u8_form lb) vo_order
     (with_field ''valid'' bool_form vo_valid
     no_more)))"

lemma json_form_validate_order_response [form_laws]: "wire_lib_ok lb \<Longrightarrow> json_form (validate_order_response_form lb)"
  unfolding validate_order_response_form_def by (intro struct_laws form_laws) (simp_all add: validate_order_response.make_def)

definition fee_rates_form :: "fee_rates form" where
  "fee_rates_form = struct_form fee_rates.make
     (with_field ''taker_fee_rates_x18'' vec_i128_form fe_taker_fee_rates
     (with_field ''maker_fee_rates_x18'' vec_i128_form fe_maker_fee_rates
     (with_field ''liquidation_sequencer_fee'' i128_text fe_liquidation_sequencer_fee
     (with_field ''health_check_sequencer_fee'' i128_text fe_health_check_sequencer_fee
     (with_field ''taker_sequencer_fee'' i128_text fe_taker_sequencer_fee
     (with_field ''withdraw_sequencer_fees'' vec_i128_form fe_withdraw_sequencer_fees
     (with_field ''fee_tier'' u32_form fe_fee_tier
     no_more)))))))"

lemma json_form_fee_rates [form_laws]: "json_form fee_rates_form"
  unfolding fee_rates_form_def by (intro struct_laws form_laws) (simp_all add: fee_rates.make_def)

definition subaccount_orders_form :: "wire_lib \<Rightarrow> subaccount_orders form" where
  "subaccount_orders_form lb = struct_form subaccount_orders.make
     (with_field ''sender'' (bytes32_form lb) so_sender
     (with_field ''product_id'' u32_form so_product_id
     (with_field ''orders'' (list_form (order_response_form lb)) so_orders
     no_more)))"

lemma json_form_subaccount_orders [form_laws]: "wire_lib_ok lb \<Longrightarrow> json_form (subaccount_orders_form lb)"
  unfolding subaccount_orders_form_def by (intro struct_laws form_laws) (simp_all add: subaccount_orders.make_def)

definition product_orders_form :: "wire_lib \<Rightarrow> product_orders form" where
  "product_orders_form lb = struct_form product_orders.make
     (with_field ''product_id'' u32_form ro_product_id
     (with_field ''orders'' (list_form (order_response_form lb)) ro_orders
     no_more))"

lemma json_form_product_orders [form_laws]: "wire_lib_ok lb \<Longrightarrow> json_form (product_orders_form lb)"
  unfolding product_orders_form_def by (intro struct_laws form_laws) (simp_all add: product_orders.make_def)

definition orders_response_form :: "wire_lib \<Rightarrow> orders_response form" where
  "orders_response_form lb = struct_form orders_response.make
     (with_field ''sender'' (bytes32_form lb) os_sender
     (with_field ''product_orders'' (list_form (product_orders_form lb)) os_product_orders
     no_more))"

lemma json_form_orders_response [form_laws]: "wire_lib_ok lb \<Longrightarrow> json_form (orders_response_form lb)"
  unfolding orders_response_form_def by (intro struct_laws form_laws) (simp_all add: orders_response.make_def)

definition max_order_size_form :: "i128 form" where
  "max_order_size_form = struct_form (\<lambda>a. a)
     (with_field ''max_order_size'' i128_text (\<lambda>a. a)
     no_more)"

lemma json_form_max_order_size [form_laws]: "json_form max_order_size_form"
  unfolding max_order_size_form_def by (intro struct_laws form_laws) (simp_all)

definition max_withdrawable_form :: "i128 form" where
  "max_withdrawable_form = struct_form (\<lambda>a. a)
     (with_field ''max_withdrawable'' i128_text (\<lambda>a. a)
     no_more)"

lemma json_form_max_withdrawable [form_laws]: "json_form max_withdrawable_form"
  unfolding max_withdrawable_form_def by (intro struct_laws form_laws) (simp_all)

definition max_nlp_mintable_form :: "i128 form" where
  "max_nlp_mintable_form = struct_form (\<lambda>a. a)
     (with_field ''max_quote_amount'' i128_text (\<lambda>a. a)
     no_more)"

lemma json_form_max_nlp_mintable [form_laws]: "json_form max_nlp_mintable_form"
  unfolding max_nlp_mintable_form_def by (intro struct_laws form_laws) (simp_all)

definition max_nlp_burnable_form :: "i128 form" where
  "max_nlp_burnable_form = struct_form (\<lambda>a. a)
     (with_field ''max_nlp_amount'' i128_text (\<lambda>a. a)
     no_more)"

lemma json_form_max_nlp_burnable [form_laws]: "json_form max_nlp_burnable_form"
  unfolding max_nlp_burnable_form_def by (intro struct_laws form_laws) (simp_all)

definition health_groups_form :: "((u32 \<times> u32) list) form" where
  "health_groups_form = struct_form (\<lambda>a. a)
     (with_field ''health_groups'' (list_form (pair_form u32_form)) (\<lambda>a. a)
     no_more)"

lemma json_form_health_groups [form_laws]: "json_form health_groups_form"
  unfolding health_groups_form_def by (intro struct_laws form_laws) (simp_all)

definition insurance_form :: "i128 form" where
  "insurance_form = struct_form (\<lambda>a. a)
     (with_field ''insurance'' i128_text (\<lambda>a. a)
     no_more)"

lemma json_form_insurance [form_laws]: "json_form insurance_form"
  unfolding insurance_form_def by (intro struct_laws form_laws) (simp_all)

text \<open>A price level is an array of its price and its size.\<close>

definition price_level_form :: "price_level form" where
  "price_level_form =
     \<lparr>fm_write = (\<lambda>p. fm_write (pair_form i128_text) (pl_price p, pl_size p)),
      fm_read = (\<lambda>v. map_option (\<lambda>(p, s). PriceLevel p s) (fm_read (pair_form i128_text) v)),
      fm_typed = (\<lambda>p. fm_typed (pair_form i128_text) (pl_price p, pl_size p))\<rparr>"

lemma json_form_price_level [form_laws]: "json_form price_level_form"
proof unfold_locales
  fix p assume "fm_typed price_level_form p"
  moreover have "json_form (pair_form i128_text)" by (rule form_laws)+
  ultimately show "fm_read price_level_form (fm_write price_level_form p) = Some p"
    by (simp add: price_level_form_def json_form.read_write)
qed

definition market_liquidity_form :: "market_liquidity form" where
  "market_liquidity_form = struct_form market_liquidity.make
     (with_field ''bids'' (list_form price_level_form) ml_bids
     (with_field ''asks'' (list_form price_level_form) ml_asks
     (with_field ''product_id'' u32_form ml_product_id
     (with_field ''timestamp'' u64_text ml_timestamp
     no_more))))"

lemma json_form_market_liquidity [form_laws]: "json_form market_liquidity_form"
  unfolding market_liquidity_form_def by (intro struct_laws form_laws) (simp_all add: market_liquidity.make_def)

subsection \<open>Symbols, status and pools\<close>

definition trading_status_form :: "trading_status form" where
  "trading_status_form =
     names_form show_trading_status [Ts_Live, Ts_PostOnly, Ts_NotTradable, Ts_ReduceOnly, Ts_SoftReduceOnly]"

fun engine_status_text :: "engine_status \<Rightarrow> string" where
  "engine_status_text Es_Started = ''started''"
| "engine_status_text Es_Active = ''active''"
| "engine_status_text Es_Stopping = ''stopping''"
| "engine_status_text Es_Syncing = ''syncing''"
| "engine_status_text Es_LiveSyncing = ''live_syncing''"
| "engine_status_text Es_Failed = ''failed''"

definition engine_status_form :: "engine_status form" where
  "engine_status_form =
     names_form engine_status_text [Es_Started, Es_Active, Es_Stopping, Es_Syncing, Es_LiveSyncing, Es_Failed]"

fun resp_status_text :: "resp_status \<Rightarrow> string" where
  "resp_status_text Rs_Success = ''success''"
| "resp_status_text Rs_Failure = ''failure''"

definition resp_status_form :: "resp_status form" where
  "resp_status_form = names_form resp_status_text [Rs_Success, Rs_Failure]"

lemma json_form_trading_status [form_laws]: "json_form trading_status_form"
  unfolding trading_status_form_def
proof (rule json_form_names)
  show "t \<in> set [Ts_Live, Ts_PostOnly, Ts_NotTradable, Ts_ReduceOnly, Ts_SoftReduceOnly]" for t by (cases t) simp_all
qed code_simp

lemma json_form_engine_status [form_laws]: "json_form engine_status_form"
  unfolding engine_status_form_def
proof (rule json_form_names)
  show "t \<in> set [Es_Started, Es_Active, Es_Stopping, Es_Syncing, Es_LiveSyncing, Es_Failed]" for t
    by (cases t) simp_all
qed code_simp

lemma json_form_resp_status [form_laws]: "json_form resp_status_form"
  unfolding resp_status_form_def
proof (rule json_form_names)
  show "t \<in> set [Rs_Success, Rs_Failure]" for t by (cases t) simp_all
qed code_simp

definition symbol_listing_form :: "symbol_listing form" where
  "symbol_listing_form = struct_form symbol_listing.make
     (with_field ''type'' text_form sl_product_type
     (with_field ''product_id'' u32_form sl_product_id
     (with_field ''symbol'' text_form sl_symbol
     (with_field ''price_increment_x18'' i128_text sl_price_increment
     (with_field ''size_increment'' i128_text sl_size_increment
     (with_field ''min_size'' i128_text sl_min_size
     (with_field ''maker_fee_rate_x18'' i128_text sl_maker_fee_rate
     (with_field ''taker_fee_rate_x18'' i128_text sl_taker_fee_rate
     (with_field ''long_weight_initial_x18'' i128_text sl_long_weight_initial
     (with_field ''long_weight_maintenance_x18'' i128_text sl_long_weight_maintenance
     (with_option ''max_open_interest_x18'' i128_text sl_max_open_interest
     (with_default ''trading_status'' trading_status_form Ts_Live sl_trading_status
     (with_default ''isolated_only'' bool_form False sl_isolated_only
     no_more)))))))))))))"

lemma json_form_symbol_listing [form_laws]: "json_form symbol_listing_form"
  unfolding symbol_listing_form_def by (intro struct_laws form_laws) (simp_all add: symbol_listing.make_def)

definition symbols_form :: "((string, symbol_listing) hashmap) form" where
  "symbols_form = struct_form (\<lambda>a. a)
     (with_field ''symbols'' (map_form text_key symbol_listing_form) (\<lambda>a. a)
     no_more)"

lemma json_form_symbols [form_laws]: "json_form symbols_form"
  unfolding symbols_form_def by (intro struct_laws form_laws) (simp_all)

definition nlp_pool_form :: "wire_lib \<Rightarrow> nlp_pool form" where
  "nlp_pool_form lb = struct_form nlp_pool.make
     (with_field ''pool_id'' u64_form np_pool_id
     (with_field ''subaccount'' (bytes32_form lb) np_subaccount
     (with_field ''owner'' (bytes20_form lb) np_owner
     (with_field ''balance_weight_x18'' u128_text np_balance_weight_x18
     (with_field ''subaccount_info'' (subaccount_info_form lb) np_subaccount_info
     (with_field ''open_orders'' (list_form (order_response_form lb)) np_open_orders
     no_more))))))"

lemma json_form_nlp_pool [form_laws]: "wire_lib_ok lb \<Longrightarrow> json_form (nlp_pool_form lb)"
  unfolding nlp_pool_form_def by (intro struct_laws form_laws) (simp_all add: nlp_pool.make_def)

definition nlp_pool_info_form :: "wire_lib \<Rightarrow> (nlp_pool list) form" where
  "nlp_pool_info_form lb = struct_form (\<lambda>a. a)
     (with_field ''nlp_pools'' (list_form (nlp_pool_form lb)) (\<lambda>a. a)
     no_more)"

lemma json_form_nlp_pool_info [form_laws]: "wire_lib_ok lb \<Longrightarrow> json_form (nlp_pool_info_form lb)"
  unfolding nlp_pool_info_form_def by (intro struct_laws form_laws) (simp_all)

definition nlp_locked_balance_form :: "nlp_locked_balance form" where
  "nlp_locked_balance_form = struct_form nlp_locked_balance.make
     (with_field ''balance'' spot_balance_form nl_balance
     (with_field ''unlocked_at'' u64_form nl_unlocked_at
     no_more))"

lemma json_form_nlp_locked_balance [form_laws]: "json_form nlp_locked_balance_form"
  unfolding nlp_locked_balance_form_def by (intro struct_laws form_laws) (simp_all add: nlp_locked_balance.make_def)

definition nlp_locked_balances_form :: "nlp_locked_balances form" where
  "nlp_locked_balances_form = struct_form nlp_locked_balances.make
     (with_field ''balance_locked'' spot_balance_form nb_balance_locked
     (with_field ''balance_unlocked'' spot_balance_form nb_balance_unlocked
     (with_field ''locked_balances'' (list_form nlp_locked_balance_form) nb_locked_balances
     no_more)))"

lemma json_form_nlp_locked_balances [form_laws]: "json_form nlp_locked_balances_form"
  unfolding nlp_locked_balances_form_def by (intro struct_laws form_laws) (simp_all add: nlp_locked_balances.make_def)

subsection \<open>Updates and market data\<close>

record trading_status_update =
  tsu_product_id :: u32
  tsu_trading_status :: trading_status

definition trading_status_update_form :: "trading_status_update form" where
  "trading_status_update_form = struct_form trading_status_update.make
     (with_field ''product_id'' u32_form tsu_product_id
     (with_field ''trading_status'' trading_status_form tsu_trading_status
     no_more))"

lemma json_form_trading_status_update [form_laws]: "json_form trading_status_update_form"
  unfolding trading_status_update_form_def by (intro struct_laws form_laws) (simp_all add: trading_status_update.make_def)

record oi_cap_update =
  ocu_product_id :: u32
  ocu_oi_cap_x18 :: i128

definition oi_cap_update_form :: "oi_cap_update form" where
  "oi_cap_update_form = struct_form oi_cap_update.make
     (with_field ''product_id'' u32_form ocu_product_id
     (with_field ''oi_cap_x18'' i128_text ocu_oi_cap_x18
     no_more))"

lemma json_form_oi_cap_update [form_laws]: "json_form oi_cap_update_form"
  unfolding oi_cap_update_form_def by (intro struct_laws form_laws) (simp_all add: oi_cap_update.make_def)

record nlp_slippage_update =
  nsu_product_id :: u32
  nsu_slippage_x18 :: i128

definition nlp_slippage_update_form :: "nlp_slippage_update form" where
  "nlp_slippage_update_form = struct_form nlp_slippage_update.make
     (with_field ''product_id'' u32_form nsu_product_id
     (with_field ''slippage_x18'' i128_text nsu_slippage_x18
     no_more))"

lemma json_form_nlp_slippage_update [form_laws]: "json_form nlp_slippage_update_form"
  unfolding nlp_slippage_update_form_def by (intro struct_laws form_laws) (simp_all add: nlp_slippage_update.make_def)

record isolated_only_update =
  iou_product_id :: u32
  iou_isolated_only :: bool

definition isolated_only_update_form :: "isolated_only_update form" where
  "isolated_only_update_form = struct_form isolated_only_update.make
     (with_field ''product_id'' u32_form iou_product_id
     (with_field ''isolated_only'' bool_form iou_isolated_only
     no_more))"

lemma json_form_isolated_only_update [form_laws]: "json_form isolated_only_update_form"
  unfolding isolated_only_update_form_def by (intro struct_laws form_laws) (simp_all add: isolated_only_update.make_def)

record nlp_liquidation_update =
  nlu_product_id :: u32
  nlu_is_nlp_liquidation :: bool

definition nlp_liquidation_update_form :: "nlp_liquidation_update form" where
  "nlp_liquidation_update_form = struct_form nlp_liquidation_update.make
     (with_field ''product_id'' u32_form nlu_product_id
     (with_field ''is_nlp_liquidation'' bool_form nlu_is_nlp_liquidation
     no_more))"

lemma json_form_nlp_liquidation_update [form_laws]: "json_form nlp_liquidation_update_form"
  unfolding nlp_liquidation_update_form_def by (intro struct_laws form_laws) (simp_all add: nlp_liquidation_update.make_def)

record orderbook_response =
  obr_product_id :: u32
  obr_ticker_id :: string
  obr_bids :: "(f64 \<times> f64) list"
  obr_asks :: "(f64 \<times> f64) list"
  obr_timestamp :: u64

definition orderbook_response_form :: "orderbook_response form" where
  "orderbook_response_form = struct_form orderbook_response.make
     (with_field ''product_id'' u32_form obr_product_id
     (with_field ''ticker_id'' text_form obr_ticker_id
     (with_field ''bids'' (list_form (pair_form f64_form)) obr_bids
     (with_field ''asks'' (list_form (pair_form f64_form)) obr_asks
     (with_field ''timestamp'' u64_form obr_timestamp
     no_more)))))"

lemma json_form_orderbook_response [form_laws]: "json_form orderbook_response_form"
  unfolding orderbook_response_form_def by (intro struct_laws form_laws) (simp_all add: orderbook_response.make_def)

record market_pair =
  mpr_product_id :: u32
  mpr_ticker_id :: string
  mpr_base :: string
  mpr_quote :: string

definition market_pair_form :: "market_pair form" where
  "market_pair_form = struct_form market_pair.make
     (with_field ''product_id'' u32_form mpr_product_id
     (with_field ''ticker_id'' text_form mpr_ticker_id
     (with_field ''base'' text_form mpr_base
     (with_field ''quote'' text_form mpr_quote
     no_more))))"

lemma json_form_market_pair [form_laws]: "json_form market_pair_form"
  unfolding market_pair_form_def by (intro struct_laws form_laws) (simp_all add: market_pair.make_def)

record market_apr =
  mapr_name :: string
  mapr_symbol :: string
  mapr_product_id :: u32
  mapr_deposit_apr :: f64
  mapr_borrow_apr :: f64
  mapr_tvl :: f64

definition market_apr_form :: "market_apr form" where
  "market_apr_form = struct_form market_apr.make
     (with_field ''name'' text_form mapr_name
     (with_field ''symbol'' text_form mapr_symbol
     (with_field ''product_id'' u32_form mapr_product_id
     (with_field ''deposit_apr'' f64_form mapr_deposit_apr
     (with_field ''borrow_apr'' f64_form mapr_borrow_apr
     (with_field ''tvl'' f64_form mapr_tvl
     no_more))))))"

lemma json_form_market_apr [form_laws]: "json_form market_apr_form"
  unfolding market_apr_form_def by (intro struct_laws form_laws) (simp_all add: market_apr.make_def)

record asset =
  ast_product_id :: u32
  ast_ticker_id :: "string option"
  ast_market_type :: "string option"
  ast_name :: string
  ast_symbol :: string
  ast_maker_fee :: "f64 option"
  ast_taker_fee :: "f64 option"
  ast_can_withdraw :: bool
  ast_can_deposit :: bool

definition asset_form :: "asset form" where
  "asset_form = struct_form asset.make
     (with_field ''product_id'' u32_form ast_product_id
     (with_option ''ticker_id'' text_form ast_ticker_id
     (with_option ''market_type'' text_form ast_market_type
     (with_field ''name'' text_form ast_name
     (with_field ''symbol'' text_form ast_symbol
     (with_option ''maker_fee'' f64_form ast_maker_fee
     (with_option ''taker_fee'' f64_form ast_taker_fee
     (with_field ''can_withdraw'' bool_form ast_can_withdraw
     (with_field ''can_deposit'' bool_form ast_can_deposit
     no_more)))))))))"

lemma json_form_asset [form_laws]: "json_form asset_form"
  unfolding asset_form_def by (intro struct_laws form_laws) (simp_all add: asset.make_def)

record artifact =
  art_bytecode :: string
  art_deployed_bytecode :: string

definition artifact_form :: "artifact form" where
  "artifact_form = struct_form artifact.make
     (with_field ''bytecode'' text_form art_bytecode
     (with_field ''deployedBytecode'' text_form art_deployed_bytecode
     no_more))"

lemma json_form_artifact [form_laws]: "json_form artifact_form"
  unfolding artifact_form_def by (intro struct_laws form_laws) (simp_all add: artifact.make_def)

subsection \<open>Answers to messages\<close>

definition placed_digest_form :: "wire_lib \<Rightarrow> bytes form" where
  "placed_digest_form lb = struct_form (\<lambda>a. a)
     (with_field ''digest'' (bytes32_form lb) (\<lambda>a. a)
     no_more)"

lemma json_form_placed_digest [form_laws]: "wire_lib_ok lb \<Longrightarrow> json_form (placed_digest_form lb)"
  unfolding placed_digest_form_def by (intro struct_laws form_laws) (simp_all)

definition cancelled_orders_form :: "wire_lib \<Rightarrow> (order_response list) form" where
  "cancelled_orders_form lb = struct_form (\<lambda>a. a)
     (with_field ''cancelled_orders'' (list_form (order_response_form lb)) (\<lambda>a. a)
     no_more)"

lemma json_form_cancelled_orders [form_laws]: "wire_lib_ok lb \<Longrightarrow> json_form (cancelled_orders_form lb)"
  unfolding cancelled_orders_form_def by (intro struct_laws form_laws) (simp_all)

definition placed_item_form :: "wire_lib \<Rightarrow> (bytes option \<times> string option) form" where
  "placed_item_form lb = struct_form Pair
     (with_field ''digest'' (option_form (bytes32_form lb)) fst
     (with_option ''error'' text_form snd
     no_more))"

lemma json_form_placed_item [form_laws]: "wire_lib_ok lb \<Longrightarrow> json_form (placed_item_form lb)"
  unfolding placed_item_form_def by (intro struct_laws form_laws) simp_all

text \<open>
  The data of an answer comes without a tag. Orders cancelled one by one and by product look the same, and the
  first is what is read. The reader is a parameter that the data must come back from.
\<close>

fun execute_data_json :: "wire_lib \<Rightarrow> execute_data \<Rightarrow> json" where
  "execute_data_json lb (Xd_PlaceOrder digest) = fm_write (placed_digest_form lb) digest"
| "execute_data_json lb (Xd_PlaceOrders items) = fm_write (list_form (placed_item_form lb)) items"
| "execute_data_json lb (Xd_CancelOrders orders) = fm_write (cancelled_orders_form lb) orders"
| "execute_data_json lb (Xd_CancelProductOrders orders) = fm_write (cancelled_orders_form lb) orders"

definition read_execute_data :: "wire_lib \<Rightarrow> json \<Rightarrow> execute_data option" where
  "read_execute_data lb v =
     opt_or (map_option Xd_PlaceOrder (fm_read (placed_digest_form lb) v))
     (opt_or (map_option Xd_PlaceOrders (fm_read (list_form (placed_item_form lb)) v))
     (opt_or (map_option Xd_CancelOrders (fm_read (cancelled_orders_form lb) v))
     (map_option Xd_CancelProductOrders (fm_read (cancelled_orders_form lb) v))))"

lemma product_orders_as_orders:
  assumes "wire_lib_ok lb" "fm_typed (cancelled_orders_form lb) orders"
  shows "read_execute_data lb (execute_data_json lb (Xd_CancelProductOrders orders)) = Some (Xd_CancelOrders orders)"
proof -
  have "fm_read (placed_digest_form lb) (fm_write (cancelled_orders_form lb) orders) = None"
    "fm_read (list_form (placed_item_form lb)) (fm_write (cancelled_orders_form lb) orders) = None"
    by (simp_all add: placed_digest_form_def cancelled_orders_form_def list_form_def struct_form_def with_field_def
        with_read_def field_def no_more_def)
  then show ?thesis
    using json_form.read_write [OF json_form_cancelled_orders [OF assms(1)] assms(2)]
    by (simp add: read_execute_data_def)
qed

definition execute_data_form :: "wire_lib \<Rightarrow> (json \<Rightarrow> execute_data option) \<Rightarrow> execute_data form" where
  "execute_data_form lb rd = plain_form (\<lambda>d. rd (execute_data_json lb d) = Some d) (execute_data_json lb) rd"

lemma execute_data_laws [form_laws]: "json_form (execute_data_form lb rd)" "never_null (execute_data_form lb rd)"
proof -
  show "json_form (execute_data_form lb rd)" unfolding execute_data_form_def by (rule json_form_plain)
  have "execute_data_json lb d \<noteq> JNull" for d
    by (cases d) (simp_all add: placed_digest_form_def cancelled_orders_form_def struct_form_def list_form_def enc_seq_def)
  then show "never_null (execute_data_form lb rd)" by (simp add: never_null_def execute_data_form_def plain_form_def)
qed

lemma never_null_i32 [form_laws]: "never_null i32_form"
  by (simp add: never_null_def i32_form_def plain_form_def ji64_def)

definition execute_response_form :: "wire_lib \<Rightarrow> (json \<Rightarrow> execute_data option) \<Rightarrow> execute_response form" where
  "execute_response_form lb rd = struct_form execute_response.make
     (with_field ''status'' resp_status_form xr_status
     (with_skipped ''signature'' (vec_u8_form lb) xr_signature
     (with_skipped ''id'' u64_form xr_id
     (with_skipped ''data'' (execute_data_form lb rd) xr_data
     (with_skipped ''error_code'' i32_form xr_error_code
     (with_skipped ''error'' text_form xr_error
     (with_skipped ''request_type'' text_form xr_request_type
     no_more)))))))"

lemma json_form_execute_response [form_laws]: "wire_lib_ok lb \<Longrightarrow> json_form (execute_response_form lb rd)"
  unfolding execute_response_form_def by (intro struct_laws form_laws) (simp_all add: execute_response.make_def)

definition api_response_form :: "'d form \<Rightarrow> 'd api_response form" where
  "api_response_form f = struct_form api_response.make
     (with_field ''status'' resp_status_form ar_status
     (with_skipped ''data'' f ar_data
     (with_skipped ''error_code'' i32_form ar_error_code
     (with_skipped ''error'' text_form ar_error
     (with_skipped ''request_type'' text_form ar_request_type
     no_more)))))"

lemma json_form_api_response [form_laws]: "json_form f \<Longrightarrow> never_null f \<Longrightarrow> json_form (api_response_form f)"
  unfolding api_response_form_def by (intro struct_laws form_laws) (simp_all add: api_response.make_def)

subsection \<open>Trigger orders\<close>

fun cancel_reason_text :: "cancel_reason \<Rightarrow> string" where
  "cancel_reason_text Cr_UserRequested = ''user_requested''"
| "cancel_reason_text Cr_LinkedSignerChanged = ''linked_signer_changed''"
| "cancel_reason_text Cr_Expired = ''expired''"
| "cancel_reason_text Cr_AccountHealth = ''account_health''"
| "cancel_reason_text Cr_IsolatedSubaccountClosed = ''isolated_subaccount_closed''"
| "cancel_reason_text Cr_DependentOrderCancelled = ''dependent_order_cancelled''"

definition cancel_reason_form :: "cancel_reason form" where
  "cancel_reason_form = names_form cancel_reason_text
     [Cr_UserRequested, Cr_LinkedSignerChanged, Cr_Expired, Cr_AccountHealth, Cr_IsolatedSubaccountClosed,
      Cr_DependentOrderCancelled]"

lemma json_form_cancel_reason [form_laws]: "json_form cancel_reason_form"
  unfolding cancel_reason_form_def
proof (rule json_form_names)
  show "r \<in> set [Cr_UserRequested, Cr_LinkedSignerChanged, Cr_Expired, Cr_AccountHealth, Cr_IsolatedSubaccountClosed,
      Cr_DependentOrderCancelled]" for r by (cases r) simp_all
qed code_simp

definition trigger_order_status_twap_executing_body :: "(u32 \<times> u32) form" where
  "trigger_order_status_twap_executing_body = struct_form (\<lambda>a b. (a, b))
     (with_field ''current_execution'' u32_form (\<lambda>(a, b). a)
     (with_field ''total_executions'' u32_form (\<lambda>(a, b). b)
     no_more))"

lemma json_form_trigger_order_status_twap_executing [form_laws]: "json_form trigger_order_status_twap_executing_body"
  unfolding trigger_order_status_twap_executing_body_def by (intro struct_laws form_laws) (simp_all add: case_prod_beta)

definition trigger_order_status_twap_completed_body :: "(u32 \<times> u32) form" where
  "trigger_order_status_twap_completed_body = struct_form (\<lambda>a b. (a, b))
     (with_field ''executed'' u32_form (\<lambda>(a, b). a)
     (with_field ''total'' u32_form (\<lambda>(a, b). b)
     no_more))"

lemma json_form_trigger_order_status_twap_completed [form_laws]: "json_form trigger_order_status_twap_completed_body"
  unfolding trigger_order_status_twap_completed_body_def by (intro struct_laws form_laws) (simp_all add: case_prod_beta)

definition trigger_order_status_variants :: "wire_lib \<Rightarrow> (json \<Rightarrow> execute_data option) \<Rightarrow> (string \<times> (json option \<Rightarrow> trigger_order_status option)) list" where
  "trigger_order_status_variants lb rd =
     [(''cancelled'', newtype_variant cancel_reason_form To_Cancelled),
      (''triggered'', newtype_variant (execute_response_form lb rd) To_Triggered),
      (''internal_error'', newtype_variant text_form To_InternalError),
      (''triggering'', unit_value To_Triggering),
      (''waiting_price'', unit_value To_WaitingPrice),
      (''waiting_dependency'', unit_value To_WaitingDependency),
      (''twap_executing'', newtype_variant trigger_order_status_twap_executing_body (\<lambda>(a, b). To_TwapExecuting a b)),
      (''twap_completed'', newtype_variant trigger_order_status_twap_completed_body (\<lambda>(a, b). To_TwapCompleted a b))]"

definition trigger_order_status_form :: "wire_lib \<Rightarrow> (json \<Rightarrow> execute_data option) \<Rightarrow> trigger_order_status form" where
  "trigger_order_status_form lb rd =
     \<lparr>fm_write = (\<lambda>e. case e of
           To_Cancelled a \<Rightarrow> tagged ''cancelled'' cancel_reason_form a
         | To_Triggered a \<Rightarrow> tagged ''triggered'' (execute_response_form lb rd) a
         | To_InternalError a \<Rightarrow> tagged ''internal_error'' text_form a
         | To_Triggering \<Rightarrow> JString ''triggering''
         | To_WaitingPrice \<Rightarrow> JString ''waiting_price''
         | To_WaitingDependency \<Rightarrow> JString ''waiting_dependency''
         | To_TwapExecuting a b \<Rightarrow> tagged ''twap_executing'' trigger_order_status_twap_executing_body (a, b)
         | To_TwapCompleted a b \<Rightarrow> tagged ''twap_completed'' trigger_order_status_twap_completed_body (a, b)),
      fm_read = enum_read (trigger_order_status_variants lb rd),
      fm_typed = (\<lambda>e. case e of
           To_Cancelled a \<Rightarrow> fm_typed cancel_reason_form a
         | To_Triggered a \<Rightarrow> fm_typed (execute_response_form lb rd) a
         | To_InternalError a \<Rightarrow> fm_typed text_form a
         | To_Triggering \<Rightarrow> True
         | To_WaitingPrice \<Rightarrow> True
         | To_WaitingDependency \<Rightarrow> True
         | To_TwapExecuting a b \<Rightarrow> fm_typed trigger_order_status_twap_executing_body (a, b)
         | To_TwapCompleted a b \<Rightarrow> fm_typed trigger_order_status_twap_completed_body (a, b))\<rparr>"

lemma trigger_order_status_tags: "distinct (map fst (trigger_order_status_variants lb rd))"
  unfolding trigger_order_status_variants_def list.map fst_conv by code_simp

lemma trigger_order_status_read_write:
  "wire_lib_ok lb \<Longrightarrow> fm_typed (trigger_order_status_form lb rd) e \<Longrightarrow>
   fm_read (trigger_order_status_form lb rd) (fm_write (trigger_order_status_form lb rd) e) = Some e"
  apply (cases e; simp only: trigger_order_status_form_def form.simps trigger_order_status.case)
  apply (rule enum_read_member [OF trigger_order_status_tags], simp only: trigger_order_status_variants_def list.set,
      (rule insertI1 | rule insertI2)+, simp only: newtype_variant_written form_laws enum_read_unit prod.case)+
  done

lemma json_form_trigger_order_status [form_laws]: "wire_lib_ok lb \<Longrightarrow> json_form (trigger_order_status_form lb rd)"
  by unfold_locales (rule trigger_order_status_read_write)

definition twap_status_executed_body :: "wire_lib \<Rightarrow> (json \<Rightarrow> execute_data option) \<Rightarrow> (i64 \<times> execute_response) form" where
  "twap_status_executed_body lb rd = struct_form (\<lambda>a b. (a, b))
     (with_field ''executed_time'' i64_form (\<lambda>(a, b). a)
     (with_field ''execute_response'' (execute_response_form lb rd) (\<lambda>(a, b). b)
     no_more))"

lemma json_form_twap_status_executed [form_laws]: "wire_lib_ok lb \<Longrightarrow> json_form (twap_status_executed_body lb rd)"
  unfolding twap_status_executed_body_def by (intro struct_laws form_laws) (simp_all add: case_prod_beta)

definition twap_status_variants :: "wire_lib \<Rightarrow> (json \<Rightarrow> execute_data option) \<Rightarrow> (string \<times> (json option \<Rightarrow> twap_status option)) list" where
  "twap_status_variants lb rd =
     [(''pending'', unit_value Tw_Pending),
      (''executing'', unit_value Tw_Executing),
      (''executed'', newtype_variant (twap_status_executed_body lb rd) (\<lambda>(a, b). Tw_Executed a b)),
      (''failed'', newtype_variant text_form Tw_Failed),
      (''cancelled'', newtype_variant cancel_reason_form Tw_Cancelled)]"

definition twap_status_form :: "wire_lib \<Rightarrow> (json \<Rightarrow> execute_data option) \<Rightarrow> twap_status form" where
  "twap_status_form lb rd =
     \<lparr>fm_write = (\<lambda>e. case e of
           Tw_Pending \<Rightarrow> JString ''pending''
         | Tw_Executing \<Rightarrow> JString ''executing''
         | Tw_Executed a b \<Rightarrow> tagged ''executed'' (twap_status_executed_body lb rd) (a, b)
         | Tw_Failed a \<Rightarrow> tagged ''failed'' text_form a
         | Tw_Cancelled a \<Rightarrow> tagged ''cancelled'' cancel_reason_form a),
      fm_read = enum_read (twap_status_variants lb rd),
      fm_typed = (\<lambda>e. case e of
           Tw_Pending \<Rightarrow> True
         | Tw_Executing \<Rightarrow> True
         | Tw_Executed a b \<Rightarrow> fm_typed (twap_status_executed_body lb rd) (a, b)
         | Tw_Failed a \<Rightarrow> fm_typed text_form a
         | Tw_Cancelled a \<Rightarrow> fm_typed cancel_reason_form a)\<rparr>"

lemma twap_status_tags: "distinct (map fst (twap_status_variants lb rd))"
  unfolding twap_status_variants_def list.map fst_conv by code_simp

lemma twap_status_read_write:
  "wire_lib_ok lb \<Longrightarrow> fm_typed (twap_status_form lb rd) e \<Longrightarrow>
   fm_read (twap_status_form lb rd) (fm_write (twap_status_form lb rd) e) = Some e"
  apply (cases e; simp only: twap_status_form_def form.simps twap_status.case)
  apply (rule enum_read_member [OF twap_status_tags], simp only: twap_status_variants_def list.set,
      (rule insertI1 | rule insertI2)+, simp only: newtype_variant_written form_laws enum_read_unit prod.case)+
  done

lemma json_form_twap_status [form_laws]: "wire_lib_ok lb \<Longrightarrow> json_form (twap_status_form lb rd)"
  by unfold_locales (rule twap_status_read_write)

definition trigger_order_info_form :: "wire_lib \<Rightarrow> (json \<Rightarrow> execute_data option) \<Rightarrow> trigger_order_info form" where
  "trigger_order_info_form lb rd = struct_form trigger_order_info.make
     (with_field ''order'' (place_trigger_order_form lb) ti_order
     (with_field ''status'' (trigger_order_status_form lb rd) ti_status
     (with_field ''placed_at'' u64_form ti_placed_at
     (with_field ''updated_at'' u64_form ti_updated_at
     no_more))))"

definition twap_execution_form :: "wire_lib \<Rightarrow> (json \<Rightarrow> execute_data option) \<Rightarrow> twap_execution form" where
  "twap_execution_form lb rd = struct_form twap_execution.make
     (with_field ''execution_id'' u32_form te_execution_id
     (with_field ''scheduled_time'' i64_form te_scheduled_time
     (with_field ''status'' (twap_status_form lb rd) te_status
     (with_field ''updated_at'' i64_form te_updated_at
     no_more))))"

definition trigger_listing_form :: "wire_lib \<Rightarrow> (json \<Rightarrow> execute_data option) \<Rightarrow> trigger_order_info list form" where
  "trigger_listing_form lb rd = struct_form (\<lambda>a. a)
     (with_field ''orders'' (list_form (trigger_order_info_form lb rd)) (\<lambda>a. a) no_more)"

definition twap_listing_form :: "wire_lib \<Rightarrow> (json \<Rightarrow> execute_data option) \<Rightarrow> twap_execution list form" where
  "twap_listing_form lb rd = struct_form (\<lambda>a. a)
     (with_field ''executions'' (list_form (twap_execution_form lb rd)) (\<lambda>a. a) no_more)"

lemma json_form_trigger_order_info [form_laws]: "wire_lib_ok lb \<Longrightarrow> json_form (trigger_order_info_form lb rd)"
  unfolding trigger_order_info_form_def by (intro struct_laws form_laws) (simp_all add: trigger_order_info.make_def)

lemma json_form_twap_execution [form_laws]: "wire_lib_ok lb \<Longrightarrow> json_form (twap_execution_form lb rd)"
  unfolding twap_execution_form_def by (intro struct_laws form_laws) (simp_all add: twap_execution.make_def)

lemma json_form_listings [form_laws]:
  "wire_lib_ok lb \<Longrightarrow> json_form (trigger_listing_form lb rd)" "wire_lib_ok lb \<Longrightarrow> json_form (twap_listing_form lb rd)"
  unfolding trigger_listing_form_def twap_listing_form_def by ((intro struct_laws form_laws)?; simp)+

subsection \<open>Answers to queries\<close>

text \<open>The kinds of an answer that are objects, in their order, with their readers.\<close>

definition kind_reader :: "('a \<Rightarrow> query_data) \<Rightarrow> 'a form \<Rightarrow> json \<Rightarrow> query_data option" where
  "kind_reader mk f v = map_option mk (fm_read f v)"

definition object_readers :: "wire_lib \<Rightarrow> (string \<times> (json \<Rightarrow> query_data option)) list" where
  "object_readers lb =
     [(''Contracts'', kind_reader Qd_Contracts (contracts_info_form lb)),
      (''FeeRates'', kind_reader Qd_FeeRates fee_rates_form),
      (''Nonces'', kind_reader Qd_Nonces nonces_response_form),
      (''LinkedSigner'', kind_reader Qd_LinkedSigner (linked_signer_answer_form lb)),
      (''SubaccountInfo'', kind_reader Qd_SubaccountInfo (subaccount_info_form lb)),
      (''MarketPrice'', kind_reader Qd_MarketPrice market_price_form),
      (''MarketPrices'', kind_reader Qd_MarketPrices market_prices_form),
      (''Order'', kind_reader Qd_Order (order_response_form lb)),
      (''Orders'', kind_reader Qd_Orders (orders_response_form lb)),
      (''ValidateOrder'', kind_reader Qd_ValidateOrder (validate_order_response_form lb)),
      (''SubaccountOrders'', kind_reader Qd_SubaccountOrders (subaccount_orders_form lb)),
      (''MarketLiquidity'', kind_reader Qd_MarketLiquidity market_liquidity_form),
      (''AllProducts'', kind_reader Qd_AllProducts (all_products_form lb)),
      (''EdgeAllProducts'', kind_reader Qd_EdgeAllProducts (edge_products_form lb)),
      (''MaxOrderSize'', kind_reader Qd_MaxOrderSize max_order_size_form),
      (''MaxWithdrawable'', kind_reader Qd_MaxWithdrawable max_withdrawable_form),
      (''MaxNlpMintable'', kind_reader Qd_MaxNlpMintable max_nlp_mintable_form),
      (''MaxNlpBurnable'', kind_reader Qd_MaxNlpBurnable max_nlp_burnable_form),
      (''HealthGroups'', kind_reader Qd_HealthGroups health_groups_form),
      (''Insurance'', kind_reader Qd_Insurance insurance_form),
      (''Symbols'', kind_reader Qd_Symbols symbols_form),
      (''IsolatedPositions'', kind_reader Qd_IsolatedPositions (isolated_positions_form lb)),
      (''NlpPoolInfo'', kind_reader Qd_NlpPoolInfo (nlp_pool_info_form lb)),
      (''NlpLockedBalances'', kind_reader Qd_NlpLockedBalances nlp_locked_balances_form)]"

definition engine_readers :: "wire_lib \<Rightarrow> (string \<times> (json \<Rightarrow> query_data option)) list" where
  "engine_readers lb =
     (''StatusResponse'', kind_reader Qd_StatusResponse engine_status_form) # object_readers lb @
     [(''Error'', kind_reader Qd_Error text_form)]"

fun answer_kind :: "query_data \<Rightarrow> string" where
  "answer_kind (Qd_StatusResponse a) = ''StatusResponse''"
| "answer_kind (Qd_Contracts a) = ''Contracts''"
| "answer_kind (Qd_FeeRates a) = ''FeeRates''"
| "answer_kind (Qd_Nonces a) = ''Nonces''"
| "answer_kind (Qd_LinkedSigner a) = ''LinkedSigner''"
| "answer_kind (Qd_SubaccountInfo a) = ''SubaccountInfo''"
| "answer_kind (Qd_MarketPrice a) = ''MarketPrice''"
| "answer_kind (Qd_MarketPrices a) = ''MarketPrices''"
| "answer_kind (Qd_Order a) = ''Order''"
| "answer_kind (Qd_Orders a) = ''Orders''"
| "answer_kind (Qd_ValidateOrder a) = ''ValidateOrder''"
| "answer_kind (Qd_SubaccountOrders a) = ''SubaccountOrders''"
| "answer_kind (Qd_MarketLiquidity a) = ''MarketLiquidity''"
| "answer_kind (Qd_AllProducts a) = ''AllProducts''"
| "answer_kind (Qd_EdgeAllProducts a) = ''EdgeAllProducts''"
| "answer_kind (Qd_MaxOrderSize a) = ''MaxOrderSize''"
| "answer_kind (Qd_MaxWithdrawable a) = ''MaxWithdrawable''"
| "answer_kind (Qd_MaxNlpMintable a) = ''MaxNlpMintable''"
| "answer_kind (Qd_MaxNlpBurnable a) = ''MaxNlpBurnable''"
| "answer_kind (Qd_HealthGroups a) = ''HealthGroups''"
| "answer_kind (Qd_Insurance a) = ''Insurance''"
| "answer_kind (Qd_Symbols a) = ''Symbols''"
| "answer_kind (Qd_IsolatedPositions a) = ''IsolatedPositions''"
| "answer_kind (Qd_NlpPoolInfo a) = ''NlpPoolInfo''"
| "answer_kind (Qd_NlpLockedBalances a) = ''NlpLockedBalances''"
| "answer_kind (Qd_Error a) = ''Error''"

fun answer_json :: "wire_lib \<Rightarrow> query_data \<Rightarrow> json" where
  "answer_json lb (Qd_StatusResponse a) = fm_write engine_status_form a"
| "answer_json lb (Qd_Contracts a) = fm_write (contracts_info_form lb) a"
| "answer_json lb (Qd_FeeRates a) = fm_write fee_rates_form a"
| "answer_json lb (Qd_Nonces a) = fm_write nonces_response_form a"
| "answer_json lb (Qd_LinkedSigner a) = fm_write (linked_signer_answer_form lb) a"
| "answer_json lb (Qd_SubaccountInfo a) = fm_write (subaccount_info_form lb) a"
| "answer_json lb (Qd_MarketPrice a) = fm_write market_price_form a"
| "answer_json lb (Qd_MarketPrices a) = fm_write market_prices_form a"
| "answer_json lb (Qd_Order a) = fm_write (order_response_form lb) a"
| "answer_json lb (Qd_Orders a) = fm_write (orders_response_form lb) a"
| "answer_json lb (Qd_ValidateOrder a) = fm_write (validate_order_response_form lb) a"
| "answer_json lb (Qd_SubaccountOrders a) = fm_write (subaccount_orders_form lb) a"
| "answer_json lb (Qd_MarketLiquidity a) = fm_write market_liquidity_form a"
| "answer_json lb (Qd_AllProducts a) = fm_write (all_products_form lb) a"
| "answer_json lb (Qd_EdgeAllProducts a) = fm_write (edge_products_form lb) a"
| "answer_json lb (Qd_MaxOrderSize a) = fm_write max_order_size_form a"
| "answer_json lb (Qd_MaxWithdrawable a) = fm_write max_withdrawable_form a"
| "answer_json lb (Qd_MaxNlpMintable a) = fm_write max_nlp_mintable_form a"
| "answer_json lb (Qd_MaxNlpBurnable a) = fm_write max_nlp_burnable_form a"
| "answer_json lb (Qd_HealthGroups a) = fm_write health_groups_form a"
| "answer_json lb (Qd_Insurance a) = fm_write insurance_form a"
| "answer_json lb (Qd_Symbols a) = fm_write symbols_form a"
| "answer_json lb (Qd_IsolatedPositions a) = fm_write (isolated_positions_form lb) a"
| "answer_json lb (Qd_NlpPoolInfo a) = fm_write (nlp_pool_info_form lb) a"
| "answer_json lb (Qd_NlpLockedBalances a) = fm_write nlp_locked_balances_form a"
| "answer_json lb (Qd_Error a) = JString a"

text \<open>The table of fields by which the kinds are told apart is the one of the structs.\<close>

lemmas answer_forms_defs = all_products_form_def contracts_info_form_def edge_products_form_def fee_rates_form_def health_groups_form_def insurance_form_def isolated_positions_form_def linked_signer_answer_form_def market_liquidity_form_def market_price_form_def market_prices_form_def max_nlp_burnable_form_def max_nlp_mintable_form_def max_order_size_form_def max_withdrawable_form_def nlp_locked_balances_form_def nlp_pool_info_form_def nonces_response_form_def order_response_form_def orders_response_form_def subaccount_info_form_def subaccount_orders_form_def symbols_form_def validate_order_response_form_def

lemma kind_requires:
  "requires fs ns \<Longrightarrow> kind_reader mk (struct_form k fs) (JObject obj) \<noteq> None \<Longrightarrow> set ns \<subseteq> fst ` set obj"
  using struct_requires [of fs ns k obj] by (auto simp: kind_reader_def)

definition reader_needs :: "string \<times> string list \<times> string list \<Rightarrow> string \<times> (json \<Rightarrow> query_data option) \<Rightarrow> bool" where
  "reader_needs = (\<lambda>(k, needed, extra) (k', rd).
     k = k' \<and> (\<forall>obj. rd (JObject obj) \<noteq> None \<longrightarrow> set needed \<subseteq> fst ` set obj))"

lemma reader_needs_kind:
  "requires fs ns \<Longrightarrow> reader_needs (k, ns, extra) (k, kind_reader mk (struct_form c fs))"
  unfolding reader_needs_def prod.case by (intro conjI refl allI impI kind_requires)

lemma object_readers_need: "list_all2 reader_needs answer_fields (object_readers lb)"
  unfolding answer_fields_def object_readers_def answer_forms_defs
  by (intro list_all2_Cons [THEN iffD2] conjI list_all2_Nil [THEN iffD2] reader_needs_kind requires_field requires_laws)
    (rule refl)

lemma object_written:
  "written_names fs \<Longrightarrow> set (sf_names fs) \<subseteq> A \<Longrightarrow>
   \<exists>obj. fm_write (struct_form mk fs) r = JObject obj \<and> fst ` set obj \<subseteq> A"
  using struct_writes [of fs mk r] by (auto simp: struct_form_def)

lemma answer_object_found:
  assumes "(answer_kind d, needed, extra) \<in> set answer_fields" "answer_json lb d = fm_write (struct_form mk fs) r"
    "written_names fs" "set (sf_names fs) \<subseteq> set needed \<union> set extra"
  shows "\<exists>needed extra obj. (answer_kind d, needed, extra) \<in> set answer_fields \<and> answer_json lb d = JObject obj \<and>
    fst ` set obj \<subseteq> set needed \<union> set extra"
  using assms(1,2) object_written [OF assms(3,4), of mk r] by metis

lemma answer_object:
  assumes "answer_kind d \<notin> {''StatusResponse'', ''Error''}"
  shows "\<exists>needed extra obj. (answer_kind d, needed, extra) \<in> set answer_fields \<and> answer_json lb d = JObject obj \<and>
    fst ` set obj \<subseteq> set needed \<union> set extra"
  by (insert assms, cases d;
      (rule answer_object_found, simp only: answer_kind.simps answer_fields_def list.set, (rule insertI1 | rule insertI2)+,
       simp only: answer_json.simps answer_forms_defs, (rule written_names_laws)+, simp)?) simp_all

text \<open>
  Reading an answer goes through the kinds with readers that may see less than the value has, but never another
  value.
\<close>

definition sees_no_other :: "wire_lib \<Rightarrow> (string \<Rightarrow> json \<Rightarrow> query_data option) \<Rightarrow> bool" where
  "sees_no_other lb buffered \<longleftrightarrow>
     (\<forall>(k, rd) \<in> set (engine_readers lb). \<forall>v a. buffered k v = Some a \<longrightarrow> rd v = Some a)"

lemma kind_has_reader:
  assumes "(k, needed, extra) \<in> set answer_fields"
  shows "\<exists>rd. (k, rd) \<in> set (object_readers lb) \<and> (\<forall>obj. rd (JObject obj) \<noteq> None \<longrightarrow> set needed \<subseteq> fst ` set obj)"
proof -
  obtain i where i: "i < length answer_fields" "answer_fields ! i = (k, needed, extra)"
    using assms by (metis in_set_conv_nth)
  obtain k' rd where rd: "object_readers lb ! i = (k', rd)" by (metis surj_pair)
  have "reader_needs (k, needed, extra) (k', rd)" and "i < length (object_readers lb)"
    using object_readers_need [of lb] i rd by (auto simp: list_all2_conv_all_nth)
  moreover from this(2) have "(k', rd) \<in> set (object_readers lb)" using rd by (metis nth_mem)
  ultimately show ?thesis by (auto simp: reader_needs_def)
qed

lemma sees_no_otherD:
  "sees_no_other lb buffered \<Longrightarrow> (k, rd) \<in> set (object_readers lb) \<Longrightarrow> rd v = None \<Longrightarrow> buffered k v = None"
  unfolding sees_no_other_def engine_readers_def by (cases "buffered k v") auto

lemma buffered_needs:
  assumes sound: "sees_no_other lb buffered" and kind: "(k, needed, extra) \<in> set answer_fields"
    and read: "buffered k (JObject obj) \<noteq> None"
  shows "set needed \<subseteq> fst ` set obj"
  using kind_has_reader [OF kind, of lb] sees_no_otherD [OF sound] read by metis

lemma object_readers_text: "(k, rd) \<in> set (object_readers lb) \<Longrightarrow> rd (JString e) = None"
  unfolding object_readers_def answer_forms_defs
  by (auto simp: kind_reader_def struct_form_def struct_fields_def)

definition status_names :: "string list" where
  "status_names = map engine_status_text [Es_Started, Es_Active, Es_Stopping, Es_Syncing, Es_LiveSyncing, Es_Failed]"

lemma status_found: "buffered ''StatusResponse'' v = Some d \<Longrightarrow> read_answer buffered v = Some d"
  using untagged_first [of buffered "''StatusResponse''" v d "[]"] by (simp add: read_answer_def answer_kinds_def)

lemma error_found:
  assumes sound: "sees_no_other lb buffered" and own: "buffered ''Error'' (JString e) = Some d"
    and apart: "e \<notin> set status_names"
  shows "read_answer buffered (JString e) = Some d"
proof -
  have "kind_reader Qd_StatusResponse engine_status_form (JString e) = None"
    using apart by (auto simp: kind_reader_def engine_status_form_def names_form_def status_names_def)
  then have "buffered ''StatusResponse'' (JString e) = None"
    using sound unfolding sees_no_other_def engine_readers_def by (cases "buffered ''StatusResponse'' (JString e)") auto
  moreover have "buffered k (JString e) = None" if "k \<in> fst ` set answer_fields" for k
  proof -
    from that obtain f where "f \<in> set answer_fields" "k = fst f" by (rule imageE)
    then have "(k, fst (snd f), snd (snd f)) \<in> set answer_fields" by simp
    from kind_has_reader [OF this, of lb] show ?thesis
      using sees_no_otherD [OF sound] object_readers_text by metis
  qed
  ultimately have "\<forall>k' \<in> set (''StatusResponse'' # map fst answer_fields). buffered k' (JString e) = None" by simp
  with untagged_first [of buffered "''Error''" "JString e" d "''StatusResponse'' # map fst answer_fields" "[]"] own
  show ?thesis by (simp add: read_answer_def answer_kinds_def)
qed

text \<open>An object with the name of a status as its only key would be a status, but no answer has such a key.\<close>

lemma status_reads: "fm_read engine_status_form (JObject obj) = Some s \<Longrightarrow> \<exists>n \<in> set status_names. n \<in> fst ` set obj"
proof -
  assume "fm_read engine_status_form (JObject obj) = Some s"
  then obtain n w where "obj = [(n, w)]" and
      "map_of (map (\<lambda>a. (engine_status_text a, unit_value a))
        [Es_Started, Es_Active, Es_Stopping, Es_Syncing, Es_LiveSyncing, Es_Failed]) n \<noteq> None"
    unfolding engine_status_form_def names_form_def enum_read_def enum_tag_def
    by (auto simp: bind_eq_Some_conv split: list.splits prod.splits simp del: list.map)
  then show ?thesis
    by (auto simp: status_names_def map_of_eq_None_iff simp del: list.map)
qed

lemma status_names_apart:
  "(k, needed, extra) \<in> set answer_fields \<Longrightarrow> set status_names \<inter> (set needed \<union> set extra) = {}"
proof -
  have "list_all (\<lambda>(k, needed, extra). list_all (\<lambda>n. n \<notin> set needed \<and> n \<notin> set extra) status_names) answer_fields"
    by code_simp
  then show "(k, needed, extra) \<in> set answer_fields \<Longrightarrow> ?thesis" by (auto simp: list_all_iff)
qed

lemma status_not_answer:
  assumes sound: "sees_no_other lb buffered" and kind: "(k, needed, extra) \<in> set answer_fields"
    and keys: "fst ` set obj \<subseteq> set needed \<union> set extra"
  shows "buffered ''StatusResponse'' (JObject obj) = None"
proof (rule ccontr)
  assume "buffered ''StatusResponse'' (JObject obj) \<noteq> None"
  then obtain a where "buffered ''StatusResponse'' (JObject obj) = Some a" by blast
  then have "kind_reader Qd_StatusResponse engine_status_form (JObject obj) = Some a"
    using sound unfolding sees_no_other_def engine_readers_def by simp
  then obtain s where "fm_read engine_status_form (JObject obj) = Some s" by (auto simp: kind_reader_def)
  then show False using status_reads [of obj s] status_names_apart [OF kind] keys by blast
qed

text \<open>C37: the engine's answers. An answer of any kind that is written by the engine and can be read as its own kind is
  found among all the kinds as what it is: no kind that is tried before takes it for one of its own. An answer that
  is a plain text is found when it is not the name of a status.\<close>

theorem engine_answers_found:
  assumes sound: "sees_no_other lb buffered"
    and own: "buffered (answer_kind d) (answer_json lb d) = Some d"
    and texts: "case d of Qd_Error e \<Rightarrow> e \<notin> set status_names | _ \<Rightarrow> True"
  shows "read_answer buffered (answer_json lb d) = Some d"
proof (cases "answer_kind d \<in> {''StatusResponse'', ''Error''}")
  case False
  then obtain needed extra obj where kind: "(answer_kind d, needed, extra) \<in> set answer_fields"
      and json: "answer_json lb d = JObject obj" and keys: "fst ` set obj \<subseteq> set needed \<union> set extra"
    using answer_object [of d lb] by blast
  have own': "buffered (answer_kind d) (JObject obj) = Some d" using own by (simp add: json)
  have "set needed \<subseteq> fst ` set obj" by (rule buffered_needs [OF sound kind]) (simp add: own')
  then show ?thesis
    unfolding json using buffered_needs [OF sound] status_not_answer [OF sound kind keys] kind keys own'
    by (intro answer_found) blast+
next
  case True
  then show ?thesis
  proof (cases d)
    case (Qd_Error e)
    then show ?thesis using sound own texts error_found by simp
  qed (use own status_found in auto)
qed

text \<open>Readers over the values themselves meet what is relied on.\<close>

definition engine_reader :: "wire_lib \<Rightarrow> string \<Rightarrow> json \<Rightarrow> query_data option" where
  "engine_reader lb k v = Option.bind (map_of (engine_readers lb) k) (\<lambda>rd. rd v)"

lemma engine_reader_sound: "sees_no_other lb (engine_reader lb)"
proof -
  have "distinct (map fst (engine_readers lb))"
    unfolding engine_readers_def object_readers_def list.map map_append append.simps fst_conv by code_simp
  then have "map_of (engine_readers lb) k = Some rd" if "(k, rd) \<in> set (engine_readers lb)" for k rd
    using that by (rule map_of_is_SomeI)
  then show ?thesis by (auto simp: sees_no_other_def engine_reader_def)
qed

theorem engine_answers_found_witness:
  "read_answer (engine_reader demo_lib) (answer_json demo_lib (Qd_Nonces \<lparr>no_tx_nonce = 5, no_order_nonce = 6\<rparr>)) =
     Some (Qd_Nonces \<lparr>no_tx_nonce = 5, no_order_nonce = 6\<rparr>)"
proof (rule engine_answers_found [OF engine_reader_sound])
  let ?n = "\<lparr>no_tx_nonce = 5, no_order_nonce = 6\<rparr> :: nonces_response"
  have "fm_read nonces_response_form (fm_write nonces_response_form ?n) = Some ?n"
    by (rule json_form.read_write [OF json_form_nonces_response])
      (simp add: nonces_response_form_def struct_form_def with_field_def with_read_def no_more_def primitive_defs)
  then show "engine_reader demo_lib (answer_kind (Qd_Nonces ?n)) (answer_json demo_lib (Qd_Nonces ?n)) = Some (Qd_Nonces ?n)"
    by (simp add: engine_reader_def engine_readers_def object_readers_def kind_reader_def)
qed simp

subsection \<open>Answers of the trigger service\<close>

definition trigger_data_json :: "wire_lib \<Rightarrow> (json \<Rightarrow> execute_data option) \<Rightarrow> trigger_data \<Rightarrow> json" where
  "trigger_data_json lb rd d = (case d of
      Td_ListTriggerOrders os \<Rightarrow> fm_write (trigger_listing_form lb rd) os
    | Td_ListTwapExecutions es \<Rightarrow> fm_write (twap_listing_form lb rd) es
    | Td_Error e \<Rightarrow> JString e)"

definition read_trigger_data :: "wire_lib \<Rightarrow> (json \<Rightarrow> execute_data option) \<Rightarrow> json \<Rightarrow> trigger_data option" where
  "read_trigger_data lb rd v =
     opt_or (map_option Td_ListTriggerOrders (fm_read (trigger_listing_form lb rd) v))
     (opt_or (map_option Td_ListTwapExecutions (fm_read (twap_listing_form lb rd) v))
     (map_option Td_Error (as_str v)))"

lemma twap_executions_read:
  assumes "wire_lib_ok lb" "fm_typed (twap_listing_form lb rd) es"
  shows "read_trigger_data lb rd (trigger_data_json lb rd (Td_ListTwapExecutions es)) = Some (Td_ListTwapExecutions es)"
proof -
  have "fm_read (trigger_listing_form lb rd) (fm_write (twap_listing_form lb rd) es) = None"
    by (simp add: trigger_listing_form_def twap_listing_form_def struct_form_def with_field_def with_read_def field_def
        no_more_def)
  then show ?thesis
    using json_form.read_write [OF json_form_listings(2) [OF assms(1)] assms(2)]
    by (simp add: read_trigger_data_def trigger_data_json_def)
qed

end
