(* ===== verification/SdkArchiveClient.thy ===== *)
theory SdkArchiveClient
  imports SdkArchive SdkStatistics SdkRequests SdkClient
begin

text \<open>
  The archive and the SDK's client (nado-rust-sdk/src/core/indexer.rs, utils/response.rs): how a query is written, and
  how an answer is read as the type a call asks for. What a type promises is the locale answer_form; inside
  it, a written answer comes back from the call, and an error of the archive is reported.
\<close>

subsection \<open>Queries as JSON\<close>

definition interval_form :: "interval form" where
  "interval_form = struct_form interval.make
     (with_field ''count'' u64_form iv_count
     (with_field ''granularity'' u64_form iv_granularity
     (with_option ''max_time'' wrapped_u64 iv_max_time
     no_more)))"

lemma json_form_interval [form_laws]: "json_form interval_form"
  unfolding interval_form_def by (intro struct_laws form_laws) (simp_all add: interval.make_def)

definition timestamps_json :: "timestamps \<Rightarrow> json" where
  "timestamps_json t = (case t of
      Ts_Timestamp n \<Rightarrow> fm_write wrapped_u64 n
    | Ts_Timestamps ns \<Rightarrow> fm_write (list_form wrapped_u64) ns)"

definition event_limit_json :: "event_limit \<Rightarrow> json" where
  "event_limit_json l = (case l of
      Limit_Raw n \<Rightarrow> tagged ''raw'' wrapped_u32 n
    | Limit_Txs n \<Rightarrow> tagged ''txs'' wrapped_u32 n)"

fun leaderboard_text :: "leaderboard_type \<Rightarrow> string" where
  "leaderboard_text Lb_PNL = ''pnl''"
| "leaderboard_text Lb_ROI = ''roi''"

definition pids_json :: "u32 list \<Rightarrow> json" where "pids_json = fm_write (list_form wrapped_u32)"
definition pids_opt_json :: "u32 list option \<Rightarrow> json" where "pids_opt_json = fm_write (option_form (list_form wrapped_u32))"
definition u64_opt_json :: "u64 option \<Rightarrow> json" where "u64_opt_json = fm_write (option_form wrapped_u64)"
definition u32_opt_json :: "u32 option \<Rightarrow> json" where "u32_opt_json = fm_write (option_form wrapped_u32)"
definition bool_opt_json :: "bool option \<Rightarrow> json" where "bool_opt_json = fm_write (option_form bool_form)"

definition subs_opt_json :: "wire_lib \<Rightarrow> bytes list option \<Rightarrow> json" where
  "subs_opt_json lb = fm_write (option_form (list_form (bytes32_form lb)))"

text \<open>A variant is an object under its tag, and a missing option is written as null.\<close>

fun archive_query_json :: "wire_lib \<Rightarrow> archive_query \<Rightarrow> json" where
  "archive_query_json lb Aq_LiquidationFeed = JObject [(''liquidation_feed'', JObject [])]"
| "archive_query_json lb (Aq_FundingRate pid) =
     JObject [(''funding_rate'', JObject [(''product_id'', fm_write wrapped_u32 pid)])]"
| "archive_query_json lb (Aq_FundingRates pids) =
     JObject [(''funding_rates'', JObject [(''product_ids'', pids_json pids)])]"
| "archive_query_json lb (Aq_Candlesticks pid granularity max_time limit) =
     JObject [(''candlesticks'', JObject
       [(''product_id'', fm_write wrapped_u32 pid), (''granularity'', fm_write wrapped_u32 granularity),
        (''max_time'', u64_opt_json max_time), (''limit'', u32_opt_json limit)])]"
| "archive_query_json lb (Aq_Products pid max_time limit idx) =
     JObject [(''products'', JObject
       [(''product_id'', fm_write wrapped_u32 pid), (''max_time'', u64_opt_json max_time),
        (''limit'', u32_opt_json limit), (''idx'', u64_opt_json idx)])]"
| "archive_query_json lb (Aq_ProductSnapshots pids max_time) =
     JObject [(''product_snapshots'', JObject
       [(''product_ids'', pids_json pids), (''max_time'', enc_option timestamps_json max_time)])]"
| "archive_query_json lb (Aq_Events subs pids types max_time limit idx desc isolated) =
     JObject [(''events'', JObject
       [(''subaccounts'', subs_opt_json lb subs), (''product_ids'', pids_opt_json pids),
        (''event_types'', fm_write (option_form (list_form tx_type_form)) types),
        (''max_time'', u64_opt_json max_time), (''limit'', enc_option event_limit_json limit),
        (''idx'', u64_opt_json idx), (''desc'', bool_opt_json desc), (''isolated'', bool_opt_json isolated)])]"
| "archive_query_json lb (Aq_Orders subs pids digests max_time limit idx isolated types) =
     JObject [(''orders'', JObject
       [(''subaccounts'', subs_opt_json lb subs), (''product_ids'', pids_opt_json pids),
        (''digests'', subs_opt_json lb digests), (''max_time'', u64_opt_json max_time),
        (''limit'', u32_opt_json limit), (''idx'', u64_opt_json idx), (''isolated'', bool_opt_json isolated),
        (''trigger_types'', fm_write (option_form (list_form trigger_type_form)) types)])]"
| "archive_query_json lb (Aq_AccountSnapshots subs stamps isolated active) =
     JObject [(''account_snapshots'', JObject
       [(''subaccounts'', fm_write (list_form (bytes32_form lb)) subs),
        (''timestamps'', fm_write (list_form wrapped_u64) stamps), (''isolated'', bool_opt_json isolated),
        (''active'', bool_opt_json active)])]"
| "archive_query_json lb (Aq_Matches subs pids max_time limit idx isolated) =
     JObject [(''matches'', JObject
       [(''subaccounts'', subs_opt_json lb subs), (''product_ids'', pids_opt_json pids),
        (''max_time'', u64_opt_json max_time), (''limit'', u32_opt_json limit), (''idx'', u64_opt_json idx),
        (''isolated'', bool_opt_json isolated)])]"
| "archive_query_json lb (Aq_Subaccounts address start limit) =
     JObject [(''subaccounts'', JObject
       [(''address'', fm_write (option_form (address_form lb)) address), (''start'', u64_opt_json start),
        (''limit'', u64_opt_json limit)])]"
| "archive_query_json lb (Aq_Price pid) =
     JObject [(''price'', JObject [(''product_id'', fm_write wrapped_u32 pid)])]"
| "archive_query_json lb (Aq_PerpPrices pids) =
     JObject [(''perp_prices'', JObject [(''product_ids'', pids_json pids)])]"
| "archive_query_json lb (Aq_OraclePrice pids) =
     JObject [(''oracle_price'', JObject [(''product_ids'', pids_json pids)])]"
| "archive_query_json lb (Aq_OracleSnapshots iv pids) =
     JObject [(''oracle_snapshots'', JObject
       [(''interval'', fm_write interval_form iv), (''product_ids'', pids_opt_json pids)])]"
| "archive_query_json lb Aq_QuotePrice = JObject [(''quote_price'', JObject [])]"
| "archive_query_json lb (Aq_LinkedSignerRateLimit sub) =
     JObject [(''linked_signer_rate_limit'', JObject [(''subaccount'', fm_write (bytes32_form lb) sub)])]"
| "archive_query_json lb (Aq_LinkedSigners start limit) =
     JObject [(''linked_signers'', JObject [(''start_idx'', u64_opt_json start), (''limit'', u32_opt_json limit)])]"
| "archive_query_json lb (Aq_IsolatedSubaccounts sub start limit) =
     JObject [(''isolated_subaccounts'', JObject
       [(''subaccount'', fm_write (option_form (raw_bytes_form 32)) sub), (''start_idx'', u64_opt_json start),
        (''limit'', u32_opt_json limit)])]"
| "archive_query_json lb (Aq_MarketSnapshots iv pids) =
     JObject [(''market_snapshots'', JObject
       [(''interval'', fm_write interval_form iv), (''product_ids'', pids_opt_json pids)])]"
| "archive_query_json lb (Aq_EdgeMarketSnapshots iv) =
     JObject [(''edge_market_snapshots'', JObject [(''interval'', fm_write interval_form iv)])]"
| "archive_query_json lb (Aq_EdgeCandlesticks pid granularity max_time limit) =
     JObject [(''edge_candlesticks'', JObject
       [(''product_id'', fm_write wrapped_u32 pid), (''granularity'', fm_write wrapped_u32 granularity),
        (''max_time'', u64_opt_json max_time), (''limit'', u32_opt_json limit)])]"
| "archive_query_json lb (Aq_InterestAndFunding sub pids max_idx max_time limit) =
     JObject [(''interest_and_funding'', JObject
       [(''subaccount'', fm_write (bytes32_form lb) sub), (''product_ids'', pids_json pids),
        (''max_idx'', u64_opt_json max_idx), (''max_time'', u64_opt_json max_time),
        (''limit'', fm_write wrapped_u32 limit)])]"
| "archive_query_json lb (Aq_NlpFundingPayments max_idx max_time limit) =
     JObject [(''nlp_funding_payments'', JObject
       [(''max_idx'', u64_opt_json max_idx), (''max_time'', u64_opt_json max_time),
        (''limit'', fm_write wrapped_u32 limit)])]"
| "archive_query_json lb (Aq_NlpInterestPayments max_idx max_time limit) =
     JObject [(''nlp_interest_payments'', JObject
       [(''max_idx'', u64_opt_json max_idx), (''max_time'', u64_opt_json max_time),
        (''limit'', fm_write wrapped_u32 limit)])]"
| "archive_query_json lb (Aq_Signatures digests) =
     JObject [(''signatures'', JObject [(''digests'', fm_write (list_form (bytes32_form lb)) digests)])]"
| "archive_query_json lb (Aq_Leaderboard contest rank start limit) =
     JObject [(''leaderboard'', JObject
       [(''contest_id'', fm_write wrapped_u32 contest), (''rank_type'', JString (leaderboard_text rank)),
        (''start'', u64_opt_json start), (''limit'', u64_opt_json limit)])]"
| "archive_query_json lb (Aq_LeaderboardRank contests sub) =
     JObject [(''leaderboard_rank'', JObject
       [(''contest_ids'', pids_json contests), (''subaccount'', fm_write (bytes32_form lb) sub)])]"
| "archive_query_json lb (Aq_LeaderboardContests contests) =
     JObject [(''leaderboard_contests'', JObject [(''contest_ids'', pids_json contests)])]"
| "archive_query_json lb (Aq_LeaderboardRegistration sub contest update) =
     JObject [(''leaderboard_registration'', JObject
       [(''subaccount'', fm_write (bytes32_form lb) sub), (''contest_id'', fm_write wrapped_u32 contest),
        (''update_registration'', fm_write (option_form (update_registration_form lb)) update)])]"
| "archive_query_json lb (Aq_FastWithdrawalSignature idx) =
     JObject [(''fast_withdrawal_signature'', JObject [(''idx'', fm_write wrapped_u64 idx)])]"
| "archive_query_json lb (Aq_Ratelimit ip wallet api_key) =
     JObject [(''ratelimit'', JObject
       [(''ip'', fm_write (option_form text_form) ip), (''wallet'', fm_write (option_form text_form) wallet),
        (''api_key'', JString api_key)])]"
| "archive_query_json lb (Aq_TxHashes idxs) =
     JObject [(''tx_hashes'', JObject [(''idxs'', fm_write (list_form wrapped_u64) idxs)])]"
| "archive_query_json lb Aq_Backlog = JObject [(''backlog'', JObject [])]"
| "archive_query_json lb (Aq_DirectDepositAddress sub) =
     JObject [(''direct_deposit_address'', JObject [(''subaccount'', fm_write (bytes32_form lb) sub)])]"
| "archive_query_json lb (Aq_InkAirdrop address) =
     JObject [(''ink_airdrop'', JObject [(''address'', fm_write (address_form lb) address)])]"
| "archive_query_json lb (Aq_PrivateAlphaChoice address) =
     JObject [(''private_alpha_choice'', JObject [(''address'', fm_write (address_form lb) address)])]"
| "archive_query_json lb (Aq_NadoPoints address) =
     JObject [(''nado_points'', JObject [(''address'', fm_write (address_form lb) address)])]"
| "archive_query_json lb (Aq_NlpSnapshots iv idx max_time limit) =
     JObject [(''nlp_snapshots'', JObject
       [(''interval'', fm_write (option_form interval_form) iv), (''idx'', u64_opt_json idx),
        (''max_time'', u64_opt_json max_time), (''limit'', u32_opt_json limit)])]"

text \<open>
  A subaccount is a hexadecimal text in every query but one: the list of isolated subaccounts is asked for with an
  array of 32 numbers.
\<close>

lemma isolated_subaccount_as_numbers:
  "\<exists>bs. json_get ''isolated_subaccounts'' (archive_query_json lb (Aq_IsolatedSubaccounts (Some sub) start limit)) =
     Some (JObject ((''subaccount'', JArray bs) # rest)) \<and> length bs = length sub"
  if "rest = [(''start_idx'', u64_opt_json start), (''limit'', u32_opt_json limit)]"
  using that by (auto simp: option_form_def enc_option_def raw_bytes_form_def list_form_def enc_seq_def)

subsection \<open>Answers\<close>

definition error_json :: "string \<Rightarrow> i32 \<Rightarrow> json" where
  "error_json e code = JObject [(''error'', JString e), (''error_code'', ji64 code)]"

text \<open>What would be taken for a block of the address or for an error.\<close>

definition error_shape :: "json \<Rightarrow> bool" where
  "error_shape v \<longleftrightarrow>
     read_pair ''reason'' as_str ''blocked'' as_bool v \<noteq> None \<or> read_pair ''error'' as_str ''error_code'' as_i32 v \<noteq> None"

text \<open>A call reads the answer over the buffered copy first, and then as it is.\<close>

definition archive_answer :: "'r form \<Rightarrow> (json \<Rightarrow> 'r option) \<Rightarrow> json \<Rightarrow> string + 'r" where
  "archive_answer f buffered v =
     extract_response (\<lambda>v. ok_or ''the answer has another type'' (fm_read f v)) (read_rest buffered v)"

definition ask_archive ::
  "'r form \<Rightarrow> (json \<Rightarrow> 'r option) \<Rightarrow> json call \<Rightarrow> 'r call" where
  "ask_archive f buffered call = call_bind call (\<lambda>v. lift_res (archive_answer f buffered v))"

text \<open>The buffered copy may lose what the value itself has, but it never makes another value of it.\<close>

definition buffered_ok :: "'r form \<Rightarrow> (json \<Rightarrow> 'r option) \<Rightarrow> bool" where
  "buffered_ok f buffered \<longleftrightarrow> (\<forall>v r. buffered v = Some r \<longrightarrow> fm_read f v = Some r)"

text \<open>
  What a typed call does with what comes back: a value of its type is returned, an error of the archive is reported
  with its text, and a failure of the request is passed on; nothing more is sent.
\<close>

definition reads_answers :: "'r form \<Rightarrow> json call \<Rightarrow> 'r call \<Rightarrow> bool" where
  "reads_answers f call typed_call \<longleftrightarrow>
     (\<forall>tr tr' r. fm_typed f r \<longrightarrow> call tr = (Ok (fm_write f r), tr') \<longrightarrow> typed_call tr = (Ok r, tr')) \<and>
     (\<forall>tr tr' e code. in_i32 code \<longrightarrow> call tr = (Ok (error_json e code), tr') \<longrightarrow>
        typed_call tr = (Inl (Sdk_Error e), tr')) \<and>
     (\<forall>tr tr' e. call tr = (Inl e, tr') \<longrightarrow> typed_call tr = (Inl e, tr'))"

locale answer_form = json_form f for f :: "'r form" +
  assumes no_error_shape: "\<not> error_shape (fm_write f r)"
    and no_error_read: "fm_read f (error_json e code) = None"
begin

lemma answer_read:
  assumes "buffered_ok f buffered" "fm_typed f r"
  shows "archive_answer f buffered (fm_write f r) = Ok r"
proof (cases "buffered (fm_write f r)")
  case None
  have "read_pair ''reason'' as_str ''blocked'' as_bool (fm_write f r) = None"
    "read_pair ''error'' as_str ''error_code'' as_i32 (fm_write f r) = None"
    using no_error_shape [of r] unfolding error_shape_def by blast+
  then show ?thesis
    using None read_write [OF assms(2)] by (simp add: archive_answer_def read_rest_def extract_response_def)
next
  case (Some r')
  then have "r' = r" using assms read_write [OF assms(2)] by (auto simp: buffered_ok_def)
  then show ?thesis using Some by (simp add: archive_answer_def read_rest_def extract_response_def)
qed

lemma error_reported:
  assumes "buffered_ok f buffered" "in_i32 code"
  shows "archive_answer f buffered (error_json e code) = Err e"
proof -
  have "buffered (error_json e code) = None"
    using assms(1) no_error_read [of e code] by (metis buffered_ok_def not_Some_eq option.distinct(1))
  then show ?thesis
    unfolding archive_answer_def by (rule indexer_error_reported [OF _ error_json_def as_i32_ji64 [OF assms(2)]])
qed

text \<open>
  The call returns the answer, the archive's error or the failure to get one, and it is sent once, as before.
\<close>

lemma ask_archive_reads: "buffered_ok f buffered \<Longrightarrow> reads_answers f call (ask_archive f buffered call)"
  using answer_read error_reported by (auto simp: reads_answers_def ask_archive_def call_defs)

end

named_theorems answer_laws

text \<open>A struct meets the contract when it has a field that must be there and none of the names of an error.\<close>

definition needs_field :: "('r, 'k) fields \<Rightarrow> bool" where
  "needs_field fs \<longleftrightarrow> (\<forall>obj mk. (\<forall>n \<in> set (sf_names fs). map_of obj n = None) \<longrightarrow> sf_read fs obj mk = None)"

lemma needs_field_laws [answer_laws]:
  "needs_field (with_field n f sel rest)"
  by (simp add: needs_field_def with_field_def with_read_def field_def)

lemma needs_field_option [answer_laws]:
  "needs_field rest \<Longrightarrow> needs_field (with_option n f sel rest)"
  by (simp add: needs_field_def with_option_def with_read_def opt_field_def)

lemma answer_struct:
  assumes form: "json_form (struct_form mk fs)" and names: "written_names fs" and needs: "needs_field fs"
    and apart: "''reason'' \<notin> set (sf_names fs)" "''error'' \<notin> set (sf_names fs)" "''error_code'' \<notin> set (sf_names fs)"
  shows "answer_form (struct_form mk fs)"
proof (rule answer_form.intro [OF form], unfold_locales)
  fix r
  have "fst ` set (present (sf_write fs r)) \<subseteq> set (sf_names fs)" by (rule struct_writes [OF names]) (simp add: struct_form_def)
  then have "map_of (present (sf_write fs r)) ''reason'' = None" "map_of (present (sf_write fs r)) ''error'' = None"
    using apart by (auto simp: map_of_eq_None_iff)
  then show "\<not> error_shape (fm_write (struct_form mk fs) r)"
    by (simp add: error_shape_def read_pair_def struct_form_def json_get_def)
next
  fix e code
  have "map_of [(''error'', JString e), (''error_code'', ji64 code)] n = None" if "n \<in> set (sf_names fs)" for n
    using that apart by auto
  then show "fm_read (struct_form mk fs) (error_json e code) = None"
    using needs by (simp add: struct_form_def error_json_def needs_field_def)
qed






subsection \<open>The calls\<close>

type_synonym 'r buffered = "json \<Rightarrow> 'r option"







































lemma answer_oracle_prices: "answer_form oracle_prices_form"
  using json_form_oracle_prices
  unfolding oracle_prices_form_def by (rule answer_struct)
    (simp_all add: written_names_laws answer_laws)

lemma answer_quote_price: "answer_form quote_price_form"
  using json_form_quote_price
  unfolding quote_price_form_def by (rule answer_struct)
    (simp_all add: written_names_laws answer_laws)













text \<open>
  Snapshots at several times and at one time come as different maps; whoever asked for one time wants the second.
\<close>

datatype snapshots_response =
    Sr_ByTime "(u64, (u32, product_snapshot) hashmap) hashmap"
  | Sr_Snapshots "(u32, product_snapshot) hashmap"

fun product_snapshots :: "snapshots_response \<Rightarrow> string + (u32, product_snapshot) hashmap" where
  "product_snapshots (Sr_Snapshots ps) = Ok ps"
| "product_snapshots (Sr_ByTime ps) = Err ''expected product_snapshots response''"






interpretation quote_price_answer: answer_form quote_price_form
  by (rule answer_quote_price)

interpretation oracle_prices_answer: answer_form oracle_prices_form
  by (rule answer_oracle_prices)

subsection \<open>Answers that cannot be read\<close>

















end
