(* ===== verification/SdkBuilders.thy ===== *)
theory SdkBuilders
  imports SdkClient
begin

text \<open>
  The SDK's builders of requests (nado-rust-sdk/src/builders/) and the calls that send them (core/execute.rs,
  utils/deposit.rs, nado_client.rs). A builder is the record of the fields that were set; building takes the
  fields it needs, asks the exchange for what is missing, and may fail or panic.

  What ties these requests to the execution gateway is in the theory ClientGateway.
\<close>

subsection \<open>Common parts\<close>

definition field_var :: "string \<Rightarrow> 'a option \<Rightarrow> string + 'a" where
  "field_var name v = ok_or (none_error name) v"

definition sender_of :: "'w world \<Rightarrow> 'w nado_client \<Rightarrow> bytes option \<Rightarrow> string + bytes" where
  "sender_of w c linked_sender =
     res_bind (client_subaccount w c) (\<lambda>default_sender. Ok (unwrap_or default_sender linked_sender))"

text \<open>The exchange is asked for the nonce also where one was given.\<close>

definition tx_nonce :: "'w world \<Rightarrow> 'w nado_client \<Rightarrow> u64 option \<Rightarrow> bytes \<Rightarrow> u64 call" where
  "tx_nonce w c nonce address = call_bind (next_tx_nonce w c address) (\<lambda>n. returns (unwrap_or n nonce))"

definition prepared ::
  "'w world \<Rightarrow> 'w nado_client \<Rightarrow> bytes option \<Rightarrow> u64 option \<Rightarrow> (bytes \<Rightarrow> u64 \<Rightarrow> string + 'm) \<Rightarrow> 'm call" where
  "prepared w c linked_sender nonce message =
     call_bind (lift_res (sender_of w c linked_sender)) (\<lambda>sender.
     call_bind (tx_nonce w c nonce (take 20 sender)) (\<lambda>n. lift_res (message sender n)))"

subsection \<open>Transactions\<close>

record burn_nlp_builder =
  bu_nlp_amount :: "u128 option"
  bu_nonce :: "u64 option"
  bu_linked_sender :: "bytes option"

definition build_burn_nlp :: "'w world \<Rightarrow> 'w nado_client \<Rightarrow> burn_nlp_builder \<Rightarrow> burn_nlp call" where
  "build_burn_nlp w c b =
     prepared w c (bu_linked_sender b) (bu_nonce b) (\<lambda>sender nonce.
       res_bind (field_var ''nlp_amount'' (bu_nlp_amount b)) (\<lambda>amount.
       Ok \<lparr>bn_sender = sender, bn_nlpAmount = amount, bn_nonce = nonce\<rparr>))"

record mint_nlp_builder =
  mu_quote_amount :: "u128 option"
  mu_nonce :: "u64 option"
  mu_linked_sender :: "bytes option"
  mu_spot_leverage :: "bool option"

definition build_mint_nlp :: "'w world \<Rightarrow> 'w nado_client \<Rightarrow> mint_nlp_builder \<Rightarrow> mint_nlp call" where
  "build_mint_nlp w c b =
     prepared w c (mu_linked_sender b) (mu_nonce b) (\<lambda>sender nonce.
       res_bind (field_var ''quote_amount'' (mu_quote_amount b)) (\<lambda>amount.
       Ok \<lparr>mn_sender = sender, mn_quoteAmount = amount, mn_nonce = nonce\<rparr>))"

record transfer_quote_builder =
  tu_recipient :: "bytes option"
  tu_linked_sender :: "bytes option"
  tu_amount :: "u128 option"
  tu_nonce :: "u64 option"

definition build_transfer_quote :: "'w world \<Rightarrow> 'w nado_client \<Rightarrow> transfer_quote_builder \<Rightarrow> transfer_quote call" where
  "build_transfer_quote w c b =
     prepared w c (tu_linked_sender b) (tu_nonce b) (\<lambda>sender nonce.
       res_bind (field_var ''recipient'' (tu_recipient b)) (\<lambda>recipient.
       res_bind (field_var ''amount'' (tu_amount b)) (\<lambda>amount.
       Ok \<lparr>tq_sender = sender, tq_recipient = recipient, tq_amount = amount, tq_nonce = nonce\<rparr>)))"

record withdraw_collateral_builder =
  wu_amount :: "u128 option"
  wu_product_id :: "u32 option"
  wu_nonce :: "u64 option"
  wu_linked_sender :: "bytes option"
  wu_spot_leverage :: "bool option"

definition build_withdraw_collateral ::
  "'w world \<Rightarrow> 'w nado_client \<Rightarrow> withdraw_collateral_builder \<Rightarrow> withdraw_collateral call" where
  "build_withdraw_collateral w c b =
     prepared w c (wu_linked_sender b) (wu_nonce b) (\<lambda>sender nonce.
       res_bind (field_var ''amount'' (wu_amount b)) (\<lambda>amount.
       res_bind (field_var ''product_id'' (wu_product_id b)) (\<lambda>pid.
       Ok \<lparr>wc_sender = sender, wc_productId = pid, wc_amount = amount, wc_nonce = nonce\<rparr>)))"

record liquidate_builder =
  lu_liquidatee :: "bytes option"
  lu_product_id :: "u32 option"
  lu_is_encoded_spread :: "bool option"
  lu_amount :: "i128 option"
  lu_nonce :: "u64 option"
  lu_linked_sender :: "bytes option"

definition build_liquidate :: "'w world \<Rightarrow> 'w nado_client \<Rightarrow> liquidate_builder \<Rightarrow> liquidate_subaccount call" where
  "build_liquidate w c b =
     prepared w c (lu_linked_sender b) (lu_nonce b) (\<lambda>sender nonce.
       res_bind (field_var ''liquidatee'' (lu_liquidatee b)) (\<lambda>liquidatee.
       res_bind (field_var ''product_id'' (lu_product_id b)) (\<lambda>pid.
       res_bind (field_var ''is_encoded_spread'' (lu_is_encoded_spread b)) (\<lambda>spread.
       res_bind (field_var ''amount'' (lu_amount b)) (\<lambda>amount.
       Ok \<lparr>lq_sender = sender, lq_liquidatee = liquidatee, lq_productId = pid, lq_isEncodedSpread = spread,
           lq_amount = amount, lq_nonce = nonce\<rparr>)))))"

record link_signer_builder =
  ku_signer :: "bytes option"
  ku_nonce :: "u64 option"

definition build_link_signer :: "'w world \<Rightarrow> 'w nado_client \<Rightarrow> link_signer_builder \<Rightarrow> link_signer call" where
  "build_link_signer w c b =
     call_bind (lift_res (client_subaccount w c)) (\<lambda>sender.
     call_bind (lift_res (client_address w c)) (\<lambda>address.
     call_bind (tx_nonce w c (ku_nonce b) address) (\<lambda>nonce.
     lift_res (res_bind (field_var ''signer'' (ku_signer b)) (\<lambda>signer.
       Ok \<lparr>ls_sender = sender, ls_signer = signer, ls_nonce = nonce\<rparr>)))))"

text \<open>Cancellations take a nonce made of the receive time; it is made, and may panic, also where one was given.\<close>

record cancellation_builder =
  cu_product_ids :: "u32 list option"
  cu_linked_sender :: "bytes option"
  cu_digests :: "bytes list option"
  cu_nonce :: "u64 option"
  cu_recv_time :: "u64 option"

definition build_cancellation ::
  "'w world \<Rightarrow> 'w nado_client \<Rightarrow> u64 \<Rightarrow> u64 \<Rightarrow> cancellation_builder \<Rightarrow> (string + cancellation) option" where
  "build_cancellation w c now random b =
     (case sender_of w c (cu_linked_sender b) of
        Inl e \<Rightarrow> Some (Err e)
      | Inr sender \<Rightarrow> map_option (\<lambda>fresh.
          res_bind (field_var ''product_ids'' (cu_product_ids b)) (\<lambda>pids.
          res_bind (field_var ''digests'' (cu_digests b)) (\<lambda>digests.
          Ok \<lparr>cn_sender = sender, cn_productIds = pids, cn_digests = digests,
              cn_nonce = unwrap_or fresh (cu_nonce b)\<rparr>)))
          (order_nonce now random (cu_recv_time b)))"

record cancel_products_builder =
  du_product_ids :: "u32 list option"
  du_nonce :: "u64 option"
  du_linked_sender :: "bytes option"
  du_recv_time :: "u64 option"

definition build_cancellation_products ::
  "'w world \<Rightarrow> 'w nado_client \<Rightarrow> u64 \<Rightarrow> u64 \<Rightarrow> cancel_products_builder \<Rightarrow> (string + cancellation_products) option" where
  "build_cancellation_products w c now random b =
     (case sender_of w c (du_linked_sender b) of
        Inl e \<Rightarrow> Some (Err e)
      | Inr sender \<Rightarrow> map_option (\<lambda>fresh.
          res_bind (field_var ''product_ids'' (du_product_ids b)) (\<lambda>pids.
          Ok \<lparr>cp_sender = sender, cp_productIds = pids, cp_nonce = unwrap_or fresh (du_nonce b)\<rparr>))
          (order_nonce now random (du_recv_time b)))"

subsection \<open>Orders\<close>

record place_builder = order_builder +
  pl_product_id :: "u32 option"
  pl_spot_leverage :: "bool option"
  pl_borrow_margin :: "bool option"
  pl_mock :: "bool option"
  pl_id :: "u64 option"

definition placing_order :: "'w world \<Rightarrow> 'w nado_client \<Rightarrow> u64 \<Rightarrow> u64 \<Rightarrow> place_builder \<Rightarrow> (string + order) option" where
  "placing_order w c now random b = build_order now random (client_subaccount w c) (order_builder.truncate b)"

definition place_signature ::
  "'r externals \<Rightarrow> 'w world \<Rightarrow> 'w nado_client \<Rightarrow> place_builder \<Rightarrow> u32 \<Rightarrow> order \<Rightarrow> string + bytes" where
  "place_signature ex w c b pid o' =
     (if unwrap_or False (pl_mock b) then
        res_bind (client_address w c) (\<lambda>a. Ok (replicate 65 0 @ a))
      else order_signature ex w c pid (get_eip712_digest ex (P_Order o')))"

definition place_digest ::
  "'r externals \<Rightarrow> 'w nado_client \<Rightarrow> bytes \<Rightarrow> place_builder \<Rightarrow> order \<Rightarrow> string + bytes" where
  "place_digest ex c random_digest b o' =
     (if unwrap_or False (pl_mock b) then Ok random_digest
      else
        res_bind (field_var ''product_id'' (pl_product_id b)) (\<lambda>pid.
        res_bind (order_domain ex c pid) (\<lambda>d. Ok (get_eip712_digest ex (P_Order o') d))))"

definition build_place ::
  "'r externals \<Rightarrow> 'w world \<Rightarrow> 'w nado_client \<Rightarrow> u64 \<Rightarrow> u64 \<Rightarrow> bytes \<Rightarrow> place_builder \<Rightarrow> (string + place_order) option" where
  "build_place ex w c now random random_digest b =
     (if ob_trigger_criteria b \<noteq> None then
        Some (Err ''trigger_criteria set, use .build_triger to build trigger orders or clear trigger criteria'')
      else
        map_option (\<lambda>r.
          res_bind r (\<lambda>o'.
          res_bind (field_var ''product_id'' (pl_product_id b)) (\<lambda>pid.
          res_bind (place_signature ex w c b pid o') (\<lambda>signature.
          res_bind (place_digest ex c random_digest b o') (\<lambda>digest.
          Ok \<lparr>po_order = o', po_signature = signature, po_product_id = pid, po_digest = Some digest,
              po_id = pl_id b, po_spot_leverage = pl_spot_leverage b, po_borrow_margin = pl_borrow_margin b\<rparr>)))))
          (placing_order w c now random b))"

definition build_trigger ::
  "'r externals \<Rightarrow> 'w world \<Rightarrow> 'w nado_client \<Rightarrow> u64 \<Rightarrow> u64 \<Rightarrow> bytes \<Rightarrow> place_builder \<Rightarrow>
     (string + place_trigger_order) option" where
  "build_trigger ex w c now random random_digest b =
     map_option (\<lambda>r.
       res_bind r (\<lambda>o'.
       res_bind (field_var ''product_id'' (pl_product_id b)) (\<lambda>pid.
       res_bind (field_var ''trigger_criteria'' (ob_trigger_criteria b)) (\<lambda>trigger.
       res_bind (place_signature ex w c b pid o') (\<lambda>signature.
       res_bind (place_digest ex c random_digest b o') (\<lambda>digest.
       Ok \<lparr>pt_order = o', pt_signature = signature, pt_product_id = pid, pt_spot_leverage = pl_spot_leverage b,
           pt_borrow_margin = pl_borrow_margin b, pt_trigger = trigger, pt_digest = Some digest,
           pt_id = pl_id b\<rparr>))))))
       (placing_order w c now random b)"

subsection \<open>Sending\<close>

definition response_data :: "'w world \<Rightarrow> execute_response \<Rightarrow> execute_data option call" where
  "response_data w r =
     (if xr_status r = Rs_Failure then lift_res (Err (wo_failed_execute w r)) else returns (xr_data r))"

definition execute_call :: "'w world \<Rightarrow> 'w nado_client \<Rightarrow> engine_execute \<Rightarrow> execute_data option call" where
  "execute_call w c e =
     (let url = nc_gateway_url c @ ''/execute'' in
      call_bind (send_out (Sent_Execute url e) (\<lambda>n. wo_execute w n url e)) (response_data w))"

definition execute_trigger_call :: "'w world \<Rightarrow> 'w nado_client \<Rightarrow> trigger_execute \<Rightarrow> execute_data option call" where
  "execute_trigger_call w c e =
     (let url = nc_trigger_url c @ ''/execute'' in
      call_bind (send_out (Sent_TriggerExecute url e) (\<lambda>n. wo_trigger_execute w n url e)) (response_data w))"

definition placed :: "execute_data option \<Rightarrow> bytes option call" where
  "placed d =
     (case d of
        None \<Rightarrow> returns None
      | Some (Xd_PlaceOrder digest) \<Rightarrow> returns (Some digest)
      | Some _ \<Rightarrow> lift_res (Err ''Unexpected response type''))"

text \<open>The two answers to a cancellation have the same shape.\<close>

definition match_cancel_orders_response :: "execute_data option \<Rightarrow> order_response list option call" where
  "match_cancel_orders_response d =
     (case d of
        None \<Rightarrow> returns None
      | Some (Xd_CancelOrders orders) \<Rightarrow> returns (Some orders)
      | Some (Xd_CancelProductOrders orders) \<Rightarrow> returns (Some orders)
      | Some _ \<Rightarrow> lift_res (Err ''Unexpected response type''))"

definition place_order_call :: "'w world \<Rightarrow> 'w nado_client \<Rightarrow> place_order \<Rightarrow> bytes option call" where
  "place_order_call w c po = call_bind (execute_call w c (E_PlaceOrder po)) placed"

definition place_trigger_order_call :: "'w world \<Rightarrow> 'w nado_client \<Rightarrow> place_trigger_order \<Rightarrow> bytes option call" where
  "place_trigger_order_call w c t = call_bind (execute_trigger_call w c (T_PlaceOrder t)) placed"

definition signed ::
  "'r externals \<Rightarrow> 'w world \<Rightarrow> 'w nado_client \<Rightarrow> payload \<Rightarrow> (bytes \<Rightarrow> 'a call) \<Rightarrow> 'a call" where
  "signed ex w c p k = call_bind (lift_res (endpoint_signature w c (get_eip712_digest ex p))) k"

definition cancel_orders ::
  "'r externals \<Rightarrow> 'w world \<Rightarrow> 'w nado_client \<Rightarrow> cancellation \<Rightarrow> order_response list option call" where
  "cancel_orders ex w c tx = signed ex w c (P_Cancellation tx) (\<lambda>s.
     call_bind (execute_call w c (E_CancelOrders tx s)) match_cancel_orders_response)"

definition cancel_trigger_orders :: "'r externals \<Rightarrow> 'w world \<Rightarrow> 'w nado_client \<Rightarrow> cancellation \<Rightarrow> unit call" where
  "cancel_trigger_orders ex w c tx = signed ex w c (P_Cancellation tx) (\<lambda>s.
     call_bind (execute_trigger_call w c (T_CancelOrders tx s)) (\<lambda>_. returns ()))"

definition cancel_product_orders ::
  "'r externals \<Rightarrow> 'w world \<Rightarrow> 'w nado_client \<Rightarrow> cancellation_products \<Rightarrow> order_response list option call" where
  "cancel_product_orders ex w c tx = signed ex w c (P_CancellationProducts tx) (\<lambda>s.
     call_bind (lift_res (endpoint_digest c (get_eip712_digest ex (P_CancellationProducts tx)))) (\<lambda>digest.
     call_bind (execute_call w c (E_CancelProductOrders tx s (Some digest))) match_cancel_orders_response))"

definition cancel_product_trigger_orders ::
  "'r externals \<Rightarrow> 'w world \<Rightarrow> 'w nado_client \<Rightarrow> cancellation_products \<Rightarrow> unit call" where
  "cancel_product_trigger_orders ex w c tx = signed ex w c (P_CancellationProducts tx) (\<lambda>s.
     call_bind (execute_trigger_call w c (T_CancelProductOrders tx s)) (\<lambda>_. returns ()))"

definition cancel_and_place ::
  "'r externals \<Rightarrow> 'w world \<Rightarrow> 'w nado_client \<Rightarrow> cancellation \<Rightarrow> place_order \<Rightarrow> bool \<Rightarrow> bytes option call" where
  "cancel_and_place ex w c tx po unfilled = signed ex w c (P_Cancellation tx) (\<lambda>s.
     call_bind (execute_call w c (E_CancelAndPlace tx s po (Some unfilled))) placed)"

definition send_signed ::
  "'r externals \<Rightarrow> 'w world \<Rightarrow> 'w nado_client \<Rightarrow> payload \<Rightarrow> (bytes \<Rightarrow> engine_execute) \<Rightarrow> unit call" where
  "send_signed ex w c p request = signed ex w c p (\<lambda>s. call_bind (execute_call w c (request s)) (\<lambda>_. returns ()))"

definition liquidate_subaccount_call ::
  "'r externals \<Rightarrow> 'w world \<Rightarrow> 'w nado_client \<Rightarrow> liquidate_subaccount \<Rightarrow> unit call" where
  "liquidate_subaccount_call ex w c tx = send_signed ex w c (P_LiquidateSubaccount tx) (E_LiquidateSubaccount tx)"

definition withdraw_collateral_call ::
  "'r externals \<Rightarrow> 'w world \<Rightarrow> 'w nado_client \<Rightarrow> withdraw_collateral \<Rightarrow> bool option \<Rightarrow> unit call" where
  "withdraw_collateral_call ex w c tx leverage =
     send_signed ex w c (P_WithdrawCollateral tx) (\<lambda>s. E_WithdrawCollateral tx s leverage None)"

definition mint_nlp_call :: "'r externals \<Rightarrow> 'w world \<Rightarrow> 'w nado_client \<Rightarrow> mint_nlp \<Rightarrow> bool option \<Rightarrow> unit call" where
  "mint_nlp_call ex w c tx leverage = send_signed ex w c (P_MintNlp tx) (\<lambda>s. E_MintNlp tx s leverage)"

definition burn_nlp_call :: "'r externals \<Rightarrow> 'w world \<Rightarrow> 'w nado_client \<Rightarrow> burn_nlp \<Rightarrow> unit call" where
  "burn_nlp_call ex w c tx = send_signed ex w c (P_BurnNlp tx) (E_BurnNlp tx)"

definition transfer_quote_call :: "'r externals \<Rightarrow> 'w world \<Rightarrow> 'w nado_client \<Rightarrow> transfer_quote \<Rightarrow> unit call" where
  "transfer_quote_call ex w c tx = send_signed ex w c (P_TransferQuote tx) (E_TransferQuote tx)"

definition link_signer_call :: "'r externals \<Rightarrow> 'w world \<Rightarrow> 'w nado_client \<Rightarrow> link_signer \<Rightarrow> unit call" where
  "link_signer_call ex w c tx = send_signed ex w c (P_LinkSigner tx) (E_LinkSigner tx)"

text \<open>Building and sending in one.\<close>

definition execute_withdraw ::
  "'r externals \<Rightarrow> 'w world \<Rightarrow> 'w nado_client \<Rightarrow> withdraw_collateral_builder \<Rightarrow> unit call" where
  "execute_withdraw ex w c b = call_bind (build_withdraw_collateral w c b) (\<lambda>tx.
     withdraw_collateral_call ex w c tx (wu_spot_leverage b))"

definition execute_mint ::
  "'r externals \<Rightarrow> 'w world \<Rightarrow> 'w nado_client \<Rightarrow> mint_nlp_builder \<Rightarrow> unit call" where
  "execute_mint ex w c b = call_bind (build_mint_nlp w c b) (\<lambda>tx. mint_nlp_call ex w c tx (mu_spot_leverage b))"

definition execute_burn ::
  "'r externals \<Rightarrow> 'w world \<Rightarrow> 'w nado_client \<Rightarrow> burn_nlp_builder \<Rightarrow> unit call" where
  "execute_burn ex w c b = call_bind (build_burn_nlp w c b) (burn_nlp_call ex w c)"

definition execute_transfer ::
  "'r externals \<Rightarrow> 'w world \<Rightarrow> 'w nado_client \<Rightarrow> transfer_quote_builder \<Rightarrow> unit call" where
  "execute_transfer ex w c b = call_bind (build_transfer_quote w c b) (transfer_quote_call ex w c)"

definition execute_liquidate ::
  "'r externals \<Rightarrow> 'w world \<Rightarrow> 'w nado_client \<Rightarrow> liquidate_builder \<Rightarrow> unit call" where
  "execute_liquidate ex w c b = call_bind (build_liquidate w c b) (liquidate_subaccount_call ex w c)"

definition execute_link ::
  "'r externals \<Rightarrow> 'w world \<Rightarrow> 'w nado_client \<Rightarrow> link_signer_builder \<Rightarrow> unit call" where
  "execute_link ex w c b = call_bind (build_link_signer w c b) (link_signer_call ex w c)"

definition settled_call :: "(string + 'a) option \<Rightarrow> 'a call" where
  "settled_call r =
     (case r of None \<Rightarrow> lift_option ''attempt to add with overflow'' None | Some x \<Rightarrow> lift_res x)"

definition execute_cancellation ::
  "'r externals \<Rightarrow> 'w world \<Rightarrow> 'w nado_client \<Rightarrow> u64 \<Rightarrow> u64 \<Rightarrow> cancellation_builder \<Rightarrow> order_response list option call" where
  "execute_cancellation ex w c now random b =
     call_bind (settled_call (build_cancellation w c now random b)) (cancel_orders ex w c)"

definition execute_cancel_products ::
  "'r externals \<Rightarrow> 'w world \<Rightarrow> 'w nado_client \<Rightarrow> u64 \<Rightarrow> u64 \<Rightarrow> cancel_products_builder \<Rightarrow>
     order_response list option call" where
  "execute_cancel_products ex w c now random b =
     call_bind (settled_call (build_cancellation_products w c now random b)) (cancel_product_orders ex w c)"

definition execute_place ::
  "'r externals \<Rightarrow> 'w world \<Rightarrow> 'w nado_client \<Rightarrow> u64 \<Rightarrow> u64 \<Rightarrow> bytes \<Rightarrow> place_builder \<Rightarrow> bytes option call" where
  "execute_place ex w c now random random_digest b =
     call_bind (settled_call (build_place ex w c now random random_digest b)) (place_order_call w c)"

definition execute_place_trigger ::
  "'r externals \<Rightarrow> 'w world \<Rightarrow> 'w nado_client \<Rightarrow> u64 \<Rightarrow> u64 \<Rightarrow> bytes \<Rightarrow> place_builder \<Rightarrow> bytes option call" where
  "execute_place_trigger ex w c now random random_digest b =
     call_bind (settled_call (build_trigger ex w c now random random_digest b)) (place_trigger_order_call w c)"

subsection \<open>Deposits\<close>

definition send_chain :: "'w world \<Rightarrow> sent \<Rightarrow> bytes option call" where
  "send_chain w s = send_out s (\<lambda>n. wo_chain w n s)"

definition pause_ms :: "nat \<Rightarrow> unit call" where
  "pause_ms ms tr = (Ok (), tr @ [Sent_Pause ms])"

definition pause_secs :: "u64 option \<Rightarrow> unit call" where
  "pause_secs secs = (case secs of None \<Rightarrow> returns () | Some s \<Rightarrow> pause_ms (unat s * 1000))"

text \<open>A transaction goes through a provider with the client's wallet, a token's by the token's address.\<close>

definition erc20_client :: "'w world \<Rightarrow> 'w nado_client \<Rightarrow> u32 \<Rightarrow> bytes call" where
  "erc20_client w c pid =
     call_bind (get_token_address w c pid) (\<lambda>token.
     call_bind (lift_res (client_wallet c)) (\<lambda>_. returns token))"

definition approve_with_gas_price ::
  "'w world \<Rightarrow> 'w nado_client \<Rightarrow> bytes \<Rightarrow> u32 \<Rightarrow> u128 \<Rightarrow> u128 option \<Rightarrow> bytes option call" where
  "approve_with_gas_price w c spender pid amount gas_price =
     call_bind (erc20_client w c pid) (\<lambda>token. send_chain w (Sent_Approve token spender amount gas_price))"

definition approve_endpoint_allowance ::
  "'w world \<Rightarrow> 'w nado_client \<Rightarrow> u32 \<Rightarrow> u128 \<Rightarrow> bytes option call" where
  "approve_endpoint_allowance w c pid amount = approve_with_gas_price w c (endpoint_addr c) pid amount None"

definition mint_mock_erc20 :: "'w world \<Rightarrow> 'w nado_client \<Rightarrow> u32 \<Rightarrow> u128 \<Rightarrow> bytes option call" where
  "mint_mock_erc20 w c pid amount =
     call_bind (erc20_client w c pid) (\<lambda>token.
     call_bind (lift_res (client_address w c)) (\<lambda>address. send_chain w (Sent_Mint token address amount)))"

definition endpoint_deposit_call :: "'w world \<Rightarrow> 'w nado_client \<Rightarrow> deposit_params \<Rightarrow> bytes option call" where
  "endpoint_deposit_call w c p =
     call_bind (lift_res (client_wallet c)) (\<lambda>_.
       send_chain w
         (case de_referral_code p of
            Some code \<Rightarrow>
              Sent_DepositReferral (endpoint_addr c) (de_subaccount p) (de_product_id p) (de_amount p) code (de_gas_price p)
          | None \<Rightarrow>
              Sent_Deposit (endpoint_addr c) (drop 20 (de_subaccount p)) (de_product_id p) (de_amount p) (de_gas_price p)))"

definition deposit_collateral :: "'w world \<Rightarrow> 'w nado_client \<Rightarrow> deposit_params \<Rightarrow> bytes option call" where
  "deposit_collateral w c p =
     call_bind
       (if de_mints_tokens p then
          call_bind (mint_mock_erc20 w c (de_product_id p) (de_amount p)) (\<lambda>_. pause_secs (de_erc20_sleep_secs p))
        else returns ()) (\<lambda>_.
     call_bind
       (if de_approves_allowance p then
          call_bind (approve_with_gas_price w c (endpoint_addr c) (de_product_id p) (de_amount p) (de_gas_price p))
            (\<lambda>_. pause_secs (de_erc20_sleep_secs p))
        else returns ()) (\<lambda>_.
     endpoint_deposit_call w c p))"

record deposit_builder =
  xu_product_id :: "u32 option"
  xu_amount :: "u128 option"
  xu_referral_code :: "string option"
  xu_mints_tokens :: "bool option"
  xu_approves_allowance :: "bool option"
  xu_on_behalf_of :: "bytes option"
  xu_risk_check_sleep_secs :: "u64 option"
  xu_erc20_sleep_secs :: "u64 option"
  xu_gas_price :: "u128 option"

definition deposit_subaccount :: "'w world \<Rightarrow> 'w nado_client \<Rightarrow> deposit_builder \<Rightarrow> string + bytes" where
  "deposit_subaccount w c b = (case xu_on_behalf_of b of Some sub \<Rightarrow> Ok sub | None \<Rightarrow> client_subaccount w c)"

definition build_deposit :: "'w world \<Rightarrow> 'w nado_client \<Rightarrow> deposit_builder \<Rightarrow> string + deposit_params" where
  "build_deposit w c b =
     res_bind (deposit_subaccount w c b) (\<lambda>sub.
     res_bind (field_var ''product_id'' (xu_product_id b)) (\<lambda>pid.
     res_bind (field_var ''amount'' (xu_amount b)) (\<lambda>amount.
     Ok \<lparr>de_product_id = pid, de_subaccount = sub, de_amount = amount,
         de_referral_code = (if xu_on_behalf_of b \<noteq> None then Some ''-1'' else xu_referral_code b),
         de_approves_allowance = unwrap_or True (xu_approves_allowance b),
         de_mints_tokens = unwrap_or False (xu_mints_tokens b),
         de_erc20_sleep_secs = xu_erc20_sleep_secs b, de_gas_price = xu_gas_price b\<rparr>)))"

definition deposit_spot_balance ::
  "(product_delta list \<Rightarrow> string + string) \<Rightarrow> 'w world \<Rightarrow> 'w nado_client \<Rightarrow> deposit_builder \<Rightarrow> u32 \<Rightarrow> i128 call" where
  "deposit_spot_balance to_text w c b pid =
     call_bind (lift_res (deposit_subaccount w c b)) (\<lambda>sub.
     call_bind (get_subaccount_info to_text w c sub) (\<lambda>info.
     lift_res (res_bind (get_spot_balance info pid) (\<lambda>x. Ok (sb_amount x)))))"

text \<open>The amount of tokens is cast to the signed type and added to the balance as it is.\<close>

definition expected_balance ::
  "(product_delta list \<Rightarrow> string + string) \<Rightarrow> 'w world \<Rightarrow> 'w nado_client \<Rightarrow> deposit_builder \<Rightarrow> deposit_params \<Rightarrow> i128 call" where
  "expected_balance to_text w c b p =
     call_bind (deposit_spot_balance to_text w c b (de_product_id p)) (\<lambda>pre.
       lift_option ''attempt to add with overflow'' (chk_i128 (pre + sint (de_amount p))))"

text \<open>The wait asks again every half second; fuel bounds the model, not the code: None is a wait that goes on.\<close>

fun await_at_least :: "nat \<Rightarrow> i128 call \<Rightarrow> i128 \<Rightarrow> sent list \<Rightarrow> ((sdk_error + unit) \<times> sent list) option" where
  "await_at_least 0 balance expected tr = None"
| "await_at_least (Suc fuel) balance expected tr =
     (case balance tr of
        (Inl e, tr') \<Rightarrow> Some (Inl e, tr')
      | (Inr x, tr') \<Rightarrow>
          if expected \<le> x then Some (Ok (), tr')
          else await_at_least fuel balance expected (tr' @ [Sent_Pause 500]))"

definition deposit_and_await_balance ::
  "nat \<Rightarrow> (product_delta list \<Rightarrow> string + string) \<Rightarrow> 'w world \<Rightarrow> 'w nado_client \<Rightarrow> deposit_builder \<Rightarrow> sent list \<Rightarrow>
     ((sdk_error + bytes option) \<times> sent list) option" where
  "deposit_and_await_balance fuel to_text w c b tr =
     (case call_bind (lift_res (build_deposit w c b)) (\<lambda>p.
             call_bind (expected_balance to_text w c b p) (\<lambda>expected.
             call_bind (deposit_collateral w c p) (\<lambda>receipt. returns (de_product_id p, expected, receipt)))) tr of
        (Inl e, tr') \<Rightarrow> Some (Inl e, tr')
      | (Inr (pid, expected, receipt), tr') \<Rightarrow>
          (case await_at_least fuel (deposit_spot_balance to_text w c b pid) expected tr' of
             None \<Rightarrow> None
           | Some (Inl e, tr'') \<Rightarrow> Some (Inl e, tr'')
           | Some (Inr _, tr'') \<Rightarrow>
               Some (call_bind (pause_secs (Some (unwrap_or 0 (xu_risk_check_sleep_secs b)))) (\<lambda>_. returns receipt) tr'')))"

text \<open>The insurance: a deposit in the quote's decimals, waited for in 18 decimals, sent as a slow transaction.\<close>

definition slow_mode_fee :: u128 where "slow_mode_fee = 1000000"

record slow_mode_params =
  sm_tx :: bytes
  sm_mints_fee :: bool
  sm_approves_fee :: bool
  sm_erc20_sleep_secs :: "u64 option"
  sm_gas_price :: "u128 option"

definition submit_slow_mode_tx :: "'w world \<Rightarrow> 'w nado_client \<Rightarrow> slow_mode_params \<Rightarrow> bytes option call" where
  "submit_slow_mode_tx w c p =
     call_bind
       (if sm_mints_fee p then
          call_bind (mint_mock_erc20 w c 0 slow_mode_fee) (\<lambda>_. pause_secs (sm_erc20_sleep_secs p))
        else returns ()) (\<lambda>_.
     call_bind
       (if sm_approves_fee p then
          call_bind (approve_endpoint_allowance w c 0 slow_mode_fee) (\<lambda>_. pause_secs (sm_erc20_sleep_secs p))
        else returns ()) (\<lambda>_.
     call_bind (lift_res (client_wallet c)) (\<lambda>_.
       send_chain w (Sent_SlowMode (endpoint_addr c) (sm_tx p) (sm_gas_price p)))))"

record slow_mode_builder =
  wm_tx :: "bytes option"
  wm_mints_fee :: "bool option"
  wm_approves_fee :: "bool option"
  wm_sleep_secs :: "u64 option"
  wm_erc20_sleep_secs :: "u64 option"
  wm_gas_price :: "u128 option"

text \<open>The encoding of a transaction's body is a library's.\<close>

definition withdraw_collateral_tx ::
  "(withdraw_collateral \<Rightarrow> bytes) \<Rightarrow> withdraw_collateral \<Rightarrow> slow_mode_builder \<Rightarrow> slow_mode_builder" where
  "withdraw_collateral_tx encode tx b = b\<lparr>wm_tx := Some (tagged_tx Tx_WithdrawCollateral (encode tx))\<rparr>"

definition liquidate_subaccount_tx ::
  "(liquidate_subaccount \<Rightarrow> bytes) \<Rightarrow> liquidate_subaccount \<Rightarrow> slow_mode_builder \<Rightarrow> slow_mode_builder" where
  "liquidate_subaccount_tx encode tx b = b\<lparr>wm_tx := Some (tagged_tx Tx_LiquidateSubaccount (encode tx))\<rparr>"

definition build_slow_mode :: "slow_mode_builder \<Rightarrow> string + slow_mode_params" where
  "build_slow_mode b =
     res_bind (field_var ''tx'' (wm_tx b)) (\<lambda>tx.
       Ok \<lparr>sm_tx = tx, sm_mints_fee = unwrap_or False (wm_mints_fee b),
           sm_approves_fee = unwrap_or True (wm_approves_fee b), sm_erc20_sleep_secs = wm_erc20_sleep_secs b,
           sm_gas_price = wm_gas_price b\<rparr>)"

definition slow_mode_execute_and_sleep :: "'w world \<Rightarrow> 'w nado_client \<Rightarrow> slow_mode_builder \<Rightarrow> bytes option call" where
  "slow_mode_execute_and_sleep w c b =
     call_bind (lift_res (build_slow_mode b)) (\<lambda>p.
     call_bind (submit_slow_mode_tx w c p) (\<lambda>receipt.
     call_bind (pause_secs (Some (unwrap_or 10 (wm_sleep_secs b)))) (\<lambda>_. returns receipt)))"

record insurance_builder =
  zu_amount :: "u128 option"
  zu_mints_tokens :: "bool option"
  zu_approves_allowance :: "bool option"
  zu_erc20_sleep_secs :: "u64 option"
  zu_gas_price :: "u128 option"

definition build_insurance :: "(u128 \<Rightarrow> bytes) \<Rightarrow> insurance_builder \<Rightarrow> string + slow_mode_params" where
  "build_insurance encode b =
     res_bind (field_var ''amount'' (zu_amount b)) (\<lambda>amount.
       Ok \<lparr>sm_tx = tagged_tx Tx_DepositInsurance (encode amount), sm_mints_fee = False, sm_approves_fee = False,
           sm_erc20_sleep_secs = zu_erc20_sleep_secs b, sm_gas_price = zu_gas_price b\<rparr>)"

definition insurance_erc20 :: "'w world \<Rightarrow> 'w nado_client \<Rightarrow> insurance_builder \<Rightarrow> unit call" where
  "insurance_erc20 w c b =
     call_bind (lift_res (field_var ''amount'' (zu_amount b))) (\<lambda>amount.
     let secs = Some (unwrap_or 0 (zu_erc20_sleep_secs b)) in
     call_bind
       (if unwrap_or False (zu_mints_tokens b) then
          call_bind (mint_mock_erc20 w c 0 amount) (\<lambda>_. pause_secs secs) else returns ()) (\<lambda>_.
     if unwrap_or False (zu_approves_allowance b) then
       call_bind (approve_endpoint_allowance w c 0 amount) (\<lambda>_. pause_secs secs) else returns ()))"

definition insurance_expected :: "'w world \<Rightarrow> 'w nado_client \<Rightarrow> insurance_builder \<Rightarrow> i128 call" where
  "insurance_expected w c b =
     call_bind (lift_res (field_var ''amount'' (zu_amount b))) (\<lambda>amount.
     call_bind (lift_option ''attempt to multiply with overflow'' (to_i128_x18 (tdiv (sint amount) 1000000))) (\<lambda>x.
     call_bind (get_insurance w c) (\<lambda>pre.
       lift_option ''attempt to add with overflow'' (chk_i128 (pre + x)))))"

definition insurance_deposit_and_await ::
  "nat \<Rightarrow> (u128 \<Rightarrow> bytes) \<Rightarrow> 'w world \<Rightarrow> 'w nado_client \<Rightarrow> insurance_builder \<Rightarrow> sent list \<Rightarrow>
     ((sdk_error + bytes option) \<times> sent list) option" where
  "insurance_deposit_and_await fuel encode w c b tr =
     (case call_bind (insurance_expected w c b) (\<lambda>expected.
             call_bind (insurance_erc20 w c b) (\<lambda>_.
             call_bind (lift_res (build_insurance encode b)) (\<lambda>p.
             call_bind (submit_slow_mode_tx w c p) (\<lambda>receipt. returns (expected, receipt))))) tr of
        (Inl e, tr') \<Rightarrow> Some (Inl e, tr')
      | (Inr (expected, receipt), tr') \<Rightarrow>
          (case await_at_least fuel (get_insurance w c) expected tr' of
             None \<Rightarrow> None
           | Some (Inl e, tr'') \<Rightarrow> Some (Inl e, tr'')
           | Some (Inr _, tr'') \<Rightarrow> Some (Ok receipt, tr'')))"

subsection \<open>Queries of the engine and of the trigger service\<close>

definition build_max_nlp_burnable :: "bytes option \<Rightarrow> string + engine_query" where
  "build_max_nlp_burnable sub = res_bind (field_var ''subaccount'' sub) (\<lambda>s. Ok (Q_MaxNlpBurnable s))"

definition build_max_nlp_mintable :: "bytes option \<Rightarrow> bool option \<Rightarrow> string + engine_query" where
  "build_max_nlp_mintable sub leverage =
     res_bind (field_var ''subaccount'' sub) (\<lambda>s. Ok (Q_MaxNlpMintable s (optional_bool_to_string leverage)))"

record max_order_size_builder =
  ou_subaccount :: "bytes option"
  ou_product_id :: "u32 option"
  ou_price_x18 :: "i128 option"
  ou_direction :: "direction option"
  ou_spot_leverage :: "bool option"
  ou_reduce_only :: "bool option"
  ou_isolated :: "bool option"
  ou_borrow_margin :: "bool option"

definition build_max_order_size :: "max_order_size_builder \<Rightarrow> string + engine_query" where
  "build_max_order_size b =
     res_bind (field_var ''product_id'' (ou_product_id b)) (\<lambda>pid.
     res_bind (field_var ''subaccount'' (ou_subaccount b)) (\<lambda>sub.
     res_bind (field_var ''price_x18'' (ou_price_x18 b)) (\<lambda>price.
     res_bind (field_var ''direction'' (ou_direction b)) (\<lambda>dir.
     Ok (Q_MaxOrderSize sub pid price dir (optional_bool_to_string (ou_spot_leverage b))
           (optional_bool_to_string (ou_reduce_only b)) (optional_bool_to_string (ou_isolated b))
           (optional_bool_to_string (ou_borrow_margin b)))))))"

definition build_max_withdrawable :: "bytes option \<Rightarrow> u32 option \<Rightarrow> bool option \<Rightarrow> string + engine_query" where
  "build_max_withdrawable sub pid leverage =
     res_bind (field_var ''product_id'' pid) (\<lambda>p.
     res_bind (field_var ''subaccount'' sub) (\<lambda>s. Ok (Q_MaxWithdrawable s p (optional_bool_to_string leverage))))"

definition build_nlp_locked_balances :: "bytes option \<Rightarrow> string + engine_query" where
  "build_nlp_locked_balances sub = res_bind (field_var ''subaccount'' sub) (\<lambda>s. Ok (Q_NlpLockedBalances s))"

definition build_nlp_pool_info :: "string + engine_query" where
  "build_nlp_pool_info = Ok Q_NlpPoolInfo"

definition build_list_twap :: "bytes option \<Rightarrow> string + trigger_query" where
  "build_list_twap digest = res_bind (field_var ''digest'' digest) (\<lambda>d. Ok (Tq_ListTwapExecutions d))"

record list_triggers_builder =
  gu_recv_time :: "u64 option"
  gu_product_ids :: "u32 list option"
  gu_trigger_types :: "trigger_type list option"
  gu_status_types :: "trigger_status_type list option"
  gu_linked_sender :: "bytes option"
  gu_pending :: "bool option"
  gu_digests :: "bytes list option"
  gu_max_digest :: "bytes option"
  gu_max_update_time :: "u64 option"
  gu_limit :: "u32 option"
  gu_reduce_only :: "bool option"

text \<open>Asking for the pending orders and for kinds of status at once is a panic.\<close>

definition build_list_triggers ::
  "(list_trigger_orders \<Rightarrow> eip712_domain \<Rightarrow> bytes) \<Rightarrow> 'w world \<Rightarrow> 'w nado_client \<Rightarrow> u64 \<Rightarrow> list_triggers_builder \<Rightarrow>
     trigger_query call" where
  "build_list_triggers digest w c now b =
     call_bind (lift_res (sender_of w c (gu_linked_sender b))) (\<lambda>sender.
     let tx = \<lparr>lt_sender = sender, lt_recvTime = unwrap_or (default_recv_time now) (gu_recv_time b)\<rparr> in
     call_bind (lift_res (endpoint_signature w c (digest tx))) (\<lambda>signature.
     call_bind
       (if unwrap_or False (gu_pending b) then
          (if gu_status_types b = None then returns (Some pending_types)
           else lift_option ''should not specify status_types when pending is true'' None)
        else returns (gu_status_types b)) (\<lambda>status_types.
     returns (Tq_ListTriggerOrders
       \<lparr>tl_tx = tx, tl_signature = signature, tl_product_ids = gu_product_ids b,
        tl_trigger_types = gu_trigger_types b, tl_status_types = status_types,
        tl_max_update_time = gu_max_update_time b, tl_max_digest = gu_max_digest b, tl_digests = gu_digests b,
        tl_limit = gu_limit b, tl_reduce_only = gu_reduce_only b\<rparr>))))"

subsection \<open>Queries of the archive\<close>

definition build_account_snapshots ::
  "bytes list option \<Rightarrow> u64 list option \<Rightarrow> bool option \<Rightarrow> bool option \<Rightarrow> string + archive_query" where
  "build_account_snapshots subs stamps isolated active =
     res_bind (field_var ''subaccounts'' subs) (\<lambda>s.
     res_bind (field_var ''timestamps'' stamps) (\<lambda>t. Ok (Aq_AccountSnapshots s t isolated active)))"

definition build_candlesticks :: "u32 option \<Rightarrow> u32 option \<Rightarrow> u64 option \<Rightarrow> u32 option \<Rightarrow> string + archive_query" where
  "build_candlesticks pid granularity max_time limit =
     res_bind (field_var ''product_id'' pid) (\<lambda>p.
     res_bind (field_var ''granularity'' granularity) (\<lambda>g. Ok (Aq_Candlesticks p g max_time limit)))"

record archive_builder =
  hu_subaccounts :: "bytes list option"
  hu_product_ids :: "u32 list option"
  hu_event_types :: "tx_type list option"
  hu_trigger_types :: "trigger_type list option"
  hu_digests :: "bytes list option"
  hu_max_time :: "u64 option"
  hu_idx :: "u64 option"
  hu_isolated :: "bool option"

definition build_events :: "archive_builder \<Rightarrow> event_limit option \<Rightarrow> bool option \<Rightarrow> string + archive_query" where
  "build_events b limit desc =
     Ok (Aq_Events (hu_subaccounts b) (hu_product_ids b) (hu_event_types b) (hu_max_time b) limit (hu_idx b) desc
           (hu_isolated b))"

definition build_historical_orders :: "archive_builder \<Rightarrow> u32 option \<Rightarrow> string + archive_query" where
  "build_historical_orders b limit =
     (if hu_subaccounts b = None \<and> hu_digests b = None then
        Err ''historical orders: subaccounts or digests must be set''
      else
        Ok (Aq_Orders (hu_subaccounts b) (hu_product_ids b) (hu_digests b) (hu_max_time b) limit (hu_idx b)
              (hu_isolated b) (hu_trigger_types b)))"

definition build_matches :: "archive_builder \<Rightarrow> u32 option \<Rightarrow> string + archive_query" where
  "build_matches b limit =
     Ok (Aq_Matches (hu_subaccounts b) (hu_product_ids b) (hu_max_time b) limit (hu_idx b) (hu_isolated b))"

definition build_interest_and_funding ::
  "bytes option \<Rightarrow> u32 list option \<Rightarrow> u64 option \<Rightarrow> u64 option \<Rightarrow> u32 option \<Rightarrow> string + archive_query" where
  "build_interest_and_funding sub pids max_idx max_time limit =
     res_bind (field_var ''subaccount'' sub) (\<lambda>s.
     res_bind (field_var ''product_ids'' pids) (\<lambda>p.
     res_bind (field_var ''limit'' limit) (\<lambda>l. Ok (Aq_InterestAndFunding s p max_idx max_time l))))"

definition build_leaderboard ::
  "u32 option \<Rightarrow> leaderboard_type option \<Rightarrow> u64 option \<Rightarrow> u64 option \<Rightarrow> string + archive_query" where
  "build_leaderboard contest rank start limit =
     res_bind (field_var ''contest_id'' contest) (\<lambda>i.
     res_bind (field_var ''rank_type'' rank) (\<lambda>r. Ok (Aq_Leaderboard i r start limit)))"

definition build_market_snapshots ::
  "u64 option \<Rightarrow> u64 option \<Rightarrow> u32 list option \<Rightarrow> u64 option \<Rightarrow> string + archive_query" where
  "build_market_snapshots max_time granularity pids samples =
     res_bind (field_var ''granularity'' granularity) (\<lambda>g.
     res_bind (field_var ''count'' samples) (\<lambda>n.
     Ok (Aq_MarketSnapshots \<lparr>iv_count = n, iv_granularity = g, iv_max_time = max_time\<rparr> pids)))"

text \<open>The assertion on both kinds of time stands where one of them is known to be missing.\<close>

definition build_multi_product_snapshots ::
  "u32 list option \<Rightarrow> u64 option \<Rightarrow> u64 list option \<Rightarrow> (string + archive_query) option" where
  "build_multi_product_snapshots pids max_time stamps =
     (case field_var ''product_ids'' pids of
        Inl e \<Rightarrow> Some (Err e)
      | Inr p \<Rightarrow>
          (let by_max = map_option Ts_Timestamp max_time in
           if by_max = None then
             (case stamps of
                None \<Rightarrow> Some (Ok (Aq_ProductSnapshots p None))
              | Some ts \<Rightarrow>
                  if max_time = None then Some (Ok (Aq_ProductSnapshots p (Some (Ts_Timestamps ts)))) else None)
           else Some (Ok (Aq_ProductSnapshots p by_max))))"

definition build_nlp_funding_payments :: "u64 option \<Rightarrow> u64 option \<Rightarrow> u32 option \<Rightarrow> string + archive_query" where
  "build_nlp_funding_payments max_idx max_time limit =
     res_bind (field_var ''limit'' limit) (\<lambda>l. Ok (Aq_NlpFundingPayments max_idx max_time l))"

definition build_nlp_interest_payments :: "u64 option \<Rightarrow> u64 option \<Rightarrow> u32 option \<Rightarrow> string + archive_query" where
  "build_nlp_interest_payments max_idx max_time limit =
     res_bind (field_var ''limit'' limit) (\<lambda>l. Ok (Aq_NlpInterestPayments max_idx max_time l))"

definition build_nlp_snapshots ::
  "u64 option \<Rightarrow> u64 option \<Rightarrow> u64 option \<Rightarrow> u64 option \<Rightarrow> u32 option \<Rightarrow> string + archive_query" where
  "build_nlp_snapshots max_time granularity samples idx limit =
     Ok (Aq_NlpSnapshots
           (case (granularity, samples) of
              (Some g, Some n) \<Rightarrow> Some \<lparr>iv_count = n, iv_granularity = g, iv_max_time = max_time\<rparr>
            | _ \<Rightarrow> None) idx max_time limit)"

definition build_product_snapshots ::
  "u32 option \<Rightarrow> u64 option \<Rightarrow> u32 option \<Rightarrow> u64 option \<Rightarrow> string + archive_query" where
  "build_product_snapshots pid max_time limit idx =
     res_bind (field_var ''product_id'' pid) (\<lambda>p. Ok (Aq_Products p max_time limit idx))"

definition build_subaccounts :: "bytes option \<Rightarrow> u64 option \<Rightarrow> u64 option \<Rightarrow> string + archive_query" where
  "build_subaccounts address start limit = Ok (Aq_Subaccounts address start limit)"

definition build_trades :: "string option \<Rightarrow> u64 option \<Rightarrow> u32 option \<Rightarrow> string + v2_query" where
  "build_trades ticker max_trade_id limit =
     res_bind (field_var ''ticker_id'' ticker) (\<lambda>t. Ok (V2_Trades t max_trade_id limit))"

text \<open>When both kinds of time are set, the list of times is dropped and nothing is reported.\<close>

lemma both_times_drops_list:
  "build_multi_product_snapshots (Some pids) (Some t) (Some ts) = build_multi_product_snapshots (Some pids) (Some t) None"
  "build_multi_product_snapshots (Some pids) (Some t) (Some ts) \<noteq> None"
  by (simp_all add: build_multi_product_snapshots_def field_var_def Let_def)

subsection \<open>What building and sending establish\<close>

lemma prepared_Ok:
  "prepared w c linked_sender nonce message tr = (Ok m, tr') \<longleftrightarrow>
     (\<exists>sender n. sender_of w c linked_sender = Ok sender \<and> next_tx_nonce w c (take 20 sender) tr = (Ok n, tr') \<and>
       message sender (unwrap_or n nonce) = Ok m)"
  by (auto simp: prepared_def call_bind_Ok lift_res_def tx_nonce_def returns_def)

lemma next_tx_nonce_asks:
  "snd (next_tx_nonce w c a tr) = tr @ [Sent_Query (nc_gateway_url c @ ''/query'') (Q_Nonces a)]"
  using ask_sends_once [of w c "Q_Nonces a" "''Nonces''" "\<lambda>d. case d of Qd_Nonces r \<Rightarrow> Some r | _ \<Rightarrow> None" tr]
  by (auto simp: next_tx_nonce_def get_nonces_def call_defs split: prod.splits sum.splits)

lemma prepared_asks:
  assumes "sender_of w c linked_sender = Ok sender"
  shows "snd (prepared w c linked_sender nonce message tr) =
    tr @ [Sent_Query (nc_gateway_url c @ ''/query'') (Q_Nonces (take 20 sender))]"
  using next_tx_nonce_asks [of w c "take 20 sender" tr] assms
  by (auto simp: prepared_def tx_nonce_def call_defs split: prod.splits sum.splits)

text \<open>A builder that was given its nonce fails all the same when the exchange does not answer.\<close>

lemma given_nonce_still_asks:
  assumes "sender_of w c linked_sender = Ok sender"
    and "wo_query w (length tr) (nc_gateway_url c @ ''/query'') (Q_Nonces (take 20 sender)) = Err e"
  shows "fst (prepared w c linked_sender (Some n) message tr) = Inl (Sdk_Error e)"
  using assms
  by (simp add: prepared_def tx_nonce_def next_tx_nonce_def get_nonces_def ask_def query_def call_defs Let_def)

text \<open>The wait ends with the first answer that reaches what is expected, and not before.\<close>

lemma await_at_least_ends:
  assumes shape: "\<And>tr. balance tr = (answer (length tr), tr @ [q])"
  shows "\<forall>i<k. \<exists>x<expected. answer (length tr + 2 * i) = Ok x \<Longrightarrow> answer (length tr + 2 * k) = Ok x \<Longrightarrow>
    expected \<le> x \<Longrightarrow> k < fuel \<Longrightarrow>
    await_at_least fuel balance expected tr = Some (Ok (), tr @ concat (replicate k [q, Sent_Pause 500]) @ [q])"
proof (induction k arbitrary: tr fuel)
  case 0
  then show ?case by (cases fuel) (simp_all add: shape)
next
  case (Suc k)
  obtain y where y: "y < expected" "answer (length tr) = Ok y" using Suc.prems(1) by fastforce
  let ?tr = "tr @ [q, Sent_Pause 500]"
  have "\<forall>i<k. \<exists>x<expected. answer (length ?tr + 2 * i) = Ok x"
  proof (intro allI impI)
    fix i assume "i < k"
    then have "\<exists>x<expected. answer (length tr + 2 * Suc i) = Ok x" using Suc.prems(1) Suc_less_eq by blast
    then show "\<exists>x<expected. answer (length ?tr + 2 * i) = Ok x" by simp
  qed
  moreover have "answer (length ?tr + 2 * k) = Ok x" using Suc.prems(2) by simp
  moreover obtain f where f: "fuel = Suc f" "k < f" using Suc.prems(4) by (cases fuel) simp_all
  ultimately have "await_at_least f balance expected ?tr =
      Some (Ok (), ?tr @ concat (replicate k [q, Sent_Pause 500]) @ [q])"
    using Suc.IH [of ?tr f] Suc.prems(3) by blast
  then show ?case using y shape [of tr] by (simp add: f)
qed

lemma await_at_least_goes_on:
  assumes "\<And>tr. balance tr = (answer (length tr), tr @ [q])" "\<And>n. \<exists>x<expected. answer n = Ok x"
  shows "await_at_least fuel balance expected tr = None"
proof (induction fuel arbitrary: tr)
  case (Suc fuel)
  obtain x where "x < expected" "answer (length tr) = Ok x" using assms(2) by blast
  then show ?case using Suc.IH assms(1) by simp
qed simp

text \<open>A deposit's transactions go out in their order, each only after the one before it succeeded.\<close>

fun on_chain :: "sent \<Rightarrow> bool" where
  "on_chain (Sent_Mint t a n) = True"
| "on_chain (Sent_Approve t s n g) = True"
| "on_chain (Sent_Deposit e n p a g) = True"
| "on_chain (Sent_DepositReferral e n p a r g) = True"
| "on_chain (Sent_SlowMode e t g) = True"
| "on_chain s = False"

lemma get_token_address_sends:
  "get_token_address w c pid tr = (Ok token, tr') \<Longrightarrow> filter on_chain tr' = filter on_chain tr"
  using ask_sends_once [of w c Q_AllProducts "''AllProducts''" "\<lambda>d. case d of Qd_AllProducts r \<Rightarrow> Some r | _ \<Rightarrow> None" tr]
  by (auto simp: get_token_address_def get_all_products_def call_bind_Ok lift_res_def)

lemma approve_sends:
  assumes "approve_with_gas_price w c spender pid amount gas tr = (Ok r, tr')"
  shows "\<exists>token. filter on_chain tr' = filter on_chain tr @ [Sent_Approve token spender amount gas]"
  using assms
  by (auto simp: approve_with_gas_price_def erc20_client_def call_bind_Ok send_chain_def send_out_def lift_res_def
      returns_def dest!: get_token_address_sends)

lemma mint_sends:
  assumes "mint_mock_erc20 w c pid amount tr = (Ok r, tr')"
  shows "\<exists>token address. client_address w c = Ok address \<and>
    filter on_chain tr' = filter on_chain tr @ [Sent_Mint token address amount]"
  using assms
  by (auto simp: mint_mock_erc20_def erc20_client_def call_bind_Ok send_chain_def send_out_def lift_res_def
      returns_def dest!: get_token_address_sends)

lemma pause_sends: "pause_secs secs tr = (r, tr') \<Longrightarrow> r = Ok () \<and> filter on_chain tr' = filter on_chain tr"
  by (auto simp: pause_secs_def pause_ms_def returns_def split: option.splits)

lemma deposit_collateral_order:
  assumes "deposit_collateral w c p tr = (Ok r, tr')"
  shows "\<exists>minted approved deposited. filter on_chain tr' = filter on_chain tr @ minted @ approved @ [deposited] \<and>
    (if de_mints_tokens p then \<exists>t a. minted = [Sent_Mint t a (de_amount p)] else minted = []) \<and>
    (if de_approves_allowance p
     then \<exists>t. approved = [Sent_Approve t (endpoint_addr c) (de_amount p) (de_gas_price p)] else approved = []) \<and>
    deposited = (case de_referral_code p of
       Some code \<Rightarrow> Sent_DepositReferral (endpoint_addr c) (de_subaccount p) (de_product_id p) (de_amount p) code (de_gas_price p)
     | None \<Rightarrow> Sent_Deposit (endpoint_addr c) (drop 20 (de_subaccount p)) (de_product_id p) (de_amount p) (de_gas_price p))"
proof -
  obtain u1 u2 tr1 tr2 where mint: "(if de_mints_tokens p then
          call_bind (mint_mock_erc20 w c (de_product_id p) (de_amount p)) (\<lambda>_. pause_secs (de_erc20_sleep_secs p))
        else returns ()) tr = (Ok u1, tr1)"
    and approve: "(if de_approves_allowance p then
          call_bind (approve_with_gas_price w c (endpoint_addr c) (de_product_id p) (de_amount p) (de_gas_price p))
            (\<lambda>_. pause_secs (de_erc20_sleep_secs p))
        else returns ()) tr1 = (Ok u2, tr2)"
    and dep: "endpoint_deposit_call w c p tr2 = (Ok r, tr')"
    using assms unfolding deposit_collateral_def call_bind_Ok by blast
  have m: "\<exists>minted. filter on_chain tr1 = filter on_chain tr @ minted \<and>
      (if de_mints_tokens p then \<exists>t a. minted = [Sent_Mint t a (de_amount p)] else minted = [])"
    using mint by (auto simp: call_bind_Ok returns_def split: if_splits dest!: pause_sends mint_sends)
  have a: "\<exists>approved. filter on_chain tr2 = filter on_chain tr1 @ approved \<and>
      (if de_approves_allowance p
       then \<exists>t. approved = [Sent_Approve t (endpoint_addr c) (de_amount p) (de_gas_price p)] else approved = [])"
    using approve by (auto simp: call_bind_Ok returns_def split: if_splits dest!: pause_sends approve_sends)
  have "filter on_chain tr' = filter on_chain tr2 @ [case de_referral_code p of
       Some code \<Rightarrow> Sent_DepositReferral (endpoint_addr c) (de_subaccount p) (de_product_id p) (de_amount p) code (de_gas_price p)
     | None \<Rightarrow> Sent_Deposit (endpoint_addr c) (drop 20 (de_subaccount p)) (de_product_id p) (de_amount p) (de_gas_price p)]"
    using dep by (auto simp: endpoint_deposit_call_def call_bind_Ok lift_res_def send_chain_def send_out_def split: option.splits)
  then show ?thesis using m a by (metis append_assoc)
qed

text \<open>An order built with its digest carries the digest it was signed over.\<close>

lemma built_place_signed:
  assumes "build_place ex w c now random random_digest b = Some (Ok po)" "unwrap_or False (pl_mock b) = False"
  shows "\<exists>d. order_domain ex c (po_product_id po) = Ok d \<and>
    po_digest po = Some (get_eip712_digest ex (P_Order (po_order po)) d) \<and>
    order_signature ex w c (po_product_id po) (get_eip712_digest ex (P_Order (po_order po))) = Ok (po_signature po) \<and>
    placing_order w c now random b = Some (Ok (po_order po))"
  using assms
  by (auto simp: build_place_def res_bind_Inr_iff place_signature_def place_digest_def field_var_def split: if_splits)

end
