(* ===== verification/ClientGateway.thy ===== *)
theory ClientGateway
  imports SdkBuilders
begin

text \<open>
  The SDK's client in front of the execution gateway: both sides name the same domains, hash the same
  message and expect the same 65 bytes, so what the client builds and signs the gateway forwards. The
  gateway is that of the theory ExecutionGateway, the client that of SdkBuilders; they share the record of outside code.
\<close>

subsection \<open>What the client may do\<close>

datatype (plugins only: code size) client_action =
    Act_Withdraw withdraw_collateral_builder
  | Act_Mint mint_nlp_builder
  | Act_Burn burn_nlp_builder
  | Act_Transfer transfer_quote_builder
  | Act_Liquidate liquidate_builder
  | Act_Link link_signer_builder
  | Act_Cancel u64 u64 cancellation_builder
  | Act_CancelProducts u64 u64 cancel_products_builder
  | Act_Place u64 u64 bytes place_builder
  | Act_CancelPlace u64 u64 cancellation_builder u64 u64 bytes place_builder bool

definition ignore_answer :: "'a call \<Rightarrow> unit call" where
  "ignore_answer m = call_bind m (\<lambda>_. returns ())"

fun run_action :: "'r externals \<Rightarrow> 'w world \<Rightarrow> 'w nado_client \<Rightarrow> client_action \<Rightarrow> unit call" where
  "run_action ex w c (Act_Withdraw b) = execute_withdraw ex w c b"
| "run_action ex w c (Act_Mint b) = execute_mint ex w c b"
| "run_action ex w c (Act_Burn b) = execute_burn ex w c b"
| "run_action ex w c (Act_Transfer b) = execute_transfer ex w c b"
| "run_action ex w c (Act_Liquidate b) = execute_liquidate ex w c b"
| "run_action ex w c (Act_Link b) = execute_link ex w c b"
| "run_action ex w c (Act_Cancel now random b) = ignore_answer (execute_cancellation ex w c now random b)"
| "run_action ex w c (Act_CancelProducts now random b) = ignore_answer (execute_cancel_products ex w c now random b)"
| "run_action ex w c (Act_Place now random digest b) = ignore_answer (execute_place ex w c now random digest b)"
| "run_action ex w c (Act_CancelPlace now random cb now' random' digest b unfilled) =
     call_bind (settled_call (build_cancellation w c now random cb)) (\<lambda>tx.
     call_bind (settled_call (build_place ex w c now' random' digest b)) (\<lambda>po.
     ignore_answer (cancel_and_place ex w c tx po unfilled)))"

text \<open>The sender that was set, if one was.\<close>

fun action_sender :: "client_action \<Rightarrow> bytes option" where
  "action_sender (Act_Withdraw b) = wu_linked_sender b"
| "action_sender (Act_Mint b) = mu_linked_sender b"
| "action_sender (Act_Burn b) = bu_linked_sender b"
| "action_sender (Act_Transfer b) = tu_linked_sender b"
| "action_sender (Act_Liquidate b) = lu_linked_sender b"
| "action_sender (Act_Link b) = None"
| "action_sender (Act_Cancel _ _ b) = cu_linked_sender b"
| "action_sender (Act_CancelProducts _ _ b) = du_linked_sender b"
| "action_sender (Act_Place _ _ _ b) = ob_linked_sender b"
| "action_sender (Act_CancelPlace _ _ cb _ _ _ _ _) = cu_linked_sender cb"

text \<open>An order that is really signed: the builder can also make one with a mock signature, for the SDK's own tests.\<close>

fun really_signed :: "client_action \<Rightarrow> bool" where
  "really_signed (Act_Place _ _ _ b) \<longleftrightarrow> unwrap_or False (pl_mock b) = False"
| "really_signed (Act_CancelPlace _ _ _ _ _ _ b _) \<longleftrightarrow> unwrap_or False (pl_mock b) = False"
| "really_signed _ \<longleftrightarrow> True"

text \<open>
  The gateway offers an order by its flags: the kind of order, which is the explicit appendix's (the appendix 1 where
  there is none) together with the builder's, is not fill-or-kill, and the appendix names no trigger.
\<close>

definition flags_accepted :: "place_builder \<Rightarrow> bool" where
  "flags_accepted b \<longleftrightarrow> (let a = unwrap_or 1 (ob_appendix b) in
     take_bit 2 (drop_bit 9 a) OR order_type_code (unwrap_or Default (ob_order_type b)) \<noteq> 2 \<and>
     take_bit 2 (drop_bit 12 a) = 0)"

text \<open>Cancelling and placing must be for the same sender.\<close>

fun accepted_action :: "'w world \<Rightarrow> 'w nado_client \<Rightarrow> client_action \<Rightarrow> bool" where
  "accepted_action w c (Act_Place _ _ _ b) \<longleftrightarrow> flags_accepted b"
| "accepted_action w c (Act_CancelPlace _ _ cb _ _ _ b _) \<longleftrightarrow>
     flags_accepted b \<and> sender_of w c (cu_linked_sender cb) = sender_of w c (ob_linked_sender b)"
| "accepted_action w c _ \<longleftrightarrow> True"

text \<open>The client's wallet signs on the network the contracts name, and its signatures are recovered to its address.\<close>

definition signs_for :: "'r externals \<Rightarrow> 'w world \<Rightarrow> 'w nado_client \<Rightarrow> 'w \<Rightarrow> contracts_info \<Rightarrow> bool" where
  "signs_for ex w c x ci \<longleftrightarrow>
     nc_wallet c = Some x \<and> nc_chain_id c = Some (ci_chain_id ci) \<and> endpoint_addr c = ci_endpoint_addr ci \<and>
     (\<forall>h s. wo_sign_hash w x h = Ok s \<longrightarrow>
        length s = 65 \<and> (\<exists>sg. ex_signature ex s = Ok sg \<and> ex_recover ex sg h = Ok (wo_address w x)))"

definition endorsed ::
  "'r externals \<Rightarrow> 'w world \<Rightarrow> 'w nado_client \<Rightarrow> contracts_info \<Rightarrow> bytes \<Rightarrow> engine_execute \<Rightarrow> bool" where
  "endorsed ex w c ci sender e \<longleftrightarrow>
     (\<forall>part\<in>set (engine_parts ex ci e). case part of (p, s, d) \<Rightarrow>
        payload_sender p = sender \<and> sign_with_domain w c (get_eip712_digest ex p) d = Ok s)"

lemma endorsed_signed:
  assumes client: "signs_for ex w c x ci" and endorsed: "endorsed ex w c ci sender e"
    and session: "take 20 sender = session"
    and signer: "wo_address w x = session \<or> \<not> is_zero_address (wo_address w x) \<and> linked sender = wo_address w x"
  shows "\<forall>part\<in>set (engine_parts ex ci e). signed_for ex linked session part"
proof
  fix part assume part: "part \<in> set (engine_parts ex ci e)"
  obtain p s d where psd: "part = (p, s, d)" by (cases part)
  have p: "payload_sender p = sender" and s: "sign_with_domain w c (get_eip712_digest ex p) d = Ok s"
    using endorsed part by (auto simp: endorsed_def psd)
  have "wo_sign_hash w x (get_eip712_digest ex p d) = Ok s"
    using s client by (simp add: sign_with_domain_def client_wallet_def signs_for_def)
  then have "recover_typed_signer ex p s d = Ok (wo_address w x)"
    using client unfolding signs_for_def recover_Ok_iff by blast
  then show "signed_for ex linked session part"
    using signer session p by (auto simp: psd signed_for_def owner_from_subaccount_def)
qed

subsection \<open>What goes out\<close>

lemma sent_bind:
  assumes "Sent_Execute url e \<in> set (snd (call_bind m f tr))"
  shows "Sent_Execute url e \<in> set (snd (m tr)) \<or>
    (\<exists>a tr'. m tr = (Ok a, tr') \<and> Sent_Execute url e \<in> set (snd (f a tr')))"
proof (cases "m tr")
  case (Pair r tr')
  then show ?thesis using assms by (cases r) (simp_all add: call_bind_def)
qed

lemma sent_none [simp]:
  "Sent_Execute url e \<in> set (snd (lift_res r tr)) \<longleftrightarrow> Sent_Execute url e \<in> set tr"
  "Sent_Execute url e \<in> set (snd (returns a tr)) \<longleftrightarrow> Sent_Execute url e \<in> set tr"
  "Sent_Execute url e \<in> set (snd (settled_call r' tr)) \<longleftrightarrow> Sent_Execute url e \<in> set tr"
  by (simp_all add: lift_res_def returns_def settled_call_def lift_option_def split: option.splits)

lemma execute_call_sends: "snd (execute_call w c e' tr) = tr @ [Sent_Execute (nc_gateway_url c @ ''/execute'') e']"
  by (cases "wo_execute w (length tr) (nc_gateway_url c @ ''/execute'') e'")
    (simp_all add: execute_call_def call_defs response_data_def Let_def)

lemma sent_execute_call:
  assumes "Sent_Execute url e \<in> set (snd (call_bind (execute_call w c e') f tr))"
    and f: "\<And>a tr'. Sent_Execute url e \<in> set (snd (f a tr')) \<Longrightarrow> Sent_Execute url e \<in> set tr'"
  shows "Sent_Execute url e \<in> set tr \<or> e = e'"
  using sent_bind [OF assms(1)]
proof (elim disjE exE conjE)
  assume "Sent_Execute url e \<in> set (snd (execute_call w c e' tr))"
  then show ?thesis unfolding execute_call_sends set_append Un_iff by (elim disjE) simp_all
next
  fix a tr' assume run: "execute_call w c e' tr = (Ok a, tr')" and sent: "Sent_Execute url e \<in> set (snd (f a tr'))"
  from f [OF sent] have "Sent_Execute url e \<in> set tr'" .
  then have "Sent_Execute url e \<in> set (snd (execute_call w c e' tr))" by (simp only: run snd_conv)
  then show ?thesis unfolding execute_call_sends set_append Un_iff by (elim disjE) simp_all
qed

lemma sent_signed:
  assumes "Sent_Execute url e \<in> set (snd (signed ex w c p k tr))"
  shows "Sent_Execute url e \<in> set tr \<or>
    (\<exists>s. endpoint_signature w c (get_eip712_digest ex p) = Ok s \<and> Sent_Execute url e \<in> set (snd (k s tr)))"
  using sent_bind [OF assms [unfolded signed_def]] by (auto simp: lift_res_def)

lemma sent_send_signed:
  assumes "Sent_Execute url e \<in> set (snd (send_signed ex w c p request tr))"
  shows "Sent_Execute url e \<in> set tr \<or> (\<exists>s. endpoint_signature w c (get_eip712_digest ex p) = Ok s \<and> e = request s)"
  using sent_signed [OF assms [unfolded send_signed_def]] by (auto dest!: sent_execute_call)

lemma sent_prepared:
  "Sent_Execute url e \<in> set (snd (prepared w c linked_sender nonce message tr)) \<longleftrightarrow> Sent_Execute url e \<in> set tr"
proof (cases "sender_of w c linked_sender")
  case (Inl x)
  then show ?thesis by (simp add: prepared_def call_bind_def lift_res_def)
next
  case (Inr sender)
  then show ?thesis using prepared_asks [OF Inr, of nonce message tr] by simp
qed

text \<open>Building and sending a transaction: the message is the sender's, and the request carries its signature.\<close>

lemma sent_transaction:
  assumes sent: "Sent_Execute url e \<in> set (snd (call_bind build (\<lambda>m. send_signed ex w c (payload m) (request m)) []))"
    and silent: "\<And>tr. Sent_Execute url e \<in> set (snd (build tr)) \<longleftrightarrow> Sent_Execute url e \<in> set tr"
  shows "\<exists>m tr s. build [] = (Ok m, tr) \<and> endpoint_signature w c (get_eip712_digest ex (payload m)) = Ok s \<and> e = request m s"
proof -
  obtain m tr where build: "build [] = (Ok m, tr)"
      and sent': "Sent_Execute url e \<in> set (snd (send_signed ex w c (payload m) (request m) tr))"
    using sent_bind [OF sent] silent [of "[]"] by auto
  have "Sent_Execute url e \<notin> set tr" using silent [of "[]"] by (simp add: build)
  then show ?thesis using sent_send_signed [OF sent'] build by blast
qed

lemma sent_prepared_transaction:
  assumes sent: "Sent_Execute url e \<in>
      set (snd (call_bind (prepared w c linked_sender nonce message) (\<lambda>m. send_signed ex w c (payload m) (request m)) []))"
    and sender: "sender_of w c linked_sender = Ok sender"
    and message: "\<And>n m. message sender n = Ok m \<Longrightarrow> payload_sender (payload m) = sender"
  shows "\<exists>m s. payload_sender (payload m) = sender \<and>
    endpoint_signature w c (get_eip712_digest ex (payload m)) = Ok s \<and> e = request m s"
proof -
  obtain m tr s where "prepared w c linked_sender nonce message [] = (Ok m, tr)"
      "endpoint_signature w c (get_eip712_digest ex (payload m)) = Ok s" "e = request m s"
    using sent_transaction [OF sent sent_prepared] by blast
  moreover then have "payload_sender (payload m) = sender"
    using sender message unfolding prepared_Ok by auto
  ultimately show ?thesis by blast
qed

lemma endorsed_endpoint:
  assumes "signs_for ex w c x ci" "engine_parts ex ci e = [endpoint_part ci p s]"
    and "payload_sender p = sender" "endpoint_signature w c (get_eip712_digest ex p) = Ok s"
  shows "endorsed ex w c ci sender e"
  using assms
  by (simp add: endorsed_def endpoint_part_def endpoint_signature_def is_rest_client_def endpoint_signature_base_def
      endpoint_domain_def client_domain_def client_chain_id_def signs_for_def)

text \<open>The order's flags: nothing the builder adds reaches the bits of the order's kind and of its trigger.\<close>

lemma built_order_offered:
  assumes "build_order now random sub (order_builder.truncate b) = Some (Ok o')" and "ob_trigger_criteria b = None"
  shows "offered 0 o' \<longleftrightarrow> flags_accepted b"
proof -
  define t where "t = unwrap_or Default (ob_order_type b)"
  define a0 where "a0 = unwrap_or 1 (ob_appendix b)"
  have code: "small 2 (order_type_code t)" by (cases t) (auto intro!: small_lessI)
  have one: "small 1 (1 :: u128)" by (rule small_lessI) simp
  let ?b = "(order_builder.truncate b)\<lparr>ob_expiration := Some (unwrap_or 4294967295 (ob_expiration b)),
    ob_order_type := Some t, ob_reduce_only := Some (unwrap_or False (ob_reduce_only b))\<rparr>"
  obtain a where app: "ord_appendix o' = pack_builder ?b (a OR appendix_bit t)"
      and a: "pack_isolated ?b (if unwrap_or False (ob_reduce_only b) then a0 OR push_bit 11 1 else a0) = Some a"
    using assms
    by (auto simp: build_order_def order_inner_def pack_trigger_def t_def [symmetric] a0_def [symmetric]
        order_builder.truncate_def bind_eq_Some_conv res_bind_Inr_iff Let_def split: option.splits)
  note bits = field_or field_above field_one field_below [OF one]
  have a_bits: "take_bit 2 (drop_bit 9 a) = take_bit 2 (drop_bit 9 a0)"
      "take_bit 2 (drop_bit 12 a) = take_bit 2 (drop_bit 12 a0)"
    using a by (auto simp: pack_isolated_def bind_eq_Some_conv bits split: if_splits)
  have "take_bit 2 (drop_bit 9 (ord_appendix o')) = take_bit 2 (drop_bit 9 a0) OR order_type_code t"
      "take_bit 2 (drop_bit 12 (ord_appendix o')) = take_bit 2 (drop_bit 12 a0)"
    unfolding app pack_builder_def appendix_bit_def
    by (auto simp: bits a_bits field_here [OF code] field_below [OF code] split: option.split prod.split)
  then show ?thesis
    by (simp add: offered_def order_type_bits_def trigger_type_bits_def mask_forms(6) take_field flags_accepted_def
        Let_def t_def a0_def)
qed

lemma flags_of_kind: "ob_appendix b = None \<Longrightarrow> flags_accepted b \<longleftrightarrow> ob_order_type b \<noteq> Some FillOrKill"
  by (cases "ob_order_type b"; cases "the (ob_order_type b)") (simp_all add: flags_accepted_def)

lemma built_order_sender:
  "build_order now random sub b = Some (Ok o') \<Longrightarrow>
     res_bind sub (\<lambda>d. Ok (unwrap_or d (ob_linked_sender b))) = Ok (ord_sender o')"
  by (auto simp: build_order_def order_inner_def bind_eq_Some_conv res_bind_Inr_iff Let_def split: option.splits)

lemma built_place_order:
  assumes "build_place ex w c now random digest b = Some (Ok po)" "unwrap_or False (pl_mock b) = False"
  shows "offered 0 (po_order po) \<longleftrightarrow> flags_accepted b"
    and "sender_of w c (ob_linked_sender b) = Ok (ord_sender (po_order po))"
proof -
  have built: "build_order now random (client_subaccount w c) (order_builder.truncate b) = Some (Ok (po_order po))"
    using built_place_signed [OF assms] by (auto simp: placing_order_def)
  have "ob_trigger_criteria b = None" using assms(1) by (auto simp: build_place_def split: if_splits)
  then show "offered 0 (po_order po) \<longleftrightarrow> flags_accepted b" by (rule built_order_offered [OF built])
  show "sender_of w c (ob_linked_sender b) = Ok (ord_sender (po_order po))"
    using built_order_sender [OF built] by (simp add: order_builder.truncate_def sender_of_def)
qed

lemma endorsed_part:
  assumes client: "signs_for ex w c x ci"
    and built: "build_place ex w c now random digest b = Some (Ok po)" "unwrap_or False (pl_mock b) = False"
  shows "sign_with_domain w c (get_eip712_digest ex (P_Order (po_order po)))
      (sdk_domain (ci_chain_id ci) (ex_low_u64_be ex (ucast (po_product_id po)))) = Ok (po_signature po)"
proof -
  obtain d where "order_domain ex c (po_product_id po) = Ok d"
    "order_signature ex w c (po_product_id po) (get_eip712_digest ex (P_Order (po_order po))) = Ok (po_signature po)"
    using built_place_signed [OF built] by blast
  then show ?thesis
    using client
    by (simp add: order_signature_def is_rest_client_def order_signature_base_def order_domain_def client_domain_def
        client_chain_id_def signs_for_def)
qed

lemma endorsed_place:
  assumes client: "signs_for ex w c x ci"
    and built: "build_place ex w c now random digest b = Some (Ok po)" "unwrap_or False (pl_mock b) = False"
    and sender: "sender_of w c (ob_linked_sender b) = Ok sender"
  shows "endorsed ex w c ci sender (E_PlaceOrder po)"
  using endorsed_part [OF client built] built_place_order(2) [OF built] sender
  by (simp add: endorsed_def place_part_def order_part_def)

lemma endpoint_signature_part:
  assumes "signs_for ex w c x ci" "endpoint_signature w c (get_eip712_digest ex p) = Ok s"
  shows "sign_with_domain w c (get_eip712_digest ex p) (sdk_domain (ci_chain_id ci) (ci_endpoint_addr ci)) = Ok s"
  using assms
  by (simp add: endpoint_signature_def is_rest_client_def endpoint_signature_base_def endpoint_domain_def
      client_domain_def client_chain_id_def signs_for_def)

text \<open>Every request an action sends is endorsed by the client's signature.\<close>

lemma sent_cancellation:
  assumes "Sent_Execute url e \<in> set (snd (ignore_answer (call_bind (settled_call r) (cancel_orders ex w c)) []))"
  shows "\<exists>tx s. r = Some (Ok tx) \<and> endpoint_signature w c (get_eip712_digest ex (P_Cancellation tx)) = Ok s \<and>
    e = E_CancelOrders tx s"
proof -
  have "Sent_Execute url e \<in> set (snd (call_bind (settled_call r) (cancel_orders ex w c) []))"
    using sent_bind [OF assms [unfolded ignore_answer_def]] by (metis prod.sel(2) sent_none(2))
  then obtain tx where tx: "r = Some (Ok tx)" "Sent_Execute url e \<in> set (snd (cancel_orders ex w c tx []))"
    by (auto dest!: sent_bind simp: settled_call_def lift_option_def lift_res_def split: option.splits)
  have match: "Sent_Execute url e \<in> set (snd (match_cancel_orders_response a tr)) \<Longrightarrow> Sent_Execute url e \<in> set tr" for a tr
    by (auto simp: match_cancel_orders_response_def returns_def lift_res_def split: option.splits execute_data.splits)
  show ?thesis using tx sent_signed [OF tx(2) [unfolded cancel_orders_def]] by (auto dest!: sent_execute_call intro: match)
qed

lemma sent_cancel_products:
  assumes "Sent_Execute url e \<in> set (snd (ignore_answer (call_bind (settled_call r) (cancel_product_orders ex w c)) []))"
  shows "\<exists>tx s digest. r = Some (Ok tx) \<and>
    endpoint_signature w c (get_eip712_digest ex (P_CancellationProducts tx)) = Ok s \<and> e = E_CancelProductOrders tx s digest"
proof -
  have "Sent_Execute url e \<in> set (snd (call_bind (settled_call r) (cancel_product_orders ex w c) []))"
    using sent_bind [OF assms [unfolded ignore_answer_def]] by (metis prod.sel(2) sent_none(2))
  then obtain tx where tx: "r = Some (Ok tx)" "Sent_Execute url e \<in> set (snd (cancel_product_orders ex w c tx []))"
    by (auto dest!: sent_bind simp: settled_call_def lift_option_def lift_res_def split: option.splits)
  have match: "Sent_Execute url e \<in> set (snd (match_cancel_orders_response a tr)) \<Longrightarrow> Sent_Execute url e \<in> set tr" for a tr
    by (auto simp: match_cancel_orders_response_def returns_def lift_res_def split: option.splits execute_data.splits)
  obtain s where s: "endpoint_signature w c (get_eip712_digest ex (P_CancellationProducts tx)) = Ok s"
      "Sent_Execute url e \<in> set (snd (call_bind
         (lift_res (endpoint_digest c (get_eip712_digest ex (P_CancellationProducts tx)))) (\<lambda>digest.
         call_bind (execute_call w c (E_CancelProductOrders tx s (Some digest))) match_cancel_orders_response) []))"
    using sent_signed [OF tx(2) [unfolded cancel_product_orders_def]] by auto
  obtain digest where "Sent_Execute url e \<in> set (snd (call_bind (execute_call w c (E_CancelProductOrders tx s (Some digest)))
      match_cancel_orders_response []))"
    using sent_bind [OF s(2)] by (auto simp: lift_res_def)
  then have "e = E_CancelProductOrders tx s (Some digest)" by (auto dest!: sent_execute_call intro: match)
  then show ?thesis using tx(1) s(1) by blast
qed

lemma sent_place:
  assumes "Sent_Execute url e \<in> set (snd (ignore_answer (call_bind (settled_call r) (place_order_call w c)) []))"
  shows "\<exists>po. r = Some (Ok po) \<and> e = E_PlaceOrder po"
proof -
  have "Sent_Execute url e \<in> set (snd (call_bind (settled_call r) (place_order_call w c) []))"
    using sent_bind [OF assms [unfolded ignore_answer_def]] by (metis prod.sel(2) sent_none(2))
  then obtain po where po: "r = Some (Ok po)" "Sent_Execute url e \<in> set (snd (place_order_call w c po []))"
    by (auto dest!: sent_bind simp: settled_call_def lift_option_def lift_res_def split: option.splits)
  have "Sent_Execute url e \<in> set (snd (placed a tr)) \<Longrightarrow> Sent_Execute url e \<in> set tr" for a tr
    by (auto simp: placed_def returns_def lift_res_def split: option.splits execute_data.splits)
  then show ?thesis using po sent_execute_call [OF po(2) [unfolded place_order_call_def]] by auto
qed

lemma settled_sends:
  assumes "Sent_Execute url e \<in> set (snd (call_bind (settled_call r) f []))"
  shows "\<exists>a. r = Some (Ok a) \<and> Sent_Execute url e \<in> set (snd (f a []))"
  using sent_bind [OF assms] by (auto simp: settled_call_def lift_option_def lift_res_def split: option.splits)

lemma sent_cancel_place:
  assumes "Sent_Execute url e \<in> set (snd (ignore_answer (cancel_and_place ex w c tx po unfilled) []))"
  shows "\<exists>s. endpoint_signature w c (get_eip712_digest ex (P_Cancellation tx)) = Ok s \<and>
    e = E_CancelAndPlace tx s po (Some unfilled)"
proof -
  have sent: "Sent_Execute url e \<in> set (snd (cancel_and_place ex w c tx po unfilled []))"
    using sent_bind [OF assms [unfolded ignore_answer_def]] by (metis prod.sel(2) sent_none(2))
  have placed: "Sent_Execute url e \<in> set (snd (placed a tr)) \<Longrightarrow> Sent_Execute url e \<in> set tr" for a tr
    by (auto simp: placed_def returns_def lift_res_def split: option.splits execute_data.splits)
  obtain s where s: "endpoint_signature w c (get_eip712_digest ex (P_Cancellation tx)) = Ok s"
      "Sent_Execute url e \<in> set (snd (call_bind (execute_call w c (E_CancelAndPlace tx s po (Some unfilled))) placed []))"
    using sent_signed [OF sent [unfolded cancel_and_place_def]] by auto
  show ?thesis using sent_execute_call [OF s(2) placed] s(1) by auto
qed

lemma link_signer_silent: "Sent_Execute url e \<in> set (snd (build_link_signer w c b tr)) \<longleftrightarrow> Sent_Execute url e \<in> set tr"
proof (cases "client_subaccount w c")
  case (Inl x)
  then show ?thesis by (simp add: build_link_signer_def call_bind_def lift_res_def)
next
  case (Inr sender)
  then obtain a where a: "client_address w c = Ok a" by (auto simp: client_subaccount_def res_bind_Inr_iff)
  show ?thesis
    using next_tx_nonce_asks [of w c a tr] Inr a
    by (auto simp: build_link_signer_def tx_nonce_def call_defs split: prod.splits sum.splits)
qed

lemma built_link_sender: "build_link_signer w c b tr = (Ok tx, tr') \<Longrightarrow> client_subaccount w c = Ok (ls_sender tx)"
  by (auto simp: build_link_signer_def call_bind_Ok lift_res_def res_bind_Inr_iff)

lemma prepared_endorsed:
  assumes client: "signs_for ex w c x ci"
    and sent: "Sent_Execute url e \<in>
      set (snd (call_bind (prepared w c linked_sender nonce message) (\<lambda>m. send_signed ex w c (payload m) (request m)) []))"
    and sender: "sender_of w c linked_sender = Ok sender"
    and message: "\<And>n m. message sender n = Ok m \<Longrightarrow> payload_sender (payload m) = sender"
    and request: "\<And>m s. engine_parts ex ci (request m s) = [endpoint_part ci (payload m) s]"
  shows "endorsed ex w c ci sender e"
proof -
  obtain m s where "payload_sender (payload m) = sender" "endpoint_signature w c (get_eip712_digest ex (payload m)) = Ok s"
      "e = request m s"
    using sent_prepared_transaction [OF sent sender] message by blast
  then show ?thesis using request by (auto intro!: endorsed_endpoint [OF client])
qed

lemma action_endorsed:
  assumes client: "signs_for ex w c x ci" and sender: "sender_of w c (action_sender act) = Ok sender"
    and real: "really_signed act" and sent: "Sent_Execute url e \<in> set (snd (run_action ex w c act []))"
    and demands: "engine_demands e"
  shows "endorsed ex w c ci sender e"
proof (cases act)
  case (Act_Withdraw b)
  note s = sent [unfolded Act_Withdraw run_action.simps execute_withdraw_def build_withdraw_collateral_def
      withdraw_collateral_call_def]
  show ?thesis
    by (rule prepared_endorsed [OF client s sender [unfolded Act_Withdraw action_sender.simps]]) (auto simp: res_bind_Inr_iff)
next
  case (Act_Mint b)
  note s = sent [unfolded Act_Mint run_action.simps execute_mint_def build_mint_nlp_def mint_nlp_call_def]
  show ?thesis
    by (rule prepared_endorsed [OF client s sender [unfolded Act_Mint action_sender.simps]]) (auto simp: res_bind_Inr_iff)
next
  case (Act_Burn b)
  note s = sent [unfolded Act_Burn run_action.simps execute_burn_def build_burn_nlp_def burn_nlp_call_def [abs_def]]
  show ?thesis
    by (rule prepared_endorsed [OF client s sender [unfolded Act_Burn action_sender.simps]]) (auto simp: res_bind_Inr_iff)
next
  case (Act_Transfer b)
  note s = sent [unfolded Act_Transfer run_action.simps execute_transfer_def build_transfer_quote_def
      transfer_quote_call_def [abs_def]]
  show ?thesis
    by (rule prepared_endorsed [OF client s sender [unfolded Act_Transfer action_sender.simps]]) (auto simp: res_bind_Inr_iff)
next
  case (Act_Liquidate b)
  note s = sent [unfolded Act_Liquidate run_action.simps execute_liquidate_def build_liquidate_def
      liquidate_subaccount_call_def [abs_def]]
  show ?thesis
    by (rule prepared_endorsed [OF client s sender [unfolded Act_Liquidate action_sender.simps]]) (auto simp: res_bind_Inr_iff)
next
  case (Act_Link b)
  note s = sent [unfolded Act_Link run_action.simps execute_link_def link_signer_call_def [abs_def]]
  have "client_subaccount w c = Ok sender"
    using sender by (auto simp: Act_Link sender_of_def res_bind_Inr_iff)
  then show ?thesis
    using sent_transaction [OF s link_signer_silent] built_link_sender [of w c b "[]"]
    by (fastforce intro!: endorsed_endpoint [OF client])
next
  case (Act_Cancel now random b)
  note s = sent [unfolded Act_Cancel run_action.simps execute_cancellation_def]
  show ?thesis
    using sent_cancellation [OF s] sender
    by (auto simp: Act_Cancel build_cancellation_def res_bind_Inr_iff intro!: endorsed_endpoint [OF client])
next
  case (Act_CancelProducts now random b)
  note s = sent [unfolded Act_CancelProducts run_action.simps execute_cancel_products_def]
  show ?thesis
    using sent_cancel_products [OF s] sender
    by (auto simp: Act_CancelProducts build_cancellation_products_def res_bind_Inr_iff
        intro!: endorsed_endpoint [OF client])
next
  case (Act_Place now random digest b)
  note s = sent [unfolded Act_Place run_action.simps execute_place_def]
  obtain po where "build_place ex w c now random digest b = Some (Ok po)" "e = E_PlaceOrder po"
    using sent_place [OF s] by blast
  then show ?thesis using endorsed_place [OF client] real sender by (simp add: Act_Place)
next
  case (Act_CancelPlace now random cb now' random' digest b unfilled)
  note s = sent [unfolded Act_CancelPlace run_action.simps]
  obtain tx where tx: "build_cancellation w c now random cb = Some (Ok tx)"
      "Sent_Execute url e \<in> set (snd (call_bind (settled_call (build_place ex w c now' random' digest b))
         (\<lambda>po. ignore_answer (cancel_and_place ex w c tx po unfilled)) []))"
    using settled_sends [OF s] by blast
  obtain po where po: "build_place ex w c now' random' digest b = Some (Ok po)"
      "Sent_Execute url e \<in> set (snd (ignore_answer (cancel_and_place ex w c tx po unfilled) []))"
    using settled_sends [OF tx(2)] by blast
  obtain sg where e: "endpoint_signature w c (get_eip712_digest ex (P_Cancellation tx)) = Ok sg"
      "e = E_CancelAndPlace tx sg po (Some unfilled)"
    using sent_cancel_place [OF po(2)] by blast
  have mock: "unwrap_or False (pl_mock b) = False" using real by (simp add: Act_CancelPlace)
  have "cn_sender tx = sender"
    using tx(1) sender by (auto simp: Act_CancelPlace build_cancellation_def res_bind_Inr_iff)
  moreover have "ord_sender (po_order po) = cn_sender tx" using demands by (simp add: e(2))
  ultimately show ?thesis
    using endpoint_signature_part [OF client e(1)] endorsed_part [OF client po(1) mock]
    by (simp add: endorsed_def e(2) endpoint_part_def place_part_def order_part_def)
qed

text \<open>What the gateway demands of an order is what its builder decided.\<close>

lemma prepared_demands:
  assumes "Sent_Execute url e \<in>
      set (snd (call_bind (prepared w c linked_sender nonce message) (\<lambda>m. send_signed ex w c (payload m) (request m)) []))"
    and "\<And>m s. engine_demands (request m s)"
  shows "engine_demands e"
  using sent_transaction [OF assms(1) sent_prepared] assms(2) by blast

lemma action_demands:
  assumes real: "really_signed act" and sent: "Sent_Execute url e \<in> set (snd (run_action ex w c act []))"
  shows "engine_demands e \<longleftrightarrow> accepted_action w c act"
proof (cases act)
  case (Act_Withdraw b)
  note s = sent [unfolded Act_Withdraw run_action.simps execute_withdraw_def build_withdraw_collateral_def
      withdraw_collateral_call_def]
  show ?thesis using prepared_demands [OF s] by (simp add: Act_Withdraw)
next
  case (Act_Mint b)
  note s = sent [unfolded Act_Mint run_action.simps execute_mint_def build_mint_nlp_def mint_nlp_call_def]
  show ?thesis using prepared_demands [OF s] by (simp add: Act_Mint)
next
  case (Act_Burn b)
  note s = sent [unfolded Act_Burn run_action.simps execute_burn_def build_burn_nlp_def burn_nlp_call_def [abs_def]]
  show ?thesis using prepared_demands [OF s] by (simp add: Act_Burn)
next
  case (Act_Transfer b)
  note s = sent [unfolded Act_Transfer run_action.simps execute_transfer_def build_transfer_quote_def
      transfer_quote_call_def [abs_def]]
  show ?thesis using prepared_demands [OF s] by (simp add: Act_Transfer)
next
  case (Act_Liquidate b)
  note s = sent [unfolded Act_Liquidate run_action.simps execute_liquidate_def build_liquidate_def
      liquidate_subaccount_call_def [abs_def]]
  show ?thesis using prepared_demands [OF s] by (simp add: Act_Liquidate)
next
  case (Act_Link b)
  note s = sent [unfolded Act_Link run_action.simps execute_link_def link_signer_call_def [abs_def]]
  show ?thesis using sent_transaction [OF s link_signer_silent] by (auto simp: Act_Link)
next
  case (Act_Cancel now random b)
  note s = sent [unfolded Act_Cancel run_action.simps execute_cancellation_def]
  show ?thesis using sent_cancellation [OF s] by (auto simp: Act_Cancel)
next
  case (Act_CancelProducts now random b)
  note s = sent [unfolded Act_CancelProducts run_action.simps execute_cancel_products_def]
  show ?thesis using sent_cancel_products [OF s] by (auto simp: Act_CancelProducts)
next
  case (Act_Place now random digest b)
  note s = sent [unfolded Act_Place run_action.simps execute_place_def]
  obtain po where po: "build_place ex w c now random digest b = Some (Ok po)" "e = E_PlaceOrder po"
    using sent_place [OF s] by blast
  then show ?thesis using built_place_order(1) [OF po(1)] real by (simp add: Act_Place)
next
  case (Act_CancelPlace now random cb now' random' digest b unfilled)
  note s = sent [unfolded Act_CancelPlace run_action.simps]
  obtain tx where tx: "build_cancellation w c now random cb = Some (Ok tx)"
      "Sent_Execute url e \<in> set (snd (call_bind (settled_call (build_place ex w c now' random' digest b))
         (\<lambda>po. ignore_answer (cancel_and_place ex w c tx po unfilled)) []))"
    using settled_sends [OF s] by blast
  obtain po where po: "build_place ex w c now' random' digest b = Some (Ok po)"
      "Sent_Execute url e \<in> set (snd (ignore_answer (cancel_and_place ex w c tx po unfilled) []))"
    using settled_sends [OF tx(2)] by blast
  obtain sg where e: "e = E_CancelAndPlace tx sg po (Some unfilled)"
    using sent_cancel_place [OF po(2)] by blast
  have "sender_of w c (cu_linked_sender cb) = Ok (cn_sender tx)"
    using tx(1) by (auto simp: build_cancellation_def res_bind_Inr_iff split: sum.splits)
  then show ?thesis
    using built_place_order [OF po(1)] real by (auto simp: Act_CancelPlace e)
qed

subsection \<open>The gateway forwards what the client sends\<close>

text \<open>C18: the SDK's client and the execution gateway together. The client's wallet signs on the network and for the
  endpoint the exchange names, and is the session's address or the non-zero linked signer of the sender. Then, whatever
  the client runs that sends a request to the engine's execute endpoint (withdraw, mint, burn, transfer, liquidate, link a
  signer, cancel by order or by product, place an order that is not a mock, cancel and place) and whatever the exchange
  answers it, the gateway forwards each request sent, unchanged and once, except these orders, which it refuses, sending
  nothing: one of the fill-or-kill kind or with a trigger, by the explicit appendix or by the builder, and one that is
  cancelled for one sender and placed for another. Without an explicit appendix exactly the builder's fill-or-kill kind is
  refused. Requests to the trigger endpoint and orders with a mock signature are not covered.\<close>

theorem gateway_forwards_client_requests:
  assumes client: "signs_for ex w c x ci" and exchange: "ex_contracts ex = Ok ci" "steady ex linked"
    and session: "ex_parse_address ex text = Some (take 20 sender)" "sender_of w c (action_sender act) = Ok sender"
    and signer: "wo_address w x = take 20 sender \<or> \<not> is_zero_address (wo_address w x) \<and> linked sender = wo_address w x"
    and real: "really_signed act" and sent: "Sent_Execute url e \<in> set (snd (run_action ex w c act []))"
    and run: "post_execute ex gateway (Some (Some text)) e start_state = (r, st)"
  shows "(if accepted_action w c act
      then es_posts st = [(gateway @ ''/execute'', Engine_Request e)] \<and>
        r = map_err (\<lambda>m. UpstreamError (''nado execute failed: '' @ m))
              (ex_post ex (gateway @ ''/execute'') (Engine_Request e))
      else es_posts st = [] \<and> (\<exists>err. r = Err err)) \<and>
    (\<forall>now random digest b. act = Act_Place now random digest b \<and> ob_appendix b = None \<longrightarrow>
      (accepted_action w c act \<longleftrightarrow> ob_order_type b \<noteq> Some FillOrKill))"
proof -
  note cases = eng.run_cases(2) [OF run [unfolded post_execute_endpoint]]
  note demands = action_demands [OF real sent]
  have "es_posts st = [(gateway @ ''/execute'', Engine_Request e)] \<and>
      r = map_err (\<lambda>m. UpstreamError (''nado execute failed: '' @ m))
            (ex_post ex (gateway @ ''/execute'') (Engine_Request e))"
    if "accepted_action w c act"
  proof -
    have ok: "engine_demands e" using that demands by simp
    have endorsed: "endorsed ex w c ci sender e" by (rule action_endorsed [OF client session(2) real sent ok])
    then have "acceptable ex linked (\<lambda>ci. engine_parts ex ci e) (engine_demands e) (Some (Some text))"
      using endorsed_signed [OF client endorsed refl, of linked, OF signer] exchange(1) session(1) ok
      by (auto simp: acceptable_def)
    then have "es_posts st = [(gateway @ ''/execute'', Engine_Request e)]"
      using eng_live.forwarded_iff [OF exchange(2) run [unfolded post_execute_endpoint]] by blast
    then show ?thesis using cases by auto
  qed
  moreover have "es_posts st = [] \<and> (\<exists>err. r = Err err)" if "\<not> accepted_action w c act"
    using that demands cases by (auto simp: permitted_def)
  ultimately show ?thesis using flags_of_kind by auto
qed

definition demo_burn :: burn_nlp_builder where
  "demo_burn = \<lparr>bu_nlp_amount = Some 9, bu_nonce = None, bu_linked_sender = None\<rparr>"

lemma demo_burn_sent:
  "\<exists>s. Sent_Execute ''g/execute'' (E_BurnNlp \<lparr>bn_sender = replicate 20 0xaa @ to_bytes12 (as_bytes ''default''),
      bn_nlpAmount = 9, bn_nonce = 5\<rparr> s) \<in> set (snd (run_action demo_ex demo_world demo_client (Act_Burn demo_burn) []))"
  by (simp add: execute_burn_def build_burn_nlp_def prepared_def sender_of_def client_subaccount_def client_address_def
      client_wallet_def demo_client_def demo_world_def demo_burn_def call_defs tx_nonce_def next_tx_nonce_def
      get_nonces_def ask_def query_def unwrap_data_def expect_def field_var_def burn_nlp_call_def send_signed_def
      signed_def endpoint_signature_def is_rest_client_def endpoint_signature_base_def endpoint_domain_def
      client_domain_def client_chain_id_def sign_with_domain_def execute_call_def subaccount_name_bytes_def
      concat_to_bytes32_def Let_def)

theorem gateway_forwards_client_requests_witness:
  "\<exists>e. Sent_Execute ''g/execute'' e \<in> set (snd (run_action demo_ex demo_world demo_client (Act_Burn demo_burn) [])) \<and>
     es_posts (snd (post_execute demo_ex ''u'' (Some (Some ''0xaa'')) e start_state)) = [(''u/execute'', Engine_Request e)]"
proof -
  let ?ci = "\<lparr>ci_chain_id = 7, ci_endpoint_addr = replicate 20 1\<rparr> :: contracts_info"
  let ?sender = "replicate 20 0xaa @ to_bytes12 (as_bytes ''default'')"
  obtain e where sent: "Sent_Execute ''g/execute'' e \<in>
      set (snd (run_action demo_ex demo_world demo_client (Act_Burn demo_burn) []))"
    using demo_burn_sent by blast
  have client: "signs_for demo_ex demo_world demo_client (replicate 20 0xaa) ?ci"
    by (simp add: signs_for_def demo_client_def demo_world_def demo_ex_def endpoint_addr_def)
  have exchange: "ex_contracts demo_ex = Ok ?ci" "steady demo_ex (\<lambda>s. replicate 20 0xbb)"
    by (simp_all add: demo_ex_def steady_def)
  have session: "ex_parse_address demo_ex ''0xaa'' = Some (take 20 ?sender)"
      "sender_of demo_world demo_client (action_sender (Act_Burn demo_burn)) = Ok ?sender"
    by (simp_all add: demo_ex_def demo_burn_def sender_of_def client_subaccount_def client_address_def client_wallet_def
        demo_client_def demo_world_def subaccount_name_bytes_def concat_to_bytes32_def)
  have signer: "wo_address demo_world (replicate 20 0xaa) = take 20 ?sender \<or>
      \<not> is_zero_address (wo_address demo_world (replicate 20 0xaa)) \<and>
      replicate 20 0xbb = wo_address demo_world (replicate 20 0xaa)"
    by (simp add: demo_world_def)
  note gateway_forwards_client_requests [OF client exchange session, OF signer _ sent surjective_pairing, of "''u''"]
  then show ?thesis using sent by auto
qed

end
