(* ===== verification/Spec2Isabelle.thy ===== *)
theory Spec2Isabelle
  imports OrderBookFeed ExecutionGateway ChartGateway MarketsGateway PortfolioGateway
    SdkSubscriptions SdkConnection SdkEngine SdkArchiveClient ClientGateway
begin

text \<open>
  A verification development for Thornado: five Rust services (gateway/orderbook, chart,
  markets, portfolio and execution) that stand between a trading terminal in the browser and the
  Nado exchange, and the Rust SDK (nado-rust-sdk) they reach the exchange with. Paths below are
  under src/.

  The program. The four data gateways each keep a picture of something the exchange knows (order
  books, candles, the table of markets, one account's portfolio), feed it from the exchange's
  websocket streams or by polling, and fan it out to websocket clients as a snapshot followed by
  updates. The execution gateway is the one way back: it takes requests the user signed, checks
  that they are his and of a kind the service offers, and forwards them. The SDK has the exchange's
  data types with their JSON forms, the fixed point arithmetic, the messages that are signed, and a
  client with builders for every request.

  Which theory models what.

  Prelude, RustStr, Json, Collections, F64, MarketLevels: what the components share. Prelude has the
  integer types, checked arithmetic and the outcome types; RustStr the string functions, decimal
  printers and parsers of the standard library; Json the value type of serde_json; Collections the
  two maps, BTreeMap as a sorted list and HashMap as a list of distinct keys, behind the locales
  kv_map and ordered_kv_map, each interpreted on its model; F64 binary64 arithmetic on mantissa and
  exponent; MarketLevels the price levels of nado_utils/engine.rs.

  GatewayCommon: the symbol directory, the fan-out to subscribers, the reader task and the client
  loop, which the gateways have in the same words.

  OrderBook (gateway/orderbook/src/orderbook_state.rs): OrderBookState with reset_from_snapshot,
  apply_delta and the depth view. Its lemmas hold the book against a function from prices to sizes:
  every delta acts as a pointwise update, a replica that starts from any snapshot of the exchange
  and sees the later deltas is the exchange's book, and the view lists the best levels with their
  running totals.

  OrderBookFeed (gateway/orderbook/src/market.rs, main.rs, config.rs, protocol.rs): the supervisor
  with its map of markets, the worker (run_worker, run_upstream_session) with its backoff, the
  session on the book_depth stream, the subscribers, and the interleaving of the worker with the
  client tasks as a step relation (market_step, computed by exec_step). The session on its own
  (session_loop) is one run of the worker with nothing in between.

  CandleSeries and ChartGateway (gateway/chart/src/): the table of candles with the upsert and the
  query of store.rs, the window a series keeps, bootstrap and backfill, the latest_candlestick
  stream, worker, supervisor and client tasks. Lemmas: a window row never goes back in time, a
  filled series is what the table holds, and each event that is read is the event that was written.
  The worker's loop (chart_worker_loop) has the table and the counter to itself; series_step
  interleaves its steps with the clients, who draw from the same counter, and with the other series,
  who write to the same table. Two names of one product share their rows; the lemmas about a series
  assume that its rows carry its own name (own_rows), and alias_takes_rows shows what happens when not.

  MarketsGateway (gateway/markets/src/): the refreshes of symbols, tickers and contracts, the table
  of rows, the difference between two tables and its publication on a broadcast channel of bounded
  capacity. Lemmas: applying the difference gives the new table, and a client that keeps up, or that
  falls behind and is sent the whole table again, ends with the table of the service.

  PortfolioData and PortfolioGateway (gateway/portfolio/src/): the payload of a subaccount, with
  every mapping from the exchange's answers, and the sessions: the client's loop with its numbering
  and pace, the worker that keeps the subscription, the snapshot request.

  ExecutionGateway (gateway/execution/src/): the execute, trigger and context endpoints with every
  check, typed-data domains and digests. Both endpoints meet the locale checked_endpoint, whose
  facts say that what was forwarded had passed every check, and live_endpoint, whose facts say that
  what passes every check is forwarded.

  ClientMode (utils/client_mode.rs), SdkMath (nado_utils/math.rs), SdkOrder (eip712_structs.rs,
  trigger.rs, isolated.rs, builders/execute/place_order.rs, utils/nonce.rs), SdkWire
  (serialize_utils.rs, tx.rs), SdkAccount (subaccount_info.rs, product.rs, engine.rs, the fee
  calculator), SdkAnswers (the answers of engine.rs), SdkQueries and SdkTriggers (the queries of
  engine.rs, trigger.rs and indexer.rs, trigger orders and their answers),
  SdkClient (nado_client.rs, core/base.rs, core/query.rs, core/indexer.rs, utils/), SdkBuilders
  (builders/, core/execute.rs, utils/deposit.rs), SdkSubscriptions (subscriptions.rs): the SDK, file
  by file. SdkWire states the contract of a writer and a reader as the locales codec and text_codec
  and interprets them on every pair of functions the attributes of the SDK's types name.

  SdkForms, SdkTransactions, SdkArchive, SdkStatistics, SdkRequests, SdkEngine, SdkArchiveClient: the
  JSON forms of the SDK's types. SdkForms has the forms of numbers, texts, options, lists, maps, structs and enums as
  serde derives them, with the contracts json_form (what is written is read back) and
  json_key; each struct of the other theories is a record with its form, a list of its fields in order,
  and a lemma json_form_X that its form meets the contract. SdkTransactions has the signed
  messages, the structs of bindings/endpoint.rs and bindings/offchain_exchange.rs, the transactions
  of tx.rs and the conversions of eip712_structs.rs; SdkArchive and SdkStatistics the answers of the
  archive (indexer.rs); SdkRequests the messages to execute and the queries of engine.rs and
  trigger.rs; SdkEngine the answers of both, with the proof that an answer without a tag is
  found as what it is; SdkArchiveClient the queries of the archive as JSON and the typed calls of core/indexer.rs,
  over the locale answer_form: a type whose values are never taken for an error. A form's fm_typed is
  the range of values that are read back, which is narrower than the type for f64 numbers that are
  not finite and for the one i128 written as a plain number (builder_fee of a match).

  SdkConnection (utils/deployment.rs, utils/client_mode.rs, nado_utils/provider.rs): where the
  deployment of a network is read from, and the ensemble of nodes that stand in for each other.

  ClientGateway: the SDK's client and the execution gateway together. What a client's builder makes
  and signs is accepted and forwarded by the gateway, for every action on the engine except orders the
  gateway does not offer (fill-or-kill, triggers) and mixed senders, which it refuses; mock orders and
  the requests to the trigger endpoint are outside of that theorem.

  Conventions. A definition follows the function it is named after; where the source has the same
  name twice, or the name is a constant of HOL, a prefix tells the component. A panic is None of an
  option (an assertion, an overflow of the checked build, an index out of range, unwrap), or
  Sdk_Panic in the client's calls; an error return is the left side of a sum. Unsigned integers are
  words of their width, signed ones are integers with the range written out. Texts are lists of
  bytes; case conversion and white space outside ASCII are left alone. Iterating over a hash map
  takes the order of its list, which stands for one of the possible orders. A task is a step of a
  relation or an event of a list, so an interleaving is a sequence; what is done under one lock is
  one step. Coarser steps are the worker's round of SdkSubscriptions (receiving, writing and inserting
  a request are one step of sub_act) and the handling of one text in series_step. Instants and elapsed times are whole milliseconds. What lies outside (the sockets, the HTTP client, the database, hashing, signatures,
  hexadecimal and JSON texts, the printing of floats, serde's buffered copies, clocks, the exchange and the chain) is an argument of the definitions
  that use it, and what a theorem needs of it is a hypothesis of that theorem, with a witness.

  Bounds. Most recursions are structural or have a measure. The loops of math.rs (fexp_loop,
  sqrt_grow, sqrt_search) are partial functions whose None is a loop that does not return or a panic; that
  they return is part of the theorems (try_sqrt_x18_correct). Waiting for a deposit polls the chain
  until a balance is reached, which need not happen: await_at_least of SdkBuilders takes fuel, and its
  lemmas say that it ends with the first poll that is high enough and otherwise goes on for as long
  as there is fuel. The worker loops are lists of the sessions so far, so every finite prefix of
  an endless run is covered.

  What the theorems show. Each property stands after a paragraph with its number (C1 to C40). C1 to
  C8 are the order book and its feed, C9 to C14 the arithmetic and the packed forms of the SDK, C15
  to C20 the execution gateway and its agreement with the client, C21 to C25 candles and the chart
  gateway, C26 to C28 the markets gateway, C29 to C34 the portfolio gateway, C35 the
  subscriptions client, C36 to C40 the JSON forms of requests, answers and transactions. Several lemmas show behaviour that is not what the code
  seems to mean, such as snapshot_overtakes_update, str_to_x18_negative, overtaken_delta_lost and
  success_without_data_panics; they are marked in their theories.

  Not modelled. nado_utils/bindings/ is generated from the contracts' ABI: of it the structs that
  other code uses are modelled, not the contract handles, calls and events. The routers, TLS and
  socket set-up, tracing and timers of the services' main functions, the HTTP client, the providers'
  retries and reading the private key are input and output of libraries. The main function,
  the sanity checks and the examples of the SDK are scripts that call the exchange and print. The
  terminal in the browser (client/), the Node server (server/), the start script and the Go front
  (gateway/main.go and its neighbours) are in other languages.
\<close>

end
